(* ===== verification/Machine_Prelude.thy ===== *)
theory Machine_Prelude
  imports Main "HOL-Library.Word"
begin

text \<open>
  Shared vocabulary of the development: the machine integer types of the C sources, the
  little-endian byte pairs the sources build with \<^verbatim>\<open>union { struct { lo, hi }; uint16_t }\<close>,
  the collections of rewrite rules the component theories fill, and the lemmas on words
  and lists that more than one component uses.
\<close>

unbundle bit_operations_syntax

section \<open>Machine integers\<close>

type_synonym u8 = "8 word"
type_synonym u16 = "16 word"
type_synonym u32 = "32 word"
type_synonym u64 = "64 word"

named_theorems cpu_bus "the bus access helpers of the 6510 core"
named_theorems cpu_ops "the stage helpers, pipelines and instructions of the 6510 core"
named_theorems micro_ops "the resumable (one bus cycle per call) path of the 6510 core"

section \<open>Byte pairs\<close>

definition w16 :: "u8 \<Rightarrow> u8 \<Rightarrow> u16" where
  "w16 hi lo = push_bit 8 (ucast hi) OR ucast lo"

definition lo8 :: "u16 \<Rightarrow> u8" where
  "lo8 w = ucast w"

definition hi8 :: "u16 \<Rightarrow> u8" where
  "hi8 w = ucast (drop_bit 8 w)"

definition of_flag :: "bool \<Rightarrow> 'a::len word" where
  "of_flag b = (if b then 1 else 0)"

lemma of_flag_simps [simp]: "of_flag True = 1" "of_flag False = 0"
  by (simp_all add: of_flag_def)

lemma unat_u8_less [simp]: "unat (x :: u8) < 256"
  using unsigned_less [of x, where ?'a = nat] by simp

lemma unat_u8_le [simp]: "unat (x :: u8) \<le> 255"
  using unat_u8_less [of x] by linarith

lemma uint_u8_bounds [simp]: "0 \<le> uint (x :: u8)" "uint (x :: u8) < 256"
  using uint_lt2p [of x] by simp_all

lemma unat_u16_less [simp]: "unat (x :: u16) < 65536"
  using unsigned_less [of x, where ?'a = nat] by simp

lemma not_bit_u8 [simp]: "\<not> bit (x :: u8) (n + 8)" "\<not> bit (x :: u8) (8 + n)"
  by (auto dest: bit_imp_le_length)

lemma unat_ucast_u8_u16 [simp]: "unat (ucast (x :: u8) :: u16) = unat x"
  by (simp add: unsigned_ucast_eq take_bit_nat_eq_self_iff less_le_trans [OF unat_u8_less])

lemma lo8_w16 [simp]: "lo8 (w16 h l) = l"
  by (rule bit_word_eqI) (auto simp: lo8_def w16_def bit_simps)

lemma hi8_w16 [simp]: "hi8 (w16 h l) = h"
  by (rule bit_word_eqI) (auto simp: hi8_def w16_def bit_simps)

lemma w16_hi8_lo8 [simp]: "w16 (hi8 w) (lo8 w) = w"
  by (rule bit_word_eqI) (auto simp: hi8_def lo8_def w16_def bit_simps)

lemma w16_inject [simp]: "w16 h l = w16 h' l' \<longleftrightarrow> h = h' \<and> l = l'"
  by (metis lo8_w16 hi8_w16)

lemma w16_plus: "w16 h l = push_bit 8 (ucast h) + ucast l"
  unfolding w16_def
  by (rule disjunctive_add [symmetric]) (auto simp: bit_simps dest: bit_imp_le_length)

lemma unat_w16: "unat (w16 h l) = 256 * unat h + unat l"
proof -
  have "unat h * 256 + unat l < 65536"
    using unat_u8_less [of h] unat_u8_less [of l] by linarith
  then show ?thesis
    by (simp add: w16_plus push_bit_eq_mult unat_word_ariths mult.commute)
qed

text \<open>A page crossing shows as a wrapped low byte.\<close>

lemma mod_once: "n < 2 * (k :: nat) \<Longrightarrow> n mod k = (if n < k then n else n - k)"
  using mod_if [of n k] mod_less [of "n - k" k] by (cases "n < k") auto

lemma unat_plus_u8: "unat ((l :: u8) + x) = (unat l + unat x) mod 256"
  by (simp add: unat_word_ariths)

lemma carry_u8: "(l :: u8) + x < l \<longleftrightarrow> 255 < unat l + unat x"
proof -
  have "unat l + unat x < 2 * 256"
    using unat_u8_less [of l] unat_u8_less [of x] by linarith
  then show ?thesis
    by (auto simp: word_less_nat_alt unat_plus_u8 mod_once)
      (use unat_u8_less [of x] in linarith)
qed

lemma w16_index:
  "w16 (if l + x < l then h + 1 else h) (l + x) = w16 h l + ucast x"
proof -
  define a b c where "a = unat h" and "b = unat l" and "c = unat x"
  have lt: "a < 256" "b < 256" "c < 256" by (simp_all add: a_def b_def c_def)
  have "unat (w16 (if l + x < l then h + 1 else h) (l + x)) =
      (if 255 < b + c then 256 * ((a + 1) mod 256) else 256 * a) + (b + c) mod 256"
    by (simp add: unat_w16 carry_u8 unat_plus_u8 a_def b_def c_def)
  also have "\<dots> = (256 * a + b + c) mod 65536"
    using lt by (cases "a = 255") (simp_all add: mod_once)
  also have "\<dots> = unat (w16 h l + ucast x)"
    by (simp add: unat_w16 unat_word_ariths a_def b_def c_def)
  finally show ?thesis by (simp add: word_unat_eq_iff)
qed

lemma lo8_add_ucast [simp]: "lo8 (w16 h l + ucast x) = l + x"
  by (metis w16_index lo8_w16)

text \<open>Equality of bytes bit by bit.\<close>

lemma u8_eq_bits:
  "(v :: u8) = w \<longleftrightarrow>
     bit v 0 = bit w 0 \<and> bit v 1 = bit w 1 \<and> bit v 2 = bit w 2 \<and> bit v 3 = bit w 3 \<and>
     bit v 4 = bit w 4 \<and> bit v 5 = bit w 5 \<and> bit v 6 = bit w 6 \<and> bit v 7 = bit w 7"
proof (rule iffI; (elim conjE)?)
  assume bits: "bit v 0 = bit w 0" "bit v 1 = bit w 1" "bit v 2 = bit w 2" "bit v 3 = bit w 3"
    "bit v 4 = bit w 4" "bit v 5 = bit w 5" "bit v 6 = bit w 6" "bit v 7 = bit w 7"
  show "v = w"
  proof (rule bit_word_eqI)
    fix n assume "n < LENGTH(8)"
    then consider "n = 0" | "n = 1" | "n = 2" | "n = 3" | "n = 4" | "n = 5" | "n = 6" | "n = 7"
      by (simp) linarith
    then show "bit v n \<longleftrightarrow> bit w n" using bits by cases simp_all
  qed
qed simp

section \<open>Bytes as numbers\<close>

lemma bit_7_u8: "bit (x :: u8) 7 \<longleftrightarrow> 128 \<le> unat x"
proof -
  have "bit x 7 \<longleftrightarrow> bit (unat x) 7" by (simp add: bit_simps)
  also have "\<dots> \<longleftrightarrow> odd (unat x div 128)" by (simp add: bit_iff_odd)
  also have "\<dots> \<longleftrightarrow> 128 \<le> unat x"
  proof (cases "128 \<le> unat x")
    case True
    then have "unat x div 128 = 1" using unat_u8_less [of x] by (intro div_nat_eqI) simp_all
    then show ?thesis using True by simp
  qed simp
  finally show ?thesis .
qed

lemma and_0x80: "(x :: u8) AND 0x80 = 0 \<longleftrightarrow> \<not> bit x 7"
  by (auto simp: u8_eq_bits bit_simps)

lemma sint_u8: "sint (x :: u8) = int (unat x) - (if 128 \<le> unat x then 256 else 0)"
proof -
  have "sint x = (int (unat x) + 128) mod 256 - 128"
    by (simp add: sint_uint signed_take_bit_eq_take_bit_shift take_bit_eq_mod)
  moreover have "(int (unat x) + 128) mod 256 = int ((unat x + 128) mod 256)"
    by (simp add: of_nat_mod)
  moreover have "(unat x + 128) mod 256 = (if 128 \<le> unat x then unat x - 128 else unat x + 128)"
    using mod_once [of "unat x + 128" 256] unat_u8_less [of x] by auto
  ultimately show ?thesis by auto
qed

lemma low_nibble_take_bit: "(x :: u8) AND 0x0F = take_bit 4 x" by (simp add: take_bit_eq_mask mask_eq_exp_minus_1)

lemma unat_low_nibble: "unat ((x :: u8) AND 0x0F) = unat x mod 16"
  by (simp only: low_nibble_take_bit unsigned_take_bit_eq) (simp add: take_bit_eq_mod)

lemma unat_high_nibble: "unat (drop_bit 4 (x :: u8)) = unat x div 16"
  by (simp only: unat_drop_bit_eq) (simp add: drop_bit_eq_div)

lemma unat_nibbles: "unat (push_bit 4 h OR (l AND 0x0F) :: u8) = 16 * (unat h mod 16) + unat l mod 16"
proof -
  have "push_bit 4 h OR (l AND 0x0F) = push_bit 4 h + (l AND 0x0F)"
    by (rule disjunctive_add [symmetric]) (auto simp: low_nibble_take_bit bit_simps)
  moreover have "16 * unat h mod 256 = 16 * (unat h mod 16)"
    using mult_mod_right [of 16 "unat h" 16] by simp
  moreover have "16 * (unat h mod 16) + unat l mod 16 < 256"
    using pos_mod_bound [of 16 "int (unat h)"] mod_less_divisor [of 16 "unat h"] mod_less_divisor [of 16 "unat l"] by linarith
  ultimately show ?thesis
    by (simp add: push_bit_eq_mult unat_word_ariths unat_low_nibble mult.commute)
qed

lemma unat_lo8: "unat (lo8 w) = unat w mod 256"
  by (simp add: lo8_def unsigned_ucast_eq take_bit_eq_mod)

lemma unat_hi8: "unat (hi8 w) = unat w div 256"
  using unat_w16 [of "hi8 w" "lo8 w"] by (simp add: unat_lo8)

lemma unat_u8_sum: "unat (a :: u8) + unat (v :: u8) + of_bool c < 512"
proof -
  have "of_bool c \<le> (1 :: nat)" by simp
  then show ?thesis using unat_u8_less [of a] unat_u8_less [of v] by linarith
qed

lemma bit_0_u8: "bit (x :: u8) 0 \<longleftrightarrow> odd (unat x)"
  by (metis bit_0 bit_unsigned_iff possible_bit_nat)

lemma lo8_add: "lo8 (x + y) = lo8 x + lo8 y"
proof -
  have "(unat x + unat y) mod 65536 mod 256 = (unat x + unat y) mod (256 :: nat)"
    by (rule mod_mod_cancel) simp
  then show ?thesis
    by (simp add: word_unat_eq_iff unat_lo8 unat_word_ariths mod_simps)
qed

lemma lo8_diff: "lo8 (x - y) = lo8 x - lo8 y"
  using lo8_add [of "x - y" y] by (simp add: eq_diff_eq)

lemma lo8_ucast [simp]: "lo8 (ucast (x :: u8)) = x"
  by (simp add: word_unat_eq_iff unat_lo8)

lemma lo8_of_flag [simp]: "lo8 (of_flag b) = of_flag b"
  by (cases b) (simp_all add: lo8_def)

lemma not_u8: "NOT v = (255 - v :: u8)"
  by (simp add: not_eq_complement [of v])

lemma sbc_as_adc: "(a :: u8) - v - of_flag b = a + NOT v + of_flag (\<not> b)"
  by (cases b) (simp_all add: not_eq_complement)

lemma unat_not_u8: "unat (NOT v :: u8) = 255 - unat v"
  unfolding not_u8 by (simp add: unat_sub_if')

lemma sint_not_u8: "sint (NOT v :: u8) = - sint v - 1"
  using unat_u8_le [of v] unfolding sint_u8 unat_not_u8 by (auto simp: of_nat_diff)

lemma nibble_words:
  "(a :: u8) AND 0x0F = word_of_nat (unat a mod 16)" "drop_bit 4 (a :: u8) = word_of_nat (unat a div 16)"
  unfolding unat_low_nibble [symmetric] unat_high_nibble [symmetric] by simp_all

lemma of_flag_word: "of_flag b = word_of_nat (of_bool b)"
  by (cases b) simp_all

lemma stack_page: "0x100 OR ucast (x :: u8) = (0x100 + ucast x :: u16)"
  using w16_def [of 1 x] w16_plus [of 1 x] by simp

lemma mod_100_wrap:
  fixes r z :: int
  assumes "0 \<le> r" "r < 100" "r = z \<or> r = z + 100"
  shows "z mod 100 = r"
proof -
  have "z mod 100 = (z + 100) mod 100" by simp
  moreover have "r mod 100 = r" using assms by simp
  ultimately show ?thesis using assms(3) by auto
qed

end
