(* ===== verification/C6510_State.thy ===== *)
theory C6510_State
  imports Machine_Prelude
begin

text \<open>
  The state of the 6510 core and its bus callbacks: \<^verbatim>\<open>src/src/c64/machine/c6510.h\<close>, the
  access helpers at the top of \<^verbatim>\<open>c6510_inln.h\<close> and the initialisation functions of
  \<^verbatim>\<open>c6510.c\<close>.

  The C structure \<^verbatim>\<open>C6510\<close> embeds \<^verbatim>\<open>CPU\<close> as its field \<^verbatim>\<open>cpu\<close>; here the record \<open>C6510\<close>
  extends the record \<open>CPU\<close>, so \<^verbatim>\<open>m->cpu.pc\<close> is \<open>pc m\<close>. The anonymous unions become
  their parts: the status byte is the eight flags (\<open>cpu_flags\<close> and \<open>set_flags\<close> are the
  byte view), and \<^verbatim>\<open>address_16\<close> and \<^verbatim>\<open>scratch_16\<close> are pairs of bytes in the little-endian
  order the sources rely on. Bytes that only ever hold 0 or 1 are booleans. The
  \<^verbatim>\<open>void *user\<close> argument of the callbacks is a state of an arbitrary type, which every
  callback may change.
\<close>

section \<open>Data\<close>

datatype cpu_class = CPU_6502 | CPU_65c02

datatype c6510_bus_access_kind =
    BUS_ACCESS_DATA_READ
  | BUS_ACCESS_DATA_WRITE
  | BUS_ACCESS_OPCODE_FETCH
  | BUS_ACCESS_OPERAND_READ
  | BUS_ACCESS_DUMMY_READ
  | BUS_ACCESS_RMW_DUMMY_WRITE
  | BUS_ACCESS_STACK_READ
  | BUS_ACCESS_STACK_WRITE
  | BUS_ACCESS_VECTOR_READ

datatype c6510_interrupt_kind = INTERRUPT_NONE | INTERRUPT_NMI | INTERRUPT_IRQ

record CPU =
  pc :: u16
  opcode_pc :: u16
  sp :: u16
  reg_A :: u8
  reg_X :: u8
  reg_Y :: u8
  flag_C :: bool
  flag_Z :: bool
  flag_I :: bool
  flag_D :: bool
  flag_B :: bool
  flag_E :: bool
  flag_V :: bool
  flag_N :: bool
  address_lo :: u8
  address_hi :: u8
  scratch_lo :: u8
  scratch_hi :: u8
  page_fault :: bool
  irq_defer :: bool
  irq_defer_i :: bool
  opcode_active :: bool
  cpu_model :: cpu_class
  cycles :: u64
  irq_entries :: u64
  nmi_entries :: u64

record 'u C6510 = CPU +
  user :: 'u
  read_fn :: "'u \<Rightarrow> u16 \<Rightarrow> u8 \<times> 'u"
  write_fn :: "'u \<Rightarrow> u16 \<Rightarrow> u8 \<Rightarrow> 'u"
  irq_pending_fn :: "('u \<Rightarrow> u8 \<times> 'u) option"
  nmi_pending_fn :: "('u \<Rightarrow> u8 \<times> 'u) option"
  bus_access_kind :: c6510_bus_access_kind
  micro_active :: bool
  micro_opcode :: u8
  micro_phase :: u8
  micro_branch_taken :: bool
  micro_target :: u16
  micro_interrupt_vector :: u16
  micro_is_interrupt :: bool

section \<open>The union views\<close>

definition address_16 :: "'u C6510 \<Rightarrow> u16" where
  "address_16 m = w16 (address_hi m) (address_lo m)"

definition set_address_16 :: "u16 \<Rightarrow> 'u C6510 \<Rightarrow> 'u C6510" where
  "set_address_16 w m = m\<lparr>address_lo := lo8 w, address_hi := hi8 w\<rparr>"

definition scratch_16 :: "'u C6510 \<Rightarrow> u16" where
  "scratch_16 m = w16 (scratch_hi m) (scratch_lo m)"

definition set_scratch_16 :: "u16 \<Rightarrow> 'u C6510 \<Rightarrow> 'u C6510" where
  "set_scratch_16 w m = m\<lparr>scratch_lo := lo8 w, scratch_hi := hi8 w\<rparr>"

definition cpu_flags :: "'u C6510 \<Rightarrow> u8" where
  "cpu_flags m =
     of_flag (flag_C m) OR push_bit 1 (of_flag (flag_Z m)) OR
     push_bit 2 (of_flag (flag_I m)) OR push_bit 3 (of_flag (flag_D m)) OR
     push_bit 4 (of_flag (flag_B m)) OR push_bit 5 (of_flag (flag_E m)) OR
     push_bit 6 (of_flag (flag_V m)) OR push_bit 7 (of_flag (flag_N m))"

definition set_flags :: "u8 \<Rightarrow> 'u C6510 \<Rightarrow> 'u C6510" where
  "set_flags w m =
     m\<lparr>flag_C := bit w 0, flag_Z := bit w 1, flag_I := bit w 2, flag_D := bit w 3,
       flag_B := bit w 4, flag_E := bit w 5, flag_V := bit w 6, flag_N := bit w 7\<rparr>"

section \<open>Bus accesses\<close>

definition CYCLE :: "'u C6510 \<Rightarrow> 'u C6510" where
  "CYCLE m = m\<lparr>cycles := cycles m + 1\<rparr>"

definition bus_read ::
  "c6510_bus_access_kind \<Rightarrow> 'u C6510 \<Rightarrow> u16 \<Rightarrow> u8 \<times> 'u C6510" where
  [cpu_bus]: "bus_read k m a =
     (case read_fn m (user m) a of (v, u) \<Rightarrow> (v, m\<lparr>bus_access_kind := k, user := u\<rparr>))"

definition bus_write ::
  "c6510_bus_access_kind \<Rightarrow> 'u C6510 \<Rightarrow> u16 \<Rightarrow> u8 \<Rightarrow> 'u C6510" where
  [cpu_bus]: "bus_write k m a v =
     m\<lparr>bus_access_kind := k, user := write_fn m (user m) a v\<rparr>"

definition read_from_memory :: "'u C6510 \<Rightarrow> u16 \<Rightarrow> u8 \<times> 'u C6510" where
  [cpu_bus]: "read_from_memory = bus_read BUS_ACCESS_DATA_READ"

definition write_to_memory :: "'u C6510 \<Rightarrow> u16 \<Rightarrow> u8 \<Rightarrow> 'u C6510" where
  [cpu_bus]: "write_to_memory = bus_write BUS_ACCESS_DATA_WRITE"

definition read_opcode :: "'u C6510 \<Rightarrow> u16 \<Rightarrow> u8 \<times> 'u C6510" where
  [cpu_bus]: "read_opcode = bus_read BUS_ACCESS_OPCODE_FETCH"

definition read_operand :: "'u C6510 \<Rightarrow> u16 \<Rightarrow> u8 \<times> 'u C6510" where
  [cpu_bus]: "read_operand = bus_read BUS_ACCESS_OPERAND_READ"

definition read_dummy :: "'u C6510 \<Rightarrow> u16 \<Rightarrow> 'u C6510" where
  [cpu_bus]: "read_dummy m a = snd (bus_read BUS_ACCESS_DUMMY_READ m a)"

definition read_stack :: "'u C6510 \<Rightarrow> u16 \<Rightarrow> u8 \<times> 'u C6510" where
  [cpu_bus]: "read_stack = bus_read BUS_ACCESS_STACK_READ"

definition write_stack :: "'u C6510 \<Rightarrow> u16 \<Rightarrow> u8 \<Rightarrow> 'u C6510" where
  [cpu_bus]: "write_stack = bus_write BUS_ACCESS_STACK_WRITE"

definition read_vector :: "'u C6510 \<Rightarrow> u16 \<Rightarrow> u8 \<times> 'u C6510" where
  [cpu_bus]: "read_vector = bus_read BUS_ACCESS_VECTOR_READ"

definition read_from_memory_debug :: "'u C6510 \<Rightarrow> u16 \<Rightarrow> u8 \<times> 'u C6510" where
  [cpu_bus]: "read_from_memory_debug = read_from_memory"

definition read_from_memory_debug_16 :: "'u C6510 \<Rightarrow> u16 \<Rightarrow> u16 \<times> 'u C6510" where
  [cpu_bus]: "read_from_memory_debug_16 m a =
     (let (lo, m) = read_from_memory_debug m a;
          (hi, m) = read_from_memory_debug m (a + 1)
      in (w16 hi lo, m))"

section \<open>Registers\<close>

text \<open>
  The pointer argument of \<^verbatim>\<open>set_register_to_value\<close> always points at one of five byte
  registers of the machine itself.
\<close>

datatype byte_register = A_reg | X_reg | Y_reg | scratch_lo_reg | scratch_hi_reg

fun put_register :: "byte_register \<Rightarrow> u8 \<Rightarrow> 'u C6510 \<Rightarrow> 'u C6510" where
  "put_register A_reg v m = m\<lparr>reg_A := v\<rparr>"
| "put_register X_reg v m = m\<lparr>reg_X := v\<rparr>"
| "put_register Y_reg v m = m\<lparr>reg_Y := v\<rparr>"
| "put_register scratch_lo_reg v m = m\<lparr>scratch_lo := v\<rparr>"
| "put_register scratch_hi_reg v m = m\<lparr>scratch_hi := v\<rparr>"

definition set_register_to_value :: "byte_register \<Rightarrow> u8 \<Rightarrow> 'u C6510 \<Rightarrow> 'u C6510" where
  [cpu_ops]: "set_register_to_value r v m =
     (put_register r v m)\<lparr>flag_N := bit v 7, flag_Z := (v = 0)\<rparr>"

section \<open>Initialisation\<close>

definition c6510_init ::
  "'u \<Rightarrow> ('u \<Rightarrow> u16 \<Rightarrow> u8 \<times> 'u) \<Rightarrow> ('u \<Rightarrow> u16 \<Rightarrow> u8 \<Rightarrow> 'u) \<Rightarrow> 'u C6510" where
  "c6510_init u rd wr =
     \<lparr>pc = 0, opcode_pc = 0, sp = 0x100, reg_A = 0, reg_X = 0, reg_Y = 0,
      flag_C = False, flag_Z = False, flag_I = False, flag_D = False,
      flag_B = False, flag_E = False, flag_V = False, flag_N = False,
      address_lo = 0, address_hi = 0, scratch_lo = 0, scratch_hi = 0,
      page_fault = False, irq_defer = False, irq_defer_i = False,
      opcode_active = False, cpu_model = CPU_6502,
      cycles = 0, irq_entries = 0, nmi_entries = 0,
      user = u, read_fn = rd, write_fn = wr,
      irq_pending_fn = None, nmi_pending_fn = None,
      bus_access_kind = BUS_ACCESS_DATA_READ,
      micro_active = False, micro_opcode = 0, micro_phase = 0,
      micro_branch_taken = False, micro_target = 0,
      micro_interrupt_vector = 0, micro_is_interrupt = False\<rparr>"

definition c6510_set_irq_pending_callback ::
  "('u \<Rightarrow> u8 \<times> 'u) option \<Rightarrow> 'u C6510 \<Rightarrow> 'u C6510" where
  "c6510_set_irq_pending_callback f m = m\<lparr>irq_pending_fn := f\<rparr>"

definition c6510_set_nmi_pending_callback ::
  "('u \<Rightarrow> u8 \<times> 'u) option \<Rightarrow> 'u C6510 \<Rightarrow> 'u C6510" where
  "c6510_set_nmi_pending_callback f m = m\<lparr>nmi_pending_fn := f\<rparr>"

definition c6510_reset :: "'u C6510 \<Rightarrow> 'u C6510" where
  "c6510_reset m =
     (case read_fn m (user m) 0xFFFC of (lo, u) \<Rightarrow>
      case read_fn m u 0xFFFD of (hi, u') \<Rightarrow>
      m\<lparr>user := u', pc := w16 hi lo, sp := 0x100,
        flag_I := True, flag_D := False, flag_B := False, flag_E := True,
        irq_defer := False, irq_defer_i := False, opcode_active := False,
        irq_entries := 0, nmi_entries := 0,
        micro_active := False, micro_opcode := 0, micro_phase := 0,
        micro_branch_taken := False, micro_target := 0,
        micro_interrupt_vector := 0, micro_is_interrupt := False\<rparr>)"

definition c6510_set_overflow :: "'u C6510 \<Rightarrow> 'u C6510" where
  "c6510_set_overflow m = m\<lparr>flag_V := True\<rparr>"

section \<open>Lemmas on the views\<close>

lemmas union_views =
  address_16_def set_address_16_def scratch_16_def set_scratch_16_def

lemmas bus_defs =
  read_from_memory_def write_to_memory_def read_opcode_def read_operand_def read_dummy_def
  read_stack_def write_stack_def read_vector_def

lemma bit_cpu_flags:
  "bit (cpu_flags m) 0 = flag_C m" "bit (cpu_flags m) 1 = flag_Z m"
  "bit (cpu_flags m) 2 = flag_I m" "bit (cpu_flags m) 3 = flag_D m"
  "bit (cpu_flags m) 4 = flag_B m" "bit (cpu_flags m) 5 = flag_E m"
  "bit (cpu_flags m) 6 = flag_V m" "bit (cpu_flags m) 7 = flag_N m"
  by (simp_all add: cpu_flags_def bit_simps of_flag_def)

end
