(* ===== verification/C6510_Ops.thy ===== *)
theory C6510_Ops
  imports C6510_State
begin

text \<open>
  The inline helpers of \<^verbatim>\<open>src/src/c64/machine/c6510_inln.h\<close>: arithmetic, stack, the stage
  helpers and addressing pipelines, interrupt entry and one definition per instruction,
  in the order of the file. A C function \<^verbatim>\<open>void f(C6510 *m)\<close> is a function from machine
  to machine; the sequence of its statements is a sequence of \<open>let\<close>-bindings of \<open>m\<close>.
  The pipeline \<^verbatim>\<open>a\<close> is \<open>a_pipe\<close>; the other names are the source's.
\<close>

section \<open>Arithmetic and stack helpers\<close>

definition add_value_to_accumulator :: "u8 \<Rightarrow> 'u C6510 \<Rightarrow> 'u C6510" where
  [cpu_ops]: "add_value_to_accumulator value m =
     (let a = reg_A m;
          c = flag_C m;
          m = set_scratch_16 (ucast a + ucast value + of_flag c) m;
          m = set_register_to_value A_reg (scratch_lo m) m;
          m = m\<lparr>scratch_lo := (a AND 0x0F) + (value AND 0x0F) + of_flag c\<rparr>;
          m = m\<lparr>flag_V := ((a XOR reg_A m) AND NOT (a XOR value) AND 0x80) \<noteq> 0\<rparr>;
          m = m\<lparr>flag_C := bit (scratch_hi m) 0\<rparr>
      in if flag_D m then
           (let m = m\<lparr>scratch_hi := drop_bit 4 a + drop_bit 4 value\<rparr>;
                m = (if scratch_lo m > 9
                     then m\<lparr>scratch_lo := scratch_lo m + 6, scratch_hi := scratch_hi m + 1\<rparr>
                     else m);
                intermediate = push_bit 4 (scratch_hi m) OR (scratch_lo m AND 0x0F);
                m = m\<lparr>flag_N := bit intermediate 7,
                      flag_V := ((a XOR intermediate) AND NOT (a XOR value) AND 0x80) \<noteq> 0\<rparr>;
                m = (if scratch_hi m > 9
                     then m\<lparr>scratch_hi := scratch_hi m + 6, flag_C := True\<rparr>
                     else m);
                m = m\<lparr>reg_A := push_bit 4 (scratch_hi m) OR (scratch_lo m AND 0x0F)\<rparr>
            in if cpu_model m = CPU_65c02 then
                 (let m = read_dummy m (address_16 m);
                      m = CYCLE m
                  in set_register_to_value A_reg (reg_A m) m)
               else m)
         else m)"

definition compare_bytes :: "u8 \<Rightarrow> u8 \<Rightarrow> 'u C6510 \<Rightarrow> 'u C6510" where
  [cpu_ops]: "compare_bytes lhs rhs m =
     m\<lparr>flag_Z := (lhs = rhs), flag_C := (lhs \<ge> rhs), flag_N := bit (lhs - rhs) 7\<rparr>"

definition pull :: "'u C6510 \<Rightarrow> u8 \<times> 'u C6510" where
  [cpu_ops]: "pull m =
     (let m = m\<lparr>sp := sp m + 1\<rparr>;
          m = (if sp m \<ge> 0x200 then m\<lparr>sp := 0x100\<rparr> else m)
      in read_stack m (sp m))"

definition push :: "u8 \<Rightarrow> 'u C6510 \<Rightarrow> 'u C6510" where
  [cpu_ops]: "push value m =
     (let m = write_stack m (sp m) value;
          m = m\<lparr>sp := sp m - 1\<rparr>
      in if sp m < 0x100 then m\<lparr>sp := sp m + 0x100\<rparr> else m)"

definition subtract_value_from_accumulator :: "u8 \<Rightarrow> 'u C6510 \<Rightarrow> 'u C6510" where
  [cpu_ops]: "subtract_value_from_accumulator value m =
     (let a = reg_A m;
          m = m\<lparr>flag_C := \<not> flag_C m\<rparr>;
          m = set_scratch_16 (ucast a - ucast value - of_flag (flag_C m)) m
      in if cpu_model m = CPU_6502 then
           (let m = set_register_to_value A_reg (scratch_lo m) m;
                m = m\<lparr>flag_V := ((a XOR value) AND (a XOR reg_A m) AND 0x80) \<noteq> 0\<rparr>;
                m = (if flag_D m then
                       (let lo = (a AND 0x0F) - (value AND 0x0F) - of_flag (flag_C m);
                            hi = drop_bit 4 a - drop_bit 4 value;
                            (lo, hi) = (if lo AND 0x10 \<noteq> 0 then (lo - 6, hi - 1) else (lo, hi));
                            hi = (if hi AND 0xF0 \<noteq> 0 then hi - 6 else hi)
                        in m\<lparr>reg_A := push_bit 4 hi OR (lo AND 0x0F)\<rparr>)
                     else m)
            in m\<lparr>flag_C := scratch_16 m < 0x100\<rparr>)
         else
           (let m = m\<lparr>reg_A := scratch_lo m\<rparr>;
                m = m\<lparr>flag_V := ((a XOR reg_A m) AND (a XOR value) AND 0x80) \<noteq> 0\<rparr>;
                m = (if flag_D m then
                       (let m = (if unat (a AND 0x0F) < unat (value AND 0x0F) + (if flag_C m then 1 else 0)
                                 then m\<lparr>scratch_lo := scratch_lo m - 0x06\<rparr> else m);
                            m = (if unat a < unat value + (if flag_C m then 1 else 0)
                                 then m\<lparr>scratch_lo := scratch_lo m - 0x60\<rparr> else m);
                            (_, m) = read_from_memory m (address_16 m)
                        in CYCLE m)
                     else m);
                m = m\<lparr>flag_C := (scratch_hi m = 0)\<rparr>
            in set_register_to_value A_reg (scratch_lo m) m))"

section \<open>Stage helpers\<close>

definition ah_from_stack :: "'u C6510 \<Rightarrow> 'u C6510" where
  [cpu_ops]: "ah_from_stack m = (let (v, m) = pull m in CYCLE (m\<lparr>address_hi := v\<rparr>))"

definition ah_read_a16_sl2al :: "'u C6510 \<Rightarrow> 'u C6510" where
  [cpu_ops]: "ah_read_a16_sl2al m =
     (let m = m\<lparr>address_lo := address_lo m + 1\<rparr>;
          (v, m) = read_from_memory m (address_16 m);
          m = m\<lparr>address_hi := v\<rparr>
      in CYCLE (m\<lparr>address_lo := scratch_lo m\<rparr>))"

definition ah_read_pc :: "'u C6510 \<Rightarrow> 'u C6510" where
  [cpu_ops]: "ah_read_pc m =
     (let (v, m) = read_operand m (pc m)
      in CYCLE (m\<lparr>address_hi := v, pc := pc m + 1\<rparr>))"

definition al_from_stack :: "'u C6510 \<Rightarrow> 'u C6510" where
  [cpu_ops]: "al_from_stack m = (let (v, m) = pull m in CYCLE (m\<lparr>address_lo := v\<rparr>))"

definition al_read_pc :: "'u C6510 \<Rightarrow> 'u C6510" where
  [cpu_ops]: "al_read_pc m =
     (let (v, m) = read_operand m (pc m)
      in CYCLE (m\<lparr>address_lo := v, address_hi := 0, pc := pc m + 1\<rparr>))"

definition branch :: "'u C6510 \<Rightarrow> 'u C6510" where
  [cpu_ops]: "branch m =
     (let m = CYCLE (read_dummy m (address_16 m));
          lo = address_lo m;
          m = m\<lparr>address_lo := address_lo m + scratch_lo m\<rparr>;
          m = (if bit (uint lo + sint (scratch_lo m)) 8
               then CYCLE (read_dummy m (address_16 m)) else m)
      in m\<lparr>pc := pc m + scast (scratch_lo m)\<rparr>)"

definition p_from_stack :: "'u C6510 \<Rightarrow> 'u C6510" where
  [cpu_ops]: "p_from_stack m =
     (let (v, m) = pull m in CYCLE (set_flags ((v AND NOT 0x10) OR 0x20) m))"

definition pc_hi_to_stack :: "'u C6510 \<Rightarrow> 'u C6510" where
  [cpu_ops]: "pc_hi_to_stack m = CYCLE (push (hi8 (pc m)) m)"

definition pc_lo_to_stack :: "'u C6510 \<Rightarrow> 'u C6510" where
  [cpu_ops]: "pc_lo_to_stack m = CYCLE (push (lo8 (pc m)) m)"

definition read_a16_ind_x :: "'u C6510 \<Rightarrow> 'u C6510" where
  [cpu_ops]: "read_a16_ind_x m =
     (let m = read_dummy m (address_16 m)
      in CYCLE (m\<lparr>address_lo := address_lo m + reg_X m\<rparr>))"

definition read_a16_ind_y :: "'u C6510 \<Rightarrow> 'u C6510" where
  [cpu_ops]: "read_a16_ind_y m =
     (let m = read_dummy m (address_16 m)
      in CYCLE (m\<lparr>address_lo := address_lo m + reg_Y m\<rparr>))"

definition read_sp :: "'u C6510 \<Rightarrow> 'u C6510" where
  [cpu_ops]: "read_sp m = CYCLE (read_dummy m (sp m))"

definition sl_read_a16 :: "'u C6510 \<Rightarrow> 'u C6510" where
  [cpu_ops]: "sl_read_a16 m =
     (let (v, m) = read_from_memory m (address_16 m) in CYCLE (m\<lparr>scratch_lo := v\<rparr>))"

definition sl_write_a16 :: "'u C6510 \<Rightarrow> 'u C6510" where
  [cpu_ops]: "sl_write_a16 m =
     CYCLE (bus_write BUS_ACCESS_RMW_DUMMY_WRITE m (address_16 m) (scratch_lo m))"

section \<open>Addressing pipelines\<close>

definition a_pipe :: "'u C6510 \<Rightarrow> 'u C6510" where
  [cpu_ops]: "a_pipe m = ah_read_pc (al_read_pc m)"

definition ar :: "'u C6510 \<Rightarrow> 'u C6510" where
  [cpu_ops]: "ar m = sl_read_a16 (a_pipe m)"

definition rmw_second_access :: "'u C6510 \<Rightarrow> 'u C6510" where
  [cpu_ops]: "rmw_second_access m =
     (if cpu_model m = CPU_6502 then sl_write_a16 m else sl_read_a16 m)"

definition arw :: "'u C6510 \<Rightarrow> 'u C6510" where
  [cpu_ops]: "arw m = rmw_second_access (sl_read_a16 (a_pipe m))"

definition index_dummy_read :: "'u C6510 \<Rightarrow> 'u C6510" where
  [cpu_ops]: "index_dummy_read m =
     (if cpu_model m = CPU_6502 then read_dummy m (address_16 m)
      else read_dummy m (pc m - 1))"

definition aix :: "'u C6510 \<Rightarrow> 'u C6510" where
  [cpu_ops]: "aix m =
     (let m = a_pipe m;
          lo = address_lo m;
          m = m\<lparr>address_lo := address_lo m + reg_X m\<rparr>
      in if address_lo m < lo then
           (let m = index_dummy_read m in CYCLE (m\<lparr>address_hi := address_hi m + 1\<rparr>))
         else m)"

definition aipxr :: "'u C6510 \<Rightarrow> 'u C6510" where
  [cpu_ops]: "aipxr m =
     (let m = a_pipe m;
          lo = address_lo m;
          m = m\<lparr>address_lo := address_lo m + reg_X m\<rparr>;
          m = CYCLE (index_dummy_read m)
      in if address_lo m < lo then m\<lparr>address_hi := address_hi m + 1\<rparr> else m)"

definition aixrr :: "'u C6510 \<Rightarrow> 'u C6510" where
  [cpu_ops]: "aixrr m = sl_read_a16 (sl_read_a16 (aix m))"

definition aipxrw :: "'u C6510 \<Rightarrow> 'u C6510" where
  [cpu_ops]: "aipxrw m = rmw_second_access (sl_read_a16 (aipxr m))"

definition aiy :: "'u C6510 \<Rightarrow> 'u C6510" where
  [cpu_ops]: "aiy m =
     (let m = a_pipe m;
          lo = address_lo m;
          m = m\<lparr>address_lo := address_lo m + reg_Y m\<rparr>
      in if address_lo m < lo then
           (let m = index_dummy_read m in CYCLE (m\<lparr>address_hi := address_hi m + 1\<rparr>))
         else m)"

definition aiyr :: "'u C6510 \<Rightarrow> 'u C6510" where
  [cpu_ops]: "aiyr m =
     (let m = a_pipe m;
          lo = address_lo m;
          m = m\<lparr>address_lo := address_lo m + reg_Y m\<rparr>;
          m = CYCLE (index_dummy_read m)
      in if address_lo m < lo then m\<lparr>address_hi := address_hi m + 1\<rparr> else m)"

definition aiyr_und :: "'u C6510 \<Rightarrow> 'u C6510" where
  [cpu_ops]: "aiyr_und m =
     (let m = a_pipe m;
          m = m\<lparr>scratch_hi := address_hi m + 1\<rparr>;
          lo = address_lo m;
          m = m\<lparr>address_lo := address_lo m + reg_Y m\<rparr>;
          m = CYCLE (read_dummy m (address_16 m));
          m = m\<lparr>page_fault := address_lo m < lo\<rparr>
      in if page_fault m then m\<lparr>address_hi := address_hi m + 1\<rparr> else m)"

definition aipxr_und :: "'u C6510 \<Rightarrow> 'u C6510" where
  [cpu_ops]: "aipxr_und m =
     (let m = a_pipe m;
          m = m\<lparr>scratch_hi := address_hi m + 1\<rparr>;
          lo = address_lo m;
          m = m\<lparr>address_lo := address_lo m + reg_X m\<rparr>;
          m = CYCLE (read_dummy m (address_16 m));
          m = m\<lparr>page_fault := address_lo m < lo\<rparr>
      in if page_fault m then m\<lparr>address_hi := address_hi m + 1\<rparr> else m)"

definition mix :: "'u C6510 \<Rightarrow> 'u C6510" where
  [cpu_ops]: "mix m = read_a16_ind_x (al_read_pc m)"

definition mixa :: "'u C6510 \<Rightarrow> 'u C6510" where
  [cpu_ops]: "mixa m = ah_read_a16_sl2al (sl_read_a16 (mix m))"

definition mixrw :: "'u C6510 \<Rightarrow> 'u C6510" where
  [cpu_ops]: "mixrw m = rmw_second_access (sl_read_a16 (mix m))"

definition miy :: "'u C6510 \<Rightarrow> 'u C6510" where
  [cpu_ops]: "miy m =
     (let m = ah_read_a16_sl2al (sl_read_a16 (al_read_pc m));
          lo = address_lo m;
          m = m\<lparr>address_lo := address_lo m + reg_Y m\<rparr>
      in if address_lo m < lo then
           (let m = index_dummy_read m in CYCLE (m\<lparr>address_hi := address_hi m + 1\<rparr>))
         else m)"

definition miyr :: "'u C6510 \<Rightarrow> 'u C6510" where
  [cpu_ops]: "miyr m =
     (let m = ah_read_a16_sl2al (sl_read_a16 (al_read_pc m));
          lo = address_lo m;
          m = m\<lparr>address_lo := address_lo m + reg_Y m\<rparr>;
          m = CYCLE (index_dummy_read m)
      in if address_lo m < lo then m\<lparr>address_hi := address_hi m + 1\<rparr> else m)"

definition miyr_und :: "'u C6510 \<Rightarrow> 'u C6510" where
  [cpu_ops]: "miyr_und m =
     (let m = ah_read_a16_sl2al (sl_read_a16 (al_read_pc m));
          m = m\<lparr>scratch_hi := address_hi m + 1\<rparr>;
          lo = address_lo m;
          m = m\<lparr>address_lo := address_lo m + reg_Y m\<rparr>;
          m = CYCLE (read_dummy m (address_16 m));
          m = m\<lparr>page_fault := address_lo m < lo\<rparr>
      in if page_fault m then m\<lparr>address_hi := address_hi m + 1\<rparr> else m)"

definition miz :: "'u C6510 \<Rightarrow> 'u C6510" where
  [cpu_ops]: "miz m = ah_read_a16_sl2al (sl_read_a16 (al_read_pc m))"

definition mizy :: "'u C6510 \<Rightarrow> 'u C6510" where
  [cpu_ops]: "mizy m = read_a16_ind_y (al_read_pc m)"

definition mrw :: "'u C6510 \<Rightarrow> 'u C6510" where
  [cpu_ops]: "mrw m = rmw_second_access (sl_read_a16 (al_read_pc m))"

definition read_pc_1 :: "'u C6510 \<Rightarrow> 'u C6510" where
  [cpu_ops]: "read_pc_1 m = CYCLE (read_dummy m (pc m - 1))"

definition read_pc :: "'u C6510 \<Rightarrow> 'u C6510" where
  [cpu_ops]: "read_pc m = CYCLE (read_dummy m (pc m))"

definition unimplemented :: "'u C6510 \<Rightarrow> 'u C6510" where
  [cpu_ops]: "unimplemented m = m\<lparr>cycles := - 1\<rparr>"

definition unstable_store_a16 :: "u8 \<Rightarrow> 'u C6510 \<Rightarrow> 'u C6510" where
  [cpu_ops]: "unstable_store_a16 value m =
     (let m = (if page_fault m then m\<lparr>address_hi := address_hi m AND value\<rparr> else m)
      in CYCLE (write_to_memory m (address_16 m) value))"

definition aixr_sel :: "'u C6510 \<Rightarrow> 'u C6510" where
  [cpu_ops]: "aixr_sel m = (if cpu_model m = CPU_6502 then aipxrw m else aixrr m)"

section \<open>Interrupt entry\<close>

definition c6510_read_interrupt_vector :: "u16 \<Rightarrow> 'u C6510 \<Rightarrow> 'u C6510" where
  [cpu_ops]: "c6510_read_interrupt_vector vector m =
     (let (lo, m) = read_vector m vector;
          m = CYCLE (m\<lparr>address_lo := lo\<rparr>);
          (hi, m) = read_vector m (vector + 1);
          m = CYCLE (m\<lparr>address_hi := hi\<rparr>)
      in m\<lparr>pc := address_16 m\<rparr>)"

definition c6510_irq :: "'u C6510 \<Rightarrow> 'u C6510" where
  [cpu_ops]: "c6510_irq m =
     (let m = c6510_read_interrupt_vector 0xFFFE m;
          m = m\<lparr>flag_I := True\<rparr>
      in if cpu_model m = CPU_65c02 then m\<lparr>flag_D := False\<rparr> else m)"

definition c6510_irq_pending :: "'u C6510 \<Rightarrow> u8 \<times> 'u C6510" where
  [cpu_ops]: "c6510_irq_pending m =
     (case irq_pending_fn m of None \<Rightarrow> (0, m)
      | Some f \<Rightarrow> (case f (user m) of (v, u) \<Rightarrow> (v, m\<lparr>user := u\<rparr>)))"

definition push_interrupt_frame :: "'u C6510 \<Rightarrow> 'u C6510" where
  [cpu_ops]: "push_interrupt_frame m =
     (let m = m\<lparr>opcode_pc := pc m\<rparr>;
          m = CYCLE (read_dummy m (pc m));
          m = read_sp m;
          m = pc_hi_to_stack m;
          m = pc_lo_to_stack m
      in CYCLE (push ((cpu_flags m AND NOT 0x10) OR 0x20) m))"

definition c6510_take_irq_if_pending :: "'u C6510 \<Rightarrow> bool \<times> 'u C6510" where
  [cpu_ops]: "c6510_take_irq_if_pending m =
     (let (pending, m) = c6510_irq_pending m;
          irq_disable = (if irq_defer m then irq_defer_i m else flag_I m)
      in if pending = 0 \<or> irq_disable then
           (False, if irq_defer m then m\<lparr>irq_defer := False\<rparr> else m)
         else
           (let m = (if irq_defer m then m\<lparr>irq_defer := False\<rparr> else m);
                m = push_interrupt_frame m;
                m = m\<lparr>irq_entries := irq_entries m + 1\<rparr>
            in (True, c6510_irq m)))"

definition c6510_nmi :: "'u C6510 \<Rightarrow> 'u C6510" where
  [cpu_ops]: "c6510_nmi m =
     (let m = c6510_read_interrupt_vector 0xFFFA m;
          m = m\<lparr>flag_I := True\<rparr>
      in if cpu_model m = CPU_65c02 then m\<lparr>flag_D := False\<rparr> else m)"

definition c6510_nmi_pending :: "'u C6510 \<Rightarrow> u8 \<times> 'u C6510" where
  [cpu_ops]: "c6510_nmi_pending m =
     (case nmi_pending_fn m of None \<Rightarrow> (0, m)
      | Some f \<Rightarrow> (case f (user m) of (v, u) \<Rightarrow> (v, m\<lparr>user := u\<rparr>)))"

definition c6510_take_nmi_if_pending :: "'u C6510 \<Rightarrow> bool \<times> 'u C6510" where
  [cpu_ops]: "c6510_take_nmi_if_pending m =
     (let (pending, m) = c6510_nmi_pending m
      in if pending = 0 then (False, m)
         else
           (let m = push_interrupt_frame m;
                m = m\<lparr>nmi_entries := nmi_entries m + 1\<rparr>
            in (True, c6510_nmi m)))"

end
