(* ===== verification/C6510_Instructions.thy ===== *)
theory C6510_Instructions
  imports C6510_Ops
begin

text \<open>
  The instruction bodies of \<^verbatim>\<open>src/src/c64/machine/c6510_inln.h\<close> (\<^verbatim>\<open>adc_a16\<close> to
  \<^verbatim>\<open>xaa_imm\<close>), in the order of the file. An instruction \<^verbatim>\<open>x_a16\<close> works on the byte at
  \<^verbatim>\<open>address_16\<close>, which an addressing pipeline has set up; \<^verbatim>\<open>x_imm\<close> fetches its operand
  at the program counter. The bodies of the CMOS variant that the 6510 dispatch never
  reaches (\<open>bra\<close>, \<open>dea\<close>, \<open>ina\<close>, \<open>phx\<close>, \<open>phy\<close>, \<open>plx\<close>, \<open>ply\<close>, \<open>stz_a16\<close>,
  \<open>trb\<close>, \<open>tsb\<close>, \<open>bit_imm\<close>, \<open>jmp_ind_x\<close>) are here too.
\<close>

definition adc_a16 :: "'u C6510 \<Rightarrow> 'u C6510" where
  [cpu_ops]: "adc_a16 m =
     (let (v, m) = read_from_memory m (address_16 m);
          m = m\<lparr>scratch_lo := v\<rparr>
      in CYCLE (add_value_to_accumulator (scratch_lo m) m))"

definition adc_imm :: "'u C6510 \<Rightarrow> 'u C6510" where
  [cpu_ops]: "adc_imm m =
     (let (v, m) = read_operand m (pc m);
          m = CYCLE (m\<lparr>scratch_lo := v, pc := pc m + 1\<rparr>);
          m = (if cpu_model m = CPU_65c02 \<and> flag_D m then set_address_16 0x56 m else m)
      in add_value_to_accumulator (scratch_lo m) m)"

definition ahx_a16 :: "'u C6510 \<Rightarrow> 'u C6510" where
  [cpu_ops]: "ahx_a16 m = unstable_store_a16 (reg_A m AND reg_X m AND scratch_hi m) m"

definition anc_imm :: "'u C6510 \<Rightarrow> 'u C6510" where
  [cpu_ops]: "anc_imm m =
     (let (v, m) = read_operand m (pc m);
          m = m\<lparr>scratch_lo := v, pc := pc m + 1\<rparr>;
          m = set_register_to_value A_reg (reg_A m AND scratch_lo m) m
      in CYCLE (m\<lparr>flag_C := flag_N m\<rparr>))"

definition alr_imm :: "'u C6510 \<Rightarrow> 'u C6510" where
  [cpu_ops]: "alr_imm m =
     (let (v, m) = read_operand m (pc m);
          m = m\<lparr>scratch_lo := v, pc := pc m + 1\<rparr>;
          m = m\<lparr>reg_A := reg_A m AND scratch_lo m\<rparr>;
          m = m\<lparr>flag_C := bit (reg_A m) 0\<rparr>
      in CYCLE (set_register_to_value A_reg (drop_bit 1 (reg_A m)) m))"

definition and_a16 :: "'u C6510 \<Rightarrow> 'u C6510" where
  [cpu_ops]: "and_a16 m =
     (let (v, m) = read_from_memory m (address_16 m);
          m = m\<lparr>scratch_lo := v\<rparr>
      in CYCLE (set_register_to_value A_reg (reg_A m AND scratch_lo m) m))"

definition and_imm :: "'u C6510 \<Rightarrow> 'u C6510" where
  [cpu_ops]: "and_imm m =
     (let (v, m) = read_operand m (pc m);
          m = m\<lparr>scratch_lo := v\<rparr>;
          m = set_register_to_value A_reg (reg_A m AND scratch_lo m) m
      in CYCLE (m\<lparr>pc := pc m + 1\<rparr>))"

definition arr_imm :: "'u C6510 \<Rightarrow> 'u C6510" where
  [cpu_ops]: "arr_imm m =
     (let (v, m) = read_operand m (pc m);
          m = m\<lparr>scratch_lo := v, pc := pc m + 1\<rparr>;
          value = reg_A m AND scratch_lo m;
          result = drop_bit 1 value OR push_bit 7 (of_flag (flag_C m));
          m = set_register_to_value A_reg result m;
          m = m\<lparr>flag_C := bit result 6\<rparr>;
          m = m\<lparr>flag_V := bit (drop_bit 6 result XOR drop_bit 5 result) 0\<rparr>;
          m = (if flag_D m then
                 (let m = (if unat (value AND 0x0F) + unat (value AND 0x01) > 5
                           then m\<lparr>reg_A := (reg_A m AND 0xF0) OR ((reg_A m + 0x06) AND 0x0F)\<rparr>
                           else m)
                  in if unat value + unat (value AND 0x10) > 0x50
                     then m\<lparr>reg_A := reg_A m + 0x60, flag_C := True\<rparr>
                     else m\<lparr>flag_C := False\<rparr>)
               else m)
      in CYCLE m)"

definition asl_a :: "'u C6510 \<Rightarrow> 'u C6510" where
  [cpu_ops]: "asl_a m =
     (let m = read_dummy m (pc m);
          m = m\<lparr>flag_C := bit (reg_A m) 7\<rparr>
      in CYCLE (set_register_to_value A_reg (push_bit 1 (reg_A m)) m))"

definition asl_a16 :: "'u C6510 \<Rightarrow> 'u C6510" where
  [cpu_ops]: "asl_a16 m =
     (let m = m\<lparr>flag_C := bit (scratch_lo m) 7\<rparr>;
          m = set_register_to_value scratch_hi_reg (push_bit 1 (scratch_lo m)) m
      in CYCLE (write_to_memory m (address_16 m) (scratch_hi m)))"

definition axs_imm :: "'u C6510 \<Rightarrow> 'u C6510" where
  [cpu_ops]: "axs_imm m =
     (let (v, m) = read_operand m (pc m);
          m = m\<lparr>scratch_lo := v, pc := pc m + 1\<rparr>;
          value = reg_A m AND reg_X m;
          m = compare_bytes value (scratch_lo m) m
      in CYCLE (m\<lparr>reg_X := value - scratch_lo m\<rparr>))"

text \<open>The eight conditional branches share their first cycle.\<close>

definition branch_operand :: "'u C6510 \<Rightarrow> 'u C6510" where
  [cpu_ops]: "branch_operand m =
     (let (v, m) = read_operand m (pc m);
          m = CYCLE (m\<lparr>scratch_lo := v\<rparr>);
          m = m\<lparr>pc := pc m + 1\<rparr>
      in set_address_16 (pc m) m)"

definition bcc :: "'u C6510 \<Rightarrow> 'u C6510" where
  [cpu_ops]: "bcc m = (let m = branch_operand m in if \<not> flag_C m then branch m else m)"

definition bcs :: "'u C6510 \<Rightarrow> 'u C6510" where
  [cpu_ops]: "bcs m = (let m = branch_operand m in if flag_C m then branch m else m)"

definition beq :: "'u C6510 \<Rightarrow> 'u C6510" where
  [cpu_ops]: "beq m = (let m = branch_operand m in if flag_Z m then branch m else m)"

definition bit_a16 :: "'u C6510 \<Rightarrow> 'u C6510" where
  [cpu_ops]: "bit_a16 m =
     (let (v, m) = read_from_memory m (address_16 m);
          m = m\<lparr>scratch_lo := v\<rparr>;
          m = set_register_to_value scratch_hi_reg (reg_A m AND scratch_lo m) m;
          m = set_flags (cpu_flags m AND 0x3F) m;
          m = set_flags (cpu_flags m OR (scratch_lo m AND 0xC0)) m
      in CYCLE m)"

definition bit_imm :: "'u C6510 \<Rightarrow> 'u C6510" where
  [cpu_ops]: "bit_imm m =
     (let (v, m) = read_operand m (pc m);
          m = CYCLE (m\<lparr>scratch_lo := v\<rparr>)
      in m\<lparr>flag_Z := (reg_A m AND scratch_lo m) = 0, pc := pc m + 1\<rparr>)"

definition bmi :: "'u C6510 \<Rightarrow> 'u C6510" where
  [cpu_ops]: "bmi m = (let m = branch_operand m in if flag_N m then branch m else m)"

definition bne :: "'u C6510 \<Rightarrow> 'u C6510" where
  [cpu_ops]: "bne m = (let m = branch_operand m in if \<not> flag_Z m then branch m else m)"

definition bpl :: "'u C6510 \<Rightarrow> 'u C6510" where
  [cpu_ops]: "bpl m = (let m = branch_operand m in if \<not> flag_N m then branch m else m)"

definition bra :: "'u C6510 \<Rightarrow> 'u C6510" where
  [cpu_ops]: "bra m = branch (branch_operand m)"

definition bvc :: "'u C6510 \<Rightarrow> 'u C6510" where
  [cpu_ops]: "bvc m = (let m = branch_operand m in if \<not> flag_V m then branch m else m)"

definition bvs :: "'u C6510 \<Rightarrow> 'u C6510" where
  [cpu_ops]: "bvs m = (let m = branch_operand m in if flag_V m then branch m else m)"

definition c6510_brk :: "'u C6510 \<Rightarrow> 'u C6510" where
  [cpu_ops]: "c6510_brk m =
     (let m = c6510_read_interrupt_vector 0xFFFE m
      in if cpu_model m = CPU_6502 then set_flags (cpu_flags m OR 0x04) m
         else
           (let m = set_flags (cpu_flags m AND NOT 0x08) m
            in if cpu_flags m AND 0x20 \<noteq> 0 then set_flags (cpu_flags m OR 0x04) m else m))"

definition clc :: "'u C6510 \<Rightarrow> 'u C6510" where
  [cpu_ops]: "clc m = CYCLE ((read_dummy m (pc m))\<lparr>flag_C := False\<rparr>)"

definition cld :: "'u C6510 \<Rightarrow> 'u C6510" where
  [cpu_ops]: "cld m = CYCLE ((read_dummy m (pc m))\<lparr>flag_D := False\<rparr>)"

definition cli :: "'u C6510 \<Rightarrow> 'u C6510" where
  [cpu_ops]: "cli m =
     CYCLE ((read_dummy m (pc m))\<lparr>irq_defer := True, irq_defer_i := True, flag_I := False\<rparr>)"

definition clv :: "'u C6510 \<Rightarrow> 'u C6510" where
  [cpu_ops]: "clv m = CYCLE ((read_dummy m (pc m))\<lparr>flag_V := False\<rparr>)"

definition cmp_a16 :: "'u C6510 \<Rightarrow> 'u C6510" where
  [cpu_ops]: "cmp_a16 m =
     (let (v, m) = read_from_memory m (address_16 m);
          m = m\<lparr>scratch_lo := v\<rparr>
      in CYCLE (compare_bytes (reg_A m) (scratch_lo m) m))"

definition cmp_imm :: "'u C6510 \<Rightarrow> 'u C6510" where
  [cpu_ops]: "cmp_imm m =
     (let (v, m) = read_operand m (pc m);
          m = m\<lparr>scratch_lo := v\<rparr>;
          m = compare_bytes (reg_A m) (scratch_lo m) m
      in CYCLE (m\<lparr>pc := pc m + 1\<rparr>))"

definition cpx_a16 :: "'u C6510 \<Rightarrow> 'u C6510" where
  [cpu_ops]: "cpx_a16 m =
     (let (v, m) = read_from_memory m (address_16 m);
          m = m\<lparr>scratch_lo := v\<rparr>
      in CYCLE (compare_bytes (reg_X m) (scratch_lo m) m))"

definition cpx_imm :: "'u C6510 \<Rightarrow> 'u C6510" where
  [cpu_ops]: "cpx_imm m =
     (let (v, m) = read_operand m (pc m);
          m = m\<lparr>scratch_lo := v\<rparr>;
          m = compare_bytes (reg_X m) (scratch_lo m) m
      in CYCLE (m\<lparr>pc := pc m + 1\<rparr>))"

definition cpy_a16 :: "'u C6510 \<Rightarrow> 'u C6510" where
  [cpu_ops]: "cpy_a16 m =
     (let (v, m) = read_from_memory m (address_16 m);
          m = m\<lparr>scratch_lo := v\<rparr>
      in CYCLE (compare_bytes (reg_Y m) (scratch_lo m) m))"

definition cpy_imm :: "'u C6510 \<Rightarrow> 'u C6510" where
  [cpu_ops]: "cpy_imm m =
     (let (v, m) = read_operand m (pc m);
          m = m\<lparr>scratch_lo := v\<rparr>;
          m = compare_bytes (reg_Y m) (scratch_lo m) m
      in CYCLE (m\<lparr>pc := pc m + 1\<rparr>))"

definition dcp_a16 :: "'u C6510 \<Rightarrow> 'u C6510" where
  [cpu_ops]: "dcp_a16 m =
     (let m = m\<lparr>scratch_lo := scratch_lo m - 1\<rparr>;
          m = write_to_memory m (address_16 m) (scratch_lo m)
      in CYCLE (compare_bytes (reg_A m) (scratch_lo m) m))"

definition dea :: "'u C6510 \<Rightarrow> 'u C6510" where
  [cpu_ops]: "dea m =
     (let m = read_dummy m (pc m) in CYCLE (set_register_to_value A_reg (reg_A m - 1) m))"

definition dec_a16 :: "'u C6510 \<Rightarrow> 'u C6510" where
  [cpu_ops]: "dec_a16 m =
     (let m = set_register_to_value scratch_hi_reg (scratch_lo m - 1) m
      in CYCLE (write_to_memory m (address_16 m) (scratch_hi m)))"

definition dex :: "'u C6510 \<Rightarrow> 'u C6510" where
  [cpu_ops]: "dex m =
     (let m = read_dummy m (pc m) in CYCLE (set_register_to_value X_reg (reg_X m - 1) m))"

definition dey :: "'u C6510 \<Rightarrow> 'u C6510" where
  [cpu_ops]: "dey m =
     (let m = read_dummy m (pc m) in CYCLE (set_register_to_value Y_reg (reg_Y m - 1) m))"

definition eor_a16 :: "'u C6510 \<Rightarrow> 'u C6510" where
  [cpu_ops]: "eor_a16 m =
     (let (v, m) = read_from_memory m (address_16 m);
          m = m\<lparr>scratch_lo := v\<rparr>
      in CYCLE (set_register_to_value A_reg (reg_A m XOR scratch_lo m) m))"

definition eor_imm :: "'u C6510 \<Rightarrow> 'u C6510" where
  [cpu_ops]: "eor_imm m =
     (let (v, m) = read_operand m (pc m);
          m = m\<lparr>scratch_lo := v\<rparr>;
          m = set_register_to_value A_reg (reg_A m XOR scratch_lo m) m
      in CYCLE (m\<lparr>pc := pc m + 1\<rparr>))"

definition inc_a16 :: "'u C6510 \<Rightarrow> 'u C6510" where
  [cpu_ops]: "inc_a16 m =
     (let m = set_register_to_value scratch_hi_reg (scratch_lo m + 1) m
      in CYCLE (write_to_memory m (address_16 m) (scratch_hi m)))"

definition ina :: "'u C6510 \<Rightarrow> 'u C6510" where
  [cpu_ops]: "ina m =
     (let m = read_dummy m (pc m) in CYCLE (set_register_to_value A_reg (reg_A m + 1) m))"

definition inx :: "'u C6510 \<Rightarrow> 'u C6510" where
  [cpu_ops]: "inx m =
     (let m = read_dummy m (pc m) in CYCLE (set_register_to_value X_reg (reg_X m + 1) m))"

definition iny :: "'u C6510 \<Rightarrow> 'u C6510" where
  [cpu_ops]: "iny m =
     (let m = read_dummy m (pc m) in CYCLE (set_register_to_value Y_reg (reg_Y m + 1) m))"

definition isc_a16 :: "'u C6510 \<Rightarrow> 'u C6510" where
  [cpu_ops]: "isc_a16 m =
     (let m = m\<lparr>scratch_lo := scratch_lo m + 1\<rparr>;
          m = write_to_memory m (address_16 m) (scratch_lo m)
      in CYCLE (subtract_value_from_accumulator (scratch_lo m) m))"

text \<open>The loop of \<^verbatim>\<open>jam\<close> runs six times with a constant body.\<close>

definition jam_read :: "u16 \<Rightarrow> 'u C6510 \<Rightarrow> 'u C6510" where
  [cpu_ops]: "jam_read a m = (let (_, m) = read_from_memory m a in CYCLE m)"

definition jam :: "'u C6510 \<Rightarrow> 'u C6510" where
  "jam m =
     (let m = read_pc m;
          m = jam_read 0xFFFF m;
          m = jam_read 0xFFFE m;
          m = jam_read 0xFFFE m
      in (jam_read 0xFFFF ^^ 6) m)"

definition jmp_a16 :: "'u C6510 \<Rightarrow> 'u C6510" where
  [cpu_ops]: "jmp_a16 m = m\<lparr>pc := address_16 m\<rparr>"

definition jmp_ind :: "'u C6510 \<Rightarrow> 'u C6510" where
  [cpu_ops]: "jmp_ind m =
     (let m = m\<lparr>address_lo := address_lo m + 1\<rparr>;
          (v, m) = read_from_memory m (address_16 m);
          m = CYCLE (m\<lparr>scratch_hi := v\<rparr>);
          m = (if cpu_model m = CPU_65c02 then
                 (let m = (if address_lo m = 0 then m\<lparr>address_hi := address_hi m + 1\<rparr> else m);
                      (v, m) = read_from_memory m (address_16 m)
                  in CYCLE (m\<lparr>scratch_hi := v\<rparr>))
               else m)
      in m\<lparr>pc := scratch_16 m\<rparr>)"

definition jmp_ind_x :: "'u C6510 \<Rightarrow> 'u C6510" where
  [cpu_ops]: "jmp_ind_x m =
     (let m = a_pipe m;
          m = read_dummy m (pc m - 2);
          m = CYCLE (set_address_16 (address_16 m + ucast (reg_X m)) m);
          m = sl_read_a16 m;
          m = set_address_16 (address_16 m + 1) m;
          (v, m) = read_from_memory m (address_16 m);
          m = CYCLE (m\<lparr>scratch_hi := v\<rparr>)
      in m\<lparr>pc := scratch_16 m\<rparr>)"

definition jsr_a16 :: "'u C6510 \<Rightarrow> 'u C6510" where
  [cpu_ops]: "jsr_a16 m = (let m = ah_read_pc m in m\<lparr>pc := address_16 m\<rparr>)"

definition las_a16 :: "'u C6510 \<Rightarrow> 'u C6510" where
  [cpu_ops]: "las_a16 m =
     (let (v, m) = read_from_memory m (address_16 m);
          m = m\<lparr>scratch_lo := v AND lo8 (sp m)\<rparr>;
          m = m\<lparr>reg_A := scratch_lo m\<rparr>;
          m = m\<lparr>sp := 0x100 + ucast (scratch_lo m)\<rparr>
      in CYCLE (set_register_to_value X_reg (scratch_lo m) m))"

definition lax_a16 :: "'u C6510 \<Rightarrow> 'u C6510" where
  [cpu_ops]: "lax_a16 m =
     (let (v, m) = read_from_memory m (address_16 m);
          m = m\<lparr>scratch_lo := v\<rparr>;
          m = m\<lparr>reg_A := scratch_lo m\<rparr>
      in CYCLE (set_register_to_value X_reg (scratch_lo m) m))"

definition lax_imm_und :: "'u C6510 \<Rightarrow> 'u C6510" where
  [cpu_ops]: "lax_imm_und m =
     (let (v, m) = read_operand m (pc m);
          m = m\<lparr>scratch_lo := v, pc := pc m + 1\<rparr>;
          m = m\<lparr>reg_A := (reg_A m OR 0xEE) AND scratch_lo m\<rparr>
      in CYCLE (set_register_to_value X_reg (reg_A m) m))"

definition lda_a16 :: "'u C6510 \<Rightarrow> 'u C6510" where
  [cpu_ops]: "lda_a16 m =
     (let (v, m) = read_from_memory m (address_16 m);
          m = m\<lparr>scratch_lo := v\<rparr>
      in CYCLE (set_register_to_value A_reg (scratch_lo m) m))"

definition lda_imm :: "'u C6510 \<Rightarrow> 'u C6510" where
  [cpu_ops]: "lda_imm m =
     (let (v, m) = read_operand m (pc m);
          m = m\<lparr>scratch_lo := v\<rparr>;
          m = set_register_to_value A_reg (scratch_lo m) m
      in CYCLE (m\<lparr>pc := pc m + 1\<rparr>))"

definition ldx_a16 :: "'u C6510 \<Rightarrow> 'u C6510" where
  [cpu_ops]: "ldx_a16 m =
     (let (v, m) = read_from_memory m (address_16 m);
          m = m\<lparr>scratch_lo := v\<rparr>
      in CYCLE (set_register_to_value X_reg (scratch_lo m) m))"

definition ldx_imm :: "'u C6510 \<Rightarrow> 'u C6510" where
  [cpu_ops]: "ldx_imm m =
     (let (v, m) = read_operand m (pc m);
          m = m\<lparr>scratch_lo := v\<rparr>;
          m = set_register_to_value X_reg (scratch_lo m) m
      in CYCLE (m\<lparr>pc := pc m + 1\<rparr>))"

definition ldy_a16 :: "'u C6510 \<Rightarrow> 'u C6510" where
  [cpu_ops]: "ldy_a16 m =
     (let (v, m) = read_from_memory m (address_16 m);
          m = m\<lparr>scratch_lo := v\<rparr>
      in CYCLE (set_register_to_value Y_reg (scratch_lo m) m))"

definition ldy_imm :: "'u C6510 \<Rightarrow> 'u C6510" where
  [cpu_ops]: "ldy_imm m =
     (let (v, m) = read_operand m (pc m);
          m = m\<lparr>scratch_lo := v\<rparr>;
          m = set_register_to_value Y_reg (scratch_lo m) m
      in CYCLE (m\<lparr>pc := pc m + 1\<rparr>))"

definition lsr_a :: "'u C6510 \<Rightarrow> 'u C6510" where
  [cpu_ops]: "lsr_a m =
     (let m = read_dummy m (pc m);
          m = m\<lparr>flag_C := bit (reg_A m) 0\<rparr>
      in CYCLE (set_register_to_value A_reg (drop_bit 1 (reg_A m)) m))"

definition lsr_a16 :: "'u C6510 \<Rightarrow> 'u C6510" where
  [cpu_ops]: "lsr_a16 m =
     (let m = m\<lparr>flag_C := bit (scratch_lo m) 0\<rparr>;
          m = set_register_to_value scratch_hi_reg (drop_bit 1 (scratch_lo m)) m
      in CYCLE (write_to_memory m (address_16 m) (scratch_hi m)))"

definition ora_a16 :: "'u C6510 \<Rightarrow> 'u C6510" where
  [cpu_ops]: "ora_a16 m =
     (let (v, m) = read_from_memory m (address_16 m);
          m = m\<lparr>scratch_lo := v\<rparr>
      in CYCLE (set_register_to_value A_reg (reg_A m OR scratch_lo m) m))"

definition ora_imm :: "'u C6510 \<Rightarrow> 'u C6510" where
  [cpu_ops]: "ora_imm m =
     (let (v, m) = read_operand m (pc m);
          m = m\<lparr>scratch_lo := v\<rparr>;
          m = set_register_to_value A_reg (reg_A m OR scratch_lo m) m
      in CYCLE (m\<lparr>pc := pc m + 1\<rparr>))"

definition phx :: "'u C6510 \<Rightarrow> 'u C6510" where
  [cpu_ops]: "phx m = CYCLE (push (reg_X m) m)"

definition phy :: "'u C6510 \<Rightarrow> 'u C6510" where
  [cpu_ops]: "phy m = CYCLE (push (reg_Y m) m)"

definition pla :: "'u C6510 \<Rightarrow> 'u C6510" where
  [cpu_ops]: "pla m = (let (v, m) = pull m in CYCLE (set_register_to_value A_reg v m))"

definition plp :: "'u C6510 \<Rightarrow> 'u C6510" where
  [cpu_ops]: "plp m =
     (let (v, m) = pull m in CYCLE (set_flags ((v AND NOT 0x10) OR 0x20) m))"

definition plx :: "'u C6510 \<Rightarrow> 'u C6510" where
  [cpu_ops]: "plx m = (let (v, m) = pull m in CYCLE (set_register_to_value X_reg v m))"

definition ply :: "'u C6510 \<Rightarrow> 'u C6510" where
  [cpu_ops]: "ply m = (let (v, m) = pull m in CYCLE (set_register_to_value Y_reg v m))"

definition pha :: "'u C6510 \<Rightarrow> 'u C6510" where
  [cpu_ops]: "pha m = CYCLE (push (reg_A m) m)"

definition php :: "'u C6510 \<Rightarrow> 'u C6510" where
  [cpu_ops]: "php m = CYCLE (push (cpu_flags m OR 0x10) m)"

definition rla_a16 :: "'u C6510 \<Rightarrow> 'u C6510" where
  [cpu_ops]: "rla_a16 m =
     (let c = bit (scratch_lo m) 7;
          m = m\<lparr>scratch_lo := push_bit 1 (scratch_lo m) OR of_flag (flag_C m)\<rparr>;
          m = write_to_memory m (address_16 m) (scratch_lo m);
          m = set_register_to_value A_reg (reg_A m AND scratch_lo m) m
      in CYCLE (m\<lparr>flag_C := c\<rparr>))"

definition rol_a :: "'u C6510 \<Rightarrow> 'u C6510" where
  [cpu_ops]: "rol_a m =
     (let c = bit (reg_A m) 7;
          m = read_pc m;
          m = set_register_to_value A_reg (push_bit 1 (reg_A m) OR of_flag (flag_C m)) m
      in m\<lparr>flag_C := c\<rparr>)"

definition rol_a16 :: "'u C6510 \<Rightarrow> 'u C6510" where
  [cpu_ops]: "rol_a16 m =
     (let c = bit (scratch_lo m) 7;
          m = set_register_to_value scratch_lo_reg
                (push_bit 1 (scratch_lo m) OR of_flag (flag_C m)) m;
          m = write_to_memory m (address_16 m) (scratch_lo m)
      in CYCLE (m\<lparr>flag_C := c\<rparr>))"

definition ror_a :: "'u C6510 \<Rightarrow> 'u C6510" where
  [cpu_ops]: "ror_a m =
     (let c = bit (reg_A m) 0;
          m = read_pc m;
          m = set_register_to_value A_reg
                (drop_bit 1 (reg_A m) OR push_bit 7 (of_flag (flag_C m))) m
      in m\<lparr>flag_C := c\<rparr>)"

definition ror_a16 :: "'u C6510 \<Rightarrow> 'u C6510" where
  [cpu_ops]: "ror_a16 m =
     (let c = bit (scratch_lo m) 0;
          m = set_register_to_value scratch_lo_reg
                (drop_bit 1 (scratch_lo m) OR push_bit 7 (of_flag (flag_C m))) m;
          m = write_to_memory m (address_16 m) (scratch_lo m)
      in CYCLE (m\<lparr>flag_C := c\<rparr>))"

definition rti :: "'u C6510 \<Rightarrow> 'u C6510" where
  [cpu_ops]: "rti m = (let m = ah_from_stack m in m\<lparr>pc := address_16 m\<rparr>)"

definition rts :: "'u C6510 \<Rightarrow> 'u C6510" where
  [cpu_ops]: "rts m = al_read_pc (m\<lparr>pc := address_16 m\<rparr>)"

definition sbc_a16 :: "'u C6510 \<Rightarrow> 'u C6510" where
  [cpu_ops]: "sbc_a16 m =
     (let (v, m) = read_from_memory m (address_16 m);
          m = CYCLE (m\<lparr>scratch_lo := v\<rparr>)
      in subtract_value_from_accumulator (scratch_lo m) m)"

definition sbc_imm :: "'u C6510 \<Rightarrow> 'u C6510" where
  [cpu_ops]: "sbc_imm m =
     (let (v, m) = read_operand m (pc m);
          m = CYCLE (m\<lparr>scratch_lo := v, pc := pc m + 1\<rparr>);
          m = (if cpu_model m = CPU_65c02 \<and> flag_D m then set_address_16 0 m else m)
      in subtract_value_from_accumulator (scratch_lo m) m)"

definition sec :: "'u C6510 \<Rightarrow> 'u C6510" where
  [cpu_ops]: "sec m = (read_pc m)\<lparr>flag_C := True\<rparr>"

definition sed :: "'u C6510 \<Rightarrow> 'u C6510" where
  [cpu_ops]: "sed m = (read_pc m)\<lparr>flag_D := True\<rparr>"

definition sei :: "'u C6510 \<Rightarrow> 'u C6510" where
  [cpu_ops]: "sei m = (read_pc m)\<lparr>irq_defer := False, irq_defer_i := False, flag_I := True\<rparr>"

definition sta_a16 :: "'u C6510 \<Rightarrow> 'u C6510" where
  [cpu_ops]: "sta_a16 m = CYCLE (write_to_memory m (address_16 m) (reg_A m))"

definition sax_a16 :: "'u C6510 \<Rightarrow> 'u C6510" where
  [cpu_ops]: "sax_a16 m = CYCLE (write_to_memory m (address_16 m) (reg_A m AND reg_X m))"

definition slo_a16 :: "'u C6510 \<Rightarrow> 'u C6510" where
  [cpu_ops]: "slo_a16 m =
     (let m = m\<lparr>flag_C := bit (scratch_lo m) 7\<rparr>;
          m = m\<lparr>scratch_lo := push_bit 1 (scratch_lo m)\<rparr>;
          m = write_to_memory m (address_16 m) (scratch_lo m)
      in CYCLE (set_register_to_value A_reg (reg_A m OR scratch_lo m) m))"

definition sre_a16 :: "'u C6510 \<Rightarrow> 'u C6510" where
  [cpu_ops]: "sre_a16 m =
     (let m = m\<lparr>flag_C := bit (scratch_lo m) 0\<rparr>;
          m = m\<lparr>scratch_lo := drop_bit 1 (scratch_lo m)\<rparr>;
          m = write_to_memory m (address_16 m) (scratch_lo m)
      in CYCLE (set_register_to_value A_reg (reg_A m XOR scratch_lo m) m))"

definition rra_a16 :: "'u C6510 \<Rightarrow> 'u C6510" where
  [cpu_ops]: "rra_a16 m =
     (let c = bit (scratch_lo m) 0;
          m = m\<lparr>scratch_lo := drop_bit 1 (scratch_lo m) OR push_bit 7 (of_flag (flag_C m))\<rparr>;
          m = write_to_memory m (address_16 m) (scratch_lo m);
          m = m\<lparr>flag_C := c\<rparr>
      in CYCLE (add_value_to_accumulator (scratch_lo m) m))"

definition stx_a16 :: "'u C6510 \<Rightarrow> 'u C6510" where
  [cpu_ops]: "stx_a16 m = CYCLE (write_to_memory m (address_16 m) (reg_X m))"

definition sty_a16 :: "'u C6510 \<Rightarrow> 'u C6510" where
  [cpu_ops]: "sty_a16 m = CYCLE (write_to_memory m (address_16 m) (reg_Y m))"

definition stz_a16 :: "u8 \<Rightarrow> 'u C6510 \<Rightarrow> 'u C6510" where
  [cpu_ops]: "stz_a16 value m = CYCLE (write_to_memory m (address_16 m) value)"

definition shs_a16 :: "'u C6510 \<Rightarrow> 'u C6510" where
  [cpu_ops]: "shs_a16 m =
     (let m = m\<lparr>sp := 0x100 + ucast (reg_A m AND reg_X m)\<rparr>
      in unstable_store_a16 (lo8 (sp m AND ucast (scratch_hi m))) m)"

definition shy_a16 :: "'u C6510 \<Rightarrow> 'u C6510" where
  [cpu_ops]: "shy_a16 m = unstable_store_a16 (reg_Y m AND scratch_hi m) m"

definition shx_a16 :: "'u C6510 \<Rightarrow> 'u C6510" where
  [cpu_ops]: "shx_a16 m = unstable_store_a16 (reg_X m AND scratch_hi m) m"

definition tax :: "'u C6510 \<Rightarrow> 'u C6510" where
  [cpu_ops]: "tax m = (let m = read_pc m in set_register_to_value X_reg (reg_A m) m)"

definition tay :: "'u C6510 \<Rightarrow> 'u C6510" where
  [cpu_ops]: "tay m = (let m = read_pc m in set_register_to_value Y_reg (reg_A m) m)"

definition trb :: "'u C6510 \<Rightarrow> 'u C6510" where
  [cpu_ops]: "trb m =
     (let m = m\<lparr>flag_Z := (reg_A m AND scratch_lo m) = 0\<rparr>;
          m = m\<lparr>scratch_lo := (reg_A m XOR 0xFF) AND scratch_lo m\<rparr>
      in CYCLE (write_to_memory m (address_16 m) (scratch_lo m)))"

definition tsb :: "'u C6510 \<Rightarrow> 'u C6510" where
  [cpu_ops]: "tsb m =
     (let m = m\<lparr>flag_Z := (reg_A m AND scratch_lo m) = 0\<rparr>;
          m = m\<lparr>scratch_lo := scratch_lo m OR reg_A m\<rparr>
      in CYCLE (write_to_memory m (address_16 m) (scratch_lo m)))"

definition tsx :: "'u C6510 \<Rightarrow> 'u C6510" where
  [cpu_ops]: "tsx m =
     (let m = read_pc m in set_register_to_value X_reg (lo8 (sp m - 0x100)) m)"

definition txa :: "'u C6510 \<Rightarrow> 'u C6510" where
  [cpu_ops]: "txa m = (let m = read_pc m in set_register_to_value A_reg (reg_X m) m)"

definition txs :: "'u C6510 \<Rightarrow> 'u C6510" where
  [cpu_ops]: "txs m = (let m = read_pc m in m\<lparr>sp := 0x100 + ucast (reg_X m)\<rparr>)"

definition tya :: "'u C6510 \<Rightarrow> 'u C6510" where
  [cpu_ops]: "tya m = (let m = read_pc m in set_register_to_value A_reg (reg_Y m) m)"

definition xaa_imm :: "'u C6510 \<Rightarrow> 'u C6510" where
  [cpu_ops]: "xaa_imm m =
     (let (v, m) = read_operand m (pc m);
          m = m\<lparr>scratch_lo := v, pc := pc m + 1\<rparr>
      in CYCLE (set_register_to_value A_reg ((reg_A m OR 0xEE) AND reg_X m AND scratch_lo m) m))"

end
