(* ===== verification/C6510_Step.thy ===== *)
theory C6510_Step
  imports C6510_Instructions
begin

text \<open>
  The opcode names (\<^verbatim>\<open>OP_6502\<close> of \<^verbatim>\<open>src/src/c64/machine/c6510.h\<close>) and the whole-instruction
  executor \<^verbatim>\<open>c6510_step\<close> of \<^verbatim>\<open>src/src/c64/machine/c6510.c\<close>. The 256-way \<^verbatim>\<open>switch\<close> is dense,
  so it is a table of sixteen rows of sixteen handlers, row and column being the two
  nibbles of the opcode; the last handler of each row is the one of column F.
\<close>

section \<open>Opcodes\<close>

abbreviation (input) BRK :: u8 where "BRK \<equiv> 0x00"
abbreviation (input) ORA_X_ind :: u8 where "ORA_X_ind \<equiv> 0x01"
abbreviation (input) UND_02 :: u8 where "UND_02 \<equiv> 0x02"
abbreviation (input) UND_03 :: u8 where "UND_03 \<equiv> 0x03"
abbreviation (input) UND_04 :: u8 where "UND_04 \<equiv> 0x04"
abbreviation (input) ORA_zpg :: u8 where "ORA_zpg \<equiv> 0x05"
abbreviation (input) ASL_zpg :: u8 where "ASL_zpg \<equiv> 0x06"
abbreviation (input) UND_07 :: u8 where "UND_07 \<equiv> 0x07"
abbreviation (input) PHP :: u8 where "PHP \<equiv> 0x08"
abbreviation (input) ORA_imm :: u8 where "ORA_imm \<equiv> 0x09"
abbreviation (input) ASL_A :: u8 where "ASL_A \<equiv> 0x0A"
abbreviation (input) UND_0B :: u8 where "UND_0B \<equiv> 0x0B"
abbreviation (input) UND_0C :: u8 where "UND_0C \<equiv> 0x0C"
abbreviation (input) ORA_abs :: u8 where "ORA_abs \<equiv> 0x0D"
abbreviation (input) ASL_abs :: u8 where "ASL_abs \<equiv> 0x0E"
abbreviation (input) UND_0F :: u8 where "UND_0F \<equiv> 0x0F"
abbreviation (input) BPL_rel :: u8 where "BPL_rel \<equiv> 0x10"
abbreviation (input) ORA_ind_Y :: u8 where "ORA_ind_Y \<equiv> 0x11"
abbreviation (input) UND_12 :: u8 where "UND_12 \<equiv> 0x12"
abbreviation (input) UND_13 :: u8 where "UND_13 \<equiv> 0x13"
abbreviation (input) UND_14 :: u8 where "UND_14 \<equiv> 0x14"
abbreviation (input) ORA_zpg_X :: u8 where "ORA_zpg_X \<equiv> 0x15"
abbreviation (input) ASL_zpg_X :: u8 where "ASL_zpg_X \<equiv> 0x16"
abbreviation (input) UND_17 :: u8 where "UND_17 \<equiv> 0x17"
abbreviation (input) CLC :: u8 where "CLC \<equiv> 0x18"
abbreviation (input) ORA_abs_Y :: u8 where "ORA_abs_Y \<equiv> 0x19"
abbreviation (input) UND_1A :: u8 where "UND_1A \<equiv> 0x1A"
abbreviation (input) UND_1B :: u8 where "UND_1B \<equiv> 0x1B"
abbreviation (input) UND_1C :: u8 where "UND_1C \<equiv> 0x1C"
abbreviation (input) ORA_abs_X :: u8 where "ORA_abs_X \<equiv> 0x1D"
abbreviation (input) ASL_abs_X :: u8 where "ASL_abs_X \<equiv> 0x1E"
abbreviation (input) UND_1F :: u8 where "UND_1F \<equiv> 0x1F"
abbreviation (input) JSR_abs :: u8 where "JSR_abs \<equiv> 0x20"
abbreviation (input) AND_X_ind :: u8 where "AND_X_ind \<equiv> 0x21"
abbreviation (input) UND_22 :: u8 where "UND_22 \<equiv> 0x22"
abbreviation (input) UND_23 :: u8 where "UND_23 \<equiv> 0x23"
abbreviation (input) BIT_zpg :: u8 where "BIT_zpg \<equiv> 0x24"
abbreviation (input) AND_zpg :: u8 where "AND_zpg \<equiv> 0x25"
abbreviation (input) ROL_zpg :: u8 where "ROL_zpg \<equiv> 0x26"
abbreviation (input) UND_27 :: u8 where "UND_27 \<equiv> 0x27"
abbreviation (input) PLP :: u8 where "PLP \<equiv> 0x28"
abbreviation (input) AND_imm :: u8 where "AND_imm \<equiv> 0x29"
abbreviation (input) ROL_A :: u8 where "ROL_A \<equiv> 0x2A"
abbreviation (input) UND_2B :: u8 where "UND_2B \<equiv> 0x2B"
abbreviation (input) BIT_abs :: u8 where "BIT_abs \<equiv> 0x2C"
abbreviation (input) AND_abs :: u8 where "AND_abs \<equiv> 0x2D"
abbreviation (input) ROL_abs :: u8 where "ROL_abs \<equiv> 0x2E"
abbreviation (input) UND_2F :: u8 where "UND_2F \<equiv> 0x2F"
abbreviation (input) BMI_rel :: u8 where "BMI_rel \<equiv> 0x30"
abbreviation (input) AND_ind_Y :: u8 where "AND_ind_Y \<equiv> 0x31"
abbreviation (input) UND_32 :: u8 where "UND_32 \<equiv> 0x32"
abbreviation (input) UND_33 :: u8 where "UND_33 \<equiv> 0x33"
abbreviation (input) UND_34 :: u8 where "UND_34 \<equiv> 0x34"
abbreviation (input) AND_zpg_X :: u8 where "AND_zpg_X \<equiv> 0x35"
abbreviation (input) ROL_zpg_X :: u8 where "ROL_zpg_X \<equiv> 0x36"
abbreviation (input) UND_37 :: u8 where "UND_37 \<equiv> 0x37"
abbreviation (input) SEC :: u8 where "SEC \<equiv> 0x38"
abbreviation (input) AND_abs_Y :: u8 where "AND_abs_Y \<equiv> 0x39"
abbreviation (input) UND_3A :: u8 where "UND_3A \<equiv> 0x3A"
abbreviation (input) UND_3B :: u8 where "UND_3B \<equiv> 0x3B"
abbreviation (input) UND_3C :: u8 where "UND_3C \<equiv> 0x3C"
abbreviation (input) AND_abs_X :: u8 where "AND_abs_X \<equiv> 0x3D"
abbreviation (input) ROL_abs_X :: u8 where "ROL_abs_X \<equiv> 0x3E"
abbreviation (input) UND_3F :: u8 where "UND_3F \<equiv> 0x3F"
abbreviation (input) RTI :: u8 where "RTI \<equiv> 0x40"
abbreviation (input) EOR_X_ind :: u8 where "EOR_X_ind \<equiv> 0x41"
abbreviation (input) UND_42 :: u8 where "UND_42 \<equiv> 0x42"
abbreviation (input) UND_43 :: u8 where "UND_43 \<equiv> 0x43"
abbreviation (input) UND_44 :: u8 where "UND_44 \<equiv> 0x44"
abbreviation (input) EOR_zpg :: u8 where "EOR_zpg \<equiv> 0x45"
abbreviation (input) LSR_zpg :: u8 where "LSR_zpg \<equiv> 0x46"
abbreviation (input) UND_47 :: u8 where "UND_47 \<equiv> 0x47"
abbreviation (input) PHA :: u8 where "PHA \<equiv> 0x48"
abbreviation (input) EOR_imm :: u8 where "EOR_imm \<equiv> 0x49"
abbreviation (input) LSR_A :: u8 where "LSR_A \<equiv> 0x4A"
abbreviation (input) UND_4B :: u8 where "UND_4B \<equiv> 0x4B"
abbreviation (input) JMP_abs :: u8 where "JMP_abs \<equiv> 0x4C"
abbreviation (input) EOR_abs :: u8 where "EOR_abs \<equiv> 0x4D"
abbreviation (input) LSR_abs :: u8 where "LSR_abs \<equiv> 0x4E"
abbreviation (input) UND_4F :: u8 where "UND_4F \<equiv> 0x4F"
abbreviation (input) BVC_rel :: u8 where "BVC_rel \<equiv> 0x50"
abbreviation (input) EOR_ind_Y :: u8 where "EOR_ind_Y \<equiv> 0x51"
abbreviation (input) UND_52 :: u8 where "UND_52 \<equiv> 0x52"
abbreviation (input) UND_53 :: u8 where "UND_53 \<equiv> 0x53"
abbreviation (input) UND_54 :: u8 where "UND_54 \<equiv> 0x54"
abbreviation (input) EOR_zpg_X :: u8 where "EOR_zpg_X \<equiv> 0x55"
abbreviation (input) LSR_zpg_X :: u8 where "LSR_zpg_X \<equiv> 0x56"
abbreviation (input) UND_57 :: u8 where "UND_57 \<equiv> 0x57"
abbreviation (input) CLI :: u8 where "CLI \<equiv> 0x58"
abbreviation (input) EOR_abs_Y :: u8 where "EOR_abs_Y \<equiv> 0x59"
abbreviation (input) UND_5A :: u8 where "UND_5A \<equiv> 0x5A"
abbreviation (input) UND_5B :: u8 where "UND_5B \<equiv> 0x5B"
abbreviation (input) UND_5C :: u8 where "UND_5C \<equiv> 0x5C"
abbreviation (input) EOR_abs_X :: u8 where "EOR_abs_X \<equiv> 0x5D"
abbreviation (input) LSR_abs_X :: u8 where "LSR_abs_X \<equiv> 0x5E"
abbreviation (input) UND_5F :: u8 where "UND_5F \<equiv> 0x5F"
abbreviation (input) RTS :: u8 where "RTS \<equiv> 0x60"
abbreviation (input) ADC_X_ind :: u8 where "ADC_X_ind \<equiv> 0x61"
abbreviation (input) UND_62 :: u8 where "UND_62 \<equiv> 0x62"
abbreviation (input) UND_63 :: u8 where "UND_63 \<equiv> 0x63"
abbreviation (input) UND_64 :: u8 where "UND_64 \<equiv> 0x64"
abbreviation (input) ADC_zpg :: u8 where "ADC_zpg \<equiv> 0x65"
abbreviation (input) ROR_zpg :: u8 where "ROR_zpg \<equiv> 0x66"
abbreviation (input) UND_67 :: u8 where "UND_67 \<equiv> 0x67"
abbreviation (input) PLA :: u8 where "PLA \<equiv> 0x68"
abbreviation (input) ADC_imm :: u8 where "ADC_imm \<equiv> 0x69"
abbreviation (input) ROR_A :: u8 where "ROR_A \<equiv> 0x6A"
abbreviation (input) UND_6B :: u8 where "UND_6B \<equiv> 0x6B"
abbreviation (input) JMP_ind :: u8 where "JMP_ind \<equiv> 0x6C"
abbreviation (input) ADC_abs :: u8 where "ADC_abs \<equiv> 0x6D"
abbreviation (input) ROR_abs :: u8 where "ROR_abs \<equiv> 0x6E"
abbreviation (input) UND_6F :: u8 where "UND_6F \<equiv> 0x6F"
abbreviation (input) BVS_rel :: u8 where "BVS_rel \<equiv> 0x70"
abbreviation (input) ADC_ind_Y :: u8 where "ADC_ind_Y \<equiv> 0x71"
abbreviation (input) UND_72 :: u8 where "UND_72 \<equiv> 0x72"
abbreviation (input) UND_73 :: u8 where "UND_73 \<equiv> 0x73"
abbreviation (input) UND_74 :: u8 where "UND_74 \<equiv> 0x74"
abbreviation (input) ADC_zpg_X :: u8 where "ADC_zpg_X \<equiv> 0x75"
abbreviation (input) ROR_zpg_X :: u8 where "ROR_zpg_X \<equiv> 0x76"
abbreviation (input) UND_77 :: u8 where "UND_77 \<equiv> 0x77"
abbreviation (input) SEI :: u8 where "SEI \<equiv> 0x78"
abbreviation (input) ADC_abs_Y :: u8 where "ADC_abs_Y \<equiv> 0x79"
abbreviation (input) UND_7A :: u8 where "UND_7A \<equiv> 0x7A"
abbreviation (input) UND_7B :: u8 where "UND_7B \<equiv> 0x7B"
abbreviation (input) UND_7C :: u8 where "UND_7C \<equiv> 0x7C"
abbreviation (input) ADC_abs_X :: u8 where "ADC_abs_X \<equiv> 0x7D"
abbreviation (input) ROR_abs_X :: u8 where "ROR_abs_X \<equiv> 0x7E"
abbreviation (input) UND_7F :: u8 where "UND_7F \<equiv> 0x7F"
abbreviation (input) UND_80 :: u8 where "UND_80 \<equiv> 0x80"
abbreviation (input) STA_X_ind :: u8 where "STA_X_ind \<equiv> 0x81"
abbreviation (input) UND_82 :: u8 where "UND_82 \<equiv> 0x82"
abbreviation (input) UND_83 :: u8 where "UND_83 \<equiv> 0x83"
abbreviation (input) STY_zpg :: u8 where "STY_zpg \<equiv> 0x84"
abbreviation (input) STA_zpg :: u8 where "STA_zpg \<equiv> 0x85"
abbreviation (input) STX_zpg :: u8 where "STX_zpg \<equiv> 0x86"
abbreviation (input) UND_87 :: u8 where "UND_87 \<equiv> 0x87"
abbreviation (input) DEY :: u8 where "DEY \<equiv> 0x88"
abbreviation (input) UND_89 :: u8 where "UND_89 \<equiv> 0x89"
abbreviation (input) TXA :: u8 where "TXA \<equiv> 0x8A"
abbreviation (input) UND_8B :: u8 where "UND_8B \<equiv> 0x8B"
abbreviation (input) STY_abs :: u8 where "STY_abs \<equiv> 0x8C"
abbreviation (input) STA_abs :: u8 where "STA_abs \<equiv> 0x8D"
abbreviation (input) STX_abs :: u8 where "STX_abs \<equiv> 0x8E"
abbreviation (input) UND_8F :: u8 where "UND_8F \<equiv> 0x8F"
abbreviation (input) BCC_rel :: u8 where "BCC_rel \<equiv> 0x90"
abbreviation (input) STA_ind_Y :: u8 where "STA_ind_Y \<equiv> 0x91"
abbreviation (input) UND_92 :: u8 where "UND_92 \<equiv> 0x92"
abbreviation (input) UND_93 :: u8 where "UND_93 \<equiv> 0x93"
abbreviation (input) STY_zpg_X :: u8 where "STY_zpg_X \<equiv> 0x94"
abbreviation (input) STA_zpg_X :: u8 where "STA_zpg_X \<equiv> 0x95"
abbreviation (input) STX_zpg_Y :: u8 where "STX_zpg_Y \<equiv> 0x96"
abbreviation (input) UND_97 :: u8 where "UND_97 \<equiv> 0x97"
abbreviation (input) TYA :: u8 where "TYA \<equiv> 0x98"
abbreviation (input) STA_abs_Y :: u8 where "STA_abs_Y \<equiv> 0x99"
abbreviation (input) TXS :: u8 where "TXS \<equiv> 0x9A"
abbreviation (input) UND_9B :: u8 where "UND_9B \<equiv> 0x9B"
abbreviation (input) UND_9C :: u8 where "UND_9C \<equiv> 0x9C"
abbreviation (input) STA_abs_X :: u8 where "STA_abs_X \<equiv> 0x9D"
abbreviation (input) UND_9E :: u8 where "UND_9E \<equiv> 0x9E"
abbreviation (input) UND_9F :: u8 where "UND_9F \<equiv> 0x9F"
abbreviation (input) LDY_imm :: u8 where "LDY_imm \<equiv> 0xA0"
abbreviation (input) LDA_X_ind :: u8 where "LDA_X_ind \<equiv> 0xA1"
abbreviation (input) LDX_imm :: u8 where "LDX_imm \<equiv> 0xA2"
abbreviation (input) UND_A3 :: u8 where "UND_A3 \<equiv> 0xA3"
abbreviation (input) LDY_zpg :: u8 where "LDY_zpg \<equiv> 0xA4"
abbreviation (input) LDA_zpg :: u8 where "LDA_zpg \<equiv> 0xA5"
abbreviation (input) LDX_zpg :: u8 where "LDX_zpg \<equiv> 0xA6"
abbreviation (input) UND_A7 :: u8 where "UND_A7 \<equiv> 0xA7"
abbreviation (input) TAY :: u8 where "TAY \<equiv> 0xA8"
abbreviation (input) LDA_imm :: u8 where "LDA_imm \<equiv> 0xA9"
abbreviation (input) TAX :: u8 where "TAX \<equiv> 0xAA"
abbreviation (input) UND_AB :: u8 where "UND_AB \<equiv> 0xAB"
abbreviation (input) LDY_abs :: u8 where "LDY_abs \<equiv> 0xAC"
abbreviation (input) LDA_abs :: u8 where "LDA_abs \<equiv> 0xAD"
abbreviation (input) LDX_abs :: u8 where "LDX_abs \<equiv> 0xAE"
abbreviation (input) UND_AF :: u8 where "UND_AF \<equiv> 0xAF"
abbreviation (input) BCS_rel :: u8 where "BCS_rel \<equiv> 0xB0"
abbreviation (input) LDA_ind_Y :: u8 where "LDA_ind_Y \<equiv> 0xB1"
abbreviation (input) UND_B2 :: u8 where "UND_B2 \<equiv> 0xB2"
abbreviation (input) UND_B3 :: u8 where "UND_B3 \<equiv> 0xB3"
abbreviation (input) LDY_zpg_X :: u8 where "LDY_zpg_X \<equiv> 0xB4"
abbreviation (input) LDA_zpg_X :: u8 where "LDA_zpg_X \<equiv> 0xB5"
abbreviation (input) LDX_zpg_Y :: u8 where "LDX_zpg_Y \<equiv> 0xB6"
abbreviation (input) UND_B7 :: u8 where "UND_B7 \<equiv> 0xB7"
abbreviation (input) CLV :: u8 where "CLV \<equiv> 0xB8"
abbreviation (input) LDA_abs_Y :: u8 where "LDA_abs_Y \<equiv> 0xB9"
abbreviation (input) TSX :: u8 where "TSX \<equiv> 0xBA"
abbreviation (input) UND_BB :: u8 where "UND_BB \<equiv> 0xBB"
abbreviation (input) LDY_abs_X :: u8 where "LDY_abs_X \<equiv> 0xBC"
abbreviation (input) LDA_abs_X :: u8 where "LDA_abs_X \<equiv> 0xBD"
abbreviation (input) LDX_abs_Y :: u8 where "LDX_abs_Y \<equiv> 0xBE"
abbreviation (input) UND_BF :: u8 where "UND_BF \<equiv> 0xBF"
abbreviation (input) CPY_imm :: u8 where "CPY_imm \<equiv> 0xC0"
abbreviation (input) CMP_X_ind :: u8 where "CMP_X_ind \<equiv> 0xC1"
abbreviation (input) UND_C2 :: u8 where "UND_C2 \<equiv> 0xC2"
abbreviation (input) UND_C3 :: u8 where "UND_C3 \<equiv> 0xC3"
abbreviation (input) CPY_zpg :: u8 where "CPY_zpg \<equiv> 0xC4"
abbreviation (input) CMP_zpg :: u8 where "CMP_zpg \<equiv> 0xC5"
abbreviation (input) DEC_zpg :: u8 where "DEC_zpg \<equiv> 0xC6"
abbreviation (input) UND_C7 :: u8 where "UND_C7 \<equiv> 0xC7"
abbreviation (input) INY :: u8 where "INY \<equiv> 0xC8"
abbreviation (input) CMP_imm :: u8 where "CMP_imm \<equiv> 0xC9"
abbreviation (input) DEX :: u8 where "DEX \<equiv> 0xCA"
abbreviation (input) UND_CB :: u8 where "UND_CB \<equiv> 0xCB"
abbreviation (input) CPY_abs :: u8 where "CPY_abs \<equiv> 0xCC"
abbreviation (input) CMP_abs :: u8 where "CMP_abs \<equiv> 0xCD"
abbreviation (input) DEC_abs :: u8 where "DEC_abs \<equiv> 0xCE"
abbreviation (input) UND_CF :: u8 where "UND_CF \<equiv> 0xCF"
abbreviation (input) BNE_rel :: u8 where "BNE_rel \<equiv> 0xD0"
abbreviation (input) CMP_ind_Y :: u8 where "CMP_ind_Y \<equiv> 0xD1"
abbreviation (input) UND_D2 :: u8 where "UND_D2 \<equiv> 0xD2"
abbreviation (input) UND_D3 :: u8 where "UND_D3 \<equiv> 0xD3"
abbreviation (input) UND_D4 :: u8 where "UND_D4 \<equiv> 0xD4"
abbreviation (input) CMP_zpg_X :: u8 where "CMP_zpg_X \<equiv> 0xD5"
abbreviation (input) DEC_zpg_X :: u8 where "DEC_zpg_X \<equiv> 0xD6"
abbreviation (input) UND_D7 :: u8 where "UND_D7 \<equiv> 0xD7"
abbreviation (input) CLD :: u8 where "CLD \<equiv> 0xD8"
abbreviation (input) CMP_abs_Y :: u8 where "CMP_abs_Y \<equiv> 0xD9"
abbreviation (input) UND_DA :: u8 where "UND_DA \<equiv> 0xDA"
abbreviation (input) UND_DB :: u8 where "UND_DB \<equiv> 0xDB"
abbreviation (input) UND_DC :: u8 where "UND_DC \<equiv> 0xDC"
abbreviation (input) CMP_abs_X :: u8 where "CMP_abs_X \<equiv> 0xDD"
abbreviation (input) DEC_abs_X :: u8 where "DEC_abs_X \<equiv> 0xDE"
abbreviation (input) UND_DF :: u8 where "UND_DF \<equiv> 0xDF"
abbreviation (input) CPX_imm :: u8 where "CPX_imm \<equiv> 0xE0"
abbreviation (input) SBC_X_ind :: u8 where "SBC_X_ind \<equiv> 0xE1"
abbreviation (input) UND_E2 :: u8 where "UND_E2 \<equiv> 0xE2"
abbreviation (input) UND_E3 :: u8 where "UND_E3 \<equiv> 0xE3"
abbreviation (input) CPX_zpg :: u8 where "CPX_zpg \<equiv> 0xE4"
abbreviation (input) SBC_zpg :: u8 where "SBC_zpg \<equiv> 0xE5"
abbreviation (input) INC_zpg :: u8 where "INC_zpg \<equiv> 0xE6"
abbreviation (input) UND_E7 :: u8 where "UND_E7 \<equiv> 0xE7"
abbreviation (input) INX :: u8 where "INX \<equiv> 0xE8"
abbreviation (input) SBC_imm :: u8 where "SBC_imm \<equiv> 0xE9"
abbreviation (input) NOP :: u8 where "NOP \<equiv> 0xEA"
abbreviation (input) UND_EB :: u8 where "UND_EB \<equiv> 0xEB"
abbreviation (input) CPX_abs :: u8 where "CPX_abs \<equiv> 0xEC"
abbreviation (input) SBC_abs :: u8 where "SBC_abs \<equiv> 0xED"
abbreviation (input) INC_abs :: u8 where "INC_abs \<equiv> 0xEE"
abbreviation (input) UND_EF :: u8 where "UND_EF \<equiv> 0xEF"
abbreviation (input) BEQ_rel :: u8 where "BEQ_rel \<equiv> 0xF0"
abbreviation (input) SBC_ind_Y :: u8 where "SBC_ind_Y \<equiv> 0xF1"
abbreviation (input) UND_F2 :: u8 where "UND_F2 \<equiv> 0xF2"
abbreviation (input) UND_F3 :: u8 where "UND_F3 \<equiv> 0xF3"
abbreviation (input) UND_F4 :: u8 where "UND_F4 \<equiv> 0xF4"
abbreviation (input) SBC_zpg_X :: u8 where "SBC_zpg_X \<equiv> 0xF5"
abbreviation (input) INC_zpg_X :: u8 where "INC_zpg_X \<equiv> 0xF6"
abbreviation (input) UND_F7 :: u8 where "UND_F7 \<equiv> 0xF7"
abbreviation (input) SED :: u8 where "SED \<equiv> 0xF8"
abbreviation (input) SBC_abs_Y :: u8 where "SBC_abs_Y \<equiv> 0xF9"
abbreviation (input) UND_FA :: u8 where "UND_FA \<equiv> 0xFA"
abbreviation (input) UND_FB :: u8 where "UND_FB \<equiv> 0xFB"
abbreviation (input) UND_FC :: u8 where "UND_FC \<equiv> 0xFC"
abbreviation (input) SBC_abs_X :: u8 where "SBC_abs_X \<equiv> 0xFD"
abbreviation (input) INC_abs_X :: u8 where "INC_abs_X \<equiv> 0xFE"
abbreviation (input) UND_FF :: u8 where "UND_FF \<equiv> 0xFF"

section \<open>The dispatch table\<close>

definition exec_row_0 :: "('u C6510 \<Rightarrow> 'u C6510) list" where
  "exec_row_0 =
    [(\<lambda>m. c6510_brk (php (pc_lo_to_stack (pc_hi_to_stack (al_read_pc m))))), \<comment> \<open>00 BRK\<close>
     (\<lambda>m. ora_a16 (mixa m)), \<comment> \<open>01 ORA_X_ind\<close>
     (\<lambda>m. jam m), \<comment> \<open>02 UND_02: JAM/KIL\<close>
     (\<lambda>m. slo_a16 (sl_write_a16 (sl_read_a16 (mixa m)))), \<comment> \<open>03 UND_03: SLO\<close>
     (\<lambda>m. sl_read_a16 (al_read_pc m)), \<comment> \<open>04 UND_04: NOP zpg\<close>
     (\<lambda>m. ora_a16 (al_read_pc m)), \<comment> \<open>05 ORA_zpg\<close>
     (\<lambda>m. asl_a16 (mrw m)), \<comment> \<open>06 ASL_zpg\<close>
     (\<lambda>m. slo_a16 (mrw m)), \<comment> \<open>07 UND_07: SLO\<close>
     (\<lambda>m. php (read_pc m)), \<comment> \<open>08 PHP\<close>
     (\<lambda>m. ora_imm m), \<comment> \<open>09 ORA_imm\<close>
     (\<lambda>m. asl_a m), \<comment> \<open>0A ASL_A\<close>
     (\<lambda>m. anc_imm m), \<comment> \<open>0B UND_0B: ANC #imm\<close>
     (\<lambda>m. sl_read_a16 (a_pipe m)), \<comment> \<open>0C TSB_abs: NOP abs\<close>
     (\<lambda>m. ora_a16 (a_pipe m)), \<comment> \<open>0D ORA_abs\<close>
     (\<lambda>m. asl_a16 (arw m)), \<comment> \<open>0E ASL_abs\<close>
     (\<lambda>m. slo_a16 (arw m))]"

definition exec_row_1 :: "('u C6510 \<Rightarrow> 'u C6510) list" where
  "exec_row_1 =
    [(\<lambda>m. bpl m), \<comment> \<open>10 BPL_rel\<close>
     (\<lambda>m. ora_a16 (miy m)), \<comment> \<open>11 ORA_ind_Y\<close>
     (\<lambda>m. jam m), \<comment> \<open>12 UND_12: JAM/KIL\<close>
     (\<lambda>m. slo_a16 (sl_write_a16 (sl_read_a16 (miyr m)))), \<comment> \<open>13 UND_13: SLO\<close>
     (\<lambda>m. sl_read_a16 (mix m)), \<comment> \<open>14 UND_14: NOP zpg,X\<close>
     (\<lambda>m. ora_a16 (mix m)), \<comment> \<open>15 ORA_zpg_X\<close>
     (\<lambda>m. asl_a16 (mixrw m)), \<comment> \<open>16 ASL_zpg_X\<close>
     (\<lambda>m. slo_a16 (mixrw m)), \<comment> \<open>17 UND_17: SLO\<close>
     (\<lambda>m. clc m), \<comment> \<open>18 CLC\<close>
     (\<lambda>m. ora_a16 (aiy m)), \<comment> \<open>19 ORA_abs_Y\<close>
     (\<lambda>m. read_pc m), \<comment> \<open>1A INA: NOP\<close>
     (\<lambda>m. slo_a16 (sl_write_a16 (sl_read_a16 (aiyr m)))), \<comment> \<open>1B UND_1B: SLO\<close>
     (\<lambda>m. sl_read_a16 (aix m)), \<comment> \<open>1C UND_1C: NOP abs,X\<close>
     (\<lambda>m. ora_a16 (aix m)), \<comment> \<open>1D ORA_abs_X\<close>
     (\<lambda>m. asl_a16 (aixr_sel m)), \<comment> \<open>1E ASL_abs_X\<close>
     (\<lambda>m. slo_a16 (aipxrw m))]"

definition exec_row_2 :: "('u C6510 \<Rightarrow> 'u C6510) list" where
  "exec_row_2 =
    [(\<lambda>m. jsr_a16 (pc_lo_to_stack (pc_hi_to_stack (read_sp (al_read_pc m))))), \<comment> \<open>20 JSR_abs\<close>
     (\<lambda>m. and_a16 (mixa m)), \<comment> \<open>21 AND_X_ind\<close>
     (\<lambda>m. jam m), \<comment> \<open>22 UND_22: JAM/KIL\<close>
     (\<lambda>m. rla_a16 (sl_write_a16 (sl_read_a16 (mixa m)))), \<comment> \<open>23 UND_23: RLA\<close>
     (\<lambda>m. bit_a16 (al_read_pc m)), \<comment> \<open>24 BIT_zpg\<close>
     (\<lambda>m. and_a16 (al_read_pc m)), \<comment> \<open>25 AND_zpg\<close>
     (\<lambda>m. rol_a16 (mrw m)), \<comment> \<open>26 ROL_zpg\<close>
     (\<lambda>m. rla_a16 (mrw m)), \<comment> \<open>27 UND_27: RLA\<close>
     (\<lambda>m. plp (read_sp (read_pc m))), \<comment> \<open>28 PLP\<close>
     (\<lambda>m. and_imm m), \<comment> \<open>29 AND_imm\<close>
     (\<lambda>m. rol_a m), \<comment> \<open>2A ROL_A\<close>
     (\<lambda>m. anc_imm m), \<comment> \<open>2B UND_2B: ANC #imm\<close>
     (\<lambda>m. bit_a16 (a_pipe m)), \<comment> \<open>2C BIT_abs\<close>
     (\<lambda>m. and_a16 (a_pipe m)), \<comment> \<open>2D AND_abs\<close>
     (\<lambda>m. rol_a16 (arw m)), \<comment> \<open>2E ROL_abs\<close>
     (\<lambda>m. rla_a16 (arw m))]"

definition exec_row_3 :: "('u C6510 \<Rightarrow> 'u C6510) list" where
  "exec_row_3 =
    [(\<lambda>m. bmi m), \<comment> \<open>30 BMI_rel\<close>
     (\<lambda>m. and_a16 (miy m)), \<comment> \<open>31 AND_ind_Y\<close>
     (\<lambda>m. jam m), \<comment> \<open>32 UND_32: JAM/KIL\<close>
     (\<lambda>m. rla_a16 (sl_write_a16 (sl_read_a16 (miyr m)))), \<comment> \<open>33 UND_33: RLA\<close>
     (\<lambda>m. sl_read_a16 (mix m)), \<comment> \<open>34 UND_34: NOP zpg,X\<close>
     (\<lambda>m. and_a16 (mix m)), \<comment> \<open>35 AND_zpg_X\<close>
     (\<lambda>m. rol_a16 (mixrw m)), \<comment> \<open>36 ROL_zpg_X\<close>
     (\<lambda>m. rla_a16 (mixrw m)), \<comment> \<open>37 UND_37: RLA\<close>
     (\<lambda>m. sec m), \<comment> \<open>38 SEC\<close>
     (\<lambda>m. and_a16 (aiy m)), \<comment> \<open>39 AND_abs_Y\<close>
     (\<lambda>m. read_pc m), \<comment> \<open>3A UND_3A: NOP\<close>
     (\<lambda>m. rla_a16 (sl_write_a16 (sl_read_a16 (aiyr m)))), \<comment> \<open>3B UND_3B: RLA\<close>
     (\<lambda>m. sl_read_a16 (aix m)), \<comment> \<open>3C UND_3C: NOP abs,X\<close>
     (\<lambda>m. and_a16 (aix m)), \<comment> \<open>3D AND_abs_X\<close>
     (\<lambda>m. rol_a16 (aixr_sel m)), \<comment> \<open>3E ROL_abs_X\<close>
     (\<lambda>m. rla_a16 (aipxrw m))]"

definition exec_row_4 :: "('u C6510 \<Rightarrow> 'u C6510) list" where
  "exec_row_4 =
    [(\<lambda>m. rti (al_from_stack (p_from_stack (read_sp (read_pc m))))), \<comment> \<open>40 RTI\<close>
     (\<lambda>m. eor_a16 (mixa m)), \<comment> \<open>41 EOR_X_ind\<close>
     (\<lambda>m. jam m), \<comment> \<open>42 UND_42: JAM/KIL\<close>
     (\<lambda>m. sre_a16 (sl_write_a16 (sl_read_a16 (mixa m)))), \<comment> \<open>43 UND_43: SRE\<close>
     (\<lambda>m. sl_read_a16 (al_read_pc m)), \<comment> \<open>44 UND_44: NOP zpg\<close>
     (\<lambda>m. eor_a16 (al_read_pc m)), \<comment> \<open>45 EOR_zpg\<close>
     (\<lambda>m. lsr_a16 (mrw m)), \<comment> \<open>46 LSR_zpg\<close>
     (\<lambda>m. sre_a16 (mrw m)), \<comment> \<open>47 UND_47: SRE\<close>
     (\<lambda>m. pha (read_pc m)), \<comment> \<open>48 PHA\<close>
     (\<lambda>m. eor_imm m), \<comment> \<open>49 EOR_imm\<close>
     (\<lambda>m. lsr_a m), \<comment> \<open>4A LSR_A\<close>
     (\<lambda>m. alr_imm m), \<comment> \<open>4B UND_4B: ALR #imm\<close>
     (\<lambda>m. jmp_a16 (a_pipe m)), \<comment> \<open>4C JMP_abs\<close>
     (\<lambda>m. eor_a16 (a_pipe m)), \<comment> \<open>4D EOR_abs\<close>
     (\<lambda>m. lsr_a16 (arw m)), \<comment> \<open>4E LSR_abs\<close>
     (\<lambda>m. sre_a16 (arw m))]"

definition exec_row_5 :: "('u C6510 \<Rightarrow> 'u C6510) list" where
  "exec_row_5 =
    [(\<lambda>m. bvc m), \<comment> \<open>50 BVC_rel\<close>
     (\<lambda>m. eor_a16 (miy m)), \<comment> \<open>51 EOR_ind_Y\<close>
     (\<lambda>m. jam m), \<comment> \<open>52 UND_52: JAM/KIL\<close>
     (\<lambda>m. sre_a16 (sl_write_a16 (sl_read_a16 (miyr m)))), \<comment> \<open>53 UND_53: SRE\<close>
     (\<lambda>m. sl_read_a16 (mix m)), \<comment> \<open>54 UND_54: NOP zpg,X\<close>
     (\<lambda>m. eor_a16 (mix m)), \<comment> \<open>55 EOR_zpg_X\<close>
     (\<lambda>m. lsr_a16 (mixrw m)), \<comment> \<open>56 LSR_zpg_X\<close>
     (\<lambda>m. sre_a16 (mixrw m)), \<comment> \<open>57 UND_57: SRE\<close>
     (\<lambda>m. cli m), \<comment> \<open>58 CLI\<close>
     (\<lambda>m. eor_a16 (aiy m)), \<comment> \<open>59 EOR_abs_Y\<close>
     (\<lambda>m. read_pc m), \<comment> \<open>5A UND_5A: NOP\<close>
     (\<lambda>m. sre_a16 (sl_write_a16 (sl_read_a16 (aiyr m)))), \<comment> \<open>5B UND_5B: SRE\<close>
     (\<lambda>m. sl_read_a16 (aix m)), \<comment> \<open>5C UND_5C: NOP abs,X\<close>
     (\<lambda>m. eor_a16 (aix m)), \<comment> \<open>5D EOR_abs_X\<close>
     (\<lambda>m. lsr_a16 (aixr_sel m)), \<comment> \<open>5E LSR_abs_X\<close>
     (\<lambda>m. sre_a16 (aipxrw m))]"

definition exec_row_6 :: "('u C6510 \<Rightarrow> 'u C6510) list" where
  "exec_row_6 =
    [(\<lambda>m. rts (ah_from_stack (al_from_stack (read_sp (read_pc m))))), \<comment> \<open>60 RTS\<close>
     (\<lambda>m. adc_a16 (mixa m)), \<comment> \<open>61 ADC_X_ind\<close>
     (\<lambda>m. jam m), \<comment> \<open>62 UND_62: JAM/KIL\<close>
     (\<lambda>m. rra_a16 (sl_write_a16 (sl_read_a16 (mixa m)))), \<comment> \<open>63 UND_63: RRA\<close>
     (\<lambda>m. sl_read_a16 (al_read_pc m)), \<comment> \<open>64 UND_64: NOP zpg\<close>
     (\<lambda>m. adc_a16 (al_read_pc m)), \<comment> \<open>65 ADC_zpg\<close>
     (\<lambda>m. ror_a16 (mrw m)), \<comment> \<open>66 ROR_zpg\<close>
     (\<lambda>m. rra_a16 (mrw m)), \<comment> \<open>67 UND_67: RRA\<close>
     (\<lambda>m. pla (read_sp (read_pc m))), \<comment> \<open>68 PLA\<close>
     (\<lambda>m. adc_imm m), \<comment> \<open>69 ADC_imm\<close>
     (\<lambda>m. ror_a m), \<comment> \<open>6A ROR_A\<close>
     (\<lambda>m. arr_imm m), \<comment> \<open>6B UND_6B: ARR #imm\<close>
     (\<lambda>m. jmp_ind (ar m)), \<comment> \<open>6C JMP_ind\<close>
     (\<lambda>m. adc_a16 (a_pipe m)), \<comment> \<open>6D ADC_abs\<close>
     (\<lambda>m. ror_a16 (arw m)), \<comment> \<open>6E ROR_abs\<close>
     (\<lambda>m. rra_a16 (arw m))]"

definition exec_row_7 :: "('u C6510 \<Rightarrow> 'u C6510) list" where
  "exec_row_7 =
    [(\<lambda>m. bvs m), \<comment> \<open>70 BVS_rel\<close>
     (\<lambda>m. adc_a16 (miy m)), \<comment> \<open>71 ADC_ind_Y\<close>
     (\<lambda>m. jam m), \<comment> \<open>72 UND_72: JAM/KIL\<close>
     (\<lambda>m. rra_a16 (sl_write_a16 (sl_read_a16 (miyr m)))), \<comment> \<open>73 UND_73: RRA\<close>
     (\<lambda>m. sl_read_a16 (mix m)), \<comment> \<open>74 UND_74: NOP zpg,X\<close>
     (\<lambda>m. adc_a16 (mix m)), \<comment> \<open>75 ADC_zpg_X\<close>
     (\<lambda>m. ror_a16 (mixrw m)), \<comment> \<open>76 ROR_zpg_X\<close>
     (\<lambda>m. rra_a16 (mixrw m)), \<comment> \<open>77 UND_77: RRA\<close>
     (\<lambda>m. sei m), \<comment> \<open>78 SEI\<close>
     (\<lambda>m. adc_a16 (aiy m)), \<comment> \<open>79 ADC_abs_Y\<close>
     (\<lambda>m. read_pc m), \<comment> \<open>7A UND_7A: NOP\<close>
     (\<lambda>m. rra_a16 (sl_write_a16 (sl_read_a16 (aiyr m)))), \<comment> \<open>7B UND_7B: RRA\<close>
     (\<lambda>m. sl_read_a16 (aix m)), \<comment> \<open>7C UND_7C: NOP abs,X\<close>
     (\<lambda>m. adc_a16 (aix m)), \<comment> \<open>7D ADC_abs_X\<close>
     (\<lambda>m. ror_a16 (aixr_sel m)), \<comment> \<open>7E ROR_abs_X\<close>
     (\<lambda>m. rra_a16 (aipxrw m))]"

definition exec_row_8 :: "('u C6510 \<Rightarrow> 'u C6510) list" where
  "exec_row_8 =
    [(\<lambda>m. al_read_pc m), \<comment> \<open>80 UND_80: NOP #imm\<close>
     (\<lambda>m. sta_a16 (mixa m)), \<comment> \<open>81 STA_X_ind\<close>
     (\<lambda>m. al_read_pc m), \<comment> \<open>82 UND_82: NOP #imm\<close>
     (\<lambda>m. sax_a16 (mixa m)), \<comment> \<open>83 UND_83: SAX\<close>
     (\<lambda>m. sty_a16 (al_read_pc m)), \<comment> \<open>84 STY_zpg\<close>
     (\<lambda>m. sta_a16 (al_read_pc m)), \<comment> \<open>85 STA_zpg\<close>
     (\<lambda>m. stx_a16 (al_read_pc m)), \<comment> \<open>86 STX_zpg\<close>
     (\<lambda>m. sax_a16 (al_read_pc m)), \<comment> \<open>87 UND_87: SAX\<close>
     (\<lambda>m. dey m), \<comment> \<open>88 DEY\<close>
     (\<lambda>m. al_read_pc m), \<comment> \<open>89 UND_89: NOP #imm\<close>
     (\<lambda>m. txa m), \<comment> \<open>8A TXA\<close>
     (\<lambda>m. xaa_imm m), \<comment> \<open>8B UND_8B: XAA/ANE #imm\<close>
     (\<lambda>m. sty_a16 (a_pipe m)), \<comment> \<open>8C STY_abs\<close>
     (\<lambda>m. sta_a16 (a_pipe m)), \<comment> \<open>8D STA_abs\<close>
     (\<lambda>m. stx_a16 (a_pipe m)), \<comment> \<open>8E STX_abs\<close>
     (\<lambda>m. sax_a16 (a_pipe m))]"

definition exec_row_9 :: "('u C6510 \<Rightarrow> 'u C6510) list" where
  "exec_row_9 =
    [(\<lambda>m. bcc m), \<comment> \<open>90 BCC_rel\<close>
     (\<lambda>m. sta_a16 (miyr m)), \<comment> \<open>91 STA_ind_Y\<close>
     (\<lambda>m. jam m), \<comment> \<open>92 UND_92: JAM/KIL\<close>
     (\<lambda>m. ahx_a16 (miyr_und m)), \<comment> \<open>93 UND_93: AHX/SHA\<close>
     (\<lambda>m. sty_a16 (mix m)), \<comment> \<open>94 STY_zpg_X\<close>
     (\<lambda>m. sta_a16 (mix m)), \<comment> \<open>95 STA_zpg_X\<close>
     (\<lambda>m. stx_a16 (mizy m)), \<comment> \<open>96 STX_zpg_Y\<close>
     (\<lambda>m. sax_a16 (mizy m)), \<comment> \<open>97 UND_97: SAX\<close>
     (\<lambda>m. tya m), \<comment> \<open>98 TYA\<close>
     (\<lambda>m. sta_a16 (aiyr m)), \<comment> \<open>99 STA_abs_Y\<close>
     (\<lambda>m. txs m), \<comment> \<open>9A TXS\<close>
     (\<lambda>m. shs_a16 (aiyr_und m)), \<comment> \<open>9B UND_9B: SHS/TAS\<close>
     (\<lambda>m. shy_a16 (aipxr_und m)), \<comment> \<open>9C UND_9C: SHY\<close>
     (\<lambda>m. sta_a16 (aipxr m)), \<comment> \<open>9D STA_abs_X\<close>
     (\<lambda>m. shx_a16 (aiyr_und m)), \<comment> \<open>9E UND_9E: SHX\<close>
     (\<lambda>m. ahx_a16 (aiyr_und m))]"

definition exec_row_A :: "('u C6510 \<Rightarrow> 'u C6510) list" where
  "exec_row_A =
    [(\<lambda>m. ldy_imm m), \<comment> \<open>A0 LDY_imm\<close>
     (\<lambda>m. lda_a16 (mixa m)), \<comment> \<open>A1 LDA_X_ind\<close>
     (\<lambda>m. ldx_imm m), \<comment> \<open>A2 LDX_imm\<close>
     (\<lambda>m. lax_a16 (mixa m)), \<comment> \<open>A3 UND_A3: LAX\<close>
     (\<lambda>m. ldy_a16 (al_read_pc m)), \<comment> \<open>A4 LDY_zpg\<close>
     (\<lambda>m. lda_a16 (al_read_pc m)), \<comment> \<open>A5 LDA_zpg\<close>
     (\<lambda>m. ldx_a16 (al_read_pc m)), \<comment> \<open>A6 LDX_zpg\<close>
     (\<lambda>m. lax_a16 (al_read_pc m)), \<comment> \<open>A7 UND_A7: LAX\<close>
     (\<lambda>m. tay m), \<comment> \<open>A8 TAY\<close>
     (\<lambda>m. lda_imm m), \<comment> \<open>A9 LDA_imm\<close>
     (\<lambda>m. tax m), \<comment> \<open>AA TAX\<close>
     (\<lambda>m. lax_imm_und m), \<comment> \<open>AB UND_AB: LAX #imm\<close>
     (\<lambda>m. ldy_a16 (a_pipe m)), \<comment> \<open>AC LDY_abs\<close>
     (\<lambda>m. lda_a16 (a_pipe m)), \<comment> \<open>AD LDA_abs\<close>
     (\<lambda>m. ldx_a16 (a_pipe m)), \<comment> \<open>AE LDX_abs\<close>
     (\<lambda>m. lax_a16 (a_pipe m))]"

definition exec_row_B :: "('u C6510 \<Rightarrow> 'u C6510) list" where
  "exec_row_B =
    [(\<lambda>m. bcs m), \<comment> \<open>B0 BCS_rel\<close>
     (\<lambda>m. lda_a16 (miy m)), \<comment> \<open>B1 LDA_ind_Y\<close>
     (\<lambda>m. jam m), \<comment> \<open>B2 UND_B2: JAM/KIL\<close>
     (\<lambda>m. lax_a16 (miy m)), \<comment> \<open>B3 UND_B3: LAX\<close>
     (\<lambda>m. ldy_a16 (mix m)), \<comment> \<open>B4 LDY_zpg_X\<close>
     (\<lambda>m. lda_a16 (mix m)), \<comment> \<open>B5 LDA_zpg_X\<close>
     (\<lambda>m. ldx_a16 (mizy m)), \<comment> \<open>B6 LDX_zpg_Y\<close>
     (\<lambda>m. lax_a16 (mizy m)), \<comment> \<open>B7 UND_B7: LAX\<close>
     (\<lambda>m. clv m), \<comment> \<open>B8 CLV\<close>
     (\<lambda>m. lda_a16 (aiy m)), \<comment> \<open>B9 LDA_abs_Y\<close>
     (\<lambda>m. tsx m), \<comment> \<open>BA TSX\<close>
     (\<lambda>m. las_a16 (aiy m)), \<comment> \<open>BB UND_BB: LAS/LAR\<close>
     (\<lambda>m. ldy_a16 (aix m)), \<comment> \<open>BC LDY_abs_X\<close>
     (\<lambda>m. lda_a16 (aix m)), \<comment> \<open>BD LDA_abs_X\<close>
     (\<lambda>m. ldx_a16 (aiy m)), \<comment> \<open>BE LDX_abs_Y\<close>
     (\<lambda>m. lax_a16 (aiy m))]"

definition exec_row_C :: "('u C6510 \<Rightarrow> 'u C6510) list" where
  "exec_row_C =
    [(\<lambda>m. cpy_imm m), \<comment> \<open>C0 CPY_imm\<close>
     (\<lambda>m. cmp_a16 (mixa m)), \<comment> \<open>C1 CMP_X_ind\<close>
     (\<lambda>m. al_read_pc m), \<comment> \<open>C2 UND_C2: NOP #imm\<close>
     (\<lambda>m. dcp_a16 (sl_write_a16 (sl_read_a16 (mixa m)))), \<comment> \<open>C3 UND_C3: DCP\<close>
     (\<lambda>m. cpy_a16 (al_read_pc m)), \<comment> \<open>C4 CPY_zpg\<close>
     (\<lambda>m. cmp_a16 (al_read_pc m)), \<comment> \<open>C5 CMP_zpg\<close>
     (\<lambda>m. dec_a16 (mrw m)), \<comment> \<open>C6 DEC_zpg\<close>
     (\<lambda>m. dcp_a16 (mrw m)), \<comment> \<open>C7 UND_C7: DCP\<close>
     (\<lambda>m. iny m), \<comment> \<open>C8 INY\<close>
     (\<lambda>m. cmp_imm m), \<comment> \<open>C9 CMP_imm\<close>
     (\<lambda>m. dex m), \<comment> \<open>CA DEX\<close>
     (\<lambda>m. axs_imm m), \<comment> \<open>CB UND_CB: AXS/SBX #imm\<close>
     (\<lambda>m. cpy_a16 (a_pipe m)), \<comment> \<open>CC CPY_abs\<close>
     (\<lambda>m. cmp_a16 (a_pipe m)), \<comment> \<open>CD CMP_abs\<close>
     (\<lambda>m. dec_a16 (arw m)), \<comment> \<open>CE DEC_abs\<close>
     (\<lambda>m. dcp_a16 (arw m))]"

definition exec_row_D :: "('u C6510 \<Rightarrow> 'u C6510) list" where
  "exec_row_D =
    [(\<lambda>m. bne m), \<comment> \<open>D0 BNE_rel\<close>
     (\<lambda>m. cmp_a16 (miy m)), \<comment> \<open>D1 CMP_ind_Y\<close>
     (\<lambda>m. jam m), \<comment> \<open>D2 UND_D2: JAM/KIL\<close>
     (\<lambda>m. dcp_a16 (sl_write_a16 (sl_read_a16 (miyr m)))), \<comment> \<open>D3 UND_D3: DCP\<close>
     (\<lambda>m. sl_read_a16 (mix m)), \<comment> \<open>D4 UND_D4: NOP zpg,X\<close>
     (\<lambda>m. cmp_a16 (mix m)), \<comment> \<open>D5 CMP_zpg_X\<close>
     (\<lambda>m. dec_a16 (mixrw m)), \<comment> \<open>D6 DEC_zpg_X\<close>
     (\<lambda>m. dcp_a16 (mixrw m)), \<comment> \<open>D7 UND_D7: DCP\<close>
     (\<lambda>m. cld m), \<comment> \<open>D8 CLD\<close>
     (\<lambda>m. cmp_a16 (aiy m)), \<comment> \<open>D9 CMP_abs_Y\<close>
     (\<lambda>m. read_pc m), \<comment> \<open>DA UND_DA: NOP\<close>
     (\<lambda>m. dcp_a16 (sl_write_a16 (sl_read_a16 (aiyr m)))), \<comment> \<open>DB UND_DB: DCP\<close>
     (\<lambda>m. sl_read_a16 (aix m)), \<comment> \<open>DC UND_DC: NOP abs,X\<close>
     (\<lambda>m. cmp_a16 (aix m)), \<comment> \<open>DD CMP_abs_X\<close>
     (\<lambda>m. dec_a16 (aipxrw m)), \<comment> \<open>DE DEC_abs_X\<close>
     (\<lambda>m. dcp_a16 (aipxrw m))]"

definition exec_row_E :: "('u C6510 \<Rightarrow> 'u C6510) list" where
  "exec_row_E =
    [(\<lambda>m. cpx_imm m), \<comment> \<open>E0 CPX_imm\<close>
     (\<lambda>m. sbc_a16 (mixa m)), \<comment> \<open>E1 SBC_X_ind\<close>
     (\<lambda>m. al_read_pc m), \<comment> \<open>E2 UND_E2: NOP #imm\<close>
     (\<lambda>m. isc_a16 (sl_write_a16 (sl_read_a16 (mixa m)))), \<comment> \<open>E3 UND_E3: ISC/ISB\<close>
     (\<lambda>m. cpx_a16 (al_read_pc m)), \<comment> \<open>E4 CPX_zpg\<close>
     (\<lambda>m. sbc_a16 (al_read_pc m)), \<comment> \<open>E5 SBC_zpg\<close>
     (\<lambda>m. inc_a16 (mrw m)), \<comment> \<open>E6 INC_zpg\<close>
     (\<lambda>m. isc_a16 (mrw m)), \<comment> \<open>E7 UND_E7: ISC/ISB\<close>
     (\<lambda>m. inx m), \<comment> \<open>E8 INX\<close>
     (\<lambda>m. sbc_imm m), \<comment> \<open>E9 SBC_imm\<close>
     (\<lambda>m. read_pc m), \<comment> \<open>EA NOP\<close>
     (\<lambda>m. sbc_imm m), \<comment> \<open>EB UND_EB: SBC #imm\<close>
     (\<lambda>m. cpx_a16 (a_pipe m)), \<comment> \<open>EC CPX_abs\<close>
     (\<lambda>m. sbc_a16 (a_pipe m)), \<comment> \<open>ED SBC_abs\<close>
     (\<lambda>m. inc_a16 (arw m)), \<comment> \<open>EE INC_abs\<close>
     (\<lambda>m. isc_a16 (arw m))]"

definition exec_row_F :: "('u C6510 \<Rightarrow> 'u C6510) list" where
  "exec_row_F =
    [(\<lambda>m. beq m), \<comment> \<open>F0 BEQ_rel\<close>
     (\<lambda>m. sbc_a16 (miy m)), \<comment> \<open>F1 SBC_ind_Y\<close>
     (\<lambda>m. jam m), \<comment> \<open>F2 UND_F2: JAM/KIL\<close>
     (\<lambda>m. isc_a16 (sl_write_a16 (sl_read_a16 (miyr m)))), \<comment> \<open>F3 UND_F3: ISC/ISB\<close>
     (\<lambda>m. sl_read_a16 (mix m)), \<comment> \<open>F4 UND_F4: NOP zpg,X\<close>
     (\<lambda>m. sbc_a16 (mix m)), \<comment> \<open>F5 SBC_zpg_X\<close>
     (\<lambda>m. inc_a16 (mixrw m)), \<comment> \<open>F6 INC_zpg_X\<close>
     (\<lambda>m. isc_a16 (mixrw m)), \<comment> \<open>F7 UND_F7: ISC/ISB\<close>
     (\<lambda>m. sed m), \<comment> \<open>F8 SED\<close>
     (\<lambda>m. sbc_a16 (aiy m)), \<comment> \<open>F9 SBC_abs_Y\<close>
     (\<lambda>m. read_pc m), \<comment> \<open>FA UND_FA: NOP\<close>
     (\<lambda>m. isc_a16 (sl_write_a16 (sl_read_a16 (aiyr m)))), \<comment> \<open>FB UND_FB: ISC/ISB\<close>
     (\<lambda>m. sl_read_a16 (aix m)), \<comment> \<open>FC UND_FC: NOP abs,X\<close>
     (\<lambda>m. sbc_a16 (aix m)), \<comment> \<open>FD SBC_abs_X\<close>
     (\<lambda>m. inc_a16 (aipxrw m)), \<comment> \<open>FE INC_abs_X\<close>
     (\<lambda>m. isc_a16 (aipxrw m))]"

definition exec_table :: "('u C6510 \<Rightarrow> 'u C6510) list list" where
  "exec_table =
    [exec_row_0, exec_row_1, exec_row_2, exec_row_3, exec_row_4, exec_row_5, exec_row_6,
     exec_row_7, exec_row_8, exec_row_9, exec_row_A, exec_row_B, exec_row_C, exec_row_D,
     exec_row_E, exec_row_F]"

definition exec_opcode :: "u8 \<Rightarrow> 'u C6510 \<Rightarrow> 'u C6510" where
  "exec_opcode opcode = exec_table ! unat (drop_bit 4 opcode) ! unat (opcode AND 0x0F)"

lemmas exec_rows =
  exec_row_0_def exec_row_1_def exec_row_2_def exec_row_3_def exec_row_4_def exec_row_5_def
  exec_row_6_def exec_row_7_def exec_row_8_def exec_row_9_def exec_row_A_def exec_row_B_def
  exec_row_C_def exec_row_D_def exec_row_E_def exec_row_F_def

section \<open>One instruction\<close>

definition fetch_opcode :: "'u C6510 \<Rightarrow> u8 \<times> 'u C6510" where
  "fetch_opcode m =
     (let m = m\<lparr>opcode_pc := pc m, opcode_active := True\<rparr>;
          (opcode, m) = read_opcode m (pc m);
          m = CYCLE m
      in (opcode, m\<lparr>pc := pc m + 1\<rparr>))"

definition c6510_step :: "'u C6510 \<Rightarrow> u64 \<times> 'u C6510" where
  "c6510_step m =
     (let start_cycle = cycles m;
          m = m\<lparr>opcode_active := False\<rparr>;
          (taken, m) = c6510_take_nmi_if_pending m
      in if taken then (cycles m - start_cycle, m)
         else
           (let (taken, m) = c6510_take_irq_if_pending m
            in if taken then (cycles m - start_cycle, m)
               else
                 (let (opcode, m) = fetch_opcode m;
                      m = exec_opcode opcode m
                  in (cycles m - start_cycle, m))))"

end
