(* ===== verification/C6510_Micro.thy ===== *)
theory C6510_Micro
  imports C6510_Step
begin

text \<open>
  The resumable executor of \<^verbatim>\<open>src/src/c64/machine/c6510.c\<close>: \<^verbatim>\<open>c6510_micro_step\<close> performs one
  bus cycle per call, so the machine can hold the processor between any two cycles. The
  big \<^verbatim>\<open>switch\<close> is one definition per group of case labels; every group returns whether
  the instruction is complete. \<^verbatim>\<open>m->micro_phase++; return false\<close> is \<open>micro_wait\<close> and
  \<^verbatim>\<open>break\<close> is \<open>micro_done\<close>.
\<close>

section \<open>Opcode classes\<close>

datatype c6510_op_class = OP_NONE | OP_DOC | OP_UND_PRACTICAL | OP_UND_NOP

definition c6510_micro_is_practical_undocumented :: "u8 \<Rightarrow> bool" where
  "c6510_micro_is_practical_undocumented opcode \<longleftrightarrow> opcode \<in> {
      UND_03, UND_07, UND_0F, UND_13, UND_17, UND_1B, UND_1F, UND_23, UND_27, UND_2F,
      UND_33, UND_37, UND_3B, UND_3F, UND_43, UND_47, UND_4F, UND_53, UND_57, UND_5B,
      UND_5F, UND_63, UND_67, UND_6F, UND_73, UND_77, UND_7B, UND_7F, UND_C3, UND_C7,
      UND_CF, UND_D3, UND_D7, UND_DB, UND_DF, UND_E3, UND_E7, UND_EF, UND_F3, UND_F7,
      UND_FB, UND_FF, UND_A3, UND_A7, UND_AF, UND_B3, UND_B7, UND_BF, UND_83, UND_87,
      UND_8F, UND_97}"

definition c6510_micro_is_undocumented_nop :: "u8 \<Rightarrow> bool" where
  "c6510_micro_is_undocumented_nop opcode \<longleftrightarrow>
     opcode \<in> {UND_44, UND_80, UND_1C, UND_FC, UND_0C}"

definition micro_documented_opcodes :: "u8 set" where
  "micro_documented_opcodes = {
      NOP, LDA_imm, LDX_imm, LDY_imm, UND_0B, UND_2B, UND_CB, UND_4B, LDA_abs, LDX_abs,
      LDY_abs, STA_abs, STX_abs, STY_abs, JMP_abs, JMP_ind, BPL_rel, BMI_rel, BVC_rel,
      BVS_rel, BCC_rel, BCS_rel, BNE_rel, BEQ_rel, JSR_abs, RTS, ORA_imm, AND_imm,
      EOR_imm, ADC_imm, SBC_imm, CMP_imm, CPX_imm, CPY_imm, CLC, SEC, CLI, SEI, CLD, SED,
      CLV, INX, INY, DEX, DEY, TAX, TAY, TXA, TYA, TSX, TXS, ASL_A, ROL_A, LSR_A, ROR_A,
      PHA, PHP, PLA, PLP, RTI, BRK, LDA_zpg, LDX_zpg, LDY_zpg, STA_zpg, STX_zpg, STY_zpg,
      ORA_zpg, AND_zpg, EOR_zpg, ADC_zpg, SBC_zpg, CMP_zpg, CPX_zpg, CPY_zpg, BIT_zpg,
      BIT_abs, ORA_abs, AND_abs, EOR_abs, ADC_abs, SBC_abs, CMP_abs, CPX_abs, CPY_abs,
      ORA_zpg_X, AND_zpg_X, EOR_zpg_X, ADC_zpg_X, SBC_zpg_X, CMP_zpg_X, ORA_abs_X,
      ORA_abs_Y, ORA_X_ind, ORA_ind_Y, AND_abs_X, AND_abs_Y, AND_X_ind, AND_ind_Y,
      EOR_abs_X, EOR_abs_Y, EOR_X_ind, EOR_ind_Y, ADC_abs_X, ADC_abs_Y, ADC_X_ind,
      ADC_ind_Y, SBC_abs_X, SBC_abs_Y, SBC_X_ind, SBC_ind_Y, CMP_abs_X, CMP_abs_Y,
      CMP_X_ind, CMP_ind_Y, LDA_X_ind, STA_X_ind, LDA_ind_Y, STA_ind_Y, LDA_zpg_X,
      LDX_zpg_Y, LDY_zpg_X, STA_zpg_X, STX_zpg_Y, STY_zpg_X, LDA_abs_X, LDA_abs_Y,
      LDX_abs_Y, LDY_abs_X, STA_abs_X, STA_abs_Y, ASL_zpg, ROL_zpg, LSR_zpg, ROR_zpg,
      DEC_zpg, INC_zpg, ASL_abs, ROL_abs, LSR_abs, ROR_abs, DEC_abs, INC_abs, ASL_zpg_X,
      ROL_zpg_X, LSR_zpg_X, ROR_zpg_X, DEC_zpg_X, INC_zpg_X, ASL_abs_X, ROL_abs_X,
      LSR_abs_X, ROR_abs_X, DEC_abs_X, INC_abs_X}"

text \<open>
  The class table is filled once: first the undocumented families, then the documented
  marks, which overwrite.
\<close>

definition c6510_micro_op_class :: "u8 \<Rightarrow> c6510_op_class" where
  "c6510_micro_op_class opcode =
     (if opcode \<in> micro_documented_opcodes then OP_DOC
      else if c6510_micro_is_practical_undocumented opcode then OP_UND_PRACTICAL
      else if c6510_micro_is_undocumented_nop opcode then OP_UND_NOP
      else OP_NONE)"

definition c6510_micro_is_undocumented_rmw :: "u8 \<Rightarrow> bool" where
  "c6510_micro_is_undocumented_rmw opcode \<longleftrightarrow> opcode \<in> {
      UND_03, UND_07, UND_0F, UND_13, UND_17, UND_1B, UND_1F, UND_23, UND_27, UND_2F,
      UND_33, UND_37, UND_3B, UND_3F, UND_43, UND_47, UND_4F, UND_53, UND_57, UND_5B,
      UND_5F, UND_63, UND_67, UND_6F, UND_73, UND_77, UND_7B, UND_7F, UND_C3, UND_C7,
      UND_CF, UND_D3, UND_D7, UND_DB, UND_DF, UND_E3, UND_E7, UND_EF, UND_F3, UND_F7,
      UND_FB, UND_FF}"

definition c6510_micro_is_lax :: "u8 \<Rightarrow> bool" where
  "c6510_micro_is_lax opcode \<longleftrightarrow> opcode \<in> {UND_A3, UND_A7, UND_AF, UND_B3, UND_B7, UND_BF}"

definition c6510_micro_undoc_uses_y_index :: "u8 \<Rightarrow> bool" where
  "c6510_micro_undoc_uses_y_index opcode \<longleftrightarrow> opcode = UND_97 \<or> opcode = UND_B7"

datatype c6510_undocumented_mode =
    UND_MODE_X_IND | UND_MODE_ZP | UND_MODE_ABS | UND_MODE_IND_Y
  | UND_MODE_ZP_INDEXED | UND_MODE_ABS_Y | UND_MODE_ABS_X

definition c6510_micro_undocumented_mode :: "u8 \<Rightarrow> c6510_undocumented_mode" where
  "c6510_micro_undocumented_mode opcode =
     (if opcode = UND_BF then UND_MODE_ABS_Y
      else let column = opcode AND 0x1F in
        if column = 0x03 then UND_MODE_X_IND
        else if column = 0x07 then UND_MODE_ZP
        else if column = 0x0F then UND_MODE_ABS
        else if column = 0x13 then UND_MODE_IND_Y
        else if column = 0x17 then UND_MODE_ZP_INDEXED
        else if column = 0x1B then UND_MODE_ABS_Y
        else UND_MODE_ABS_X)"

definition c6510_micro_can_begin :: "'u C6510 \<Rightarrow> u8 \<Rightarrow> bool" where
  "c6510_micro_can_begin m opcode \<longleftrightarrow> c6510_micro_op_class opcode \<noteq> OP_NONE"

section \<open>Beginning an instruction or an interrupt sequence\<close>

definition c6510_micro_begin :: "'u C6510 \<Rightarrow> 'u C6510" where
  "c6510_micro_begin m =
     m\<lparr>opcode_pc := pc m, opcode_active := True, micro_active := True, micro_opcode := 0,
       micro_phase := 0, micro_branch_taken := False, micro_target := 0,
       micro_interrupt_vector := 0, micro_is_interrupt := False\<rparr>"

definition c6510_micro_begin_interrupt :: "c6510_interrupt_kind \<Rightarrow> 'u C6510 \<Rightarrow> 'u C6510" where
  "c6510_micro_begin_interrupt kind m =
     m\<lparr>opcode_pc := pc m, opcode_active := False, micro_active := True, micro_opcode := 0,
       micro_phase := 0, micro_branch_taken := False, micro_target := 0,
       micro_interrupt_vector := (if kind = INTERRUPT_NMI then 0xFFFA else 0xFFFE),
       micro_is_interrupt := True\<rparr>"

definition c6510_micro_poll_interrupt :: "'u C6510 \<Rightarrow> c6510_interrupt_kind \<times> 'u C6510" where
  "c6510_micro_poll_interrupt m =
     (let (nmi, m) = c6510_nmi_pending m
      in if nmi \<noteq> 0 then (INTERRUPT_NMI, m)
         else
           (let (pending, m) = c6510_irq_pending m;
                irq_disable = (if irq_defer m then irq_defer_i m else flag_I m)
            in if pending = 0 \<or> irq_disable
               then (INTERRUPT_NONE, if irq_defer m then m\<lparr>irq_defer := False\<rparr> else m)
               else (INTERRUPT_IRQ, if irq_defer m then m\<lparr>irq_defer := False\<rparr> else m)))"

section \<open>Operations on the operand\<close>

definition undocumented_rmw_value :: "'u C6510 \<Rightarrow> u8 \<times> 'u C6510" where
  [micro_ops]: "undocumented_rmw_value m =
     (let value = scratch_lo m;
          family = micro_opcode m AND 0xE0;
          (value, m) =
            (if family = 0x00 then
               (let m = m\<lparr>flag_C := (value AND 0x80) \<noteq> 0\<rparr>;
                    value = push_bit 1 value
                in (value, set_register_to_value A_reg (reg_A m OR value) m))
             else if family = 0x20 then
               (let carry = (value AND 0x80) \<noteq> 0;
                    value = push_bit 1 value OR of_flag (flag_C m);
                    m = m\<lparr>flag_C := carry\<rparr>
                in (value, set_register_to_value A_reg (reg_A m AND value) m))
             else if family = 0x40 then
               (let m = m\<lparr>flag_C := bit value 0\<rparr>;
                    value = drop_bit 1 value
                in (value, set_register_to_value A_reg (reg_A m XOR value) m))
             else if family = 0x60 then
               (let carry = bit value 0;
                    value = drop_bit 1 value OR push_bit 7 (of_flag (flag_C m));
                    m = m\<lparr>flag_C := carry\<rparr>
                in (value, add_value_to_accumulator value m))
             else if family = 0xC0 then
               (let value = value - 1 in (value, compare_bytes (reg_A m) value m))
             else
               (let value = value + 1 in (value, subtract_value_from_accumulator value m)))
      in (value, m\<lparr>scratch_hi := value\<rparr>))"

definition documented_rmw_value :: "'u C6510 \<Rightarrow> u8 \<times> 'u C6510" where
  [micro_ops]: "documented_rmw_value m =
     (let value = scratch_lo m;
          (value, m) =
            (if micro_opcode m \<in> {ASL_zpg, ASL_abs, ASL_zpg_X, ASL_abs_X} then
               (push_bit 1 value, m\<lparr>flag_C := (value AND 0x80) \<noteq> 0\<rparr>)
             else if micro_opcode m \<in> {ROL_zpg, ROL_abs, ROL_zpg_X, ROL_abs_X} then
               (push_bit 1 value OR of_flag (flag_C m), m\<lparr>flag_C := (value AND 0x80) \<noteq> 0\<rparr>)
             else if micro_opcode m \<in> {LSR_zpg, LSR_abs, LSR_zpg_X, LSR_abs_X} then
               (drop_bit 1 value, m\<lparr>flag_C := bit value 0\<rparr>)
             else if micro_opcode m \<in> {ROR_zpg, ROR_abs, ROR_zpg_X, ROR_abs_X} then
               (drop_bit 1 value OR push_bit 7 (of_flag (flag_C m)), m\<lparr>flag_C := bit value 0\<rparr>)
             else if micro_opcode m \<in> {DEC_zpg, DEC_abs, DEC_zpg_X, DEC_abs_X} then
               (value - 1, m)
             else (value + 1, m))
      in (value, set_register_to_value scratch_hi_reg value m))"

definition c6510_micro_rmw_value :: "'u C6510 \<Rightarrow> u8 \<times> 'u C6510" where
  "c6510_micro_rmw_value m =
     (if c6510_micro_is_undocumented_rmw (micro_opcode m) then undocumented_rmw_value m
      else documented_rmw_value m)"

text \<open>The default branch is an assertion of the source; the model leaves the machine alone.\<close>

definition c6510_micro_apply_read_operation :: "u8 \<Rightarrow> 'u C6510 \<Rightarrow> 'u C6510" where
  "c6510_micro_apply_read_operation value m =
     (let op = micro_opcode m in
      if op \<in> {ORA_zpg, ORA_abs, ORA_zpg_X, ORA_abs_X, ORA_abs_Y, ORA_X_ind, ORA_ind_Y} then
        set_register_to_value A_reg (reg_A m OR value) m
      else if op \<in> {AND_zpg, AND_abs, AND_zpg_X, AND_abs_X, AND_abs_Y, AND_X_ind, AND_ind_Y} then
        set_register_to_value A_reg (reg_A m AND value) m
      else if op \<in> {EOR_zpg, EOR_abs, EOR_zpg_X, EOR_abs_X, EOR_abs_Y, EOR_X_ind, EOR_ind_Y} then
        set_register_to_value A_reg (reg_A m XOR value) m
      else if op \<in> {ADC_zpg, ADC_abs, ADC_zpg_X, ADC_abs_X, ADC_abs_Y, ADC_X_ind, ADC_ind_Y} then
        add_value_to_accumulator value m
      else if op \<in> {SBC_zpg, SBC_abs, SBC_zpg_X, SBC_abs_X, SBC_abs_Y, SBC_X_ind, SBC_ind_Y} then
        subtract_value_from_accumulator value m
      else if op \<in> {CMP_zpg, CMP_abs, CMP_zpg_X, CMP_abs_X, CMP_abs_Y, CMP_X_ind, CMP_ind_Y} then
        compare_bytes (reg_A m) value m
      else if op \<in> {CPX_zpg, CPX_abs} then compare_bytes (reg_X m) value m
      else if op \<in> {CPY_zpg, CPY_abs} then compare_bytes (reg_Y m) value m
      else if op \<in> {BIT_zpg, BIT_abs} then
        m\<lparr>flag_Z := (reg_A m AND value) = 0, flag_N := (value AND 0x80) \<noteq> 0,
          flag_V := (value AND 0x40) \<noteq> 0\<rparr>
      else m)"

definition c6510_micro_uses_y_index :: "u8 \<Rightarrow> bool" where
  "c6510_micro_uses_y_index opcode \<longleftrightarrow>
     opcode \<in> {LDA_abs_Y, LDX_abs_Y, STA_abs_Y, ORA_abs_Y, AND_abs_Y, EOR_abs_Y, ADC_abs_Y,
               SBC_abs_Y, CMP_abs_Y}"

definition c6510_micro_set_lax :: "u8 \<Rightarrow> 'u C6510 \<Rightarrow> 'u C6510" where
  [micro_ops]: "c6510_micro_set_lax value m =
     set_register_to_value X_reg value (m\<lparr>reg_A := value\<rparr>)"

section \<open>Cycles the groups share\<close>

definition micro_wait :: "'u C6510 \<Rightarrow> bool \<times> 'u C6510" where
  [micro_ops]: "micro_wait m = (False, m\<lparr>micro_phase := micro_phase m + 1\<rparr>)"

definition micro_done :: "'u C6510 \<Rightarrow> bool \<times> 'u C6510" where
  [micro_ops]: "micro_done m = (True, m)"

definition micro_read_operand :: "'u C6510 \<Rightarrow> u8 \<times> 'u C6510" where
  [micro_ops]: "micro_read_operand m =
     (let (v, m) = read_operand m (pc m);
          m = CYCLE m
      in (v, m\<lparr>pc := pc m + 1\<rparr>))"

definition micro_operand_lo :: "'u C6510 \<Rightarrow> 'u C6510" where
  [micro_ops]: "micro_operand_lo m =
     (let (v, m) = micro_read_operand m in m\<lparr>address_lo := v\<rparr>)"

definition micro_operand_hi :: "'u C6510 \<Rightarrow> 'u C6510" where
  [micro_ops]: "micro_operand_hi m =
     (let (v, m) = micro_read_operand m in m\<lparr>address_hi := v\<rparr>)"

definition micro_operand_zp :: "'u C6510 \<Rightarrow> 'u C6510" where
  [micro_ops]: "micro_operand_zp m =
     (let (v, m) = micro_read_operand m in m\<lparr>address_lo := v, address_hi := 0\<rparr>)"

definition micro_operand_scratch :: "'u C6510 \<Rightarrow> 'u C6510" where
  [micro_ops]: "micro_operand_scratch m =
     (let (v, m) = micro_read_operand m in m\<lparr>scratch_lo := v\<rparr>)"

definition micro_data_read :: "u16 \<Rightarrow> 'u C6510 \<Rightarrow> u8 \<times> 'u C6510" where
  [micro_ops]: "micro_data_read a m =
     (let (v, m) = read_from_memory m a in (v, CYCLE m))"

definition micro_data_write :: "u16 \<Rightarrow> u8 \<Rightarrow> 'u C6510 \<Rightarrow> 'u C6510" where
  [micro_ops]: "micro_data_write a v m = CYCLE (write_to_memory m a v)"

definition micro_dummy_read :: "u16 \<Rightarrow> 'u C6510 \<Rightarrow> 'u C6510" where
  [micro_ops]: "micro_dummy_read a m = CYCLE (read_dummy m a)"

definition micro_rmw_read :: "u16 \<Rightarrow> 'u C6510 \<Rightarrow> 'u C6510" where
  [micro_ops]: "micro_rmw_read a m =
     (let (v, m) = micro_data_read a m in m\<lparr>scratch_lo := v\<rparr>)"

definition micro_rmw_dummy_write :: "u16 \<Rightarrow> 'u C6510 \<Rightarrow> 'u C6510" where
  [micro_ops]: "micro_rmw_dummy_write a m =
     CYCLE (bus_write BUS_ACCESS_RMW_DUMMY_WRITE m a (scratch_lo m))"

definition micro_rmw_write :: "u16 \<Rightarrow> 'u C6510 \<Rightarrow> 'u C6510" where
  [micro_ops]: "micro_rmw_write a m =
     (let (v, m) = c6510_micro_rmw_value m in micro_data_write a v m)"

definition micro_push :: "u8 \<Rightarrow> 'u C6510 \<Rightarrow> 'u C6510" where
  [micro_ops]: "micro_push v m =
     (let m = CYCLE (write_stack m (sp m) v);
          m = m\<lparr>sp := sp m - 1\<rparr>
      in if sp m < 0x100 then m\<lparr>sp := sp m + 0x100\<rparr> else m)"

definition micro_pull :: "'u C6510 \<Rightarrow> u8 \<times> 'u C6510" where
  [micro_ops]: "micro_pull m = (let (v, m) = pull m in (v, CYCLE m))"

text \<open>The uncorrected address of an indexed access: old page, new low byte.\<close>

definition uncorrected_target :: "'u C6510 \<Rightarrow> u16" where
  [micro_ops]: "uncorrected_target m = (address_16 m AND 0xFF00) OR (micro_target m AND 0x00FF)"

section \<open>Practical undocumented opcodes\<close>

text \<open>
  The last data access of the read and write families at the effective address: LAX
  loads, SAX stores \<open>A AND X\<close>.
\<close>

definition und_lax_or_sax :: "'u C6510 \<Rightarrow> bool \<times> 'u C6510" where
  [micro_ops]: "und_lax_or_sax m =
     (if c6510_micro_is_lax (micro_opcode m) then
        (let (v, m) = read_from_memory m (address_16 m)
         in micro_done (CYCLE (c6510_micro_set_lax v m)))
      else micro_done (micro_data_write (address_16 m) (reg_A m AND reg_X m) m))"

definition und_step_zp :: "'u C6510 \<Rightarrow> bool \<times> 'u C6510" where
  [micro_ops]: "und_step_zp m =
     (if micro_phase m = 2 then
        (let m = m\<lparr>address_lo := scratch_lo m, address_hi := 0\<rparr>
         in if c6510_micro_is_undocumented_rmw (micro_opcode m)
            then micro_wait (micro_rmw_read (address_16 m) m)
            else und_lax_or_sax m)
      else if micro_phase m = 3 then micro_wait (micro_rmw_dummy_write (address_16 m) m)
      else micro_done (micro_rmw_write (address_16 m) m))"

definition und_step_zp_indexed :: "'u C6510 \<Rightarrow> bool \<times> 'u C6510" where
  [micro_ops]: "und_step_zp_indexed m =
     (if micro_phase m = 2 then
        (let m = read_dummy m (ucast (scratch_lo m));
             index = (if c6510_micro_undoc_uses_y_index (micro_opcode m) then reg_Y m else reg_X m)
         in micro_wait (CYCLE (m\<lparr>address_lo := scratch_lo m + index, address_hi := 0\<rparr>)))
      else if micro_phase m = 3 then
        (if c6510_micro_is_undocumented_rmw (micro_opcode m)
         then micro_wait (micro_rmw_read (address_16 m) m)
         else und_lax_or_sax m)
      else if micro_phase m = 4 then micro_wait (micro_rmw_dummy_write (address_16 m) m)
      else micro_done (micro_rmw_write (address_16 m) m))"

definition und_step_abs :: "'u C6510 \<Rightarrow> bool \<times> 'u C6510" where
  [micro_ops]: "und_step_abs m =
     (if micro_phase m = 2 then
        micro_wait (micro_operand_hi (m\<lparr>address_lo := scratch_lo m\<rparr>))
      else if micro_phase m = 3 then
        (if c6510_micro_is_undocumented_rmw (micro_opcode m)
         then micro_wait (micro_rmw_read (address_16 m) m)
         else und_lax_or_sax m)
      else if micro_phase m = 4 then micro_wait (micro_rmw_dummy_write (address_16 m) m)
      else micro_done (micro_rmw_write (address_16 m) m))"

definition und_step_x_ind :: "'u C6510 \<Rightarrow> bool \<times> 'u C6510" where
  [micro_ops]: "und_step_x_ind m =
     (if micro_phase m = 2 then
        (let m = read_dummy m (ucast (scratch_lo m))
         in micro_wait (CYCLE (m\<lparr>micro_target := ucast (scratch_lo m + reg_X m)\<rparr>)))
      else if micro_phase m = 3 then
        (let (v, m) = micro_data_read (micro_target m) m in micro_wait (m\<lparr>address_lo := v\<rparr>))
      else if micro_phase m = 4 then
        (let (v, m) = micro_data_read (ucast (lo8 (micro_target m + 1))) m
         in micro_wait (m\<lparr>address_hi := v\<rparr>))
      else if micro_phase m = 5 then
        (if c6510_micro_is_undocumented_rmw (micro_opcode m)
         then micro_wait (micro_rmw_read (address_16 m) m)
         else und_lax_or_sax m)
      else if micro_phase m = 6 then micro_wait (micro_rmw_dummy_write (address_16 m) m)
      else micro_done (micro_rmw_write (address_16 m) m))"

text \<open>
  In the two page-crossing modes a LAX that crosses no page skips the dummy cycle: the
  source increments the phase and calls itself, which re-enters the same mode at the
  next phase. That continuation (the phases from \<open>first\<close> on) is \<open>und_step_indexed_tail\<close>.
\<close>

definition und_step_indexed_tail :: "u8 \<Rightarrow> 'u C6510 \<Rightarrow> bool \<times> 'u C6510" where
  [micro_ops]: "und_step_indexed_tail first m =
     (if micro_phase m = first then
        (if c6510_micro_is_undocumented_rmw (micro_opcode m)
         then micro_wait (micro_rmw_read (micro_target m) m)
         else
           (let (v, m) = read_from_memory m (micro_target m)
            in micro_done (CYCLE (c6510_micro_set_lax v m))))
      else if micro_phase m = first + 1 then
        micro_wait (micro_rmw_dummy_write (micro_target m) m)
      else micro_done (micro_rmw_write (micro_target m) m))"

definition und_step_indexed_fixup :: "u8 \<Rightarrow> 'u C6510 \<Rightarrow> bool \<times> 'u C6510" where
  [micro_ops]: "und_step_indexed_fixup first m =
     (if c6510_micro_is_lax (micro_opcode m) \<and> \<not> micro_branch_taken m
      then und_step_indexed_tail first (m\<lparr>micro_phase := micro_phase m + 1\<rparr>)
      else micro_wait (micro_dummy_read (uncorrected_target m) m))"

definition und_step_ind_y :: "'u C6510 \<Rightarrow> bool \<times> 'u C6510" where
  [micro_ops]: "und_step_ind_y m =
     (if micro_phase m = 2 then
        (let (v, m) = micro_data_read (ucast (scratch_lo m)) m
         in micro_wait (m\<lparr>address_lo := v\<rparr>))
      else if micro_phase m = 3 then
        (let (v, m) = micro_data_read (ucast (scratch_lo m + 1)) m;
             m = m\<lparr>address_hi := v\<rparr>
         in micro_wait (m\<lparr>micro_target := address_16 m + ucast (reg_Y m),
                          micro_branch_taken := (unat (address_lo m) + unat (reg_Y m) > 0xFF)\<rparr>))
      else if micro_phase m = 4 then und_step_indexed_fixup 5 m
      else und_step_indexed_tail 5 m)"

definition und_step_abs_indexed :: "c6510_undocumented_mode \<Rightarrow> 'u C6510 \<Rightarrow> bool \<times> 'u C6510" where
  [micro_ops]: "und_step_abs_indexed mode m =
     (if micro_phase m = 2 then
        (let index = (if mode = UND_MODE_ABS_Y then reg_Y m else reg_X m);
             m = micro_operand_hi (m\<lparr>address_lo := scratch_lo m\<rparr>)
         in micro_wait (m\<lparr>micro_target := address_16 m + ucast index,
                          micro_branch_taken := (unat (address_lo m) + unat index > 0xFF)\<rparr>))
      else if micro_phase m = 3 then und_step_indexed_fixup 4 m
      else und_step_indexed_tail 4 m)"

definition c6510_micro_step_practical_undocumented :: "'u C6510 \<Rightarrow> bool \<times> 'u C6510" where
  [micro_ops]: "c6510_micro_step_practical_undocumented m =
     (if micro_phase m = 1 then micro_wait (micro_operand_scratch m)
      else
        (case c6510_micro_undocumented_mode (micro_opcode m) of
           UND_MODE_ZP \<Rightarrow> und_step_zp m
         | UND_MODE_ZP_INDEXED \<Rightarrow> und_step_zp_indexed m
         | UND_MODE_ABS \<Rightarrow> und_step_abs m
         | UND_MODE_X_IND \<Rightarrow> und_step_x_ind m
         | UND_MODE_IND_Y \<Rightarrow> und_step_ind_y m
         | UND_MODE_ABS_Y \<Rightarrow> und_step_abs_indexed UND_MODE_ABS_Y m
         | UND_MODE_ABS_X \<Rightarrow> und_step_abs_indexed UND_MODE_ABS_X m))"

section \<open>Interrupt sequence\<close>

definition micro_interrupt_cycle :: "'u C6510 \<Rightarrow> 'u C6510" where
  [micro_ops]: "micro_interrupt_cycle m =
     CYCLE
       (if micro_phase m = 0 then read_dummy m (pc m)
        else if micro_phase m = 1 then read_dummy m (sp m)
        else if micro_phase m = 2 then push (hi8 (pc m)) m
        else if micro_phase m = 3 then push (lo8 (pc m)) m
        else if micro_phase m = 4 then push ((cpu_flags m AND NOT 0x10) OR 0x20) m
        else if micro_phase m = 5 then
          (let (v, m) = read_vector m (micro_interrupt_vector m) in m\<lparr>address_lo := v\<rparr>)
        else
          (let (v, m) = read_vector m (micro_interrupt_vector m + 1) in m\<lparr>address_hi := v\<rparr>))"

definition micro_step_interrupt :: "'u C6510 \<Rightarrow> bool \<times> 'u C6510" where
  [micro_ops]: "micro_step_interrupt m =
     (let m = micro_interrupt_cycle m
      in if micro_phase m < 6 then micro_wait m
         else
           (True,
            m\<lparr>pc := address_16 m, flag_I := True,
              irq_entries := irq_entries m + of_flag (micro_interrupt_vector m = 0xFFFE),
              nmi_entries := nmi_entries m + of_flag (micro_interrupt_vector m = 0xFFFA),
              micro_active := False, micro_is_interrupt := False, micro_phase := 0\<rparr>))"

section \<open>Undocumented NOPs\<close>

definition micro_step_und_nop :: "'u C6510 \<Rightarrow> bool \<times> 'u C6510" where
  [micro_ops]: "micro_step_und_nop m =
     (if micro_opcode m = UND_80 then micro_done (snd (micro_read_operand m))
      else if micro_opcode m = UND_44 then
        (if micro_phase m = 1 then micro_wait (micro_operand_lo m)
         else micro_done (snd (micro_data_read (ucast (address_lo m)) m)))
      else if micro_opcode m = UND_0C then
        (if micro_phase m = 1 then micro_wait (micro_operand_lo m)
         else if micro_phase m = 2 then micro_wait (micro_operand_hi m)
         else micro_done (snd (micro_data_read (address_16 m) m)))
      else if micro_phase m = 1 then
        (let m = micro_operand_lo m
         in micro_wait (m\<lparr>micro_branch_taken := (unat (address_lo m) + unat (reg_X m) > 0xFF)\<rparr>))
      else if micro_phase m = 2 then
        (let m = micro_operand_hi m
         in micro_wait (m\<lparr>micro_target := address_16 m + ucast (reg_X m)\<rparr>))
      else if micro_phase m = 3 \<and> micro_branch_taken m then
        micro_wait (micro_dummy_read (uncorrected_target m) m)
      else micro_done (snd (micro_data_read (micro_target m) m)))"

section \<open>Documented opcodes, one definition per group of case labels\<close>

definition micro_nop :: "'u C6510 \<Rightarrow> bool \<times> 'u C6510" where
  [micro_ops]: "micro_nop m = micro_done (micro_dummy_read (pc m) m)"

definition micro_load_imm :: "byte_register \<Rightarrow> 'u C6510 \<Rightarrow> bool \<times> 'u C6510" where
  [micro_ops]: "micro_load_imm r m =
     (let (v, m) = micro_read_operand m in micro_done (set_register_to_value r v m))"

definition micro_load_abs :: "'u C6510 \<Rightarrow> bool \<times> 'u C6510" where
  [micro_ops]: "micro_load_abs m =
     (if micro_phase m = 1 then micro_wait (micro_operand_lo m)
      else if micro_phase m = 2 then micro_wait (micro_operand_hi m)
      else
        (let (v, m) = micro_data_read (address_16 m) m
         in if micro_opcode m = LDX_abs then micro_done (set_register_to_value X_reg v m)
            else if micro_opcode m = LDY_abs then micro_done (set_register_to_value Y_reg v m)
            else micro_done (set_register_to_value A_reg v m)))"

definition micro_store_abs :: "'u C6510 \<Rightarrow> bool \<times> 'u C6510" where
  [micro_ops]: "micro_store_abs m =
     (if micro_phase m = 1 then micro_wait (micro_operand_lo m)
      else if micro_phase m = 2 then micro_wait (micro_operand_hi m)
      else if micro_opcode m = STX_abs then
        micro_done (micro_data_write (address_16 m) (reg_X m) m)
      else if micro_opcode m = STY_abs then
        micro_done (micro_data_write (address_16 m) (reg_Y m) m)
      else micro_done (micro_data_write (address_16 m) (reg_A m) m))"

definition micro_jmp_abs :: "'u C6510 \<Rightarrow> bool \<times> 'u C6510" where
  [micro_ops]: "micro_jmp_abs m =
     (if micro_phase m = 1 then micro_wait (micro_operand_lo m)
      else
        (let (v, m) = read_operand m (pc m);
             m = CYCLE (m\<lparr>address_hi := v\<rparr>)
         in micro_done (m\<lparr>pc := address_16 m\<rparr>)))"

definition micro_jmp_ind :: "'u C6510 \<Rightarrow> bool \<times> 'u C6510" where
  [micro_ops]: "micro_jmp_ind m =
     (if micro_phase m = 1 then micro_wait (micro_operand_lo m)
      else if micro_phase m = 2 then
        (let m = micro_operand_hi m in micro_wait (m\<lparr>micro_target := address_16 m\<rparr>))
      else if micro_phase m = 3 then
        (let (v, m) = micro_data_read (micro_target m) m in micro_wait (m\<lparr>scratch_lo := v\<rparr>))
      else
        (let (v, m) = micro_data_read
                        ((micro_target m AND 0xFF00) OR ((micro_target m + 1) AND 0x00FF)) m;
             m = m\<lparr>scratch_hi := v\<rparr>
         in micro_done (m\<lparr>pc := scratch_16 m\<rparr>)))"

definition micro_branch_condition :: "'u C6510 \<Rightarrow> bool" where
  [micro_ops]: "micro_branch_condition m \<longleftrightarrow>
     micro_opcode m = BPL_rel \<and> \<not> flag_N m \<or> micro_opcode m = BMI_rel \<and> flag_N m \<or>
     micro_opcode m = BVC_rel \<and> \<not> flag_V m \<or> micro_opcode m = BVS_rel \<and> flag_V m \<or>
     micro_opcode m = BCC_rel \<and> \<not> flag_C m \<or> micro_opcode m = BCS_rel \<and> flag_C m \<or>
     micro_opcode m = BNE_rel \<and> \<not> flag_Z m \<or> micro_opcode m = BEQ_rel \<and> flag_Z m"

definition micro_branch :: "'u C6510 \<Rightarrow> bool \<times> 'u C6510" where
  [micro_ops]: "micro_branch m =
     (if micro_phase m = 1 then
        (let (v, m) = micro_read_operand m;
             m = m\<lparr>micro_branch_taken := micro_branch_condition m\<rparr>;
             m = m\<lparr>scratch_lo := v\<rparr>
         in if \<not> micro_branch_taken m then micro_done m else micro_wait m)
      else if micro_phase m = 2 then
        (let old_pc = pc m;
             m = m\<lparr>micro_target := old_pc + scast (scratch_lo m)\<rparr>;
             m = micro_dummy_read old_pc m
         in if old_pc AND 0xFF00 = micro_target m AND 0xFF00
            then micro_done (m\<lparr>pc := micro_target m\<rparr>)
            else micro_wait m)
      else
        (let m = micro_dummy_read ((pc m AND 0xFF00) OR (micro_target m AND 0x00FF)) m
         in micro_done (m\<lparr>pc := micro_target m\<rparr>)))"

definition micro_jsr :: "'u C6510 \<Rightarrow> bool \<times> 'u C6510" where
  [micro_ops]: "micro_jsr m =
     (if micro_phase m = 1 then micro_wait (micro_operand_lo m)
      else if micro_phase m = 2 then micro_wait (micro_dummy_read (sp m) m)
      else if micro_phase m = 3 then micro_wait (micro_push (hi8 (pc m)) m)
      else if micro_phase m = 4 then micro_wait (micro_push (lo8 (pc m)) m)
      else
        (let (v, m) = read_operand m (pc m);
             m = CYCLE (m\<lparr>address_hi := v\<rparr>)
         in micro_done (m\<lparr>pc := address_16 m\<rparr>)))"

definition micro_rts :: "'u C6510 \<Rightarrow> bool \<times> 'u C6510" where
  [micro_ops]: "micro_rts m =
     (if micro_phase m = 1 then micro_wait (micro_dummy_read (pc m) m)
      else if micro_phase m = 2 then micro_wait (micro_dummy_read (sp m) m)
      else if micro_phase m = 3 then
        (let (v, m) = micro_pull m in micro_wait (m\<lparr>address_lo := v\<rparr>))
      else if micro_phase m = 4 then
        (let (v, m) = micro_pull m in micro_wait (m\<lparr>address_hi := v\<rparr>))
      else
        (let m = micro_dummy_read (address_16 m) m
         in micro_done (m\<lparr>pc := address_16 m + 1\<rparr>)))"

definition micro_alu_imm :: "'u C6510 \<Rightarrow> bool \<times> 'u C6510" where
  [micro_ops]: "micro_alu_imm m =
     (let (v, m) = micro_read_operand m in
      if micro_opcode m = ORA_imm then micro_done (set_register_to_value A_reg (reg_A m OR v) m)
      else if micro_opcode m = AND_imm then
        micro_done (set_register_to_value A_reg (reg_A m AND v) m)
      else if micro_opcode m = EOR_imm then
        micro_done (set_register_to_value A_reg (reg_A m XOR v) m)
      else if micro_opcode m = ADC_imm then micro_done (add_value_to_accumulator v m)
      else if micro_opcode m = SBC_imm then micro_done (subtract_value_from_accumulator v m)
      else if micro_opcode m = CMP_imm then micro_done (compare_bytes (reg_A m) v m)
      else if micro_opcode m = CPX_imm then micro_done (compare_bytes (reg_X m) v m)
      else micro_done (compare_bytes (reg_Y m) v m))"

definition micro_flag_op :: "'u C6510 \<Rightarrow> bool \<times> 'u C6510" where
  [micro_ops]: "micro_flag_op m =
     (let m = micro_dummy_read (pc m) m;
          m = (if micro_opcode m = CLC then m\<lparr>flag_C := False\<rparr> else m);
          m = (if micro_opcode m = SEC then m\<lparr>flag_C := True\<rparr> else m);
          m = (if micro_opcode m = CLI
               then m\<lparr>irq_defer := True, irq_defer_i := True, flag_I := False\<rparr> else m);
          m = (if micro_opcode m = SEI
               then m\<lparr>irq_defer := False, irq_defer_i := False, flag_I := True\<rparr> else m);
          m = (if micro_opcode m = CLD then m\<lparr>flag_D := False\<rparr> else m);
          m = (if micro_opcode m = SED then m\<lparr>flag_D := True\<rparr> else m);
          m = (if micro_opcode m = CLV then m\<lparr>flag_V := False\<rparr> else m)
      in micro_done m)"

definition micro_register_op :: "'u C6510 \<Rightarrow> bool \<times> 'u C6510" where
  [micro_ops]: "micro_register_op m =
     (let m = micro_dummy_read (pc m) m;
          m = (if micro_opcode m = INX then set_register_to_value X_reg (reg_X m + 1) m else m);
          m = (if micro_opcode m = INY then set_register_to_value Y_reg (reg_Y m + 1) m else m);
          m = (if micro_opcode m = DEX then set_register_to_value X_reg (reg_X m - 1) m else m);
          m = (if micro_opcode m = DEY then set_register_to_value Y_reg (reg_Y m - 1) m else m);
          m = (if micro_opcode m = TAX then set_register_to_value X_reg (reg_A m) m else m);
          m = (if micro_opcode m = TAY then set_register_to_value Y_reg (reg_A m) m else m);
          m = (if micro_opcode m = TXA then set_register_to_value A_reg (reg_X m) m else m);
          m = (if micro_opcode m = TYA then set_register_to_value A_reg (reg_Y m) m else m);
          m = (if micro_opcode m = TSX then set_register_to_value X_reg (lo8 (sp m)) m else m);
          m = (if micro_opcode m = TXS then m\<lparr>sp := 0x100 OR ucast (reg_X m)\<rparr> else m);
          m = (if micro_opcode m = ASL_A then
                 (let m = m\<lparr>flag_C := (reg_A m AND 0x80) \<noteq> 0\<rparr>
                  in set_register_to_value A_reg (push_bit 1 (reg_A m)) m)
               else m);
          m = (if micro_opcode m = ROL_A then
                 (let carry = (reg_A m AND 0x80) \<noteq> 0;
                      m = set_register_to_value A_reg
                            (push_bit 1 (reg_A m) OR of_flag (flag_C m)) m
                  in m\<lparr>flag_C := carry\<rparr>)
               else m);
          m = (if micro_opcode m = LSR_A then
                 (let m = m\<lparr>flag_C := bit (reg_A m) 0\<rparr>
                  in set_register_to_value A_reg (drop_bit 1 (reg_A m)) m)
               else m);
          m = (if micro_opcode m = ROR_A then
                 (let carry = bit (reg_A m) 0;
                      m = set_register_to_value A_reg
                            (drop_bit 1 (reg_A m) OR push_bit 7 (of_flag (flag_C m))) m
                  in m\<lparr>flag_C := carry\<rparr>)
               else m)
      in micro_done m)"

definition micro_push_op :: "'u C6510 \<Rightarrow> bool \<times> 'u C6510" where
  [micro_ops]: "micro_push_op m =
     (if micro_phase m = 1 then micro_wait (micro_dummy_read (pc m) m)
      else micro_done
        (micro_push (if micro_opcode m = PHA then reg_A m else cpu_flags m OR 0x10) m))"

definition micro_pull_op :: "'u C6510 \<Rightarrow> bool \<times> 'u C6510" where
  [micro_ops]: "micro_pull_op m =
     (if micro_phase m = 1 then micro_wait (micro_dummy_read (pc m) m)
      else if micro_phase m = 2 then micro_wait (micro_dummy_read (sp m) m)
      else
        (let (v, m) = micro_pull m
         in if micro_opcode m = PLA then micro_done (set_register_to_value A_reg v m)
            else micro_done (set_flags ((v AND NOT 0x10) OR 0x20) m)))"

definition micro_rti :: "'u C6510 \<Rightarrow> bool \<times> 'u C6510" where
  [micro_ops]: "micro_rti m =
     (if micro_phase m = 1 then micro_wait (micro_dummy_read (pc m) m)
      else if micro_phase m = 2 then micro_wait (micro_dummy_read (sp m) m)
      else
        (let (v, m) = micro_pull m
         in if micro_phase m = 3 then micro_wait (set_flags ((v AND NOT 0x10) OR 0x20) m)
            else if micro_phase m = 4 then micro_wait (m\<lparr>address_lo := v\<rparr>)
            else
              (let m = m\<lparr>address_hi := v\<rparr> in micro_done (m\<lparr>pc := address_16 m\<rparr>))))"

definition micro_brk :: "'u C6510 \<Rightarrow> bool \<times> 'u C6510" where
  [micro_ops]: "micro_brk m =
     (if micro_phase m = 1 then micro_wait (snd (micro_read_operand m))
      else if micro_phase m = 2 \<or> micro_phase m = 3 \<or> micro_phase m = 4 then
        micro_wait
          (micro_push
             (if micro_phase m = 2 then hi8 (pc m)
              else if micro_phase m = 3 then lo8 (pc m)
              else cpu_flags m OR 0x10) m)
      else if micro_phase m = 5 then
        (let (v, m) = read_vector m 0xFFFE in micro_wait (CYCLE (m\<lparr>address_lo := v\<rparr>)))
      else
        (let (v, m) = read_vector m 0xFFFF;
             m = CYCLE (m\<lparr>address_hi := v\<rparr>)
         in micro_done (m\<lparr>pc := address_16 m, flag_I := True\<rparr>)))"

definition micro_load_store_zp :: "'u C6510 \<Rightarrow> bool \<times> 'u C6510" where
  [micro_ops]: "micro_load_store_zp m =
     (if micro_phase m = 1 then micro_wait (micro_operand_zp m)
      else if micro_opcode m = LDA_zpg then
        (let (v, m) = micro_data_read (address_16 m) m
         in micro_done (set_register_to_value A_reg v m))
      else if micro_opcode m = LDX_zpg then
        (let (v, m) = micro_data_read (address_16 m) m
         in micro_done (set_register_to_value X_reg v m))
      else if micro_opcode m = LDY_zpg then
        (let (v, m) = micro_data_read (address_16 m) m
         in micro_done (set_register_to_value Y_reg v m))
      else if micro_opcode m = STA_zpg then
        micro_done (micro_data_write (address_16 m) (reg_A m) m)
      else if micro_opcode m = STX_zpg then
        micro_done (micro_data_write (address_16 m) (reg_X m) m)
      else micro_done (micro_data_write (address_16 m) (reg_Y m) m))"

definition micro_load_store_zp_indexed :: "'u C6510 \<Rightarrow> bool \<times> 'u C6510" where
  [micro_ops]: "micro_load_store_zp_indexed m =
     (if micro_phase m = 1 then micro_wait (micro_operand_zp m)
      else if micro_phase m = 2 then
        (let m = read_dummy m (address_16 m);
             index = (if micro_opcode m = LDX_zpg_Y \<or> micro_opcode m = STX_zpg_Y
                      then reg_Y m else reg_X m)
         in micro_wait (CYCLE (m\<lparr>address_lo := address_lo m + index\<rparr>)))
      else if micro_opcode m = LDA_zpg_X then
        (let (v, m) = micro_data_read (address_16 m) m
         in micro_done (set_register_to_value A_reg v m))
      else if micro_opcode m = LDX_zpg_Y then
        (let (v, m) = micro_data_read (address_16 m) m
         in micro_done (set_register_to_value X_reg v m))
      else if micro_opcode m = LDY_zpg_X then
        (let (v, m) = micro_data_read (address_16 m) m
         in micro_done (set_register_to_value Y_reg v m))
      else if micro_opcode m = STA_zpg_X then
        micro_done (micro_data_write (address_16 m) (reg_A m) m)
      else if micro_opcode m = STX_zpg_Y then
        micro_done (micro_data_write (address_16 m) (reg_X m) m)
      else micro_done (micro_data_write (address_16 m) (reg_Y m) m))"

definition micro_apply_read :: "u16 \<Rightarrow> 'u C6510 \<Rightarrow> bool \<times> 'u C6510" where
  [micro_ops]: "micro_apply_read a m =
     (let (v, m) = micro_data_read a m
      in micro_done (c6510_micro_apply_read_operation v m))"

definition micro_alu_zp :: "'u C6510 \<Rightarrow> bool \<times> 'u C6510" where
  [micro_ops]: "micro_alu_zp m =
     (if micro_phase m = 1 then micro_wait (micro_operand_zp m)
      else micro_apply_read (address_16 m) m)"

definition micro_alu_zp_x :: "'u C6510 \<Rightarrow> bool \<times> 'u C6510" where
  [micro_ops]: "micro_alu_zp_x m =
     (if micro_phase m = 1 then micro_wait (micro_operand_zp m)
      else if micro_phase m = 2 then
        (let m = read_dummy m (address_16 m)
         in micro_wait (CYCLE (m\<lparr>address_lo := address_lo m + reg_X m\<rparr>)))
      else micro_apply_read (address_16 m) m)"

definition micro_alu_abs :: "'u C6510 \<Rightarrow> bool \<times> 'u C6510" where
  [micro_ops]: "micro_alu_abs m =
     (if micro_phase m = 1 then micro_wait (micro_operand_lo m)
      else if micro_phase m = 2 then micro_wait (micro_operand_hi m)
      else micro_apply_read (address_16 m) m)"

definition micro_abs_indexed :: "'u C6510 \<Rightarrow> bool \<times> 'u C6510" where
  [micro_ops]: "micro_abs_indexed m =
     (if micro_phase m = 1 then
        (let m = micro_operand_lo m;
             index = (if c6510_micro_uses_y_index (micro_opcode m) then reg_Y m else reg_X m)
         in micro_wait (m\<lparr>micro_branch_taken := (unat (address_lo m) + unat index > 0xFF)\<rparr>))
      else if micro_phase m = 2 then
        (let m = micro_operand_hi m;
             index = (if c6510_micro_uses_y_index (micro_opcode m) then reg_Y m else reg_X m)
         in micro_wait (m\<lparr>micro_target := address_16 m + ucast index\<rparr>))
      else if micro_phase m = 3 \<and>
              (micro_branch_taken m \<or> micro_opcode m = STA_abs_X \<or> micro_opcode m = STA_abs_Y) then
        micro_wait (micro_dummy_read (uncorrected_target m) m)
      else if micro_opcode m \<in> {ORA_abs_X, ORA_abs_Y, AND_abs_X, AND_abs_Y, EOR_abs_X, EOR_abs_Y,
                                ADC_abs_X, ADC_abs_Y, SBC_abs_X, SBC_abs_Y, CMP_abs_X, CMP_abs_Y} then
        micro_apply_read (micro_target m) m
      else if micro_opcode m = LDA_abs_X \<or> micro_opcode m = LDA_abs_Y then
        (let (v, m) = micro_data_read (micro_target m) m
         in micro_done (set_register_to_value A_reg v m))
      else if micro_opcode m = LDX_abs_Y then
        (let (v, m) = micro_data_read (micro_target m) m
         in micro_done (set_register_to_value X_reg v m))
      else if micro_opcode m = LDY_abs_X then
        (let (v, m) = micro_data_read (micro_target m) m
         in micro_done (set_register_to_value Y_reg v m))
      else micro_done (micro_data_write (micro_target m) (reg_A m) m))"

definition micro_x_ind :: "'u C6510 \<Rightarrow> bool \<times> 'u C6510" where
  [micro_ops]: "micro_x_ind m =
     (if micro_phase m = 1 then micro_wait (micro_operand_scratch m)
      else if micro_phase m = 2 then
        (let m = read_dummy m (ucast (scratch_lo m))
         in micro_wait (CYCLE (m\<lparr>micro_target := ucast (scratch_lo m + reg_X m)\<rparr>)))
      else if micro_phase m = 3 then
        (let (v, m) = micro_data_read (micro_target m) m in micro_wait (m\<lparr>address_lo := v\<rparr>))
      else if micro_phase m = 4 then
        (let (v, m) = micro_data_read (ucast (lo8 (micro_target m + 1))) m
         in micro_wait (m\<lparr>address_hi := v\<rparr>))
      else if micro_opcode m = STA_X_ind then
        micro_done (micro_data_write (address_16 m) (reg_A m) m)
      else if micro_opcode m = LDA_X_ind then
        (let (v, m) = micro_data_read (address_16 m) m
         in micro_done (set_register_to_value A_reg v m))
      else micro_apply_read (address_16 m) m)"

definition micro_ind_y :: "'u C6510 \<Rightarrow> bool \<times> 'u C6510" where
  [micro_ops]: "micro_ind_y m =
     (if micro_phase m = 1 then micro_wait (micro_operand_scratch m)
      else if micro_phase m = 2 then
        (let (v, m) = micro_data_read (ucast (scratch_lo m)) m;
             m = m\<lparr>address_lo := v\<rparr>
         in micro_wait (m\<lparr>micro_branch_taken := (unat (address_lo m) + unat (reg_Y m) > 0xFF)\<rparr>))
      else if micro_phase m = 3 then
        (let (v, m) = micro_data_read (ucast (scratch_lo m + 1)) m;
             m = m\<lparr>address_hi := v\<rparr>
         in micro_wait (m\<lparr>micro_target := address_16 m + ucast (reg_Y m)\<rparr>))
      else if micro_phase m = 4 \<and> (micro_branch_taken m \<or> micro_opcode m = STA_ind_Y) then
        micro_wait (micro_dummy_read (uncorrected_target m) m)
      else if micro_opcode m = STA_ind_Y then
        micro_done (micro_data_write (micro_target m) (reg_A m) m)
      else if micro_opcode m = LDA_ind_Y then
        (let (v, m) = micro_data_read (micro_target m) m
         in micro_done (set_register_to_value A_reg v m))
      else micro_apply_read (micro_target m) m)"

definition micro_rmw_zp :: "'u C6510 \<Rightarrow> bool \<times> 'u C6510" where
  [micro_ops]: "micro_rmw_zp m =
     (if micro_phase m = 1 then micro_wait (micro_operand_zp m)
      else if micro_phase m = 2 then micro_wait (micro_rmw_read (address_16 m) m)
      else if micro_phase m = 3 then micro_wait (micro_rmw_dummy_write (address_16 m) m)
      else micro_done (micro_rmw_write (address_16 m) m))"

definition micro_rmw_zp_x :: "'u C6510 \<Rightarrow> bool \<times> 'u C6510" where
  [micro_ops]: "micro_rmw_zp_x m =
     (if micro_phase m = 1 then micro_wait (micro_operand_zp m)
      else if micro_phase m = 2 then
        (let m = read_dummy m (address_16 m)
         in micro_wait (CYCLE (m\<lparr>address_lo := address_lo m + reg_X m\<rparr>)))
      else if micro_phase m = 3 then micro_wait (micro_rmw_read (address_16 m) m)
      else if micro_phase m = 4 then micro_wait (micro_rmw_dummy_write (address_16 m) m)
      else micro_done (micro_rmw_write (address_16 m) m))"

definition micro_rmw_abs :: "'u C6510 \<Rightarrow> bool \<times> 'u C6510" where
  [micro_ops]: "micro_rmw_abs m =
     (if micro_phase m = 1 then micro_wait (micro_operand_lo m)
      else if micro_phase m = 2 then micro_wait (micro_operand_hi m)
      else if micro_phase m = 3 then micro_wait (micro_rmw_read (address_16 m) m)
      else if micro_phase m = 4 then micro_wait (micro_rmw_dummy_write (address_16 m) m)
      else micro_done (micro_rmw_write (address_16 m) m))"

definition micro_rmw_abs_x :: "'u C6510 \<Rightarrow> bool \<times> 'u C6510" where
  [micro_ops]: "micro_rmw_abs_x m =
     (if micro_phase m = 1 then micro_wait (micro_operand_lo m)
      else if micro_phase m = 2 then
        (let m = micro_operand_hi m
         in micro_wait (m\<lparr>micro_target := address_16 m + ucast (reg_X m)\<rparr>))
      else if micro_phase m = 3 then micro_wait (micro_dummy_read (uncorrected_target m) m)
      else if micro_phase m = 4 then micro_wait (micro_rmw_read (micro_target m) m)
      else if micro_phase m = 5 then micro_wait (micro_rmw_dummy_write (micro_target m) m)
      else micro_done (micro_rmw_write (micro_target m) m))"

section \<open>The dispatch and one micro step\<close>

definition micro_documented :: "u8 \<Rightarrow> 'u C6510 \<Rightarrow> bool \<times> 'u C6510" where
  "micro_documented op m =
     (if op = NOP then micro_nop m
      else if op = LDA_imm then micro_load_imm A_reg m
      else if op \<in> {UND_0B, UND_2B} then micro_done (anc_imm m)
      else if op = UND_CB then micro_done (axs_imm m)
      else if op = UND_4B then micro_done (alr_imm m)
      else if op = LDX_imm then micro_load_imm X_reg m
      else if op = LDY_imm then micro_load_imm Y_reg m
      else if op \<in> {LDA_abs, LDX_abs, LDY_abs} then micro_load_abs m
      else if op \<in> {STA_abs, STX_abs, STY_abs} then micro_store_abs m
      else if op = JMP_abs then micro_jmp_abs m
      else if op = JMP_ind then micro_jmp_ind m
      else if op \<in> {BPL_rel, BMI_rel, BVC_rel, BVS_rel, BCC_rel, BCS_rel, BNE_rel, BEQ_rel} then
        micro_branch m
      else if op = JSR_abs then micro_jsr m
      else if op = RTS then micro_rts m
      else if op \<in> {ORA_imm, AND_imm, EOR_imm, ADC_imm, SBC_imm, CMP_imm, CPX_imm, CPY_imm} then
        micro_alu_imm m
      else if op \<in> {CLC, SEC, CLI, SEI, CLD, SED, CLV} then micro_flag_op m
      else if op \<in> {INX, INY, DEX, DEY, TAX, TAY, TXA, TYA, TSX, TXS, ASL_A, ROL_A, LSR_A, ROR_A} then
        micro_register_op m
      else if op \<in> {PHA, PHP} then micro_push_op m
      else if op \<in> {PLA, PLP} then micro_pull_op m
      else if op = RTI then micro_rti m
      else if op = BRK then micro_brk m
      else if op \<in> {LDA_zpg, LDX_zpg, LDY_zpg, STA_zpg, STX_zpg, STY_zpg} then
        micro_load_store_zp m
      else if op \<in> {LDA_zpg_X, LDX_zpg_Y, LDY_zpg_X, STA_zpg_X, STX_zpg_Y, STY_zpg_X} then
        micro_load_store_zp_indexed m
      else if op \<in> {ORA_zpg, AND_zpg, EOR_zpg, ADC_zpg, SBC_zpg, CMP_zpg, CPX_zpg, CPY_zpg, BIT_zpg} then
        micro_alu_zp m
      else if op \<in> {ORA_zpg_X, AND_zpg_X, EOR_zpg_X, ADC_zpg_X, SBC_zpg_X, CMP_zpg_X} then
        micro_alu_zp_x m
      else if op \<in> {BIT_abs, ORA_abs, AND_abs, EOR_abs, ADC_abs, SBC_abs, CMP_abs, CPX_abs, CPY_abs} then
        micro_alu_abs m
      else if op \<in> {LDA_abs_X, LDA_abs_Y, LDX_abs_Y, LDY_abs_X, STA_abs_X, STA_abs_Y, ORA_abs_X,
                    ORA_abs_Y, AND_abs_X, AND_abs_Y, EOR_abs_X, EOR_abs_Y, ADC_abs_X, ADC_abs_Y,
                    SBC_abs_X, SBC_abs_Y, CMP_abs_X, CMP_abs_Y} then
        micro_abs_indexed m
      else if op \<in> {LDA_X_ind, STA_X_ind, ORA_X_ind, AND_X_ind, EOR_X_ind, ADC_X_ind, SBC_X_ind,
                    CMP_X_ind} then
        micro_x_ind m
      else if op \<in> {LDA_ind_Y, STA_ind_Y, ORA_ind_Y, AND_ind_Y, EOR_ind_Y, ADC_ind_Y, SBC_ind_Y,
                    CMP_ind_Y} then
        micro_ind_y m
      else if op \<in> {ASL_zpg, ROL_zpg, LSR_zpg, ROR_zpg, DEC_zpg, INC_zpg} then micro_rmw_zp m
      else if op \<in> {ASL_zpg_X, ROL_zpg_X, LSR_zpg_X, ROR_zpg_X, DEC_zpg_X, INC_zpg_X} then
        micro_rmw_zp_x m
      else if op \<in> {ASL_abs, ROL_abs, LSR_abs, ROR_abs, DEC_abs, INC_abs} then micro_rmw_abs m
      else if op \<in> {ASL_abs_X, ROL_abs_X, LSR_abs_X, ROR_abs_X, DEC_abs_X, INC_abs_X} then
        micro_rmw_abs_x m
      else micro_done m)"

definition micro_dispatch :: "'u C6510 \<Rightarrow> bool \<times> 'u C6510" where
  "micro_dispatch m =
     (case c6510_micro_op_class (micro_opcode m) of
        OP_UND_PRACTICAL \<Rightarrow> c6510_micro_step_practical_undocumented m
      | OP_UND_NOP \<Rightarrow> micro_step_und_nop m
      | _ \<Rightarrow> micro_documented (micro_opcode m) m)"

definition micro_complete :: "'u C6510 \<Rightarrow> 'u C6510" where
  [micro_ops]: "micro_complete m =
     m\<lparr>opcode_active := False, micro_active := False, micro_phase := 0\<rparr>"

definition micro_fetch :: "'u C6510 \<Rightarrow> 'u C6510" where
  [micro_ops]: "micro_fetch m =
     (let (v, m) = read_opcode m (pc m);
          m = CYCLE (m\<lparr>micro_opcode := v\<rparr>)
      in m\<lparr>pc := pc m + 1, micro_phase := 1\<rparr>)"

definition c6510_micro_step :: "'u C6510 \<Rightarrow> bool \<times> 'u C6510" where
  "c6510_micro_step m =
     (if micro_is_interrupt m then micro_step_interrupt m
      else if micro_phase m = 0 then (False, micro_fetch m)
      else
        (let (completed, m) = micro_dispatch m
         in if completed then (True, micro_complete m) else (False, m)))"

end
