(* ===== verification/C6510_Access.thy ===== *)
theory C6510_Access
  imports C6510_Micro
begin

text \<open>
  The two questions the machine asks of a suspended instruction: which kind of bus access
  its next cycle performs (\<^verbatim>\<open>c6510_micro_access_kind\<close>, used to decide whether the video
  chip may hold the processor there) and how many cycles are left
  (\<^verbatim>\<open>c6510_micro_cycles_remaining\<close>).
\<close>

section \<open>The kind of the next access\<close>

definition und_data_access :: "bool \<Rightarrow> bool \<Rightarrow> c6510_bus_access_kind" where
  "und_data_access lax rmw =
     (if lax then BUS_ACCESS_DATA_READ
      else if rmw then BUS_ACCESS_DATA_READ else BUS_ACCESS_DATA_WRITE)"

definition micro_access_undocumented :: "'u C6510 \<Rightarrow> c6510_bus_access_kind" where
  "micro_access_undocumented m =
     (let rmw = c6510_micro_is_undocumented_rmw (micro_opcode m);
          lax = c6510_micro_is_lax (micro_opcode m);
          phase = micro_phase m
      in if phase = 1 then BUS_ACCESS_OPERAND_READ
         else
           (case c6510_micro_undocumented_mode (micro_opcode m) of
              UND_MODE_X_IND \<Rightarrow>
                if phase = 2 then BUS_ACCESS_DUMMY_READ
                else if phase < 5 then BUS_ACCESS_DATA_READ
                else if \<not> rmw then (if lax then BUS_ACCESS_DATA_READ else BUS_ACCESS_DATA_WRITE)
                else if phase = 5 then BUS_ACCESS_DATA_READ
                else if phase = 6 then BUS_ACCESS_RMW_DUMMY_WRITE else BUS_ACCESS_DATA_WRITE
            | UND_MODE_ZP \<Rightarrow>
                if phase = 2 then und_data_access lax rmw
                else if phase = 3 then BUS_ACCESS_RMW_DUMMY_WRITE else BUS_ACCESS_DATA_WRITE
            | UND_MODE_ABS \<Rightarrow>
                if phase < 3 then BUS_ACCESS_OPERAND_READ
                else if phase = 3 then und_data_access lax rmw
                else if phase = 4 then BUS_ACCESS_RMW_DUMMY_WRITE else BUS_ACCESS_DATA_WRITE
            | UND_MODE_IND_Y \<Rightarrow>
                if phase < 4 then BUS_ACCESS_DATA_READ
                else if phase = 4 then
                  (if lax \<and> \<not> micro_branch_taken m then BUS_ACCESS_DATA_READ
                   else BUS_ACCESS_DUMMY_READ)
                else if \<not> rmw then (if lax then BUS_ACCESS_DATA_READ else BUS_ACCESS_DATA_WRITE)
                else if phase = 5 then BUS_ACCESS_DATA_READ
                else if phase = 6 then BUS_ACCESS_RMW_DUMMY_WRITE else BUS_ACCESS_DATA_WRITE
            | UND_MODE_ZP_INDEXED \<Rightarrow>
                if phase = 2 then BUS_ACCESS_DUMMY_READ
                else if phase = 3 then und_data_access lax rmw
                else if phase = 4 then BUS_ACCESS_RMW_DUMMY_WRITE else BUS_ACCESS_DATA_WRITE
            | _ \<Rightarrow>
                if phase < 3 then BUS_ACCESS_OPERAND_READ
                else if phase = 3 then
                  (if lax \<and> \<not> micro_branch_taken m then BUS_ACCESS_DATA_READ
                   else BUS_ACCESS_DUMMY_READ)
                else if \<not> rmw then (if lax then BUS_ACCESS_DATA_READ else BUS_ACCESS_DATA_WRITE)
                else if phase = 4 then BUS_ACCESS_DATA_READ
                else if phase = 5 then BUS_ACCESS_RMW_DUMMY_WRITE else BUS_ACCESS_DATA_WRITE))"

definition micro_access_und_nop :: "'u C6510 \<Rightarrow> c6510_bus_access_kind" where
  "micro_access_und_nop m =
     (if micro_opcode m = UND_80 then BUS_ACCESS_OPERAND_READ
      else if micro_opcode m = UND_44 then
        (if micro_phase m = 1 then BUS_ACCESS_OPERAND_READ else BUS_ACCESS_DATA_READ)
      else if micro_opcode m = UND_0C then
        (if micro_phase m < 3 then BUS_ACCESS_OPERAND_READ else BUS_ACCESS_DATA_READ)
      else if micro_phase m < 3 then BUS_ACCESS_OPERAND_READ
      else if micro_phase m = 3 \<and> micro_branch_taken m then BUS_ACCESS_DUMMY_READ
      else BUS_ACCESS_DATA_READ)"

text \<open>The last \<^verbatim>\<open>switch\<close>, in two parts: up to the absolute and zero page operands, and the rest.\<close>

definition micro_access_documented_indexed :: "u8 \<Rightarrow> 'u C6510 \<Rightarrow> c6510_bus_access_kind" where
  "micro_access_documented_indexed op m =
     (if op \<in> {LDA_zpg_X, LDX_zpg_Y, LDY_zpg_X} then
        (if micro_phase m = 1 then BUS_ACCESS_OPERAND_READ
         else if micro_phase m = 2 then BUS_ACCESS_DUMMY_READ
         else BUS_ACCESS_DATA_READ)
      else if op \<in> {STA_zpg_X, STX_zpg_Y, STY_zpg_X} then
        (if micro_phase m = 1 then BUS_ACCESS_OPERAND_READ
         else if micro_phase m = 2 then BUS_ACCESS_DUMMY_READ
         else BUS_ACCESS_DATA_WRITE)
      else if op \<in> {ORA_zpg_X, AND_zpg_X, EOR_zpg_X, ADC_zpg_X, SBC_zpg_X, CMP_zpg_X} then
        (if micro_phase m = 1 then BUS_ACCESS_OPERAND_READ
         else if micro_phase m = 2 then BUS_ACCESS_DUMMY_READ
         else BUS_ACCESS_DATA_READ)
      else if op \<in> {LDA_abs_X, LDA_abs_Y, LDX_abs_Y, LDY_abs_X} then
        (if micro_phase m < 3 then BUS_ACCESS_OPERAND_READ
         else if micro_phase m = 3 \<and> micro_branch_taken m then BUS_ACCESS_DUMMY_READ
         else BUS_ACCESS_DATA_READ)
      else if op \<in> {STA_abs_X, STA_abs_Y} then
        (if micro_phase m < 3 then BUS_ACCESS_OPERAND_READ
         else if micro_phase m = 3 then BUS_ACCESS_DUMMY_READ
         else BUS_ACCESS_DATA_WRITE)
      else if op \<in> {ORA_abs_X, ORA_abs_Y, AND_abs_X, AND_abs_Y, EOR_abs_X, EOR_abs_Y,
                 ADC_abs_X, ADC_abs_Y, SBC_abs_X, SBC_abs_Y, CMP_abs_X, CMP_abs_Y} then
        (if micro_phase m < 3 then BUS_ACCESS_OPERAND_READ
         else if micro_phase m = 3 \<and> micro_branch_taken m then BUS_ACCESS_DUMMY_READ
         else BUS_ACCESS_DATA_READ)
      else if op \<in> {LDA_X_ind, ORA_X_ind, AND_X_ind, EOR_X_ind, ADC_X_ind, SBC_X_ind,
                 CMP_X_ind} then
        (if micro_phase m = 1 then BUS_ACCESS_OPERAND_READ
         else if micro_phase m = 2 then BUS_ACCESS_DUMMY_READ
         else BUS_ACCESS_DATA_READ)
      else if op = STA_X_ind then
        (if micro_phase m = 1 then BUS_ACCESS_OPERAND_READ
         else if micro_phase m = 2 then BUS_ACCESS_DUMMY_READ
         else if micro_phase m < 5 then BUS_ACCESS_DATA_READ
         else BUS_ACCESS_DATA_WRITE)
      else if op \<in> {LDA_ind_Y, ORA_ind_Y, AND_ind_Y, EOR_ind_Y, ADC_ind_Y, SBC_ind_Y,
                 CMP_ind_Y} then
        (if micro_phase m = 1 then BUS_ACCESS_OPERAND_READ
         else if micro_phase m < 3 then BUS_ACCESS_DATA_READ
         else if micro_phase m = 3 \<and> micro_branch_taken m then BUS_ACCESS_DUMMY_READ
         else BUS_ACCESS_DATA_READ)
      else if op = STA_ind_Y then
        (if micro_phase m = 1 then BUS_ACCESS_OPERAND_READ
         else if micro_phase m < 3 then BUS_ACCESS_DATA_READ
         else if micro_phase m = 3 then BUS_ACCESS_DUMMY_READ
         else BUS_ACCESS_DATA_WRITE)
      else if op \<in> {ASL_zpg, ROL_zpg, LSR_zpg, ROR_zpg, DEC_zpg, INC_zpg} then
        (if micro_phase m = 1 then BUS_ACCESS_OPERAND_READ
         else if micro_phase m = 2 then BUS_ACCESS_DATA_READ
         else if micro_phase m = 3 then BUS_ACCESS_RMW_DUMMY_WRITE
         else BUS_ACCESS_DATA_WRITE)
      else if op \<in> {ASL_abs, ROL_abs, LSR_abs, ROR_abs, DEC_abs, INC_abs} then
        (if micro_phase m < 3 then BUS_ACCESS_OPERAND_READ
         else if micro_phase m = 3 then BUS_ACCESS_DATA_READ
         else if micro_phase m = 4 then BUS_ACCESS_RMW_DUMMY_WRITE
         else BUS_ACCESS_DATA_WRITE)
      else if op \<in> {ASL_zpg_X, ROL_zpg_X, LSR_zpg_X, ROR_zpg_X, DEC_zpg_X, INC_zpg_X} then
        (if micro_phase m = 1 then BUS_ACCESS_OPERAND_READ
         else if micro_phase m = 2 then BUS_ACCESS_DUMMY_READ
         else if micro_phase m = 3 then BUS_ACCESS_DATA_READ
         else if micro_phase m = 4 then BUS_ACCESS_RMW_DUMMY_WRITE
         else BUS_ACCESS_DATA_WRITE)
      else if op \<in> {ASL_abs_X, ROL_abs_X, LSR_abs_X, ROR_abs_X, DEC_abs_X, INC_abs_X} then
        (if micro_phase m < 3 then BUS_ACCESS_OPERAND_READ
         else if micro_phase m = 3 then BUS_ACCESS_DUMMY_READ
         else if micro_phase m = 4 then BUS_ACCESS_DATA_READ
         else if micro_phase m = 5 then BUS_ACCESS_RMW_DUMMY_WRITE
         else BUS_ACCESS_DATA_WRITE)
      else BUS_ACCESS_DATA_READ)"

definition micro_access_documented :: "u8 \<Rightarrow> 'u C6510 \<Rightarrow> c6510_bus_access_kind" where
  "micro_access_documented op m =
     (if op = NOP then
        BUS_ACCESS_DUMMY_READ
      else if op \<in> {LDA_imm, LDX_imm, LDY_imm, UND_0B, UND_2B, UND_CB, UND_4B} then
        BUS_ACCESS_OPERAND_READ
      else if op \<in> {LDA_abs, LDX_abs, LDY_abs} then
        (if micro_phase m < 3 then BUS_ACCESS_OPERAND_READ else BUS_ACCESS_DATA_READ)
      else if op \<in> {STA_abs, STX_abs, STY_abs} then
        (if micro_phase m < 3 then BUS_ACCESS_OPERAND_READ else BUS_ACCESS_DATA_WRITE)
      else if op = JMP_abs then
        BUS_ACCESS_OPERAND_READ
      else if op = JMP_ind then
        (if micro_phase m < 3 then BUS_ACCESS_OPERAND_READ else BUS_ACCESS_DATA_READ)
      else if op \<in> {BPL_rel, BMI_rel, BVC_rel, BVS_rel, BCC_rel, BCS_rel, BNE_rel, BEQ_rel}
                 then
        (if micro_phase m = 1 then BUS_ACCESS_OPERAND_READ else BUS_ACCESS_DUMMY_READ)
      else if op = JSR_abs then
        (if micro_phase m = 1 \<or> micro_phase m = 5 then BUS_ACCESS_OPERAND_READ
         else if micro_phase m = 2 then BUS_ACCESS_DUMMY_READ
         else BUS_ACCESS_STACK_WRITE)
      else if op = RTS then
        (if micro_phase m < 3 then BUS_ACCESS_DUMMY_READ
         else if micro_phase m < 5 then BUS_ACCESS_STACK_READ
         else BUS_ACCESS_DUMMY_READ)
      else if op \<in> {ORA_imm, AND_imm, EOR_imm, ADC_imm, SBC_imm, CMP_imm, CPX_imm, CPY_imm}
                 then
        BUS_ACCESS_OPERAND_READ
      else if op \<in> {CLC, SEC, CLI, SEI, CLD, SED, CLV, INX, INY, DEX, DEY, TAX, TAY, TXA, TYA,
                 TSX, TXS, ASL_A, ROL_A, LSR_A, ROR_A} then
        BUS_ACCESS_DUMMY_READ
      else if op \<in> {PHA, PHP} then
        (if micro_phase m = 1 then BUS_ACCESS_DUMMY_READ else BUS_ACCESS_STACK_WRITE)
      else if op \<in> {PLA, PLP} then
        (if micro_phase m < 3 then BUS_ACCESS_DUMMY_READ else BUS_ACCESS_STACK_READ)
      else if op = RTI then
        (if micro_phase m < 3 then BUS_ACCESS_DUMMY_READ else BUS_ACCESS_STACK_READ)
      else if op = BRK then
        (if micro_phase m = 1 then BUS_ACCESS_OPERAND_READ
         else if micro_phase m < 5 then BUS_ACCESS_STACK_WRITE
         else BUS_ACCESS_VECTOR_READ)
      else if op \<in> {LDA_zpg, LDX_zpg, LDY_zpg} then
        (if micro_phase m = 1 then BUS_ACCESS_OPERAND_READ else BUS_ACCESS_DATA_READ)
      else if op \<in> {STA_zpg, STX_zpg, STY_zpg} then
        (if micro_phase m = 1 then BUS_ACCESS_OPERAND_READ else BUS_ACCESS_DATA_WRITE)
      else if op \<in> {ORA_zpg, AND_zpg, EOR_zpg, ADC_zpg, SBC_zpg, CMP_zpg, CPX_zpg, CPY_zpg}
                 then
        (if micro_phase m = 1 then BUS_ACCESS_OPERAND_READ else BUS_ACCESS_DATA_READ)
      else if op = BIT_zpg then
        (if micro_phase m = 1 then BUS_ACCESS_OPERAND_READ else BUS_ACCESS_DATA_READ)
      else if op \<in> {BIT_abs, ORA_abs, AND_abs, EOR_abs, ADC_abs, SBC_abs, CMP_abs, CPX_abs,
                 CPY_abs} then
        (if micro_phase m < 3 then BUS_ACCESS_OPERAND_READ else BUS_ACCESS_DATA_READ)
      else micro_access_documented_indexed op m)"

definition c6510_micro_access_kind :: "'u C6510 \<Rightarrow> c6510_bus_access_kind" where
  "c6510_micro_access_kind m =
     (if micro_phase m = 0 then
        (if micro_is_interrupt m then BUS_ACCESS_DUMMY_READ else BUS_ACCESS_OPCODE_FETCH)
      else if micro_is_interrupt m then
        (if micro_phase m = 1 then BUS_ACCESS_DUMMY_READ
         else if micro_phase m < 5 then BUS_ACCESS_STACK_WRITE
         else BUS_ACCESS_VECTOR_READ)
      else
        (case c6510_micro_op_class (micro_opcode m) of
           OP_UND_PRACTICAL \<Rightarrow> micro_access_undocumented m
         | OP_UND_NOP \<Rightarrow> micro_access_und_nop m
         | _ \<Rightarrow> micro_access_documented (micro_opcode m) m))"

section \<open>The cycles that are left\<close>

text \<open>The subtraction is unsigned 32-bit arithmetic; the result is a \<^verbatim>\<open>size_t\<close>.\<close>

definition remaining_of :: "u32 \<Rightarrow> 'u C6510 \<Rightarrow> u64" where
  "remaining_of n m = ucast (n - ucast (micro_phase m))"

definition micro_remaining_undocumented :: "'u C6510 \<Rightarrow> u64" where
  "micro_remaining_undocumented m =
     (let rmw = c6510_micro_is_undocumented_rmw (micro_opcode m);
          lax = c6510_micro_is_lax (micro_opcode m);
          total_cycles =
            (case c6510_micro_undocumented_mode (micro_opcode m) of
               UND_MODE_ZP \<Rightarrow> if rmw then 5 else 3
             | UND_MODE_ZP_INDEXED \<Rightarrow> if rmw then 6 else 4
             | UND_MODE_ABS \<Rightarrow> if rmw then 6 else 4
             | UND_MODE_X_IND \<Rightarrow> if rmw then 8 else 6
             | UND_MODE_IND_Y \<Rightarrow>
                 if rmw then 8 else if lax \<and> \<not> micro_branch_taken m then 5 else 6
             | UND_MODE_ABS_Y \<Rightarrow>
                 if rmw then 7 else if lax \<and> \<not> micro_branch_taken m then 4 else 5
             | _ \<Rightarrow> 7)
      in if total_cycles > ucast (micro_phase m) then total_cycles - ucast (micro_phase m) else 0)"

definition micro_remaining_und_nop :: "'u C6510 \<Rightarrow> u64" where
  "micro_remaining_und_nop m =
     (if micro_opcode m = UND_80 then 1
      else if micro_opcode m = UND_44 then remaining_of 3 m
      else if micro_opcode m = UND_0C then remaining_of 4 m
      else remaining_of (if micro_branch_taken m then 5 else 4) m)"

definition micro_remaining_documented_indexed :: "u8 \<Rightarrow> 'u C6510 \<Rightarrow> u64" where
  "micro_remaining_documented_indexed op m =
     (if op \<in> {LDA_zpg_X, LDX_zpg_Y, LDY_zpg_X, STA_zpg_X, STX_zpg_Y, STY_zpg_X, ORA_zpg_X,
                 AND_zpg_X, EOR_zpg_X, ADC_zpg_X, SBC_zpg_X, CMP_zpg_X} then
        remaining_of 4 m
      else if op \<in> {LDA_X_ind, STA_X_ind, ORA_X_ind, AND_X_ind, EOR_X_ind, ADC_X_ind,
                 SBC_X_ind, CMP_X_ind} then
        remaining_of 6 m
      else if op \<in> {LDA_ind_Y, ORA_ind_Y, AND_ind_Y, EOR_ind_Y, ADC_ind_Y, SBC_ind_Y,
                 CMP_ind_Y} then
        (if micro_phase m = 1 then 4
         else if micro_branch_taken m then remaining_of 6 m
         else remaining_of 5 m)
      else if op = STA_ind_Y then
        remaining_of 6 m
      else if op \<in> {LDA_abs_X, LDA_abs_Y, LDX_abs_Y, LDY_abs_X, ORA_abs_X, ORA_abs_Y,
                 AND_abs_X, AND_abs_Y, EOR_abs_X, EOR_abs_Y, ADC_abs_X, ADC_abs_Y, SBC_abs_X,
                 SBC_abs_Y, CMP_abs_X, CMP_abs_Y} then
        (if micro_branch_taken m then remaining_of 5 m else remaining_of 4 m)
      else if op \<in> {STA_abs_X, STA_abs_Y} then
        remaining_of 5 m
      else if op \<in> {ASL_zpg, ROL_zpg, LSR_zpg, ROR_zpg, DEC_zpg, INC_zpg} then
        remaining_of 5 m
      else if op \<in> {ASL_abs, ROL_abs, LSR_abs, ROR_abs, DEC_abs, INC_abs} then
        remaining_of 6 m
      else if op \<in> {ASL_zpg_X, ROL_zpg_X, LSR_zpg_X, ROR_zpg_X, DEC_zpg_X, INC_zpg_X} then
        remaining_of 6 m
      else if op \<in> {ASL_abs_X, ROL_abs_X, LSR_abs_X, ROR_abs_X, DEC_abs_X, INC_abs_X} then
        remaining_of 7 m
      else 0)"

definition micro_remaining_documented :: "u8 \<Rightarrow> 'u C6510 \<Rightarrow> u64" where
  "micro_remaining_documented op m =
     (if op \<in> {NOP, LDA_imm, LDX_imm, LDY_imm, UND_0B, UND_2B, UND_CB, UND_4B} then
        1
      else if op \<in> {LDA_abs, LDX_abs, LDY_abs, STA_abs, STX_abs, STY_abs} then
        remaining_of 4 m
      else if op = JMP_abs then
        remaining_of 3 m
      else if op = JMP_ind then
        remaining_of 5 m
      else if op \<in> {BPL_rel, BMI_rel, BVC_rel, BVS_rel, BCC_rel, BCS_rel, BNE_rel, BEQ_rel}
                 then
        remaining_of 4 m
      else if op = JSR_abs then
        remaining_of 6 m
      else if op = RTS then
        remaining_of 6 m
      else if op \<in> {ORA_imm, AND_imm, EOR_imm, ADC_imm, SBC_imm, CMP_imm, CPX_imm, CPY_imm,
                 CLC, SEC, CLI, SEI, CLD, SED, CLV, INX, INY, DEX, DEY, TAX, TAY, TXA, TYA, TSX,
                 TXS, ASL_A, ROL_A, LSR_A, ROR_A} then
        1
      else if op \<in> {PHA, PHP} then
        remaining_of 3 m
      else if op \<in> {PLA, PLP} then
        remaining_of 4 m
      else if op = RTI then
        remaining_of 6 m
      else if op = BRK then
        remaining_of 7 m
      else if op \<in> {LDA_zpg, LDX_zpg, LDY_zpg, STA_zpg, STX_zpg, STY_zpg} then
        remaining_of 3 m
      else if op \<in> {ORA_zpg, AND_zpg, EOR_zpg, ADC_zpg, SBC_zpg, CMP_zpg, CPX_zpg, CPY_zpg,
                 BIT_zpg} then
        remaining_of 3 m
      else if op \<in> {BIT_abs, ORA_abs, AND_abs, EOR_abs, ADC_abs, SBC_abs, CMP_abs, CPX_abs,
                 CPY_abs} then
        remaining_of 4 m
      else micro_remaining_documented_indexed op m)"

definition c6510_micro_cycles_remaining :: "'u C6510 \<Rightarrow> u64" where
  "c6510_micro_cycles_remaining m =
     (if \<not> micro_active m then 0
      else if micro_is_interrupt m then remaining_of 7 m
      else if micro_phase m = 0 then 1
      else if c6510_micro_is_practical_undocumented (micro_opcode m)
      then micro_remaining_undocumented m
      else if c6510_micro_is_undocumented_nop (micro_opcode m) then micro_remaining_und_nop m
      else micro_remaining_documented (micro_opcode m) m)"

end
