(* ===== verification/C6510_Frame.thy ===== *)
theory C6510_Frame
  imports C6510_Step
begin

text \<open>
  The whole-instruction executor neither reads nor writes the fields of the resumable
  path. \<open>with_micro n m\<close> is \<open>m\<close> with those fields taken from \<open>n\<close>; every stage helper,
  instruction body and entry of the opcode table commutes with it.
\<close>

definition with_micro :: "'u C6510 \<Rightarrow> 'u C6510 \<Rightarrow> 'u C6510" where
  "with_micro n m =
     m\<lparr>opcode_active := opcode_active n, micro_active := micro_active n,
       micro_opcode := micro_opcode n, micro_phase := micro_phase n,
       micro_branch_taken := micro_branch_taken n, micro_target := micro_target n,
       micro_interrupt_vector := micro_interrupt_vector n,
       micro_is_interrupt := micro_is_interrupt n\<rparr>"

named_theorems micro_frame "operations that commute with the fields of the resumable path"

lemma with_micro_select [micro_frame]:
  "pc (with_micro n m) = pc m"
  "opcode_pc (with_micro n m) = opcode_pc m"
  "sp (with_micro n m) = sp m"
  "reg_A (with_micro n m) = reg_A m"
  "reg_X (with_micro n m) = reg_X m"
  "reg_Y (with_micro n m) = reg_Y m"
  "flag_C (with_micro n m) = flag_C m"
  "flag_Z (with_micro n m) = flag_Z m"
  "flag_I (with_micro n m) = flag_I m"
  "flag_D (with_micro n m) = flag_D m"
  "flag_B (with_micro n m) = flag_B m"
  "flag_E (with_micro n m) = flag_E m"
  "flag_V (with_micro n m) = flag_V m"
  "flag_N (with_micro n m) = flag_N m"
  "address_lo (with_micro n m) = address_lo m"
  "address_hi (with_micro n m) = address_hi m"
  "scratch_lo (with_micro n m) = scratch_lo m"
  "scratch_hi (with_micro n m) = scratch_hi m"
  "page_fault (with_micro n m) = page_fault m"
  "irq_defer (with_micro n m) = irq_defer m"
  "irq_defer_i (with_micro n m) = irq_defer_i m"
  "cpu_model (with_micro n m) = cpu_model m"
  "cycles (with_micro n m) = cycles m"
  "irq_entries (with_micro n m) = irq_entries m"
  "nmi_entries (with_micro n m) = nmi_entries m"
  "user (with_micro n m) = user m"
  "read_fn (with_micro n m) = read_fn m"
  "write_fn (with_micro n m) = write_fn m"
  "irq_pending_fn (with_micro n m) = irq_pending_fn m"
  "nmi_pending_fn (with_micro n m) = nmi_pending_fn m"
  "bus_access_kind (with_micro n m) = bus_access_kind m"
  by (simp_all add: with_micro_def)

lemma with_micro_update [micro_frame]:
  "pc_update x0 (with_micro n m) = with_micro n (pc_update x0 m)"
  "opcode_pc_update x1 (with_micro n m) = with_micro n (opcode_pc_update x1 m)"
  "sp_update x2 (with_micro n m) = with_micro n (sp_update x2 m)"
  "reg_A_update x3 (with_micro n m) = with_micro n (reg_A_update x3 m)"
  "reg_X_update x4 (with_micro n m) = with_micro n (reg_X_update x4 m)"
  "reg_Y_update x5 (with_micro n m) = with_micro n (reg_Y_update x5 m)"
  "flag_C_update x6 (with_micro n m) = with_micro n (flag_C_update x6 m)"
  "flag_Z_update x7 (with_micro n m) = with_micro n (flag_Z_update x7 m)"
  "flag_I_update x8 (with_micro n m) = with_micro n (flag_I_update x8 m)"
  "flag_D_update x9 (with_micro n m) = with_micro n (flag_D_update x9 m)"
  "flag_B_update x10 (with_micro n m) = with_micro n (flag_B_update x10 m)"
  "flag_E_update x11 (with_micro n m) = with_micro n (flag_E_update x11 m)"
  "flag_V_update x12 (with_micro n m) = with_micro n (flag_V_update x12 m)"
  "flag_N_update x13 (with_micro n m) = with_micro n (flag_N_update x13 m)"
  "address_lo_update x14 (with_micro n m) = with_micro n (address_lo_update x14 m)"
  "address_hi_update x15 (with_micro n m) = with_micro n (address_hi_update x15 m)"
  "scratch_lo_update x16 (with_micro n m) = with_micro n (scratch_lo_update x16 m)"
  "scratch_hi_update x17 (with_micro n m) = with_micro n (scratch_hi_update x17 m)"
  "page_fault_update x18 (with_micro n m) = with_micro n (page_fault_update x18 m)"
  "irq_defer_update x19 (with_micro n m) = with_micro n (irq_defer_update x19 m)"
  "irq_defer_i_update x20 (with_micro n m) = with_micro n (irq_defer_i_update x20 m)"
  "cpu_model_update x21 (with_micro n m) = with_micro n (cpu_model_update x21 m)"
  "cycles_update x22 (with_micro n m) = with_micro n (cycles_update x22 m)"
  "irq_entries_update x23 (with_micro n m) = with_micro n (irq_entries_update x23 m)"
  "nmi_entries_update x24 (with_micro n m) = with_micro n (nmi_entries_update x24 m)"
  "user_update x25 (with_micro n m) = with_micro n (user_update x25 m)"
  "read_fn_update x26 (with_micro n m) = with_micro n (read_fn_update x26 m)"
  "write_fn_update x27 (with_micro n m) = with_micro n (write_fn_update x27 m)"
  "irq_pending_fn_update x28 (with_micro n m) = with_micro n (irq_pending_fn_update x28 m)"
  "nmi_pending_fn_update x29 (with_micro n m) = with_micro n (nmi_pending_fn_update x29 m)"
  "bus_access_kind_update x30 (with_micro n m) = with_micro n (bus_access_kind_update x30 m)"
  by (simp_all add: with_micro_def)

lemma case_apsnd [micro_frame]:
  "(case apsnd f p of (a, b) \<Rightarrow> g a b) = (case p of (a, b) \<Rightarrow> g a (f b))"
  by (cases p) simp

lemma with_micro_case [micro_frame]:
  "(case p of (a, b) \<Rightarrow> with_micro n (g a b)) = with_micro n (case p of (a, b) \<Rightarrow> g a b)"
  by (cases p) simp

lemma with_micro_if [micro_frame]:
  "(if b then with_micro n m else with_micro n m') = with_micro n (if b then m else m')"
  by simp

lemma with_micro_let:
  "(let m = with_micro n x in f m) = (let m = x in f (with_micro n m))"
  "(let m = x in with_micro n (g m)) = with_micro n (let m = x in g m)"
  by (simp_all add: Let_def)

lemma with_micro_let_value:
  "(let y = z in with_micro n (g y)) = with_micro n (let y = z in g y)"
  "(let (a, b) = p in h a b) = (case p of (a, b) \<Rightarrow> h a b)"
  by (simp_all add: Let_def)

lemmas cpu_access_defs = read_from_memory_def write_to_memory_def read_opcode_def read_operand_def
  read_stack_def write_stack_def read_vector_def

lemma with_micro_bus [micro_frame]:
  "bus_read k (with_micro n m) a = apsnd (with_micro n) (bus_read k m a)"
  "bus_write k (with_micro n m) a v = with_micro n (bus_write k m a v)"
  "CYCLE (with_micro n m) = with_micro n (CYCLE m)"
  "put_register r v (with_micro n m) = with_micro n (put_register r v m)"
  "read_dummy (with_micro n m) a = with_micro n (read_dummy m a)"
  "cpu_flags (with_micro n m) = cpu_flags m"
  "set_flags v (with_micro n m) = with_micro n (set_flags v m)"
  by (cases r; simp add: bus_read_def bus_write_def CYCLE_def read_dummy_def cpu_flags_def
        set_flags_def micro_frame split: prod.split)+

lemma with_micro_pull [micro_frame]: "pull (with_micro n m) = apsnd (with_micro n) (pull m)"
  by (simp add: pull_def Let_def micro_frame cpu_access_defs)

lemma with_micro_c6510_irq_pending [micro_frame]: "c6510_irq_pending (with_micro n m) = apsnd (with_micro n) (c6510_irq_pending m)"
  by (simp add: c6510_irq_pending_def micro_frame split: option.split prod.split)

lemma with_micro_c6510_nmi_pending [micro_frame]: "c6510_nmi_pending (with_micro n m) = apsnd (with_micro n) (c6510_nmi_pending m)"
  by (simp add: c6510_nmi_pending_def micro_frame split: option.split prod.split)

lemma with_micro_level_1 [micro_frame]:
  "set_register_to_value r v (with_micro n m) = with_micro n (set_register_to_value r v m)"
  "compare_bytes v w (with_micro n m) = with_micro n (compare_bytes v w m)"
  "push v (with_micro n m) = with_micro n (push v m)"
  "ah_read_a16_sl2al (with_micro n m) = with_micro n (ah_read_a16_sl2al m)"
  "ah_read_pc (with_micro n m) = with_micro n (ah_read_pc m)"
  "al_read_pc (with_micro n m) = with_micro n (al_read_pc m)"
  "branch (with_micro n m) = with_micro n (branch m)"
  "read_a16_ind_x (with_micro n m) = with_micro n (read_a16_ind_x m)"
  "read_a16_ind_y (with_micro n m) = with_micro n (read_a16_ind_y m)"
  "read_sp (with_micro n m) = with_micro n (read_sp m)"
  "sl_read_a16 (with_micro n m) = with_micro n (sl_read_a16 m)"
  "sl_write_a16 (with_micro n m) = with_micro n (sl_write_a16 m)"
  "index_dummy_read (with_micro n m) = with_micro n (index_dummy_read m)"
  "read_pc_1 (with_micro n m) = with_micro n (read_pc_1 m)"
  "read_pc (with_micro n m) = with_micro n (read_pc m)"
  "unimplemented (with_micro n m) = with_micro n (unimplemented m)"
  "unstable_store_a16 v (with_micro n m) = with_micro n (unstable_store_a16 v m)"
  "c6510_read_interrupt_vector a (with_micro n m) = with_micro n (c6510_read_interrupt_vector a m)"
  "branch_operand (with_micro n m) = with_micro n (branch_operand m)"
  "bit_imm (with_micro n m) = with_micro n (bit_imm m)"
  "clc (with_micro n m) = with_micro n (clc m)"
  "cld (with_micro n m) = with_micro n (cld m)"
  "cli (with_micro n m) = with_micro n (cli m)"
  "clv (with_micro n m) = with_micro n (clv m)"
  "jam_read a (with_micro n m) = with_micro n (jam_read a m)"
  "jmp_a16 (with_micro n m) = with_micro n (jmp_a16 m)"
  "jmp_ind (with_micro n m) = with_micro n (jmp_ind m)"
  "sta_a16 (with_micro n m) = with_micro n (sta_a16 m)"
  "sax_a16 (with_micro n m) = with_micro n (sax_a16 m)"
  "stx_a16 (with_micro n m) = with_micro n (stx_a16 m)"
  "sty_a16 (with_micro n m) = with_micro n (sty_a16 m)"
  "stz_a16 v (with_micro n m) = with_micro n (stz_a16 v m)"
  "trb (with_micro n m) = with_micro n (trb m)"
  "tsb (with_micro n m) = with_micro n (tsb m)"
  by (simp_all only: with_micro_let with_micro_let_value micro_frame cpu_access_defs union_views
        set_register_to_value_def compare_bytes_def push_def ah_read_a16_sl2al_def
        ah_read_pc_def al_read_pc_def branch_def read_a16_ind_x_def read_a16_ind_y_def
        read_sp_def sl_read_a16_def sl_write_a16_def index_dummy_read_def read_pc_1_def
        read_pc_def unimplemented_def unstable_store_a16_def
        c6510_read_interrupt_vector_def branch_operand_def bit_imm_def clc_def cld_def
        cli_def clv_def jam_read_def jmp_a16_def jmp_ind_def sta_a16_def sax_a16_def
        stx_a16_def sty_a16_def stz_a16_def trb_def tsb_def cong: if_cong)

lemma with_micro_jam [micro_frame]: "jam (with_micro n m) = with_micro n (jam m)"
  by (simp add: jam_def Let_def micro_frame eval_nat_numeral)

lemma with_micro_level_2 [micro_frame]:
  "add_value_to_accumulator v (with_micro n m) = with_micro n (add_value_to_accumulator v m)"
  "subtract_value_from_accumulator v (with_micro n m) = with_micro n (subtract_value_from_accumulator v m)"
  "ah_from_stack (with_micro n m) = with_micro n (ah_from_stack m)"
  "al_from_stack (with_micro n m) = with_micro n (al_from_stack m)"
  "p_from_stack (with_micro n m) = with_micro n (p_from_stack m)"
  "pc_hi_to_stack (with_micro n m) = with_micro n (pc_hi_to_stack m)"
  "pc_lo_to_stack (with_micro n m) = with_micro n (pc_lo_to_stack m)"
  "a_pipe (with_micro n m) = with_micro n (a_pipe m)"
  "rmw_second_access (with_micro n m) = with_micro n (rmw_second_access m)"
  "mix (with_micro n m) = with_micro n (mix m)"
  "miy (with_micro n m) = with_micro n (miy m)"
  "miyr (with_micro n m) = with_micro n (miyr m)"
  "miyr_und (with_micro n m) = with_micro n (miyr_und m)"
  "miz (with_micro n m) = with_micro n (miz m)"
  "mizy (with_micro n m) = with_micro n (mizy m)"
  "c6510_irq (with_micro n m) = with_micro n (c6510_irq m)"
  "c6510_nmi (with_micro n m) = with_micro n (c6510_nmi m)"
  "ahx_a16 (with_micro n m) = with_micro n (ahx_a16 m)"
  "anc_imm (with_micro n m) = with_micro n (anc_imm m)"
  "alr_imm (with_micro n m) = with_micro n (alr_imm m)"
  "and_a16 (with_micro n m) = with_micro n (and_a16 m)"
  "and_imm (with_micro n m) = with_micro n (and_imm m)"
  "arr_imm (with_micro n m) = with_micro n (arr_imm m)"
  "asl_a (with_micro n m) = with_micro n (asl_a m)"
  "asl_a16 (with_micro n m) = with_micro n (asl_a16 m)"
  "axs_imm (with_micro n m) = with_micro n (axs_imm m)"
  "bcc (with_micro n m) = with_micro n (bcc m)"
  "bcs (with_micro n m) = with_micro n (bcs m)"
  "beq (with_micro n m) = with_micro n (beq m)"
  "bit_a16 (with_micro n m) = with_micro n (bit_a16 m)"
  "bmi (with_micro n m) = with_micro n (bmi m)"
  "bne (with_micro n m) = with_micro n (bne m)"
  "bpl (with_micro n m) = with_micro n (bpl m)"
  "bra (with_micro n m) = with_micro n (bra m)"
  "bvc (with_micro n m) = with_micro n (bvc m)"
  "bvs (with_micro n m) = with_micro n (bvs m)"
  "c6510_brk (with_micro n m) = with_micro n (c6510_brk m)"
  "cmp_a16 (with_micro n m) = with_micro n (cmp_a16 m)"
  "cmp_imm (with_micro n m) = with_micro n (cmp_imm m)"
  "cpx_a16 (with_micro n m) = with_micro n (cpx_a16 m)"
  "cpx_imm (with_micro n m) = with_micro n (cpx_imm m)"
  "cpy_a16 (with_micro n m) = with_micro n (cpy_a16 m)"
  "cpy_imm (with_micro n m) = with_micro n (cpy_imm m)"
  "dcp_a16 (with_micro n m) = with_micro n (dcp_a16 m)"
  "dea (with_micro n m) = with_micro n (dea m)"
  "dec_a16 (with_micro n m) = with_micro n (dec_a16 m)"
  "dex (with_micro n m) = with_micro n (dex m)"
  "dey (with_micro n m) = with_micro n (dey m)"
  "eor_a16 (with_micro n m) = with_micro n (eor_a16 m)"
  "eor_imm (with_micro n m) = with_micro n (eor_imm m)"
  "inc_a16 (with_micro n m) = with_micro n (inc_a16 m)"
  "ina (with_micro n m) = with_micro n (ina m)"
  "inx (with_micro n m) = with_micro n (inx m)"
  "iny (with_micro n m) = with_micro n (iny m)"
  "jsr_a16 (with_micro n m) = with_micro n (jsr_a16 m)"
  "las_a16 (with_micro n m) = with_micro n (las_a16 m)"
  "lax_a16 (with_micro n m) = with_micro n (lax_a16 m)"
  "lax_imm_und (with_micro n m) = with_micro n (lax_imm_und m)"
  "lda_a16 (with_micro n m) = with_micro n (lda_a16 m)"
  "lda_imm (with_micro n m) = with_micro n (lda_imm m)"
  "ldx_a16 (with_micro n m) = with_micro n (ldx_a16 m)"
  "ldx_imm (with_micro n m) = with_micro n (ldx_imm m)"
  "ldy_a16 (with_micro n m) = with_micro n (ldy_a16 m)"
  "ldy_imm (with_micro n m) = with_micro n (ldy_imm m)"
  "lsr_a (with_micro n m) = with_micro n (lsr_a m)"
  "lsr_a16 (with_micro n m) = with_micro n (lsr_a16 m)"
  "ora_a16 (with_micro n m) = with_micro n (ora_a16 m)"
  "ora_imm (with_micro n m) = with_micro n (ora_imm m)"
  "phx (with_micro n m) = with_micro n (phx m)"
  "phy (with_micro n m) = with_micro n (phy m)"
  "pla (with_micro n m) = with_micro n (pla m)"
  "plp (with_micro n m) = with_micro n (plp m)"
  "plx (with_micro n m) = with_micro n (plx m)"
  "ply (with_micro n m) = with_micro n (ply m)"
  "pha (with_micro n m) = with_micro n (pha m)"
  "php (with_micro n m) = with_micro n (php m)"
  "rla_a16 (with_micro n m) = with_micro n (rla_a16 m)"
  "rol_a (with_micro n m) = with_micro n (rol_a m)"
  "rol_a16 (with_micro n m) = with_micro n (rol_a16 m)"
  "ror_a (with_micro n m) = with_micro n (ror_a m)"
  "ror_a16 (with_micro n m) = with_micro n (ror_a16 m)"
  "rts (with_micro n m) = with_micro n (rts m)"
  "sec (with_micro n m) = with_micro n (sec m)"
  "sed (with_micro n m) = with_micro n (sed m)"
  "sei (with_micro n m) = with_micro n (sei m)"
  "slo_a16 (with_micro n m) = with_micro n (slo_a16 m)"
  "sre_a16 (with_micro n m) = with_micro n (sre_a16 m)"
  "shs_a16 (with_micro n m) = with_micro n (shs_a16 m)"
  "shy_a16 (with_micro n m) = with_micro n (shy_a16 m)"
  "shx_a16 (with_micro n m) = with_micro n (shx_a16 m)"
  "tax (with_micro n m) = with_micro n (tax m)"
  "tay (with_micro n m) = with_micro n (tay m)"
  "tsx (with_micro n m) = with_micro n (tsx m)"
  "txa (with_micro n m) = with_micro n (txa m)"
  "txs (with_micro n m) = with_micro n (txs m)"
  "tya (with_micro n m) = with_micro n (tya m)"
  "xaa_imm (with_micro n m) = with_micro n (xaa_imm m)"
  by (simp_all only: with_micro_let with_micro_let_value micro_frame cpu_access_defs union_views
        add_value_to_accumulator_def subtract_value_from_accumulator_def
        ah_from_stack_def al_from_stack_def p_from_stack_def pc_hi_to_stack_def
        pc_lo_to_stack_def a_pipe_def rmw_second_access_def mix_def miy_def miyr_def
        miyr_und_def miz_def mizy_def c6510_irq_def c6510_nmi_def ahx_a16_def
        anc_imm_def alr_imm_def and_a16_def and_imm_def arr_imm_def asl_a_def
        asl_a16_def axs_imm_def bcc_def bcs_def beq_def bit_a16_def bmi_def bne_def
        bpl_def bra_def bvc_def bvs_def c6510_brk_def cmp_a16_def cmp_imm_def
        cpx_a16_def cpx_imm_def cpy_a16_def cpy_imm_def dcp_a16_def dea_def dec_a16_def
        dex_def dey_def eor_a16_def eor_imm_def inc_a16_def ina_def inx_def iny_def
        jsr_a16_def las_a16_def lax_a16_def lax_imm_und_def lda_a16_def lda_imm_def
        ldx_a16_def ldx_imm_def ldy_a16_def ldy_imm_def lsr_a_def lsr_a16_def
        ora_a16_def ora_imm_def phx_def phy_def pla_def plp_def plx_def ply_def pha_def
        php_def rla_a16_def rol_a_def rol_a16_def ror_a_def ror_a16_def rts_def sec_def
        sed_def sei_def slo_a16_def sre_a16_def shs_a16_def shy_a16_def shx_a16_def
        tax_def tay_def tsx_def txa_def txs_def tya_def xaa_imm_def cong: if_cong)

lemma with_micro_level_3 [micro_frame]:
  "ar (with_micro n m) = with_micro n (ar m)"
  "arw (with_micro n m) = with_micro n (arw m)"
  "aix (with_micro n m) = with_micro n (aix m)"
  "aipxr (with_micro n m) = with_micro n (aipxr m)"
  "aiy (with_micro n m) = with_micro n (aiy m)"
  "aiyr (with_micro n m) = with_micro n (aiyr m)"
  "aiyr_und (with_micro n m) = with_micro n (aiyr_und m)"
  "aipxr_und (with_micro n m) = with_micro n (aipxr_und m)"
  "mixa (with_micro n m) = with_micro n (mixa m)"
  "mixrw (with_micro n m) = with_micro n (mixrw m)"
  "mrw (with_micro n m) = with_micro n (mrw m)"
  "push_interrupt_frame (with_micro n m) = with_micro n (push_interrupt_frame m)"
  "adc_a16 (with_micro n m) = with_micro n (adc_a16 m)"
  "adc_imm (with_micro n m) = with_micro n (adc_imm m)"
  "isc_a16 (with_micro n m) = with_micro n (isc_a16 m)"
  "jmp_ind_x (with_micro n m) = with_micro n (jmp_ind_x m)"
  "rti (with_micro n m) = with_micro n (rti m)"
  "sbc_a16 (with_micro n m) = with_micro n (sbc_a16 m)"
  "sbc_imm (with_micro n m) = with_micro n (sbc_imm m)"
  "rra_a16 (with_micro n m) = with_micro n (rra_a16 m)"
  by (simp_all only: with_micro_let with_micro_let_value micro_frame cpu_access_defs union_views
        ar_def arw_def aix_def aipxr_def aiy_def aiyr_def aiyr_und_def aipxr_und_def
        mixa_def mixrw_def mrw_def push_interrupt_frame_def adc_a16_def adc_imm_def
        isc_a16_def jmp_ind_x_def rti_def sbc_a16_def sbc_imm_def rra_a16_def cong: if_cong)

lemma with_micro_c6510_take_irq_if_pending [micro_frame]: "c6510_take_irq_if_pending (with_micro n m) = apsnd (with_micro n) (c6510_take_irq_if_pending m)"
  by (simp add: c6510_take_irq_if_pending_def Let_def micro_frame split: prod.split)

lemma with_micro_c6510_take_nmi_if_pending [micro_frame]: "c6510_take_nmi_if_pending (with_micro n m) = apsnd (with_micro n) (c6510_take_nmi_if_pending m)"
  by (simp add: c6510_take_nmi_if_pending_def Let_def micro_frame split: prod.split)

lemma with_micro_level_4 [micro_frame]:
  "aixrr (with_micro n m) = with_micro n (aixrr m)"
  "aipxrw (with_micro n m) = with_micro n (aipxrw m)"
  by (simp_all only: with_micro_let with_micro_let_value micro_frame cpu_access_defs union_views
        aixrr_def aipxrw_def cong: if_cong)

lemma with_micro_level_5 [micro_frame]:
  "aixr_sel (with_micro n m) = with_micro n (aixr_sel m)"
  by (simp_all only: with_micro_let with_micro_let_value micro_frame cpu_access_defs union_views
        aixr_sel_def cong: if_cong)

lemma with_micro_exec_opcode [micro_frame]:
  "exec_opcode op (with_micro n m) = with_micro n (exec_opcode op m)"
proof -
  have "\<forall>row\<in>set exec_table. length row = 16 \<and> (\<forall>f\<in>set row. f (with_micro n m) = with_micro n (f m))"
    unfolding exec_table_def exec_rows by (simp add: micro_frame del: with_micro_select with_micro_update)
  moreover have "unat (drop_bit 4 op) < length (exec_table :: ('u C6510 \<Rightarrow> 'u C6510) list list)"
    by (simp add: exec_table_def unat_high_nibble less_mult_imp_div_less)
  moreover have "unat (op AND 0x0F) < 16" by (simp add: unat_low_nibble)
  ultimately show ?thesis unfolding exec_opcode_def by (metis nth_mem)
qed

end
