(* ===== verification/C6510_Arith.thy ===== *)
theory C6510_Arith
  imports C6510_Ops
begin

text \<open>
  What the arithmetic helpers of \<^verbatim>\<open>c6510_inln.h\<close> compute: binary and decimal addition and
  subtraction with carry on the NMOS part (\<open>CPU_6502\<close>), and comparison, stated over
  numbers. \<open>bcd_value\<close> reads a byte as two decimal digits.
\<close>

section \<open>Decimal bytes\<close>

definition bcd_digits :: "u8 \<Rightarrow> bool" where
  "bcd_digits v \<longleftrightarrow> unat v mod 16 \<le> 9 \<and> unat v div 16 \<le> 9"

definition bcd_value :: "u8 \<Rightarrow> nat" where
  "bcd_value v = 10 * (unat v div 16) + unat v mod 16"

section \<open>Addition\<close>

lemma set_register_fields [simp]:
  "flag_C (set_register_to_value r v m) = flag_C m"
  "flag_D (set_register_to_value r v m) = flag_D m"
  "flag_N (set_register_to_value r v m) = bit v 7"
  "flag_Z (set_register_to_value r v m) = (v = 0)"
  "flag_V (set_register_to_value r v m) = flag_V m"
  "cpu_model (set_register_to_value r v m) = cpu_model m"
  "reg_A (set_register_to_value A_reg v m) = v"
  "scratch_lo (set_register_to_value A_reg v m) = scratch_lo m"
  "scratch_hi (set_register_to_value A_reg v m) = scratch_hi m"
  by (cases r; simp add: set_register_to_value_def)+

lemma adc_sum_bytes:
  fixes a v :: u8 and c :: bool
  defines "w \<equiv> (ucast a + ucast v + of_flag c :: u16)"
  shows "unat w = unat a + unat v + of_bool c"
    and "lo8 w = a + v + of_flag c"
    and "bit (hi8 w) 0 \<longleftrightarrow> 256 \<le> unat a + unat v + of_bool c"
proof -
  have le: "unat a + unat v + of_bool c < 512"
    using unat_u8_sum [of a v c] by simp
  then show w: "unat w = unat a + unat v + of_bool c"
    by (cases c) (simp_all add: w_def unat_word_ariths)
  show "lo8 w = a + v + of_flag c"
    by (simp add: word_unat_eq_iff unat_lo8 w) (cases c; simp add: unat_word_ariths mod_simps)
  show "bit (hi8 w) 0 \<longleftrightarrow> 256 \<le> unat a + unat v + of_bool c"
  proof (cases "256 \<le> unat a + unat v + of_bool c")
    case True
    then have "unat w div 256 = 1" unfolding w using le by (intro div_nat_eqI) simp_all
    then show ?thesis using True by (simp only: bit_0_u8 unat_hi8) simp
  next
    case False
    then show ?thesis using w by (simp only: bit_0_u8 unat_hi8) simp
  qed
qed

lemma unat_adc: "unat ((a :: u8) + v + of_flag c) = (unat a + unat v + of_bool c) mod 256"
  by (cases c) (simp_all add: unat_word_ariths mod_simps)

lemma signed_overflow_nat:
  fixes p q c :: nat
  assumes "p < 256" "q < 256" "c \<le> 1"
  shows "(128 \<le> p) \<noteq> (128 \<le> (p + q + c) mod 256) \<and> (128 \<le> p) = (128 \<le> q) \<longleftrightarrow>
    int p - (if 128 \<le> p then 256 else 0) + (int q - (if 128 \<le> q then 256 else 0)) + int c \<notin> {-128..127}"
proof -
  have "(p + q + c) mod 256 = (if p + q + c < 256 then p + q + c else p + q + c - 256)"
    using assms by (intro mod_once) linarith
  then show ?thesis using assms by (simp split: if_splits; linarith)
qed

lemma adc_overflow:
  fixes a v r :: u8
  assumes "unat r = (unat a + unat v + of_bool c) mod 256"
  shows "((a XOR r) AND NOT (a XOR v) AND 0x80) \<noteq> 0 \<longleftrightarrow>
    sint a + sint v + of_bool c \<notin> {-128..127}"
proof -
  have "((a XOR r) AND NOT (a XOR v) AND 0x80) \<noteq> 0 \<longleftrightarrow> bit a 7 \<noteq> bit r 7 \<and> bit a 7 = bit v 7"
    unfolding and_0x80 and.assoc [symmetric] by (auto simp: bit_simps)
  then show ?thesis
    using signed_overflow_nat [of "unat a" "unat v" "of_bool c"] 
    by (simp only: bit_7_u8 sint_u8 assms unat_u8_less of_nat_of_bool) simp
qed

lemma adc_binary_fields:
  assumes "\<not> flag_D m"
  shows "reg_A (add_value_to_accumulator v m) = reg_A m + v + of_flag (flag_C m)"
  "flag_C (add_value_to_accumulator v m) = (256 \<le> unat (reg_A m) + unat v + of_bool (flag_C m))"
  "flag_Z (add_value_to_accumulator v m) = (reg_A m + v + of_flag (flag_C m) = 0)"
  "flag_N (add_value_to_accumulator v m) = (bit (reg_A m + v + of_flag (flag_C m)) 7)"
  "flag_V (add_value_to_accumulator v m) = (sint (reg_A m) + sint v + of_bool (flag_C m) \<notin> {-128..127})"
  using assms adc_overflow [OF unat_adc]
  by (simp_all add: add_value_to_accumulator_def Let_def set_scratch_16_def adc_sum_bytes)

lemma adc_decimal_fields:
  fixes v :: u8 and m :: "'u C6510"
  assumes "flag_D m" "cpu_model m = CPU_6502"
  defines "lo \<equiv> (reg_A m AND 0x0F) + (v AND 0x0F) + of_flag (flag_C m)"
    and "hi \<equiv> drop_bit 4 (reg_A m) + drop_bit 4 v"
  defines "lo' \<equiv> (if lo > 9 then lo + 6 else lo)"
    and "hi' \<equiv> (if lo > 9 then hi + 1 else hi)"
  shows "reg_A (add_value_to_accumulator v m) =
      push_bit 4 (if hi' > 9 then hi' + 6 else hi') OR (lo' AND 0x0F)"
    and "flag_C (add_value_to_accumulator v m) \<longleftrightarrow> hi' > 9 \<or> 256 \<le> unat (reg_A m) + unat v + of_bool (flag_C m)"
  unfolding add_value_to_accumulator_def Let_def using assms by (simp_all add:  set_scratch_16_def adc_sum_bytes)

lemma decimal_digit_fix:
  fixes d :: u8
  assumes "unat d \<le> 19"
  shows "unat (if d > 9 then d + 6 else d) mod 16 = (if unat d > 9 then unat d - 10 else unat d)"
    and "d > 9 \<longleftrightarrow> unat d > 9"
proof -
  show gt: "d > 9 \<longleftrightarrow> unat d > 9" by (simp add: word_less_nat_alt)
  have "unat (d + 6) = unat d + 6" using assms by (simp add: unat_plus_u8)
  moreover have "(unat d + 6) mod 16 = unat d - 10" if "unat d > 9"
    using that assms mod_once [of "unat d + 6" 16] by simp
  ultimately show "unat (if d > 9 then d + 6 else d) mod 16 = (if unat d > 9 then unat d - 10 else unat d)"
    unfolding gt by simp
qed

lemma adc_decimal_digits:
  fixes lo hi :: u8
  assumes lo: "unat lo \<le> 19" and hi: "unat hi \<le> 18"
  defines "hi' \<equiv> (if lo > 9 then hi + 1 else hi)"
  defines "r \<equiv> push_bit 4 (if hi' > 9 then hi' + 6 else hi') OR ((if lo > 9 then lo + 6 else lo) AND 0x0F)"
  shows "bcd_digits r" "bcd_value r = (10 * unat hi + unat lo) mod 100"
    "hi' > 9 \<longleftrightarrow> 100 \<le> 10 * unat hi + unat lo"
proof -
  have hi': "unat hi' = (if unat lo > 9 then unat hi + 1 else unat hi)"
    using hi decimal_digit_fix(2) [OF lo] by (simp add: hi'_def unat_plus_u8)
  then have "unat hi' \<le> 19" using hi by simp
  note fix_hi = decimal_digit_fix [OF this]
  have r: "unat r = 16 * (if unat hi' > 9 then unat hi' - 10 else unat hi') + (if unat lo > 9 then unat lo - 10 else unat lo)"
    unfolding r_def unat_nibbles fix_hi(1) decimal_digit_fix(1) [OF lo] ..
  define x y where "x = (if unat hi' > 9 then unat hi' - 10 else unat hi')" and "y = (if unat lo > 9 then unat lo - 10 else unat lo)"
  have xy: "x \<le> 9" "y \<le> 9" using lo hi unfolding x_def y_def hi' by auto
  have "unat r div 16 = x" "unat r mod 16 = y" using r xy unfolding x_def[symmetric] y_def[symmetric] by simp_all
  note digits = this
  show "bcd_digits r" using digits xy by (simp add: bcd_digits_def)
  have "(10 * unat hi + unat lo) mod 100 =
      (if 10 * unat hi + unat lo < 100 then 10 * unat hi + unat lo else 10 * unat hi + unat lo - 100)"
    using lo hi by (intro mod_once) simp
  then show "bcd_value r = (10 * unat hi + unat lo) mod 100"
    unfolding bcd_value_def digits x_def y_def hi' using lo hi by (cases "9 < unat lo") auto
  show "hi' > 9 \<longleftrightarrow> 100 \<le> 10 * unat hi + unat lo"
    unfolding fix_hi hi' using lo hi by auto
qed

text \<open>
  C7. Decimal ADC on valid two-digit operands gives the decimal sum modulo 100 as valid
  digits again, and the carry says whether the sum reached 100.
\<close>

theorem adc_decimal:
  assumes "flag_D m" "cpu_model m = CPU_6502" "bcd_digits (reg_A m)" "bcd_digits v"
  shows "bcd_digits (reg_A (add_value_to_accumulator v m)) \<and>
    bcd_value (reg_A (add_value_to_accumulator v m)) = (bcd_value (reg_A m) + bcd_value v + of_bool (flag_C m)) mod 100 \<and>
    (flag_C (add_value_to_accumulator v m) \<longleftrightarrow> 100 \<le> bcd_value (reg_A m) + bcd_value v + of_bool (flag_C m))"
proof -
  define lo hi where "lo = (reg_A m AND 0x0F) + (v AND 0x0F) + of_flag (flag_C m)" and "hi = drop_bit 4 (reg_A m) + drop_bit 4 v"
  have lo: "unat lo = unat (reg_A m) mod 16 + unat v mod 16 + of_bool (flag_C m)" 
   unfolding lo_def unat_adc using assms by (simp add: unat_low_nibble bcd_digits_def)
  have hi: "unat hi = unat (reg_A m) div 16 + unat v div 16"
   unfolding hi_def unat_plus_u8 using assms by (simp add: unat_high_nibble bcd_digits_def)
  have s: "10 * unat hi + unat lo = bcd_value (reg_A m) + bcd_value v + of_bool (flag_C m)"
    by (simp add: lo hi bcd_value_def)
  have b: "unat lo \<le> 19" "unat hi \<le> 18" using assms lo hi by (simp_all add: bcd_digits_def)
  have "100 \<le> 10 * unat hi + unat lo" if "256 \<le> unat (reg_A m) + unat v + of_bool (flag_C m)"
    using that b lo hi div_mult_mod_eq [of "unat (reg_A m)" 16] div_mult_mod_eq [of "unat v" 16]
    by linarith
  then show ?thesis
    using adc_decimal_digits [OF b]
    unfolding adc_decimal_fields [OF assms(1,2)] lo_def [symmetric] hi_def [symmetric] s by blast
qed

definition decimal_machine :: "unit C6510" where
  "decimal_machine = (c6510_init () (\<lambda>u a. (0, u)) (\<lambda>u a v. u))
     \<lparr>reg_A := 0x58, flag_C := True, flag_D := True\<rparr>"

theorem adc_decimal_witness:
  "bcd_digits (reg_A decimal_machine) \<and> bcd_digits 0x46 \<and>
   bcd_value (reg_A (add_value_to_accumulator 0x46 decimal_machine)) = 5 \<and>
   flag_C (add_value_to_accumulator 0x46 decimal_machine)"
  using adc_decimal [of decimal_machine "0x46"]
  by (simp add: decimal_machine_def c6510_init_def bcd_digits_def bcd_value_def)

text \<open>
  C6. Binary ADC: the accumulator is the sum modulo 256, the carry says whether the sum
  left eight bits, Z and N describe the result, V says whether the signed sum is out of
  range, and nothing else but the scratch pair changes.
\<close>

theorem adc_binary:
  fixes m :: "'u C6510" and v :: u8
  assumes "\<not> flag_D m"
  defines "m' \<equiv> add_value_to_accumulator v m"
    and "s \<equiv> unat (reg_A m) + unat v + of_bool (flag_C m)"
  shows "unat (reg_A m') = s mod 256 \<and> (flag_C m' \<longleftrightarrow> 256 \<le> s) \<and>
    (flag_Z m' \<longleftrightarrow> s mod 256 = 0) \<and> (flag_N m' \<longleftrightarrow> 128 \<le> s mod 256) \<and>
    (flag_V m' \<longleftrightarrow> sint (reg_A m) + sint v + of_bool (flag_C m) \<notin> {-128..127}) \<and>
    m' = m\<lparr>reg_A := reg_A m', flag_C := flag_C m', flag_Z := flag_Z m', flag_V := flag_V m',
           flag_N := flag_N m', scratch_lo := scratch_lo m', scratch_hi := scratch_hi m'\<rparr>"
proof -
  have A: "unat (reg_A m') = s mod 256"
    unfolding m'_def s_def adc_binary_fields(1) [OF assms(1)] by (rule unat_adc)
  have "m' = m\<lparr>reg_A := reg_A m', flag_C := flag_C m', flag_Z := flag_Z m', flag_V := flag_V m',
           flag_N := flag_N m', scratch_lo := scratch_lo m', scratch_hi := scratch_hi m'\<rparr>"
    unfolding m'_def add_value_to_accumulator_def Let_def
    by (simp add: assms(1) set_scratch_16_def set_register_to_value_def)
  moreover have "flag_Z m' \<longleftrightarrow> unat (reg_A m') = 0" "flag_N m' \<longleftrightarrow> 128 \<le> unat (reg_A m')"
    unfolding m'_def adc_binary_fields [OF assms(1)] unat_eq_0 bit_7_u8 by (rule refl)+
  ultimately show ?thesis
    using A adc_binary_fields(2,5) [OF assms(1), of v]
    by (simp only: m'_def [symmetric] s_def [symmetric] simp_thms)
qed

theorem adc_binary_witness:
  "\<not> flag_D (decimal_machine\<lparr>flag_D := False\<rparr>) \<and>
   unat (reg_A (add_value_to_accumulator 0x46 (decimal_machine\<lparr>flag_D := False\<rparr>))) = 0x9F \<and>
   flag_V (add_value_to_accumulator 0x46 (decimal_machine\<lparr>flag_D := False\<rparr>))"
  using adc_binary [of "decimal_machine\<lparr>flag_D := False\<rparr>" "0x46"]
  by (simp add: decimal_machine_def c6510_init_def)

section \<open>Subtraction\<close>

lemma sbc_difference:
  fixes a v :: u8 and b :: bool
  defines "w \<equiv> (ucast a - ucast v - of_flag b :: u16)"
  shows "lo8 w = a - v - of_flag b"
    and "w < 0x100 \<longleftrightarrow> unat v + of_bool b \<le> unat a"
proof -
  have w: "w = ucast a - (ucast v + of_flag b)" by (simp add: w_def)
  have y: "unat (ucast v + of_flag b :: u16) = unat v + of_bool b"
    using unat_u8_sum [of v 0 b] by (cases b) (simp_all add: unat_word_ariths)
  define d where "d = unat v + of_bool b"
  have u: "unat w = (if d \<le> unat a then unat a - d else unat a + 65536 - d)"
    unfolding w unat_sub_if' y d_def [symmetric] by simp
  have "of_bool b \<le> (1 :: nat)" by simp
  then have "d \<le> 256" "unat a < 256" using unat_u8_le [of v] unfolding d_def by (linarith, simp)
  then have "unat w < 256 \<longleftrightarrow> d \<le> unat a" unfolding u by (auto simp: less_imp_diff_less)
  then show "w < 0x100 \<longleftrightarrow> unat v + of_bool b \<le> unat a"
    unfolding word_less_nat_alt d_def by simp
  show "lo8 w = a - v - of_flag b"
    unfolding w_def by (simp add: lo8_diff)
qed

lemma subtract_carry:
  assumes "cpu_model m = CPU_6502"
  shows "flag_C (subtract_value_from_accumulator v m) \<longleftrightarrow> unat v + of_bool (\<not> flag_C m) \<le> unat (reg_A m)"
  using assms sbc_difference(2) [of "reg_A m" v "\<not> flag_C m"]
  by (simp add: subtract_value_from_accumulator_def Let_def set_scratch_16_def scratch_16_def split_beta)

lemma sbc_overflow:
  fixes a v r :: u8
  assumes "r = a - v - of_flag b"
  shows "((a XOR v) AND (a XOR r) AND 0x80) \<noteq> 0 \<longleftrightarrow> sint a - sint v - of_bool b \<notin> {-128..127}"
proof -
  have "(a XOR v) AND (a XOR r) AND 0x80 = (a XOR r) AND NOT (a XOR NOT v) AND 0x80"
    by (rule bit_word_eqI) (auto simp: bit_simps)
  moreover have "unat r = (unat a + unat (NOT v) + of_bool (\<not> b)) mod 256"
    unfolding assms sbc_as_adc unat_adc ..
  ultimately show ?thesis
    using adc_overflow [of r a "NOT v" "\<not> b"] by (cases b) (auto simp: sint_not_u8)
qed

lemma subtract_binary_fields:
  assumes "\<not> flag_D m" "cpu_model m = CPU_6502"
  shows "reg_A (subtract_value_from_accumulator v m) = reg_A m - v - of_flag (\<not> flag_C m)"
    "flag_Z (subtract_value_from_accumulator v m) \<longleftrightarrow> reg_A m - v - of_flag (\<not> flag_C m) = 0"
    "flag_N (subtract_value_from_accumulator v m) \<longleftrightarrow> bit (reg_A m - v - of_flag (\<not> flag_C m)) 7"
    "flag_V (subtract_value_from_accumulator v m) \<longleftrightarrow> sint (reg_A m) - sint v - of_bool (\<not> flag_C m) \<notin> {-128..127}"
  using sbc_overflow [OF refl, of "reg_A m" v "\<not> flag_C m"]
  by (simp_all add: assms subtract_value_from_accumulator_def Let_def set_scratch_16_def sbc_difference(1))

lemma subtract_decimal_A:
  fixes v :: u8 and m :: "'u C6510"
  assumes "flag_D m" "cpu_model m = CPU_6502"
  defines "lo \<equiv> (reg_A m AND 0x0F) - (v AND 0x0F) - of_flag (\<not> flag_C m)"
    and "hi \<equiv> drop_bit 4 (reg_A m) - drop_bit 4 v"
  defines "lo' \<equiv> (if lo AND 0x10 \<noteq> 0 then lo - 6 else lo)"
    and "hi' \<equiv> (if lo AND 0x10 \<noteq> 0 then hi - 1 else hi)"
  shows "reg_A (subtract_value_from_accumulator v m) = push_bit 4 (if hi' AND 0xF0 \<noteq> 0 then hi' - 6 else hi') OR (lo' AND 0x0F)"
  unfolding subtract_value_from_accumulator_def Let_def
  by (simp add: assms set_scratch_16_def scratch_16_def)

lemma digit_borrow_table:
  "\<forall>x\<in>set [0..<10]. \<forall>y\<in>set [0..<11].
     (let d = word_of_nat x - word_of_nat y :: u8 in
      (d AND 0x10 \<noteq> 0 \<longleftrightarrow> x < y) \<and> (d AND 0xF0 \<noteq> 0 \<longleftrightarrow> x < y) \<and>
      unat (if x < y then d - 6 else d) mod 16 = (if x < y then x + 10 - y else x - y))"
  by code_simp

lemma digit_borrow:
  fixes d :: u8
  assumes "d = word_of_nat x - word_of_nat y" "x \<le> 9" "y \<le> 10"
  shows "d AND 0x10 \<noteq> 0 \<longleftrightarrow> x < y" "d AND 0xF0 \<noteq> 0 \<longleftrightarrow> x < y"
    "unat (if x < y then d - 6 else d) mod 16 = (if x < y then x + 10 - y else x - y)"
  using digit_borrow_table assms by (simp_all only: set_upt Let_def) force+

text \<open>
  C9. Decimal SBC on valid two-digit operands gives the decimal difference modulo 100 as
  valid digits, and the carry is set exactly when nothing had to be borrowed.
\<close>

theorem sbc_decimal:
  fixes m :: "'u C6510" and v :: u8
  assumes "flag_D m" "cpu_model m = CPU_6502" "bcd_digits (reg_A m)" "bcd_digits v"
  defines "m' \<equiv> subtract_value_from_accumulator v m"
    and "borrow \<equiv> of_bool (\<not> flag_C m)"
  shows "bcd_digits (reg_A m') \<and>
    int (bcd_value (reg_A m')) = (int (bcd_value (reg_A m)) - int (bcd_value v) - borrow) mod 100 \<and>
    (flag_C m' \<longleftrightarrow> int (bcd_value v) + borrow \<le> int (bcd_value (reg_A m)))"
proof -
  define a b where "a = reg_A m" and "b = (\<not> flag_C m)"
  define lo hi where "lo = (a AND 0x0F) - (v AND 0x0F) - of_flag b" and "hi = drop_bit 4 a - drop_bit 4 v"
  define al ah vl vh c where "al = unat a mod 16" and "ah = unat a div 16" and "vl = unat v mod 16"
    and "vh = unat v div 16" and "c = (of_bool b :: nat)"
  have d: "al \<le> 9" "ah \<le> 9" "vl \<le> 9" "vh \<le> 9" "c \<le> 1"
    using assms by (simp_all add: bcd_digits_def al_def ah_def vl_def vh_def c_def a_def)
  have "lo = word_of_nat al - word_of_nat (vl + c)"
    by (simp add: lo_def nibble_words of_flag_word al_def vl_def c_def)
  note lo = digit_borrow [OF this d(1)]
  define e where "e = (of_bool (al < vl + c) :: nat)"
  have e: "vl + c \<le> 10" "vh + e \<le> 10" using d by (simp_all add: e_def)
  define hi' where "hi' = (if al < vl + c then hi - 1 else hi)"
  have "hi' = word_of_nat ah - word_of_nat (vh + e)"
    by (simp add: hi'_def hi_def nibble_words ah_def vh_def e_def)
  note hi = digit_borrow [OF this d(2)]
  define x y where "x = (if ah < vh + e then ah + 10 - (vh + e) else ah - (vh + e))"
    and "y = (if al < vl + c then al + 10 - (vl + c) else al - (vl + c))"
  have xy: "x \<le> 9" "y \<le> 9" using d unfolding x_def y_def e_def by auto
  have "unat (reg_A m') = 16 * x + y"
    unfolding m'_def subtract_decimal_A [OF assms(1,2)] a_def [symmetric] b_def [symmetric]
      lo_def [symmetric] hi_def [symmetric] unat_nibbles
    using d lo(1,3) hi(2,3) e by (simp only: hi'_def [symmetric] x_def y_def)
  then have A: "unat (reg_A m') div 16 = x" "unat (reg_A m') mod 16 = y" using xy by simp_all
  have carry: "flag_C m' \<longleftrightarrow> unat v + c \<le> unat a"
    unfolding m'_def subtract_carry [OF assms(2)] by (simp add: a_def b_def c_def)
  have av: "unat a = 16 * ah + al" "unat v = 16 * vh + vl"
    by (simp_all add: ah_def al_def vh_def vl_def)
  have "(int (10 * ah + al) - int (10 * vh + vl) - int c) mod 100 = int (10 * x + y)"
    using d xy unfolding x_def y_def e_def by (intro mod_100_wrap) auto
  moreover have "unat v + c \<le> unat a \<longleftrightarrow> int (10 * vh + vl) + int c \<le> int (10 * ah + al)"
    unfolding av using d by (cases vh ah rule: linorder_cases) auto
  ultimately show ?thesis
    using xy A carry
    by (simp add: bcd_digits_def bcd_value_def borrow_def al_def ah_def vl_def vh_def c_def a_def b_def)
qed


theorem sbc_decimal_witness:
  "bcd_digits (reg_A decimal_machine) \<and> bcd_digits 0x99 \<and>
   int (bcd_value (reg_A (subtract_value_from_accumulator 0x99 decimal_machine))) = 59 \<and>
   \<not> flag_C (subtract_value_from_accumulator 0x99 decimal_machine)"
  using sbc_decimal [of decimal_machine "0x99"]
  by (simp add: decimal_machine_def c6510_init_def bcd_digits_def bcd_value_def)

text \<open>
  C8. Binary SBC subtracts the operand and the borrow (the inverted carry) modulo 256; the
  carry stays set exactly when there was no borrow, Z and N describe the result and V says
  whether the signed difference is out of range.
\<close>

theorem sbc_binary:
  fixes m :: "'u C6510" and v :: u8
  assumes "\<not> flag_D m" "cpu_model m = CPU_6502"
  defines "m' \<equiv> subtract_value_from_accumulator v m"
    and "borrow \<equiv> of_bool (\<not> flag_C m)"
  shows "int (unat (reg_A m')) = (int (unat (reg_A m)) - int (unat v) - borrow) mod 256 \<and>
    (flag_C m' \<longleftrightarrow> int (unat v) + borrow \<le> int (unat (reg_A m))) \<and>
    (flag_Z m' \<longleftrightarrow> reg_A m' = 0) \<and> (flag_N m' \<longleftrightarrow> 128 \<le> unat (reg_A m')) \<and>
    (flag_V m' \<longleftrightarrow> sint (reg_A m) - sint v - borrow \<notin> {-128..127})"
proof -
  have "int (unat (reg_A m')) = (int (unat (reg_A m)) - int (unat v) - borrow) mod 256"
    unfolding m'_def subtract_binary_fields(1) [OF assms(1,2)] borrow_def
    by (cases "flag_C m") (simp_all add: uint_word_ariths mod_simps)
  moreover have "flag_C m' \<longleftrightarrow> int (unat v) + borrow \<le> int (unat (reg_A m))"
    unfolding m'_def subtract_carry [OF assms(2)] borrow_def of_nat_le_iff [symmetric, where 'a = int]
    by simp
  ultimately show ?thesis
    using subtract_binary_fields [OF assms(1,2), of v]
    by (simp add: m'_def borrow_def bit_7_u8)
qed

theorem sbc_binary_witness:
  "\<not> flag_D (decimal_machine\<lparr>flag_D := False\<rparr>) \<and>
   cpu_model (decimal_machine\<lparr>flag_D := False\<rparr>) = CPU_6502 \<and>
   int (unat (reg_A (subtract_value_from_accumulator 0x60 (decimal_machine\<lparr>flag_D := False\<rparr>)))) = 0xF8"
  using sbc_binary [of "decimal_machine\<lparr>flag_D := False\<rparr>" "0x60"]
  by (simp add: decimal_machine_def c6510_init_def)

section \<open>Comparison\<close>

lemma hi8_zero: "hi8 w = 0 \<longleftrightarrow> w < 0x100"
  by (simp add: word_unat_eq_iff unat_hi8 word_less_nat_alt div_eq_0_iff)

lemma subtract_binary_cmos:
  assumes "\<not> flag_D m" "cpu_model m \<noteq> CPU_6502" "flag_C m"
  shows "flag_Z (subtract_value_from_accumulator v m) \<longleftrightarrow> reg_A m - v = 0"
    "flag_N (subtract_value_from_accumulator v m) \<longleftrightarrow> bit (reg_A m - v) 7"
    "flag_C (subtract_value_from_accumulator v m) \<longleftrightarrow> unat v \<le> unat (reg_A m)"
  using sbc_difference [of "reg_A m" v False]
  by (simp_all add: assms hi8_zero subtract_value_from_accumulator_def Let_def set_scratch_16_def scratch_16_def split_beta)

text \<open>
  C10. The comparison of CMP, CPX and CPY is a binary SBC without the store: comparing a register with an
  operand sets C, Z and N as the binary subtraction of the operand from that register with the carry set
  does, and leaves every other field alone, in decimal mode too and on both processor models.
\<close>

theorem compare_is_subtract:
  fixes m :: "'u C6510" and x v :: u8
  defines "d \<equiv> subtract_value_from_accumulator v (m\<lparr>reg_A := x, flag_C := True, flag_D := False\<rparr>)"
  shows "compare_bytes x v m = m\<lparr>flag_Z := flag_Z d, flag_C := flag_C d, flag_N := flag_N d\<rparr>"
  using subtract_binary_fields [of "m\<lparr>reg_A := x, flag_C := True, flag_D := False\<rparr>" v]
    subtract_carry [of "m\<lparr>reg_A := x, flag_C := True, flag_D := False\<rparr>" v]
    subtract_binary_cmos [of "m\<lparr>reg_A := x, flag_C := True, flag_D := False\<rparr>" v]
  by (cases "cpu_model m = CPU_6502") (simp_all add: d_def compare_bytes_def word_le_nat_alt)

theorem compare_is_subtract_witness:
  "flag_D decimal_machine \<and> compare_bytes 0x58 0x58 decimal_machine = decimal_machine\<lparr>flag_Z := True\<rparr>"
  using compare_is_subtract [of "0x58" "0x58" decimal_machine]
  by (simp add: decimal_machine_def c6510_init_def compare_bytes_def)

end
