(* ===== verification/C6510_Run.thy ===== *)
theory C6510_Run
  imports C6510_Access C6510_Frame C6510_Arith
begin

text \<open>
  Running the resumable executor to the end of an instruction. \<open>micro_run\<close> calls
  \<^verbatim>\<open>c6510_micro_step\<close> until it reports completion and counts the calls; \<open>arch\<close> is the
  machine with its internal latches cleared, which is all a program can observe. A
  suspended machine is written \<open>with_micro n c\<close>: \<open>n\<close> carries the fields of the
  resumable path, \<open>c\<close> the rest. The lemmas here compare the last cycle of an
  instruction in both executors, at an arbitrary effective address \<open>t\<close>.
\<close>

section \<open>Definitions\<close>

fun micro_run :: "nat \<Rightarrow> 'u C6510 \<Rightarrow> (nat \<times> 'u C6510) option" where
  "micro_run 0 m = None"
| "micro_run (Suc n) m =
     (case c6510_micro_step m of
        (True, m') \<Rightarrow> Some (1, m')
      | (False, m') \<Rightarrow> map_option (\<lambda>(k, m''). (Suc k, m'')) (micro_run n m'))"

definition arch :: "'u C6510 \<Rightarrow> 'u C6510" where
 "arch m = m\<lparr>address_lo := 0, address_hi := 0, scratch_lo := 0, scratch_hi := 0, page_fault := False,
   opcode_active := False, bus_access_kind := BUS_ACCESS_DATA_READ,
   micro_active := False, micro_opcode := 0, micro_phase := 0, micro_branch_taken := False, 
   micro_target := 0, micro_interrupt_vector := 0, micro_is_interrupt := False\<rparr>"

definition latch_machine :: "u8 \<Rightarrow> bool \<Rightarrow> bool \<Rightarrow> unit C6510" where
  "latch_machine a c d = (c6510_init () (\<lambda>u _. (0, u)) (\<lambda>u _ _. u))\<lparr>reg_A := a, flag_C := c, flag_D := d\<rparr>"

definition adc_out :: "u8 \<Rightarrow> u8 \<Rightarrow> bool \<Rightarrow> bool \<Rightarrow> unit C6510" where
  "adc_out a v c d = add_value_to_accumulator v (latch_machine a c d)"

definition sbc_out :: "u8 \<Rightarrow> u8 \<Rightarrow> bool \<Rightarrow> bool \<Rightarrow> unit C6510" where
  "sbc_out a v c d = subtract_value_from_accumulator v (latch_machine a c d)"

definition apply_read :: "u16 \<Rightarrow> 'u C6510 \<Rightarrow> 'u C6510" where
  "apply_read a m = (let (v, m) = micro_data_read a m in c6510_micro_apply_read_operation v m)"

named_theorems micro_norm "execution of the resumable path on states with_micro n c"

section \<open>Lemmas\<close>

lemma micro_run_numeral:
  "micro_run (numeral k) m =
     (case c6510_micro_step m of
        (True, m') \<Rightarrow> Some (1, m')
      | (False, m') \<Rightarrow> map_option (\<lambda>(k, m''). (Suc k, m'')) (micro_run (pred_numeral k) m'))"
  by (simp add: numeral_eq_Suc)

lemma with_micro_fields [micro_norm]:
  "micro_phase (with_micro n m) = micro_phase n"
  "micro_opcode (with_micro n m) = micro_opcode n"
  "micro_branch_taken (with_micro n m) = micro_branch_taken n"
  "micro_target (with_micro n m) = micro_target n"
  "micro_is_interrupt (with_micro n m) = micro_is_interrupt n"
  "(with_micro n m)\<lparr>micro_phase := ph\<rparr> = with_micro (n\<lparr>micro_phase := ph\<rparr>) m"
  "(with_micro n m)\<lparr>micro_branch_taken := bt\<rparr> = with_micro (n\<lparr>micro_branch_taken := bt\<rparr>) m"
  "(with_micro n m)\<lparr>micro_target := tg\<rparr> = with_micro (n\<lparr>micro_target := tg\<rparr>) m"
  "(with_micro n m)\<lparr>micro_active := ac\<rparr> = with_micro (n\<lparr>micro_active := ac\<rparr>) m"
  "(with_micro n m)\<lparr>opcode_active := oa\<rparr> = with_micro (n\<lparr>opcode_active := oa\<rparr>) m"
  by (simp_all add: with_micro_def)

lemma address_with_micro [micro_norm]:
  "address_16 (with_micro n m) = address_16 m" "scratch_16 (with_micro n m) = scratch_16 m"
  by (simp_all add: address_16_def scratch_16_def micro_frame)

lemma arch_with_micro [micro_norm]: "arch (with_micro n m) = arch m"
  by (simp add: with_micro_def arch_def)

lemma micro_stages [micro_norm]:
  "micro_operand_zp m = al_read_pc m"
  "micro_operand_hi m = ah_read_pc m"
  "micro_rmw_read (address_16 m) m = sl_read_a16 m"
  "micro_rmw_dummy_write (address_16 m) m = sl_write_a16 m"
  "micro_dummy_read (sp m) m = read_sp m"
  "micro_dummy_read (pc m) m = read_pc m"
  "micro_push (hi8 (pc m)) m = pc_hi_to_stack m"
  "micro_push (lo8 (pc m)) m = pc_lo_to_stack m"
  "micro_push (reg_A m) m = pha m"
  "micro_push (cpu_flags m OR 0x10) m = php m"
  by (simp_all add: micro_ops cpu_ops cpu_bus CYCLE_def union_views Let_def split: prod.split)

lemma micro_prims_frame [micro_norm]:
  "micro_operand_lo (with_micro n m) = with_micro n (micro_operand_lo m)"
  "micro_operand_scratch (with_micro n m) = with_micro n (micro_operand_scratch m)"
  "micro_read_operand (with_micro n m) = apsnd (with_micro n) (micro_read_operand m)"
  "micro_data_read a (with_micro n m) = apsnd (with_micro n) (micro_data_read a m)"
  "micro_data_write a v (with_micro n m) = with_micro n (micro_data_write a v m)"
  "micro_dummy_read a (with_micro n m) = with_micro n (micro_dummy_read a m)"
  "micro_rmw_read a (with_micro n m) = with_micro n (micro_rmw_read a m)"
  "micro_rmw_dummy_write a (with_micro n m) = with_micro n (micro_rmw_dummy_write a m)"
  "micro_push v (with_micro n m) = with_micro n (micro_push v m)"
  "micro_pull (with_micro n m) = apsnd (with_micro n) (micro_pull m)"
  by (simp_all add: micro_ops micro_frame cpu_access_defs Let_def apsnd_def split: prod.split)

lemma micro_step_with_micro:
  "\<not> micro_is_interrupt n \<Longrightarrow> micro_phase n \<noteq> 0 \<Longrightarrow> c6510_micro_step (with_micro n m) =
    (case micro_dispatch (with_micro n m) of (completed, m) \<Rightarrow> if completed then (True, micro_complete m) else (False, m))"
  by (simp add: c6510_micro_step_def micro_norm)


lemma pair_case [micro_norm]:
  "(case p of (a, b) \<Rightarrow> (True, F a b)) = (True, case p of (a, b) \<Rightarrow> F a b)"
  "(case p of (a, b) \<Rightarrow> (False, F a b)) = (False, case p of (a, b) \<Rightarrow> F a b)"
  by (simp_all split: prod.split)

lemma set_address_same: "set_address_16 (address_16 m) m = m"
  by (simp add: union_views)

lemma adc_scratch [simp]:
  "add_value_to_accumulator v (m\<lparr>scratch_lo := x\<rparr>) = add_value_to_accumulator v m"
  by (simp add: add_value_to_accumulator_def set_scratch_16_def)

lemma sbc_scratch [simp]:
  "subtract_value_from_accumulator v (m\<lparr>scratch_lo := x\<rparr>) = subtract_value_from_accumulator v m"
  by (simp add: subtract_value_from_accumulator_def set_scratch_16_def)

lemma adc_closed:
  fixes m :: "'u C6510" and v :: u8
  assumes "cpu_model m = CPU_6502"
  defines "r \<equiv> adc_out (reg_A m) v (flag_C m) (flag_D m)"
  shows "add_value_to_accumulator v m = m\<lparr>reg_A := reg_A r, flag_C := flag_C r, flag_Z := flag_Z r, flag_V := flag_V r, flag_N := flag_N r,
     scratch_lo := scratch_lo r, scratch_hi := scratch_hi r\<rparr>"
proof -
  let ?lo = "(reg_A m AND 0x0F) + (v AND 0x0F) + of_flag (flag_C m)"
  consider "\<not> flag_D m" | "flag_D m" "?lo > 9" "drop_bit 4 (reg_A m) + drop_bit 4 v + 1 > 9"
    | "flag_D m" "?lo > 9" "\<not> drop_bit 4 (reg_A m) + drop_bit 4 v + 1 > 9"
    | "flag_D m" "\<not> ?lo > 9" "drop_bit 4 (reg_A m) + drop_bit 4 v > 9"
    | "flag_D m" "\<not> ?lo > 9" "\<not> drop_bit 4 (reg_A m) + drop_bit 4 v > 9" by blast
  then show ?thesis
    unfolding r_def adc_out_def
    by cases (simp_all add: assms(1) add_value_to_accumulator_def set_register_to_value_def Let_def set_scratch_16_def latch_machine_def c6510_init_def del: not_less)
qed

lemma sbc_closed:
  fixes m :: "'u C6510" and v :: u8
  assumes "cpu_model m = CPU_6502"
  defines "r \<equiv> sbc_out (reg_A m) v (flag_C m) (flag_D m)"
  shows "subtract_value_from_accumulator v m = m\<lparr>reg_A := reg_A r, flag_C := flag_C r, flag_Z := flag_Z r, flag_V := flag_V r, flag_N := flag_N r,
     scratch_lo := scratch_lo r, scratch_hi := scratch_hi r\<rparr>"
  unfolding r_def sbc_out_def
  by (cases "flag_D m") (simp_all add: assms(1) subtract_value_from_accumulator_def set_register_to_value_def Let_def set_scratch_16_def latch_machine_def c6510_init_def scratch_16_def split_beta)

lemmas final_simps = micro_data_read_def micro_data_write_def read_from_memory_def write_to_memory_def read_operand_def
  bus_read_def bus_write_def CYCLE_def union_views arch_def set_register_to_value_def Let_def

lemma micro_apply_read_eq: "micro_apply_read a m = (True, apply_read a m)"
  by (simp add: micro_apply_read_def apply_read_def micro_done_def split: prod.split)

lemma load_final:
  "arch (case micro_data_read t c of (v, m) \<Rightarrow> set_register_to_value A_reg v m) = arch (lda_a16 (set_address_16 t c))"
  "arch (case micro_data_read t c of (v, m) \<Rightarrow> set_register_to_value X_reg v m) = arch (ldx_a16 (set_address_16 t c))"
  "arch (case micro_data_read t c of (v, m) \<Rightarrow> set_register_to_value Y_reg v m) = arch (ldy_a16 (set_address_16 t c))"
  by (simp_all add: final_simps lda_a16_def ldx_a16_def ldy_a16_def split: prod.split)

lemma store_final:
  "arch (micro_data_write t (reg_A c) c) = arch (sta_a16 (set_address_16 t c))"
  "arch (micro_data_write t (reg_X c) c) = arch (stx_a16 (set_address_16 t c))"
  "arch (micro_data_write t (reg_Y c) c) = arch (sty_a16 (set_address_16 t c))"
  "arch (micro_data_write t (reg_A c AND reg_X c) c) = arch (sax_a16 (set_address_16 t c))"
  by (simp_all add: final_simps sta_a16_def stx_a16_def sty_a16_def sax_a16_def)

lemma apply_operation:
  "micro_opcode m \<in> {ORA_zpg, ORA_abs, ORA_zpg_X, ORA_abs_X, ORA_abs_Y, ORA_X_ind, ORA_ind_Y} \<Longrightarrow>
     c6510_micro_apply_read_operation v m = set_register_to_value A_reg (reg_A m OR v) m"
  "micro_opcode m \<in> {AND_zpg, AND_abs, AND_zpg_X, AND_abs_X, AND_abs_Y, AND_X_ind, AND_ind_Y} \<Longrightarrow>
     c6510_micro_apply_read_operation v m = set_register_to_value A_reg (reg_A m AND v) m"
  "micro_opcode m \<in> {EOR_zpg, EOR_abs, EOR_zpg_X, EOR_abs_X, EOR_abs_Y, EOR_X_ind, EOR_ind_Y} \<Longrightarrow>
     c6510_micro_apply_read_operation v m = set_register_to_value A_reg (reg_A m XOR v) m"
  "micro_opcode m \<in> {ADC_zpg, ADC_abs, ADC_zpg_X, ADC_abs_X, ADC_abs_Y, ADC_X_ind, ADC_ind_Y} \<Longrightarrow>
     c6510_micro_apply_read_operation v m = add_value_to_accumulator v m"
  "micro_opcode m \<in> {SBC_zpg, SBC_abs, SBC_zpg_X, SBC_abs_X, SBC_abs_Y, SBC_X_ind, SBC_ind_Y} \<Longrightarrow>
     c6510_micro_apply_read_operation v m = subtract_value_from_accumulator v m"
  "micro_opcode m \<in> {CMP_zpg, CMP_abs, CMP_zpg_X, CMP_abs_X, CMP_abs_Y, CMP_X_ind, CMP_ind_Y} \<Longrightarrow>
     c6510_micro_apply_read_operation v m = compare_bytes (reg_A m) v m"
  "micro_opcode m \<in> {CPX_zpg, CPX_abs} \<Longrightarrow>
     c6510_micro_apply_read_operation v m = compare_bytes (reg_X m) v m"
  "micro_opcode m \<in> {CPY_zpg, CPY_abs} \<Longrightarrow>
     c6510_micro_apply_read_operation v m = compare_bytes (reg_Y m) v m"
  "micro_opcode m \<in> {BIT_zpg, BIT_abs} \<Longrightarrow>
     c6510_micro_apply_read_operation v m = m\<lparr>flag_Z := (reg_A m AND v) = 0, flag_N := (v AND 0x80) \<noteq> 0, flag_V := (v AND 0x40) \<noteq> 0\<rparr>"
  by (elim insertE emptyE; simp add: c6510_micro_apply_read_operation_def Let_def)+

lemma and_0x40: "(x :: u8) AND 0x40 = 0 \<longleftrightarrow> \<not> bit x 6"
  by (auto simp: u8_eq_bits bit_simps)

lemma bit_a16_flags:
  "arch (case micro_data_read t c of (v, m) \<Rightarrow> m\<lparr>flag_Z := (reg_A m AND v) = 0, flag_N := (v AND 0x80) \<noteq> 0, flag_V := (v AND 0x40) \<noteq> 0\<rparr>)
   = arch (bit_a16 (set_address_16 t c))"
  by (simp add: final_simps bit_a16_def set_flags_def bit_simps bit_cpu_flags bit_cpu_flags(2) [simplified] and_0x80 and_0x40 split: prod.split)

lemma alu_final:
  assumes "cpu_model c = CPU_6502"
  shows
  "micro_opcode n \<in> {ORA_zpg, ORA_abs, ORA_zpg_X, ORA_abs_X, ORA_abs_Y, ORA_X_ind, ORA_ind_Y} \<Longrightarrow>
     arch (apply_read t (with_micro n c)) = arch (ora_a16 (set_address_16 t c))"
  "micro_opcode n \<in> {AND_zpg, AND_abs, AND_zpg_X, AND_abs_X, AND_abs_Y, AND_X_ind, AND_ind_Y} \<Longrightarrow>
     arch (apply_read t (with_micro n c)) = arch (and_a16 (set_address_16 t c))"
  "micro_opcode n \<in> {EOR_zpg, EOR_abs, EOR_zpg_X, EOR_abs_X, EOR_abs_Y, EOR_X_ind, EOR_ind_Y} \<Longrightarrow>
     arch (apply_read t (with_micro n c)) = arch (eor_a16 (set_address_16 t c))"
  "micro_opcode n \<in> {ADC_zpg, ADC_abs, ADC_zpg_X, ADC_abs_X, ADC_abs_Y, ADC_X_ind, ADC_ind_Y} \<Longrightarrow>
     arch (apply_read t (with_micro n c)) = arch (adc_a16 (set_address_16 t c))"
  "micro_opcode n \<in> {SBC_zpg, SBC_abs, SBC_zpg_X, SBC_abs_X, SBC_abs_Y, SBC_X_ind, SBC_ind_Y} \<Longrightarrow>
     arch (apply_read t (with_micro n c)) = arch (sbc_a16 (set_address_16 t c))"
  "micro_opcode n \<in> {CMP_zpg, CMP_abs, CMP_zpg_X, CMP_abs_X, CMP_abs_Y, CMP_X_ind, CMP_ind_Y} \<Longrightarrow>
     arch (apply_read t (with_micro n c)) = arch (cmp_a16 (set_address_16 t c))"
  "micro_opcode n \<in> {CPX_zpg, CPX_abs} \<Longrightarrow>
     arch (apply_read t (with_micro n c)) = arch (cpx_a16 (set_address_16 t c))"
  "micro_opcode n \<in> {CPY_zpg, CPY_abs} \<Longrightarrow>
     arch (apply_read t (with_micro n c)) = arch (cpy_a16 (set_address_16 t c))"
  "micro_opcode n \<in> {BIT_zpg, BIT_abs} \<Longrightarrow>
     arch (apply_read t (with_micro n c)) = arch (bit_a16 (set_address_16 t c))"
  using assms
  by (simp_all only: apply_read_def micro_norm micro_frame apply_operation with_micro_let_value bit_a16_flags)
     (simp_all add: final_simps compare_bytes_def adc_closed sbc_closed ora_a16_def and_a16_def eor_a16_def adc_a16_def sbc_a16_def cmp_a16_def cpx_a16_def cpy_a16_def split: prod.split)

lemma rmw_documented_final:
  "micro_opcode n \<in> {ASL_zpg, ASL_abs, ASL_zpg_X, ASL_abs_X} \<Longrightarrow>
     arch (micro_rmw_write t (with_micro n c)) = arch (asl_a16 (set_address_16 t c))"
  "micro_opcode n \<in> {ROL_zpg, ROL_abs, ROL_zpg_X, ROL_abs_X} \<Longrightarrow>
     arch (micro_rmw_write t (with_micro n c)) = arch (rol_a16 (set_address_16 t c))"
  "micro_opcode n \<in> {LSR_zpg, LSR_abs, LSR_zpg_X, LSR_abs_X} \<Longrightarrow>
     arch (micro_rmw_write t (with_micro n c)) = arch (lsr_a16 (set_address_16 t c))"
  "micro_opcode n \<in> {ROR_zpg, ROR_abs, ROR_zpg_X, ROR_abs_X} \<Longrightarrow>
     arch (micro_rmw_write t (with_micro n c)) = arch (ror_a16 (set_address_16 t c))"
  "micro_opcode n \<in> {DEC_zpg, DEC_abs, DEC_zpg_X, DEC_abs_X} \<Longrightarrow>
     arch (micro_rmw_write t (with_micro n c)) = arch (dec_a16 (set_address_16 t c))"
  "micro_opcode n \<in> {INC_zpg, INC_abs, INC_zpg_X, INC_abs_X} \<Longrightarrow>
     arch (micro_rmw_write t (with_micro n c)) = arch (inc_a16 (set_address_16 t c))"
  by (elim insertE emptyE; simp add: micro_rmw_write_def c6510_micro_rmw_value_def c6510_micro_is_undocumented_rmw_def
        documented_rmw_value_def micro_norm micro_frame;
      simp add: final_simps with_micro_def and_0x80 bit_simps asl_a16_def rol_a16_def lsr_a16_def ror_a16_def dec_a16_def inc_a16_def)+

lemma rmw_undocumented_final:
  assumes "cpu_model c = CPU_6502" "c6510_micro_is_undocumented_rmw (micro_opcode n)"
  shows
  "micro_opcode n AND 0xE0 = 0x00 \<Longrightarrow>
     arch (micro_rmw_write t (with_micro n c)) = arch (slo_a16 (set_address_16 t c))"
  "micro_opcode n AND 0xE0 = 0x20 \<Longrightarrow>
     arch (micro_rmw_write t (with_micro n c)) = arch (rla_a16 (set_address_16 t c))"
  "micro_opcode n AND 0xE0 = 0x40 \<Longrightarrow>
     arch (micro_rmw_write t (with_micro n c)) = arch (sre_a16 (set_address_16 t c))"
  "micro_opcode n AND 0xE0 = 0x60 \<Longrightarrow>
     arch (micro_rmw_write t (with_micro n c)) = arch (rra_a16 (set_address_16 t c))"
  "micro_opcode n AND 0xE0 = 0xC0 \<Longrightarrow>
     arch (micro_rmw_write t (with_micro n c)) = arch (dcp_a16 (set_address_16 t c))"
  "micro_opcode n AND 0xE0 = 0xE0 \<Longrightarrow>
     arch (micro_rmw_write t (with_micro n c)) = arch (isc_a16 (set_address_16 t c))"
  using assms
  by (simp_all add: micro_rmw_write_def c6510_micro_rmw_value_def
        undocumented_rmw_value_def micro_norm micro_frame)
     (simp_all add: final_simps with_micro_def and_0x80 bit_simps compare_bytes_def adc_closed sbc_closed slo_a16_def rla_a16_def sre_a16_def rra_a16_def dcp_a16_def isc_a16_def)

end
