(* ===== verification/C6510_Dispatch.thy ===== *)
theory C6510_Dispatch
  imports C6510_Run
begin

text \<open>
  Which handler of \<^verbatim>\<open>c6510_micro_step\<close> serves which opcode. An opcode literal is decided
  by \<open>u8_decide\<close>, so that a proof about one opcode never unfolds the whole dispatch chain.
\<close>

lemma u8_literal_eq:
  "(numeral a :: u8) = numeral b \<longleftrightarrow> (numeral a :: nat) mod 256 = numeral b mod 256"
  "(numeral a :: u8) = 0 \<longleftrightarrow> (numeral a :: nat) mod 256 = 0"
  "(0 :: u8) = numeral b \<longleftrightarrow> (numeral b :: nat) mod 256 = 0"
  "(numeral a :: u8) = 1 \<longleftrightarrow> (numeral a :: nat) mod 256 = 1"
  "(1 :: u8) = numeral b \<longleftrightarrow> (numeral b :: nat) mod 256 = 1"
  by (auto simp add: word_unat_eq_iff unsigned_numeral take_bit_eq_mod)

lemmas u8_decide = u8_literal_eq mod_less numeral_less_iff numeral_eq_iff num.distinct num.inject semiring_norm
  insert_iff empty_iff simp_thms if_True if_False zero_neq_one one_neq_zero numeral_eq_one_iff
   zero_neq_numeral numeral_neq_zero

lemmas dispatch_rules = micro_dispatch_def c6510_micro_op_class_def micro_documented_opcodes_def
  c6510_op_class.case micro_documented_def

lemma dispatch_micro_nop:
  "micro_opcode m = NOP \<Longrightarrow> micro_dispatch m = micro_nop m"
  by (simp only: dispatch_rules u8_decide)

lemma dispatch_LDA_imm:
  "micro_opcode m = LDA_imm \<Longrightarrow> micro_dispatch m = micro_load_imm A_reg m"
  by (simp only: dispatch_rules u8_decide)

lemma dispatch_UND_0B:
  "micro_opcode m \<in> {UND_0B, UND_2B} \<Longrightarrow> micro_dispatch m = micro_done (anc_imm m)"
  by (elim insertE emptyE; simp only: dispatch_rules u8_decide)

lemma dispatch_UND_CB:
  "micro_opcode m = UND_CB \<Longrightarrow> micro_dispatch m = micro_done (axs_imm m)"
  by (simp only: dispatch_rules u8_decide)

lemma dispatch_UND_4B:
  "micro_opcode m = UND_4B \<Longrightarrow> micro_dispatch m = micro_done (alr_imm m)"
  by (simp only: dispatch_rules u8_decide)

lemma dispatch_LDX_imm:
  "micro_opcode m = LDX_imm \<Longrightarrow> micro_dispatch m = micro_load_imm X_reg m"
  by (simp only: dispatch_rules u8_decide)

lemma dispatch_LDY_imm:
  "micro_opcode m = LDY_imm \<Longrightarrow> micro_dispatch m = micro_load_imm Y_reg m"
  by (simp only: dispatch_rules u8_decide)

lemma dispatch_micro_load_abs:
  "micro_opcode m \<in> {LDA_abs, LDX_abs, LDY_abs} \<Longrightarrow> micro_dispatch m = micro_load_abs m"
  by (elim insertE emptyE; simp only: dispatch_rules u8_decide)

lemma dispatch_micro_store_abs:
  "micro_opcode m \<in> {STA_abs, STX_abs, STY_abs} \<Longrightarrow> micro_dispatch m = micro_store_abs m"
  by (elim insertE emptyE; simp only: dispatch_rules u8_decide)

lemma dispatch_micro_jmp_abs:
  "micro_opcode m = JMP_abs \<Longrightarrow> micro_dispatch m = micro_jmp_abs m"
  by (simp only: dispatch_rules u8_decide)

lemma dispatch_micro_jmp_ind:
  "micro_opcode m = JMP_ind \<Longrightarrow> micro_dispatch m = micro_jmp_ind m"
  by (simp only: dispatch_rules u8_decide)

lemma dispatch_micro_branch:
  "micro_opcode m \<in> {BPL_rel, BMI_rel, BVC_rel, BVS_rel, BCC_rel, BCS_rel, BNE_rel, BEQ_rel} \<Longrightarrow> micro_dispatch m = micro_branch m"
  by (elim insertE emptyE; simp only: dispatch_rules u8_decide)

lemma dispatch_micro_jsr:
  "micro_opcode m = JSR_abs \<Longrightarrow> micro_dispatch m = micro_jsr m"
  by (simp only: dispatch_rules u8_decide)

lemma dispatch_micro_rts:
  "micro_opcode m = RTS \<Longrightarrow> micro_dispatch m = micro_rts m"
  by (simp only: dispatch_rules u8_decide)

lemma dispatch_micro_alu_imm:
  "micro_opcode m \<in> {ORA_imm, AND_imm, EOR_imm, ADC_imm, SBC_imm, CMP_imm, CPX_imm, CPY_imm} \<Longrightarrow> micro_dispatch m = micro_alu_imm m"
  by (elim insertE emptyE; simp only: dispatch_rules u8_decide)

lemma dispatch_micro_flag_op:
  "micro_opcode m \<in> {CLC, SEC, CLI, SEI, CLD, SED, CLV} \<Longrightarrow> micro_dispatch m = micro_flag_op m"
  by (elim insertE emptyE; simp only: dispatch_rules u8_decide)

lemma dispatch_micro_register_op:
  "micro_opcode m \<in> {INX, INY, DEX, DEY, TAX, TAY, TXA, TYA, TSX, TXS, ASL_A, ROL_A, LSR_A, ROR_A} \<Longrightarrow> micro_dispatch m = micro_register_op m"
  by (elim insertE emptyE; simp only: dispatch_rules u8_decide)

lemma dispatch_micro_push_op:
  "micro_opcode m \<in> {PHA, PHP} \<Longrightarrow> micro_dispatch m = micro_push_op m"
  by (elim insertE emptyE; simp only: dispatch_rules u8_decide)

lemma dispatch_micro_pull_op:
  "micro_opcode m \<in> {PLA, PLP} \<Longrightarrow> micro_dispatch m = micro_pull_op m"
  by (elim insertE emptyE; simp only: dispatch_rules u8_decide)

lemma dispatch_micro_rti:
  "micro_opcode m = RTI \<Longrightarrow> micro_dispatch m = micro_rti m"
  by (simp only: dispatch_rules u8_decide)

lemma dispatch_micro_brk:
  "micro_opcode m = BRK \<Longrightarrow> micro_dispatch m = micro_brk m"
  by (simp only: dispatch_rules u8_decide)

lemma dispatch_micro_load_store_zp:
  "micro_opcode m \<in> {LDA_zpg, LDX_zpg, LDY_zpg, STA_zpg, STX_zpg, STY_zpg} \<Longrightarrow> micro_dispatch m = micro_load_store_zp m"
  by (elim insertE emptyE; simp only: dispatch_rules u8_decide)

lemma dispatch_micro_load_store_zp_indexed:
  "micro_opcode m \<in> {LDA_zpg_X, LDX_zpg_Y, LDY_zpg_X, STA_zpg_X, STX_zpg_Y, STY_zpg_X} \<Longrightarrow> micro_dispatch m = micro_load_store_zp_indexed m"
  by (elim insertE emptyE; simp only: dispatch_rules u8_decide)

lemma dispatch_micro_alu_zp:
  "micro_opcode m \<in> {ORA_zpg, AND_zpg, EOR_zpg, ADC_zpg, SBC_zpg, CMP_zpg, CPX_zpg, CPY_zpg, BIT_zpg} \<Longrightarrow> micro_dispatch m = micro_alu_zp m"
  by (elim insertE emptyE; simp only: dispatch_rules u8_decide)

lemma dispatch_micro_alu_zp_x:
  "micro_opcode m \<in> {ORA_zpg_X, AND_zpg_X, EOR_zpg_X, ADC_zpg_X, SBC_zpg_X, CMP_zpg_X} \<Longrightarrow> micro_dispatch m = micro_alu_zp_x m"
  by (elim insertE emptyE; simp only: dispatch_rules u8_decide)

lemma dispatch_micro_alu_abs:
  "micro_opcode m \<in> {BIT_abs, ORA_abs, AND_abs, EOR_abs, ADC_abs, SBC_abs, CMP_abs, CPX_abs, CPY_abs} \<Longrightarrow> micro_dispatch m = micro_alu_abs m"
  by (elim insertE emptyE; simp only: dispatch_rules u8_decide)

lemma dispatch_micro_abs_indexed:
  "micro_opcode m \<in> {LDA_abs_X, LDA_abs_Y, LDX_abs_Y, LDY_abs_X, STA_abs_X, STA_abs_Y, ORA_abs_X, ORA_abs_Y,
        AND_abs_X, AND_abs_Y, EOR_abs_X, EOR_abs_Y, ADC_abs_X, ADC_abs_Y, SBC_abs_X,
        SBC_abs_Y, CMP_abs_X, CMP_abs_Y} \<Longrightarrow> micro_dispatch m = micro_abs_indexed m"
  by (elim insertE emptyE; simp only: dispatch_rules u8_decide)

lemma dispatch_micro_x_ind:
  "micro_opcode m \<in> {LDA_X_ind, STA_X_ind, ORA_X_ind, AND_X_ind, EOR_X_ind, ADC_X_ind, SBC_X_ind, CMP_X_ind} \<Longrightarrow> micro_dispatch m = micro_x_ind m"
  by (elim insertE emptyE; simp only: dispatch_rules u8_decide)

lemma dispatch_micro_ind_y:
  "micro_opcode m \<in> {LDA_ind_Y, STA_ind_Y, ORA_ind_Y, AND_ind_Y, EOR_ind_Y, ADC_ind_Y, SBC_ind_Y, CMP_ind_Y} \<Longrightarrow> micro_dispatch m = micro_ind_y m"
  by (elim insertE emptyE; simp only: dispatch_rules u8_decide)

lemma dispatch_micro_rmw_zp:
  "micro_opcode m \<in> {ASL_zpg, ROL_zpg, LSR_zpg, ROR_zpg, DEC_zpg, INC_zpg} \<Longrightarrow> micro_dispatch m = micro_rmw_zp m"
  by (elim insertE emptyE; simp only: dispatch_rules u8_decide)

lemma dispatch_micro_rmw_zp_x:
  "micro_opcode m \<in> {ASL_zpg_X, ROL_zpg_X, LSR_zpg_X, ROR_zpg_X, DEC_zpg_X, INC_zpg_X} \<Longrightarrow> micro_dispatch m = micro_rmw_zp_x m"
  by (elim insertE emptyE; simp only: dispatch_rules u8_decide)

lemma dispatch_micro_rmw_abs:
  "micro_opcode m \<in> {ASL_abs, ROL_abs, LSR_abs, ROR_abs, DEC_abs, INC_abs} \<Longrightarrow> micro_dispatch m = micro_rmw_abs m"
  by (elim insertE emptyE; simp only: dispatch_rules u8_decide)

lemma dispatch_micro_rmw_abs_x:
  "micro_opcode m \<in> {ASL_abs_X, ROL_abs_X, LSR_abs_X, ROR_abs_X, DEC_abs_X, INC_abs_X} \<Longrightarrow> micro_dispatch m = micro_rmw_abs_x m"
  by (elim insertE emptyE; simp only: dispatch_rules u8_decide)

end
