(* ===== verification/C6510_Equiv.thy ===== *)
theory C6510_Equiv
  imports C6510_Dispatch
begin

text \<open>
  The resumable executor against the one-shot executor, for implied, immediate-free, absolute
  and zero page operands. \<open>micro_finishes n c m\<close> says that at most seven further calls of
  \<^verbatim>\<open>c6510_micro_step\<close> complete the instruction suspended in \<open>n\<close> over machine \<open>c\<close>, and
  that they leave the architectural state of \<open>m\<close>.
\<close>

definition micro_finishes :: "'u C6510 \<Rightarrow> 'u C6510 \<Rightarrow> 'u C6510 \<Rightarrow> bool" where
  "micro_finishes n c m \<longleftrightarrow>
     (\<exists>k m'. micro_run 7 (with_micro n c) = Some (k, m') \<and> arch m' = arch m)"

lemma cpu_model_stages [simp]:
  "cpu_model (al_read_pc m) = cpu_model m"
  "cpu_model (ah_read_pc m) = cpu_model m"
  "cpu_model (sl_read_a16 m) = cpu_model m"
  "cpu_model (sl_write_a16 m) = cpu_model m"
  "cpu_model (a_pipe m) = cpu_model m"
  "cpu_model (mix m) = cpu_model m"
  "cpu_model (mizy m) = cpu_model m"
  "cpu_model (read_a16_ind_x m) = cpu_model m"
  "cpu_model (read_a16_ind_y m) = cpu_model m"
  by (simp_all add: cpu_ops cpu_bus CYCLE_def split: prod.split)

lemma abs_operand: "ah_read_pc (micro_operand_lo m) = a_pipe m"
  by (simp add: micro_ops cpu_ops cpu_bus CYCLE_def split: prod.split)

lemma indexed_operand:
  "CYCLE ((read_dummy m a)\<lparr>address_lo := address_lo (read_dummy m a) + reg_X (read_dummy m a)\<rparr>) =
   (if a = address_16 m then read_a16_ind_x m else CYCLE ((read_dummy m a)\<lparr>address_lo := address_lo m + reg_X m\<rparr>))"
  "CYCLE ((read_dummy m a)\<lparr>address_lo := address_lo (read_dummy m a) + reg_Y (read_dummy m a)\<rparr>) =
   (if a = address_16 m then read_a16_ind_y m else CYCLE ((read_dummy m a)\<lparr>address_lo := address_lo m + reg_Y m\<rparr>))"
  by (simp_all add: read_a16_ind_x_def read_a16_ind_y_def read_dummy_def bus_read_def Let_def split: prod.split)

lemma arch_micro_complete: "arch (micro_complete m) = arch m"
  by (simp add: arch_def micro_complete_def)

lemmas run_rules = micro_finishes_def micro_run_numeral micro_step_with_micro micro_norm micro_frame
  cpu_access_defs micro_wait_def micro_done_def arch_micro_complete Let_def micro_apply_read_eq

lemmas final_rules = load_final store_final alu_final rmw_documented_final set_address_same abs_operand indexed_operand

lemma equiv_micro_nop:
  assumes "micro_phase n = 1" "\<not> micro_is_interrupt n" "cpu_model c = CPU_6502"
  shows
  "micro_opcode n = NOP \<Longrightarrow> micro_finishes n c (read_pc c)"
  using assms by (simp_all add: run_rules dispatch_micro_nop micro_nop_def  final_rules)

lemma equiv_micro_load_abs:
  assumes "micro_phase n = 1" "\<not> micro_is_interrupt n" "cpu_model c = CPU_6502"
  shows
  "micro_opcode n = LDA_abs \<Longrightarrow> micro_finishes n c (lda_a16 (a_pipe c))"
  "micro_opcode n = LDX_abs \<Longrightarrow> micro_finishes n c (ldx_a16 (a_pipe c))"
  "micro_opcode n = LDY_abs \<Longrightarrow> micro_finishes n c (ldy_a16 (a_pipe c))"
  using assms by (simp_all add: run_rules dispatch_micro_load_abs micro_load_abs_def  final_rules)

lemma equiv_micro_store_abs:
  assumes "micro_phase n = 1" "\<not> micro_is_interrupt n" "cpu_model c = CPU_6502"
  shows
  "micro_opcode n = STA_abs \<Longrightarrow> micro_finishes n c (sta_a16 (a_pipe c))"
  "micro_opcode n = STX_abs \<Longrightarrow> micro_finishes n c (stx_a16 (a_pipe c))"
  "micro_opcode n = STY_abs \<Longrightarrow> micro_finishes n c (sty_a16 (a_pipe c))"
  using assms by (simp_all add: run_rules dispatch_micro_store_abs micro_store_abs_def  final_rules)

lemma equiv_micro_load_store_zp:
  assumes "micro_phase n = 1" "\<not> micro_is_interrupt n" "cpu_model c = CPU_6502"
  shows
  "micro_opcode n = LDA_zpg \<Longrightarrow> micro_finishes n c (lda_a16 (al_read_pc c))"
  "micro_opcode n = LDX_zpg \<Longrightarrow> micro_finishes n c (ldx_a16 (al_read_pc c))"
  "micro_opcode n = LDY_zpg \<Longrightarrow> micro_finishes n c (ldy_a16 (al_read_pc c))"
  "micro_opcode n = STA_zpg \<Longrightarrow> micro_finishes n c (sta_a16 (al_read_pc c))"
  "micro_opcode n = STX_zpg \<Longrightarrow> micro_finishes n c (stx_a16 (al_read_pc c))"
  "micro_opcode n = STY_zpg \<Longrightarrow> micro_finishes n c (sty_a16 (al_read_pc c))"
  using assms by (simp_all add: run_rules dispatch_micro_load_store_zp micro_load_store_zp_def  final_rules)

lemma equiv_micro_load_store_zp_indexed:
  assumes "micro_phase n = 1" "\<not> micro_is_interrupt n" "cpu_model c = CPU_6502"
  shows
  "micro_opcode n = LDA_zpg_X \<Longrightarrow> micro_finishes n c (lda_a16 (mix c))"
  "micro_opcode n = LDX_zpg_Y \<Longrightarrow> micro_finishes n c (ldx_a16 (mizy c))"
  "micro_opcode n = LDY_zpg_X \<Longrightarrow> micro_finishes n c (ldy_a16 (mix c))"
  "micro_opcode n = STA_zpg_X \<Longrightarrow> micro_finishes n c (sta_a16 (mix c))"
  "micro_opcode n = STX_zpg_Y \<Longrightarrow> micro_finishes n c (stx_a16 (mizy c))"
  "micro_opcode n = STY_zpg_X \<Longrightarrow> micro_finishes n c (sty_a16 (mix c))"
  using assms by (simp_all add: run_rules dispatch_micro_load_store_zp_indexed micro_load_store_zp_indexed_def mix_def mizy_def final_rules)

lemma equiv_micro_alu_zp:
  assumes "micro_phase n = 1" "\<not> micro_is_interrupt n" "cpu_model c = CPU_6502"
  shows
  "micro_opcode n = ORA_zpg \<Longrightarrow> micro_finishes n c (ora_a16 (al_read_pc c))"
  "micro_opcode n = AND_zpg \<Longrightarrow> micro_finishes n c (and_a16 (al_read_pc c))"
  "micro_opcode n = EOR_zpg \<Longrightarrow> micro_finishes n c (eor_a16 (al_read_pc c))"
  "micro_opcode n = ADC_zpg \<Longrightarrow> micro_finishes n c (adc_a16 (al_read_pc c))"
  "micro_opcode n = SBC_zpg \<Longrightarrow> micro_finishes n c (sbc_a16 (al_read_pc c))"
  "micro_opcode n = CMP_zpg \<Longrightarrow> micro_finishes n c (cmp_a16 (al_read_pc c))"
  "micro_opcode n = CPX_zpg \<Longrightarrow> micro_finishes n c (cpx_a16 (al_read_pc c))"
  "micro_opcode n = CPY_zpg \<Longrightarrow> micro_finishes n c (cpy_a16 (al_read_pc c))"
  "micro_opcode n = BIT_zpg \<Longrightarrow> micro_finishes n c (bit_a16 (al_read_pc c))"
  using assms by (simp_all add: run_rules dispatch_micro_alu_zp micro_alu_zp_def  final_rules)

lemma equiv_micro_alu_zp_x:
  assumes "micro_phase n = 1" "\<not> micro_is_interrupt n" "cpu_model c = CPU_6502"
  shows
  "micro_opcode n = ORA_zpg_X \<Longrightarrow> micro_finishes n c (ora_a16 (mix c))"
  "micro_opcode n = AND_zpg_X \<Longrightarrow> micro_finishes n c (and_a16 (mix c))"
  "micro_opcode n = EOR_zpg_X \<Longrightarrow> micro_finishes n c (eor_a16 (mix c))"
  "micro_opcode n = ADC_zpg_X \<Longrightarrow> micro_finishes n c (adc_a16 (mix c))"
  "micro_opcode n = SBC_zpg_X \<Longrightarrow> micro_finishes n c (sbc_a16 (mix c))"
  "micro_opcode n = CMP_zpg_X \<Longrightarrow> micro_finishes n c (cmp_a16 (mix c))"
  using assms by (simp_all add: run_rules dispatch_micro_alu_zp_x micro_alu_zp_x_def mix_def final_rules)

lemma equiv_micro_alu_abs:
  assumes "micro_phase n = 1" "\<not> micro_is_interrupt n" "cpu_model c = CPU_6502"
  shows
  "micro_opcode n = BIT_abs \<Longrightarrow> micro_finishes n c (bit_a16 (a_pipe c))"
  "micro_opcode n = ORA_abs \<Longrightarrow> micro_finishes n c (ora_a16 (a_pipe c))"
  "micro_opcode n = AND_abs \<Longrightarrow> micro_finishes n c (and_a16 (a_pipe c))"
  "micro_opcode n = EOR_abs \<Longrightarrow> micro_finishes n c (eor_a16 (a_pipe c))"
  "micro_opcode n = ADC_abs \<Longrightarrow> micro_finishes n c (adc_a16 (a_pipe c))"
  "micro_opcode n = SBC_abs \<Longrightarrow> micro_finishes n c (sbc_a16 (a_pipe c))"
  "micro_opcode n = CMP_abs \<Longrightarrow> micro_finishes n c (cmp_a16 (a_pipe c))"
  "micro_opcode n = CPX_abs \<Longrightarrow> micro_finishes n c (cpx_a16 (a_pipe c))"
  "micro_opcode n = CPY_abs \<Longrightarrow> micro_finishes n c (cpy_a16 (a_pipe c))"
  using assms by (simp_all add: run_rules dispatch_micro_alu_abs micro_alu_abs_def  final_rules)

lemma equiv_micro_rmw_zp:
  assumes "micro_phase n = 1" "\<not> micro_is_interrupt n" "cpu_model c = CPU_6502"
  shows
  "micro_opcode n = ASL_zpg \<Longrightarrow> micro_finishes n c (asl_a16 (mrw c))"
  "micro_opcode n = ROL_zpg \<Longrightarrow> micro_finishes n c (rol_a16 (mrw c))"
  "micro_opcode n = LSR_zpg \<Longrightarrow> micro_finishes n c (lsr_a16 (mrw c))"
  "micro_opcode n = ROR_zpg \<Longrightarrow> micro_finishes n c (ror_a16 (mrw c))"
  "micro_opcode n = DEC_zpg \<Longrightarrow> micro_finishes n c (dec_a16 (mrw c))"
  "micro_opcode n = INC_zpg \<Longrightarrow> micro_finishes n c (inc_a16 (mrw c))"
  using assms by (simp_all add: run_rules dispatch_micro_rmw_zp micro_rmw_zp_def mrw_def rmw_second_access_def final_rules)

lemma equiv_micro_rmw_zp_x:
  assumes "micro_phase n = 1" "\<not> micro_is_interrupt n" "cpu_model c = CPU_6502"
  shows
  "micro_opcode n = ASL_zpg_X \<Longrightarrow> micro_finishes n c (asl_a16 (mixrw c))"
  "micro_opcode n = ROL_zpg_X \<Longrightarrow> micro_finishes n c (rol_a16 (mixrw c))"
  "micro_opcode n = LSR_zpg_X \<Longrightarrow> micro_finishes n c (lsr_a16 (mixrw c))"
  "micro_opcode n = ROR_zpg_X \<Longrightarrow> micro_finishes n c (ror_a16 (mixrw c))"
  "micro_opcode n = DEC_zpg_X \<Longrightarrow> micro_finishes n c (dec_a16 (mixrw c))"
  "micro_opcode n = INC_zpg_X \<Longrightarrow> micro_finishes n c (inc_a16 (mixrw c))"
  using assms by (simp_all add: run_rules dispatch_micro_rmw_zp_x micro_rmw_zp_x_def mix_def mixrw_def rmw_second_access_def final_rules)

lemma equiv_micro_rmw_abs:
  assumes "micro_phase n = 1" "\<not> micro_is_interrupt n" "cpu_model c = CPU_6502"
  shows
  "micro_opcode n = ASL_abs \<Longrightarrow> micro_finishes n c (asl_a16 (arw c))"
  "micro_opcode n = ROL_abs \<Longrightarrow> micro_finishes n c (rol_a16 (arw c))"
  "micro_opcode n = LSR_abs \<Longrightarrow> micro_finishes n c (lsr_a16 (arw c))"
  "micro_opcode n = ROR_abs \<Longrightarrow> micro_finishes n c (ror_a16 (arw c))"
  "micro_opcode n = DEC_abs \<Longrightarrow> micro_finishes n c (dec_a16 (arw c))"
  "micro_opcode n = INC_abs \<Longrightarrow> micro_finishes n c (inc_a16 (arw c))"
  using assms by (simp_all add: run_rules dispatch_micro_rmw_abs micro_rmw_abs_def arw_def rmw_second_access_def final_rules)

end
