(* ===== verification/C6510_Equiv_Control.thy ===== *)
theory C6510_Equiv_Control
  imports C6510_Equiv
begin

text \<open>
  Immediate operands, register moves, the stack, subroutines, \<^verbatim>\<open>BRK\<close> and \<^verbatim>\<open>RTI\<close>, jumps and
  branches in both executors.
\<close>

section \<open>Immediate, implied, stack and jump instructions\<close>

lemma sp_low: "lo8 (s - 0x100) = lo8 s"
  by (simp add: lo8_diff) (simp add: lo8_def)

lemma page_join: "(w AND 0xFF00) OR (z AND 0x00FF) = w16 (hi8 w) (lo8 z)"
proof -
  define k :: u16 where "k = mask 8"
  have k: "bit k n \<longleftrightarrow> n < 8" for n by (auto simp add: k_def bit_mask_iff)
  have masks: "(0xFF00 :: u16) = NOT k" "(0x00FF :: u16) = k"
    by (simp_all add: k_def mask_eq_exp_minus_1)
  show ?thesis
    unfolding masks by (rule bit_word_eqI) (auto simp: w16_def hi8_def lo8_def bit_simps k)
qed

lemma pull_final:
  "(case micro_pull m of (v, x) \<Rightarrow> set_register_to_value A_reg v x) = pla m"
  "(case micro_pull m of (v, x) \<Rightarrow> set_flags ((v AND - 17) OR 0x20) x) = p_from_stack m"
  "(case micro_pull m of (v, x) \<Rightarrow> x\<lparr>address_lo := v\<rparr>) = al_from_stack m"
  "(case micro_pull m of (v, x) \<Rightarrow> x\<lparr>address_hi := v\<rparr>) = ah_from_stack m"
  "(case micro_pull m of (v, x) \<Rightarrow>
      x\<lparr>address_hi := v, pc := address_16 (x\<lparr>address_hi := v\<rparr>)\<rparr>) = rti m"
  "plp m = p_from_stack m"
  by (simp_all add: micro_pull_def pla_def plp_def p_from_stack_def al_from_stack_def ah_from_stack_def
      rti_def address_16_def set_register_to_value_def set_flags_def CYCLE_def Let_def split: prod.split)

lemmas imm_simps = final_simps with_micro_def micro_read_operand_def read_dummy_def read_pc_def

lemma rts_final:
  "arch ((micro_dummy_read (address_16 m) m)\<lparr>pc := address_16 (micro_dummy_read (address_16 m) m) + 1\<rparr>) =
   arch (rts m)"
  by (cases "read_fn m (user m) (address_16 m)")
     (simp add: imm_simps rts_def al_read_pc_def micro_dummy_read_def)

lemma jump_final:
  "arch (case bus_read BUS_ACCESS_OPERAND_READ m (pc m) of (v, x) \<Rightarrow>
     (CYCLE (x\<lparr>address_hi := v\<rparr>))\<lparr>pc := address_16 (CYCLE (x\<lparr>address_hi := v\<rparr>))\<rparr>) =
   arch (jmp_a16 (ah_read_pc m))"
  by (cases "read_fn m (user m) (pc m)") (simp add: imm_simps jmp_a16_def ah_read_pc_def)

lemma address_latch:
  "micro_operand_lo m = (al_read_pc m)\<lparr>address_hi := address_hi m\<rparr>"
  "read_sp (m\<lparr>address_hi := x\<rparr>) = (read_sp m)\<lparr>address_hi := x\<rparr>"
  "pc_hi_to_stack (m\<lparr>address_hi := x\<rparr>) = (pc_hi_to_stack m)\<lparr>address_hi := x\<rparr>"
  "pc_lo_to_stack (m\<lparr>address_hi := x\<rparr>) = (pc_lo_to_stack m)\<lparr>address_hi := x\<rparr>"
  "ah_read_pc (m\<lparr>address_hi := x\<rparr>) = ah_read_pc m"
  by (simp_all add: imm_simps micro_operand_lo_def al_read_pc_def ah_read_pc_def read_sp_def
      pc_hi_to_stack_def pc_lo_to_stack_def push_def write_stack_def split: prod.split)

lemma brk_latch:
  "\<exists>x y. snd (micro_read_operand m) = (al_read_pc m)\<lparr>address_lo := x, address_hi := y\<rparr>"
  by (rule exI [of _ "address_lo m"], rule exI [of _ "address_hi m"])
     (simp add: imm_simps al_read_pc_def split: prod.split)

lemma flags_latch:
  "cpu_flags (m\<lparr>address_lo := x\<rparr>) = cpu_flags m" "cpu_flags (m\<lparr>address_hi := x\<rparr>) = cpu_flags m"
  by (simp_all add: cpu_flags_def)

lemma address_latch_lo:
  "pc_hi_to_stack (m\<lparr>address_lo := x\<rparr>) = (pc_hi_to_stack m)\<lparr>address_lo := x\<rparr>"
  "pc_lo_to_stack (m\<lparr>address_lo := x\<rparr>) = (pc_lo_to_stack m)\<lparr>address_lo := x\<rparr>"
  "php (m\<lparr>address_lo := x\<rparr>) = (php m)\<lparr>address_lo := x\<rparr>"
  "php (m\<lparr>address_hi := x\<rparr>) = (php m)\<lparr>address_hi := x\<rparr>"
  by (simp_all add: pc_hi_to_stack_def pc_lo_to_stack_def php_def push_def write_stack_def bus_write_def
      CYCLE_def Let_def flags_latch)

lemma flags_set_I: "set_flags (cpu_flags m OR 4) m = m\<lparr>flag_I := True\<rparr>"
  by (simp add: set_flags_def bit_or_iff bit_cpu_flags bit_cpu_flags(2) [simplified])

lemma brk_final:
  assumes "cpu_model m = CPU_6502"
  shows "arch (case bus_read BUS_ACCESS_VECTOR_READ
            (case bus_read BUS_ACCESS_VECTOR_READ (m\<lparr>address_lo := x, address_hi := y\<rparr>) 0xFFFE of
               (v, m) \<Rightarrow> CYCLE (m\<lparr>address_lo := v\<rparr>)) 0xFFFF of
          (v, m) \<Rightarrow> (CYCLE (m\<lparr>address_hi := v\<rparr>))
            \<lparr>pc := address_16 (CYCLE (m\<lparr>address_hi := v\<rparr>)), flag_I := True\<rparr>) = arch (c6510_brk m)"
proof -
  obtain v u where r1: "read_fn m (user m) 0xFFFE = (v, u)" by (rule prod.exhaust)
  obtain v' u' where r2: "read_fn m u 0xFFFF = (v', u')" by (rule prod.exhaust)
  show ?thesis
    using assms r1 r2
    by (simp add: imm_simps c6510_brk_def c6510_read_interrupt_vector_def read_vector_def flags_set_I)
qed

lemma lo8_one: "lo8 1 = 1"
  by (simp add: lo8_def)

lemma jmp_ind_final:
  assumes "cpu_model m = CPU_6502"
  shows "arch (case micro_data_read ((address_16 m AND 0xFF00) OR ((address_16 m + 1) AND 0x00FF))
      (case micro_data_read (address_16 m) m of (v, x) \<Rightarrow> x\<lparr>scratch_lo := v\<rparr>) of
       (v, x) \<Rightarrow> x\<lparr>scratch_hi := v, pc := scratch_16 (x\<lparr>scratch_hi := v\<rparr>)\<rparr>) =
     arch (jmp_ind (sl_read_a16 m))"
proof -
  obtain v u where r1: "read_fn m (user m) (address_16 m) = (v, u)" by (rule prod.exhaust)
  obtain v' u' where r2: "read_fn m u (w16 (address_hi m) (address_lo m + 1)) = (v', u')" by (rule prod.exhaust)
  show ?thesis
    using assms r1 r2
    by (simp add: imm_simps page_join lo8_add lo8_one jmp_ind_def sl_read_a16_def)
qed

lemma jsr_jmp: "jsr_a16 m = jmp_a16 (ah_read_pc m)"
  by (simp add: jsr_a16_def jmp_a16_def Let_def)

lemma let_with_micro: "Let (with_micro n c) f = f (with_micro n c)"
  by (simp add: Let_def)

lemma register_operation:
  "micro_opcode n = INX \<Longrightarrow> micro_register_op (with_micro n c) =
     (True, with_micro n (let m = micro_dummy_read (pc c) c in set_register_to_value X_reg (reg_X m + 1) m))"
  "micro_opcode n = INY \<Longrightarrow> micro_register_op (with_micro n c) =
     (True, with_micro n (let m = micro_dummy_read (pc c) c in set_register_to_value Y_reg (reg_Y m + 1) m))"
  "micro_opcode n = DEX \<Longrightarrow> micro_register_op (with_micro n c) =
     (True, with_micro n (let m = micro_dummy_read (pc c) c in set_register_to_value X_reg (reg_X m - 1) m))"
  "micro_opcode n = DEY \<Longrightarrow> micro_register_op (with_micro n c) =
     (True, with_micro n (let m = micro_dummy_read (pc c) c in set_register_to_value Y_reg (reg_Y m - 1) m))"
  "micro_opcode n = TAX \<Longrightarrow> micro_register_op (with_micro n c) =
     (True, with_micro n (let m = micro_dummy_read (pc c) c in set_register_to_value X_reg (reg_A m) m))"
  "micro_opcode n = TAY \<Longrightarrow> micro_register_op (with_micro n c) =
     (True, with_micro n (let m = micro_dummy_read (pc c) c in set_register_to_value Y_reg (reg_A m) m))"
  "micro_opcode n = TXA \<Longrightarrow> micro_register_op (with_micro n c) =
     (True, with_micro n (let m = micro_dummy_read (pc c) c in set_register_to_value A_reg (reg_X m) m))"
  "micro_opcode n = TYA \<Longrightarrow> micro_register_op (with_micro n c) =
     (True, with_micro n (let m = micro_dummy_read (pc c) c in set_register_to_value A_reg (reg_Y m) m))"
  "micro_opcode n = TSX \<Longrightarrow> micro_register_op (with_micro n c) =
     (True, with_micro n (let m = micro_dummy_read (pc c) c in set_register_to_value X_reg (lo8 (sp m)) m))"
  "micro_opcode n = TXS \<Longrightarrow> micro_register_op (with_micro n c) =
     (True, with_micro n (let m = micro_dummy_read (pc c) c in m\<lparr>sp := 0x100 OR ucast (reg_X m)\<rparr>))"
  "micro_opcode n = ASL_A \<Longrightarrow> micro_register_op (with_micro n c) =
     (True, with_micro n (let m = micro_dummy_read (pc c) c in set_register_to_value A_reg (push_bit 1 (reg_A m)) (m\<lparr>flag_C := reg_A m AND 0x80 \<noteq> 0\<rparr>)))"
  "micro_opcode n = ROL_A \<Longrightarrow> micro_register_op (with_micro n c) =
     (True, with_micro n (let m = micro_dummy_read (pc c) c in (set_register_to_value A_reg (push_bit 1 (reg_A m) OR of_flag (flag_C m)) m)\<lparr>flag_C := reg_A m AND 0x80 \<noteq> 0\<rparr>))"
  "micro_opcode n = LSR_A \<Longrightarrow> micro_register_op (with_micro n c) =
     (True, with_micro n (let m = micro_dummy_read (pc c) c in set_register_to_value A_reg (drop_bit 1 (reg_A m)) (m\<lparr>flag_C := bit (reg_A m) 0\<rparr>)))"
  "micro_opcode n = ROR_A \<Longrightarrow> micro_register_op (with_micro n c) =
     (True, with_micro n (let m = micro_dummy_read (pc c) c in (set_register_to_value A_reg (drop_bit 1 (reg_A m) OR push_bit 7 (of_flag (flag_C m))) m)\<lparr>flag_C := bit (reg_A m) 0\<rparr>))"
  by (simp_all only: micro_register_op_def micro_norm micro_frame let_with_micro u8_decide micro_done_def
      cong: let_weak_cong if_weak_cong)
     (simp_all add: Let_def micro_frame)

lemma equiv_A_reg_LDA_imm:
  assumes "micro_phase n = 1" "\<not> micro_is_interrupt n" "cpu_model c = CPU_6502"
  shows
  "micro_opcode n = LDA_imm \<Longrightarrow> micro_finishes n c (lda_imm c)"
  using assms by (simp_all add: run_rules dispatch_LDA_imm micro_load_imm_def  final_rules)
     (cases "read_fn c (user c) (pc c)"; simp add: imm_simps lda_imm_def)+

lemma equiv_X_reg_LDX_imm:
  assumes "micro_phase n = 1" "\<not> micro_is_interrupt n" "cpu_model c = CPU_6502"
  shows
  "micro_opcode n = LDX_imm \<Longrightarrow> micro_finishes n c (ldx_imm c)"
  using assms by (simp_all add: run_rules dispatch_LDX_imm micro_load_imm_def  final_rules)
     (cases "read_fn c (user c) (pc c)"; simp add: imm_simps ldx_imm_def)+

lemma equiv_Y_reg_LDY_imm:
  assumes "micro_phase n = 1" "\<not> micro_is_interrupt n" "cpu_model c = CPU_6502"
  shows
  "micro_opcode n = LDY_imm \<Longrightarrow> micro_finishes n c (ldy_imm c)"
  using assms by (simp_all add: run_rules dispatch_LDY_imm micro_load_imm_def  final_rules)
     (cases "read_fn c (user c) (pc c)"; simp add: imm_simps ldy_imm_def)+

lemma equiv_anc_imm_UND_0B:
  assumes "micro_phase n = 1" "\<not> micro_is_interrupt n" "cpu_model c = CPU_6502"
  shows
  "micro_opcode n = UND_0B \<Longrightarrow> micro_finishes n c (anc_imm c)"
  "micro_opcode n = UND_2B \<Longrightarrow> micro_finishes n c (anc_imm c)"
  using assms by (simp_all add: run_rules dispatch_UND_0B   final_rules)

lemma equiv_axs_imm_UND_CB:
  assumes "micro_phase n = 1" "\<not> micro_is_interrupt n" "cpu_model c = CPU_6502"
  shows
  "micro_opcode n = UND_CB \<Longrightarrow> micro_finishes n c (axs_imm c)"
  using assms by (simp_all add: run_rules dispatch_UND_CB   final_rules)

lemma equiv_alr_imm_UND_4B:
  assumes "micro_phase n = 1" "\<not> micro_is_interrupt n" "cpu_model c = CPU_6502"
  shows
  "micro_opcode n = UND_4B \<Longrightarrow> micro_finishes n c (alr_imm c)"
  using assms by (simp_all add: run_rules dispatch_UND_4B   final_rules)

lemma equiv_micro_alu_imm:
  assumes "micro_phase n = 1" "\<not> micro_is_interrupt n" "cpu_model c = CPU_6502"
  shows
  "micro_opcode n = ORA_imm \<Longrightarrow> micro_finishes n c (ora_imm c)"
  "micro_opcode n = AND_imm \<Longrightarrow> micro_finishes n c (and_imm c)"
  "micro_opcode n = EOR_imm \<Longrightarrow> micro_finishes n c (eor_imm c)"
  "micro_opcode n = ADC_imm \<Longrightarrow> micro_finishes n c (adc_imm c)"
  "micro_opcode n = SBC_imm \<Longrightarrow> micro_finishes n c (sbc_imm c)"
  "micro_opcode n = CMP_imm \<Longrightarrow> micro_finishes n c (cmp_imm c)"
  "micro_opcode n = CPX_imm \<Longrightarrow> micro_finishes n c (cpx_imm c)"
  "micro_opcode n = CPY_imm \<Longrightarrow> micro_finishes n c (cpy_imm c)"
  using assms by (simp_all add: run_rules dispatch_micro_alu_imm micro_alu_imm_def  final_rules)
     (cases "read_fn c (user c) (pc c)"; simp add: imm_simps adc_closed sbc_closed compare_bytes_def adc_imm_def sbc_imm_def ora_imm_def and_imm_def eor_imm_def cmp_imm_def cpx_imm_def cpy_imm_def)+

lemma equiv_micro_flag_op:
  assumes "micro_phase n = 1" "\<not> micro_is_interrupt n" "cpu_model c = CPU_6502"
  shows
  "micro_opcode n = CLC \<Longrightarrow> micro_finishes n c (clc c)"
  "micro_opcode n = SEC \<Longrightarrow> micro_finishes n c (sec c)"
  "micro_opcode n = CLI \<Longrightarrow> micro_finishes n c (cli c)"
  "micro_opcode n = SEI \<Longrightarrow> micro_finishes n c (sei c)"
  "micro_opcode n = CLD \<Longrightarrow> micro_finishes n c (cld c)"
  "micro_opcode n = SED \<Longrightarrow> micro_finishes n c (sed c)"
  "micro_opcode n = CLV \<Longrightarrow> micro_finishes n c (clv c)"
  using assms by (simp_all add: run_rules dispatch_micro_flag_op micro_flag_op_def  final_rules)
     (cases "read_fn c (user c) (pc c)"; simp add: imm_simps clc_def sec_def cli_def sei_def cld_def sed_def clv_def)+

lemma equiv_micro_register_op:
  assumes "micro_phase n = 1" "\<not> micro_is_interrupt n" "cpu_model c = CPU_6502"
  shows
  "micro_opcode n = INX \<Longrightarrow> micro_finishes n c (inx c)"
  "micro_opcode n = INY \<Longrightarrow> micro_finishes n c (iny c)"
  "micro_opcode n = DEX \<Longrightarrow> micro_finishes n c (dex c)"
  "micro_opcode n = DEY \<Longrightarrow> micro_finishes n c (dey c)"
  "micro_opcode n = TAX \<Longrightarrow> micro_finishes n c (tax c)"
  "micro_opcode n = TAY \<Longrightarrow> micro_finishes n c (tay c)"
  "micro_opcode n = TXA \<Longrightarrow> micro_finishes n c (txa c)"
  "micro_opcode n = TYA \<Longrightarrow> micro_finishes n c (tya c)"
  "micro_opcode n = TSX \<Longrightarrow> micro_finishes n c (tsx c)"
  "micro_opcode n = TXS \<Longrightarrow> micro_finishes n c (txs c)"
  "micro_opcode n = ASL_A \<Longrightarrow> micro_finishes n c (asl_a c)"
  "micro_opcode n = ROL_A \<Longrightarrow> micro_finishes n c (rol_a c)"
  "micro_opcode n = LSR_A \<Longrightarrow> micro_finishes n c (lsr_a c)"
  "micro_opcode n = ROR_A \<Longrightarrow> micro_finishes n c (ror_a c)"
  using assms by (simp_all add: run_rules dispatch_micro_register_op  register_operation final_rules)
     (cases "read_fn c (user c) (pc c)"; simp add: imm_simps inx_def iny_def dex_def dey_def tax_def tay_def txa_def tya_def tsx_def txs_def asl_a_def rol_a_def lsr_a_def ror_a_def and_0x80 bit_simps sp_low stack_page)+

lemma equiv_micro_push_op:
  assumes "micro_phase n = 1" "\<not> micro_is_interrupt n" "cpu_model c = CPU_6502"
  shows
  "micro_opcode n = PHA \<Longrightarrow> micro_finishes n c (pha (read_pc c))"
  "micro_opcode n = PHP \<Longrightarrow> micro_finishes n c (php (read_pc c))"
  using assms by (simp_all add: run_rules dispatch_micro_push_op micro_push_op_def  final_rules)

lemma equiv_micro_pull_op:
  assumes "micro_phase n = 1" "\<not> micro_is_interrupt n" "cpu_model c = CPU_6502"
  shows
  "micro_opcode n = PLA \<Longrightarrow> micro_finishes n c (pla (read_sp (read_pc c)))"
  "micro_opcode n = PLP \<Longrightarrow> micro_finishes n c (plp (read_sp (read_pc c)))"
  using assms by (simp_all add: run_rules dispatch_micro_pull_op micro_pull_op_def pull_final final_rules)

lemma equiv_micro_rti:
  assumes "micro_phase n = 1" "\<not> micro_is_interrupt n" "cpu_model c = CPU_6502"
  shows
  "micro_opcode n = RTI \<Longrightarrow> micro_finishes n c (rti (al_from_stack (p_from_stack (read_sp (read_pc c)))))"
  using assms by (simp_all add: run_rules dispatch_micro_rti micro_rti_def pull_final final_rules)

lemma equiv_micro_rts:
  assumes "micro_phase n = 1" "\<not> micro_is_interrupt n" "cpu_model c = CPU_6502"
  shows
  "micro_opcode n = RTS \<Longrightarrow> micro_finishes n c (rts (ah_from_stack (al_from_stack (read_sp (read_pc c)))))"
  using assms by (simp_all add: run_rules dispatch_micro_rts micro_rts_def pull_final rts_final final_rules)

lemma equiv_micro_jmp_abs:
  assumes "micro_phase n = 1" "\<not> micro_is_interrupt n" "cpu_model c = CPU_6502"
  shows
  "micro_opcode n = JMP_abs \<Longrightarrow> micro_finishes n c (jmp_a16 (a_pipe c))"
  using assms by (simp_all add: run_rules dispatch_micro_jmp_abs micro_jmp_abs_def jump_final final_rules)

lemma equiv_micro_jsr:
  assumes "micro_phase n = 1" "\<not> micro_is_interrupt n" "cpu_model c = CPU_6502"
  shows
  "micro_opcode n = JSR_abs \<Longrightarrow> micro_finishes n c (jsr_a16 (pc_lo_to_stack (pc_hi_to_stack (read_sp (al_read_pc c)))))"
  using assms by (simp_all add: run_rules dispatch_micro_jsr micro_jsr_def jump_final jsr_jmp final_rules)
     (simp add: address_latch)

lemma equiv_micro_jmp_ind:
  assumes "micro_phase n = 1" "\<not> micro_is_interrupt n" "cpu_model c = CPU_6502"
  shows
  "micro_opcode n = JMP_ind \<Longrightarrow> micro_finishes n c (jmp_ind (ar c))"
  using assms by (simp_all add: run_rules dispatch_micro_jmp_ind micro_jmp_ind_def jmp_ind_final ar_def final_rules)

lemma equiv_micro_brk:
  assumes "micro_phase n = 1" "\<not> micro_is_interrupt n" "cpu_model c = CPU_6502" "micro_opcode n = BRK"
  shows "micro_finishes n c (c6510_brk (php (pc_lo_to_stack (pc_hi_to_stack (al_read_pc c)))))"
proof -
  obtain x y where xy: "snd (micro_read_operand c) = (al_read_pc c)\<lparr>address_lo := x, address_hi := y\<rparr>"
    using brk_latch by blast
  have "cpu_model (php (pc_lo_to_stack (pc_hi_to_stack (al_read_pc c)))) = CPU_6502"
    using assms(3) by (simp add: php_def pc_lo_to_stack_def pc_hi_to_stack_def push_def write_stack_def bus_write_def CYCLE_def Let_def)
  then show ?thesis
    using assms by (simp add: run_rules dispatch_micro_brk micro_brk_def)
      (simp add: xy address_latch address_latch_lo brk_final)
qed

section \<open>Branches\<close>

lemma lo8_scast: "lo8 (scast (s :: u8)) = s"
  by (rule bit_word_eqI) (auto simp: lo8_def bit_simps)

lemma same_page: "a AND 0xFF00 = b AND 0xFF00 \<longleftrightarrow> hi8 a = hi8 b"
  using page_join [of a 0] page_join [of b 0] by simp

lemma div_256_small:
  fixes k :: int
  assumes "-256 \<le> k" "k < 512"
  shows "k div 256 = (if k < 0 then -1 else if k < 256 then 0 else 1)"
proof -
  have "k div 256 = (k + 256) div 256 - 1" "k div 256 = (k - 256) div 256 + 1" by simp_all
  then show ?thesis using assms by (auto simp: div_pos_pos_trivial)
qed

lemma bit_8_small: "-256 \<le> k \<Longrightarrow> k < 512 \<Longrightarrow> bit (k :: int) 8 \<longleftrightarrow> k div 256 \<noteq> 0"
  using div_256_small [of k] by (simp add: bit_iff_odd split: if_splits)

lemma uint_hi8: "uint (hi8 w) = uint w div 256"
  using unat_hi8 [of w] by (metis of_nat_div of_nat_numeral uint_nat)

lemma uint_lo8: "uint (lo8 w) = uint w mod 256"
  using unat_lo8 [of w] by (metis of_nat_mod of_nat_numeral uint_nat)

lemma branch_page: "hi8 (w + scast (s :: u8)) = hi8 w \<longleftrightarrow> \<not> bit (uint (lo8 w) + sint s) 8"
proof -
  define h l k where "h = uint w div 256" and "l = uint w mod 256" and "k = l + sint s"
  have s: "-128 \<le> sint s" "sint s < 128" using sint_ge [of s] sint_lt [of s] by simp_all
  have h: "0 \<le> h" "h < 256" using uint_hi8 [of w] uint_u8_bounds [of "hi8 w"] by (simp_all add: h_def)
  have l: "0 \<le> l" "l < 256" by (simp_all add: l_def)
  have w: "uint w = 256 * h + l" by (simp add: h_def l_def)
  have "uint (w + scast s) = (uint w + sint s) mod 65536"
  proof -
    have "uint (scast s :: u16) = sint s mod 65536" unfolding scast_eq uint_word_of_int by simp
    then show ?thesis by (simp add: uint_word_ariths mod_simps)
  qed
  also have "\<dots> = (256 * h + k) mod 65536" by (simp only: w k_def add.assoc)
  finally have "uint (hi8 (w + scast s)) = (256 * h + k) div 256 mod 256"
    using div_exp_mod_exp_eq [of "256 * h + k" 8 8] by (simp add: uint_hi8)
  also have "\<dots> = (h + k div 256) mod 256" by simp
  finally have "hi8 (w + scast s) = hi8 w \<longleftrightarrow> (h + k div 256) mod 256 = h"
    by (simp add: word_uint_eq_iff uint_hi8 h_def)
  also have "\<dots> \<longleftrightarrow> k div 256 = 0"
  proof -
    have "k div 256 \<in> {-1, 0, 1}" using div_256_small [of k] s l by (simp add: k_def)
    moreover have "(h + k div 256) mod 256 = h mod 256 \<longleftrightarrow> 256 dvd k div 256"
      by (simp add: mod_eq_dvd_iff)
    ultimately show ?thesis using h by auto
  qed
  also have "\<dots> \<longleftrightarrow> \<not> bit k 8" using bit_8_small [of k] s l by (simp add: k_def)
  finally show ?thesis by (simp add: uint_lo8 k_def l_def)
qed

lemma branch_condition_scratch:
  "micro_branch_condition (with_micro n (m\<lparr>scratch_lo := v\<rparr>)) = micro_branch_condition (with_micro n m)"
  by (simp add: micro_branch_condition_def micro_norm micro_frame)

lemma micro_branch_phases:
  "micro_phase n = 1 \<Longrightarrow> micro_branch (with_micro n c) =
     (if micro_branch_condition (with_micro n (micro_operand_scratch c))
      then (False, with_micro (n\<lparr>micro_branch_taken := True, micro_phase := 2\<rparr>) (micro_operand_scratch c))
      else (True, with_micro (n\<lparr>micro_branch_taken := False\<rparr>) (micro_operand_scratch c)))"
  "micro_phase n = 2 \<Longrightarrow> micro_branch (with_micro n c) =
     (let t = pc c + scast (scratch_lo c) in
      if hi8 (pc c) = hi8 t then (True, with_micro (n\<lparr>micro_target := t\<rparr>) ((read_pc c)\<lparr>pc := t\<rparr>))
      else (False, with_micro (n\<lparr>micro_target := t, micro_phase := 3\<rparr>) (read_pc c)))"
  "micro_phase n = 3 \<Longrightarrow> micro_branch (with_micro n c) =
     (True, with_micro n ((micro_dummy_read (w16 (hi8 (pc c)) (lo8 (micro_target n))) c)\<lparr>pc := micro_target n\<rparr>))"
  by (simp_all add: micro_branch_def micro_operand_scratch_def micro_norm micro_frame micro_wait_def micro_done_def Let_def
     same_page page_join branch_condition_scratch split: prod.split)

lemma branch_operand_scratch:
  "branch_operand c = set_address_16 (pc (micro_operand_scratch c)) (micro_operand_scratch c)"
  by (simp add: branch_operand_def micro_operand_scratch_def micro_read_operand_def read_operand_def bus_read_def
      CYCLE_def Let_def union_views split: prod.split)

lemma branch_final:
  "arch (branch (set_address_16 (pc d) d)) =
    arch (let t = pc d + scast (scratch_lo d) in
      if hi8 (pc d) = hi8 t then (read_pc d)\<lparr>pc := t\<rparr>
      else (micro_dummy_read (w16 (hi8 (pc d)) (lo8 t)) (read_pc d))\<lparr>pc := t\<rparr>)"
proof -
  obtain v u where r1: "read_fn d (user d) (pc d) = (v, u)" by (rule prod.exhaust)
  obtain v' u' where r2: "read_fn d u (w16 (hi8 (pc d)) (lo8 (pc d) + scratch_lo d)) = (v', u')" by (rule prod.exhaust)
  show ?thesis
    using r1 r2 branch_page [of "pc d" "scratch_lo d"]
    by (simp add: branch_def imm_simps micro_dummy_read_def lo8_add lo8_scast eq_commute [of "hi8 (pc d)"])
qed

lemma read_pc_fields [simp]: "pc (read_pc d) = pc d"
  by (simp add: read_pc_def read_dummy_def bus_read_def CYCLE_def split: prod.split)

lemma arch_set_address: "arch (set_address_16 t m) = arch m"
  by (simp add: arch_def set_address_16_def)

lemma branch_finishes:
  fixes n c :: "'u C6510"
  assumes "micro_phase n = 1" "\<not> micro_is_interrupt n"
    "micro_opcode n \<in> {BPL_rel, BMI_rel, BVC_rel, BVS_rel, BCC_rel, BCS_rel, BNE_rel, BEQ_rel}"
  shows "micro_finishes n c (if micro_branch_condition (with_micro n (micro_operand_scratch c)) then branch (branch_operand c) else branch_operand c)"
proof -
  have disp: "micro_dispatch (with_micro k m) = micro_branch (with_micro k m)"
    if "micro_opcode k = micro_opcode n" for k m :: "'u C6510"
    by (rule dispatch_micro_branch) (use that assms(3) in \<open>simp only: micro_norm\<close>)
  show ?thesis
    using assms(1,2) branch_final [of "micro_operand_scratch c"]
    by (simp add: run_rules disp micro_branch_phases branch_operand_scratch Let_def arch_set_address)
qed

lemma branch_operand_flags:
  "flag_C (branch_operand c) = flag_C c" "flag_Z (branch_operand c) = flag_Z c"
  "flag_V (branch_operand c) = flag_V c" "flag_N (branch_operand c) = flag_N c"
  "flag_C (micro_operand_scratch c) = flag_C c" "flag_Z (micro_operand_scratch c) = flag_Z c"
  "flag_V (micro_operand_scratch c) = flag_V c" "flag_N (micro_operand_scratch c) = flag_N c"
  by (simp_all add: imm_simps branch_operand_def micro_operand_scratch_def split: prod.split)

lemma equiv_micro_branch:
  assumes "micro_phase n = 1" "\<not> micro_is_interrupt n"
  shows
  "micro_opcode n = BPL_rel \<Longrightarrow> micro_finishes n c (bpl c)"
  "micro_opcode n = BMI_rel \<Longrightarrow> micro_finishes n c (bmi c)"
  "micro_opcode n = BVC_rel \<Longrightarrow> micro_finishes n c (bvc c)"
  "micro_opcode n = BVS_rel \<Longrightarrow> micro_finishes n c (bvs c)"
  "micro_opcode n = BCC_rel \<Longrightarrow> micro_finishes n c (bcc c)"
  "micro_opcode n = BCS_rel \<Longrightarrow> micro_finishes n c (bcs c)"
  "micro_opcode n = BNE_rel \<Longrightarrow> micro_finishes n c (bne c)"
  "micro_opcode n = BEQ_rel \<Longrightarrow> micro_finishes n c (beq c)"
  using branch_finishes [OF assms, of c]
  by (simp_all add: bpl_def bmi_def bvc_def bvs_def bcc_def bcs_def bne_def beq_def Let_def
      micro_branch_condition_def micro_norm micro_frame branch_operand_flags split: if_splits)

end
