(* ===== verification/C6510_Equiv_Indexed.thy ===== *)
theory C6510_Equiv_Indexed
  imports C6510_Equiv_Control
begin

text \<open>
  Indexed and indirect operands in both executors: the uncorrected address on a page crossing,
  the extra cycle of stores and read-modify-write, and the zero page pointer.
\<close>

section \<open>Indexed addresses\<close>

lemma operand_fields [simp]:
  "reg_X (micro_operand_lo m) = reg_X m" "reg_Y (micro_operand_lo m) = reg_Y m"
  "reg_X (a_pipe m) = reg_X m" "reg_Y (a_pipe m) = reg_Y m"
  "address_lo (micro_operand_lo m) = address_lo (a_pipe m)"
  by (simp_all add: imm_simps a_pipe_def al_read_pc_def ah_read_pc_def micro_operand_lo_def split: prod.split)

lemma uncorrected_with_micro [micro_norm]:
  "uncorrected_target (with_micro n m) = w16 (address_hi m) (lo8 (micro_target n))"
  by (simp add: uncorrected_target_def page_join micro_norm) (simp add: address_16_def)

lemma hi8_index: "hi8 (w16 h l + ucast (x :: u8)) = (if 255 < unat l + unat x then h + 1 else h)"
  by (simp add: w16_index [symmetric] carry_u8)

lemma indexed_read:
  assumes "cpu_model d = CPU_6502"
  shows "(if address_lo d + x < address_lo d
          then CYCLE ((index_dummy_read (d\<lparr>address_lo := address_lo d + x\<rparr>))\<lparr>address_hi :=
                 address_hi (index_dummy_read (d\<lparr>address_lo := address_lo d + x\<rparr>)) + 1\<rparr>)
          else d\<lparr>address_lo := address_lo d + x\<rparr>) =
    set_address_16 (address_16 d + ucast x)
      (if 255 < unat (address_lo d) + unat x
       then micro_dummy_read (w16 (address_hi d) (address_lo d + x)) d else d)"
proof (cases "255 < unat (address_lo d) + unat x")
  case True
  obtain v u where "read_fn d (user d) (w16 (address_hi d) (address_lo d + x)) = (v, u)"
    by (rule prod.exhaust)
  then show ?thesis
    using assms True
    by (simp add: carry_u8 hi8_index index_dummy_read_def micro_dummy_read_def read_dummy_def bus_read_def
        CYCLE_def union_views)
next
  case False
  then show ?thesis by (simp add: carry_u8 hi8_index union_views)
qed

lemma indexed_write:
  assumes "cpu_model d = CPU_6502"
  shows "(let m = CYCLE (index_dummy_read (d\<lparr>address_lo := address_lo d + x\<rparr>))
          in if address_lo m < address_lo d then m\<lparr>address_hi := address_hi m + 1\<rparr> else m) =
    set_address_16 (address_16 d + ucast x)
      (micro_dummy_read (w16 (address_hi d) (address_lo d + x)) d)"
proof -
  obtain v u where "read_fn d (user d) (w16 (address_hi d) (address_lo d + x)) = (v, u)"
    by (rule prod.exhaust)
  then show ?thesis
    using assms
    by (simp add: carry_u8 hi8_index index_dummy_read_def micro_dummy_read_def read_dummy_def bus_read_def
        CYCLE_def union_views)
qed

section \<open>Absolute indexed\<close>

lemma abs_indexed_stages:
  assumes "cpu_model c = CPU_6502"
  shows "aix c = set_address_16 (address_16 (a_pipe c) + ucast (reg_X c))
      (if 255 < unat (address_lo (a_pipe c)) + unat (reg_X c)
       then micro_dummy_read (w16 (address_hi (a_pipe c)) (address_lo (a_pipe c) + reg_X c)) (a_pipe c)
       else a_pipe c)"
    and "aiy c = set_address_16 (address_16 (a_pipe c) + ucast (reg_Y c))
      (if 255 < unat (address_lo (a_pipe c)) + unat (reg_Y c)
       then micro_dummy_read (w16 (address_hi (a_pipe c)) (address_lo (a_pipe c) + reg_Y c)) (a_pipe c)
       else a_pipe c)"
    and "aipxr c = set_address_16 (address_16 (a_pipe c) + ucast (reg_X c))
       (micro_dummy_read (w16 (address_hi (a_pipe c)) (address_lo (a_pipe c) + reg_X c)) (a_pipe c))"
    and "aiyr c = set_address_16 (address_16 (a_pipe c) + ucast (reg_Y c))
       (micro_dummy_read (w16 (address_hi (a_pipe c)) (address_lo (a_pipe c) + reg_Y c)) (a_pipe c))"
  by (simp_all add: aix_def aiy_def aipxr_def aiyr_def Let_def assms indexed_read
      indexed_write [unfolded Let_def] cong: if_cong split del: if_split)

lemma lo8_address_index [simp]: "lo8 (address_16 m + ucast x) = address_lo m + x"
  by (simp add: address_16_def)

lemma cpu_model_dummy [simp]: "cpu_model (micro_dummy_read a m) = cpu_model m"
  by (simp add: micro_dummy_read_def read_dummy_def bus_read_def CYCLE_def split: prod.split)

lemma rmw_at:
  "sl_read_a16 (set_address_16 t m) = set_address_16 t (micro_rmw_read t m)"
  "sl_write_a16 (set_address_16 t m) = set_address_16 t (micro_rmw_dummy_write t m)"
  by (simp_all add: imm_simps sl_read_a16_def sl_write_a16_def micro_rmw_read_def micro_rmw_dummy_write_def
      split: prod.split)

lemma cpu_model_rmw [simp]:
  "cpu_model (micro_rmw_read t m) = cpu_model m" "cpu_model (set_address_16 t m) = cpu_model m"
  "cpu_model (micro_rmw_dummy_write t m) = cpu_model m"
  by (simp_all add: imm_simps micro_rmw_read_def micro_rmw_dummy_write_def split: prod.split)

lemma equiv_micro_abs_indexed:
  assumes "micro_phase n = 1" "\<not> micro_is_interrupt n" "cpu_model c = CPU_6502"
  shows
  "micro_opcode n = LDA_abs_X \<Longrightarrow> micro_finishes n c (lda_a16 (aix c))"
  "micro_opcode n = LDA_abs_Y \<Longrightarrow> micro_finishes n c (lda_a16 (aiy c))"
  "micro_opcode n = LDX_abs_Y \<Longrightarrow> micro_finishes n c (ldx_a16 (aiy c))"
  "micro_opcode n = LDY_abs_X \<Longrightarrow> micro_finishes n c (ldy_a16 (aix c))"
  "micro_opcode n = STA_abs_X \<Longrightarrow> micro_finishes n c (sta_a16 (aipxr c))"
  "micro_opcode n = STA_abs_Y \<Longrightarrow> micro_finishes n c (sta_a16 (aiyr c))"
  "micro_opcode n = ORA_abs_X \<Longrightarrow> micro_finishes n c (ora_a16 (aix c))"
  "micro_opcode n = ORA_abs_Y \<Longrightarrow> micro_finishes n c (ora_a16 (aiy c))"
  "micro_opcode n = AND_abs_X \<Longrightarrow> micro_finishes n c (and_a16 (aix c))"
  "micro_opcode n = AND_abs_Y \<Longrightarrow> micro_finishes n c (and_a16 (aiy c))"
  "micro_opcode n = EOR_abs_X \<Longrightarrow> micro_finishes n c (eor_a16 (aix c))"
  "micro_opcode n = EOR_abs_Y \<Longrightarrow> micro_finishes n c (eor_a16 (aiy c))"
  "micro_opcode n = ADC_abs_X \<Longrightarrow> micro_finishes n c (adc_a16 (aix c))"
  "micro_opcode n = ADC_abs_Y \<Longrightarrow> micro_finishes n c (adc_a16 (aiy c))"
  "micro_opcode n = SBC_abs_X \<Longrightarrow> micro_finishes n c (sbc_a16 (aix c))"
  "micro_opcode n = SBC_abs_Y \<Longrightarrow> micro_finishes n c (sbc_a16 (aiy c))"
  "micro_opcode n = CMP_abs_X \<Longrightarrow> micro_finishes n c (cmp_a16 (aix c))"
  "micro_opcode n = CMP_abs_Y \<Longrightarrow> micro_finishes n c (cmp_a16 (aiy c))"
  using assms by (simp_all add: run_rules dispatch_micro_abs_indexed micro_abs_indexed_def uncorrected_with_micro c6510_micro_uses_y_index_def abs_indexed_stages final_rules)

lemma equiv_micro_rmw_abs_x:
  assumes "micro_phase n = 1" "\<not> micro_is_interrupt n" "cpu_model c = CPU_6502"
  shows
  "micro_opcode n = ASL_abs_X \<Longrightarrow> micro_finishes n c (asl_a16 (aixr_sel c))"
  "micro_opcode n = ROL_abs_X \<Longrightarrow> micro_finishes n c (rol_a16 (aixr_sel c))"
  "micro_opcode n = LSR_abs_X \<Longrightarrow> micro_finishes n c (lsr_a16 (aixr_sel c))"
  "micro_opcode n = ROR_abs_X \<Longrightarrow> micro_finishes n c (ror_a16 (aixr_sel c))"
  "micro_opcode n = DEC_abs_X \<Longrightarrow> micro_finishes n c (dec_a16 (aipxrw c))"
  "micro_opcode n = INC_abs_X \<Longrightarrow> micro_finishes n c (inc_a16 (aipxrw c))"
  using assms by (simp_all add: run_rules dispatch_micro_rmw_abs_x micro_rmw_abs_x_def uncorrected_with_micro abs_indexed_stages aixr_sel_def aipxrw_def rmw_second_access_def rmw_at final_rules)

definition fetch_pointer :: "u8 \<Rightarrow> 'u C6510 \<Rightarrow> 'u C6510" where
  "fetch_pointer p d =
     (let e = (case micro_data_read (ucast p) d of (v, m) \<Rightarrow> m\<lparr>address_lo := v\<rparr>)
      in case micro_data_read (ucast (p + 1)) e of (v, m) \<Rightarrow> m\<lparr>address_hi := v\<rparr>)"

lemma pointer_stages:
  "ah_read_a16_sl2al (sl_read_a16 (al_read_pc c)) =
     (let d = micro_operand_scratch c; f = fetch_pointer (scratch_lo d) d
      in f\<lparr>scratch_lo := address_lo f\<rparr>)"
  "mixa c =
     (let d = micro_operand_scratch c;
          f = fetch_pointer (scratch_lo d + reg_X c) (micro_dummy_read (ucast (scratch_lo d)) d)
      in f\<lparr>scratch_lo := address_lo f\<rparr>)"
proof -
  have zp: "w16 0 x = ucast x" for x by (simp add: w16_def)
  obtain p u where r1: "read_fn c (user c) (pc c) = (p, u)" by (rule prod.exhaust)
  obtain v1 u1 where r2: "read_fn c u (ucast p) = (v1, u1)" by (rule prod.exhaust)
  obtain v2 u2 where r3: "read_fn c u1 (ucast (p + 1)) = (v2, u2)" by (rule prod.exhaust)
  obtain v3 u3 where r4: "read_fn c u1 (ucast (p + reg_X c)) = (v3, u3)" by (rule prod.exhaust)
  obtain v4 u4 where r5: "read_fn c u3 (ucast (p + reg_X c + 1)) = (v4, u4)" by (rule prod.exhaust)
  show "ah_read_a16_sl2al (sl_read_a16 (al_read_pc c)) =
     (let d = micro_operand_scratch c; f = fetch_pointer (scratch_lo d) d
      in f\<lparr>scratch_lo := address_lo f\<rparr>)"
    using r1 r2 r3
    by (simp add: ah_read_a16_sl2al_def sl_read_a16_def al_read_pc_def micro_operand_scratch_def fetch_pointer_def
       micro_read_operand_def micro_data_read_def read_operand_def read_from_memory_def bus_read_def CYCLE_def union_views Let_def zp)
  show "mixa c =
     (let d = micro_operand_scratch c;
          f = fetch_pointer (scratch_lo d + reg_X c) (micro_dummy_read (ucast (scratch_lo d)) d)
      in f\<lparr>scratch_lo := address_lo f\<rparr>)"
    using r1 r2 r4 r5
    by (simp add: mixa_def mix_def read_a16_ind_x_def ah_read_a16_sl2al_def sl_read_a16_def al_read_pc_def micro_operand_scratch_def fetch_pointer_def
       micro_read_operand_def micro_data_read_def micro_dummy_read_def read_dummy_def read_operand_def read_from_memory_def bus_read_def CYCLE_def union_views Let_def zp)
qed

section \<open>Indirect\<close>

lemma pointer_fold:
  "(case micro_data_read (ucast (p + 1)) (case micro_data_read (ucast p) d of (v, m) \<Rightarrow> m\<lparr>address_lo := v\<rparr>) of
      (v, m) \<Rightarrow> m\<lparr>address_hi := v\<rparr>) = fetch_pointer p d"
  "scratch_lo (case micro_data_read a d of (v, m) \<Rightarrow> m\<lparr>address_lo := v\<rparr>) = scratch_lo d"
  "reg_Y (case micro_data_read a d of (v, m) \<Rightarrow> m\<lparr>address_lo := v\<rparr>) = reg_Y d"
  "address_lo (case micro_data_read (ucast p) d of (v, m) \<Rightarrow> m\<lparr>address_lo := v\<rparr>) = address_lo (fetch_pointer p d)"
  "reg_Y (fetch_pointer p d) = reg_Y d" "cpu_model (fetch_pointer p d) = cpu_model d"
  "reg_X (micro_operand_scratch c) = reg_X c" "reg_Y (micro_operand_scratch c) = reg_Y c"
  "cpu_model (micro_operand_scratch c) = cpu_model c"
  "reg_Y (micro_dummy_read a d) = reg_Y d"
  "scratch_lo (read_dummy d a) = scratch_lo d" "reg_X (read_dummy d a) = reg_X d"
  "CYCLE (read_dummy d a) = micro_dummy_read a d"
  "scratch_lo (micro_dummy_read a d) = scratch_lo d"
  by (simp_all add: imm_simps fetch_pointer_def micro_operand_scratch_def micro_dummy_read_def split: prod.split)

lemma lo8_pointer: "lo8 (ucast (p :: u8) + 1) = p + 1"
  by (simp add: lo8_add lo8_one)

lemma scratch_latch:
  "set_address_16 t (m\<lparr>scratch_lo := x\<rparr>) = (set_address_16 t m)\<lparr>scratch_lo := x\<rparr>"
  "micro_dummy_read a (m\<lparr>scratch_lo := x\<rparr>) = (micro_dummy_read a m)\<lparr>scratch_lo := x\<rparr>"
  "address_16 (m\<lparr>scratch_lo := x\<rparr>) = address_16 m"
  "lda_a16 (m\<lparr>scratch_lo := x\<rparr>) = lda_a16 m" "ora_a16 (m\<lparr>scratch_lo := x\<rparr>) = ora_a16 m"
  "and_a16 (m\<lparr>scratch_lo := x\<rparr>) = and_a16 m" "eor_a16 (m\<lparr>scratch_lo := x\<rparr>) = eor_a16 m"
  "adc_a16 (m\<lparr>scratch_lo := x\<rparr>) = adc_a16 m" "sbc_a16 (m\<lparr>scratch_lo := x\<rparr>) = sbc_a16 m"
  "cmp_a16 (m\<lparr>scratch_lo := x\<rparr>) = cmp_a16 m" "lax_a16 (m\<lparr>scratch_lo := x\<rparr>) = lax_a16 m"
  "sl_read_a16 (m\<lparr>scratch_lo := x\<rparr>) = sl_read_a16 m"
  "arch (sta_a16 (m\<lparr>scratch_lo := x\<rparr>)) = arch (sta_a16 m)"
  "arch (sax_a16 (m\<lparr>scratch_lo := x\<rparr>)) = arch (sax_a16 m)"
  by (simp_all add: micro_dummy_read_def read_dummy_def union_views arch_def
      lda_a16_def ora_a16_def and_a16_def eor_a16_def adc_a16_def sbc_a16_def cmp_a16_def lax_a16_def
      sl_read_a16_def sta_a16_def sax_a16_def read_from_memory_def write_to_memory_def bus_read_def
      bus_write_def CYCLE_def Let_def del: adc_scratch sbc_scratch split: prod.split)

lemma ind_y_stages:
  fixes c :: "'u C6510"
  assumes "cpu_model c = CPU_6502"
  defines "d \<equiv> micro_operand_scratch c"
  defines "f \<equiv> fetch_pointer (scratch_lo d) d"
  shows "miy c = (set_address_16 (address_16 f + ucast (reg_Y c))
      (if 255 < unat (address_lo f) + unat (reg_Y c)
       then micro_dummy_read (w16 (address_hi f) (address_lo f + reg_Y c)) f else f))\<lparr>scratch_lo := address_lo f\<rparr>"
    and "miyr c = (set_address_16 (address_16 f + ucast (reg_Y c))
       (micro_dummy_read (w16 (address_hi f) (address_lo f + reg_Y c)) f))\<lparr>scratch_lo := address_lo f\<rparr>"
proof -
  define g where "g = f\<lparr>scratch_lo := address_lo f\<rparr>"
  have g: "cpu_model g = CPU_6502" "reg_Y g = reg_Y c" "address_lo g = address_lo f" "address_hi g = address_hi f"
    "address_16 g = address_16 f"
    by (simp_all add: g_def f_def d_def assms(1) pointer_fold scratch_latch)
  have p: "ah_read_a16_sl2al (sl_read_a16 (al_read_pc c)) = g"
    by (simp add: pointer_stages g_def f_def d_def Let_def)
  show "miy c = (set_address_16 (address_16 f + ucast (reg_Y c))
      (if 255 < unat (address_lo f) + unat (reg_Y c)
       then micro_dummy_read (w16 (address_hi f) (address_lo f + reg_Y c)) f else f))\<lparr>scratch_lo := address_lo f\<rparr>"
    using indexed_read [OF g(1), of "reg_Y c"]
    by (simp add: miy_def p Let_def g cong: if_cong split del: if_split) (simp add: g_def scratch_latch)
  show "miyr c = (set_address_16 (address_16 f + ucast (reg_Y c))
       (micro_dummy_read (w16 (address_hi f) (address_lo f + reg_Y c)) f))\<lparr>scratch_lo := address_lo f\<rparr>"
    using indexed_write [OF g(1), of "reg_Y c"]
    by (simp add: miyr_def p Let_def g cong: if_cong split del: if_split) (simp add: g_def scratch_latch)
qed

lemma pointer_latch:
  "(case micro_data_read a d of (v, m) \<Rightarrow>
      with_micro (n\<lparr>micro_branch_taken := 255 < unat v + unat (reg_Y m), micro_phase := p\<rparr>)
        (m\<lparr>address_lo := v\<rparr>)) =
   (let e = (case micro_data_read a d of (v, m) \<Rightarrow> m\<lparr>address_lo := v\<rparr>) in
    with_micro (n\<lparr>micro_branch_taken := 255 < unat (address_lo e) + unat (reg_Y d), micro_phase := p\<rparr>) e)"
  "(case micro_data_read a d of (v, m) \<Rightarrow>
      with_micro (n\<lparr>micro_target := address_16 (m\<lparr>address_hi := v\<rparr>) + ucast (reg_Y m), micro_phase := p\<rparr>)
        (m\<lparr>address_hi := v\<rparr>)) =
   (let f = (case micro_data_read a d of (v, m) \<Rightarrow> m\<lparr>address_hi := v\<rparr>) in
    with_micro (n\<lparr>micro_target := address_16 f + ucast (reg_Y d), micro_phase := p\<rparr>) f)"
  "(case micro_data_read a d of (v, m) \<Rightarrow>
      with_micro (n\<lparr>micro_target := address_16 (m\<lparr>address_hi := v\<rparr>) + ucast (reg_Y m),
         micro_branch_taken := 255 < unat (address_lo m) + unat (reg_Y m), micro_phase := p\<rparr>)
        (m\<lparr>address_hi := v\<rparr>)) =
   (let f = (case micro_data_read a d of (v, m) \<Rightarrow> m\<lparr>address_hi := v\<rparr>) in
    with_micro (n\<lparr>micro_target := address_16 f + ucast (reg_Y d),
         micro_branch_taken := 255 < unat (address_lo f) + unat (reg_Y d), micro_phase := p\<rparr>) f)"
  by (simp_all add: imm_simps split: prod.split)

lemma equiv_micro_x_ind:
  assumes "micro_phase n = 1" "\<not> micro_is_interrupt n" "cpu_model c = CPU_6502"
  shows
  "micro_opcode n = LDA_X_ind \<Longrightarrow> micro_finishes n c (lda_a16 (mixa c))"
  "micro_opcode n = STA_X_ind \<Longrightarrow> micro_finishes n c (sta_a16 (mixa c))"
  "micro_opcode n = ORA_X_ind \<Longrightarrow> micro_finishes n c (ora_a16 (mixa c))"
  "micro_opcode n = AND_X_ind \<Longrightarrow> micro_finishes n c (and_a16 (mixa c))"
  "micro_opcode n = EOR_X_ind \<Longrightarrow> micro_finishes n c (eor_a16 (mixa c))"
  "micro_opcode n = ADC_X_ind \<Longrightarrow> micro_finishes n c (adc_a16 (mixa c))"
  "micro_opcode n = SBC_X_ind \<Longrightarrow> micro_finishes n c (sbc_a16 (mixa c))"
  "micro_opcode n = CMP_X_ind \<Longrightarrow> micro_finishes n c (cmp_a16 (mixa c))"
  using assms by (simp_all add: run_rules dispatch_micro_x_ind micro_x_ind_def pointer_fold lo8_pointer pointer_stages(2) scratch_latch final_rules)

lemma equiv_micro_ind_y:
  assumes "micro_phase n = 1" "\<not> micro_is_interrupt n" "cpu_model c = CPU_6502"
  shows
  "micro_opcode n = LDA_ind_Y \<Longrightarrow> micro_finishes n c (lda_a16 (miy c))"
  "micro_opcode n = STA_ind_Y \<Longrightarrow> micro_finishes n c (sta_a16 (miyr c))"
  "micro_opcode n = ORA_ind_Y \<Longrightarrow> micro_finishes n c (ora_a16 (miy c))"
  "micro_opcode n = AND_ind_Y \<Longrightarrow> micro_finishes n c (and_a16 (miy c))"
  "micro_opcode n = EOR_ind_Y \<Longrightarrow> micro_finishes n c (eor_a16 (miy c))"
  "micro_opcode n = ADC_ind_Y \<Longrightarrow> micro_finishes n c (adc_a16 (miy c))"
  "micro_opcode n = SBC_ind_Y \<Longrightarrow> micro_finishes n c (sbc_a16 (miy c))"
  "micro_opcode n = CMP_ind_Y \<Longrightarrow> micro_finishes n c (cmp_a16 (miy c))"
  using assms by (simp_all add: run_rules dispatch_micro_ind_y micro_ind_y_def uncorrected_with_micro pointer_latch pointer_fold ind_y_stages scratch_latch final_rules)

end
