(* ===== verification/C6510_Equiv_Undoc.thy ===== *)
theory C6510_Equiv_Undoc
  imports C6510_Equiv_Indexed
begin

text \<open>
  The undocumented combined instructions (\<^verbatim>\<open>SLO\<close>, \<^verbatim>\<open>RLA\<close>, \<^verbatim>\<open>SRE\<close>, \<^verbatim>\<open>RRA\<close>, \<^verbatim>\<open>DCP\<close>, \<^verbatim>\<open>ISC\<close>,
  \<^verbatim>\<open>LAX\<close>, \<^verbatim>\<open>SAX\<close>) in both executors, for each of their addressing modes.
\<close>

lemma undocumented_modes:
  "op \<in> {UND_03, UND_23, UND_43, UND_63, UND_C3, UND_E3, UND_A3, UND_83} \<Longrightarrow>
     c6510_micro_undocumented_mode op = UND_MODE_X_IND"
  "op \<in> {UND_07, UND_27, UND_47, UND_67, UND_C7, UND_E7, UND_A7, UND_87} \<Longrightarrow>
     c6510_micro_undocumented_mode op = UND_MODE_ZP"
  "op \<in> {UND_0F, UND_2F, UND_4F, UND_6F, UND_CF, UND_EF, UND_AF, UND_8F} \<Longrightarrow>
     c6510_micro_undocumented_mode op = UND_MODE_ABS"
  "op \<in> {UND_13, UND_33, UND_53, UND_73, UND_D3, UND_F3, UND_B3} \<Longrightarrow>
     c6510_micro_undocumented_mode op = UND_MODE_IND_Y"
  "op \<in> {UND_17, UND_37, UND_57, UND_77, UND_D7, UND_F7, UND_B7, UND_97} \<Longrightarrow>
     c6510_micro_undocumented_mode op = UND_MODE_ZP_INDEXED"
  "op \<in> {UND_1B, UND_3B, UND_5B, UND_7B, UND_DB, UND_FB, UND_BF} \<Longrightarrow>
     c6510_micro_undocumented_mode op = UND_MODE_ABS_Y"
  "op \<in> {UND_1F, UND_3F, UND_5F, UND_7F, UND_DF, UND_FF} \<Longrightarrow>
     c6510_micro_undocumented_mode op = UND_MODE_ABS_X"
  by (elim insertE emptyE; simp add: c6510_micro_undocumented_mode_def)+

lemma undocumented_class:
  "c6510_micro_is_practical_undocumented op \<Longrightarrow> c6510_micro_op_class op = OP_UND_PRACTICAL"
  "c6510_micro_is_undocumented_nop op \<Longrightarrow> c6510_micro_op_class op = OP_UND_NOP"
  unfolding c6510_micro_is_practical_undocumented_def c6510_micro_is_undocumented_nop_def
  by (elim insertE emptyE; simp only: c6510_micro_op_class_def micro_documented_opcodes_def
        c6510_micro_is_practical_undocumented_def c6510_micro_is_undocumented_nop_def u8_decide)+

lemma dispatch_undocumented:
  "micro_opcode m \<in> {UND_03, UND_23, UND_43, UND_63, UND_C3, UND_E3, UND_A3, UND_83} \<Longrightarrow>
     micro_dispatch m = (if micro_phase m = 1 then micro_wait (micro_operand_scratch m) else und_step_x_ind m)"
  "micro_opcode m \<in> {UND_07, UND_27, UND_47, UND_67, UND_C7, UND_E7, UND_A7, UND_87} \<Longrightarrow>
     micro_dispatch m = (if micro_phase m = 1 then micro_wait (micro_operand_scratch m) else und_step_zp m)"
  "micro_opcode m \<in> {UND_0F, UND_2F, UND_4F, UND_6F, UND_CF, UND_EF, UND_AF, UND_8F} \<Longrightarrow>
     micro_dispatch m = (if micro_phase m = 1 then micro_wait (micro_operand_scratch m) else und_step_abs m)"
  "micro_opcode m \<in> {UND_13, UND_33, UND_53, UND_73, UND_D3, UND_F3, UND_B3} \<Longrightarrow>
     micro_dispatch m = (if micro_phase m = 1 then micro_wait (micro_operand_scratch m) else und_step_ind_y m)"
  "micro_opcode m \<in> {UND_17, UND_37, UND_57, UND_77, UND_D7, UND_F7, UND_B7, UND_97} \<Longrightarrow>
     micro_dispatch m = (if micro_phase m = 1 then micro_wait (micro_operand_scratch m) else und_step_zp_indexed m)"
  "micro_opcode m \<in> {UND_1B, UND_3B, UND_5B, UND_7B, UND_DB, UND_FB, UND_BF} \<Longrightarrow>
     micro_dispatch m = (if micro_phase m = 1 then micro_wait (micro_operand_scratch m) else und_step_abs_indexed UND_MODE_ABS_Y m)"
  "micro_opcode m \<in> {UND_1F, UND_3F, UND_5F, UND_7F, UND_DF, UND_FF} \<Longrightarrow>
     micro_dispatch m = (if micro_phase m = 1 then micro_wait (micro_operand_scratch m) else und_step_abs_indexed UND_MODE_ABS_X m)"
  by (simp_all only: micro_dispatch_def undocumented_class(1) c6510_op_class.case
        c6510_micro_step_practical_undocumented_def undocumented_modes c6510_undocumented_mode.case
        c6510_micro_is_practical_undocumented_def)
    (elim insertE emptyE; simp only: undocumented_class(1) c6510_op_class.case
        c6510_micro_is_practical_undocumented_def u8_decide)+

lemma scratch_operand:
  "(micro_operand_scratch c)\<lparr>address_lo := scratch_lo (micro_operand_scratch c), address_hi := 0\<rparr> =
   (al_read_pc c)\<lparr>scratch_lo := scratch_lo (micro_operand_scratch c)\<rparr>"
  "ah_read_pc ((micro_operand_scratch c)\<lparr>address_lo := scratch_lo (micro_operand_scratch c)\<rparr>) =
   (a_pipe c)\<lparr>scratch_lo := scratch_lo (micro_operand_scratch c)\<rparr>"
  by (simp_all add: imm_simps a_pipe_def al_read_pc_def ah_read_pc_def micro_operand_scratch_def split: prod.split)

lemma scratch_indexed:
  fixes c :: "'u C6510"
  defines "d \<equiv> micro_operand_scratch c"
  shows "CYCLE ((read_dummy d (ucast (scratch_lo d)))\<lparr>address_lo := scratch_lo d + reg_X c, address_hi := 0\<rparr>) =
      (mix c)\<lparr>scratch_lo := scratch_lo d\<rparr>"
    and "CYCLE ((read_dummy d (ucast (scratch_lo d)))\<lparr>address_lo := scratch_lo d + reg_Y c, address_hi := 0\<rparr>) =
      (mizy c)\<lparr>scratch_lo := scratch_lo d\<rparr>"
    and "reg_Y (read_dummy d a) = reg_Y c"
proof -
  have zp: "w16 0 x = ucast x" for x by (simp add: w16_def)
  obtain p u where r1: "read_fn c (user c) (pc c) = (p, u)" by (rule prod.exhaust)
  obtain v1 u1 where r2: "read_fn c u (ucast p) = (v1, u1)" by (rule prod.exhaust)
  show "CYCLE ((read_dummy d (ucast (scratch_lo d)))\<lparr>address_lo := scratch_lo d + reg_X c, address_hi := 0\<rparr>) =
      (mix c)\<lparr>scratch_lo := scratch_lo d\<rparr>"
    "CYCLE ((read_dummy d (ucast (scratch_lo d)))\<lparr>address_lo := scratch_lo d + reg_Y c, address_hi := 0\<rparr>) =
      (mizy c)\<lparr>scratch_lo := scratch_lo d\<rparr>"
    using r1 r2
    by (simp_all add: d_def mix_def mizy_def read_a16_ind_x_def read_a16_ind_y_def al_read_pc_def micro_operand_scratch_def
       micro_read_operand_def read_dummy_def read_operand_def bus_read_def CYCLE_def union_views Let_def zp)
  show "reg_Y (read_dummy d a) = reg_Y c"
    by (simp add: d_def imm_simps micro_operand_scratch_def split: prod.split)
qed

lemma lax_final:
  "arch (case bus_read BUS_ACCESS_DATA_READ m t of (v, x) \<Rightarrow> CYCLE (c6510_micro_set_lax v x)) =
   arch (lax_a16 (set_address_16 t m))"
  by (simp add: imm_simps c6510_micro_set_lax_def lax_a16_def split: prod.split)

lemma lax_with_micro:
  "c6510_micro_set_lax v (with_micro n m) = with_micro n (c6510_micro_set_lax v m)"
  by (simp add: c6510_micro_set_lax_def micro_frame)

lemma rmw_scratch_latch:
  "micro_rmw_read t (m\<lparr>scratch_lo := x\<rparr>) = micro_rmw_read t m"
  by (simp add: imm_simps micro_rmw_read_def split: prod.split)

lemma reg_fields [simp]:
  "reg_X (micro_dummy_read a m) = reg_X m"
  by (simp add: imm_simps micro_dummy_read_def split: prod.split)

lemma sax_final:
  "arch (micro_data_write (address_16 m) (reg_A m AND reg_X m) (m\<lparr>scratch_lo := x\<rparr>)) = arch (sax_a16 m)"
  "arch (micro_data_write (address_16 (a_pipe c)) (reg_A (a_pipe c) AND reg_X c) ((a_pipe c)\<lparr>scratch_lo := x\<rparr>)) =
   arch (sax_a16 (a_pipe c))"
  by (simp_all add: imm_simps micro_data_write_def sax_a16_def a_pipe_def al_read_pc_def ah_read_pc_def split: prod.split)

lemmas undocumented_rules = sax_final c6510_micro_is_undocumented_rmw_def c6510_micro_is_lax_def und_lax_or_sax_def
  c6510_micro_undoc_uses_y_index_def rmw_undocumented_final lax_final lax_with_micro scratch_operand scratch_indexed
  scratch_latch rmw_scratch_latch und_step_indexed_fixup_def und_step_indexed_tail_def
  mrw_def arw_def mixrw_def aipxrw_def rmw_second_access_def uncorrected_with_micro
  pointer_latch pointer_fold lo8_pointer rmw_at

lemma equiv_undocumented_X_IND:
  assumes "micro_phase n = 1" "\<not> micro_is_interrupt n" "cpu_model c = CPU_6502"
  shows
  "micro_opcode n = UND_03 \<Longrightarrow> micro_finishes n c (slo_a16 (sl_write_a16 (sl_read_a16 (mixa c))))"
  "micro_opcode n = UND_23 \<Longrightarrow> micro_finishes n c (rla_a16 (sl_write_a16 (sl_read_a16 (mixa c))))"
  "micro_opcode n = UND_43 \<Longrightarrow> micro_finishes n c (sre_a16 (sl_write_a16 (sl_read_a16 (mixa c))))"
  "micro_opcode n = UND_63 \<Longrightarrow> micro_finishes n c (rra_a16 (sl_write_a16 (sl_read_a16 (mixa c))))"
  "micro_opcode n = UND_C3 \<Longrightarrow> micro_finishes n c (dcp_a16 (sl_write_a16 (sl_read_a16 (mixa c))))"
  "micro_opcode n = UND_E3 \<Longrightarrow> micro_finishes n c (isc_a16 (sl_write_a16 (sl_read_a16 (mixa c))))"
  "micro_opcode n = UND_A3 \<Longrightarrow> micro_finishes n c (lax_a16 (mixa c))"
  "micro_opcode n = UND_83 \<Longrightarrow> micro_finishes n c (sax_a16 (mixa c))"
  using assms by (simp_all add: run_rules dispatch_undocumented und_step_x_ind_def pointer_stages(2) undocumented_rules final_rules)

lemma equiv_undocumented_ZP:
  assumes "micro_phase n = 1" "\<not> micro_is_interrupt n" "cpu_model c = CPU_6502"
  shows
  "micro_opcode n = UND_07 \<Longrightarrow> micro_finishes n c (slo_a16 (mrw c))"
  "micro_opcode n = UND_27 \<Longrightarrow> micro_finishes n c (rla_a16 (mrw c))"
  "micro_opcode n = UND_47 \<Longrightarrow> micro_finishes n c (sre_a16 (mrw c))"
  "micro_opcode n = UND_67 \<Longrightarrow> micro_finishes n c (rra_a16 (mrw c))"
  "micro_opcode n = UND_C7 \<Longrightarrow> micro_finishes n c (dcp_a16 (mrw c))"
  "micro_opcode n = UND_E7 \<Longrightarrow> micro_finishes n c (isc_a16 (mrw c))"
  "micro_opcode n = UND_A7 \<Longrightarrow> micro_finishes n c (lax_a16 (al_read_pc c))"
  "micro_opcode n = UND_87 \<Longrightarrow> micro_finishes n c (sax_a16 (al_read_pc c))"
  using assms by (simp_all add: run_rules dispatch_undocumented und_step_zp_def undocumented_rules final_rules)

lemma equiv_undocumented_ABS:
  assumes "micro_phase n = 1" "\<not> micro_is_interrupt n" "cpu_model c = CPU_6502"
  shows
  "micro_opcode n = UND_0F \<Longrightarrow> micro_finishes n c (slo_a16 (arw c))"
  "micro_opcode n = UND_2F \<Longrightarrow> micro_finishes n c (rla_a16 (arw c))"
  "micro_opcode n = UND_4F \<Longrightarrow> micro_finishes n c (sre_a16 (arw c))"
  "micro_opcode n = UND_6F \<Longrightarrow> micro_finishes n c (rra_a16 (arw c))"
  "micro_opcode n = UND_CF \<Longrightarrow> micro_finishes n c (dcp_a16 (arw c))"
  "micro_opcode n = UND_EF \<Longrightarrow> micro_finishes n c (isc_a16 (arw c))"
  "micro_opcode n = UND_AF \<Longrightarrow> micro_finishes n c (lax_a16 (a_pipe c))"
  "micro_opcode n = UND_8F \<Longrightarrow> micro_finishes n c (sax_a16 (a_pipe c))"
  using assms by (simp_all add: run_rules dispatch_undocumented und_step_abs_def undocumented_rules final_rules)

lemma equiv_undocumented_IND_Y:
  assumes "micro_phase n = 1" "\<not> micro_is_interrupt n" "cpu_model c = CPU_6502"
  shows
  "micro_opcode n = UND_13 \<Longrightarrow> micro_finishes n c (slo_a16 (sl_write_a16 (sl_read_a16 (miyr c))))"
  "micro_opcode n = UND_33 \<Longrightarrow> micro_finishes n c (rla_a16 (sl_write_a16 (sl_read_a16 (miyr c))))"
  "micro_opcode n = UND_53 \<Longrightarrow> micro_finishes n c (sre_a16 (sl_write_a16 (sl_read_a16 (miyr c))))"
  "micro_opcode n = UND_73 \<Longrightarrow> micro_finishes n c (rra_a16 (sl_write_a16 (sl_read_a16 (miyr c))))"
  "micro_opcode n = UND_D3 \<Longrightarrow> micro_finishes n c (dcp_a16 (sl_write_a16 (sl_read_a16 (miyr c))))"
  "micro_opcode n = UND_F3 \<Longrightarrow> micro_finishes n c (isc_a16 (sl_write_a16 (sl_read_a16 (miyr c))))"
  "micro_opcode n = UND_B3 \<Longrightarrow> micro_finishes n c (lax_a16 (miy c))"
  using assms by (simp_all add: run_rules dispatch_undocumented und_step_ind_y_def ind_y_stages undocumented_rules final_rules)

lemma equiv_undocumented_ZP_INDEXED:
  assumes "micro_phase n = 1" "\<not> micro_is_interrupt n" "cpu_model c = CPU_6502"
  shows
  "micro_opcode n = UND_17 \<Longrightarrow> micro_finishes n c (slo_a16 (mixrw c))"
  "micro_opcode n = UND_37 \<Longrightarrow> micro_finishes n c (rla_a16 (mixrw c))"
  "micro_opcode n = UND_57 \<Longrightarrow> micro_finishes n c (sre_a16 (mixrw c))"
  "micro_opcode n = UND_77 \<Longrightarrow> micro_finishes n c (rra_a16 (mixrw c))"
  "micro_opcode n = UND_D7 \<Longrightarrow> micro_finishes n c (dcp_a16 (mixrw c))"
  "micro_opcode n = UND_F7 \<Longrightarrow> micro_finishes n c (isc_a16 (mixrw c))"
  "micro_opcode n = UND_B7 \<Longrightarrow> micro_finishes n c (lax_a16 (mizy c))"
  "micro_opcode n = UND_97 \<Longrightarrow> micro_finishes n c (sax_a16 (mizy c))"
  using assms by (simp_all add: run_rules dispatch_undocumented und_step_zp_indexed_def undocumented_rules final_rules)

lemma equiv_undocumented_ABS_Y:
  assumes "micro_phase n = 1" "\<not> micro_is_interrupt n" "cpu_model c = CPU_6502"
  shows
  "micro_opcode n = UND_1B \<Longrightarrow> micro_finishes n c (slo_a16 (sl_write_a16 (sl_read_a16 (aiyr c))))"
  "micro_opcode n = UND_3B \<Longrightarrow> micro_finishes n c (rla_a16 (sl_write_a16 (sl_read_a16 (aiyr c))))"
  "micro_opcode n = UND_5B \<Longrightarrow> micro_finishes n c (sre_a16 (sl_write_a16 (sl_read_a16 (aiyr c))))"
  "micro_opcode n = UND_7B \<Longrightarrow> micro_finishes n c (rra_a16 (sl_write_a16 (sl_read_a16 (aiyr c))))"
  "micro_opcode n = UND_DB \<Longrightarrow> micro_finishes n c (dcp_a16 (sl_write_a16 (sl_read_a16 (aiyr c))))"
  "micro_opcode n = UND_FB \<Longrightarrow> micro_finishes n c (isc_a16 (sl_write_a16 (sl_read_a16 (aiyr c))))"
  "micro_opcode n = UND_BF \<Longrightarrow> micro_finishes n c (lax_a16 (aiy c))"
  using assms by (simp_all add: run_rules dispatch_undocumented und_step_abs_indexed_def abs_indexed_stages undocumented_rules final_rules)

lemma equiv_undocumented_ABS_X:
  assumes "micro_phase n = 1" "\<not> micro_is_interrupt n" "cpu_model c = CPU_6502"
  shows
  "micro_opcode n = UND_1F \<Longrightarrow> micro_finishes n c (slo_a16 (aipxrw c))"
  "micro_opcode n = UND_3F \<Longrightarrow> micro_finishes n c (rla_a16 (aipxrw c))"
  "micro_opcode n = UND_5F \<Longrightarrow> micro_finishes n c (sre_a16 (aipxrw c))"
  "micro_opcode n = UND_7F \<Longrightarrow> micro_finishes n c (rra_a16 (aipxrw c))"
  "micro_opcode n = UND_DF \<Longrightarrow> micro_finishes n c (dcp_a16 (aipxrw c))"
  "micro_opcode n = UND_FF \<Longrightarrow> micro_finishes n c (isc_a16 (aipxrw c))"
  using assms by (simp_all add: run_rules dispatch_undocumented und_step_abs_indexed_def abs_indexed_stages undocumented_rules final_rules)

end
