(* ===== verification/C6510_Clock.thy ===== *)
theory C6510_Clock
  imports C6510_Dispatch
begin

text \<open>
  The clock of the resumable executor: every call of \<^verbatim>\<open>c6510_micro_step\<close> spends exactly one cycle
  on the NMOS processor, keeps the opcode under execution and advances its phase by one.
\<close>

section \<open>Primitives\<close>

named_theorems micro_clock "cycle count and processor model after each step of the resumable path"

lemma bus_clock [micro_clock]:
  "cycles (snd (bus_read k m a)) = cycles m" "cpu_model (snd (bus_read k m a)) = cpu_model m" "micro_opcode (snd (bus_read k m a)) = micro_opcode m" "micro_is_interrupt (snd (bus_read k m a)) = micro_is_interrupt m" "micro_phase (snd (bus_read k m a)) = micro_phase m"
  "cycles (bus_write k m a v) = cycles m" "cpu_model (bus_write k m a v) = cpu_model m" "micro_opcode (bus_write k m a v) = micro_opcode m" "micro_is_interrupt (bus_write k m a v) = micro_is_interrupt m" "micro_phase (bus_write k m a v) = micro_phase m"
  "cycles (CYCLE m) = cycles m + 1" "cpu_model (CYCLE m) = cpu_model m" "micro_opcode (CYCLE m) = micro_opcode m" "micro_is_interrupt (CYCLE m) = micro_is_interrupt m" "micro_phase (CYCLE m) = micro_phase m"
  by (simp_all add: bus_read_def bus_write_def CYCLE_def split: prod.split)

lemma register_clock [micro_clock]:
  "cycles (set_register_to_value r v m) = cycles m" "cpu_model (set_register_to_value r v m) = cpu_model m" "micro_opcode (set_register_to_value r v m) = micro_opcode m" "micro_is_interrupt (set_register_to_value r v m) = micro_is_interrupt m" "micro_phase (set_register_to_value r v m) = micro_phase m"
  "cycles (set_flags f m) = cycles m" "cpu_model (set_flags f m) = cpu_model m" "micro_opcode (set_flags f m) = micro_opcode m" "micro_is_interrupt (set_flags f m) = micro_is_interrupt m" "micro_phase (set_flags f m) = micro_phase m"
  "cycles (compare_bytes x y m) = cycles m" "cpu_model (compare_bytes x y m) = cpu_model m" "micro_opcode (compare_bytes x y m) = micro_opcode m" "micro_is_interrupt (compare_bytes x y m) = micro_is_interrupt m" "micro_phase (compare_bytes x y m) = micro_phase m"
  "cpu_model m = CPU_6502 \<Longrightarrow> cycles (add_value_to_accumulator v m) = cycles m"
  "cpu_model m = CPU_6502 \<Longrightarrow> cpu_model (add_value_to_accumulator v m) = CPU_6502" "cpu_model m = CPU_6502 \<Longrightarrow> micro_opcode (add_value_to_accumulator v m) = micro_opcode m" "cpu_model m = CPU_6502 \<Longrightarrow> micro_is_interrupt (add_value_to_accumulator v m) = micro_is_interrupt m" "cpu_model m = CPU_6502 \<Longrightarrow> micro_phase (add_value_to_accumulator v m) = micro_phase m"
  "cpu_model m = CPU_6502 \<Longrightarrow> cycles (subtract_value_from_accumulator v m) = cycles m"
  "cpu_model m = CPU_6502 \<Longrightarrow> cpu_model (subtract_value_from_accumulator v m) = CPU_6502" "cpu_model m = CPU_6502 \<Longrightarrow> micro_opcode (subtract_value_from_accumulator v m) = micro_opcode m" "cpu_model m = CPU_6502 \<Longrightarrow> micro_is_interrupt (subtract_value_from_accumulator v m) = micro_is_interrupt m" "cpu_model m = CPU_6502 \<Longrightarrow> micro_phase (subtract_value_from_accumulator v m) = micro_phase m"
  by (cases r; simp add: set_register_to_value_def set_flags_def compare_bytes_def adc_closed sbc_closed)+

lemma stack_clock [micro_clock]:
  "cycles (push v m) = cycles m" "cpu_model (push v m) = cpu_model m" "micro_opcode (push v m) = micro_opcode m" "micro_is_interrupt (push v m) = micro_is_interrupt m" "micro_phase (push v m) = micro_phase m"
  "cycles (snd (pull m)) = cycles m" "cpu_model (snd (pull m)) = cpu_model m" "micro_opcode (snd (pull m)) = micro_opcode m" "micro_is_interrupt (snd (pull m)) = micro_is_interrupt m" "micro_phase (snd (pull m)) = micro_phase m"
  by (simp_all add: push_def pull_def write_stack_def read_stack_def Let_def micro_clock)

lemma stage_clock [micro_clock]:
  "cycles (snd (micro_read_operand m)) = cycles m + 1"
  "cycles (snd (micro_data_read a m)) = cycles m + 1"
  "cycles (snd (micro_pull m)) = cycles m + 1"
  "cycles (micro_data_write a v m) = cycles m + 1"
  "cycles (micro_dummy_read a m) = cycles m + 1"
  "cycles (micro_rmw_dummy_write a m) = cycles m + 1"
  "cycles (micro_push v m) = cycles m + 1"
  "cpu_model (snd (micro_read_operand m)) = cpu_model m" "micro_opcode (snd (micro_read_operand m)) = micro_opcode m" "micro_is_interrupt (snd (micro_read_operand m)) = micro_is_interrupt m" "micro_phase (snd (micro_read_operand m)) = micro_phase m"
  "cpu_model (snd (micro_data_read a m)) = cpu_model m" "micro_opcode (snd (micro_data_read a m)) = micro_opcode m" "micro_is_interrupt (snd (micro_data_read a m)) = micro_is_interrupt m" "micro_phase (snd (micro_data_read a m)) = micro_phase m"
  "cpu_model (snd (micro_pull m)) = cpu_model m" "micro_opcode (snd (micro_pull m)) = micro_opcode m" "micro_is_interrupt (snd (micro_pull m)) = micro_is_interrupt m" "micro_phase (snd (micro_pull m)) = micro_phase m"
  "cpu_model (micro_data_write a v m) = cpu_model m" "micro_opcode (micro_data_write a v m) = micro_opcode m" "micro_is_interrupt (micro_data_write a v m) = micro_is_interrupt m" "micro_phase (micro_data_write a v m) = micro_phase m"
  "cpu_model (micro_push v m) = cpu_model m" "micro_opcode (micro_push v m) = micro_opcode m" "micro_is_interrupt (micro_push v m) = micro_is_interrupt m" "micro_phase (micro_push v m) = micro_phase m"
  by (simp_all add: micro_read_operand_def micro_data_read_def micro_pull_def micro_data_write_def micro_dummy_read_def
      micro_rmw_dummy_write_def micro_push_def bus_defs Let_def split_beta micro_clock)

lemma operand_clock [micro_clock]:
  "cycles (micro_operand_lo m) = cycles m + 1" "cycles (micro_operand_hi m) = cycles m + 1"
  "cycles (micro_operand_zp m) = cycles m + 1" "cycles (micro_operand_scratch m) = cycles m + 1"
  "cycles (micro_rmw_read a m) = cycles m + 1"
  "cpu_model (micro_operand_lo m) = cpu_model m" "micro_opcode (micro_operand_lo m) = micro_opcode m" "micro_is_interrupt (micro_operand_lo m) = micro_is_interrupt m" "micro_phase (micro_operand_lo m) = micro_phase m" "cpu_model (micro_operand_hi m) = cpu_model m" "micro_opcode (micro_operand_hi m) = micro_opcode m" "micro_is_interrupt (micro_operand_hi m) = micro_is_interrupt m" "micro_phase (micro_operand_hi m) = micro_phase m"
  "cpu_model (micro_operand_zp m) = cpu_model m" "micro_opcode (micro_operand_zp m) = micro_opcode m" "micro_is_interrupt (micro_operand_zp m) = micro_is_interrupt m" "micro_phase (micro_operand_zp m) = micro_phase m" "cpu_model (micro_operand_scratch m) = cpu_model m" "micro_opcode (micro_operand_scratch m) = micro_opcode m" "micro_is_interrupt (micro_operand_scratch m) = micro_is_interrupt m" "micro_phase (micro_operand_scratch m) = micro_phase m"
  by (simp_all add: micro_operand_lo_def micro_operand_hi_def micro_operand_zp_def micro_operand_scratch_def
      micro_rmw_read_def Let_def split_beta micro_clock)

lemma dummy_clock [micro_clock]:
  "cpu_model (micro_dummy_read a m) = cpu_model m"
  "micro_opcode (micro_dummy_read a m) = micro_opcode m" "micro_is_interrupt (micro_dummy_read a m) = micro_is_interrupt m" "micro_phase (micro_dummy_read a m) = micro_phase m"
  "cpu_model (micro_rmw_dummy_write a m) = cpu_model m"
  "micro_opcode (micro_rmw_dummy_write a m) = micro_opcode m" "micro_is_interrupt (micro_rmw_dummy_write a m) = micro_is_interrupt m" "micro_phase (micro_rmw_dummy_write a m) = micro_phase m"
  "cpu_model (micro_rmw_read a m) = cpu_model m"
  "micro_opcode (micro_rmw_read a m) = micro_opcode m" "micro_is_interrupt (micro_rmw_read a m) = micro_is_interrupt m" "micro_phase (micro_rmw_read a m) = micro_phase m"
  by (simp_all add: micro_dummy_read_def micro_rmw_dummy_write_def micro_rmw_read_def bus_defs Let_def split_beta micro_clock)

lemma rmw_value_clock:
  assumes "cpu_model m = CPU_6502"
  shows "cycles (snd (c6510_micro_rmw_value m)) = cycles m"
    and "cpu_model (snd (c6510_micro_rmw_value m)) = CPU_6502" "micro_opcode (snd (c6510_micro_rmw_value m)) = micro_opcode m" "micro_is_interrupt (snd (c6510_micro_rmw_value m)) = micro_is_interrupt m" "micro_phase (snd (c6510_micro_rmw_value m)) = micro_phase m"
  using assms
  by (simp_all add: c6510_micro_rmw_value_def undocumented_rmw_value_def documented_rmw_value_def micro_clock
      Let_def split_beta)

lemma final_clock [micro_clock]:
  assumes "cpu_model m = CPU_6502"
  shows "cycles (micro_rmw_write a m) = cycles m + 1"
    and "cycles (snd (micro_apply_read a m)) = cycles m + 1"
    and "cpu_model (micro_rmw_write a m) = CPU_6502" "micro_opcode (micro_rmw_write a m) = micro_opcode m" "micro_is_interrupt (micro_rmw_write a m) = micro_is_interrupt m" "micro_phase (micro_rmw_write a m) = micro_phase m"
    and "fst (micro_apply_read a m) = True"
    and "cpu_model (snd (micro_apply_read a m)) = CPU_6502" "micro_opcode (snd (micro_apply_read a m)) = micro_opcode m" "micro_is_interrupt (snd (micro_apply_read a m)) = micro_is_interrupt m" "micro_phase (snd (micro_apply_read a m)) = micro_phase m"
  using assms
  by (simp_all add: micro_rmw_write_def rmw_value_clock micro_apply_read_def c6510_micro_apply_read_operation_def
      micro_done_def micro_clock Let_def split_beta)

lemma flow_clock [micro_clock]:
  "cycles (snd (micro_wait m)) = cycles m" "cycles (snd (micro_done m)) = cycles m"
  "cpu_model (snd (micro_wait m)) = cpu_model m" "micro_opcode (snd (micro_wait m)) = micro_opcode m" "micro_is_interrupt (snd (micro_wait m)) = micro_is_interrupt m" "micro_phase (snd (micro_wait m)) = micro_phase m + 1"
  "fst (micro_wait m) = False" "fst (micro_done m) = True" "cpu_model (snd (micro_done m)) = cpu_model m" "micro_opcode (snd (micro_done m)) = micro_opcode m" "micro_is_interrupt (snd (micro_done m)) = micro_is_interrupt m" "micro_phase (snd (micro_done m)) = micro_phase m"
  by (simp_all add: micro_wait_def micro_done_def)

section \<open>Handlers\<close>

text \<open>What every handler does to the clock and to the bookkeeping of the suspended instruction.\<close>

definition clocked :: "'u C6510 \<Rightarrow> bool \<times> 'u C6510 \<Rightarrow> bool" where
  "clocked m r \<longleftrightarrow> cycles (snd r) = cycles m + 1 \<and> cpu_model (snd r) = cpu_model m \<and>
     micro_opcode (snd r) = micro_opcode m \<and> micro_is_interrupt (snd r) = micro_is_interrupt m \<and>
     (fst r \<or> micro_phase (snd r) = micro_phase m + 1)"

lemma let_clock:
  "cycles e = cycles m + 1 \<and> cpu_model e = cpu_model m \<and> micro_opcode e = micro_opcode m \<and>
     micro_is_interrupt e = micro_is_interrupt m \<Longrightarrow>
   (\<And>x. cycles x = cycles m + 1 \<and> cpu_model x = cpu_model m \<and> micro_opcode x = micro_opcode m \<and>
     micro_is_interrupt x = micro_is_interrupt m \<Longrightarrow> clocked m (f x)) \<Longrightarrow>
   clocked m (Let e f)"
  by (simp add: Let_def)

lemma lax_not_rmw: "c6510_micro_is_lax op \<Longrightarrow> \<not> c6510_micro_is_undocumented_rmw op"
  unfolding c6510_micro_is_lax_def c6510_micro_is_undocumented_rmw_def
  by (elim insertE emptyE; simp only: u8_decide)

lemma flag_op_clock: "clocked m (micro_flag_op m)"
  unfolding micro_flag_op_def
  by (rule let_clock, simp add: clocked_def micro_clock)+ (simp add: clocked_def micro_clock)

lemma register_op_clock: "clocked m (micro_register_op m)"
  unfolding micro_register_op_def
  by (rule let_clock, simp add: clocked_def micro_clock Let_def)+ (simp add: clocked_def micro_clock)

lemmas chain_clock = flag_op_clock register_op_clock

lemma handler_clock:
  assumes "cpu_model m = CPU_6502"
  shows "clocked m (micro_nop m)"
    "clocked m (micro_load_imm r m)"
    "clocked m (micro_done (anc_imm m))"
    "clocked m (micro_done (axs_imm m))"
    "clocked m (micro_done (alr_imm m))"
    "clocked m (micro_load_abs m)"
    "clocked m (micro_store_abs m)"
    "clocked m (micro_jmp_abs m)"
    "clocked m (micro_jmp_ind m)"
    "clocked m (micro_branch m)"
    "clocked m (micro_jsr m)"
    "clocked m (micro_rts m)"
    "clocked m (micro_alu_imm m)"
    "clocked m (micro_flag_op m)"
    "clocked m (micro_register_op m)"
    "clocked m (micro_push_op m)"
    "clocked m (micro_pull_op m)"
    "clocked m (micro_rti m)"
    "clocked m (micro_brk m)"
  using assms chain_clock [of m]
  by (simp_all add: clocked_def micro_clock Let_def split_beta bus_defs lax_not_rmw
      micro_nop_def micro_load_imm_def anc_imm_def axs_imm_def alr_imm_def micro_load_abs_def micro_store_abs_def
      micro_jmp_abs_def micro_jmp_ind_def micro_branch_def micro_jsr_def micro_rts_def micro_alu_imm_def
      micro_push_op_def micro_pull_op_def micro_rti_def micro_brk_def)

lemma operand_handler_clock:
  assumes "cpu_model m = CPU_6502"
  shows
    "clocked m (micro_load_store_zp m)"
    "clocked m (micro_load_store_zp_indexed m)"
    "clocked m (micro_alu_zp m)"
    "clocked m (micro_alu_zp_x m)"
    "clocked m (micro_alu_abs m)"
    "clocked m (micro_abs_indexed m)"
    "clocked m (micro_x_ind m)"
    "clocked m (micro_ind_y m)"
    "clocked m (micro_rmw_zp m)"
    "clocked m (micro_rmw_zp_x m)"
    "clocked m (micro_rmw_abs m)"
    "clocked m (micro_rmw_abs_x m)"
    "clocked m (micro_step_und_nop m)"
    "clocked m (c6510_micro_step_practical_undocumented m)"
  using assms
  by (simp_all add: clocked_def micro_clock Let_def split_beta bus_defs lax_not_rmw
      micro_load_store_zp_def micro_load_store_zp_indexed_def micro_alu_zp_def micro_alu_zp_x_def
      micro_alu_abs_def micro_abs_indexed_def micro_x_ind_def micro_ind_y_def micro_rmw_zp_def micro_rmw_zp_x_def
      micro_rmw_abs_def micro_rmw_abs_x_def micro_step_und_nop_def c6510_micro_step_practical_undocumented_def
      und_step_zp_def und_step_zp_indexed_def und_step_abs_def und_step_x_ind_def und_step_ind_y_def
      und_step_abs_indexed_def und_step_indexed_fixup_def und_step_indexed_tail_def und_lax_or_sax_def
      c6510_micro_set_lax_def split: c6510_undocumented_mode.split)

lemmas handler_clocks = handler_clock operand_handler_clock

lemma documented_clock:
  assumes "micro_opcode m \<in> micro_documented_opcodes" "cpu_model m = CPU_6502"
  shows "clocked m (micro_documented (micro_opcode m) m)"
proof (rule ccontr)
  assume "\<not> ?thesis"
  then have "micro_opcode m \<notin> micro_documented_opcodes"
    unfolding micro_documented_def micro_documented_opcodes_def
    by (simp only: if_distrib [of "clocked m"] handler_clocks [OF assms(2)]
         Un_iff insert_iff empty_iff simp_thms if_bool_eq_conj cong: if_cong split: if_splits) auto
  with assms(1) show False by contradiction
qed

lemma dispatch_clock:
  assumes "c6510_micro_op_class (micro_opcode m) \<noteq> OP_NONE" "cpu_model m = CPU_6502"
  shows "clocked m (micro_dispatch m)"
  using assms documented_clock [of m]
  by (auto simp: micro_dispatch_def c6510_micro_op_class_def handler_clocks split: if_splits)

lemma interrupt_clock:
  assumes "cpu_model m = CPU_6502"
  shows "cycles (snd (micro_step_interrupt m)) = cycles m + 1"
  using assms by (simp add: micro_step_interrupt_def micro_interrupt_cycle_def bus_defs Let_def split_beta micro_clock)

lemma micro_run_cycles:
  assumes "micro_run f m = Some (k, m')" "cpu_model m = CPU_6502" "\<not> micro_is_interrupt m"
    and "c6510_micro_op_class (micro_opcode m) \<noteq> OP_NONE" "0 < unat (micro_phase m)" "unat (micro_phase m) + f < 256"
  shows "cycles m' = cycles m + of_nat k \<and> k \<le> f"
  using assms
proof (induction f arbitrary: m k)
  case (Suc f)
  have c: "clocked m (micro_dispatch m)" using Suc.prems by (simp add: dispatch_clock)
  obtain b d where d: "micro_dispatch m = (b, d)" by (rule prod.exhaust)
  have step: "c6510_micro_step m = (if b then (True, micro_complete d) else (False, d))"
    using Suc.prems d by (auto simp: c6510_micro_step_def)
  show ?case
  proof (cases b)
    case True
    then show ?thesis using Suc.prems(1) step c d by (auto simp: clocked_def micro_complete_def)
  next
    case False
    with c d have e: "cycles d = cycles m + 1" "cpu_model d = cpu_model m" "micro_opcode d = micro_opcode m"
        "micro_is_interrupt d = micro_is_interrupt m" "micro_phase d = micro_phase m + 1"
      by (auto simp: clocked_def)
    obtain j where j: "micro_run f d = Some (j, m')" "k = Suc j"
      using Suc.prems(1) step False by auto
    have "unat (micro_phase d) = unat (micro_phase m) + 1"
      using e(5) Suc.prems(6) by (simp add: unat_word_ariths)
    then have "cycles m' = cycles d + of_nat j \<and> j \<le> f"
      using Suc.IH [OF j(1)] Suc.prems e by simp
    then show ?thesis using j(2) e(1) by simp
  qed
qed simp

section \<open>The executor\<close>

text \<open>
  C4. On the NMOS processor every call of the resumable executor that has an instruction or an
  interrupt sequence to advance takes exactly one clock cycle, whatever the opcode and the phase.
\<close>

theorem micro_step_clock:
  assumes "micro_is_interrupt m \<or> micro_phase m = 0 \<or> c6510_micro_op_class (micro_opcode m) \<noteq> OP_NONE"
    and "cpu_model m = CPU_6502"
  shows "cycles (snd (c6510_micro_step m)) = cycles m + 1"
  using assms interrupt_clock [of m] dispatch_clock [of m]
  by (auto simp: c6510_micro_step_def clocked_def micro_fetch_def micro_complete_def bus_defs Let_def split_beta micro_clock)

theorem micro_step_clock_witness:
  "cycles (snd (c6510_micro_step (c6510_micro_begin (latch_machine 0 False False)))) = 1"
  using micro_step_clock [of "c6510_micro_begin (latch_machine 0 False False)"]
  by (simp add: c6510_micro_begin_def latch_machine_def c6510_init_def)

end
