(* ===== verification/C6510_Resumable.thy ===== *)
theory C6510_Resumable
  imports C6510_Equiv_Undoc C6510_Clock
begin

text \<open>
  The two executors of the 6510 compared on whole instructions and interrupt sequences.
  \<open>micro_instruction\<close> composes the resumable interface the way its callers do: poll the
  interrupt lines, begin an instruction or an interrupt sequence, and step until completion. Eight
  steps of fuel are enough: the longest instruction takes eight cycles.
\<close>

section \<open>Undocumented no-operations and the opcode table\<close>

lemma dispatch_und_nop:
  "c6510_micro_is_undocumented_nop (micro_opcode m) \<Longrightarrow> micro_dispatch m = micro_step_und_nop m"
  by (simp add: micro_dispatch_def undocumented_class(2))

lemma discard_read_final:
  "arch (snd (micro_read_operand c)) = arch (al_read_pc c)"
  "arch (snd (micro_data_read t c)) = arch (sl_read_a16 (set_address_16 t c))"
  by (simp_all add: imm_simps al_read_pc_def sl_read_a16_def split: prod.split)

lemma discard_zp_final:
  "arch (sl_read_a16 (set_address_16 (ucast (address_lo (a_pipe c))) (micro_operand_lo c))) =
   arch (sl_read_a16 (al_read_pc c))"
proof -
  obtain v u where "read_fn c (user c) (pc c) = (v, u)" by (rule prod.exhaust)
  moreover have "w16 0 v = ucast v" by (simp add: w16_def)
  moreover have "hi8 (ucast v) = 0" by (metis hi8_w16 \<open>w16 0 v = ucast v\<close>)
  moreover have "address_lo (a_pipe c) = address_lo (micro_operand_lo c)" by simp
  ultimately show ?thesis
    by (simp only: ) (simp add: micro_operand_lo_def al_read_pc_def micro_read_operand_def read_operand_def bus_read_def CYCLE_def
       sl_read_a16_def read_from_memory_def union_views arch_def split: prod.split)
qed

lemma equiv_und_nop:
  assumes "micro_phase n = 1" "\<not> micro_is_interrupt n" "cpu_model c = CPU_6502"
  shows
  "micro_opcode n = UND_80 \<Longrightarrow> micro_finishes n c (al_read_pc c)"
  "micro_opcode n = UND_44 \<Longrightarrow> micro_finishes n c (sl_read_a16 (al_read_pc c))"
  "micro_opcode n = UND_0C \<Longrightarrow> micro_finishes n c (sl_read_a16 (a_pipe c))"
  "micro_opcode n = UND_1C \<Longrightarrow> micro_finishes n c (sl_read_a16 (aix c))"
  "micro_opcode n = UND_FC \<Longrightarrow> micro_finishes n c (sl_read_a16 (aix c))"
  using assms by (simp_all add: run_rules dispatch_und_nop c6510_micro_is_undocumented_nop_def micro_step_und_nop_def abs_indexed_stages
     discard_read_final discard_zp_final uncorrected_with_micro final_rules)

lemmas exec_decide = exec_opcode_def exec_table_def exec_rows

lemma exec_row_0_bodies:
  "exec_opcode BRK c = c6510_brk (php (pc_lo_to_stack (pc_hi_to_stack (al_read_pc c))))"
  "exec_opcode ORA_X_ind c = ora_a16 (mixa c)"
  "exec_opcode UND_03 c = slo_a16 (sl_write_a16 (sl_read_a16 (mixa c)))"
  "exec_opcode ORA_zpg c = ora_a16 (al_read_pc c)"
  "exec_opcode ASL_zpg c = asl_a16 (mrw c)"
  "exec_opcode UND_07 c = slo_a16 (mrw c)"
  "exec_opcode PHP c = php (read_pc c)"
  "exec_opcode ORA_imm c = ora_imm c"
  "exec_opcode ASL_A c = asl_a c"
  "exec_opcode UND_0B c = anc_imm c"
  "exec_opcode UND_0C c = sl_read_a16 (a_pipe c)"
  "exec_opcode ORA_abs c = ora_a16 (a_pipe c)"
  "exec_opcode ASL_abs c = asl_a16 (arw c)"
  "exec_opcode UND_0F c = slo_a16 (arw c)"
  by (simp_all add: exec_decide)

lemma exec_row_1_bodies:
  "exec_opcode BPL_rel c = bpl c"
  "exec_opcode ORA_ind_Y c = ora_a16 (miy c)"
  "exec_opcode UND_13 c = slo_a16 (sl_write_a16 (sl_read_a16 (miyr c)))"
  "exec_opcode ORA_zpg_X c = ora_a16 (mix c)"
  "exec_opcode ASL_zpg_X c = asl_a16 (mixrw c)"
  "exec_opcode UND_17 c = slo_a16 (mixrw c)"
  "exec_opcode CLC c = clc c"
  "exec_opcode ORA_abs_Y c = ora_a16 (aiy c)"
  "exec_opcode UND_1B c = slo_a16 (sl_write_a16 (sl_read_a16 (aiyr c)))"
  "exec_opcode UND_1C c = sl_read_a16 (aix c)"
  "exec_opcode ORA_abs_X c = ora_a16 (aix c)"
  "exec_opcode ASL_abs_X c = asl_a16 (aixr_sel c)"
  "exec_opcode UND_1F c = slo_a16 (aipxrw c)"
  by (simp_all add: exec_decide)

lemma exec_row_2_bodies:
  "exec_opcode JSR_abs c = jsr_a16 (pc_lo_to_stack (pc_hi_to_stack (read_sp (al_read_pc c))))"
  "exec_opcode AND_X_ind c = and_a16 (mixa c)"
  "exec_opcode UND_23 c = rla_a16 (sl_write_a16 (sl_read_a16 (mixa c)))"
  "exec_opcode BIT_zpg c = bit_a16 (al_read_pc c)"
  "exec_opcode AND_zpg c = and_a16 (al_read_pc c)"
  "exec_opcode ROL_zpg c = rol_a16 (mrw c)"
  "exec_opcode UND_27 c = rla_a16 (mrw c)"
  "exec_opcode PLP c = plp (read_sp (read_pc c))"
  "exec_opcode AND_imm c = and_imm c"
  "exec_opcode ROL_A c = rol_a c"
  "exec_opcode UND_2B c = anc_imm c"
  "exec_opcode BIT_abs c = bit_a16 (a_pipe c)"
  "exec_opcode AND_abs c = and_a16 (a_pipe c)"
  "exec_opcode ROL_abs c = rol_a16 (arw c)"
  "exec_opcode UND_2F c = rla_a16 (arw c)"
  by (simp_all add: exec_decide)

lemma exec_row_3_bodies:
  "exec_opcode BMI_rel c = bmi c"
  "exec_opcode AND_ind_Y c = and_a16 (miy c)"
  "exec_opcode UND_33 c = rla_a16 (sl_write_a16 (sl_read_a16 (miyr c)))"
  "exec_opcode AND_zpg_X c = and_a16 (mix c)"
  "exec_opcode ROL_zpg_X c = rol_a16 (mixrw c)"
  "exec_opcode UND_37 c = rla_a16 (mixrw c)"
  "exec_opcode SEC c = sec c"
  "exec_opcode AND_abs_Y c = and_a16 (aiy c)"
  "exec_opcode UND_3B c = rla_a16 (sl_write_a16 (sl_read_a16 (aiyr c)))"
  "exec_opcode AND_abs_X c = and_a16 (aix c)"
  "exec_opcode ROL_abs_X c = rol_a16 (aixr_sel c)"
  "exec_opcode UND_3F c = rla_a16 (aipxrw c)"
  by (simp_all add: exec_decide)

lemma exec_row_4_bodies:
  "exec_opcode RTI c = rti (al_from_stack (p_from_stack (read_sp (read_pc c))))"
  "exec_opcode EOR_X_ind c = eor_a16 (mixa c)"
  "exec_opcode UND_43 c = sre_a16 (sl_write_a16 (sl_read_a16 (mixa c)))"
  "exec_opcode UND_44 c = sl_read_a16 (al_read_pc c)"
  "exec_opcode EOR_zpg c = eor_a16 (al_read_pc c)"
  "exec_opcode LSR_zpg c = lsr_a16 (mrw c)"
  "exec_opcode UND_47 c = sre_a16 (mrw c)"
  "exec_opcode PHA c = pha (read_pc c)"
  "exec_opcode EOR_imm c = eor_imm c"
  "exec_opcode LSR_A c = lsr_a c"
  "exec_opcode UND_4B c = alr_imm c"
  "exec_opcode JMP_abs c = jmp_a16 (a_pipe c)"
  "exec_opcode EOR_abs c = eor_a16 (a_pipe c)"
  "exec_opcode LSR_abs c = lsr_a16 (arw c)"
  "exec_opcode UND_4F c = sre_a16 (arw c)"
  by (simp_all add: exec_decide)

lemma exec_row_5_bodies:
  "exec_opcode BVC_rel c = bvc c"
  "exec_opcode EOR_ind_Y c = eor_a16 (miy c)"
  "exec_opcode UND_53 c = sre_a16 (sl_write_a16 (sl_read_a16 (miyr c)))"
  "exec_opcode EOR_zpg_X c = eor_a16 (mix c)"
  "exec_opcode LSR_zpg_X c = lsr_a16 (mixrw c)"
  "exec_opcode UND_57 c = sre_a16 (mixrw c)"
  "exec_opcode CLI c = cli c"
  "exec_opcode EOR_abs_Y c = eor_a16 (aiy c)"
  "exec_opcode UND_5B c = sre_a16 (sl_write_a16 (sl_read_a16 (aiyr c)))"
  "exec_opcode EOR_abs_X c = eor_a16 (aix c)"
  "exec_opcode LSR_abs_X c = lsr_a16 (aixr_sel c)"
  "exec_opcode UND_5F c = sre_a16 (aipxrw c)"
  by (simp_all add: exec_decide)

lemma exec_row_6_bodies:
  "exec_opcode RTS c = rts (ah_from_stack (al_from_stack (read_sp (read_pc c))))"
  "exec_opcode ADC_X_ind c = adc_a16 (mixa c)"
  "exec_opcode UND_63 c = rra_a16 (sl_write_a16 (sl_read_a16 (mixa c)))"
  "exec_opcode ADC_zpg c = adc_a16 (al_read_pc c)"
  "exec_opcode ROR_zpg c = ror_a16 (mrw c)"
  "exec_opcode UND_67 c = rra_a16 (mrw c)"
  "exec_opcode PLA c = pla (read_sp (read_pc c))"
  "exec_opcode ADC_imm c = adc_imm c"
  "exec_opcode ROR_A c = ror_a c"
  "exec_opcode JMP_ind c = jmp_ind (ar c)"
  "exec_opcode ADC_abs c = adc_a16 (a_pipe c)"
  "exec_opcode ROR_abs c = ror_a16 (arw c)"
  "exec_opcode UND_6F c = rra_a16 (arw c)"
  by (simp_all add: exec_decide)

lemma exec_row_7_bodies:
  "exec_opcode BVS_rel c = bvs c"
  "exec_opcode ADC_ind_Y c = adc_a16 (miy c)"
  "exec_opcode UND_73 c = rra_a16 (sl_write_a16 (sl_read_a16 (miyr c)))"
  "exec_opcode ADC_zpg_X c = adc_a16 (mix c)"
  "exec_opcode ROR_zpg_X c = ror_a16 (mixrw c)"
  "exec_opcode UND_77 c = rra_a16 (mixrw c)"
  "exec_opcode SEI c = sei c"
  "exec_opcode ADC_abs_Y c = adc_a16 (aiy c)"
  "exec_opcode UND_7B c = rra_a16 (sl_write_a16 (sl_read_a16 (aiyr c)))"
  "exec_opcode ADC_abs_X c = adc_a16 (aix c)"
  "exec_opcode ROR_abs_X c = ror_a16 (aixr_sel c)"
  "exec_opcode UND_7F c = rra_a16 (aipxrw c)"
  by (simp_all add: exec_decide)

lemma exec_row_8_bodies:
  "exec_opcode UND_80 c = al_read_pc c"
  "exec_opcode STA_X_ind c = sta_a16 (mixa c)"
  "exec_opcode UND_83 c = sax_a16 (mixa c)"
  "exec_opcode STY_zpg c = sty_a16 (al_read_pc c)"
  "exec_opcode STA_zpg c = sta_a16 (al_read_pc c)"
  "exec_opcode STX_zpg c = stx_a16 (al_read_pc c)"
  "exec_opcode UND_87 c = sax_a16 (al_read_pc c)"
  "exec_opcode DEY c = dey c"
  "exec_opcode TXA c = txa c"
  "exec_opcode STY_abs c = sty_a16 (a_pipe c)"
  "exec_opcode STA_abs c = sta_a16 (a_pipe c)"
  "exec_opcode STX_abs c = stx_a16 (a_pipe c)"
  "exec_opcode UND_8F c = sax_a16 (a_pipe c)"
  by (simp_all add: exec_decide)

lemma exec_row_9_bodies:
  "exec_opcode BCC_rel c = bcc c"
  "exec_opcode STA_ind_Y c = sta_a16 (miyr c)"
  "exec_opcode STY_zpg_X c = sty_a16 (mix c)"
  "exec_opcode STA_zpg_X c = sta_a16 (mix c)"
  "exec_opcode STX_zpg_Y c = stx_a16 (mizy c)"
  "exec_opcode UND_97 c = sax_a16 (mizy c)"
  "exec_opcode TYA c = tya c"
  "exec_opcode STA_abs_Y c = sta_a16 (aiyr c)"
  "exec_opcode TXS c = txs c"
  "exec_opcode STA_abs_X c = sta_a16 (aipxr c)"
  by (simp_all add: exec_decide)

lemma exec_row_A_bodies:
  "exec_opcode LDY_imm c = ldy_imm c"
  "exec_opcode LDA_X_ind c = lda_a16 (mixa c)"
  "exec_opcode LDX_imm c = ldx_imm c"
  "exec_opcode UND_A3 c = lax_a16 (mixa c)"
  "exec_opcode LDY_zpg c = ldy_a16 (al_read_pc c)"
  "exec_opcode LDA_zpg c = lda_a16 (al_read_pc c)"
  "exec_opcode LDX_zpg c = ldx_a16 (al_read_pc c)"
  "exec_opcode UND_A7 c = lax_a16 (al_read_pc c)"
  "exec_opcode TAY c = tay c"
  "exec_opcode LDA_imm c = lda_imm c"
  "exec_opcode TAX c = tax c"
  "exec_opcode LDY_abs c = ldy_a16 (a_pipe c)"
  "exec_opcode LDA_abs c = lda_a16 (a_pipe c)"
  "exec_opcode LDX_abs c = ldx_a16 (a_pipe c)"
  "exec_opcode UND_AF c = lax_a16 (a_pipe c)"
  by (simp_all add: exec_decide)

lemma exec_row_B_bodies:
  "exec_opcode BCS_rel c = bcs c"
  "exec_opcode LDA_ind_Y c = lda_a16 (miy c)"
  "exec_opcode UND_B3 c = lax_a16 (miy c)"
  "exec_opcode LDY_zpg_X c = ldy_a16 (mix c)"
  "exec_opcode LDA_zpg_X c = lda_a16 (mix c)"
  "exec_opcode LDX_zpg_Y c = ldx_a16 (mizy c)"
  "exec_opcode UND_B7 c = lax_a16 (mizy c)"
  "exec_opcode CLV c = clv c"
  "exec_opcode LDA_abs_Y c = lda_a16 (aiy c)"
  "exec_opcode TSX c = tsx c"
  "exec_opcode LDY_abs_X c = ldy_a16 (aix c)"
  "exec_opcode LDA_abs_X c = lda_a16 (aix c)"
  "exec_opcode LDX_abs_Y c = ldx_a16 (aiy c)"
  "exec_opcode UND_BF c = lax_a16 (aiy c)"
  by (simp_all add: exec_decide)

lemma exec_row_C_bodies:
  "exec_opcode CPY_imm c = cpy_imm c"
  "exec_opcode CMP_X_ind c = cmp_a16 (mixa c)"
  "exec_opcode UND_C3 c = dcp_a16 (sl_write_a16 (sl_read_a16 (mixa c)))"
  "exec_opcode CPY_zpg c = cpy_a16 (al_read_pc c)"
  "exec_opcode CMP_zpg c = cmp_a16 (al_read_pc c)"
  "exec_opcode DEC_zpg c = dec_a16 (mrw c)"
  "exec_opcode UND_C7 c = dcp_a16 (mrw c)"
  "exec_opcode INY c = iny c"
  "exec_opcode CMP_imm c = cmp_imm c"
  "exec_opcode DEX c = dex c"
  "exec_opcode UND_CB c = axs_imm c"
  "exec_opcode CPY_abs c = cpy_a16 (a_pipe c)"
  "exec_opcode CMP_abs c = cmp_a16 (a_pipe c)"
  "exec_opcode DEC_abs c = dec_a16 (arw c)"
  "exec_opcode UND_CF c = dcp_a16 (arw c)"
  by (simp_all add: exec_decide)

lemma exec_row_D_bodies:
  "exec_opcode BNE_rel c = bne c"
  "exec_opcode CMP_ind_Y c = cmp_a16 (miy c)"
  "exec_opcode UND_D3 c = dcp_a16 (sl_write_a16 (sl_read_a16 (miyr c)))"
  "exec_opcode CMP_zpg_X c = cmp_a16 (mix c)"
  "exec_opcode DEC_zpg_X c = dec_a16 (mixrw c)"
  "exec_opcode UND_D7 c = dcp_a16 (mixrw c)"
  "exec_opcode CLD c = cld c"
  "exec_opcode CMP_abs_Y c = cmp_a16 (aiy c)"
  "exec_opcode UND_DB c = dcp_a16 (sl_write_a16 (sl_read_a16 (aiyr c)))"
  "exec_opcode CMP_abs_X c = cmp_a16 (aix c)"
  "exec_opcode DEC_abs_X c = dec_a16 (aipxrw c)"
  "exec_opcode UND_DF c = dcp_a16 (aipxrw c)"
  by (simp_all add: exec_decide)

lemma exec_row_E_bodies:
  "exec_opcode CPX_imm c = cpx_imm c"
  "exec_opcode SBC_X_ind c = sbc_a16 (mixa c)"
  "exec_opcode UND_E3 c = isc_a16 (sl_write_a16 (sl_read_a16 (mixa c)))"
  "exec_opcode CPX_zpg c = cpx_a16 (al_read_pc c)"
  "exec_opcode SBC_zpg c = sbc_a16 (al_read_pc c)"
  "exec_opcode INC_zpg c = inc_a16 (mrw c)"
  "exec_opcode UND_E7 c = isc_a16 (mrw c)"
  "exec_opcode INX c = inx c"
  "exec_opcode SBC_imm c = sbc_imm c"
  "exec_opcode NOP c = read_pc c"
  "exec_opcode CPX_abs c = cpx_a16 (a_pipe c)"
  "exec_opcode SBC_abs c = sbc_a16 (a_pipe c)"
  "exec_opcode INC_abs c = inc_a16 (arw c)"
  "exec_opcode UND_EF c = isc_a16 (arw c)"
  by (simp_all add: exec_decide)

lemma exec_row_F_bodies:
  "exec_opcode BEQ_rel c = beq c"
  "exec_opcode SBC_ind_Y c = sbc_a16 (miy c)"
  "exec_opcode UND_F3 c = isc_a16 (sl_write_a16 (sl_read_a16 (miyr c)))"
  "exec_opcode SBC_zpg_X c = sbc_a16 (mix c)"
  "exec_opcode INC_zpg_X c = inc_a16 (mixrw c)"
  "exec_opcode UND_F7 c = isc_a16 (mixrw c)"
  "exec_opcode SED c = sed c"
  "exec_opcode SBC_abs_Y c = sbc_a16 (aiy c)"
  "exec_opcode UND_FB c = isc_a16 (sl_write_a16 (sl_read_a16 (aiyr c)))"
  "exec_opcode UND_FC c = sl_read_a16 (aix c)"
  "exec_opcode SBC_abs_X c = sbc_a16 (aix c)"
  "exec_opcode INC_abs_X c = inc_a16 (aipxrw c)"
  "exec_opcode UND_FF c = isc_a16 (aipxrw c)"
  by (simp_all add: exec_decide)

lemmas exec_bodies = exec_row_0_bodies exec_row_1_bodies exec_row_2_bodies exec_row_3_bodies exec_row_4_bodies exec_row_5_bodies exec_row_6_bodies exec_row_7_bodies exec_row_8_bodies exec_row_9_bodies exec_row_A_bodies exec_row_B_bodies exec_row_C_bodies exec_row_D_bodies exec_row_E_bodies exec_row_F_bodies

lemmas equiv_bodies =
  equiv_micro_nop equiv_micro_load_abs equiv_micro_store_abs equiv_micro_load_store_zp
  equiv_micro_load_store_zp_indexed equiv_micro_alu_zp equiv_micro_alu_zp_x equiv_micro_alu_abs
  equiv_micro_rmw_zp equiv_micro_rmw_zp_x equiv_micro_rmw_abs equiv_A_reg_LDA_imm
  equiv_X_reg_LDX_imm equiv_Y_reg_LDY_imm equiv_anc_imm_UND_0B equiv_axs_imm_UND_CB
  equiv_alr_imm_UND_4B equiv_micro_alu_imm equiv_micro_flag_op equiv_micro_register_op
  equiv_micro_push_op equiv_micro_pull_op equiv_micro_rti equiv_micro_rts
  equiv_micro_jmp_abs equiv_micro_jsr equiv_micro_jmp_ind equiv_micro_brk
  equiv_micro_branch equiv_micro_abs_indexed equiv_micro_rmw_abs_x equiv_micro_x_ind
  equiv_micro_ind_y equiv_undocumented_X_IND equiv_undocumented_ZP equiv_undocumented_ABS
  equiv_undocumented_IND_Y equiv_undocumented_ZP_INDEXED equiv_undocumented_ABS_Y equiv_undocumented_ABS_X
  equiv_und_nop

lemma micro_finishes_opcode:
  assumes "micro_phase n = 1" "\<not> micro_is_interrupt n" "cpu_model c = CPU_6502"
    and "c6510_micro_op_class (micro_opcode n) \<noteq> OP_NONE"
  shows "micro_finishes n c (exec_opcode (micro_opcode n) c)"
proof -
  consider "micro_opcode n \<in> micro_documented_opcodes"
    | "c6510_micro_is_practical_undocumented (micro_opcode n)"
    | "c6510_micro_is_undocumented_nop (micro_opcode n)"
    using assms(4) by (auto simp: c6510_micro_op_class_def split: if_splits)
  then show ?thesis
  proof cases
    case 1
    then show ?thesis using assms(1-3)
      unfolding micro_documented_opcodes_def
      by (elim insertE emptyE; simp only: exec_bodies equiv_bodies)
  next
    case 2
    then show ?thesis using assms(1-3)
      unfolding c6510_micro_is_practical_undocumented_def
      by (elim insertE emptyE; simp only: exec_bodies equiv_bodies)
  next
    case 3
    then show ?thesis using assms(1-3)
      unfolding c6510_micro_is_undocumented_nop_def
      by (elim insertE emptyE; simp only: exec_bodies equiv_bodies)
  qed
qed

section \<open>One instruction through the resumable interface\<close>

definition micro_instruction :: "'u C6510 \<Rightarrow> (nat \<times> 'u C6510) option" where
  "micro_instruction m =
     (case c6510_micro_poll_interrupt m of
        (INTERRUPT_NONE, m) \<Rightarrow> micro_run 8 (c6510_micro_begin m)
      | (kind, m) \<Rightarrow> micro_run 8 (c6510_micro_begin_interrupt kind m))"

definition nop_machine :: "unit C6510" where
  "nop_machine = c6510_init () (\<lambda>u _. (0xEA, u)) (\<lambda>u _ _. u)"

lemma fetch_with_micro:
  "micro_fetch (c6510_micro_begin m) = with_micro (micro_fetch (c6510_micro_begin m)) (snd (fetch_opcode m))"
  "micro_opcode (micro_fetch (c6510_micro_begin m)) = fst (fetch_opcode m)"
  "micro_phase (micro_fetch (c6510_micro_begin m)) = 1"
  "\<not> micro_is_interrupt (micro_fetch (c6510_micro_begin m))"
  "cpu_model (snd (fetch_opcode m)) = cpu_model m"
  "cycles (snd (fetch_opcode m)) = cycles m + 1"
  "fetch_opcode (m\<lparr>opcode_active := a\<rparr>) = fetch_opcode m"
  by (simp_all add: micro_fetch_def c6510_micro_begin_def fetch_opcode_def read_opcode_def bus_read_def CYCLE_def
      with_micro_def split: prod.split)

lemma instruction_equivalent:
  assumes "cpu_model m = CPU_6502" "c6510_micro_can_begin m (fst (fetch_opcode m))"
  defines "m' \<equiv> exec_opcode (fst (fetch_opcode m)) (snd (fetch_opcode m))"
  shows "\<exists>k r. micro_run 8 (c6510_micro_begin m) = Some (k, r) \<and> arch r = arch m' \<and>
     cycles m' = cycles m + of_nat k \<and> k \<le> 8"
proof -
  let ?n = "micro_fetch (c6510_micro_begin m)"
  have cls: "c6510_micro_op_class (micro_opcode ?n) \<noteq> OP_NONE"
    using assms(2) by (simp add: fetch_with_micro(2) c6510_micro_can_begin_def)
  have "micro_finishes ?n (snd (fetch_opcode m)) m'"
    using micro_finishes_opcode [OF fetch_with_micro(3,4) _ cls, of "snd (fetch_opcode m)"] assms(1)
    by (simp add: m'_def fetch_with_micro(2,5))
  then obtain k r where run: "micro_run 7 ?n = Some (k, r)" and a: "arch r = arch m'"
    by (auto simp: micro_finishes_def fetch_with_micro(1) [symmetric])
  have n: "cpu_model ?n = CPU_6502" "cycles ?n = cycles m + 1"
    using assms(1)
    by (simp_all add: micro_fetch_def c6510_micro_begin_def read_opcode_def Let_def split_beta micro_clock)
  have k: "cycles r = cycles m + of_nat (Suc k) \<and> k \<le> 7"
    using micro_run_cycles [OF run n(1) fetch_with_micro(4) cls] n(2) by (simp add: fetch_with_micro(3) add.assoc)
  have "c6510_micro_step (c6510_micro_begin m) = (False, ?n)"
    by (simp add: c6510_micro_step_def c6510_micro_begin_def)
  then have "micro_run 8 (c6510_micro_begin m) = Some (Suc k, r)"
    using run by (simp add: micro_run_numeral [of "num.Bit0 (num.Bit0 (num.Bit0 num.One))"])
  moreover have "cycles r = cycles m'" using arg_cong [OF a, of cycles] by (simp add: arch_def)
  ultimately show ?thesis using a k by auto
qed

lemma interrupt_begin:
  "c6510_micro_begin_interrupt kind m =
   with_micro (c6510_micro_begin_interrupt kind m) (m\<lparr>opcode_pc := pc m\<rparr>)"
  by (simp add: c6510_micro_begin_interrupt_def with_micro_def)

lemma interrupt_stages:
  assumes "micro_is_interrupt n"
  shows "micro_phase n = 0 \<Longrightarrow> c6510_micro_step (with_micro n m) = (False, with_micro (n\<lparr>micro_phase := 1\<rparr>) (CYCLE (read_dummy m (pc m))))"
    "micro_phase n = 1 \<Longrightarrow> c6510_micro_step (with_micro n m) = (False, with_micro (n\<lparr>micro_phase := 2\<rparr>) (read_sp m))"
    "micro_phase n = 2 \<Longrightarrow> c6510_micro_step (with_micro n m) = (False, with_micro (n\<lparr>micro_phase := 3\<rparr>) (pc_hi_to_stack m))"
    "micro_phase n = 3 \<Longrightarrow> c6510_micro_step (with_micro n m) = (False, with_micro (n\<lparr>micro_phase := 4\<rparr>) (pc_lo_to_stack m))"
    "micro_phase n = 4 \<Longrightarrow> c6510_micro_step (with_micro n m) =
       (False, with_micro (n\<lparr>micro_phase := 5\<rparr>) (CYCLE (push ((cpu_flags m AND NOT 0x10) OR 0x20) m)))"
  using assms
  by (simp_all add: c6510_micro_step_def micro_step_interrupt_def micro_interrupt_cycle_def micro_norm micro_frame
      cpu_access_defs micro_wait_def Let_def read_sp_def pc_hi_to_stack_def pc_lo_to_stack_def)

lemma interrupt_vector_stages:
  assumes "micro_is_interrupt n" "micro_phase n = 5" "cpu_model m = CPU_6502"
  shows "\<exists>r. micro_run 2 (with_micro n m) = Some (2, r) \<and>
    arch r = arch ((c6510_read_interrupt_vector (micro_interrupt_vector n) m)\<lparr>flag_I := True,
       irq_entries := irq_entries m + of_flag (micro_interrupt_vector n = 0xFFFE),
       nmi_entries := nmi_entries m + of_flag (micro_interrupt_vector n = 0xFFFA)\<rparr>)"
proof -
  obtain v u where r1: "read_fn m (user m) (micro_interrupt_vector n) = (v, u)" by (rule prod.exhaust)
  obtain w x where r2: "read_fn m u (micro_interrupt_vector n + 1) = (w, x)" by (rule prod.exhaust)
  show ?thesis
    using assms r1 r2
    by (simp add: micro_run_numeral c6510_micro_step_def micro_step_interrupt_def micro_interrupt_cycle_def micro_wait_def with_micro_def
      read_vector_def bus_read_def CYCLE_def Let_def c6510_read_interrupt_vector_def union_views arch_def)
qed

lemma frame_model: "cpu_model (push_interrupt_frame m) = cpu_model m" "cycles (push_interrupt_frame m) = cycles m + 5"
  by (simp_all add: push_interrupt_frame_def read_sp_def pc_hi_to_stack_def pc_lo_to_stack_def bus_defs Let_def micro_clock)

lemma micro_run_more: "micro_run f m = Some r \<Longrightarrow> micro_run (f + g) m = Some r"
proof (induction f arbitrary: m r)
  case (Suc f)
  then show ?case
    by (cases "c6510_micro_step m" rule: prod.exhaust) (auto split: bool.splits)
qed simp

lemma interrupt_run:
  fixes m :: "'u C6510" and kind :: c6510_interrupt_kind
  assumes "cpu_model m = CPU_6502"
  defines "n \<equiv> c6510_micro_begin_interrupt kind m" and "f \<equiv> push_interrupt_frame m"
  shows "\<exists>r. micro_run 8 n = Some (7, r) \<and>
    arch r = arch ((c6510_read_interrupt_vector (micro_interrupt_vector n) f)\<lparr>flag_I := True,
       irq_entries := irq_entries f + of_flag (micro_interrupt_vector n = 0xFFFE),
       nmi_entries := nmi_entries f + of_flag (micro_interrupt_vector n = 0xFFFA)\<rparr>)"
proof -
  let ?n = "n\<lparr>micro_phase := 5\<rparr>"
  have i: "micro_is_interrupt n" "micro_phase n = 0" "n = with_micro n (m\<lparr>opcode_pc := pc m\<rparr>)"
    using interrupt_begin [of kind m] by (simp_all add: n_def c6510_micro_begin_interrupt_def)
  obtain r where r: "micro_run 2 (with_micro ?n f) = Some (2, r)"
    and a: "arch r = arch ((c6510_read_interrupt_vector (micro_interrupt_vector n) f)\<lparr>flag_I := True,
       irq_entries := irq_entries f + of_flag (micro_interrupt_vector n = 0xFFFE),
       nmi_entries := nmi_entries f + of_flag (micro_interrupt_vector n = 0xFFFA)\<rparr>)"
    using interrupt_vector_stages [of ?n f] i(1) assms(1) by (auto simp: f_def frame_model)
  have "micro_run (Suc (Suc (Suc (Suc (Suc j))))) (with_micro n (m\<lparr>opcode_pc := pc m\<rparr>)) =
      Some (Suc (Suc (Suc (Suc (Suc k)))), r)" if "micro_run j (with_micro ?n f) = Some (k, r)" for j k
    using i(1,2) that
    by (simp add: interrupt_stages f_def push_interrupt_frame_def Let_def)
  from this [OF r] have "micro_run 7 (with_micro n (m\<lparr>opcode_pc := pc m\<rparr>)) = Some (7, r)" by simp
  then have "micro_run (7 + 1) n = Some (7, r)" using i(3) by (metis micro_run_more)
  then show ?thesis using a by auto
qed

lemma poll_step:
  "c6510_step m = (case c6510_micro_poll_interrupt (m\<lparr>opcode_active := False\<rparr>) of
      (INTERRUPT_NONE, x) \<Rightarrow>
        (let r = exec_opcode (fst (fetch_opcode x)) (snd (fetch_opcode x)) in (cycles r - cycles m, r))
    | (INTERRUPT_NMI, x) \<Rightarrow>
        (let r = c6510_nmi (push_interrupt_frame x \<lparr>nmi_entries := nmi_entries (push_interrupt_frame x) + 1\<rparr>)
         in (cycles r - cycles m, r))
    | (INTERRUPT_IRQ, x) \<Rightarrow>
        (let r = c6510_irq (push_interrupt_frame x \<lparr>irq_entries := irq_entries (push_interrupt_frame x) + 1\<rparr>)
         in (cycles r - cycles m, r)))"
  by (simp add: c6510_step_def c6510_micro_poll_interrupt_def c6510_take_nmi_if_pending_def c6510_take_irq_if_pending_def
      Let_def split_beta)

lemma pending_frame:
  "c6510_nmi_pending (m\<lparr>opcode_active := a\<rparr>) = apsnd (\<lambda>x. x\<lparr>opcode_active := a\<rparr>) (c6510_nmi_pending m)"
  "c6510_irq_pending (m\<lparr>opcode_active := a\<rparr>) = apsnd (\<lambda>x. x\<lparr>opcode_active := a\<rparr>) (c6510_irq_pending m)"
  "cpu_model (snd (c6510_nmi_pending m)) = cpu_model m" "cycles (snd (c6510_nmi_pending m)) = cycles m"
  "cpu_model (snd (c6510_irq_pending m)) = cpu_model m" "cycles (snd (c6510_irq_pending m)) = cycles m"
  by (simp_all add: c6510_nmi_pending_def c6510_irq_pending_def split: option.split prod.split)

lemma poll_opcode_active:
  "c6510_micro_poll_interrupt (m\<lparr>opcode_active := a\<rparr>) =
   apsnd (\<lambda>x. x\<lparr>opcode_active := a\<rparr>) (c6510_micro_poll_interrupt m)"
  by (simp add: c6510_micro_poll_interrupt_def pending_frame Let_def split_beta)

lemma poll_clock:
  "cpu_model (snd (c6510_micro_poll_interrupt m)) = cpu_model m"
  "cycles (snd (c6510_micro_poll_interrupt m)) = cycles m"
  by (simp_all add: c6510_micro_poll_interrupt_def pending_frame Let_def split_beta)

lemma entry_final:
  assumes "cpu_model f = CPU_6502"
  shows "arch (c6510_irq (f\<lparr>irq_entries := irq_entries f + 1\<rparr>)) =
      arch ((c6510_read_interrupt_vector 0xFFFE f)\<lparr>flag_I := True, irq_entries := irq_entries f + 1, nmi_entries := nmi_entries f\<rparr>)"
    and "arch (c6510_nmi (f\<lparr>nmi_entries := nmi_entries f + 1\<rparr>)) =
      arch ((c6510_read_interrupt_vector 0xFFFA f)\<lparr>flag_I := True, irq_entries := irq_entries f, nmi_entries := nmi_entries f + 1\<rparr>)"
    and "cycles (c6510_irq (f\<lparr>irq_entries := x\<rparr>)) = cycles f + 2"
    and "cycles (c6510_nmi (f\<lparr>nmi_entries := x\<rparr>)) = cycles f + 2"
  using assms by (simp_all add: c6510_irq_def c6510_nmi_def c6510_read_interrupt_vector_def read_vector_def bus_read_def CYCLE_def
      union_views arch_def Let_def split: prod.split)

lemma frame_opcode_active:
  "\<exists>n. push_interrupt_frame (x\<lparr>opcode_active := a\<rparr>) = with_micro n (push_interrupt_frame x)"
proof -
  have "x\<lparr>opcode_active := a\<rparr> = with_micro (x\<lparr>opcode_active := a\<rparr>) x" by (simp add: with_micro_def)
  then show ?thesis by (metis with_micro_level_3(12))
qed

section \<open>The two executors agree\<close>

text \<open>
  C1. The resumable executor refines the one-shot executor. Whenever the instruction at the
  program counter is one the resumable path can begin (or an interrupt is taken), polling, beginning
  and stepping to completion ends after at most eight steps, in the state \<^verbatim>\<open>c6510_step\<close> reaches: the
  same registers, flags, bus effects, interrupt counters and clock, with only internal latches
  apart; and the number of steps is the cycle count \<^verbatim>\<open>c6510_step\<close> returns.
\<close>

theorem micro_refines_step:
  assumes "cpu_model m = CPU_6502"
    and "\<And>x. c6510_micro_poll_interrupt m = (INTERRUPT_NONE, x) \<Longrightarrow> c6510_micro_can_begin x (fst (fetch_opcode x))"
  shows "\<exists>k r. micro_instruction m = Some (k, r) \<and> arch r = arch (snd (c6510_step m)) \<and>
     fst (c6510_step m) = of_nat k \<and> k \<le> 8"
proof -
  obtain kind x where p: "c6510_micro_poll_interrupt m = (kind, x)" by (rule prod.exhaust)
  have x: "cpu_model x = CPU_6502" "cycles x = cycles m" using poll_clock [of m] assms(1) p by simp_all
  show ?thesis
  proof (cases kind)
    case INTERRUPT_NONE
    then show ?thesis
      using instruction_equivalent [OF x(1)] assms(2) p x
      by (auto simp: micro_instruction_def poll_step poll_opcode_active fetch_with_micro(7) Let_def)
  next
    case INTERRUPT_NMI
    obtain n where "push_interrupt_frame (x\<lparr>opcode_active := False\<rparr>) = with_micro n (push_interrupt_frame x)"
      using frame_opcode_active by blast
    then show ?thesis
      using interrupt_run [OF x(1), of INTERRUPT_NMI] INTERRUPT_NMI p x
      by (auto simp: micro_instruction_def poll_step poll_opcode_active entry_final frame_model micro_frame arch_with_micro
         c6510_micro_begin_interrupt_def Let_def)
  next
    case INTERRUPT_IRQ
    obtain n where "push_interrupt_frame (x\<lparr>opcode_active := False\<rparr>) = with_micro n (push_interrupt_frame x)"
      using frame_opcode_active by blast
    then show ?thesis
      using interrupt_run [OF x(1), of INTERRUPT_IRQ] INTERRUPT_IRQ p x
      by (auto simp: micro_instruction_def poll_step poll_opcode_active entry_final frame_model micro_frame arch_with_micro
         c6510_micro_begin_interrupt_def Let_def)
  qed
qed

theorem micro_refines_step_witness:
  "\<exists>k r. micro_instruction nop_machine = Some (k, r) \<and> arch r = arch (snd (c6510_step nop_machine)) \<and>
     fst (c6510_step nop_machine) = of_nat k \<and> k \<le> 8"
proof -
  have "c6510_micro_can_begin nop_machine (fst (fetch_opcode nop_machine))"
    by (simp add: nop_machine_def c6510_init_def c6510_micro_can_begin_def fetch_opcode_def read_opcode_def bus_read_def
      c6510_micro_op_class_def micro_documented_opcodes_def CYCLE_def)
  moreover have "c6510_micro_poll_interrupt nop_machine = (INTERRUPT_NONE, nop_machine)"
    by (simp add: nop_machine_def c6510_init_def c6510_micro_poll_interrupt_def c6510_nmi_pending_def c6510_irq_pending_def)
  ultimately show ?thesis
    using micro_refines_step [of nop_machine] by (simp add: nop_machine_def c6510_init_def)
qed

end
