(* ===== verification/C6510_Stack.thy ===== *)
theory C6510_Stack
  imports C6510_Dispatch
begin

text \<open>
  The stack of the 6510. Push and pull keep the stack pointer in page one, and so does every
  instruction of both executors; \<open>cpu_reachable\<close> collects the machines that power-on, reset,
  instructions, single cycles and interrupt sequences can reach. The locale \<open>stack_memory\<close> is what the
  processor asks of the bus it is wired to: page one behaves as memory. Under it, \<^verbatim>\<open>RTS\<close> undoes
  \<^verbatim>\<open>JSR\<close> and \<^verbatim>\<open>RTI\<close> undoes an interrupt entry, for any balanced code in between.
\<close>

section \<open>Definitions\<close>

text \<open>The stack pointer after a push and after a pull.\<close>

definition stack_ok :: "'u C6510 \<Rightarrow> bool" where
  "stack_ok m \<longleftrightarrow> 0x100 \<le> sp m \<and> sp m < 0x200"

definition sp_dec :: "u16 \<Rightarrow> u16" where
  "sp_dec s = (if s - 1 < 0x100 then s - 1 + 0x100 else s - 1)"

definition sp_inc :: "u16 \<Rightarrow> u16" where
  "sp_inc s = (if s + 1 \<ge> 0x200 then 0x100 else s + 1)"

text \<open>The operations through which the rest of the machine drives the processor.\<close>

inductive cpu_event :: "'u C6510 \<Rightarrow> 'u C6510 \<Rightarrow> bool" where
  step: "cpu_event m (snd (c6510_step m))"
| poll: "cpu_event m (snd (c6510_micro_poll_interrupt m))"
| micro_begin: "cpu_event m (c6510_micro_begin m)"
| micro_interrupt: "cpu_event m (c6510_micro_begin_interrupt kind m)"
| micro_step: "cpu_event m (snd (c6510_micro_step m))"
| set_overflow: "cpu_event m (c6510_set_overflow m)"
| reset: "cpu_event m (c6510_reset m)"

inductive cpu_reachable :: "'u C6510 \<Rightarrow> bool" where
  power_on: "cpu_reachable (c6510_init u rd wr)"
| event: "cpu_reachable m \<Longrightarrow> cpu_event m m' \<Longrightarrow> cpu_reachable m'"

section \<open>The stack pointer in the instruction executor\<close>

named_theorems cpu_stack "effect of the operations on the stack pointer"

lemma sp_bus [cpu_stack]:
  "sp (snd (bus_read k m a)) = sp m" "sp (bus_write k m a v) = sp m" "sp (CYCLE m) = sp m"
  "sp (put_register r v m) = sp m" "sp (set_register_to_value r v m) = sp m" "sp (set_flags v m) = sp m"
  by (cases r; simp add: bus_read_def bus_write_def CYCLE_def set_register_to_value_def set_flags_def split: prod.split)+

lemma unat_page_one: "unat (0x100 + ucast (x :: u8) :: u16) = 256 + unat x"
proof -
  have "256 + unat x < 65536" using unat_u8_less [of x] by linarith
  then show ?thesis by (simp add: unat_word_ariths)
qed

lemma page_one_byte: "0x100 \<le> (0x100 + ucast (x :: u8) :: u16)" "(0x100 + ucast (x :: u8) :: u16) < 0x200"
  using unat_u8_less [of x] unat_page_one [of x] by (simp_all add: word_le_nat_alt word_less_nat_alt)

lemma page_one_steps:
  assumes "0x100 \<le> s" "s < 0x200"
  shows "0x100 \<le> sp_dec s" "sp_dec s < 0x200" "0x100 \<le> sp_inc s" "sp_inc s < 0x200"
    and "sp_inc (sp_dec s) = s" "sp_dec (sp_inc s) = s"
proof -
  have n: "256 \<le> unat s" "unat s < 512" using assms by (simp_all add: word_le_nat_alt word_less_nat_alt)
  have d: "unat (s - 1) = unat s - 1" using n by (simp add: unat_sub word_le_nat_alt)
  have i: "unat (s + 1) = unat s + 1" using n by (simp add: unat_word_ariths)
  show "0x100 \<le> sp_dec s" "sp_dec s < 0x200" "0x100 \<le> sp_inc s" "sp_inc s < 0x200"
    "sp_inc (sp_dec s) = s" "sp_dec (sp_inc s) = s"
    using n d i by (auto simp: sp_dec_def sp_inc_def word_le_nat_alt word_less_nat_alt word_unat_eq_iff unat_word_ariths)
qed

lemma sp_pending [cpu_stack]:
  "sp (snd (c6510_irq_pending m)) = sp m" "sp (snd (c6510_nmi_pending m)) = sp m"
  by (simp_all add: c6510_irq_pending_def c6510_nmi_pending_def split: option.split prod.split)

lemma sp_level_1 [cpu_stack]:
  "sp (add_value_to_accumulator v m) = sp m"
  "sp (compare_bytes v w m) = sp m"
  "sp (subtract_value_from_accumulator v m) = sp m"
  "sp (ah_read_a16_sl2al m) = sp m"
  "sp (ah_read_pc m) = sp m"
  "sp (al_read_pc m) = sp m"
  "sp (branch m) = sp m"
  "sp (read_a16_ind_x m) = sp m"
  "sp (read_a16_ind_y m) = sp m"
  "sp (read_sp m) = sp m"
  "sp (sl_read_a16 m) = sp m"
  "sp (sl_write_a16 m) = sp m"
  "sp (index_dummy_read m) = sp m"
  "sp (read_pc_1 m) = sp m"
  "sp (read_pc m) = sp m"
  "sp (unstable_store_a16 v m) = sp m"
  "sp (c6510_read_interrupt_vector a m) = sp m"
  "sp (anc_imm m) = sp m"
  "sp (alr_imm m) = sp m"
  "sp (and_a16 m) = sp m"
  "sp (and_imm m) = sp m"
  "sp (arr_imm m) = sp m"
  "sp (asl_a m) = sp m"
  "sp (asl_a16 m) = sp m"
  "sp (branch_operand m) = sp m"
  "sp (bit_a16 m) = sp m"
  "sp (bit_imm m) = sp m"
  "sp (clc m) = sp m"
  "sp (cld m) = sp m"
  "sp (cli m) = sp m"
  "sp (clv m) = sp m"
  "sp (dea m) = sp m"
  "sp (dec_a16 m) = sp m"
  "sp (dex m) = sp m"
  "sp (dey m) = sp m"
  "sp (eor_a16 m) = sp m"
  "sp (eor_imm m) = sp m"
  "sp (inc_a16 m) = sp m"
  "sp (ina m) = sp m"
  "sp (inx m) = sp m"
  "sp (iny m) = sp m"
  "sp (jam_read a m) = sp m"
  "sp (jmp_a16 m) = sp m"
  "sp (jmp_ind m) = sp m"
  "sp (lax_a16 m) = sp m"
  "sp (lax_imm_und m) = sp m"
  "sp (lda_a16 m) = sp m"
  "sp (lda_imm m) = sp m"
  "sp (ldx_a16 m) = sp m"
  "sp (ldx_imm m) = sp m"
  "sp (ldy_a16 m) = sp m"
  "sp (ldy_imm m) = sp m"
  "sp (lsr_a m) = sp m"
  "sp (lsr_a16 m) = sp m"
  "sp (ora_a16 m) = sp m"
  "sp (ora_imm m) = sp m"
  "sp (rla_a16 m) = sp m"
  "sp (rol_a16 m) = sp m"
  "sp (ror_a16 m) = sp m"
  "sp (sta_a16 m) = sp m"
  "sp (sax_a16 m) = sp m"
  "sp (slo_a16 m) = sp m"
  "sp (sre_a16 m) = sp m"
  "sp (stx_a16 m) = sp m"
  "sp (sty_a16 m) = sp m"
  "sp (stz_a16 v m) = sp m"
  "sp (trb m) = sp m"
  "sp (tsb m) = sp m"
  "sp (xaa_imm m) = sp m"
  by (simp_all add: cpu_stack bus_defs union_views Let_def split_beta
        add_value_to_accumulator_def compare_bytes_def subtract_value_from_accumulator_def
        ah_read_a16_sl2al_def ah_read_pc_def al_read_pc_def branch_def read_a16_ind_x_def
        read_a16_ind_y_def read_sp_def sl_read_a16_def sl_write_a16_def index_dummy_read_def
        read_pc_1_def read_pc_def unstable_store_a16_def c6510_read_interrupt_vector_def
          anc_imm_def alr_imm_def and_a16_def
        and_imm_def arr_imm_def asl_a_def asl_a16_def branch_operand_def bit_a16_def bit_imm_def
        clc_def cld_def cli_def clv_def dea_def dec_a16_def dex_def dey_def eor_a16_def
        eor_imm_def inc_a16_def ina_def inx_def iny_def jam_read_def jmp_a16_def jmp_ind_def
        lax_a16_def lax_imm_und_def lda_a16_def lda_imm_def ldx_a16_def ldx_imm_def ldy_a16_def
        ldy_imm_def lsr_a_def lsr_a16_def ora_a16_def ora_imm_def rla_a16_def rol_a16_def
        ror_a16_def sta_a16_def sax_a16_def slo_a16_def sre_a16_def stx_a16_def sty_a16_def
        stz_a16_def trb_def tsb_def xaa_imm_def)

lemma sp_stack [cpu_stack]:
  "sp (push v m) = sp_dec (sp m)" "sp (snd (pull m)) = sp_inc (sp m)"
  by (simp_all add: push_def pull_def sp_dec_def sp_inc_def bus_defs cpu_stack Let_def)

lemma sp_level_2 [cpu_stack]:
  "sp (a_pipe m) = sp m"
  "sp (rmw_second_access m) = sp m"
  "sp (mix m) = sp m"
  "sp (miy m) = sp m"
  "sp (miyr m) = sp m"
  "sp (miyr_und m) = sp m"
  "sp (miz m) = sp m"
  "sp (mizy m) = sp m"
  "sp (c6510_irq m) = sp m"
  "sp (c6510_nmi m) = sp m"
  "sp (adc_a16 m) = sp m"
  "sp (adc_imm m) = sp m"
  "sp (ahx_a16 m) = sp m"
  "sp (axs_imm m) = sp m"
  "sp (bcc m) = sp m"
  "sp (bcs m) = sp m"
  "sp (beq m) = sp m"
  "sp (bmi m) = sp m"
  "sp (bne m) = sp m"
  "sp (bpl m) = sp m"
  "sp (bra m) = sp m"
  "sp (bvc m) = sp m"
  "sp (bvs m) = sp m"
  "sp (c6510_brk m) = sp m"
  "sp (cmp_a16 m) = sp m"
  "sp (cmp_imm m) = sp m"
  "sp (cpx_a16 m) = sp m"
  "sp (cpx_imm m) = sp m"
  "sp (cpy_a16 m) = sp m"
  "sp (cpy_imm m) = sp m"
  "sp (dcp_a16 m) = sp m"
  "sp (isc_a16 m) = sp m"
  "sp (jsr_a16 m) = sp m"
  "sp (rol_a m) = sp m"
  "sp (ror_a m) = sp m"
  "sp (rts m) = sp m"
  "sp (sbc_a16 m) = sp m"
  "sp (sbc_imm m) = sp m"
  "sp (sec m) = sp m"
  "sp (sed m) = sp m"
  "sp (sei m) = sp m"
  "sp (rra_a16 m) = sp m"
  "sp (shy_a16 m) = sp m"
  "sp (shx_a16 m) = sp m"
  "sp (tax m) = sp m"
  "sp (tay m) = sp m"
  "sp (tsx m) = sp m"
  "sp (txa m) = sp m"
  "sp (tya m) = sp m"
  by (simp_all add: cpu_stack bus_defs union_views Let_def split_beta a_pipe_def
        rmw_second_access_def mix_def miy_def miyr_def miyr_und_def miz_def mizy_def
        c6510_irq_def c6510_nmi_def adc_a16_def adc_imm_def ahx_a16_def axs_imm_def bcc_def
        bcs_def beq_def bmi_def bne_def bpl_def bra_def bvc_def bvs_def c6510_brk_def
        cmp_a16_def cmp_imm_def cpx_a16_def cpx_imm_def cpy_a16_def cpy_imm_def dcp_a16_def
        isc_a16_def jsr_a16_def rol_a_def ror_a_def rts_def sbc_a16_def sbc_imm_def sec_def
        sed_def sei_def rra_a16_def shy_a16_def shx_a16_def tax_def tay_def tsx_def txa_def
        tya_def)

lemma sp_stack_ops [cpu_stack]:
  "sp (ah_from_stack m) = sp_inc (sp m)"
  "sp (al_from_stack m) = sp_inc (sp m)"
  "sp (p_from_stack m) = sp_inc (sp m)"
  "sp (pla m) = sp_inc (sp m)"
  "sp (plp m) = sp_inc (sp m)"
  "sp (plx m) = sp_inc (sp m)"
  "sp (ply m) = sp_inc (sp m)"
  "sp (pc_hi_to_stack m) = sp_dec (sp m)"
  "sp (pc_lo_to_stack m) = sp_dec (sp m)"
  "sp (phx m) = sp_dec (sp m)"
  "sp (phy m) = sp_dec (sp m)"
  "sp (pha m) = sp_dec (sp m)"
  "sp (php m) = sp_dec (sp m)"
  by (simp_all add: cpu_stack bus_defs Let_def split_beta ah_from_stack_def al_from_stack_def p_from_stack_def pla_def plp_def plx_def ply_def pc_hi_to_stack_def pc_lo_to_stack_def phx_def phy_def pha_def php_def)

lemma stack_ok_loads:
  "stack_ok (txs m)" "stack_ok (las_a16 m)" "stack_ok (shs_a16 m)"
  by (simp_all add: stack_ok_def txs_def las_a16_def shs_a16_def cpu_stack bus_defs Let_def split_beta page_one_byte)

lemma sp_level_3 [cpu_stack]:
  "sp (ar m) = sp m"
  "sp (arw m) = sp m"
  "sp (aix m) = sp m"
  "sp (aipxr m) = sp m"
  "sp (aiy m) = sp m"
  "sp (aiyr m) = sp m"
  "sp (aiyr_und m) = sp m"
  "sp (aipxr_und m) = sp m"
  "sp (mixa m) = sp m"
  "sp (mixrw m) = sp m"
  "sp (mrw m) = sp m"
  "sp (jmp_ind_x m) = sp m"
  by (simp_all add: cpu_stack bus_defs union_views Let_def split_beta ar_def arw_def aix_def
        aipxr_def aiy_def aiyr_def aiyr_und_def aipxr_und_def mixa_def mixrw_def mrw_def
        jmp_ind_x_def)

lemma sp_frames [cpu_stack]:
  "sp (push_interrupt_frame m) = sp_dec (sp_dec (sp_dec (sp m)))" "sp (rti m) = sp_inc (sp m)"
  by (simp_all add: push_interrupt_frame_def rti_def cpu_stack bus_defs Let_def)

lemma sp_level_4 [cpu_stack]:
  "sp (aixrr m) = sp m"
  "sp (aipxrw m) = sp m"
  by (simp_all add: cpu_stack bus_defs union_views Let_def split_beta aixrr_def aipxrw_def)

lemma sp_level_5 [cpu_stack]:
  "sp (aixr_sel m) = sp m"
  by (simp_all add: cpu_stack bus_defs union_views Let_def split_beta aixr_sel_def)

lemma sp_jam [cpu_stack]: "sp (jam m) = sp m"
proof -
  have "sp ((jam_read a ^^ k) m) = sp m" for a k and m :: "'a C6510"
    by (induction k) (simp_all add: cpu_stack)
  then show ?thesis by (simp add: jam_def cpu_stack Let_def)
qed

lemma stack_ok_exec_opcode:
  assumes "stack_ok m"
  shows "stack_ok (exec_opcode op m)"
proof -
  have "\<forall>row\<in>set exec_table. length row = 16 \<and> (\<forall>f\<in>set row. stack_ok (f m))"
    unfolding exec_table_def exec_rows using assms
    by (simp add: stack_ok_loads) (simp add: stack_ok_def cpu_stack page_one_steps)
  moreover have "unat (drop_bit 4 op) < length (exec_table :: ('u C6510 \<Rightarrow> 'u C6510) list list)"
    by (simp add: exec_table_def unat_high_nibble less_mult_imp_div_less)
  moreover have "unat (op AND 0x0F) < 16" by (simp add: unat_low_nibble)
  ultimately show ?thesis unfolding exec_opcode_def by (metis nth_mem)
qed

lemma stack_ok_step:
  assumes "stack_ok m"
  shows "stack_ok (snd (c6510_step m))"
proof -
  have f: "stack_ok x \<Longrightarrow> stack_ok (exec_opcode (fst (fetch_opcode x)) (snd (fetch_opcode x)))" for x :: "'a C6510"
    by (rule stack_ok_exec_opcode) (simp add: stack_ok_def fetch_opcode_def read_opcode_def cpu_stack Let_def split_beta)
  show ?thesis using assms f
    by (simp add: c6510_step_def c6510_take_nmi_if_pending_def c6510_take_irq_if_pending_def Let_def split_beta
       stack_ok_def cpu_stack page_one_steps)
qed

section \<open>The stack pointer in the resumable executor\<close>

lemma sp_micro_cycles [cpu_stack]:
  "sp (snd (micro_read_operand m)) = sp m" "sp (snd (micro_data_read a m)) = sp m"
  "sp (snd (micro_pull m)) = sp_inc (sp m)" "sp (micro_push v m) = sp_dec (sp m)"
  "sp (micro_data_write a v m) = sp m" "sp (micro_dummy_read a m) = sp m"
  "sp (micro_rmw_dummy_write a m) = sp m"
  by (simp_all add: micro_read_operand_def micro_data_read_def micro_pull_def micro_push_def micro_data_write_def
      micro_dummy_read_def micro_rmw_dummy_write_def sp_dec_def cpu_stack bus_defs Let_def split_beta)

lemma sp_micro_operands [cpu_stack]:
  "sp (micro_operand_lo m) = sp m" "sp (micro_operand_hi m) = sp m" "sp (micro_operand_zp m) = sp m"
  "sp (micro_operand_scratch m) = sp m" "sp (micro_rmw_read a m) = sp m"
  by (simp_all add: micro_operand_lo_def micro_operand_hi_def micro_operand_zp_def micro_operand_scratch_def
      micro_rmw_read_def cpu_stack Let_def split_beta)

lemma sp_micro_values [cpu_stack]:
  "sp (snd (c6510_micro_rmw_value m)) = sp m" "sp (c6510_micro_apply_read_operation v m) = sp m"
  "sp (c6510_micro_set_lax v m) = sp m"
  by (simp_all add: c6510_micro_rmw_value_def undocumented_rmw_value_def documented_rmw_value_def
      c6510_micro_apply_read_operation_def c6510_micro_set_lax_def cpu_stack Let_def split_beta)

lemma sp_micro_finals [cpu_stack]:
  "sp (micro_rmw_write a m) = sp m" "sp (snd (micro_apply_read a m)) = sp m"
  "sp (snd (micro_wait m)) = sp m" "sp (snd (micro_done m)) = sp m"
  by (simp_all add: micro_rmw_write_def micro_apply_read_def micro_wait_def micro_done_def cpu_stack Let_def split_beta)

lemma stack_ok_let:
  "stack_ok e \<Longrightarrow> (\<And>x. stack_ok x \<Longrightarrow> stack_ok (snd (f x))) \<Longrightarrow> stack_ok (snd (Let e f))"
  by (simp add: Let_def)

lemma stack_ok_register_op: "stack_ok m \<Longrightarrow> stack_ok (snd (micro_register_op m))"
  unfolding micro_register_op_def
  by (rule stack_ok_let, simp add: stack_ok_def cpu_stack page_one_byte stack_page Let_def)+
     (simp add: stack_ok_def cpu_stack)

lemma stack_ok_flag_op: "stack_ok m \<Longrightarrow> stack_ok (snd (micro_flag_op m))"
  unfolding micro_flag_op_def
  by (rule stack_ok_let, simp add: stack_ok_def cpu_stack)+ (simp add: stack_ok_def cpu_stack)

lemma stack_ok_handlers:
  assumes "stack_ok m"
  shows "stack_ok (snd (micro_nop m))" "stack_ok (snd (micro_load_imm r m))"
    "stack_ok (snd (micro_done m))" "stack_ok (snd (micro_done (anc_imm m)))"
    "stack_ok (snd (micro_done (axs_imm m)))" "stack_ok (snd (micro_done (alr_imm m)))"
    "stack_ok (snd (micro_load_abs m))" "stack_ok (snd (micro_store_abs m))" "stack_ok (snd (micro_jmp_abs m))"
    "stack_ok (snd (micro_jmp_ind m))" "stack_ok (snd (micro_branch m))" "stack_ok (snd (micro_jsr m))"
    "stack_ok (snd (micro_rts m))" "stack_ok (snd (micro_alu_imm m))" "stack_ok (snd (micro_push_op m))"
    "stack_ok (snd (micro_pull_op m))" "stack_ok (snd (micro_rti m))" "stack_ok (snd (micro_brk m))"
    "stack_ok (snd (micro_step_interrupt m))" "stack_ok (micro_fetch m)"
  using assms
  by (simp_all add: stack_ok_def cpu_stack page_one_steps Let_def split_beta bus_defs
      micro_nop_def micro_load_imm_def micro_load_abs_def micro_store_abs_def
      micro_jmp_abs_def micro_jmp_ind_def micro_branch_def micro_jsr_def micro_rts_def micro_alu_imm_def
      micro_push_op_def micro_pull_op_def micro_rti_def micro_brk_def micro_step_interrupt_def
      micro_interrupt_cycle_def micro_fetch_def)

lemma stack_ok_operand_handlers:
  assumes "stack_ok m"
  shows
    "stack_ok (snd (micro_load_store_zp m))" "stack_ok (snd (micro_load_store_zp_indexed m))"
    "stack_ok (snd (micro_alu_zp m))" "stack_ok (snd (micro_alu_zp_x m))" "stack_ok (snd (micro_alu_abs m))"
    "stack_ok (snd (micro_abs_indexed m))" "stack_ok (snd (micro_x_ind m))" "stack_ok (snd (micro_ind_y m))"
    "stack_ok (snd (micro_rmw_zp m))" "stack_ok (snd (micro_rmw_zp_x m))" "stack_ok (snd (micro_rmw_abs m))"
    "stack_ok (snd (micro_rmw_abs_x m))" "stack_ok (snd (micro_step_und_nop m))"
    "stack_ok (snd (c6510_micro_step_practical_undocumented m))"
  using assms
  by (simp_all add: stack_ok_def cpu_stack Let_def split_beta bus_defs
      micro_load_store_zp_def micro_load_store_zp_indexed_def micro_alu_zp_def micro_alu_zp_x_def
      micro_alu_abs_def micro_abs_indexed_def micro_x_ind_def micro_ind_y_def micro_rmw_zp_def micro_rmw_zp_x_def
      micro_rmw_abs_def micro_rmw_abs_x_def micro_step_und_nop_def c6510_micro_step_practical_undocumented_def
      und_step_zp_def und_step_zp_indexed_def und_step_abs_def und_step_x_ind_def und_step_ind_y_def
      und_step_abs_indexed_def und_step_indexed_fixup_def und_step_indexed_tail_def und_lax_or_sax_def
      split: c6510_undocumented_mode.split)

lemma stack_ok_micro_step:
  assumes "stack_ok m"
  shows "stack_ok (snd (c6510_micro_step m))"
proof -
  note handlers = stack_ok_handlers [OF assms] stack_ok_operand_handlers [OF assms]
    stack_ok_register_op [OF assms] stack_ok_flag_op [OF assms]
  have "stack_ok (snd (micro_documented op m))" for op
    unfolding micro_documented_def
    by (simp only: if_distrib [of snd] if_distrib [of stack_ok] handlers if_cancel cong: if_cong)
  then have "stack_ok (snd (micro_dispatch m))"
    by (simp add: micro_dispatch_def handlers split: c6510_op_class.split)
  then show ?thesis
    by (simp add: c6510_micro_step_def handlers split_beta Let_def)
       (simp add: stack_ok_def micro_complete_def)
qed

lemma stack_ok_event: "cpu_event m m' \<Longrightarrow> stack_ok m \<Longrightarrow> stack_ok m'"
proof (induction rule: cpu_event.induct)
  case (poll m)
  then show ?case
    by (simp add: stack_ok_def c6510_micro_poll_interrupt_def cpu_stack Let_def split_beta)
next
  case (reset m)
  then show ?case by (simp add: stack_ok_def c6510_reset_def split_beta)
qed (simp_all add: stack_ok_step stack_ok_micro_step,
     simp_all add: stack_ok_def c6510_micro_begin_def c6510_micro_begin_interrupt_def c6510_set_overflow_def)

text \<open>
  C2. The stack pointer of every reachable machine stays in page one, whichever executor drives
  it: after power-on, no reset, instruction (undocumented ones included), interrupt entry or
  single cycle moves it out of \<^verbatim>\<open>0x0100..0x01FF\<close>.
\<close>

theorem stack_pointer_in_page_one: "cpu_reachable m \<Longrightarrow> 0x100 \<le> sp m \<and> sp m < 0x200"
proof (induction rule: cpu_reachable.induct)
  case (power_on u rd wr)
  then show ?case by (simp add: c6510_init_def)
next
  case (event m m')
  then show ?case using stack_ok_event [of m m'] by (simp add: stack_ok_def)
qed

theorem stack_pointer_in_page_one_witness:
  "0x100 \<le> sp (c6510_reset (latch_machine 0 False False)) \<and> sp (c6510_reset (latch_machine 0 False False)) < 0x200"
proof -
  have "cpu_reachable (c6510_init () (\<lambda>u _. (0, u)) (\<lambda>u _ _. u))" by (rule power_on)
  then have "cpu_reachable (c6510_reset (c6510_init () (\<lambda>u _. (0, u)) (\<lambda>u _ _. u)))" by (rule event [OF _ reset])
  from stack_pointer_in_page_one [OF this] show ?thesis
    by (simp add: latch_machine_def c6510_reset_def c6510_init_def)
qed

section \<open>Subroutines and interrupts over a stack in memory\<close>

lemma wiring [simp]:
  "read_fn (snd (bus_read k m a)) = read_fn m" "write_fn (snd (bus_read k m a)) = write_fn m"
  "read_fn (bus_write k m a v) = read_fn m" "write_fn (bus_write k m a v) = write_fn m"
  "read_fn (CYCLE m) = read_fn m" "write_fn (CYCLE m) = write_fn m"
  "read_fn (set_flags v m) = read_fn m" "write_fn (set_flags v m) = write_fn m"
  "user (CYCLE m) = user m" "user (set_flags v m) = user m"
  by (simp_all add: bus_read_def bus_write_def CYCLE_def set_flags_def split: prod.split)

lemma bus_pc [simp]:
  "pc (snd (bus_read k m a)) = pc m" "pc (bus_write k m a v) = pc m" "pc (CYCLE m) = pc m" "pc (set_flags v m) = pc m"
  by (simp_all add: bus_read_def bus_write_def CYCLE_def set_flags_def split: prod.split)

lemma pull_eq: "pull m = bus_read BUS_ACCESS_STACK_READ (m\<lparr>sp := sp_inc (sp m)\<rparr>) (sp_inc (sp m))"
  by (simp add: pull_def read_stack_def sp_inc_def Let_def)

lemma sp_dec_neq: "sp_dec s \<noteq> s"
  by (simp add: sp_dec_def)

lemma push_fields [simp]:
  "pc (push v m) = pc m" "read_fn (push v m) = read_fn m" "write_fn (push v m) = write_fn m"
  by (simp_all add: push_def write_stack_def Let_def)

lemma jsr_body: "exec_opcode JSR_abs c = jsr_a16 (pc_lo_to_stack (pc_hi_to_stack (read_sp (al_read_pc c))))"
  by (simp add: exec_opcode_def exec_table_def exec_rows)

lemma sp_dec_dec_neq: "sp_dec (sp_dec s) \<noteq> s"
  by (simp add: sp_dec_def)

lemma rts_body: "exec_opcode RTS c = rts (ah_from_stack (al_from_stack (read_sp (read_pc c))))"
  by (simp add: exec_opcode_def exec_table_def exec_rows)

lemma rti_body: "exec_opcode RTI c = rti (al_from_stack (p_from_stack (read_sp (read_pc c))))"
  by (simp add: exec_opcode_def exec_table_def exec_rows)

lemma flags_frame:
  "cpu_flags (snd (bus_read k m a)) = cpu_flags m" "cpu_flags (bus_write k m a v) = cpu_flags m"
  "cpu_flags (CYCLE m) = cpu_flags m" "cpu_flags (push v m) = cpu_flags m" "cpu_flags (snd (pull m)) = cpu_flags m"
  "cpu_flags (m\<lparr>address_lo := x\<rparr>) = cpu_flags m" "cpu_flags (m\<lparr>address_hi := x\<rparr>) = cpu_flags m"
  "cpu_flags (m\<lparr>pc := w\<rparr>) = cpu_flags m"  "cpu_flags (m\<lparr>opcode_pc := w\<rparr>) = cpu_flags m"
  by (simp_all add: cpu_flags_def bus_read_def bus_write_def CYCLE_def push_def pull_eq write_stack_def Let_def split_beta)

lemma cpu_flags_set_flags: "cpu_flags (set_flags v m) = v"
  by (simp add: u8_eq_bits bit_cpu_flags [simplified] bit_cpu_flags set_flags_def)

lemma pull_address:
  "address_lo (snd (pull m)) = address_lo m" "address_hi (snd (pull m)) = address_hi m" "address_lo (CYCLE m) = address_lo m"
  "address_hi (CYCLE m) = address_hi m"
  by (simp_all add: pull_eq bus_read_def CYCLE_def split_beta)

locale stack_memory =
  fixes rd :: "'u \<Rightarrow> u16 \<Rightarrow> u8 \<times> 'u"
    and wr :: "'u \<Rightarrow> u16 \<Rightarrow> u8 \<Rightarrow> 'u"
    and cell :: "'u \<Rightarrow> u16 \<Rightarrow> u8"
  assumes read_cell: "0x100 \<le> a \<Longrightarrow> a < 0x200 \<Longrightarrow> fst (rd u a) = cell u a"
    and read_keeps: "0x100 \<le> b \<Longrightarrow> b < 0x200 \<Longrightarrow> cell (snd (rd u a)) b = cell u b"
    and write_cell: "0x100 \<le> a \<Longrightarrow> a < 0x200 \<Longrightarrow> 0x100 \<le> b \<Longrightarrow> b < 0x200 \<Longrightarrow>
      cell (wr u a v) b = (if b = a then v else cell u b)"
begin

lemma bus_read_cell:
  assumes "read_fn m = rd" "0x100 \<le> b" "b < 0x200"
  shows "cell (user (snd (bus_read k m a))) b = cell (user m) b" "fst (bus_read k m b) = cell (user m) b"
  using assms read_keeps [of b "user m" a] read_cell [of b "user m"] by (simp_all add: bus_read_def split_beta)

lemma push_cell:
  assumes "write_fn m = wr" "stack_ok m" "0x100 \<le> b" "b < 0x200"
  shows "cell (user (push v m)) b = (if b = sp m then v else cell (user m) b)"
  using assms write_cell [of "sp m" b] by (auto simp: push_def write_stack_def bus_write_def stack_ok_def Let_def)

lemma pull_cell:
  assumes "read_fn m = rd" "stack_ok m"
  shows "fst (pull m) = cell (user m) (sp_inc (sp m))"
    and "0x100 \<le> b \<Longrightarrow> b < 0x200 \<Longrightarrow> cell (user (snd (pull m))) b = cell (user m) b"
  using assms page_one_steps [of "sp m"] by (simp_all add: pull_eq bus_read_cell stack_ok_def)

lemma jsr_frame:
  fixes c :: "'u C6510"
  assumes "read_fn c = rd" "write_fn c = wr" "stack_ok c"
  defines "m \<equiv> exec_opcode JSR_abs c"
  shows "sp m = sp_dec (sp_dec (sp c))" "cell (user m) (sp c) = hi8 (pc c + 1)"
    "cell (user m) (sp_dec (sp c)) = lo8 (pc c + 1)"
proof -
  have s: "0x100 \<le> sp c" "sp c < 0x200" "0x100 \<le> sp_dec (sp c)" "sp_dec (sp c) < 0x200" "sp_dec (sp c) \<noteq> sp c"
    using assms(3) page_one_steps [of "sp c"] sp_dec_neq [of "sp c"] by (simp_all add: stack_ok_def)
  show "sp m = sp_dec (sp_dec (sp c))" "cell (user m) (sp c) = hi8 (pc c + 1)"
    "cell (user m) (sp_dec (sp c)) = lo8 (pc c + 1)"
    using assms(1,2) s
    by (simp_all add: m_def jsr_body jsr_a16_def ah_read_pc_def pc_lo_to_stack_def pc_hi_to_stack_def read_sp_def
        al_read_pc_def bus_defs Let_def split_beta cpu_stack bus_read_cell push_cell stack_ok_def)
qed

lemma pull_fields:
  "pc (snd (pull m)) = pc m" "read_fn (snd (pull m)) = read_fn m" "write_fn (snd (pull m)) = write_fn m"
  by (simp_all add: pull_eq)

lemma rts_return:
  fixes n :: "'u C6510"
  assumes "read_fn n = rd" "stack_ok n"
  defines "r \<equiv> exec_opcode RTS n" and "lo \<equiv> sp_inc (sp n)"
  shows "sp r = sp_inc lo" "pc r = w16 (cell (user n) (sp_inc lo)) (cell (user n) lo) + 1"
proof -
  have s: "0x100 \<le> sp n" "sp n < 0x200" "0x100 \<le> lo" "lo < 0x200" "0x100 \<le> sp_inc lo" "sp_inc lo < 0x200"
    using assms(2) page_one_steps [of "sp n"] page_one_steps [of lo] by (simp_all add: stack_ok_def lo_def)
  show "sp r = sp_inc lo" "pc r = w16 (cell (user n) (sp_inc lo)) (cell (user n) lo) + 1"
    using assms(1) s lo_def
    by (simp_all add: r_def rts_body rts_def al_read_pc_def ah_from_stack_def al_from_stack_def read_sp_def read_pc_def
        bus_defs Let_def split_beta cpu_stack bus_read_cell pull_cell pull_fields stack_ok_def address_16_def pull_address)
qed

lemma interrupt_frame:
  fixes c :: "'u C6510"
  assumes "read_fn c = rd" "write_fn c = wr" "stack_ok c"
  defines "m \<equiv> push_interrupt_frame c" and "s1 \<equiv> sp_dec (sp c)" and "s2 \<equiv> sp_dec (sp_dec (sp c))"
  shows "sp m = sp_dec s2" "cell (user m) (sp c) = hi8 (pc c)" "cell (user m) s1 = lo8 (pc c)"
    "cell (user m) s2 = (cpu_flags c AND NOT 0x10) OR 0x20"
proof -
  have s: "0x100 \<le> sp c" "sp c < 0x200" "0x100 \<le> s1" "s1 < 0x200" "0x100 \<le> s2" "s2 < 0x200"
     "s1 \<noteq> sp c" "s2 \<noteq> s1" "s2 \<noteq> sp c" "sp c \<noteq> s1" "s1 \<noteq> s2" "sp c \<noteq> s2"
    using assms(3) page_one_steps [of "sp c"] page_one_steps [of s1] sp_dec_neq [of "sp c"] sp_dec_neq [of s1]
      sp_dec_dec_neq [of "sp c"]
    by (auto simp add: stack_ok_def s1_def s2_def)
  show "sp m = sp_dec s2" "cell (user m) (sp c) = hi8 (pc c)" "cell (user m) s1 = lo8 (pc c)"
    "cell (user m) s2 = (cpu_flags c AND NOT 0x10) OR 0x20"
    using assms(1,2) s s1_def s2_def
    by (simp_all add: m_def push_interrupt_frame_def pc_lo_to_stack_def pc_hi_to_stack_def read_sp_def
        bus_defs Let_def split_beta cpu_stack bus_read_cell push_cell stack_ok_def flags_frame)
qed

lemma rti_return:
  fixes n :: "'u C6510"
  assumes "read_fn n = rd" "stack_ok n"
  defines "r \<equiv> exec_opcode RTI n" and "p \<equiv> sp_inc (sp n)"
  shows "sp r = sp_inc (sp_inc p)"
    "pc r = w16 (cell (user n) (sp_inc (sp_inc p))) (cell (user n) (sp_inc p))"
    "cpu_flags r = (cell (user n) p AND NOT 0x10) OR 0x20"
proof -
  have s: "0x100 \<le> sp n" "sp n < 0x200" "0x100 \<le> p" "p < 0x200" "0x100 \<le> sp_inc p" "sp_inc p < 0x200"
    "0x100 \<le> sp_inc (sp_inc p)" "sp_inc (sp_inc p) < 0x200"
    using assms(2) page_one_steps [of "sp n"] page_one_steps [of p] page_one_steps [of "sp_inc p"]
    by (simp_all add: stack_ok_def p_def)
  show "sp r = sp_inc (sp_inc p)"
    "pc r = w16 (cell (user n) (sp_inc (sp_inc p))) (cell (user n) (sp_inc p))"
    "cpu_flags r = (cell (user n) p AND NOT 0x10) OR 0x20"
    using assms(1) s p_def
    by (simp_all add: r_def rti_body rti_def ah_from_stack_def al_from_stack_def p_from_stack_def read_sp_def read_pc_def
        bus_defs Let_def split_beta cpu_stack bus_read_cell pull_cell pull_fields stack_ok_def address_16_def flags_frame
        cpu_flags_set_flags pull_address)
qed

lemma subroutine_returns:
  fixes c n :: "'u C6510"
  assumes "read_fn c = rd" "write_fn c = wr" "stack_ok c" "read_fn n = rd"
    and "sp n = sp (exec_opcode JSR_abs c)"
    and "\<And>a. a \<in> {sp c, sp_dec (sp c)} \<Longrightarrow> cell (user n) a = cell (user (exec_opcode JSR_abs c)) a"
  shows "pc (exec_opcode RTS n) = pc c + 2 \<and> sp (exec_opcode RTS n) = sp c"
proof -
  note f = jsr_frame [OF assms(1-3)]
  have s: "0x100 \<le> sp c" "sp c < 0x200" "0x100 \<le> sp_dec (sp c)" "sp_dec (sp c) < 0x200"
    using assms(3) page_one_steps [of "sp c"] by (simp_all add: stack_ok_def)
  have n: "sp_inc (sp n) = sp_dec (sp c)" "sp_inc (sp_dec (sp c)) = sp c" "stack_ok n"
    using page_one_steps [OF s(3,4)] page_one_steps [OF s(1,2)] f(1) assms(5) by (simp_all add: stack_ok_def)
  show ?thesis
    using rts_return [OF assms(4) n(3)] n f(2,3) assms(6) by (simp add: add.assoc)
qed

lemma interrupt_returns:
  fixes c n :: "'u C6510"
  assumes "read_fn c = rd" "write_fn c = wr" "stack_ok c" "read_fn n = rd"
    and "sp n = sp (push_interrupt_frame c)"
    and "\<And>a. a \<in> {sp c, sp_dec (sp c), sp_dec (sp_dec (sp c))} \<Longrightarrow>
      cell (user n) a = cell (user (push_interrupt_frame c)) a"
  shows "pc (exec_opcode RTI n) = pc c \<and> sp (exec_opcode RTI n) = sp c \<and>
    cpu_flags (exec_opcode RTI n) = (cpu_flags c AND NOT 0x10) OR 0x20"
proof -
  note f = interrupt_frame [OF assms(1-3)]
  have s: "0x100 \<le> sp c" "sp c < 0x200" "0x100 \<le> sp_dec (sp c)" "sp_dec (sp c) < 0x200"
     "0x100 \<le> sp_dec (sp_dec (sp c))" "sp_dec (sp_dec (sp c)) < 0x200"
    using assms(3) page_one_steps [of "sp c"] page_one_steps [of "sp_dec (sp c)"] by (simp_all add: stack_ok_def)
  have n: "sp_inc (sp n) = sp_dec (sp_dec (sp c))" "sp_inc (sp_dec (sp_dec (sp c))) = sp_dec (sp c)"
    "sp_inc (sp_dec (sp c)) = sp c" "stack_ok n"
    using page_one_steps [OF s(5,6)] page_one_steps [OF s(3,4)] page_one_steps [OF s(1,2)] f(1) assms(5)
    by (simp_all add: stack_ok_def)
  have "((x AND NOT 0x10) OR 0x20) AND NOT 0x10 OR 0x20 = (x AND NOT 0x10) OR (0x20 :: u8)" for x
    by (simp add: u8_eq_bits bit_simps)
  then show ?thesis
    using rti_return [OF assms(4) n(4)] n f(2-4) assms(6) by simp
qed

end

end
