(* ===== verification/C6510_Predict.thy ===== *)
theory C6510_Predict
  imports C6510_Equiv_Undoc C6510_Clock
begin

text \<open>
  Does \<^verbatim>\<open>c6510_micro_access_kind\<close> tell the truth? Every cycle of the resumable executor records the
  kind of its bus access; the lemmas give that kind for every handler, phase and opcode, and the
  two theorems compare it with the prediction made before the cycle.
\<close>

section \<open>Definitions\<close>


definition ind_y_opcodes :: "u8 set" where
  "ind_y_opcodes = {LDA_ind_Y, STA_ind_Y, ORA_ind_Y, AND_ind_Y, EOR_ind_Y, ADC_ind_Y, SBC_ind_Y, CMP_ind_Y}"

text \<open>The last phase of an undocumented load or store; the read-modify-write family runs on.\<close>

definition und_last_phase :: "c6510_undocumented_mode \<Rightarrow> u8" where
  "und_last_phase mode =
     (case mode of UND_MODE_ZP \<Rightarrow> 2 | UND_MODE_ZP_INDEXED \<Rightarrow> 3 | UND_MODE_ABS \<Rightarrow> 3 | UND_MODE_X_IND \<Rightarrow> 5
      | UND_MODE_IND_Y \<Rightarrow> 5 | _ \<Rightarrow> 4)"

text \<open>
  The suspended states an instruction goes through, apart from the documented \<^verbatim>\<open>(zp),Y\<close>
  instructions: an instruction about to be fetched, an interrupt sequence, or an instruction of the
  resumable path in one of its phases.
\<close>

definition predictable :: "'u C6510 \<Rightarrow> bool" where
  "predictable m \<longleftrightarrow>
     micro_phase m = 0 \<or> micro_is_interrupt m \<or>
     micro_opcode m \<in> micro_documented_opcodes \<and> micro_opcode m \<notin> ind_y_opcodes \<and>
       (micro_opcode m = JSR_abs \<longrightarrow> micro_phase m \<le> 5) \<or>
     c6510_micro_is_practical_undocumented (micro_opcode m) \<and>
       (c6510_micro_is_undocumented_rmw (micro_opcode m) \<or>
        micro_phase m \<le> und_last_phase (c6510_micro_undocumented_mode (micro_opcode m))) \<or>
     c6510_micro_is_undocumented_nop (micro_opcode m)"

definition sta_ind_y_machine :: "u8 \<Rightarrow> unit C6510" where
  "sta_ind_y_machine p = (latch_machine 0 False False)\<lparr>micro_active := True, micro_opcode := STA_ind_Y, micro_phase := p\<rparr>"

named_theorems micro_kind "kind of the bus access of each cycle of the resumable path"

section \<open>Lemmas\<close>

lemma kind_bus [micro_kind]:
  "bus_access_kind (snd (bus_read k m a)) = k" "bus_access_kind (bus_write k m a v) = k"
  "bus_access_kind (CYCLE m) = bus_access_kind m"
  "bus_access_kind (set_register_to_value r v m) = bus_access_kind m"
  "bus_access_kind (set_flags f m) = bus_access_kind m"
  "bus_access_kind (compare_bytes x y m) = bus_access_kind m"
  "cpu_model m = CPU_6502 \<Longrightarrow> bus_access_kind (add_value_to_accumulator v m) = bus_access_kind m"
  "cpu_model m = CPU_6502 \<Longrightarrow> bus_access_kind (subtract_value_from_accumulator v m) = bus_access_kind m"
  by (cases r; simp add: bus_read_def bus_write_def CYCLE_def set_register_to_value_def set_flags_def compare_bytes_def
      adc_closed sbc_closed split: prod.split)+

lemma kind_stack [micro_kind]:
  "bus_access_kind (snd (pull m)) = BUS_ACCESS_STACK_READ" "bus_access_kind (push v m) = BUS_ACCESS_STACK_WRITE"
  by (simp_all add: push_def pull_def bus_defs Let_def micro_kind)

lemma kind_cycles [micro_kind]:
  "bus_access_kind (snd (micro_read_operand m)) = BUS_ACCESS_OPERAND_READ"
  "bus_access_kind (snd (micro_data_read a m)) = BUS_ACCESS_DATA_READ"
  "bus_access_kind (snd (micro_pull m)) = BUS_ACCESS_STACK_READ"
  "bus_access_kind (micro_push v m) = BUS_ACCESS_STACK_WRITE"
  "bus_access_kind (micro_data_write a v m) = BUS_ACCESS_DATA_WRITE"
  "bus_access_kind (micro_dummy_read a m) = BUS_ACCESS_DUMMY_READ"
  "bus_access_kind (micro_rmw_dummy_write a m) = BUS_ACCESS_RMW_DUMMY_WRITE"
  by (simp_all add: micro_read_operand_def micro_data_read_def micro_pull_def micro_push_def micro_data_write_def
      micro_dummy_read_def micro_rmw_dummy_write_def micro_kind bus_defs Let_def split_beta)

lemma kind_operands [micro_kind]:
  "bus_access_kind (micro_operand_lo m) = BUS_ACCESS_OPERAND_READ" "bus_access_kind (micro_operand_hi m) = BUS_ACCESS_OPERAND_READ"
  "bus_access_kind (micro_operand_zp m) = BUS_ACCESS_OPERAND_READ" "bus_access_kind (micro_operand_scratch m) = BUS_ACCESS_OPERAND_READ"
  "bus_access_kind (micro_rmw_read a m) = BUS_ACCESS_DATA_READ"
  "bus_access_kind (micro_rmw_write a m) = BUS_ACCESS_DATA_WRITE"
  "bus_access_kind (snd (micro_wait m)) = bus_access_kind m" "bus_access_kind (snd (micro_done m)) = bus_access_kind m"
  "bus_access_kind (micro_complete m) = bus_access_kind m"
  by (simp_all add: micro_operand_lo_def micro_operand_hi_def micro_operand_zp_def micro_operand_scratch_def
      micro_rmw_read_def micro_rmw_write_def micro_wait_def micro_done_def micro_complete_def micro_kind Let_def split_beta)

lemma kind_apply_read [micro_kind]:
  "cpu_model m = CPU_6502 \<Longrightarrow> bus_access_kind (snd (micro_apply_read a m)) = BUS_ACCESS_DATA_READ"
  by (simp add: micro_apply_read_def c6510_micro_apply_read_operation_def micro_kind stage_clock Let_def split_beta)

lemma let_kind:
  "bus_access_kind e = k \<Longrightarrow> (\<And>x. bus_access_kind x = k \<Longrightarrow> bus_access_kind (snd (f x)) = k) \<Longrightarrow>
   bus_access_kind (snd (Let e f)) = k"
  by (simp add: Let_def)

lemma kind_flag_op [micro_kind]: "bus_access_kind (snd (micro_flag_op m)) = BUS_ACCESS_DUMMY_READ"
  unfolding micro_flag_op_def by (rule let_kind, simp add: micro_kind)+ (simp add: micro_kind)

lemma kind_register_op [micro_kind]: "bus_access_kind (snd (micro_register_op m)) = BUS_ACCESS_DUMMY_READ"
  unfolding micro_register_op_def by (rule let_kind, simp add: micro_kind Let_def)+ (simp add: micro_kind)

lemma early_phase:
  fixes p :: u8
  assumes "p \<noteq> 0"
  shows "p < 3 \<longleftrightarrow> p = 1 \<or> p = 2" "p < 4 \<longleftrightarrow> p = 1 \<or> p = 2 \<or> p = 3" "p < 5 \<longleftrightarrow> p = 1 \<or> p = 2 \<or> p = 3 \<or> p = 4"
  "p \<le> 4 \<longleftrightarrow> p = 1 \<or> p = 2 \<or> p = 3 \<or> p = 4"
  "p \<le> 5 \<longleftrightarrow> p = 1 \<or> p = 2 \<or> p = 3 \<or> p = 4 \<or> p = 5"
  using assms by (auto simp: word_less_nat_alt word_le_nat_alt word_unat_eq_iff)

lemmas dispatch_all = dispatch_micro_nop dispatch_LDA_imm dispatch_UND_0B dispatch_UND_CB dispatch_UND_4B dispatch_LDX_imm
  dispatch_LDY_imm dispatch_micro_load_abs dispatch_micro_store_abs dispatch_micro_jmp_abs dispatch_micro_jmp_ind
  dispatch_micro_branch dispatch_micro_jsr dispatch_micro_rts dispatch_micro_alu_imm dispatch_micro_flag_op
  dispatch_micro_register_op dispatch_micro_push_op dispatch_micro_pull_op dispatch_micro_rti dispatch_micro_brk
  dispatch_micro_load_store_zp dispatch_micro_load_store_zp_indexed dispatch_micro_alu_zp dispatch_micro_alu_zp_x
  dispatch_micro_alu_abs dispatch_micro_abs_indexed dispatch_micro_x_ind dispatch_micro_ind_y dispatch_micro_rmw_zp
  dispatch_micro_rmw_zp_x dispatch_micro_rmw_abs dispatch_micro_rmw_abs_x

lemmas handler_defs = micro_nop_def micro_load_imm_def anc_imm_def axs_imm_def alr_imm_def micro_load_abs_def
  micro_store_abs_def micro_jmp_abs_def micro_jmp_ind_def micro_branch_def micro_jsr_def micro_rts_def micro_alu_imm_def
  micro_push_op_def micro_pull_op_def micro_rti_def micro_brk_def micro_load_store_zp_def
  micro_load_store_zp_indexed_def micro_alu_zp_def micro_alu_zp_x_def micro_alu_abs_def micro_abs_indexed_def
  micro_x_ind_def micro_rmw_zp_def micro_rmw_zp_x_def micro_rmw_abs_def micro_rmw_abs_x_def

lemma kind_documented_1:
  assumes "micro_phase m \<noteq> 0" "cpu_model m = CPU_6502" and "micro_opcode m = JSR_abs \<Longrightarrow> micro_phase m \<le> 5"
    and "micro_opcode m \<in> {
      NOP, LDA_imm, LDX_imm, LDY_imm, UND_0B, UND_2B, UND_CB, UND_4B, LDA_abs, LDX_abs, LDY_abs,
      STA_abs, STX_abs, STY_abs, JMP_abs, JMP_ind, BPL_rel, BMI_rel, BVC_rel, BVS_rel, BCC_rel,
      BCS_rel, BNE_rel, BEQ_rel, JSR_abs}"
  shows "bus_access_kind (snd (micro_dispatch m)) = micro_access_documented (micro_opcode m) m"
  using assms(3-)
  by (elim insertE emptyE; simp only: micro_access_documented_def micro_access_documented_indexed_def u8_decide dispatch_all
       early_phase [OF assms(1)])
    (auto simp: handler_defs micro_kind assms(2) stage_clock bus_defs Let_def split_beta)

lemma kind_documented_2:
  assumes "micro_phase m \<noteq> 0" "cpu_model m = CPU_6502"
    and "micro_opcode m \<in> {
      RTS, ORA_imm, AND_imm, EOR_imm, ADC_imm, SBC_imm, CMP_imm, CPX_imm, CPY_imm, CLC, SEC, CLI,
      SEI, CLD, SED, CLV, INX, INY, DEX, DEY, TAX, TAY, TXA, TYA, TSX}"
  shows "bus_access_kind (snd (micro_dispatch m)) = micro_access_documented (micro_opcode m) m"
  using assms(3-)
  by (elim insertE emptyE; simp only: micro_access_documented_def micro_access_documented_indexed_def u8_decide dispatch_all
       early_phase [OF assms(1)])
    (auto simp: handler_defs micro_kind assms(2) stage_clock bus_defs Let_def split_beta)

lemma kind_documented_3:
  assumes "micro_phase m \<noteq> 0" "cpu_model m = CPU_6502"
    and "micro_opcode m \<in> {
      TXS, ASL_A, ROL_A, LSR_A, ROR_A, PHA, PHP, PLA, PLP, RTI, BRK, LDA_zpg, LDX_zpg, LDY_zpg,
      STA_zpg, STX_zpg, STY_zpg, ORA_zpg, AND_zpg, EOR_zpg, ADC_zpg, SBC_zpg, CMP_zpg, CPX_zpg,
      CPY_zpg}"
  shows "bus_access_kind (snd (micro_dispatch m)) = micro_access_documented (micro_opcode m) m"
  using assms(3-)
  by (elim insertE emptyE; simp only: micro_access_documented_def micro_access_documented_indexed_def u8_decide dispatch_all
       early_phase [OF assms(1)])
    (auto simp: handler_defs micro_kind assms(2) stage_clock bus_defs Let_def split_beta)

lemma kind_documented_4:
  assumes "micro_phase m \<noteq> 0" "cpu_model m = CPU_6502"
    and "micro_opcode m \<in> {
      BIT_zpg, BIT_abs, ORA_abs, AND_abs, EOR_abs, ADC_abs, SBC_abs, CMP_abs, CPX_abs, CPY_abs,
      ORA_zpg_X, AND_zpg_X, EOR_zpg_X, ADC_zpg_X, SBC_zpg_X, CMP_zpg_X, ORA_abs_X, ORA_abs_Y,
      ORA_X_ind, AND_abs_X, AND_abs_Y, AND_X_ind, EOR_abs_X, EOR_abs_Y, EOR_X_ind}"
  shows "bus_access_kind (snd (micro_dispatch m)) = micro_access_documented (micro_opcode m) m"
  using assms(3-)
  by (elim insertE emptyE; simp only: micro_access_documented_def micro_access_documented_indexed_def u8_decide dispatch_all
       early_phase [OF assms(1)])
    (auto simp: handler_defs micro_kind assms(2) stage_clock bus_defs Let_def split_beta)

lemma kind_documented_5:
  assumes "micro_phase m \<noteq> 0" "cpu_model m = CPU_6502"
    and "micro_opcode m \<in> {
      ADC_abs_X, ADC_abs_Y, ADC_X_ind, SBC_abs_X, SBC_abs_Y, SBC_X_ind, CMP_abs_X, CMP_abs_Y,
      CMP_X_ind, LDA_X_ind, STA_X_ind, LDA_zpg_X, LDX_zpg_Y, LDY_zpg_X, STA_zpg_X, STX_zpg_Y,
      STY_zpg_X, LDA_abs_X, LDA_abs_Y, LDX_abs_Y, LDY_abs_X, STA_abs_X, STA_abs_Y, ASL_zpg,
      ROL_zpg}"
  shows "bus_access_kind (snd (micro_dispatch m)) = micro_access_documented (micro_opcode m) m"
  using assms(3-)
  by (elim insertE emptyE; simp only: micro_access_documented_def micro_access_documented_indexed_def u8_decide dispatch_all
       early_phase [OF assms(1)])
    (auto simp: handler_defs micro_kind assms(2) stage_clock bus_defs Let_def split_beta)

lemma kind_documented_6:
  assumes "micro_phase m \<noteq> 0" "cpu_model m = CPU_6502"
    and "micro_opcode m \<in> {
      LSR_zpg, ROR_zpg, DEC_zpg, INC_zpg, ASL_abs, ROL_abs, LSR_abs, ROR_abs, DEC_abs, INC_abs,
      ASL_zpg_X, ROL_zpg_X, LSR_zpg_X, ROR_zpg_X, DEC_zpg_X, INC_zpg_X, ASL_abs_X, ROL_abs_X,
      LSR_abs_X, ROR_abs_X, DEC_abs_X, INC_abs_X}"
  shows "bus_access_kind (snd (micro_dispatch m)) = micro_access_documented (micro_opcode m) m"
  using assms(3-)
  by (elim insertE emptyE; simp only: micro_access_documented_def micro_access_documented_indexed_def u8_decide dispatch_all
       early_phase [OF assms(1)])
    (auto simp: handler_defs micro_kind assms(2) stage_clock bus_defs Let_def split_beta)

lemma lax_modes:
  "c6510_micro_is_practical_undocumented op \<Longrightarrow> \<not> c6510_micro_is_undocumented_rmw op \<Longrightarrow> \<not> c6510_micro_is_lax op \<Longrightarrow>
   c6510_micro_undocumented_mode op \<in> {UND_MODE_ZP, UND_MODE_ZP_INDEXED, UND_MODE_ABS, UND_MODE_X_IND}"
  unfolding c6510_micro_is_practical_undocumented_def
  by (elim insertE emptyE; simp only: c6510_micro_is_undocumented_rmw_def c6510_micro_is_lax_def u8_decide undocumented_modes)

lemma kind_undocumented:
  assumes "micro_phase m \<noteq> 0" "c6510_micro_is_practical_undocumented (micro_opcode m)"
   and "c6510_micro_is_undocumented_rmw (micro_opcode m) \<or> micro_phase m \<le> und_last_phase (c6510_micro_undocumented_mode (micro_opcode m))"
  shows "bus_access_kind (snd (micro_dispatch m)) = micro_access_undocumented m"
  using assms(2,3) lax_modes [of "micro_opcode m"] lax_not_rmw [of "micro_opcode m"]
  by (auto simp add: micro_dispatch_def undocumented_class c6510_micro_step_practical_undocumented_def micro_access_undocumented_def
       und_data_access_def early_phase [OF assms(1)] und_step_zp_def und_step_zp_indexed_def und_step_abs_def und_step_x_ind_def und_step_ind_y_def
      und_step_abs_indexed_def und_step_indexed_fixup_def und_step_indexed_tail_def und_lax_or_sax_def c6510_micro_set_lax_def
      micro_kind bus_defs Let_def split_beta und_last_phase_def split: c6510_undocumented_mode.splits)

lemma kind_und_nop:
  assumes "micro_phase m \<noteq> 0" "c6510_micro_is_undocumented_nop (micro_opcode m)"
  shows "bus_access_kind (snd (micro_dispatch m)) = micro_access_und_nop m"
  using assms(2) by (simp add: micro_dispatch_def undocumented_class micro_step_und_nop_def micro_access_und_nop_def early_phase [OF assms(1)]
      micro_kind bus_defs Let_def split_beta)

lemma kind_documented:
  assumes "micro_phase m \<noteq> 0" "cpu_model m = CPU_6502" "micro_opcode m = JSR_abs \<Longrightarrow> micro_phase m \<le> 5"
    and "micro_opcode m \<in> micro_documented_opcodes" "micro_opcode m \<notin> ind_y_opcodes"
  shows "bus_access_kind (snd (micro_dispatch m)) = micro_access_documented (micro_opcode m) m"
  using assms(4,5) kind_documented_1 [OF assms(1,2)] kind_documented_2 [OF assms(1,2)] kind_documented_3 [OF assms(1,2)]
    kind_documented_4 [OF assms(1,2)] kind_documented_5 [OF assms(1,2)] kind_documented_6 [OF assms(1,2)] assms(3)
  unfolding micro_documented_opcodes_def ind_y_opcodes_def by blast

lemma kind_interrupt:
  "micro_is_interrupt m \<Longrightarrow> bus_access_kind (snd (micro_step_interrupt m)) = c6510_micro_access_kind m"
  by (cases "micro_phase m = 0")
     (simp_all add: micro_step_interrupt_def micro_interrupt_cycle_def c6510_micro_access_kind_def early_phase micro_kind bus_defs Let_def split_beta)

text \<open>
  C3. \<^verbatim>\<open>c6510_micro_access_kind\<close> predicts the kind of the bus access that the next cycle performs,
  in every phase of every instruction of the resumable path but the documented \<^verbatim>\<open>(zp),Y\<close> ones, and
  in every phase of an interrupt sequence; the machine relies on it to decide whether the video chip
  may hold the processor there.
\<close>

theorem access_kind_predicts:
  assumes "predictable m" "cpu_model m = CPU_6502"
  shows "bus_access_kind (snd (c6510_micro_step m)) = c6510_micro_access_kind m"
proof (cases "micro_is_interrupt m \<or> micro_phase m = 0")
  case True
  then show ?thesis
    using kind_interrupt [of m]
    by (auto simp: c6510_micro_step_def c6510_micro_access_kind_def micro_fetch_def micro_kind bus_defs Let_def split_beta)
next
  case False
  then consider "micro_opcode m \<in> micro_documented_opcodes" "micro_opcode m \<notin> ind_y_opcodes"
        "micro_opcode m = JSR_abs \<Longrightarrow> micro_phase m \<le> 5"
    | "c6510_micro_is_practical_undocumented (micro_opcode m)"
        "c6510_micro_is_undocumented_rmw (micro_opcode m) \<or>
         micro_phase m \<le> und_last_phase (c6510_micro_undocumented_mode (micro_opcode m))"
    | "c6510_micro_is_undocumented_nop (micro_opcode m)"
    using assms(1) by (auto simp: predictable_def)
  then have "bus_access_kind (snd (micro_dispatch m)) = c6510_micro_access_kind m"
  proof cases
    case 1
    then show ?thesis using False kind_documented [of m] assms(2)
      by (simp add: c6510_micro_access_kind_def c6510_micro_op_class_def)
  next
    case 2
    then show ?thesis using False kind_undocumented [of m]
      by (simp add: c6510_micro_access_kind_def undocumented_class)
  next
    case 3
    then show ?thesis using False kind_und_nop [of m]
      by (simp add: c6510_micro_access_kind_def undocumented_class)
  qed
  then show ?thesis using False by (simp add: c6510_micro_step_def micro_kind split_beta Let_def)
qed

theorem access_kind_predicts_witness:
  "bus_access_kind (snd (c6510_micro_step (latch_machine 0 False False))) = BUS_ACCESS_OPCODE_FETCH"
  using access_kind_predicts [of "latch_machine 0 False False"]
  by (simp add: predictable_def latch_machine_def c6510_init_def c6510_micro_access_kind_def)

text \<open>
  C5. For \<^verbatim>\<open>STA (zp),Y\<close> the prediction runs one phase ahead of the executor once the low pointer byte is
  read: the cycle that reads the high pointer byte (phase 3) is predicted the dummy read, and the cycle of
  the dummy read (phase 4) is predicted the write, so that the video chip could not hold the processor in
  a cycle that is a read. The other phases (1, 2 and 5) are predicted as they are.
\<close>

theorem sta_ind_y_mispredicted:
  assumes "micro_opcode m = STA_ind_Y" "\<not> micro_is_interrupt m" "micro_phase m \<in> {1, 2, 3, 4, 5}"
  defines "phase \<equiv> unat (micro_phase m)"
  shows "c6510_micro_access_kind m =
      [BUS_ACCESS_OPERAND_READ, BUS_ACCESS_DATA_READ, BUS_ACCESS_DUMMY_READ, BUS_ACCESS_DATA_WRITE, BUS_ACCESS_DATA_WRITE] ! (phase - 1) \<and>
    bus_access_kind (snd (c6510_micro_step m)) =
      [BUS_ACCESS_OPERAND_READ, BUS_ACCESS_DATA_READ, BUS_ACCESS_DATA_READ, BUS_ACCESS_DUMMY_READ, BUS_ACCESS_DATA_WRITE] ! (phase - 1)"
  using assms
  by (auto simp: c6510_micro_access_kind_def c6510_micro_step_def dispatch_micro_ind_y micro_ind_y_def micro_kind split_beta Let_def
     c6510_micro_op_class_def micro_documented_opcodes_def micro_access_documented_def micro_access_documented_indexed_def)

theorem sta_ind_y_mispredicted_witness:
  "c6510_micro_access_kind (sta_ind_y_machine 3) = BUS_ACCESS_DUMMY_READ \<and>
   bus_access_kind (snd (c6510_micro_step (sta_ind_y_machine 3))) = BUS_ACCESS_DATA_READ \<and>
   c6510_micro_access_kind (sta_ind_y_machine 4) = BUS_ACCESS_DATA_WRITE \<and>
   bus_access_kind (snd (c6510_micro_step (sta_ind_y_machine 4))) = BUS_ACCESS_DUMMY_READ"
  using sta_ind_y_mispredicted [of "sta_ind_y_machine 3"] sta_ind_y_mispredicted [of "sta_ind_y_machine 4"]
  by (simp add: sta_ind_y_machine_def latch_machine_def c6510_init_def)

end
