(* ===== verification/Bounded_Queue.thy ===== *)
theory Bounded_Queue
  imports Machine_Prelude
begin

text \<open>
  The contract of a bounded first-in first-out queue, as the two queues of
  \<^verbatim>\<open>src/src/shell/util\<close> offer it. \<open>bounded_fifo\<close> is the interface item by item (the message queue
  between the front end and the machine thread), \<open>chunk_fifo\<close> the interface block by block (the audio
  ring); a block interface is an item interface, so what is proved once about the
  first holds of the second. Blocks are shorter than \<open>limit\<close>, the range of the counters.
\<close>

section \<open>Item by item\<close>

primrec enq_all :: "('q \<Rightarrow> 'a \<Rightarrow> bool \<times> 'q) \<Rightarrow> 'q \<Rightarrow> 'a list \<Rightarrow> bool list \<times> 'q" where
  "enq_all enq q [] = ([], q)"
| "enq_all enq q (x # xs) = (let (b, q) = enq q x; (bs, q) = enq_all enq q xs in (b # bs, q))"

primrec deq_all :: "('q \<Rightarrow> 'a option \<times> 'q) \<Rightarrow> 'q \<Rightarrow> nat \<Rightarrow> 'a option list \<times> 'q" where
  "deq_all deq q 0 = ([], q)"
| "deq_all deq q (Suc n) = (let (r, q) = deq q; (rs, q) = deq_all deq q n in (r # rs, q))"

locale bounded_fifo =
  fixes inv :: "'q \<Rightarrow> bool"
    and contents :: "'q \<Rightarrow> 'a list"
    and room :: "'q \<Rightarrow> nat"
    and enq :: "'q \<Rightarrow> 'a \<Rightarrow> bool \<times> 'q"
    and deq :: "'q \<Rightarrow> 'a option \<times> 'q"
  assumes enq_inv: "inv q \<Longrightarrow> inv (snd (enq q x))"
    and enq_full: "inv q \<Longrightarrow> room q = 0 \<Longrightarrow> \<not> fst (enq q x) \<and> contents (snd (enq q x)) = contents q"
    and enq_ok: "inv q \<Longrightarrow> 0 < room q \<Longrightarrow>
      fst (enq q x) \<and> contents (snd (enq q x)) = contents q @ [x] \<and> room (snd (enq q x)) = room q - 1"
    and deq_inv: "inv q \<Longrightarrow> inv (snd (deq q))"
    and deq_empty: "inv q \<Longrightarrow> contents q = [] \<Longrightarrow> fst (deq q) = None \<and> contents (snd (deq q)) = []"
    and deq_ok: "inv q \<Longrightarrow> contents q = x # xs \<Longrightarrow>
      fst (deq q) = Some x \<and> contents (snd (deq q)) = xs \<and> room (snd (deq q)) = room q + 1"
begin

lemma enq_all_contents:
  assumes "inv q" "length xs \<le> room q"
  shows "inv (snd (enq_all enq q xs)) \<and> contents (snd (enq_all enq q xs)) = contents q @ xs \<and>
     fst (enq_all enq q xs) = replicate (length xs) True"
  using assms
proof (induction xs arbitrary: q)
  case (Cons x xs)
  then show ?case
    using enq_ok [of q x] enq_inv [of q x] Cons.IH [of "snd (enq q x)"] by (simp add: split_beta Let_def)
qed simp

lemma deq_all_contents:
  assumes "inv q" "contents q = xs @ ys"
  shows "fst (deq_all deq q (length xs)) = map Some xs \<and> contents (snd (deq_all deq q (length xs))) = ys \<and>
     inv (snd (deq_all deq q (length xs)))"
  using assms
proof (induction xs arbitrary: q)
  case (Cons x xs)
  then show ?case
    using deq_ok [of q x "xs @ ys"] deq_inv [of q] Cons.IH [of "snd (deq q)"] by (simp add: split_beta Let_def)
qed simp

lemma first_in_first_out:
  assumes "inv q" "length xs \<le> room q"
  shows "fst (deq_all deq (snd (enq_all enq q xs)) (length (contents q @ xs))) = map Some (contents q @ xs)"
  using enq_all_contents [OF assms] deq_all_contents [of "snd (enq_all enq q xs)" "contents q @ xs" "[]"] by simp

end

section \<open>Block by block\<close>

locale chunk_fifo =
  fixes inv :: "'q \<Rightarrow> bool"
    and contents :: "'q \<Rightarrow> 'a list"
    and room :: "'q \<Rightarrow> nat"
    and put :: "'q \<Rightarrow> 'a list \<Rightarrow> nat \<times> 'q"
    and get :: "'q \<Rightarrow> nat \<Rightarrow> 'a list \<times> 'q"
    and limit :: nat
  assumes limit: "1 < limit"
    and put_inv: "inv q \<Longrightarrow> length xs < limit \<Longrightarrow> inv (snd (put q xs))"
    and put_count: "inv q \<Longrightarrow> length xs < limit \<Longrightarrow> fst (put q xs) = min (length xs) (room q)"
    and put_contents: "inv q \<Longrightarrow> length xs < limit \<Longrightarrow> contents (snd (put q xs)) = contents q @ take (room q) xs"
    and put_room: "inv q \<Longrightarrow> length xs < limit \<Longrightarrow> room (snd (put q xs)) = room q - length xs"
    and get_inv: "inv q \<Longrightarrow> n < limit \<Longrightarrow> inv (snd (get q n))"
    and get_data: "inv q \<Longrightarrow> n < limit \<Longrightarrow> fst (get q n) = take n (contents q)"
    and get_contents: "inv q \<Longrightarrow> n < limit \<Longrightarrow> contents (snd (get q n)) = drop n (contents q)"
    and get_room: "inv q \<Longrightarrow> n < limit \<Longrightarrow> room (snd (get q n)) = room q + min n (length (contents q))"
begin

lemma put_get:
  assumes "inv q" "contents q = []" "length xs \<le> room q" "length xs < limit"
  shows "fst (get (snd (put q xs)) (length xs)) = xs"
  using assms by (simp add: get_data put_inv put_contents)

lemma put_put:
  assumes "inv q" "length xs < limit" "length ys < limit"
  shows "contents (snd (put (snd (put q xs)) ys)) = contents q @ take (room q) (xs @ ys)"
  using assms by (simp add: put_contents put_inv put_room)

lemma get_get:
  assumes "inv q" "m + n < limit"
  shows "fst (get q m) @ fst (get (snd (get q m)) n) = fst (get q (m + n))"
  using assms by (simp add: get_data get_contents get_inv take_add)

end

sublocale chunk_fifo \<subseteq> items: bounded_fifo inv contents room
  "\<lambda>q x. apfst (\<lambda>n. n = 1) (put q [x])"
  "\<lambda>q. apfst (\<lambda>xs. case xs of [] \<Rightarrow> None | x # _ \<Rightarrow> Some x) (get q 1)"
  by unfold_locales
     (use limit in \<open>auto simp: put_inv put_count put_contents put_room get_inv get_data get_contents get_room\<close>)

end
