(* ===== verification/Message_Queue.thy ===== *)
theory Message_Queue
  imports Bounded_Queue
begin

text \<open>
  The bounded message queue \<^verbatim>\<open>src/src/shell/util/message_queue.c\<close> through which the front end, the
  control servers and the machine thread exchange commands and events. Every operation runs under
  the queue's lock, so that each is one atomic step on the structure; \<open>items\<close> is the ring of
  \<^verbatim>\<open>capacity\<close> slots. A \<^verbatim>\<open>size_t\<close> index is a natural number: \<^verbatim>\<open>head\<close> and \<^verbatim>\<open>tail\<close> stay below the
  capacity, which is itself a \<^verbatim>\<open>size_t\<close>, so that the increments cannot wrap. A null pointer is
  \<open>None\<close>. A thread that would block in \<^verbatim>\<open>cond_wait\<close> has the result \<open>None\<close> and leaves the
  queue alone: it runs again when the condition is signalled.
\<close>

section \<open>Data\<close>

record 'a message_queue =
  capacity :: nat
  count :: nat
  head :: nat
  tail :: nat
  woken :: bool
  items :: "'a list"

section \<open>Operations\<close>

definition message_queue_copy_out :: "'a message_queue \<Rightarrow> 'a \<times> 'a message_queue" where
  "message_queue_copy_out queue =
     (let out_item = items queue ! head queue;
          queue = queue\<lparr>head := (head queue + 1) mod capacity queue\<rparr>
      in (out_item, queue\<lparr>count := count queue - 1\<rparr>))"

text \<open>
  \<open>memory\<close> is the uninitialised block \<^verbatim>\<open>malloc\<close> returns, \<open>allocated\<close> whether the allocations and
  the creation of the lock and the condition all succeed.
\<close>

definition message_queue_create :: "bool \<Rightarrow> 'a list \<Rightarrow> nat \<Rightarrow> nat \<Rightarrow> 'a message_queue option" where
  "message_queue_create allocated memory item_size cap =
     (if item_size = 0 \<or> cap = 0 then None
      else if \<not> allocated then None
      else Some \<lparr>capacity = cap, count = 0, head = 0, tail = 0, woken = False, items = memory\<rparr>)"

definition message_queue_push ::
  "'a message_queue option \<Rightarrow> 'a option \<Rightarrow> bool \<times> 'a message_queue option" where
  "message_queue_push queue item =
     (case (queue, item) of
        (Some queue, Some item) \<Rightarrow>
          (if count queue = capacity queue then (False, Some queue)
           else
             (let queue = queue\<lparr>items := (items queue)[tail queue := item]\<rparr>;
                  queue = queue\<lparr>tail := (tail queue + 1) mod capacity queue\<rparr>;
                  queue = queue\<lparr>count := count queue + 1\<rparr>;
                  queue = queue\<lparr>woken := False\<rparr>
              in (True, Some queue)))
      | (queue, _) \<Rightarrow> (False, queue))"

text \<open>The result of a pop is \<open>None\<close> where the C function returns \<^verbatim>\<open>false\<close>.\<close>

definition message_queue_try_pop ::
  "'a message_queue option \<Rightarrow> 'a option \<times> 'a message_queue option" where
  "message_queue_try_pop queue =
     (case queue of
        None \<Rightarrow> (None, None)
      | Some queue \<Rightarrow>
          (if count queue = 0 then (None, Some queue)
           else (let (out_item, queue) = message_queue_copy_out queue in (Some out_item, Some queue))))"

definition message_queue_wait_pop ::
  "'a message_queue option \<Rightarrow> ('a option \<times> 'a message_queue option) option" where
  "message_queue_wait_pop queue =
     (case queue of
        None \<Rightarrow> Some (None, None)
      | Some queue \<Rightarrow>
          (if count queue = 0 \<and> \<not> woken queue then None
           else if count queue = 0 then Some (None, Some (queue\<lparr>woken := False\<rparr>))
           else
             (let (out_item, queue) = message_queue_copy_out queue
              in Some (Some out_item, Some queue))))"

definition message_queue_wait_pop_timeout ::
  "bool \<Rightarrow> 'a message_queue option \<Rightarrow> ('a option \<times> 'a message_queue option) option" where
  "message_queue_wait_pop_timeout timed_out queue =
     (case queue of
        None \<Rightarrow> Some (None, None)
      | Some queue \<Rightarrow>
          (if count queue = 0 \<and> \<not> woken queue \<and> \<not> timed_out then None
           else if count queue = 0 then Some (None, Some (queue\<lparr>woken := False\<rparr>))
           else
             (let (out_item, queue) = message_queue_copy_out queue
              in Some (Some out_item, Some queue))))"

definition message_queue_clear :: "'a message_queue option \<Rightarrow> 'a message_queue option" where
  "message_queue_clear = map_option (\<lambda>queue. queue\<lparr>head := 0, tail := 0, count := 0\<rparr>)"

definition message_queue_wake_all :: "'a message_queue option \<Rightarrow> 'a message_queue option" where
  "message_queue_wake_all = map_option (\<lambda>queue. queue\<lparr>woken := True\<rparr>)"

section \<open>The ring as a list\<close>

definition queue_ok :: "'a message_queue option \<Rightarrow> bool" where
  "queue_ok queue =
     (case queue of None \<Rightarrow> False
      | Some q \<Rightarrow> 0 < capacity q \<and> length (items q) = capacity q \<and> head q < capacity q \<and>
          tail q = (head q + count q) mod capacity q \<and> count q \<le> capacity q)"

definition queue_contents :: "'a message_queue option \<Rightarrow> 'a list" where
  "queue_contents queue =
     (case queue of None \<Rightarrow> []
      | Some q \<Rightarrow> map (\<lambda>i. items q ! ((head q + i) mod capacity q)) [0..<count q])"

definition queue_room :: "'a message_queue option \<Rightarrow> nat" where
  "queue_room queue = (case queue of None \<Rightarrow> 0 | Some q \<Rightarrow> capacity q - count q)"

text \<open>
  The interleavings: a history is the sequence of operations in the order in which the threads take
  the lock. \<open>queue_step\<close> runs one on the ring, \<open>spec_step\<close> on an abstract queue of the items, its
  bound and the wake flag; both yield what the caller is told.
\<close>

datatype 'a queue_op = Push 'a | Try_Pop | Wait_Pop | Wait_Pop_Timeout bool | Clear | Wake_All

datatype 'a queue_result = Pushed bool | Popped "'a option" | Blocked | Done

fun queue_step :: "'a queue_op \<Rightarrow> 'a message_queue option \<Rightarrow> 'a queue_result \<times> 'a message_queue option" where
  "queue_step (Push x) q = apfst Pushed (message_queue_push q (Some x))"
| "queue_step Try_Pop q = apfst Popped (message_queue_try_pop q)"
| "queue_step Wait_Pop q =
     (case message_queue_wait_pop q of None \<Rightarrow> (Blocked, q) | Some r \<Rightarrow> apfst Popped r)"
| "queue_step (Wait_Pop_Timeout b) q =
     (case message_queue_wait_pop_timeout b q of None \<Rightarrow> (Blocked, q) | Some r \<Rightarrow> apfst Popped r)"
| "queue_step Clear q = (Done, message_queue_clear q)"
| "queue_step Wake_All q = (Done, message_queue_wake_all q)"

type_synonym 'a spec_queue = "'a list \<times> nat \<times> bool"

fun spec_wait :: "bool \<Rightarrow> 'a spec_queue \<Rightarrow> 'a queue_result \<times> 'a spec_queue" where
  "spec_wait blocks (x # xs, n, w) = (Popped (Some x), (xs, n, w))"
| "spec_wait blocks ([], n, w) = (if blocks \<and> \<not> w then (Blocked, ([], n, w)) else (Popped None, ([], n, False)))"

fun spec_step :: "'a queue_op \<Rightarrow> 'a spec_queue \<Rightarrow> 'a queue_result \<times> 'a spec_queue" where
  "spec_step (Push x) (xs, n, w) =
     (if length xs < n then (Pushed True, (xs @ [x], n, False)) else (Pushed False, (xs, n, w)))"
| "spec_step Try_Pop (xs, n, w) =
     (case xs of [] \<Rightarrow> (Popped None, (xs, n, w)) | x # ys \<Rightarrow> (Popped (Some x), (ys, n, w)))"
| "spec_step Wait_Pop q = spec_wait True q"
| "spec_step (Wait_Pop_Timeout b) q = spec_wait (\<not> b) q"
| "spec_step Clear (xs, n, w) = (Done, ([], n, w))"
| "spec_step Wake_All (xs, n, w) = (Done, (xs, n, True))"

primrec run_history :: "('op \<Rightarrow> 's \<Rightarrow> 'r \<times> 's) \<Rightarrow> 's \<Rightarrow> 'op list \<Rightarrow> 'r list \<times> 's" where
  "run_history step s [] = ([], s)"
| "run_history step s (op # ops) =
     (let (r, s) = step op s; (rs, s) = run_history step s ops in (r # rs, s))"

definition spec_of :: "'a message_queue option \<Rightarrow> 'a spec_queue" where
  "spec_of queue =
     (queue_contents queue, case queue of None \<Rightarrow> 0 | Some q \<Rightarrow> capacity q,
      case queue of None \<Rightarrow> False | Some q \<Rightarrow> woken q)"

section \<open>Lemmas\<close>

lemma ring_slots_differ:
  assumes "h < (c :: nat)" "i < c" "j < c" "(h + i) mod c = (h + j) mod c"
  shows "i = j"
proof -
  have "(h + i) mod c = (if h + i < c then h + i else h + i - c)" "(h + j) mod c = (if h + j < c then h + j else h + j - c)"
    using assms by (simp_all add: mod_once)
  then show ?thesis using assms by (auto split: if_splits)
qed

lemma copy_out_contents:
  assumes "queue_ok (Some q)" "count q \<noteq> 0"
  shows "queue_contents (Some q) = fst (message_queue_copy_out q) # queue_contents (Some (snd (message_queue_copy_out q)))"
    and "queue_ok (Some (snd (message_queue_copy_out q)))"
    and "queue_room (Some (snd (message_queue_copy_out q))) = queue_room (Some q) + 1"
    and "capacity (snd (message_queue_copy_out q)) = capacity q" "woken (snd (message_queue_copy_out q)) = woken q"
proof -
  obtain n where n: "count q = Suc n" using assms(2) not0_implies_Suc by blast
  have "((head q + 1) mod capacity q + i) mod capacity q = (head q + Suc i) mod capacity q" for i
    by (metis add_Suc_right add_Suc_shift mod_add_left_eq Suc_eq_plus1)
  then show "queue_contents (Some q) = fst (message_queue_copy_out q) # queue_contents (Some (snd (message_queue_copy_out q)))"
    using assms n by (simp add: queue_contents_def queue_ok_def message_queue_copy_out_def upt_conv_Cons map_Suc_upt [symmetric]
        comp_def del: upt_Suc)
  show "queue_ok (Some (snd (message_queue_copy_out q)))"
    using assms n by (simp add: queue_ok_def message_queue_copy_out_def mod_simps)
  show "queue_room (Some (snd (message_queue_copy_out q))) = queue_room (Some q) + 1"
    using assms n by (simp add: queue_room_def queue_ok_def message_queue_copy_out_def) linarith
qed (simp_all add: message_queue_copy_out_def Let_def)

lemma push_contents:
  assumes "queue_ok (Some q)" "count q < capacity q"
  shows "\<exists>q'. message_queue_push (Some q) (Some x) = (True, Some q') \<and> queue_ok (Some q') \<and>
    queue_contents (Some q') = queue_contents (Some q) @ [x] \<and> capacity q' = capacity q \<and> woken q' = False \<and>
    count q' = count q + 1"
proof -
  let ?q = "q\<lparr>items := (items q)[tail q := x], tail := (tail q + 1) mod capacity q, count := count q + 1, woken := False\<rparr>"
  have "(head q + count q) mod capacity q \<noteq> (head q + i) mod capacity q" if "i < count q" for i
    using that assms ring_slots_differ [of "head q" "capacity q" i "count q"] by (auto simp: queue_ok_def)
  then have "queue_contents (Some ?q) = queue_contents (Some q) @ [x]"
    using assms by (simp add: queue_contents_def queue_ok_def)
  moreover have "queue_ok (Some ?q)" using assms by (simp add: queue_ok_def mod_simps)
  ultimately show ?thesis using assms by (simp add: message_queue_push_def Let_def)
qed

lemma contents_empty: "queue_contents (Some q) = [] \<longleftrightarrow> count q = 0"
  by (simp add: queue_contents_def)

lemma contents_length: "length (queue_contents (Some q)) = count q"
  by (simp add: queue_contents_def)

interpretation mq: bounded_fifo queue_ok queue_contents queue_room
  "\<lambda>q x. message_queue_push q (Some x)" message_queue_try_pop
proof unfold_locales
  fix q :: "'a message_queue option" and x :: 'a
  assume ok: "queue_ok q"
  then obtain r where q: "q = Some r" by (auto simp: queue_ok_def split: option.splits)
  show "queue_ok (snd (message_queue_push q (Some x)))"
    using ok push_contents [of r x] q
    by (cases "count r = capacity r") (auto simp: message_queue_push_def queue_ok_def)
  show "\<not> fst (message_queue_push q (Some x)) \<and> queue_contents (snd (message_queue_push q (Some x))) = queue_contents q"
    if "queue_room q = 0"
    using that ok q by (simp add: message_queue_push_def queue_room_def queue_ok_def)
  show "fst (message_queue_push q (Some x)) \<and>
      queue_contents (snd (message_queue_push q (Some x))) = queue_contents q @ [x] \<and>
      queue_room (snd (message_queue_push q (Some x))) = queue_room q - 1" if "0 < queue_room q"
    using that ok q push_contents [of r x] by (auto simp: queue_room_def)
  show "queue_ok (snd (message_queue_try_pop q))"
    using ok q copy_out_contents [of r] by (simp add: message_queue_try_pop_def split_beta)
  show "fst (message_queue_try_pop q) = None \<and> queue_contents (snd (message_queue_try_pop q)) = []"
    if "queue_contents q = []"
    using that ok q by (simp add: message_queue_try_pop_def contents_empty)
  show "fst (message_queue_try_pop q) = Some x \<and> queue_contents (snd (message_queue_try_pop q)) = xs \<and>
      queue_room (snd (message_queue_try_pop q)) = queue_room q + 1" if "queue_contents q = x # xs" for xs
    using that ok q copy_out_contents [of r] contents_empty [of r]
    by (auto simp: message_queue_try_pop_def split_beta)
qed

lemma wait_refines:
  assumes "queue_ok q"
  shows "case message_queue_wait_pop_timeout b q of
      None \<Rightarrow> spec_wait (\<not> b) (spec_of q) = (Blocked, spec_of q)
    | Some r \<Rightarrow> queue_ok (snd r) \<and> spec_wait (\<not> b) (spec_of q) = (Popped (fst r), spec_of (snd r))"
proof -
  obtain r where q: "q = Some r" using assms by (auto simp: queue_ok_def split: option.splits)
  show ?thesis
  proof (cases "count r = 0")
    case True
    then have "queue_contents q = []" by (simp add: q contents_empty)
    then show ?thesis using True assms q
      by (simp add: message_queue_wait_pop_timeout_def spec_of_def queue_ok_def queue_contents_def)
  next
    case False
    then show ?thesis using assms q copy_out_contents [of r]
      by (simp add: message_queue_wait_pop_timeout_def spec_of_def split_beta)
  qed
qed

lemma wait_pop_untimed: "message_queue_wait_pop q = message_queue_wait_pop_timeout False q"
  by (simp add: message_queue_wait_pop_def message_queue_wait_pop_timeout_def split: option.split)

lemma step_refines:
  assumes "queue_ok q"
  shows "queue_ok (snd (queue_step op q)) \<and>
    spec_step op (spec_of q) = (fst (queue_step op q), spec_of (snd (queue_step op q)))"
proof -
  obtain r where q: "q = Some r" using assms by (auto simp: queue_ok_def split: option.splits)
  have le: "count r \<le> capacity r" using assms q by (simp add: queue_ok_def)
  show ?thesis
  proof (cases op)
    case (Push x)
    then show ?thesis
      using assms q le push_contents [of r x]
      by (cases "count r = capacity r") (auto simp: spec_of_def contents_length message_queue_push_def)
  next
    case Try_Pop
    then show ?thesis
      using assms q copy_out_contents [of r] contents_empty [of r]
      by (cases "count r = 0") (simp_all add: spec_of_def message_queue_try_pop_def split_beta)
  next
    case Wait_Pop
    then show ?thesis using wait_refines [OF assms, of False] assms
      by (auto simp: wait_pop_untimed split: option.splits)
  next
    case (Wait_Pop_Timeout b)
    then show ?thesis using wait_refines [OF assms, of b] assms by (auto split: option.splits)
  qed (use assms q in \<open>auto simp: spec_of_def message_queue_clear_def message_queue_wake_all_def queue_ok_def queue_contents_def\<close>)
qed

text \<open>
  C11. Whatever operations the threads perform on a created queue, and in whatever order they take its
  lock, every caller is told exactly what an abstract bounded queue would tell it: pushes are
  refused exactly when the queue holds \<^verbatim>\<open>capacity\<close> items, pops yield the oldest item, a waiting pop
  blocks exactly when the queue is empty and nobody has woken it, and a wake-up is spent by the
  first waiter that finds the queue empty or cancelled by the next push.
\<close>

theorem message_queue_refines_fifo:
  assumes "message_queue_create True memory item_size cap = Some q" "length memory = cap"
  shows "fst (run_history queue_step (Some q) ops) = fst (run_history spec_step ([], cap, False) ops)"
proof -
  have "fst (run_history queue_step s ops) = fst (run_history spec_step (spec_of s) ops)" if "queue_ok s" for s
    using that
  proof (induction ops arbitrary: s)
    case (Cons op ops)
    then show ?case using step_refines [of s op] by (simp add: split_beta Let_def)
  qed simp
  moreover have "queue_ok (Some q)" "spec_of (Some q) = ([], cap, False)"
    using assms by (auto simp: message_queue_create_def queue_ok_def spec_of_def queue_contents_def split: if_splits)
  ultimately show ?thesis by metis
qed

theorem message_queue_refines_fifo_witness:
  "fst (run_history queue_step (message_queue_create True [0 :: int, 0] 4 2)
     [Push 7, Push 8, Push 9, Try_Pop, Wake_All, Wait_Pop, Wait_Pop, Wait_Pop]) =
   [Pushed True, Pushed True, Pushed False, Popped (Some 7), Done, Popped (Some 8), Popped None, Blocked]"
  using message_queue_refines_fifo [of "[0 :: int, 0]" 4 2 _ "[Push 7, Push 8, Push 9, Try_Pop, Wake_All, Wait_Pop, Wait_Pop, Wait_Pop]"]
  by (simp add: message_queue_create_def)

text \<open>
  First in, first out: when all the items fit, every push succeeds and popping afterwards
  returns what the queue held before, followed by the pushed items in the order of the pushes.
\<close>

theorem message_queue_fifo:
  assumes "queue_ok q" "length xs \<le> queue_room q"
  shows "fst (deq_all message_queue_try_pop (snd (enq_all (\<lambda>q x. message_queue_push q (Some x)) q xs))
      (length (queue_contents q @ xs))) = map Some (queue_contents q @ xs)"
  by (rule mq.first_in_first_out [OF assms])

theorem message_queue_fifo_witness:
  "fst (deq_all message_queue_try_pop
      (snd (enq_all (\<lambda>q x. message_queue_push q (Some x)) (message_queue_create True [0 :: int, 0, 0] 4 3) [5, 6])) 2) =
   [Some 5, Some 6]"
  using message_queue_fifo [of "message_queue_create True [0 :: int, 0, 0] 4 3" "[5, 6]"]
  by (simp add: message_queue_create_def queue_ok_def queue_room_def queue_contents_def numeral_2_eq_2)

end
