(* ===== verification/Audio_Buffer.thy ===== *)
theory Audio_Buffer
  imports Bounded_Queue
begin

text \<open>
  The lock-free single-producer single-consumer sample ring \<^verbatim>\<open>src/src/shell/util/audio_buffer.c\<close>
  between the machine thread and the audio callback. Positions are free-running 32-bit counters:
  only their difference, taken modulo \<^verbatim>\<open>2^32\<close>, and their residue modulo the power-of-two capacity
  matter. A sample is a value of any type with a zero; a null pointer is \<open>None\<close>. The sequential
  operations refine the block interface of a bounded queue.
\<close>

section \<open>Data\<close>

record 'f audio_buffer =
  data :: "'f list"
  ring_capacity :: u32
  mask_bits :: u32
  write_pos :: u32
  read_pos :: u32
  underruns :: u64
  overruns :: u64

section \<open>Operations\<close>

definition next_power_of_two :: "u32 \<Rightarrow> u32" where
  "next_power_of_two n =
     (if n = 0 then 1
      else
        (let n = n - 1;
             n = n OR drop_bit 1 n;
             n = n OR drop_bit 2 n;
             n = n OR drop_bit 4 n;
             n = n OR drop_bit 8 n;
             n = n OR drop_bit 16 n
         in n + 1))"

text \<open>\<open>allocated\<close> says whether the two allocations succeed.\<close>

definition audio_buffer_create :: "bool \<Rightarrow> nat \<Rightarrow> 'f :: zero audio_buffer option" where
  "audio_buffer_create allocated capacity_samples =
     (if capacity_samples = 0 \<or> capacity_samples > 2 ^ 30 then None
      else
        (let cap = next_power_of_two (word_of_nat capacity_samples)
         in if \<not> allocated then None
            else Some \<lparr>data = replicate (unat cap) 0, ring_capacity = cap, mask_bits = cap - 1,
                       write_pos = 0, read_pos = 0, underruns = 0, overruns = 0\<rparr>))"

definition audio_buffer_reset :: "'f :: zero audio_buffer option \<Rightarrow> 'f audio_buffer option" where
  "audio_buffer_reset =
     map_option (\<lambda>buf. buf\<lparr>write_pos := 0, read_pos := 0, data := replicate (unat (ring_capacity buf)) 0\<rparr>)"

text \<open>The copying loops; \<open>store_samples\<close> is at \<^verbatim>\<open>write + i\<close> when the \<open>i\<close>-th sample is next.\<close>

fun store_samples :: "u32 \<Rightarrow> u32 \<Rightarrow> 'f list \<Rightarrow> 'f list \<Rightarrow> 'f list" where
  "store_samples m pos [] d = d"
| "store_samples m pos (x # xs) d = store_samples m (pos + 1) xs (d[unat (pos AND m) := x])"

definition load_samples :: "u32 \<Rightarrow> u32 \<Rightarrow> nat \<Rightarrow> 'f list \<Rightarrow> 'f list" where
  "load_samples m pos n d = map (\<lambda>i. d ! unat ((pos + word_of_nat i) AND m)) [0..<n]"

definition audio_buffer_write ::
  "'f audio_buffer option \<Rightarrow> 'f list option \<Rightarrow> nat \<times> 'f audio_buffer option" where
  "audio_buffer_write buf samples =
     (case (buf, samples) of
        (Some buf, Some samples) \<Rightarrow>
          (if samples = [] then (0, Some buf)
           else
             (let count = length samples;
                  write = write_pos buf;
                  read = read_pos buf;
                  filled = write - read;
                  avail = ring_capacity buf - filled
              in if avail = 0 then (0, Some (buf\<lparr>overruns := overruns buf + 1\<rparr>))
                 else
                   (let buf = (if count > unat avail then buf\<lparr>overruns := overruns buf + 1\<rparr> else buf);
                        count = (if count > unat avail then unat avail else count);
                        buf = buf\<lparr>data := store_samples (mask_bits buf) write (take count samples) (data buf)\<rparr>
                    in (count, Some (buf\<lparr>write_pos := write + word_of_nat count\<rparr>)))))
      | (buf, _) \<Rightarrow> (0, buf))"

definition audio_buffer_read :: "'f audio_buffer option \<Rightarrow> nat \<Rightarrow> 'f list \<times> 'f audio_buffer option" where
  "audio_buffer_read buf count =
     (case buf of
        None \<Rightarrow> ([], None)
      | Some buf \<Rightarrow>
          (if count = 0 then ([], Some buf)
           else
             (let read = read_pos buf;
                  write = write_pos buf;
                  filled = write - read;
                  buf = (if filled < word_of_nat count then buf\<lparr>underruns := underruns buf + 1\<rparr> else buf);
                  actual = (if filled < word_of_nat count then filled else word_of_nat count);
                  out = load_samples (mask_bits buf) read (unat actual) (data buf)
              in (out, Some (buf\<lparr>read_pos := read + actual\<rparr>)))))"

definition audio_buffer_available_read :: "'f audio_buffer option \<Rightarrow> nat" where
  "audio_buffer_available_read buf =
     (case buf of None \<Rightarrow> 0 | Some buf \<Rightarrow> unat (write_pos buf - read_pos buf))"

definition audio_buffer_available_write :: "'f audio_buffer option \<Rightarrow> nat" where
  "audio_buffer_available_write buf =
     (case buf of None \<Rightarrow> 0
      | Some buf \<Rightarrow> (let filled = write_pos buf - read_pos buf in unat (ring_capacity buf - filled)))"

definition audio_buffer_capacity :: "'f audio_buffer option \<Rightarrow> nat" where
  "audio_buffer_capacity buf = (case buf of None \<Rightarrow> 0 | Some buf \<Rightarrow> unat (ring_capacity buf))"

definition audio_buffer_underrun_count :: "'f audio_buffer option \<Rightarrow> u64" where
  "audio_buffer_underrun_count buf = (case buf of None \<Rightarrow> 0 | Some buf \<Rightarrow> underruns buf)"

definition audio_buffer_overrun_count :: "'f audio_buffer option \<Rightarrow> u64" where
  "audio_buffer_overrun_count buf = (case buf of None \<Rightarrow> 0 | Some buf \<Rightarrow> overruns buf)"

section \<open>The ring as a list\<close>

definition ring_ok :: "'f audio_buffer \<Rightarrow> bool" where
  "ring_ok b \<longleftrightarrow>
     (\<exists>k\<le>30. ring_capacity b = 2 ^ k \<and> mask_bits b = mask k \<and> length (data b) = 2 ^ k) \<and>
     unat (write_pos b - read_pos b) \<le> length (data b)"

definition ring_filled :: "'f audio_buffer \<Rightarrow> nat" where
  "ring_filled b = unat (write_pos b - read_pos b)"

definition audio_ok :: "'f audio_buffer option \<Rightarrow> bool" where
  "audio_ok buf = (case buf of None \<Rightarrow> False | Some b \<Rightarrow> ring_ok b)"

definition audio_contents :: "'f audio_buffer option \<Rightarrow> 'f list" where
  "audio_contents buf =
     (case buf of None \<Rightarrow> []
      | Some b \<Rightarrow> load_samples (mask_bits b) (read_pos b) (unat (write_pos b - read_pos b)) (data b))"

definition wrapping_ring :: "int audio_buffer" where
  "wrapping_ring = \<lparr>data = [0, 0, 0, 0], ring_capacity = 4, mask_bits = 3, write_pos = 0xFFFFFFFE, read_pos = 0xFFFFFFFE,
     underruns = 0, overruns = 0\<rparr>"

section \<open>Rounding to a power of two\<close>

lemma bit_u32_high: "32 \<le> i \<Longrightarrow> \<not> bit (w :: u32) i"
  using bit_imp_le_length [of w i] by (auto simp: not_le)

lemma smear:
  assumes "\<And>i. bit (m :: u32) i \<longleftrightarrow> (\<exists>j. i \<le> j \<and> j < i + k \<and> bit n j)"
  shows "bit (m OR drop_bit k m) i \<longleftrightarrow> (\<exists>j. i \<le> j \<and> j < i + 2 * k \<and> bit n j)"
proof -
  have r: "i \<le> j \<and> j < i + 2 * k \<longleftrightarrow> (i \<le> j \<and> j < i + k) \<or> (k + i \<le> j \<and> j < k + i + k)" for j by auto
  show ?thesis
    unfolding bit_or_iff bit_drop_bit_eq comp_def assms using r by blast
qed

lemma smeared_bits:
  fixes n :: u32
  defines "a \<equiv> n OR drop_bit 1 n"
  defines "b \<equiv> a OR drop_bit 2 a"
  defines "c \<equiv> b OR drop_bit 4 b"
  defines "d \<equiv> c OR drop_bit 8 c"
  shows "bit (d OR drop_bit 16 d) i \<longleftrightarrow> (\<exists>j. i \<le> j \<and> bit n j)"
proof -
  have 0: "bit n i \<longleftrightarrow> (\<exists>j. i \<le> j \<and> j < i + 1 \<and> bit n j)" for i by (auto simp: less_Suc_eq)
  have 1: "bit a i \<longleftrightarrow> (\<exists>j. i \<le> j \<and> j < i + 2 \<and> bit n j)" for i using smear [OF 0, of i] by (simp only: a_def mult_1_right)
  have 2: "bit b i \<longleftrightarrow> (\<exists>j. i \<le> j \<and> j < i + 4 \<and> bit n j)" for i using smear [OF 1, of i] by (simp add: b_def)
  have 3: "bit c i \<longleftrightarrow> (\<exists>j. i \<le> j \<and> j < i + 8 \<and> bit n j)" for i using smear [OF 2, of i] by (simp add: c_def)
  have 4: "bit d i \<longleftrightarrow> (\<exists>j. i \<le> j \<and> j < i + 16 \<and> bit n j)" for i using smear [OF 3, of i] by (simp add: d_def)
  have 5: "bit (d OR drop_bit 16 d) i \<longleftrightarrow> (\<exists>j. i \<le> j \<and> j < i + 32 \<and> bit n j)" using smear [OF 4, of i] by simp
  have "bit n j \<Longrightarrow> j < i + 32" for j using bit_u32_high [of j n] by linarith
  then show ?thesis unfolding 5 by blast
qed

lemma bit_as_unat: "bit (n :: u32) j \<longleftrightarrow> odd (unat n div 2 ^ j)"
proof -
  have "bit (unat n) j \<longleftrightarrow> bit n j" by (simp add: bit_unsigned_iff bit_imp_le_length)
  then show ?thesis by (simp add: bit_iff_odd)
qed

lemma smeared_mask:
  fixes n m :: u32
  assumes "unat n < 2 ^ k" "k = 0 \<or> 2 ^ (k - 1) \<le> unat n" "\<And>i. bit m i \<longleftrightarrow> (\<exists>j. i \<le> j \<and> bit n j)"
  shows "m = mask k"
proof (rule bit_word_eqI)
  fix i assume "i < LENGTH(32)"
  have low: "\<not> bit n j" if "k \<le> j" for j
  proof -
    have "unat n < 2 ^ j" using assms(1) that by (meson less_le_trans one_le_numeral power_increasing)
    then show ?thesis by (simp add: bit_as_unat)
  qed
  have top: "bit n (k - 1)" if "k \<noteq> 0"
  proof -
    have "unat n < 2 * 2 ^ (k - 1)" using assms(1) that by (metis power_eq_if)
    then have "unat n div 2 ^ (k - 1) = 1" using assms(2) that by (intro div_nat_eqI) simp_all
    then show ?thesis by (simp add: bit_as_unat)
  qed
  show "bit m i \<longleftrightarrow> bit (mask k :: u32) i"
    unfolding assms(3) bit_mask_iff using low top \<open>i < LENGTH(32)\<close>
    by (metis Suc_diff_1 less_Suc_eq_le not_le not_gr_zero less_nat_zero_code possible_bit_word le_trans)
qed

lemma next_power_of_two_power:
  assumes "2 ^ (k - 1) < unat n" "unat n \<le> 2 ^ k" "1 \<le> k" "k \<le> 31"
  shows "next_power_of_two n = 2 ^ k"
proof -
  have "n \<noteq> 0" using assms(1) by auto
  then have p: "unat (n - 1) = unat n - 1" by (simp add: unat_minus_one)
  have "next_power_of_two n = mask k + 1"
    unfolding next_power_of_two_def Let_def
    using \<open>n \<noteq> 0\<close> smeared_mask [of "n - 1" k, OF _ _ smeared_bits [of "n - 1"]] assms p
    by simp
  then show ?thesis by (simp add: mask_eq_exp_minus_1)
qed

lemma power_bracket:
  assumes "1 < n" "n \<le> 2 ^ b"
  obtains k where "1 \<le> k" "k \<le> b" "2 ^ (k - 1) < n" "n \<le> (2 ^ k :: nat)"
proof -
  define k where "k = (LEAST k. n \<le> 2 ^ k)"
  have n: "n \<le> 2 ^ k" unfolding k_def using assms(2) by (rule LeastI)
  have "k \<le> b" unfolding k_def using assms(2) by (rule Least_le)
  moreover have "k \<noteq> 0" using n assms(1) by (cases k) auto
  moreover have "\<not> n \<le> 2 ^ (k - 1)" using \<open>k \<noteq> 0\<close> not_less_Least [of "k - 1" "\<lambda>k. n \<le> 2 ^ k"] by (simp add: k_def)
  ultimately show ?thesis using that [of k] n by (simp add: not_le)
qed

lemma next_power_bounded:
  assumes "0 < unat n" "unat n \<le> 2 ^ b" "b \<le> 31"
  shows "\<exists>k\<le>b. next_power_of_two n = 2 ^ k \<and> unat n \<le> 2 ^ k \<and> (\<forall>j. unat n \<le> 2 ^ j \<longrightarrow> k \<le> j)"
proof (cases "unat n = 1")
  case True
  then have "n = 1" by (simp add: word_unat_eq_iff)
  then show ?thesis by (intro exI [of _ 0]) (simp add: next_power_of_two_def)
next
  case False
  with assms have "1 < unat n" by simp
  then obtain k where k: "1 \<le> k" "k \<le> b" "2 ^ (k - 1) < unat n" "unat n \<le> 2 ^ k"
    using power_bracket assms(2) by metis
  have "k \<le> j" if "unat n \<le> 2 ^ j" for j
  proof (rule ccontr)
    assume "\<not> k \<le> j"
    then have "(2 :: nat) ^ j \<le> 2 ^ (k - 1)" by (intro power_increasing) simp_all
    then show False using that k(3) by linarith
  qed
  then show ?thesis using next_power_of_two_power [OF k(3,4,1)] k assms(3) by auto
qed

text \<open>
  C14. \<^verbatim>\<open>next_power_of_two\<close> smears the leading bit in five shifts and yields the least power of
  two that is not below its argument, for every argument up to \<^verbatim>\<open>2^31\<close>.
\<close>

theorem next_power_of_two_least:
  assumes "0 < unat n" "unat n \<le> 2 ^ 31"
  shows "\<exists>k\<le>31. next_power_of_two n = 2 ^ k \<and> unat n \<le> 2 ^ k \<and> (\<forall>j. unat n \<le> 2 ^ j \<longrightarrow> k \<le> j)"
  using assms by (rule next_power_bounded) simp

theorem next_power_of_two_least_witness:
  "\<exists>k\<le>31. next_power_of_two 1000 = 2 ^ k \<and> 1000 \<le> (2 ^ k :: nat) \<and> (\<forall>j. 1000 \<le> (2 ^ j :: nat) \<longrightarrow> k \<le> j)"
  using next_power_of_two_least [of 1000] by simp

section \<open>Slots of the ring\<close>

lemma unat_slot:
  assumes "k \<le> 30"
  shows "unat ((p + word_of_nat i :: u32) AND mask k) = (unat p + i) mod 2 ^ k"
proof -
  have "(2 :: nat) ^ k dvd 2 ^ 32" using assms by (intro le_imp_power_dvd) simp
  moreover have "unat (p + word_of_nat i :: u32) = (unat p + i) mod 2 ^ 32"
    by (simp add: unat_word_ariths unsigned_of_nat take_bit_eq_mod mod_simps)
  moreover have "unat (w AND mask k) = unat w mod 2 ^ k" for w :: u32
    by (simp only: take_bit_eq_mask [symmetric] unsigned_take_bit_eq take_bit_eq_mod [where 'a = nat])
  ultimately show ?thesis by (simp add: mod_mod_cancel)
qed

lemma unat_slot_0: "k \<le> 30 \<Longrightarrow> unat ((p :: u32) AND mask k) = unat p mod 2 ^ k"
  using unat_slot [of k p 0] by simp

lemma slot_move:
  assumes "k \<le> 30"
  shows "(unat (p + word_of_nat i :: u32) + j) mod 2 ^ k = (unat p + (i + j)) mod 2 ^ k"
  using unat_slot [OF assms, of "p + word_of_nat i" j] unat_slot [OF assms, of p "i + j"] by (simp add: add.assoc)

lemma store_samples_length [simp]: "length (store_samples m pos xs d) = length d"
  by (induction m pos xs d rule: store_samples.induct) simp_all

lemma store_samples_slot:
  assumes "k \<le> 30" "length d = 2 ^ k" "length xs \<le> 2 ^ k" "j < 2 ^ k"
  shows "store_samples (mask k) pos xs d ! ((unat pos + j) mod 2 ^ k) =
    (if j < length xs then xs ! j else d ! ((unat pos + j) mod 2 ^ k))"
  using assms
proof (induction xs arbitrary: pos d j)
  case (Cons x xs)
  let ?c = "2 ^ k :: nat"
  let ?d = "d[unat pos mod ?c := x]"
  have step: "(unat (pos + 1) + i) mod ?c = (unat pos + Suc i) mod ?c" for i
    using slot_move [OF assms(1), of pos 1 i] by simp
  have IH: "store_samples (mask k) (pos + 1) xs ?d ! ((unat pos + Suc i) mod ?c) =
      (if i < length xs then xs ! i else ?d ! ((unat pos + Suc i) mod ?c))" if "i < ?c" for i
    using Cons.IH [of ?d i "pos + 1"] Cons.prems that by (simp add: step)
  show ?case
  proof (cases j)
    case 0
    have "(unat pos + Suc (?c - 1)) mod ?c = unat pos mod ?c" by simp
    moreover have nl: "(?c - 1 < length xs) = False" using Cons.prems(3) by simp
    ultimately have "store_samples (mask k) (pos + 1) xs ?d ! (unat pos mod ?c) = ?d ! (unat pos mod ?c)"
      using IH [of "?c - 1"] nl by (simp only: if_False) simp
    then show ?thesis using 0 Cons.prems by (simp add: unat_slot_0)
  next
    case (Suc i)
    have "?d ! ((unat pos + Suc i) mod ?c) = d ! ((unat pos + Suc i) mod ?c)"
    proof (rule nth_list_update_neq, rule notI)
      assume "unat pos mod ?c = (unat pos + Suc i) mod ?c"
      then have "(unat pos + Suc i - unat pos) mod ?c = 0" by (metis add_diff_cancel_left' mod_eq_dvd_iff_nat le_add1 dvd_imp_mod_0)
      then show False using Cons.prems(4) Suc by simp
    qed
    then show ?thesis using IH [of i] Suc Cons.prems(4) by (simp add: unat_slot_0 Cons.prems(1))
  qed
qed simp

lemma load_samples_nth:
  "k \<le> 30 \<Longrightarrow> i < n \<Longrightarrow> load_samples (mask k) p n d ! i = d ! ((unat p + i) mod 2 ^ k)"
  by (simp add: load_samples_def unat_slot)

lemma load_samples_length [simp]: "length (load_samples m p n d) = n"
  by (simp add: load_samples_def)

lemma load_samples_split:
  "load_samples m p (n + l) d = load_samples m p n d @ load_samples m (p + word_of_nat n) l d"
proof -
  have "[0..<n + l] = [0..<n] @ map (\<lambda>i. n + i) [0..<l]" by (rule nth_equalityI) (auto simp: nth_append)
  then show ?thesis by (simp add: load_samples_def comp_def add.assoc)
qed

section \<open>The operations on the list view\<close>

lemma store_load_new:
  assumes "k \<le> 30" "length d = 2 ^ k" "length xs \<le> 2 ^ k"
  shows "load_samples (mask k) p (length xs) (store_samples (mask k) p xs d) = xs"
  using assms store_samples_slot [OF assms] by (intro nth_equalityI) (simp_all add: load_samples_nth)

lemma store_load_old:
  assumes "k \<le> 30" "length d = 2 ^ k" "n + length xs \<le> 2 ^ k"
  shows "load_samples (mask k) p n (store_samples (mask k) (p + word_of_nat n) xs d) = load_samples (mask k) p n d"
proof (rule nth_equalityI)
  fix i assume "i < length (load_samples (mask k) p n (store_samples (mask k) (p + word_of_nat n) xs d))"
  then have i: "i < n" by simp
  let ?j = "2 ^ k - n + i"
  have "unat p + (n + ?j) = 2 ^ k + (unat p + i)" using assms(3) by linarith
  then have j: "(unat (p + word_of_nat n :: u32) + ?j) mod 2 ^ k = (unat p + i) mod 2 ^ k"
    using slot_move [OF assms(1), of p n ?j] by (simp only: mod_add_self1)
  have "?j < 2 ^ k" "\<not> ?j < length xs" using i assms(3) by linarith+
  then show "load_samples (mask k) p n (store_samples (mask k) (p + word_of_nat n) xs d) ! i =
      load_samples (mask k) p n d ! i"
    using store_samples_slot [OF assms(1,2), of xs ?j "p + word_of_nat n"] assms(1,3) i j by (simp add: load_samples_nth)
qed simp

lemma write_is_read_plus: "write_pos b = read_pos b + word_of_nat (ring_filled b)"
  by (simp add: ring_filled_def)

lemma filled_after:
  assumes "ring_ok b" "n \<le> length (data b) - ring_filled b"
  shows "unat (write_pos b + word_of_nat n - read_pos b) = ring_filled b + n"
proof -
  obtain k where k: "k \<le> 30" "length (data b) = 2 ^ k" using assms(1) by (auto simp: ring_ok_def)
  have "(2 :: nat) ^ k \<le> 2 ^ 30" using k(1) by (intro power_increasing) simp_all
  then have "ring_filled b + n < 2 ^ 32"
    using assms k(2) by (simp add: ring_ok_def ring_filled_def) linarith
  moreover have "write_pos b + word_of_nat n - read_pos b = word_of_nat (ring_filled b + n)"
    by (simp add: ring_filled_def)
  ultimately show ?thesis by (simp add: unsigned_of_nat take_bit_nat_eq_self_iff del: of_nat_add)
qed

lemma ring_store:
  assumes "ring_ok b" "length xs \<le> length (data b) - ring_filled b"
  defines "b' \<equiv> b\<lparr>data := store_samples (mask_bits b) (write_pos b) xs (data b),
                  write_pos := write_pos b + word_of_nat (length xs)\<rparr>"
  shows "ring_ok b'" "audio_contents (Some b') = audio_contents (Some b) @ xs" "ring_filled b' = ring_filled b + length xs"
proof -
  obtain k where k: "k \<le> 30" "ring_capacity b = 2 ^ k" "mask_bits b = mask k" "length (data b) = 2 ^ k"
    using assms(1) by (auto simp: ring_ok_def)
  have le: "ring_filled b + length xs \<le> 2 ^ k" using assms(1,2) k by (simp add: ring_ok_def ring_filled_def)
  show f: "ring_filled b' = ring_filled b + length xs"
    using filled_after [OF assms(1,2)] by (simp add: ring_filled_def b'_def)
  show "ring_ok b'" using k f le by (auto simp: ring_ok_def ring_filled_def b'_def)
  have "length xs \<le> 2 ^ k" using le by simp
  then show "audio_contents (Some b') = audio_contents (Some b) @ xs"
    using f k store_load_old [OF k(1,4) le, of "read_pos b"] store_load_new [OF k(1,4), of xs "write_pos b"]
    by (simp add: audio_contents_def ring_filled_def [symmetric] load_samples_split)
       (simp add: b'_def write_is_read_plus [symmetric])
qed

lemma ring_load:
  assumes "ring_ok b" "n \<le> ring_filled b"
  defines "b' \<equiv> b\<lparr>read_pos := read_pos b + word_of_nat n\<rparr>"
  shows "ring_ok b'" "audio_contents (Some b') = drop n (audio_contents (Some b))" "ring_filled b' = ring_filled b - n"
    and "load_samples (mask_bits b) (read_pos b) n (data b) = take n (audio_contents (Some b))"
proof -
  have "write_pos b - (read_pos b + word_of_nat n) = word_of_nat (ring_filled b - n)"
    using assms(2) write_is_read_plus [of b] by simp
  moreover have "ring_filled b - n < 2 ^ 32"
    using unsigned_less [of "write_pos b - read_pos b", where 'a = nat] by (simp add: ring_filled_def)
  ultimately show f: "ring_filled b' = ring_filled b - n"
    by (simp add: ring_filled_def b'_def unsigned_of_nat take_bit_nat_eq_self_iff)
  show "ring_ok b'" using assms(1) f by (auto simp: ring_ok_def ring_filled_def b'_def)
  have split: "audio_contents (Some b) = load_samples (mask_bits b) (read_pos b) n (data b) @ audio_contents (Some b')"
    using load_samples_split [of "mask_bits b" "read_pos b" n "ring_filled b - n" "data b"] assms(2) f
    by (simp add: audio_contents_def ring_filled_def [symmetric]) (simp add: b'_def)
  show "audio_contents (Some b') = drop n (audio_contents (Some b))"
    "load_samples (mask_bits b) (read_pos b) n (data b) = take n (audio_contents (Some b))"
    by (simp_all add: split)
qed

lemma unat_power_u32:
  assumes "k \<le> 30"
  shows "unat (2 ^ k :: u32) = 2 ^ k"
proof -
  have "unat (word_of_nat (2 ^ k) :: u32) = 2 ^ k"
    using assms by (simp add: unsigned_of_nat take_bit_nat_eq_self_iff del: of_nat_power)
  then show ?thesis by simp
qed

lemma room_filled:
  assumes "ring_ok b"
  shows "audio_buffer_available_write (Some b) = length (data b) - ring_filled b"
    and "unat (ring_capacity b - (write_pos b - read_pos b)) = length (data b) - ring_filled b"
proof -
  obtain k where k: "k \<le> 30" "ring_capacity b = 2 ^ k" "length (data b) = 2 ^ k" using assms by (auto simp: ring_ok_def)
  have "unat (2 ^ k :: u32) = 2 ^ k" using unat_power_u32 [OF k(1)] .
  moreover have "write_pos b - read_pos b \<le> ring_capacity b"
    using assms k calculation by (simp add: ring_ok_def word_le_nat_alt)
  ultimately show "unat (ring_capacity b - (write_pos b - read_pos b)) = length (data b) - ring_filled b"
    using k by (simp add: unat_sub ring_filled_def)
  then show "audio_buffer_available_write (Some b) = length (data b) - ring_filled b"
    by (simp add: audio_buffer_available_write_def Let_def)
qed

lemma audio_contents_length: "length (audio_contents (Some b)) = ring_filled b"
  by (simp add: audio_contents_def ring_filled_def)

lemma counters_irrelevant:
  "ring_ok (b\<lparr>overruns := n\<rparr>) = ring_ok b" "ring_ok (b\<lparr>underruns := n\<rparr>) = ring_ok b"
  "audio_contents (Some (b\<lparr>overruns := n\<rparr>)) = audio_contents (Some b)"
  "audio_contents (Some (b\<lparr>underruns := n\<rparr>)) = audio_contents (Some b)"
  "ring_filled (b\<lparr>overruns := n\<rparr>) = ring_filled b" "ring_filled (b\<lparr>underruns := n\<rparr>) = ring_filled b"
  by (simp_all add: ring_ok_def audio_contents_def ring_filled_def)

lemma write_spec:
  assumes "ring_ok b"
  shows "\<exists>b'. audio_buffer_write (Some b) (Some xs) = (min (length xs) (length (data b) - ring_filled b), Some b') \<and>
    ring_ok b' \<and> length (data b') = length (data b) \<and>
    audio_contents (Some b') = audio_contents (Some b) @ take (length (data b) - ring_filled b) xs \<and>
    ring_filled b' = ring_filled b + min (length xs) (length (data b) - ring_filled b)"
proof (cases "xs = [] \<or> ring_capacity b - (write_pos b - read_pos b) = 0")
  case True
  then show ?thesis
  proof
    assume "xs = []"
    then show ?thesis using assms by (simp add: audio_buffer_write_def)
  next
    assume full: "ring_capacity b - (write_pos b - read_pos b) = 0"
    then have "length (data b) - ring_filled b = 0" using room_filled(2) [OF assms] by (simp add: full)
    then show ?thesis using assms full by (cases "xs = []") (simp_all add: audio_buffer_write_def counters_irrelevant Let_def)
  qed
next
  case False
  define o' where "o' = (if length (data b) - ring_filled b < length xs then overruns b + 1 else overruns b)"
  define n where "n = min (length xs) (length (data b) - ring_filled b)"
  let ?b = "b\<lparr>overruns := o'\<rparr>"
  have b: "ring_ok ?b" using assms by (simp add: counters_irrelevant)
  have len: "length (take n xs) = n" by (simp add: n_def)
  have "audio_buffer_write (Some b) (Some xs) =
    (n, Some (?b\<lparr>data := store_samples (mask_bits b) (write_pos b) (take n xs) (data b), write_pos := write_pos b + word_of_nat n\<rparr>))"
    using False room_filled(2) [OF assms] by (simp add: audio_buffer_write_def Let_def o'_def n_def not_less min_def)
  moreover have "take n xs = take (length (data b) - ring_filled b) xs" by (simp add: n_def min_def)
  ultimately show ?thesis
    using ring_store [OF b, of "take n xs"] len
    by (simp add: counters_irrelevant n_def [symmetric]) (simp add: n_def)
qed

lemma read_spec:
  assumes "ring_ok b" "n < 2 ^ 32"
  shows "\<exists>b'. audio_buffer_read (Some b) n = (take n (audio_contents (Some b)), Some b') \<and>
    ring_ok b' \<and> length (data b') = length (data b) \<and>
    audio_contents (Some b') = drop n (audio_contents (Some b)) \<and>
    ring_filled b' = ring_filled b - min n (ring_filled b)"
proof (cases "n = 0")
  case True
  then show ?thesis using assms by (simp add: audio_buffer_read_def)
next
  case False
  have un: "unat (word_of_nat n :: u32) = n" using assms(2) by (simp add: unsigned_of_nat take_bit_nat_eq_self_iff)
  define j where "j = min n (ring_filled b)"
  define o' where "o' = (if ring_filled b < n then underruns b + 1 else underruns b)"
  let ?b = "b\<lparr>underruns := o'\<rparr>"
  have b: "ring_ok ?b" using assms by (simp add: counters_irrelevant)
  have lt: "(write_pos b - read_pos b < word_of_nat n) = (ring_filled b < n)"
    using un by (simp add: word_less_nat_alt ring_filled_def)
  have "audio_buffer_read (Some b) n =
     (load_samples (mask_bits b) (read_pos b) j (data b), Some (?b\<lparr>read_pos := read_pos b + word_of_nat j\<rparr>))"
  proof (cases "ring_filled b < n")
    case True
    then show ?thesis using False lt by (simp add: audio_buffer_read_def Let_def o'_def j_def min_def)
       (simp add: ring_filled_def)
  next
    case False
    then show ?thesis using \<open>n \<noteq> 0\<close> lt un by (simp add: audio_buffer_read_def Let_def o'_def j_def min_def)
  qed
  moreover have "take j (audio_contents (Some b)) = take n (audio_contents (Some b))"
     "drop j (audio_contents (Some b)) = drop n (audio_contents (Some b))"
    using audio_contents_length [of b] by (auto simp: j_def min_def)
  ultimately show ?thesis
    using ring_load [OF b, of j] assms(1) by (simp add: counters_irrelevant j_def [symmetric]) (simp add: j_def)
qed

interpretation audio: chunk_fifo audio_ok audio_contents audio_buffer_available_write
  "\<lambda>q xs. audio_buffer_write q (Some xs)" audio_buffer_read "2 ^ 32"
proof unfold_locales
  fix q :: "'a audio_buffer option" and xs :: "'a list" and n :: nat
  assume "audio_ok q"
  then obtain b where q: "q = Some b" "ring_ok b" by (auto simp: audio_ok_def split: option.splits)
  note w = write_spec [OF q(2), of xs] room_filled(1) [OF q(2)]
  show "audio_ok (snd (audio_buffer_write q (Some xs)))" using w q by (auto simp: audio_ok_def)
  show "fst (audio_buffer_write q (Some xs)) = min (length xs) (audio_buffer_available_write q)" using w q by auto
  show "audio_contents (snd (audio_buffer_write q (Some xs))) = audio_contents q @ take (audio_buffer_available_write q) xs"
    using w q by auto
  show "audio_buffer_available_write (snd (audio_buffer_write q (Some xs))) = audio_buffer_available_write q - length xs"
    using w q by (auto simp: min_def room_filled(1))
  assume "n < 2 ^ 32"
  note r = read_spec [OF q(2) this] room_filled(1) [OF q(2)] audio_contents_length [of b]
  show "audio_ok (snd (audio_buffer_read q n))" using r q by (auto simp: audio_ok_def)
  show "fst (audio_buffer_read q n) = take n (audio_contents q)" using r q by auto
  show "audio_contents (snd (audio_buffer_read q n)) = drop n (audio_contents q)" using r q by auto
  have "ring_filled b \<le> length (data b)" using q(2) by (auto simp: ring_ok_def ring_filled_def)
  then show "audio_buffer_available_write (snd (audio_buffer_read q n)) =
      audio_buffer_available_write q + min n (length (audio_contents q))"
    using r q by (auto simp: room_filled(1))
qed simp

section \<open>Properties\<close>

lemma create_ok:
  assumes "audio_buffer_create True cap = Some b"
  shows "ring_ok b" "audio_contents (Some b) = []" "cap \<le> audio_buffer_available_write (Some b)"
proof -
  have c: "0 < cap" "cap \<le> 2 ^ 30" using assms by (auto simp: audio_buffer_create_def split: if_splits)
  then have u: "unat (word_of_nat cap :: u32) = cap" by (simp add: unsigned_of_nat take_bit_nat_eq_self_iff)
  then obtain k where k: "next_power_of_two (word_of_nat cap) = 2 ^ k" "cap \<le> 2 ^ k" "k \<le> 30"
    using next_power_bounded [of "word_of_nat cap" 30] c by auto
  then have "b = \<lparr>data = replicate (2 ^ k) 0, ring_capacity = 2 ^ k, mask_bits = mask k, write_pos = 0, read_pos = 0,
      underruns = 0, overruns = 0\<rparr>"
    using assms c unat_power_u32 [OF k(3)] by (auto simp: audio_buffer_create_def mask_eq_exp_minus_1 Let_def)
  then show "ring_ok b" "audio_contents (Some b) = []" "cap \<le> audio_buffer_available_write (Some b)"
    using k unat_power_u32 [OF k(3)]
    by (auto simp: ring_ok_def audio_contents_def load_samples_def audio_buffer_available_write_def)
qed

text \<open>
  C13. Samples come out of the ring as they went in: a block written to an empty ring that has room for
  it is returned whole by one read of its length, wherever the positions stand and even when
  they wrap around \<^verbatim>\<open>2^32\<close> in between.
\<close>

theorem audio_write_read:
  assumes "audio_ok q" "audio_contents q = []" "length xs \<le> audio_buffer_available_write q" "length xs < 2 ^ 32"
  shows "fst (audio_buffer_read (snd (audio_buffer_write q (Some xs))) (length xs)) = xs"
  by (rule audio.put_get [OF assms])

theorem audio_write_read_witness:
  "fst (audio_buffer_read (snd (audio_buffer_write (Some wrapping_ring) (Some [1, 2, 3]))) 3) = [1, 2, 3]"
proof -
  have "audio_ok (Some wrapping_ring)"
    by (auto simp: audio_ok_def ring_ok_def wrapping_ring_def mask_eq_exp_minus_1 intro!: exI [of _ 2])
  moreover have "audio_contents (Some wrapping_ring) = []" "audio_buffer_available_write (Some wrapping_ring) = 4"
    by (simp_all add: audio_contents_def load_samples_def wrapping_ring_def audio_buffer_available_write_def)
  ultimately show ?thesis using audio_write_read [of "Some wrapping_ring" "[1, 2, 3]"] by (simp add: numeral_3_eq_3)
qed

text \<open>
  C15. Resetting empties the ring but keeps the overrun and underrun counters, although the header of the
  module announces that the counters are reset.
\<close>

theorem audio_reset_keeps_counters:
  assumes "audio_ok (Some b)"
  shows "\<exists>b'. audio_buffer_reset (Some b) = Some b' \<and> audio_ok (Some b') \<and> audio_contents (Some b') = [] \<and>
    underruns b' = underruns b \<and> overruns b' = overruns b"
  using assms unat_power_u32
  by (auto simp: audio_ok_def audio_buffer_reset_def ring_ok_def audio_contents_def load_samples_def)

theorem audio_reset_keeps_counters_witness:
  "\<exists>b'. audio_buffer_reset (Some (wrapping_ring\<lparr>overruns := 5\<rparr>)) = Some b' \<and> overruns b' = 5"
proof -
  have "audio_ok (Some (wrapping_ring\<lparr>overruns := 5\<rparr>))"
    by (auto simp: audio_ok_def ring_ok_def wrapping_ring_def mask_eq_exp_minus_1 intro!: exI [of _ 2])
  from audio_reset_keeps_counters [OF this] show ?thesis by auto
qed

end
