(* ===== verification/Audio_Threads.thy ===== *)
theory Audio_Threads
  imports Audio_Buffer
begin

text \<open>
  The audio ring under concurrency. The producer runs \<^verbatim>\<open>audio_buffer_write\<close> and the consumer
  \<^verbatim>\<open>audio_buffer_read\<close> at the same time; \<open>audio_step\<close> is one atomic action of one of them: taking a
  snapshot of the positions, copying one sample, or publishing the own position. Between the actions
  of one thread the other may act arbitrarily often. Each thread alone writes its position and the
  stores to the position are release, the loads acquire, so that interleavings of these actions are
  all the executions there are. \<open>written\<close> and \<open>consumed\<close> log the samples that have been
  published and read.
\<close>

section \<open>Data\<close>

datatype 'f producer = P_Idle | P_Copy u32 "'f list" nat

datatype 'f consumer = C_Idle | C_Copy u32 nat "'f list"

record 'f audio_system =
  ring :: "'f audio_buffer"
  producer :: "'f producer"
  consumer :: "'f consumer"
  written :: "'f list"
  consumed :: "'f list"

section \<open>Atomic actions\<close>

inductive audio_step :: "'f audio_system \<Rightarrow> 'f audio_system \<Rightarrow> bool" where
  write_begin:
    "producer s = P_Idle \<Longrightarrow> samples \<noteq> [] \<Longrightarrow>
     avail = unat (ring_capacity (ring s) - (write_pos (ring s) - read_pos (ring s))) \<Longrightarrow> avail \<noteq> 0 \<Longrightarrow>
     audio_step s (s\<lparr>producer := P_Copy (write_pos (ring s)) (take avail samples) 0,
       ring := (ring s)\<lparr>overruns := overruns (ring s) + (if length samples > avail then 1 else 0)\<rparr>\<rparr>)"
| write_full:
    "producer s = P_Idle \<Longrightarrow> ring_capacity (ring s) - (write_pos (ring s) - read_pos (ring s)) = 0 \<Longrightarrow>
     audio_step s (s\<lparr>ring := (ring s)\<lparr>overruns := overruns (ring s) + 1\<rparr>\<rparr>)"
| write_copy:
    "producer s = P_Copy write samples i \<Longrightarrow> i < length samples \<Longrightarrow>
     audio_step s (s\<lparr>producer := P_Copy write samples (i + 1),
       ring := (ring s)\<lparr>data := (data (ring s))
         [unat ((write + word_of_nat i) AND mask_bits (ring s)) := samples ! i]\<rparr>\<rparr>)"
| write_publish:
    "producer s = P_Copy write samples (length samples) \<Longrightarrow>
     audio_step s (s\<lparr>producer := P_Idle, written := written s @ samples,
       ring := (ring s)\<lparr>write_pos := write + word_of_nat (length samples)\<rparr>\<rparr>)"
| read_begin:
    "consumer s = C_Idle \<Longrightarrow> filled = unat (write_pos (ring s) - read_pos (ring s)) \<Longrightarrow>
     audio_step s (s\<lparr>consumer := C_Copy (read_pos (ring s)) (min filled n) [],
       ring := (ring s)\<lparr>underruns := underruns (ring s) + (if filled < n then 1 else 0)\<rparr>\<rparr>)"
| read_copy:
    "consumer s = C_Copy read actual out \<Longrightarrow> length out < actual \<Longrightarrow>
     audio_step s (s\<lparr>consumer := C_Copy read actual
       (out @ [data (ring s) ! unat ((read + word_of_nat (length out)) AND mask_bits (ring s))])\<rparr>)"
| read_publish:
    "consumer s = C_Copy read actual out \<Longrightarrow> length out = actual \<Longrightarrow>
     audio_step s (s\<lparr>consumer := C_Idle, consumed := consumed s @ out,
       ring := (ring s)\<lparr>read_pos := read + word_of_nat actual\<rparr>\<rparr>)"

inductive audio_runs :: "nat \<Rightarrow> 'f :: zero audio_system \<Rightarrow> bool" for cap where
  created: "audio_buffer_create True cap = Some b \<Longrightarrow>
     audio_runs cap \<lparr>ring = b, producer = P_Idle, consumer = C_Idle, written = [], consumed = []\<rparr>"
| step: "audio_runs cap s \<Longrightarrow> audio_step s s' \<Longrightarrow> audio_runs cap s'"

inductive_cases audio_stepE: "audio_step s s'"

section \<open>The invariant\<close>

text \<open>
  With \<open>n\<close> samples published and \<open>m\<close> consumed, slots \<open>m\<close> to \<open>n - 1\<close> of the ring hold the samples
  in between; a copying producer fills slots beyond \<open>n\<close> that the consumer has left, and a copying
  consumer has picked up a part of the samples from \<open>m\<close> on.
\<close>

definition slots_hold :: "nat \<Rightarrow> 'f list \<Rightarrow> nat \<Rightarrow> 'f list \<Rightarrow> bool" where
  "slots_hold k d n xs \<longleftrightarrow> (\<forall>i<length xs. d ! ((n + i) mod 2 ^ k) = xs ! i)"

primrec producer_ok :: "nat \<Rightarrow> 'f list \<Rightarrow> nat \<Rightarrow> nat \<Rightarrow> 'f producer \<Rightarrow> bool" where
  "producer_ok k d n m P_Idle = True"
| "producer_ok k d n m (P_Copy w xs i) =
     (w = word_of_nat n \<and> n + length xs \<le> m + 2 ^ k \<and> i \<le> length xs \<and> slots_hold k d n (take i xs))"

primrec consumer_ok :: "'f list \<Rightarrow> nat \<Rightarrow> 'f consumer \<Rightarrow> bool" where
  "consumer_ok xs m C_Idle = True"
| "consumer_ok xs m (C_Copy r a ys) =
     (r = word_of_nat m \<and> a \<le> length xs - m \<and> length ys \<le> a \<and> ys = take (length ys) (drop m xs))"

definition audio_inv :: "nat \<Rightarrow> 'f audio_system \<Rightarrow> bool" where
  "audio_inv k s \<longleftrightarrow>
     (let n = length (written s); m = length (consumed s); b = ring s in
      k \<le> 30 \<and> ring_capacity b = 2 ^ k \<and> mask_bits b = mask k \<and> length (data b) = 2 ^ k \<and>
      write_pos b = word_of_nat n \<and> read_pos b = word_of_nat m \<and>
      m \<le> n \<and> n \<le> m + 2 ^ k \<and> consumed s = take m (written s) \<and>
      slots_hold k (data b) m (drop m (written s)) \<and>
      producer_ok k (data b) n m (producer s) \<and> consumer_ok (written s) m (consumer s))"

lemma producer_ok_mono: "producer_ok k d n m p \<Longrightarrow> m \<le> m' \<Longrightarrow> producer_ok k d n m' p"
  by (cases p) auto

lemma consumer_ok_mono: "consumer_ok xs m c \<Longrightarrow> consumer_ok (xs @ ys) m c"
  by (cases c) (auto simp: le_diff_conv)

lemma slot_of_nat: "k \<le> 30 \<Longrightarrow> unat ((word_of_nat n + word_of_nat i :: u32) AND mask k) = (n + i) mod 2 ^ k"
  using unat_slot [of k 0 "n + i"] by simp

lemma mod_slots_differ:
  assumes "m \<le> a" "a < b" "b < m + (c :: nat)"
  shows "a mod c \<noteq> b mod c"
proof
  assume "a mod c = b mod c"
  then have "(b - a) mod c = 0" using assms by (metis less_imp_le mod_eq_dvd_iff_nat dvd_imp_mod_0)
  then show False using assms by (simp add: mod_less)
qed

lemma slots_hold_update:
  assumes "slots_hold k d m xs" "m + length xs \<le> j" "j < m + 2 ^ k"
  shows "slots_hold k (d[j mod 2 ^ k := x]) m xs"
  unfolding slots_hold_def
proof (intro allI impI)
  fix i assume i: "i < length xs"
  then have "(m + i) mod 2 ^ k \<noteq> j mod 2 ^ k" using assms(2,3) by (intro mod_slots_differ [of m]) simp_all
  then show "d[j mod 2 ^ k := x] ! ((m + i) mod 2 ^ k) = xs ! i"
    using assms(1) i by (simp add: slots_hold_def)
qed

lemma slots_hold_append:
  "slots_hold k d m (xs @ ys) \<longleftrightarrow> slots_hold k d m xs \<and> slots_hold k d (m + length xs) ys"
  by (auto simp: slots_hold_def nth_append add.assoc not_less) (metis add_diff_inverse_nat less_diff_conv2 nat_add_left_cancel_less not_less)

lemma fill_word:
  assumes "m \<le> n" "n \<le> m + 2 ^ k" "k \<le> 30"
  shows "unat (word_of_nat n - word_of_nat m :: u32) = n - m"
    "unat (2 ^ k - (word_of_nat n - word_of_nat m) :: u32) = m + 2 ^ k - n"
proof -
  have p: "(2 :: nat) ^ k \<le> 2 ^ 30" using assms(3) by (intro power_increasing) simp_all
  have d: "word_of_nat n - word_of_nat m = (word_of_nat (n - m) :: u32)" using assms(1) by simp
  show "unat (word_of_nat n - word_of_nat m :: u32) = n - m"
    unfolding d using assms(2) p by (simp only: unsigned_of_nat) (simp add: take_bit_nat_eq_self_iff)
  have e: "2 ^ k - (word_of_nat n - word_of_nat m) = (word_of_nat (m + 2 ^ k - n) :: u32)"
    using assms(1,2) by simp
  show "unat (2 ^ k - (word_of_nat n - word_of_nat m) :: u32) = m + 2 ^ k - n"
    unfolding e using assms(1) p by (simp only: unsigned_of_nat) (simp add: take_bit_nat_eq_self_iff)
qed

lemma audio_inv_step:
  assumes "audio_step s s'" "audio_inv k s"
  shows "audio_inv k s'"
  using assms(1)
proof cases
  case (write_begin samples avail)
  then show ?thesis using assms(2) fill_word(2) [of "length (consumed s)" "length (written s)" k]
    by (simp add: audio_inv_def Let_def slots_hold_def)
next
  case write_full
  from write_full(1) show ?thesis using assms(2) by (simp add: audio_inv_def Let_def)
next
  case (write_copy pos samples i)
  let ?n = "length (written s)" and ?m = "length (consumed s)" and ?d = "data (ring s)"
  have inv: "k \<le> 30" "?n + length samples \<le> ?m + 2 ^ k" "slots_hold k ?d ?m (drop ?m (written s))" "pos = word_of_nat ?n"
     "slots_hold k ?d ?n (take i samples)" "mask_bits (ring s) = mask k" "?m \<le> ?n" "length ?d = 2 ^ k"
    using assms(2) write_copy by (auto simp: audio_inv_def Let_def)
  have "slots_hold k (?d[(?n + i) mod 2 ^ k := samples ! i]) ?m (drop ?m (written s))"
    using inv write_copy by (intro slots_hold_update) auto
  moreover have "slots_hold k (?d[(?n + i) mod 2 ^ k := samples ! i]) ?n (take (Suc i) samples)"
    using slots_hold_update [OF inv(5), of "?n + i" "samples ! i"] inv write_copy
    by (simp add: take_Suc_conv_app_nth slots_hold_append) (simp add: slots_hold_def)
  ultimately show ?thesis
    using assms(2) write_copy inv by (simp add: audio_inv_def Let_def slot_of_nat)
next
  case (write_publish pos samples)
  then show ?thesis using assms(2)
    by (simp add: audio_inv_def Let_def slots_hold_append consumer_ok_mono add.commute)
next
  case (read_begin filled n)
  then show ?thesis using assms(2) fill_word(1) [of "length (consumed s)" "length (written s)" k]
    by (simp add: audio_inv_def Let_def)
next
  case (read_copy pos actual out)
  then show ?thesis using assms(2)
    by (simp add: audio_inv_def Let_def slot_of_nat slots_hold_def take_Suc_conv_app_nth)
next
  case (read_publish pos actual out)
  let ?m = "length (consumed s)" and ?w = "written s"
  have a: "?m + actual \<le> length ?w" "out = take actual (drop ?m ?w)"
    using assms(2) read_publish by (auto simp: audio_inv_def Let_def)
  have "slots_hold k (data (ring s)) ?m (take actual (drop ?m ?w) @ drop actual (drop ?m ?w))"
    using assms(2) unfolding append_take_drop_id by (simp add: audio_inv_def Let_def)
  then have "slots_hold k (data (ring s)) (?m + actual) (drop (?m + actual) ?w)"
    unfolding slots_hold_append using a(1) by (simp add: add.commute)
  moreover have "consumed s @ out = take (?m + actual) ?w"
    using assms(2) a(2) by (simp add: audio_inv_def Let_def take_add)
  ultimately show ?thesis
    using assms(2) read_publish a producer_ok_mono [of k "data (ring s)" "length ?w" ?m "producer s" "?m + actual"]
    by (simp add: audio_inv_def Let_def)
qed

lemma audio_runs_inv:
  assumes "audio_runs cap s"
  shows "\<exists>k. audio_inv k s \<and> cap \<le> 2 ^ k"
  using assms
proof induction
  case (created b)
  have "ring_ok b" "audio_contents (Some b) = []" "cap \<le> length (data b)" "write_pos b = 0" "read_pos b = 0"
    using create_ok [OF created] room_filled(1) [of b] created
    by (auto simp: audio_buffer_create_def Let_def split: if_splits)
  then show ?case by (auto simp: audio_inv_def ring_ok_def slots_hold_def Let_def)
next
  case (step s s')
  then show ?case using audio_inv_step by blast
qed

text \<open>
  C12. The ring is safe under concurrency: whatever the interleaving of producer and consumer, however
  often the 32-bit positions wrap, and however stale the snapshots they work with, the samples
  the consumer has read are a prefix of the samples the producer has published, in the same order and
  unduplicated, and at most a ring's capacity of samples is in flight.
\<close>

theorem audio_ring_safe:
  assumes "audio_runs cap s"
  shows "\<exists>rest. written s = consumed s @ rest \<and> length rest \<le> unat (ring_capacity (ring s)) \<and>
    cap \<le> unat (ring_capacity (ring s))"
proof -
  obtain k where k: "audio_inv k s" "cap \<le> 2 ^ k" using audio_runs_inv [OF assms] by blast
  let ?m = "length (consumed s)"
  have "k \<le> 30" "ring_capacity (ring s) = 2 ^ k" "consumed s = take ?m (written s)" "length (written s) \<le> ?m + 2 ^ k"
    using k(1) by (auto simp: audio_inv_def Let_def)
  then show ?thesis using k(2) unat_power_u32
    by (intro exI [of _ "drop ?m (written s)"]) (metis append_take_drop_id diff_le_mono length_drop diff_add_inverse)
qed

theorem audio_ring_safe_witness:
  "\<exists>s :: int audio_system. audio_runs 2 s \<and> producer s = P_Copy 0 [7] 0 \<and>
     (\<exists>rest. written s = consumed s @ rest \<and> length rest \<le> unat (ring_capacity (ring s)) \<and>
       2 \<le> unat (ring_capacity (ring s)))"
proof -
  let ?b = "the (audio_buffer_create True 2 :: int audio_buffer option)"
  let ?s = "\<lparr>ring = ?b, producer = P_Idle, consumer = C_Idle, written = [], consumed = []\<rparr>"
  have b: "audio_buffer_create True 2 = Some ?b" by (simp add: audio_buffer_create_def Let_def)
  have "unat (ring_capacity ?b - (write_pos ?b - read_pos ?b)) = 2"
    by (simp add: audio_buffer_create_def next_power_of_two_def)
  then have "audio_step ?s (?s\<lparr>producer := P_Copy (write_pos ?b) (take 2 [7]) 0,
       ring := ?b\<lparr>overruns := overruns ?b + (if length [7 :: int] > 2 then 1 else 0)\<rparr>\<rparr>)"
    using write_begin [of ?s "[7]" 2] by simp
  then have r: "audio_runs 2 (?s\<lparr>producer := P_Copy (write_pos ?b) (take 2 [7]) 0,
       ring := ?b\<lparr>overruns := overruns ?b + (if length [7 :: int] > 2 then 1 else 0)\<rparr>\<rparr>)"
    by (rule audio_runs.step [OF created [OF b]])
  show ?thesis
    by (rule exI, intro conjI, rule r) (use audio_ring_safe [OF r] in \<open>simp_all add: audio_buffer_create_def Let_def\<close>)
qed

end
