(* ===== verification/D64_Image.thy ===== *)
theory D64_Image
  imports Machine_Prelude
begin

text \<open>
  Disk images of the 1541 in the D64 format, \<^verbatim>\<open>src/src/c64/tools/d64/d64.c\<close>: geometry, the block
  availability map (BAM), the directory, and reading, writing and scratching program files.

  The block \<^verbatim>\<open>bytes\<close> is a function from offsets to bytes, a pointer into it an offset, a null pointer
  \<open>None\<close>. A \<^verbatim>\<open>size_t\<close> is a natural number: every one of them is bounded by the size of an image or
  of a caller's buffer, so that none wraps. Track and sector numbers keep their width. An array
  \<^verbatim>\<open>visited\<close> is the set of the indices whose flag is up. A function that returns a \<^verbatim>\<open>d64_result\<close>
  and fills output parameters yields \<open>Inl\<close> of an error or \<open>Inr\<close> of the outputs. \<open>mem\<close> tells which
  allocations succeed during a call.
\<close>

section \<open>Data\<close>

datatype d64_result =
  D64_OK | D64_INVALID_ARGUMENT | D64_UNSUPPORTED_IMAGE | D64_TRACK_OUT_OF_RANGE | D64_SECTOR_OUT_OF_RANGE
| D64_DIRECTORY_CHAIN_LOOP | D64_FILE_CHAIN_LOOP | D64_MALFORMED_DIRECTORY | D64_MALFORMED_FILE
| D64_UNSUPPORTED_FILE_TYPE | D64_FILE_NOT_FOUND | D64_FILE_EXISTS | D64_PRG_TOO_SHORT | D64_DISK_FULL
| D64_DIRECTORY_FULL | D64_OUT_OF_MEMORY

datatype d64_file_type =
  D64_FILE_DEL | D64_FILE_SEQ | D64_FILE_PRG | D64_FILE_USR | D64_FILE_REL | D64_FILE_UNKNOWN

record d64_disk_info =
  title :: "u8 list"
  title_length :: nat
  disk_id :: "u8 list"
  dos_type :: "u8 list"
  free_blocks :: u16

record d64_directory_entry =
  raw_type :: u8
  entry_type :: d64_file_type
  closed :: bool
  locked :: bool
  first_track :: u8
  first_sector :: u8
  filename :: "u8 list"
  filename_length :: nat
  block_count :: u16

record d64_geometry =
  track_count :: u8
  payload_size :: nat
  error_bytes :: nat
  sector_count :: nat

record d64_image =
  bytes :: "nat \<Rightarrow> u8"
  image_size :: nat
  geom :: d64_geometry
  info :: d64_disk_info
  entries :: "d64_directory_entry list"
  entry_capacity :: nat

text \<open>The allocations of the file: the structure, its bytes, the entry table, a backup, the tables of a
  new chain and the bytes of an extracted file, the last four with the size asked for.\<close>

datatype d64_alloc = Image_Struct | Image_Bytes nat | Entry_Table nat | Backup nat | Chain_Tables nat | File_Bytes nat

type_synonym d64_memory = "d64_alloc \<Rightarrow> bool"

definition empty_info :: d64_disk_info where
  "empty_info = \<lparr>title = replicate 16 0, title_length = 0, disk_id = [0, 0], dos_type = [0, 0], free_blocks = 0\<rparr>"

fun d64_result_string :: "d64_result \<Rightarrow> string" where
  "d64_result_string D64_OK = ''ok''"
| "d64_result_string D64_INVALID_ARGUMENT = ''invalid argument''"
| "d64_result_string D64_UNSUPPORTED_IMAGE = ''unsupported image''"
| "d64_result_string D64_TRACK_OUT_OF_RANGE = ''track out of range''"
| "d64_result_string D64_SECTOR_OUT_OF_RANGE = ''sector out of range''"
| "d64_result_string D64_DIRECTORY_CHAIN_LOOP = ''directory chain loop''"
| "d64_result_string D64_FILE_CHAIN_LOOP = ''file chain loop''"
| "d64_result_string D64_MALFORMED_DIRECTORY = ''malformed directory''"
| "d64_result_string D64_MALFORMED_FILE = ''malformed file''"
| "d64_result_string D64_UNSUPPORTED_FILE_TYPE = ''unsupported file type''"
| "d64_result_string D64_FILE_NOT_FOUND = ''file not found''"
| "d64_result_string D64_FILE_EXISTS = ''file exists''"
| "d64_result_string D64_PRG_TOO_SHORT = ''prg too short''"
| "d64_result_string D64_DISK_FULL = ''disk full''"
| "d64_result_string D64_DIRECTORY_FULL = ''directory full''"
| "d64_result_string D64_OUT_OF_MEMORY = ''out of memory''"

fun d64_file_type_string :: "d64_file_type \<Rightarrow> string" where
  "d64_file_type_string D64_FILE_DEL = ''DEL''"
| "d64_file_type_string D64_FILE_SEQ = ''SEQ''"
| "d64_file_type_string D64_FILE_PRG = ''PRG''"
| "d64_file_type_string D64_FILE_USR = ''USR''"
| "d64_file_type_string D64_FILE_REL = ''REL''"
| "d64_file_type_string D64_FILE_UNKNOWN = ''???''"

text \<open>The C library's block operations on a byte function.\<close>

definition memcpy :: "(nat \<Rightarrow> u8) \<Rightarrow> nat \<Rightarrow> u8 list \<Rightarrow> nat \<Rightarrow> u8" where
  "memcpy bs p xs = (\<lambda>i. if p \<le> i \<and> i < p + length xs then xs ! (i - p) else bs i)"

definition memset :: "(nat \<Rightarrow> u8) \<Rightarrow> nat \<Rightarrow> u8 \<Rightarrow> nat \<Rightarrow> nat \<Rightarrow> u8" where
  "memset bs p v n = (\<lambda>i. if p \<le> i \<and> i < p + n then v else bs i)"

definition block :: "(nat \<Rightarrow> u8) \<Rightarrow> nat \<Rightarrow> nat \<Rightarrow> u8 list" where
  "block bs p n = map (\<lambda>k. bs (p + k)) [0..<n]"

section \<open>Geometry\<close>

definition d64_spt :: "nat list" where
  "d64_spt =
     [21, 21, 21, 21, 21, 21, 21, 21, 21, 21, 21, 21, 21, 21, 21, 21, 21,
      19, 19, 19, 19, 19, 19, 19,
      18, 18, 18, 18, 18, 18,
      17, 17, 17, 17, 17,
      17, 17, 17, 17, 17,
      17, 17]"

definition d64_geometry_from_size :: "nat \<Rightarrow> d64_geometry option" where
  "d64_geometry_from_size sz =
     (if sz = 174848 then Some \<lparr>track_count = 35, payload_size = 174848, error_bytes = 0, sector_count = 683\<rparr>
      else if sz = 175531 then Some \<lparr>track_count = 35, payload_size = 174848, error_bytes = 683, sector_count = 683\<rparr>
      else if sz = 196608 then Some \<lparr>track_count = 40, payload_size = 196608, error_bytes = 0, sector_count = 768\<rparr>
      else if sz = 197376 then Some \<lparr>track_count = 40, payload_size = 196608, error_bytes = 768, sector_count = 768\<rparr>
      else if sz = 205312 then Some \<lparr>track_count = 42, payload_size = 205312, error_bytes = 0, sector_count = 802\<rparr>
      else if sz = 206114 then Some \<lparr>track_count = 42, payload_size = 205312, error_bytes = 802, sector_count = 802\<rparr>
      else None)"

definition d64_image_size_supported :: "nat \<Rightarrow> bool" where
  "d64_image_size_supported sz \<longleftrightarrow> d64_geometry_from_size sz \<noteq> None"

definition d64_sectors_per_track :: "u8 \<Rightarrow> nat" where
  "d64_sectors_per_track track = (if track < 1 \<or> 42 < track then 0 else d64_spt ! (unat track - 1))"

text \<open>The loop over the tracks before the wanted one; \<open>n\<close> tracks have been passed.\<close>

primrec tracks_offset :: "nat \<Rightarrow> nat" where
  "tracks_offset 0 = 0"
| "tracks_offset (Suc n) = tracks_offset n + d64_spt ! n * 256"

definition d64_track_sector_offset :: "u8 \<Rightarrow> u8 \<Rightarrow> d64_result + nat" where
  "d64_track_sector_offset track sector =
     (if track < 1 \<or> 42 < track then Inl D64_TRACK_OUT_OF_RANGE
      else if d64_spt ! (unat track - 1) \<le> unat sector then Inl D64_SECTOR_OUT_OF_RANGE
      else Inr (tracks_offset (unat track - 1) + unat sector * 256))"

definition d64_image_sector_offset :: "d64_image \<Rightarrow> u8 \<Rightarrow> u8 \<Rightarrow> d64_result + nat" where
  "d64_image_sector_offset img track sector =
     (if track < 1 \<or> track_count (geom img) < track then Inl D64_TRACK_OUT_OF_RANGE
      else case d64_track_sector_offset track sector of
          Inl result \<Rightarrow> Inl result
        | Inr offset \<Rightarrow>
            (if payload_size (geom img) < offset + 256 then Inl D64_SECTOR_OUT_OF_RANGE else Inr offset))"

section \<open>Directory\<close>

definition d64_decode_file_type :: "u8 \<Rightarrow> d64_file_type" where
  "d64_decode_file_type raw =
     (let t = raw AND 0x07 in
      if t = 0 then D64_FILE_DEL else if t = 1 then D64_FILE_SEQ else if t = 2 then D64_FILE_PRG
      else if t = 3 then D64_FILE_USR else if t = 4 then D64_FILE_REL else D64_FILE_UNKNOWN)"

primrec trim_padding :: "u8 list \<Rightarrow> nat \<Rightarrow> nat" where
  "trim_padding name 0 = 0"
| "trim_padding name (Suc n) = (if name ! n = 0xA0 \<or> name ! n = 0x20 then trim_padding name n else Suc n)"

definition d64_trim_petscii_name :: "u8 list \<Rightarrow> nat" where
  "d64_trim_petscii_name name = trim_padding name 16"

definition d64_parse_disk_info :: "d64_image \<Rightarrow> d64_image" where
  "d64_parse_disk_info img =
     (let img = img\<lparr>info := empty_info\<rparr> in
      case d64_image_sector_offset img 18 0 of
        Inl _ \<Rightarrow> img
      | Inr bam \<Rightarrow>
          (let name = block (bytes img) (bam + 0x90) 16
           in img\<lparr>info :=
                \<lparr>title = name, title_length = d64_trim_petscii_name name,
                 disk_id = block (bytes img) (bam + 0xA2) 2, dos_type = block (bytes img) (bam + 0xA5) 2,
                 free_blocks = sum_list (map (\<lambda>track. ucast (bytes img (bam + 4 + (track - 1) * 4)))
                   (filter (\<lambda>track. track \<noteq> 18) [1..<36]))\<rparr>\<rparr>))"

definition d64_append_directory_entry :: "d64_memory \<Rightarrow> d64_directory_entry \<Rightarrow> d64_image \<Rightarrow> d64_result \<times> d64_image" where
  "d64_append_directory_entry mem entry img =
     (if length (entries img) = entry_capacity img then
        (let new_capacity = (if entry_capacity img = 0 then 16 else entry_capacity img * 2)
         in if \<not> mem (Entry_Table new_capacity) then (D64_OUT_OF_MEMORY, img)
            else (D64_OK, img\<lparr>entry_capacity := new_capacity, entries := entries img @ [entry]\<rparr>))
      else (D64_OK, img\<lparr>entries := entries img @ [entry]\<rparr>))"

text \<open>The entry behind a slot; the source fills it at two places with the same assignments.\<close>

definition slot_entry :: "(nat \<Rightarrow> u8) \<Rightarrow> nat \<Rightarrow> d64_directory_entry" where
  "slot_entry bs p =
     (let raw = bs (p + 2); name = block bs (p + 5) 16
      in \<lparr>raw_type = raw, entry_type = d64_decode_file_type raw, closed = (raw AND 0x80 \<noteq> 0),
          locked = (raw AND 0x40 \<noteq> 0), first_track = bs (p + 3), first_sector = bs (p + 4),
          filename = name, filename_length = d64_trim_petscii_name name,
          block_count = ucast (bs (p + 30)) OR push_bit 8 (ucast (bs (p + 31)))\<rparr>)"

definition slot_unused :: "(nat \<Rightarrow> u8) \<Rightarrow> nat \<Rightarrow> bool" where
  "slot_unused bs p \<longleftrightarrow> bs (p + 2) AND 0x07 = 0 \<or> bs (p + 2) = 0"

definition d64_parse_directory_slot :: "d64_memory \<Rightarrow> nat \<Rightarrow> nat \<Rightarrow> d64_image \<Rightarrow> d64_result \<times> d64_image" where
  "d64_parse_directory_slot mem sector slot img =
     (if slot_unused (bytes img) (sector + slot * 32) then (D64_OK, img)
      else d64_append_directory_entry mem (slot_entry (bytes img) (sector + slot * 32)) img)"

primrec parse_slots :: "d64_memory \<Rightarrow> nat \<Rightarrow> nat list \<Rightarrow> d64_image \<Rightarrow> d64_result \<times> d64_image" where
  "parse_slots mem sector [] img = (D64_OK, img)"
| "parse_slots mem sector (slot # slots) img =
     (let (result, img) = d64_parse_directory_slot mem sector slot img
      in if result \<noteq> D64_OK then (result, img) else parse_slots mem sector slots img)"

definition malformed_as :: "d64_result \<Rightarrow> d64_result \<Rightarrow> d64_result" where
  "malformed_as malformed result =
     (if result = D64_SECTOR_OUT_OF_RANGE \<or> result = D64_TRACK_OUT_OF_RANGE then malformed else result)"

definition unvisited :: "nat set \<Rightarrow> nat" where
  "unvisited visited = card ({..<802} - visited)"

lemma visited_decreases:
  "i < 802 \<Longrightarrow> i \<notin> visited \<Longrightarrow> unvisited (insert i visited) < unvisited visited"
  unfolding unvisited_def by (rule psubset_card_mono) auto

text \<open>The loop of \<^verbatim>\<open>d64_parse_directory\<close>; it ends because every round visits a new sector.\<close>

function parse_directory_from ::
  "d64_memory \<Rightarrow> u8 \<Rightarrow> u8 \<Rightarrow> nat set \<Rightarrow> d64_image \<Rightarrow> d64_result \<times> d64_image" where
  "parse_directory_from mem track sector_id visited img =
     (if track = 0 then (D64_OK, img)
      else case d64_image_sector_offset img track sector_id of
          Inl result \<Rightarrow> (malformed_as D64_MALFORMED_DIRECTORY result, img)
        | Inr offset \<Rightarrow>
            (if 802 \<le> offset div 256 then (D64_MALFORMED_DIRECTORY, img)
             else if offset div 256 \<in> visited then (D64_DIRECTORY_CHAIN_LOOP, img)
             else
               (let (result, img) = parse_slots mem offset [0..<8] img
                in if result \<noteq> D64_OK then (result, img)
                   else parse_directory_from mem (bytes img offset) (bytes img (offset + 1))
                     (insert (offset div 256) visited) img)))"
  by pat_completeness auto
termination
  by (relation "measure (\<lambda>(mem, track, sector_id, visited, img). unvisited visited)")
    (auto intro: visited_decreases)

declare parse_directory_from.simps [simp del]

definition d64_parse_directory :: "d64_memory \<Rightarrow> d64_image \<Rightarrow> d64_result \<times> d64_image" where
  "d64_parse_directory mem img = parse_directory_from mem 18 1 {} img"

definition d64_image_create :: "d64_memory \<Rightarrow> (nat \<Rightarrow> u8) option \<Rightarrow> nat \<Rightarrow> d64_result + d64_image" where
  "d64_image_create mem source sz =
     (case source of
        None \<Rightarrow> Inl D64_INVALID_ARGUMENT
      | Some bs \<Rightarrow>
          (if \<not> d64_image_size_supported sz then Inl D64_UNSUPPORTED_IMAGE
           else if \<not> mem Image_Struct then Inl D64_OUT_OF_MEMORY
           else case d64_geometry_from_size sz of
               None \<Rightarrow> Inl D64_UNSUPPORTED_IMAGE
             | Some g \<Rightarrow>
                 (if \<not> mem (Image_Bytes sz) then Inl D64_OUT_OF_MEMORY
                  else
                    (let img = d64_parse_disk_info
                           \<lparr>bytes = bs, image_size = sz, geom = g, info = empty_info, entries = [], entry_capacity = 0\<rparr>;
                         (result, img) = d64_parse_directory mem img
                     in if result \<noteq> D64_OK then Inl result else Inr img))))"

definition d64_image_disk_info :: "d64_image option \<Rightarrow> d64_disk_info option" where
  "d64_image_disk_info img = map_option info img"

definition d64_image_bytes :: "d64_image option \<Rightarrow> (nat \<Rightarrow> u8) option \<times> nat" where
  "d64_image_bytes img = (case img of None \<Rightarrow> (None, 0) | Some img \<Rightarrow> (Some (bytes img), image_size img))"

definition d64_image_directory_count :: "d64_image option \<Rightarrow> nat" where
  "d64_image_directory_count img = (case img of None \<Rightarrow> 0 | Some img \<Rightarrow> length (entries img))"

definition d64_image_directory_entry :: "d64_image option \<Rightarrow> nat \<Rightarrow> d64_result + d64_directory_entry" where
  "d64_image_directory_entry img index =
     (case img of
        None \<Rightarrow> Inl D64_INVALID_ARGUMENT
      | Some img \<Rightarrow> (if length (entries img) \<le> index then Inl D64_FILE_NOT_FOUND else Inr (entries img ! index)))"

section \<open>Names\<close>

definition d64_petscii_to_ascii :: "u8 \<Rightarrow> u8" where
  "d64_petscii_to_ascii value =
     (if value = 0xA0 then 0
      else if 0x20 \<le> value \<and> value \<le> 0x7E then value
      else if 0xC1 \<le> value \<and> value \<le> 0xDA then 0x41 + (value - 0xC1)
      else 0x3F)"

definition d64_ascii_to_petscii :: "u8 \<Rightarrow> u8" where
  "d64_ascii_to_petscii value = (if 0x61 \<le> value \<and> value \<le> 0x7A then value - 0x20 else value)"

text \<open>A C string is the list of its bytes before the terminator.\<close>

definition d64_entry_name_ascii :: "d64_directory_entry \<Rightarrow> nat \<Rightarrow> d64_result + u8 list" where
  "d64_entry_name_ascii entry out_name_size =
     (if out_name_size = 0 then Inl D64_INVALID_ARGUMENT
      else if out_name_size < filename_length entry + 1 then Inl D64_INVALID_ARGUMENT
      else Inr (takeWhile (\<lambda>c. c \<noteq> 0) (map d64_petscii_to_ascii (take (filename_length entry) (filename entry)))))"

definition d64_ascii_upper :: "u8 \<Rightarrow> u8" where
  "d64_ascii_upper value = (if 0x61 \<le> value \<and> value \<le> 0x7A then value - 0x20 else value)"

fun d64_ascii_equal_fold :: "u8 list \<Rightarrow> u8 list \<Rightarrow> bool" where
  "d64_ascii_equal_fold (l # left) (r # right) =
     (if d64_ascii_upper l \<noteq> d64_ascii_upper r then False else d64_ascii_equal_fold left right)"
| "d64_ascii_equal_fold left right = (left = [] \<and> right = [])"

definition d64_image_find_entry_ascii :: "d64_image option \<Rightarrow> u8 list option \<Rightarrow> d64_result + d64_directory_entry" where
  "d64_image_find_entry_ascii img name =
     (case (img, name) of
        (Some img, Some name) \<Rightarrow>
          (case find (\<lambda>entry. case d64_entry_name_ascii entry 17 of
                Inl _ \<Rightarrow> False | Inr entry_name \<Rightarrow> d64_ascii_equal_fold entry_name name) (entries img) of
             None \<Rightarrow> Inl D64_FILE_NOT_FOUND
           | Some entry \<Rightarrow> Inr entry)
      | _ \<Rightarrow> Inl D64_INVALID_ARGUMENT)"

definition upper_byte :: "u8 \<Rightarrow> u8" where
  "upper_byte c = (if 0x61 \<le> c \<and> c \<le> 0x7A then c - 0x20 else c)"

definition d64_names_equal :: "u8 list \<Rightarrow> u8 list \<Rightarrow> bool" where
  "d64_names_equal left right \<longleftrightarrow>
     (if length left \<noteq> length right then False
      else list_all2 (\<lambda>l r. upper_byte l = upper_byte r) left right)"

fun strip_quotes :: "u8 list \<Rightarrow> u8 list" where
  "strip_quotes name =
     (if 2 \<le> length name \<and> hd name = 0x22 \<and> last name = 0x22 then strip_quotes (butlast (tl name)) else name)"

declare strip_quotes.simps [simp del]

definition d64_normalize_name :: "u8 list \<Rightarrow> d64_result + u8 list \<times> nat \<times> bool" where
  "d64_normalize_name name =
     (let name = strip_quotes name;
          replace = (2 \<le> length name \<and> name ! 0 = 0x40 \<and> name ! 1 = 0x3A);
          name = (if replace then drop 2 name else name);
          name_len = trim_padding name (length name)
      in if name_len = 0 \<or> 16 < name_len then Inl D64_INVALID_ARGUMENT
         else Inr (map d64_ascii_to_petscii (take name_len name) @ replicate (16 - name_len) 0xA0, name_len, replace))"

section \<open>Reading files\<close>

definition d64_file_append :: "d64_memory \<Rightarrow> u8 list \<Rightarrow> u8 list \<Rightarrow> d64_result + u8 list" where
  "d64_file_append mem file chunk =
     (if length chunk = 0 then Inr file
      else if \<not> mem (File_Bytes (length file + length chunk)) then Inl D64_OUT_OF_MEMORY
      else Inr (file @ chunk))"

definition final_size :: "u8 \<Rightarrow> nat" where
  "final_size link = (let n = (if link \<le> 1 then 0 else unat link - 1) in if 254 < n then 254 else n)"

function extract_from ::
  "d64_memory \<Rightarrow> d64_image \<Rightarrow> u8 \<Rightarrow> u8 \<Rightarrow> nat set \<Rightarrow> u8 list \<Rightarrow> d64_result + u8 list" where
  "extract_from mem img track sector_id visited file =
     (if track = 0 then Inr file
      else case d64_image_sector_offset img track sector_id of
          Inl result \<Rightarrow> Inl (malformed_as D64_MALFORMED_FILE result)
        | Inr offset \<Rightarrow>
            (if 802 \<le> offset div 256 then Inl D64_MALFORMED_FILE
             else if offset div 256 \<in> visited then Inl D64_FILE_CHAIN_LOOP
             else if bytes img offset = 0 then
               d64_file_append mem file (block (bytes img) (offset + 2) (final_size (bytes img (offset + 1))))
             else case d64_file_append mem file (block (bytes img) (offset + 2) 254) of
                 Inl result \<Rightarrow> Inl result
               | Inr file \<Rightarrow> extract_from mem img (bytes img offset) (bytes img (offset + 1))
                   (insert (offset div 256) visited) file))"
  by pat_completeness auto
termination
  by (relation "measure (\<lambda>(mem, img, track, sector_id, visited, file). unvisited visited)")
    (auto intro: visited_decreases)

declare extract_from.simps [simp del]

definition d64_image_extract_prg ::
  "d64_memory \<Rightarrow> d64_image option \<Rightarrow> d64_directory_entry option \<Rightarrow> d64_result + u8 list" where
  "d64_image_extract_prg mem img entry =
     (case (img, entry) of
        (Some img, Some entry) \<Rightarrow>
          (if entry_type entry \<noteq> D64_FILE_PRG then Inl D64_UNSUPPORTED_FILE_TYPE
           else if first_track entry = 0 then Inl D64_MALFORMED_FILE
           else case extract_from mem img (first_track entry) (first_sector entry) {} [] of
               Inl result \<Rightarrow> Inl result
             | Inr file \<Rightarrow> (if length file < 2 then Inl D64_PRG_TOO_SHORT else Inr file))
      | _ \<Rightarrow> Inl D64_INVALID_ARGUMENT)"

section \<open>The block availability map\<close>

definition d64_sector_index :: "d64_image \<Rightarrow> u8 \<Rightarrow> u8 \<Rightarrow> nat option" where
  "d64_sector_index img track sector =
     (case d64_image_sector_offset img track sector of Inl _ \<Rightarrow> None | Inr offset \<Rightarrow> Some (offset div 256))"

definition d64_sector_ptr :: "d64_image \<Rightarrow> u8 \<Rightarrow> u8 \<Rightarrow> nat option" where
  "d64_sector_ptr img track sector =
     (case d64_image_sector_offset img track sector of Inl _ \<Rightarrow> None | Inr offset \<Rightarrow> Some offset)"

definition d64_bam_entry :: "d64_image \<Rightarrow> u8 \<Rightarrow> nat option" where
  "d64_bam_entry img track =
     (if track < 1 \<or> 35 < track then None
      else case d64_sector_ptr img 18 0 of None \<Rightarrow> None | Some bam \<Rightarrow> Some (bam + 4 + (unat track - 1) * 4))"

definition sector_mask :: "u8 \<Rightarrow> u8" where
  "sector_mask sector = push_bit (unat (sector AND 7)) 1"

definition d64_bam_sector_free :: "d64_image \<Rightarrow> u8 \<Rightarrow> u8 \<Rightarrow> bool" where
  "d64_bam_sector_free img track sector =
     (if track < 1 \<or> 35 < track \<or> d64_sectors_per_track track \<le> unat sector then False
      else case d64_sector_ptr img 18 0 of
          None \<Rightarrow> False
        | Some bam \<Rightarrow>
            (let entry = bam + 4 + (unat track - 1) * 4
             in bytes img (entry + 1 + unat (drop_bit 3 sector)) AND sector_mask sector \<noteq> 0))"

definition d64_bam_mark_sector :: "u8 \<Rightarrow> u8 \<Rightarrow> bool \<Rightarrow> d64_image \<Rightarrow> d64_result \<times> d64_image" where
  "d64_bam_mark_sector track sector free_sector img =
     (if track < 1 \<or> 35 < track then (D64_TRACK_OUT_OF_RANGE, img)
      else if d64_sectors_per_track track \<le> unat sector then (D64_SECTOR_OUT_OF_RANGE, img)
      else case d64_bam_entry img track of
          None \<Rightarrow> (D64_MALFORMED_DIRECTORY, img)
        | Some entry \<Rightarrow>
            (let mask = sector_mask sector; p = entry + 1 + unat (drop_bit 3 sector);
                 is_free = (bytes img p AND mask \<noteq> 0)
             in if is_free = free_sector then (D64_OK, img)
                else if free_sector then
                  (let img = img\<lparr>bytes := (bytes img)(p := bytes img p OR mask)\<rparr>
                   in if unat (bytes img entry) < d64_sectors_per_track track
                      then (D64_OK, img\<lparr>bytes := (bytes img)(entry := bytes img entry + 1)\<rparr>)
                      else (D64_OK, img))
                else
                  (let img = img\<lparr>bytes := (bytes img)(p := bytes img p AND NOT mask)\<rparr>
                   in if bytes img entry > 0
                      then (D64_OK, img\<lparr>bytes := (bytes img)(entry := bytes img entry - 1)\<rparr>)
                      else (D64_OK, img))))"

definition d64_find_next_free_on_track :: "d64_image \<Rightarrow> u8 \<Rightarrow> u8 \<Rightarrow> d64_result + u8" where
  "d64_find_next_free_on_track img track preferred =
     (if track < 1 \<or> 35 < track then Inl D64_TRACK_OUT_OF_RANGE
      else
        (let sectors = d64_sectors_per_track track
         in case find (d64_bam_sector_free img track)
                (map (\<lambda>i. word_of_nat ((unat preferred + i) mod sectors)) [0..<sectors]) of
              None \<Rightarrow> Inl D64_DISK_FULL
            | Some sector \<Rightarrow> Inr sector))"

text \<open>The tracks in the order in which \<^verbatim>\<open>d64_alloc_sector\<close> tries them in one pass.\<close>

definition pass_tracks :: "u8 \<Rightarrow> u8 list" where
  "pass_tracks start = map (\<lambda>offset. word_of_nat ((unat start - 1 + offset) mod 35 + 1)) [0..<35]"

definition d64_alloc_sector :: "u8 \<Rightarrow> u8 \<Rightarrow> bool \<Rightarrow> d64_image \<Rightarrow> (d64_result + u8 \<times> u8) \<times> d64_image" where
  "d64_alloc_sector preferred_track preferred_sector allow_directory_track img =
     (let start = (if 1 \<le> preferred_track \<and> preferred_track \<le> 35 then preferred_track else 1);
          next = (\<lambda>track. d64_find_next_free_on_track img track
                    (if track = preferred_track then preferred_sector else 0))
      in case find (\<lambda>track. (allow_directory_track \<or> track \<noteq> 18) \<and> \<not> isl (next track))
             (pass_tracks start @ pass_tracks 1) of
           None \<Rightarrow> (Inl D64_DISK_FULL, img)
         | Some track \<Rightarrow>
             (let sector = projr (next track);
                  (result, img) = d64_bam_mark_sector track sector False img
              in if result \<noteq> D64_OK then (Inl result, img) else (Inr (track, sector), img)))"

section \<open>Writing and scratching files\<close>

function free_chain_from :: "u8 \<Rightarrow> u8 \<Rightarrow> nat set \<Rightarrow> d64_image \<Rightarrow> d64_result \<times> d64_image" where
  "free_chain_from track sector_id visited img =
     (if track = 0 then (D64_OK, img)
      else case d64_sector_index img track sector_id of
          None \<Rightarrow> (D64_MALFORMED_FILE, img)
        | Some index \<Rightarrow>
            (if 802 \<le> index then (D64_MALFORMED_FILE, img)
             else if index \<in> visited then (D64_FILE_CHAIN_LOOP, img)
             else case d64_sector_ptr img track sector_id of
                 None \<Rightarrow> (D64_MALFORMED_FILE, img)
               | Some sector \<Rightarrow>
                   (let next_track = bytes img sector; next_sector = bytes img (sector + 1);
                        (result, img) = d64_bam_mark_sector track sector_id True img
                    in if result \<noteq> D64_OK then (result, img)
                       else free_chain_from next_track next_sector (insert index visited)
                         (img\<lparr>bytes := memset (bytes img) sector 0 256\<rparr>))))"
  by pat_completeness auto
termination
  by (relation "measure (\<lambda>(track, sector_id, visited, img). unvisited visited)")
    (auto intro: visited_decreases)

declare free_chain_from.simps [simp del]

definition d64_free_file_chain :: "u8 \<Rightarrow> u8 \<Rightarrow> d64_image \<Rightarrow> d64_result \<times> d64_image" where
  "d64_free_file_chain track sector_id img = free_chain_from track sector_id {} img"

text \<open>The slot whose name matches; \<open>Inr\<close> stands for \<^verbatim>\<open>D64_FILE_EXISTS\<close> with the outputs filled.\<close>

definition slot_named :: "(nat \<Rightarrow> u8) \<Rightarrow> u8 list \<Rightarrow> nat \<Rightarrow> bool" where
  "slot_named bs name p \<longleftrightarrow>
     bs (p + 2) AND 0x07 \<noteq> 0 \<and>
     d64_names_equal (take (d64_trim_petscii_name (block bs (p + 5) 16)) (block bs (p + 5) 16)) name"

function find_slot_from ::
  "d64_image \<Rightarrow> u8 list \<Rightarrow> u8 \<Rightarrow> u8 \<Rightarrow> nat set \<Rightarrow> d64_result + nat \<times> d64_directory_entry" where
  "find_slot_from img name track sector_id visited =
     (if track = 0 then Inl D64_FILE_NOT_FOUND
      else case d64_sector_index img track sector_id of
          None \<Rightarrow> Inl D64_MALFORMED_DIRECTORY
        | Some index \<Rightarrow>
            (if 802 \<le> index then Inl D64_MALFORMED_DIRECTORY
             else if index \<in> visited then Inl D64_DIRECTORY_CHAIN_LOOP
             else case d64_sector_ptr img track sector_id of
                 None \<Rightarrow> Inl D64_MALFORMED_DIRECTORY
               | Some sector \<Rightarrow>
                   (case find (slot_named (bytes img) name) (map (\<lambda>slot. sector + slot * 32) [0..<8]) of
                      Some entry \<Rightarrow> Inr (entry, slot_entry (bytes img) entry)
                    | None \<Rightarrow> find_slot_from img name (bytes img sector) (bytes img (sector + 1))
                        (insert index visited))))"
  by pat_completeness auto
termination
  by (relation "measure (\<lambda>(img, name, track, sector_id, visited). unvisited visited)")
    (auto intro: visited_decreases)

declare find_slot_from.simps [simp del]

definition d64_find_directory_slot :: "d64_image \<Rightarrow> u8 list \<Rightarrow> d64_result + nat \<times> d64_directory_entry" where
  "d64_find_directory_slot img name = find_slot_from img name 18 1 {}"

text \<open>The search for an unused slot yields the slot (\<open>Inl\<close>) or the last sector of the directory.\<close>

function free_slot_from ::
  "d64_image \<Rightarrow> u8 \<Rightarrow> u8 \<Rightarrow> nat set \<Rightarrow> nat option \<Rightarrow> d64_result + (nat + nat option)" where
  "free_slot_from img track sector_id visited last_sector =
     (if track = 0 then Inr (Inr last_sector)
      else case d64_sector_index img track sector_id of
          None \<Rightarrow> Inl D64_MALFORMED_DIRECTORY
        | Some index \<Rightarrow>
            (if 802 \<le> index then Inl D64_MALFORMED_DIRECTORY
             else if index \<in> visited then Inl D64_DIRECTORY_CHAIN_LOOP
             else case d64_sector_ptr img track sector_id of
                 None \<Rightarrow> Inl D64_MALFORMED_DIRECTORY
               | Some sector \<Rightarrow>
                   (case find (slot_unused (bytes img)) (map (\<lambda>slot. sector + slot * 32) [0..<8]) of
                      Some entry \<Rightarrow> Inr (Inl entry)
                    | None \<Rightarrow> free_slot_from img (bytes img sector) (bytes img (sector + 1))
                        (insert index visited) (Some sector))))"
  by pat_completeness auto
termination
  by (relation "measure (\<lambda>(img, track, sector_id, visited, last_sector). unvisited visited)")
    (auto intro: visited_decreases)

declare free_slot_from.simps [simp del]

definition d64_find_free_directory_slot :: "d64_image \<Rightarrow> (d64_result + nat) \<times> d64_image" where
  "d64_find_free_directory_slot img =
     (case free_slot_from img 18 1 {} None of
        Inl result \<Rightarrow> (Inl result, img)
      | Inr (Inl slot) \<Rightarrow> (Inr slot, img)
      | Inr (Inr None) \<Rightarrow> (Inl D64_DIRECTORY_FULL, img)
      | Inr (Inr (Some last_sector)) \<Rightarrow>
          (case d64_find_next_free_on_track img 18
               (word_of_nat ((unat (bytes img (last_sector + 1)) + 3) mod d64_sectors_per_track 18)) of
             Inl _ \<Rightarrow> (Inl D64_DIRECTORY_FULL, img)
           | Inr new_sector_id \<Rightarrow>
               (let (result, img) = d64_bam_mark_sector 18 new_sector_id False img
                in if result \<noteq> D64_OK then (Inl result, img)
                   else
                     (let img = img\<lparr>bytes := (bytes img)(last_sector := 18, last_sector + 1 := new_sector_id)\<rparr>
                      in case d64_sector_ptr img 18 new_sector_id of
                           None \<Rightarrow> (Inl D64_MALFORMED_DIRECTORY, img)
                         | Some new_sector \<Rightarrow>
                             (Inr new_sector, img\<lparr>bytes :=
                                (memset (bytes img) new_sector 0 256)(new_sector := 0, new_sector + 1 := 0xFF)\<rparr>)))))"

text \<open>The two loops of \<^verbatim>\<open>d64_write_file_chain\<close>: allocate \<open>n\<close> blocks, then fill them.\<close>

primrec alloc_blocks :: "nat \<Rightarrow> u8 \<Rightarrow> u8 \<Rightarrow> d64_image \<Rightarrow> (d64_result + (u8 \<times> u8) list) \<times> d64_image" where
  "alloc_blocks 0 preferred_track preferred_sector img = (Inr [], img)"
| "alloc_blocks (Suc n) preferred_track preferred_sector img =
     (case d64_alloc_sector preferred_track preferred_sector False img of
        (Inl result, img) \<Rightarrow> (Inl result, img)
      | (Inr (track, sector), img) \<Rightarrow>
          (case alloc_blocks n track (word_of_nat ((unat sector + 10) mod d64_sectors_per_track track)) img of
             (Inl result, img) \<Rightarrow> (Inl result, img)
           | (Inr blocks, img) \<Rightarrow> (Inr ((track, sector) # blocks), img)))"

fun fill_blocks :: "(u8 \<times> u8) list \<Rightarrow> u8 list \<Rightarrow> d64_image \<Rightarrow> d64_result \<times> d64_image" where
  "fill_blocks [] data img = (D64_OK, img)"
| "fill_blocks ((track, sector_id) # rest) data img =
     (case d64_sector_ptr img track sector_id of
        None \<Rightarrow> (D64_MALFORMED_FILE, img)
      | Some sector \<Rightarrow>
          (let chunk = (if 254 < length data then 254 else length data);
               bs = memset (bytes img) sector 0 256;
               (link_track, link_sector) = (case rest of [] \<Rightarrow> (0, word_of_nat (chunk + 1)) | next # _ \<Rightarrow> next);
               bs = bs(sector := link_track, sector + 1 := link_sector);
               bs = memcpy bs (sector + 2) (take chunk data)
           in fill_blocks rest (drop chunk data) (img\<lparr>bytes := bs\<rparr>)))"

definition d64_write_file_chain ::
  "d64_memory \<Rightarrow> u8 list \<Rightarrow> d64_image \<Rightarrow> (d64_result + u8 \<times> u8 \<times> u16) \<times> d64_image" where
  "d64_write_file_chain mem data img =
     (if length data < 2 then (Inl D64_PRG_TOO_SHORT, img)
      else
        (let blocks = (length data + 253) div 254
         in if blocks = 0 \<or> 65535 < blocks then (Inl D64_DISK_FULL, img)
            else if \<not> mem (Chain_Tables blocks) then (Inl D64_OUT_OF_MEMORY, img)
            else case alloc_blocks blocks 1 0 img of
                (Inl result, img) \<Rightarrow> (Inl result, img)
              | (Inr chain, img) \<Rightarrow>
                  (let (result, img) = fill_blocks chain data img
                   in if result \<noteq> D64_OK then (Inl result, img)
                      else (Inr (fst (hd chain), snd (hd chain), word_of_nat blocks), img))))"

definition d64_clear_directory_entry_slot :: "nat \<Rightarrow> d64_image \<Rightarrow> d64_image" where
  "d64_clear_directory_entry_slot slot img =
     (if slot < payload_size (geom img) \<and> slot mod 256 = 0
      then img\<lparr>bytes := memset (bytes img) (slot + 2) 0 30\<rparr>
      else img\<lparr>bytes := memset (bytes img) slot 0 32\<rparr>)"

definition d64_clear_directory_cache :: "d64_image \<Rightarrow> d64_image" where
  "d64_clear_directory_cache img = img\<lparr>entries := [], entry_capacity := 0, info := empty_info\<rparr>"

definition d64_reparse :: "d64_memory \<Rightarrow> d64_image \<Rightarrow> d64_result \<times> d64_image" where
  "d64_reparse mem img =
     (let (result, img) = d64_parse_directory mem (d64_parse_disk_info (d64_clear_directory_cache img))
      in (result, if result \<noteq> D64_OK then d64_clear_directory_cache img else img))"

text \<open>The common error exit: the bytes come back from the backup and the caches are rebuilt.\<close>

definition d64_rollback :: "d64_memory \<Rightarrow> (nat \<Rightarrow> u8) \<Rightarrow> d64_image \<Rightarrow> d64_image" where
  "d64_rollback mem backup img =
     snd (d64_reparse mem (img\<lparr>bytes := memcpy (bytes img) 0 (block backup 0 (image_size img))\<rparr>))"

text \<open>What \<^verbatim>\<open>d64_image_write_prg\<close> does after the backup; a result other than \<^verbatim>\<open>D64_OK\<close> goes to \<^verbatim>\<open>rollback\<close>.\<close>

definition remove_existing :: "u8 list \<Rightarrow> bool \<Rightarrow> d64_image \<Rightarrow> d64_result \<times> d64_image" where
  "remove_existing name replace img =
     (case d64_find_directory_slot img name of
        Inr (dir_slot, existing) \<Rightarrow>
          (if \<not> replace then (D64_FILE_EXISTS, img)
           else
             (let (result, img) = d64_free_file_chain (first_track existing) (first_sector existing) img
              in if result \<noteq> D64_OK then (result, img)
                 else (D64_OK, d64_clear_directory_entry_slot dir_slot img)))
      | Inl result \<Rightarrow> (if result \<noteq> D64_FILE_NOT_FOUND then (result, img) else (D64_OK, img)))"

definition fill_directory_slot :: "u8 list \<Rightarrow> u8 \<times> u8 \<times> u16 \<Rightarrow> nat \<Rightarrow> d64_image \<Rightarrow> d64_image" where
  "fill_directory_slot name file dir_slot img =
     (case file of (file_track, file_sector, blocks) \<Rightarrow>
        (let img = d64_clear_directory_entry_slot dir_slot img;
             bs = (bytes img)(dir_slot + 2 := 0x82, dir_slot + 3 := file_track, dir_slot + 4 := file_sector);
             bs = memcpy bs (dir_slot + 5) name
         in img\<lparr>bytes := bs(dir_slot + 30 := ucast (blocks AND 0xFF), dir_slot + 31 := ucast (drop_bit 8 blocks))\<rparr>))"

definition write_prg_body ::
  "d64_memory \<Rightarrow> u8 list \<Rightarrow> u8 list \<Rightarrow> u8 list \<Rightarrow> bool \<Rightarrow> d64_image \<Rightarrow> d64_result \<times> d64_image" where
  "write_prg_body mem normalized name data replace img =
     (let (result, img) = remove_existing name replace img
      in if result \<noteq> D64_OK then (result, img)
         else case d64_write_file_chain mem data img of
             (Inl result, img) \<Rightarrow> (result, img)
           | (Inr file, img) \<Rightarrow>
               (case d64_find_free_directory_slot img of
                  (Inl result, img) \<Rightarrow> (result, img)
                | (Inr dir_slot, img) \<Rightarrow> d64_reparse mem (fill_directory_slot normalized file dir_slot img)))"

definition d64_image_write_prg ::
  "d64_memory \<Rightarrow> u8 list option \<Rightarrow> u8 list option \<Rightarrow> bool \<Rightarrow> d64_image option \<Rightarrow> d64_result \<times> d64_image option" where
  "d64_image_write_prg mem name data replace img =
     (case (img, name, data) of
        (Some img, Some name, Some data) \<Rightarrow>
          (case d64_normalize_name name of
             Inl result \<Rightarrow> (result, Some img)
           | Inr (normalized, normalized_len, name_replace) \<Rightarrow>
               (if \<not> mem (Backup (image_size img)) then (D64_OUT_OF_MEMORY, Some img)
                else
                  (let backup = bytes img;
                       (result, img) = write_prg_body mem normalized (take normalized_len normalized) data
                         (replace \<or> name_replace) img
                   in if result \<noteq> D64_OK then (result, Some (d64_rollback mem backup img)) else (D64_OK, Some img))))
      | _ \<Rightarrow> (D64_INVALID_ARGUMENT, img))"

definition d64_image_scratch :: "d64_memory \<Rightarrow> u8 list option \<Rightarrow> d64_image option \<Rightarrow> d64_result \<times> d64_image option" where
  "d64_image_scratch mem name img =
     (case (img, name) of
        (Some img, Some name) \<Rightarrow>
          (case d64_normalize_name name of
             Inl result \<Rightarrow> (result, Some img)
           | Inr (normalized, normalized_len, name_replace) \<Rightarrow>
               (if \<not> mem (Backup (image_size img)) then (D64_OUT_OF_MEMORY, Some img)
                else case d64_find_directory_slot img (take normalized_len normalized) of
                    Inl result \<Rightarrow> (result, Some img)
                  | Inr (dir_slot, existing) \<Rightarrow>
                      (let backup = bytes img;
                           (result, img) = d64_free_file_chain (first_track existing) (first_sector existing) img
                       in if result \<noteq> D64_OK then (result, Some (d64_rollback mem backup img))
                          else
                            (let (result, img) = d64_reparse mem (d64_clear_directory_entry_slot dir_slot img)
                             in if result \<noteq> D64_OK then (result, Some (d64_rollback mem backup img))
                                else (D64_OK, Some img)))))
      | _ \<Rightarrow> (D64_INVALID_ARGUMENT, img))"

end
