(* ===== verification/D64_Layout.thy ===== *)
theory D64_Layout
  imports D64_Image
begin

text \<open>
  The layout of a D64 image: the sectors of the tracks tile the payload, two sectors never overlap,
  and every offset the library computes lies inside the image. The lemmas on \<open>memcpy\<close> and \<open>memset\<close>
  carry the reasoning about what a write leaves alone.
\<close>

section \<open>Geometry\<close>

definition image_ok :: "d64_image \<Rightarrow> bool" where
  "image_ok img \<longleftrightarrow> d64_geometry_from_size (image_size img) = Some (geom img)"

definition sector_at :: "d64_image \<Rightarrow> u8 \<Rightarrow> u8 \<Rightarrow> nat \<Rightarrow> bool" where
  "sector_at img track sector p \<longleftrightarrow> d64_image_sector_offset img track sector = Inr p"

lemma unat_of_nat_u8: "n < 256 \<Longrightarrow> unat (word_of_nat n :: u8) = n"
  by (simp add: unsigned_of_nat take_bit_nat_eq_self_iff)

lemma tracks_offset_numeral:
  "tracks_offset (numeral k) = tracks_offset (pred_numeral k) + d64_spt ! pred_numeral k * 256"
  by (simp add: numeral_eq_Suc)

lemma tracks_offset_values: "tracks_offset 35 = 174848" "tracks_offset 40 = 196608" "tracks_offset 42 = 205312"
  by (simp_all add: tracks_offset_numeral d64_spt_def)

lemma geometry_cases:
  assumes "d64_geometry_from_size sz = Some g"
  shows "unat (track_count g) \<in> {35, 40, 42}" "payload_size g = tracks_offset (unat (track_count g))"
    "payload_size g + error_bytes g = sz" "payload_size g = 256 * sector_count g"
  using assms by (auto simp: d64_geometry_from_size_def tracks_offset_values split: if_splits)

lemma d64_spt_bounds: "n < 42 \<Longrightarrow> d64_spt ! n \<in> {17..21}"
proof -
  have "\<forall>x \<in> set d64_spt. x \<in> {17..21}" by (simp add: d64_spt_def)
  moreover have "length d64_spt = 42" by (simp add: d64_spt_def)
  ultimately show "n < 42 \<Longrightarrow> d64_spt ! n \<in> {17..21}" by (metis nth_mem)
qed

lemma tracks_offset_mono: "m \<le> n \<Longrightarrow> tracks_offset m \<le> tracks_offset n"
  by (induction n) (auto simp: le_Suc_eq)

lemma tracks_offset_dvd: "256 dvd tracks_offset n"
  by (induction n) auto

lemma tracks_apart:
  assumes "m < n"
  shows "tracks_offset m + d64_spt ! m * 256 \<le> tracks_offset n"
  using tracks_offset_mono [of "Suc m" n] assms by simp

text \<open>Every offset below the end of track \<open>n\<close> belongs to a sector of one of the tracks.\<close>

lemma track_of_offset:
  assumes "p < tracks_offset n"
  obtains m s where "m < n" "s < d64_spt ! m" "tracks_offset m + s * 256 \<le> p" "p < tracks_offset m + s * 256 + 256"
  using assms
proof (induction n arbitrary: thesis)
  case (Suc n)
  show ?case
  proof (cases "p < tracks_offset n")
    case True
    then show ?thesis using Suc.IH Suc.prems(1) less_SucI by metis
  next
    case False
    let ?s = "(p - tracks_offset n) div 256"
    have "?s < d64_spt ! n" using False Suc.prems(2) by (simp add: less_mult_imp_div_less)
    moreover have "?s * 256 \<le> p - tracks_offset n" "p - tracks_offset n < ?s * 256 + 256"
      using div_times_less_eq_dividend [of "p - tracks_offset n" 256] dividend_less_times_div [of 256 "p - tracks_offset n"] by linarith+
    ultimately show ?thesis using Suc.prems(1) [of n ?s] False by linarith
  qed
qed simp

lemma track_range: "\<not> (track < 1 \<or> n < track) \<longleftrightarrow> 1 \<le> unat (track :: u8) \<and> unat track \<le> unat n"
  by (auto simp: word_less_nat_alt word_le_nat_alt)

lemma track_sector_offset_Inr:
  "d64_track_sector_offset track sector = Inr p \<longleftrightarrow>
     1 \<le> unat track \<and> unat track \<le> 42 \<and> unat sector < d64_spt ! (unat track - 1) \<and>
     p = tracks_offset (unat track - 1) + unat sector * 256"
  using track_range [of track 42] by (auto simp: d64_track_sector_offset_def)

lemma sector_at_iff:
  assumes "image_ok img"
  shows "sector_at img track sector p \<longleftrightarrow>
     1 \<le> unat track \<and> unat track \<le> unat (track_count (geom img)) \<and> unat sector < d64_spt ! (unat track - 1) \<and>
     p = tracks_offset (unat track - 1) + unat sector * 256"
proof -
  note g = geometry_cases [OF assms [unfolded image_ok_def]]
  have "tracks_offset (unat track - 1) + unat sector * 256 + 256 \<le> payload_size (geom img)"
    if "1 \<le> unat track" "unat track \<le> unat (track_count (geom img))" "unat sector < d64_spt ! (unat track - 1)"
    using that tracks_apart [of "unat track - 1" "unat (track_count (geom img))"] g(2) by simp linarith
  moreover have "unat (track_count (geom img)) \<le> 42" using g(1) by auto
  ultimately show ?thesis
    using track_range [of track "track_count (geom img)"]
      track_range [of track 42]
    by (auto simp: sector_at_def d64_image_sector_offset_def d64_track_sector_offset_def)
qed

lemma sector_at_bounds:
  assumes "image_ok img" "sector_at img track sector p"
  shows "256 dvd p" "p + 256 \<le> payload_size (geom img)" "payload_size (geom img) \<le> image_size img" "p div 256 < 802"
    "unat sector < 21"
proof -
  note g = geometry_cases [OF assms(1) [unfolded image_ok_def]]
  note s = assms(2) [unfolded sector_at_iff [OF assms(1)]]
  show "256 dvd p" using s tracks_offset_dvd by simp
  show p: "p + 256 \<le> payload_size (geom img)"
    using s tracks_apart [of "unat track - 1" "unat (track_count (geom img))"] g(2) by simp linarith
  show "payload_size (geom img) \<le> image_size img" using g(3) by linarith
  have "payload_size (geom img) \<le> 205312"
    using g(1, 2) by (auto simp: tracks_offset_values)
  then have "p < 802 * 256" using p by linarith
  then show "p div 256 < 802" by (rule less_mult_imp_div_less)
  have "unat track - 1 < 42" using s g(1) by auto
  then show "unat sector < 21" using s d64_spt_bounds by fastforce
qed

lemma sector_at_unique:
  assumes "image_ok img" "sector_at img t s p" "sector_at img t' s' p"
  shows "t = t' \<and> s = s'"
proof -
  note at = assms(2, 3) [unfolded sector_at_iff [OF assms(1)]]
  have eq: "tracks_offset (unat t - 1) + unat s * 256 = tracks_offset (unat t' - 1) + unat s' * 256"
    using at by simp
  have "unat t - 1 = unat t' - 1"
  proof (rule ccontr)
    assume "unat t - 1 \<noteq> unat t' - 1"
    then consider "unat t - 1 < unat t' - 1" | "unat t' - 1 < unat t - 1" by linarith
    then show False
      using at eq tracks_apart [of "unat t - 1" "unat t' - 1"] tracks_apart [of "unat t' - 1" "unat t - 1"]
      by cases linarith+
  qed
  then have "unat t = unat t'" "unat s = unat s'" using eq at by auto
  then show ?thesis by (simp add: word_unat_eq_iff)
qed

text \<open>
  C22. The sectors tile an image: in an image of a supported size, every byte of the payload lies in
  exactly one sector, which the library finds at its computed offset, and every sector it accepts
  lies inside the payload, so that no access through a sector pointer leaves the image.
\<close>

theorem d64_sectors_tile:
  assumes "d64_geometry_from_size (image_size img) = Some (geom img)"
  shows "(\<forall>p < payload_size (geom img). \<exists>!ts. d64_image_sector_offset img (fst ts) (snd ts) = Inr (p - p mod 256)) \<and>
    (\<forall>t s p. d64_image_sector_offset img t s = Inr p \<longrightarrow>
       p mod 256 = 0 \<and> p + 256 \<le> payload_size (geom img) \<and> payload_size (geom img) \<le> image_size img)"
proof (intro conjI allI impI)
  have ok: "image_ok img" using assms by (simp add: image_ok_def)
  note g = geometry_cases [OF assms]
  fix p assume "p < payload_size (geom img)"
  then obtain m s where ms: "m < unat (track_count (geom img))" "s < d64_spt ! m"
      "tracks_offset m + s * 256 \<le> p" "p < tracks_offset m + s * 256 + 256"
    using track_of_offset [of p "unat (track_count (geom img))"] g(2) by metis
  have le: "m < 42" using ms(1) g(1) by auto
  have "s < 21" using ms(2) d64_spt_bounds [OF le] by auto
  define t' s' :: u8 where "t' = word_of_nat (m + 1)" and "s' = word_of_nat s"
  have u: "unat t' = m + 1" "unat s' = s"
    using le \<open>s < 21\<close> unfolding t'_def s'_def by (intro unat_of_nat_u8; simp)+
  have "p - p mod 256 = tracks_offset m + s * 256"
  proof -
    obtain k where k: "tracks_offset m + s * 256 = 256 * k"
      using tracks_offset_dvd [of m] by (metis dvd_add dvd_def dvd_triv_right)
    then have "p div 256 = k" using ms(3, 4) by (intro div_nat_eqI) simp_all
    then show ?thesis using k by (simp add: minus_mod_eq_mult_div)
  qed
  then have at: "sector_at img t' s' (p - p mod 256)" using ms u by (simp add: sector_at_iff [OF ok])
  show "\<exists>!ts. d64_image_sector_offset img (fst ts) (snd ts) = Inr (p - p mod 256)"
  proof (rule ex1I [of _ "(t', s')"])
    show "d64_image_sector_offset img (fst (t', s')) (snd (t', s')) = Inr (p - p mod 256)"
      using at by (simp add: sector_at_def)
    fix ts assume "d64_image_sector_offset img (fst ts) (snd ts) = Inr (p - p mod 256)"
    then show "ts = (t', s')" using sector_at_unique [OF ok _ at, of "fst ts" "snd ts"]
      by (simp add: sector_at_def prod_eq_iff)
  qed
next
  fix t s p assume "d64_image_sector_offset img t s = Inr p"
  then show "p mod 256 = 0" "p + 256 \<le> payload_size (geom img)" "payload_size (geom img) \<le> image_size img"
    using sector_at_bounds [of img t s p] assms by (auto simp: sector_at_def image_ok_def)
qed

definition blank_geometry :: d64_geometry where
  "blank_geometry = \<lparr>track_count = 35, payload_size = 174848, error_bytes = 0, sector_count = 683\<rparr>"

definition blank_image :: "(nat \<Rightarrow> u8) \<Rightarrow> d64_image" where
  "blank_image bs = \<lparr>bytes = bs, image_size = 174848, geom = blank_geometry, info = empty_info, entries = [], entry_capacity = 0\<rparr>"

theorem d64_sectors_tile_witness:
  "\<exists>!ts. d64_image_sector_offset (blank_image (\<lambda>_. 0)) (fst ts) (snd ts) = Inr 91392"
proof -
  have "d64_geometry_from_size (image_size (blank_image (\<lambda>_. 0))) = Some (geom (blank_image (\<lambda>_. 0)))"
    "91400 < payload_size (geom (blank_image (\<lambda>_. 0)))"
    by (simp_all add: blank_image_def blank_geometry_def d64_geometry_from_size_def)
  from d64_sectors_tile [OF this(1), THEN conjunct1, rule_format, OF this(2)] show ?thesis by simp
qed

end
