(* ===== verification/D64_Bam.thy ===== *)
theory D64_Bam
  imports D64_Layout
begin

text \<open>
  The block availability map of a D64 image: what marking a sector changes, and that allocation
  hands out distinct free sectors outside the directory track.
\<close>

section \<open>What a write leaves alone\<close>

definition agree_at :: "(nat \<Rightarrow> u8) \<Rightarrow> (nat \<Rightarrow> u8) \<Rightarrow> nat \<Rightarrow> bool" where
  "agree_at bs bs' p \<longleftrightarrow> (\<forall>i. p \<le> i \<and> i < p + 256 \<longrightarrow> bs' i = bs i)"

lemma agree_at_refl [simp]: "agree_at bs bs p" by (simp add: agree_at_def)

lemma agree_at_trans: "agree_at bs bs' p \<Longrightarrow> agree_at bs' bs'' p \<Longrightarrow> agree_at bs bs'' p"
  by (simp add: agree_at_def)

lemma agree_at_byte: "agree_at bs bs' p \<Longrightarrow> k < 256 \<Longrightarrow> bs' (p + k) = bs (p + k)"
  by (simp add: agree_at_def)

lemma agree_at_block: "agree_at bs bs' p \<Longrightarrow> k + n \<le> 256 \<Longrightarrow> block bs' (p + k) n = block bs (p + k) n"
  by (simp add: agree_at_def block_def)

lemma aligned_apart:
  assumes "256 dvd p" "256 dvd q" "p \<noteq> (q :: nat)" "p \<le> i" "i < p + 256"
  shows "\<not> (q \<le> i \<and> i < q + 256)"
proof -
  obtain a b where ab: "p = 256 * a" "q = 256 * b" using assms(1, 2) by (elim dvdE)
  then have "i div 256 = a" using assms by (intro div_nat_eqI) simp_all
  moreover have "i div 256 = b" if "q \<le> i \<and> i < q + 256" using that ab by (intro div_nat_eqI) simp_all
  ultimately show ?thesis using ab assms(3) by auto
qed

text \<open>A change confined to the sector at \<open>q\<close> keeps every other sector.\<close>

definition within_sector :: "nat \<Rightarrow> (nat \<Rightarrow> u8) \<Rightarrow> (nat \<Rightarrow> u8) \<Rightarrow> bool" where
  "within_sector q bs bs' \<longleftrightarrow> (\<forall>i. bs' i \<noteq> bs i \<longrightarrow> q \<le> i \<and> i < q + 256)"

lemma within_sector_trans: "within_sector q bs bs' \<Longrightarrow> within_sector q bs' bs'' \<Longrightarrow> within_sector q bs bs''"
  unfolding within_sector_def by metis

lemma within_sector_agree:
  assumes "within_sector q bs bs'" "256 dvd p" "256 dvd q" "p \<noteq> q"
  shows "agree_at bs bs' p"
  using assms aligned_apart [of p q] by (auto simp: agree_at_def within_sector_def)

section \<open>Marking sectors\<close>

lemma image_ok_bytes [simp]: "image_ok (img\<lparr>bytes := bs\<rparr>) = image_ok img"
  by (simp add: image_ok_def)

lemma sector_offset_bytes [simp]: "d64_image_sector_offset (img\<lparr>bytes := bs\<rparr>) t s = d64_image_sector_offset img t s"
  by (simp add: d64_image_sector_offset_def split: sum.split)

lemma sector_at_bytes [simp]: "sector_at (img\<lparr>bytes := bs\<rparr>) = sector_at img"
  by (intro ext) (simp add: sector_at_def)

lemma sector_ptr_bytes [simp]: "d64_sector_ptr (img\<lparr>bytes := bs\<rparr>) = d64_sector_ptr img"
  by (intro ext) (simp add: d64_sector_ptr_def)

lemma sector_ptr_iff: "d64_sector_ptr img t s = Some p \<longleftrightarrow> sector_at img t s p"
  by (simp add: d64_sector_ptr_def sector_at_def split: sum.split)

lemma bam_ptr:
  assumes "image_ok img"
  shows "d64_sector_ptr img 18 0 = Some 91392"
proof -
  have "tracks_offset 17 = 91392" "d64_spt ! 17 = 19" by (simp_all add: tracks_offset_numeral d64_spt_def)
  moreover have "18 \<le> unat (track_count (geom img))"
    using geometry_cases(1) [OF assms [unfolded image_ok_def]] by auto
  ultimately show ?thesis by (simp add: sector_ptr_iff sector_at_iff [OF assms])
qed

lemma bam_sector: "image_ok img \<Longrightarrow> sector_at img 18 0 91392"
  using bam_ptr by (simp add: sector_ptr_iff)

definition bam_byte :: "u8 \<Rightarrow> u8 \<Rightarrow> nat" where
  "bam_byte t s = 91392 + 4 + (unat t - 1) * 4 + 1 + unat s div 8"

definition dos_sector :: "u8 \<Rightarrow> u8 \<Rightarrow> bool" where
  "dos_sector t s \<longleftrightarrow> 1 \<le> unat t \<and> unat t \<le> 35 \<and> unat s < d64_spt ! (unat t - 1)"

lemma sector_mask_shift: "sector_mask s = push_bit (unat s mod 8) 1"
proof -
  have "s AND 7 = take_bit 3 s" by (simp add: take_bit_eq_mask mask_eq_exp_minus_1)
  then have "unat (s AND 7) = unat s mod 8" by (simp only: unsigned_take_bit_eq) (simp add: take_bit_eq_mod)
  then show ?thesis by (simp add: sector_mask_def)
qed

lemma and_mask_bit: "(x :: u8) AND sector_mask s \<noteq> 0 \<longleftrightarrow> bit x (unat s mod 8)"
  by (simp add: sector_mask_shift bit_iff_and_push_bit_not_eq_0)

lemma mask_bits: "bit (sector_mask s) n \<longleftrightarrow> n = unat s mod 8"
  by (auto simp: sector_mask_shift bit_exp_iff)

lemma sector_byte_index: "unat (drop_bit 3 (s :: u8)) = unat s div 8"
  by (simp only: unat_drop_bit_eq) (simp add: drop_bit_eq_div)

lemma sectors_of_dos:
  "dos_sector t s \<longleftrightarrow> \<not> (t < 1 \<or> 35 < t \<or> d64_sectors_per_track t \<le> unat s)"
  by (auto simp: dos_sector_def d64_sectors_per_track_def word_less_nat_alt)

lemma sector_free_iff:
  assumes "image_ok img"
  shows "d64_bam_sector_free img t s \<longleftrightarrow> dos_sector t s \<and> bit (bytes img (bam_byte t s)) (unat s mod 8)"
  by (simp add: d64_bam_sector_free_def bam_ptr [OF assms] and_mask_bit [symmetric] sector_byte_index bam_byte_def
      sectors_of_dos Let_def add.assoc)

lemma dos_sector_at:
  assumes "image_ok img" "dos_sector t s"
  shows "\<exists>p. sector_at img t s p"
  using assms geometry_cases(1) [OF assms(1) [unfolded image_ok_def]]
  by (auto simp: sector_at_iff [OF assms(1)] dos_sector_def)

lemma dos_sector_small: 
  assumes "dos_sector t s"
  shows "unat s < 21" "unat s div 8 < 3"
proof -
  have "unat t - 1 < 42" using assms by (auto simp: dos_sector_def)
  then have "d64_spt ! (unat t - 1) \<le> 21" using d64_spt_bounds by fastforce
  then show "unat s < 21" using assms by (simp add: dos_sector_def)
  then show "unat s div 8 < 3" by linarith
qed

lemma quad_split: "4 * (x :: nat) + a = 4 * y + b \<Longrightarrow> a < 3 \<Longrightarrow> b < 3 \<Longrightarrow> x = y \<and> a = b"
  by presburger

lemma bam_byte_inj:
  assumes "dos_sector t s" "dos_sector t' s'" "bam_byte t s = bam_byte t' s'" "unat s mod 8 = unat s' mod 8"
  shows "t = t' \<and> s = s'"
proof -
  have "4 * (unat t - 1) + unat s div 8 = 4 * (unat t' - 1) + unat s' div 8"
    using assms(3) by (simp add: bam_byte_def mult.commute)
  from quad_split [OF this dos_sector_small(2) [OF assms(1)] dos_sector_small(2) [OF assms(2)]]
  have eq: "unat t - 1 = unat t' - 1" "unat s div 8 = unat s' div 8" by auto
  then have "unat t = unat t'" using assms(1, 2) by (auto simp: dos_sector_def)
  moreover have "unat s = unat s'" using eq(2) assms(4) by (metis div_mult_mod_eq)
  ultimately show ?thesis by (simp add: word_unat_eq_iff)
qed

lemma bam_byte_range:
  assumes "dos_sector t s"
  shows "91392 \<le> bam_byte t s" "bam_byte t s < 91392 + 256" "bam_byte t s mod 4 \<noteq> 0"
proof -
  have le: "(unat t - 1) * 4 \<le> 34 * 4" using assms by (simp add: dos_sector_def) linarith
  note dos_sector_small(2) [OF assms]
  then show "91392 \<le> bam_byte t s" "bam_byte t s < 91392 + 256" using le by (simp_all add: bam_byte_def)
  have "bam_byte t s = 4 * (unat t - 1 + 22849) + (unat s div 8 + 1)" by (simp add: bam_byte_def)
  then have "bam_byte t s mod 4 = (unat s div 8 + 1) mod 4" by (simp only: mod_mult_self4)
  then show "bam_byte t s mod 4 \<noteq> 0" using \<open>unat s div 8 < 3\<close> by simp
qed

definition bam_count :: "u8 \<Rightarrow> nat" where
  "bam_count t = 91396 + (unat t - 1) * 4"

lemma bam_count_range:
  assumes "dos_sector t s"
  shows "91392 \<le> bam_count t" "bam_count t < 91392 + 256" "bam_count t mod 4 = 0"
proof -
  have "(unat t - 1) * 4 \<le> 34 * 4" using assms by (simp add: dos_sector_def) linarith
  then show "91392 \<le> bam_count t" "bam_count t < 91392 + 256" by (simp_all add: bam_count_def)
  have "bam_count t = 4 * (22849 + (unat t - 1))" by (simp add: bam_count_def)
  then show "bam_count t mod 4 = 0" by (simp only: mod_mult_self1_is_0)
qed

lemma sector_free_agree:
  assumes "image_ok img" "agree_at (bytes img) bs 91392"
  shows "d64_bam_sector_free (img\<lparr>bytes := bs\<rparr>) t s = d64_bam_sector_free img t s"
proof (cases "dos_sector t s")
  case True
  then have "bs (bam_byte t s) = bytes img (bam_byte t s)"
    using assms(2) bam_byte_range [OF True] by (simp add: agree_at_def)
  then show ?thesis using assms(1) by (simp add: sector_free_iff)
qed (use assms(1) in \<open>simp add: sector_free_iff\<close>)

text \<open>
  A mark of a DOS sector succeeds; it changes the bit of its sector and the free count of its track,
  nothing else. A mark of any other sector fails and changes nothing.
\<close>

definition marked :: "u8 \<Rightarrow> u8 \<Rightarrow> bool \<Rightarrow> (nat \<Rightarrow> u8) \<Rightarrow> nat \<Rightarrow> u8" where
  "marked t s b bs =
     (let bs' = bs(bam_byte t s := if b then bs (bam_byte t s) OR sector_mask s else bs (bam_byte t s) AND NOT (sector_mask s));
          n = bs (bam_count t)
      in if bit (bs (bam_byte t s)) (unat s mod 8) = b then bs
         else if b \<and> unat n < d64_sectors_per_track t then bs'(bam_count t := n + 1)
         else if \<not> b \<and> n > 0 then bs'(bam_count t := n - 1)
         else bs')"

lemma bam_byte_not_count: "dos_sector t s \<Longrightarrow> dos_sector t' s' \<Longrightarrow> bam_byte t s \<noteq> bam_count t'"
  using bam_byte_range(3) [of t s] bam_count_range(3) [of t' s'] by metis

lemma mark_sector_eq:
  assumes "image_ok img" "dos_sector t s"
  shows "d64_bam_mark_sector t s b img = (D64_OK, img\<lparr>bytes := marked t s b (bytes img)\<rparr>)"
proof -
  have p: "bam_count t + 1 + unat (drop_bit 3 s) = bam_byte t s" by (simp add: bam_count_def bam_byte_def sector_byte_index)
  have "d64_bam_entry img t = Some (bam_count t)"
    using assms(2) by (simp add: d64_bam_entry_def bam_ptr [OF assms(1)] bam_count_def sectors_of_dos)
  then show ?thesis
    using assms(2) bam_byte_not_count [OF assms(2) assms(2)]
    by (auto simp: d64_bam_mark_sector_def sectors_of_dos p [simplified] Let_def marked_def and_mask_bit)
qed

lemma marked_within: "dos_sector t s \<Longrightarrow> within_sector 91392 bs (marked t s b bs)"
  using bam_byte_range [of t s] bam_count_range [of t s] by (auto simp: within_sector_def marked_def Let_def)

lemma marked_bits:
  assumes "dos_sector t s" "dos_sector t' s'"
  shows "bit (marked t s b bs (bam_byte t' s')) (unat s' mod 8) \<longleftrightarrow>
    (if t' = t \<and> s' = s then b else bit (bs (bam_byte t' s')) (unat s' mod 8))"
proof -
  note ne = bam_byte_not_count [OF assms(2) assms(1)] bam_byte_not_count [OF assms(1) assms(1)]
  have "unat s' mod 8 < 8" by simp
  with ne show ?thesis
    using bam_byte_inj [OF assms(2) assms(1)]
    by (auto simp: marked_def Let_def bit_or_iff bit_and_iff bit_not_iff mask_bits)
qed

text \<open>Marking a sector changes the availability of exactly that sector.\<close>

lemma mark_sector_free:
  assumes "image_ok img" "dos_sector t s"
  shows "d64_bam_sector_free (snd (d64_bam_mark_sector t s b img)) t' s' \<longleftrightarrow>
    (if t' = t \<and> s' = s then b else d64_bam_sector_free img t' s')"
  using assms marked_bits [OF assms(2)] by (auto simp: mark_sector_eq sector_free_iff)

lemma mark_sector_fails:
  assumes "image_ok img" "\<not> dos_sector t s"
  shows "\<exists>r. r \<noteq> D64_OK \<and> d64_bam_mark_sector t s b img = (r, img)"
  using assms(2) by (auto simp: d64_bam_mark_sector_def sectors_of_dos)

subsection \<open>The free counts\<close>

definition free_sectors :: "d64_image \<Rightarrow> u8 \<Rightarrow> u8 set" where
  "free_sectors img t = {s. d64_bam_sector_free img t s}"

definition bam_consistent :: "d64_image \<Rightarrow> bool" where
  "bam_consistent img \<longleftrightarrow>
     (\<forall>t. 1 \<le> unat t \<and> unat t \<le> 35 \<longrightarrow> unat (bytes img (bam_count t)) = card (free_sectors img t))"

lemma finite_u8_set: "finite (A :: u8 set)"
  by (rule finite_subset [OF subset_UNIV]) simp

lemma free_sectors_bound:
  assumes "image_ok img" "dos_sector t s" "\<not> d64_bam_sector_free img t s"
  shows "card (free_sectors img t) < d64_sectors_per_track t"
proof -
  let ?n = "d64_sectors_per_track t"
  have dos: "dos_sector t s' \<longleftrightarrow> unat s' < ?n" for s'
    using assms(2) by (simp add: dos_sector_def d64_sectors_per_track_def word_less_nat_alt)
  have "unat ` free_sectors img t \<subseteq> {..<?n} - {unat s}"
    using assms dos by (auto simp: free_sectors_def sector_free_iff [OF assms(1)] simp flip: word_unat_eq_iff)
  then have "card (unat ` free_sectors img t) \<le> card ({..<?n} - {unat s})" by (intro card_mono) simp_all
  also have "card ({..<?n} - {unat s}) < ?n" using assms(2) dos by (simp add: card_Diff_singleton)
  finally show ?thesis
    by (subst (asm) card_image) (auto intro!: inj_onI simp: word_unat_eq_iff)
qed

lemma spt_small: "d64_sectors_per_track t \<le> 21"
proof (cases "1 \<le> unat t \<and> unat t \<le> 42")
  case True
  then have "unat t - 1 < 42" by linarith
  then show ?thesis using d64_spt_bounds by (fastforce simp: d64_sectors_per_track_def)
next
  case False
  then show ?thesis by (auto simp: d64_sectors_per_track_def word_less_nat_alt)
qed

lemma bam_count_inj: "1 \<le> unat t \<Longrightarrow> 1 \<le> unat t' \<Longrightarrow> bam_count t = bam_count t' \<longleftrightarrow> t = t'"
  by (auto simp: bam_count_def word_unat_eq_iff)

text \<open>
  C23. Marking a sector in the block availability map changes the availability of that sector and of
  no other, and when the free count of every track was the number of its free sectors it still is.
\<close>

theorem d64_mark_keeps_bam:
  assumes "image_ok img" "bam_consistent img" "d64_bam_mark_sector t s b img = (D64_OK, img')"
  shows "bam_consistent img' \<and>
    (\<forall>t' s'. d64_bam_sector_free img' t' s' \<longleftrightarrow> (if t' = t \<and> s' = s then b else d64_bam_sector_free img t' s'))"
proof -
  have dos: "dos_sector t s" using mark_sector_fails [OF assms(1), of t s b] assms(3) by fastforce
  have img': "img' = img\<lparr>bytes := marked t s b (bytes img)\<rparr>" using assms(3) mark_sector_eq [OF assms(1) dos] by simp
  have free: "d64_bam_sector_free img' t' s' \<longleftrightarrow> (if t' = t \<and> s' = s then b else d64_bam_sector_free img t' s')" for t' s'
    using mark_sector_free [OF assms(1) dos, of b t' s'] assms(3) by simp
  then have sets: "free_sectors img' t' = (if t' = t then (if b then insert s (free_sectors img t) else free_sectors img t - {s})
      else free_sectors img t')" for t'
    by (auto simp: free_sectors_def)
  have old: "s \<in> free_sectors img t \<longleftrightarrow> bit (bytes img (bam_byte t s)) (unat s mod 8)"
    using dos by (simp add: free_sectors_def sector_free_iff [OF assms(1)])
  have count: "unat (bytes img (bam_count t)) = card (free_sectors img t)"
    using assms(2) dos by (simp add: bam_consistent_def dos_sector_def)
  have ne: "bam_byte t s \<noteq> bam_count t" using bam_byte_not_count [OF dos dos] .
  have "unat (bytes img' (bam_count t')) = card (free_sectors img' t')" if t': "1 \<le> unat t'" "unat t' \<le> 35" for t'
  proof (cases "t' = t")
    case False
    have "unat t' - 1 < 42" using t' by linarith
    then have "dos_sector t' 0" using t' d64_spt_bounds [of "unat t' - 1"] by (auto simp: dos_sector_def)
    then have "bam_byte t s \<noteq> bam_count t'" by (rule bam_byte_not_count [OF dos])
    moreover have "bam_count t' \<noteq> bam_count t" using False t' dos by (simp add: bam_count_inj dos_sector_def)
    ultimately show ?thesis using False assms(2) t' by (simp add: sets bam_consistent_def) (simp add: img' marked_def Let_def)
  next
    case True
    consider "(s \<in> free_sectors img t) = b" | "b" "s \<notin> free_sectors img t" | "\<not> b" "s \<in> free_sectors img t" by blast
    then show ?thesis
    proof cases
      case 1
      then have "free_sectors img' t = free_sectors img t" using sets by auto
      then show ?thesis using 1 old True count by (simp add: img' marked_def)
    next
      case 2
      then have lt: "unat (bytes img (bam_count t)) < d64_sectors_per_track t"
        using free_sectors_bound [OF assms(1) dos] count by (simp add: free_sectors_def)
      then have "unat (bytes img (bam_count t) + 1) = unat (bytes img (bam_count t)) + 1"
        using spt_small [of t] by (simp add: unat_word_ariths)
      then show ?thesis using 2 lt ne old True count finite_u8_set by (simp add: sets) (simp add: img' marked_def)
    next
      case 3
      then have "0 < card (free_sectors img t)" using finite_u8_set card_gt_0_iff by blast
      then have pos: "bytes img (bam_count t) \<noteq> 0" using count by auto
      then have "unat (bytes img (bam_count t) - 1) = unat (bytes img (bam_count t)) - 1" by (simp add: unat_minus_one)
      then show ?thesis using 3 pos ne old True count finite_u8_set
        by (simp add: sets card_Diff_singleton) (simp add: img' marked_def word_gt_0)
    qed
  qed
  then show ?thesis using free by (simp add: bam_consistent_def)
qed

lemma blank_image_ok: "image_ok (blank_image bs)"
  by (simp add: image_ok_def blank_image_def blank_geometry_def d64_geometry_from_size_def)

theorem d64_mark_keeps_bam_witness:
  "bam_consistent (snd (d64_bam_mark_sector 1 0 True (blank_image (\<lambda>_. 0))))"
proof -
  have dos: "dos_sector 1 0" by (simp add: dos_sector_def d64_spt_def)
  have "bam_consistent (blank_image (\<lambda>_. 0))"
    by (simp add: bam_consistent_def free_sectors_def sector_free_iff [OF blank_image_ok]) (simp add: blank_image_def)
  then show ?thesis
    using d64_mark_keeps_bam [OF blank_image_ok [of "\<lambda>_. 0"] _ mark_sector_eq [OF blank_image_ok dos]]
    by (simp add: mark_sector_eq [OF blank_image_ok dos])
qed

section \<open>Allocation\<close>

lemma find_next_free:
  assumes "d64_find_next_free_on_track img t preferred = Inr s"
  shows "d64_bam_sector_free img t s"
  using assms by (auto simp: d64_find_next_free_on_track_def Let_def find_Some_iff split: if_splits option.splits)

lemma alloc_sector_ok:
  assumes "image_ok img" "d64_alloc_sector pt ps False img = (Inr (t, s), img')"
  shows "d64_bam_sector_free img t s" "t \<noteq> 18" "dos_sector t s" "img' = img\<lparr>bytes := marked t s False (bytes img)\<rparr>"
proof -
  let ?next = "\<lambda>track. d64_find_next_free_on_track img track (if track = pt then ps else 0)"
  let ?start = "if 1 \<le> pt \<and> pt \<le> 35 then pt else 1"
  obtain t' where f: "find (\<lambda>track. track \<noteq> 18 \<and> \<not> isl (?next track)) (pass_tracks ?start @ pass_tracks 1) = Some t'"
    using assms(2) by (auto simp: d64_alloc_sector_def Let_def split: option.splits)
  then have "t' \<noteq> 18 \<and> \<not> isl (?next t')" by (auto simp: find_Some_iff)
  then have t': "t' \<noteq> 18" "?next t' = Inr (projr (?next t'))" using sum.collapse(2) [of "?next t'"] by simp_all
  let ?s = "projr (?next t')"
  have free: "d64_bam_sector_free img t' ?s" using t'(2) by (rule find_next_free)
  then have dos: "dos_sector t' ?s" by (simp add: sector_free_iff [OF assms(1)])
  have "(t, s) = (t', ?s)" "img' = img\<lparr>bytes := marked t' ?s False (bytes img)\<rparr>"
    using assms(2) f mark_sector_eq [OF assms(1) dos] by (auto simp: d64_alloc_sector_def Let_def)
  then show "d64_bam_sector_free img t s" "t \<noteq> 18" "dos_sector t s" "img' = img\<lparr>bytes := marked t s False (bytes img)\<rparr>"
    using free t' dos by simp_all
qed

text \<open>
  The blocks of a new chain: distinct, free before and taken after, never on the directory track; only
  the block availability map changes.
\<close>

lemma alloc_blocks_ok:
  assumes "image_ok img" "alloc_blocks n pt ps img = (Inr chain, img')"
  shows "\<exists>bs. img' = img\<lparr>bytes := bs\<rparr> \<and> within_sector 91392 (bytes img) bs \<and> length chain = n \<and> distinct chain \<and>
    (\<forall>(t, s) \<in> set chain. d64_bam_sector_free img t s \<and> t \<noteq> 18 \<and> dos_sector t s) \<and>
    (\<forall>t s. d64_bam_sector_free img' t s \<longleftrightarrow> d64_bam_sector_free img t s \<and> (t, s) \<notin> set chain)"
  using assms
proof (induction n arbitrary: pt ps img chain)
  case 0
  then show ?case by (intro exI [of _ "bytes img"]) (simp add: within_sector_def)
next
  case (Suc n)
  obtain t s img1 rest where a: "d64_alloc_sector pt ps False img = (Inr (t, s), img1)"
    and r: "alloc_blocks n t (word_of_nat ((unat s + 10) mod d64_sectors_per_track t)) img1 = (Inr rest, img')"
    and chain: "chain = (t, s) # rest"
    using Suc.prems(2) by (auto split: prod.splits sum.splits)
  note one = alloc_sector_ok [OF Suc.prems(1) a]
  have ok1: "image_ok img1" using Suc.prems(1) one(4) by simp
  from Suc.IH [OF ok1 r] obtain bs where ih: "img' = img1\<lparr>bytes := bs\<rparr>" "within_sector 91392 (bytes img1) bs"
    "length rest = n" "distinct rest" "\<forall>(t, s) \<in> set rest. d64_bam_sector_free img1 t s \<and> t \<noteq> 18 \<and> dos_sector t s"
    "\<forall>t s. d64_bam_sector_free img' t s \<longleftrightarrow> d64_bam_sector_free img1 t s \<and> (t, s) \<notin> set rest"
    by blast
  have free1: "d64_bam_sector_free img1 t' s' \<longleftrightarrow> (t' = t \<and> s' = s \<longrightarrow> False) \<and> d64_bam_sector_free img t' s'" for t' s'
    using mark_sector_free [OF Suc.prems(1) one(3), of False t' s'] one(4)
    by (auto simp: mark_sector_eq [OF Suc.prems(1) one(3)])
  have "within_sector 91392 (bytes img) bs"
    using within_sector_trans [OF marked_within [OF one(3), of "bytes img" False]] ih(2) one(4) by simp
  then show ?case using ih free1 one chain by (intro exI [of _ bs]) auto
qed

end
