(* ===== verification/D64_Files.thy ===== *)
theory D64_Files
  imports D64_Bam
begin

text \<open>
  Files and the directory of a D64 image: a chain that was written reads back, the directory loops
  walk the linked sectors, and a program that is written can be found and extracted.
\<close>

section \<open>File chains\<close>

text \<open>The sectors of \<open>chain\<close> are linked in this order and hold \<open>data\<close>.\<close>

fun chain_holds :: "d64_image \<Rightarrow> (u8 \<times> u8) list \<Rightarrow> u8 list \<Rightarrow> bool" where
  "chain_holds img [] data = False"
| "chain_holds img [(t, s)] data =
     (\<exists>p. sector_at img t s p \<and> bytes img p = 0 \<and> bytes img (p + 1) = word_of_nat (length data + 1) \<and>
        data \<noteq> [] \<and> length data \<le> 254 \<and> block (bytes img) (p + 2) (length data) = data)"
| "chain_holds img ((t, s) # (t', s') # rest) data =
     (\<exists>p. sector_at img t s p \<and> bytes img p = t' \<and> t' \<noteq> 0 \<and> bytes img (p + 1) = s' \<and> 254 < length data \<and>
        block (bytes img) (p + 2) 254 = take 254 data \<and> chain_holds img ((t', s') # rest) (drop 254 data))"

definition sector_indices :: "d64_image \<Rightarrow> (u8 \<times> u8) list \<Rightarrow> nat set" where
  "sector_indices img chain = {p div 256 | p. \<exists>(t, s) \<in> set chain. sector_at img t s p}"

lemma final_size_chunk: "0 < n \<Longrightarrow> n \<le> 254 \<Longrightarrow> final_size (word_of_nat (n + 1)) = n"
proof -
  assume n: "0 < n" "n \<le> 254"
  then have "unat (word_of_nat (n + 1) :: u8) = n + 1" by (intro unat_of_nat_u8) simp
  then show ?thesis using n by (auto simp: final_size_def Let_def word_le_nat_alt simp del: of_nat_add of_nat_Suc)
qed

lemma sector_at_index_inj:
  assumes "image_ok img" "sector_at img t s p" "sector_at img t' s' p'" "p div 256 = p' div 256"
  shows "t = t' \<and> s = s'"
proof -
  have "p = p'" using assms(4) sector_at_bounds(1) [OF assms(1,2)] sector_at_bounds(1) [OF assms(1,3)]
    by (metis dvd_div_mult_self)
  then show ?thesis using sector_at_unique [OF assms(1,2)] assms(3) by simp
qed

lemma extract_chain:
  assumes "image_ok img" "\<forall>n. mem (File_Bytes n)" "chain_holds img chain data" "distinct chain"
    "fst (hd chain) \<noteq> 0" "visited \<inter> sector_indices img chain = {}"
  shows "extract_from mem img (fst (hd chain)) (snd (hd chain)) visited acc = Inr (acc @ data)"
  using assms
proof (induction img chain data arbitrary: visited acc rule: chain_holds.induct)
  case (2 img t s data)
  then obtain p where p: "sector_at img t s p" "bytes img p = 0" "bytes img (p + 1) = word_of_nat (length data + 1)"
    "data \<noteq> []" "length data \<le> 254" "block (bytes img) (p + 2) (length data) = data" by auto
  have "p div 256 \<notin> visited" using 2 p(1) by (auto simp: sector_indices_def)
  moreover have "final_size (bytes img (p + 1)) = length data" using p by (simp only: p(3)) (rule final_size_chunk; simp)
  ultimately show ?case
    using p 2 sector_at_bounds(4) [OF 2(1) p(1)]
    by (subst extract_from.simps) (simp add: sector_at_def d64_file_append_def)
next
  case (3 img t s t' s' rest data)
  then obtain p where p: "sector_at img t s p" "bytes img p = t'" "t' \<noteq> 0" "bytes img (p + 1) = s'" "254 < length data"
    "block (bytes img) (p + 2) 254 = take 254 data" "chain_holds img ((t', s') # rest) (drop 254 data)" by auto
  have new: "p div 256 \<notin> visited" using 3 p(1) by (auto simp: sector_indices_def)
  have "p div 256 \<notin> sector_indices img ((t', s') # rest)"
    using 3(5) sector_at_index_inj [OF 3(2) p(1)] by (fastforce simp: sector_indices_def)
  moreover have "sector_indices img ((t', s') # rest) \<subseteq> sector_indices img ((t, s) # (t', s') # rest)"
    by (auto simp: sector_indices_def)
  ultimately have "insert (p div 256) visited \<inter> sector_indices img ((t', s') # rest) = {}" using 3(7) by blast
  from 3(1) [OF 3(2,3) p(7) _ _ this, of "acc @ take 254 data"]
  have "extract_from mem img t' s' (insert (p div 256) visited) (acc @ take 254 data) = Inr ((acc @ take 254 data) @ drop 254 data)"
    using 3 p(3) by simp
  then show ?case
    using p(1,2,4,5,6) p(3) new 3(3,6) sector_at_bounds(4) [OF 3(2) p(1)]
    by (subst extract_from.simps) (simp add: sector_at_def d64_file_append_def)
qed simp

lemma chain_holds_length: "chain_holds img chain data \<Longrightarrow> length chain = (length data + 253) div 254"
proof (induction img chain data rule: chain_holds.induct)
  case (2 img t s data)
  then have "0 < length data" "length data \<le> 254" by auto
  then have "(length data + 253) div 254 = 1" by (intro div_nat_eqI) (simp_all add: Suc_le_eq)
  then show ?case by simp
next
  case (3 img t s t' s' rest data)
  then have "length ((t', s') # rest) = (length data - 254 + 253) div 254" "254 < length data" by auto
  moreover from this(2) have "length data + 253 = (length data - 254 + 253) + 254" by linarith
  ultimately show ?case by (simp only: length_Cons div_add_self2)
qed simp

text \<open>A chain still holds its data when its sectors are left alone.\<close>

lemma chain_holds_agree:
  assumes "chain_holds img chain data" "\<And>t s p. (t, s) \<in> set chain \<Longrightarrow> sector_at img t s p \<Longrightarrow> agree_at (bytes img) bs p"
  shows "chain_holds (img\<lparr>bytes := bs\<rparr>) chain data"
  using assms
proof (induction img chain data rule: chain_holds.induct)
  case (2 img t s data)
  then show ?case
    using agree_at_byte [of "bytes img" bs _ 0] agree_at_byte [of "bytes img" bs _ 1] agree_at_block [of "bytes img" bs _ 2]
    by fastforce
next
  case (3 img t s t' s' rest data)
  then show ?case
    using agree_at_byte [of "bytes img" bs _ 0] agree_at_byte [of "bytes img" bs _ 1] agree_at_block [of "bytes img" bs _ 2]
    by fastforce
qed simp

definition filled :: "nat \<Rightarrow> u8 \<times> u8 \<Rightarrow> u8 list \<Rightarrow> (nat \<Rightarrow> u8) \<Rightarrow> nat \<Rightarrow> u8" where
  "filled p link xs bs = memcpy ((memset bs p 0 256)(p := fst link, p + 1 := snd link)) (p + 2) xs"

lemma filled_bytes:
  assumes "length xs \<le> 254"
  shows "filled p link xs bs p = fst link" "filled p link xs bs (p + 1) = snd link"
    "block (filled p link xs bs) (p + 2) (length xs) = xs" "within_sector p bs (filled p link xs bs)"
proof -
  show "filled p link xs bs p = fst link" "filled p link xs bs (p + 1) = snd link"
    by (simp_all add: filled_def memcpy_def)
  show "block (filled p link xs bs) (p + 2) (length xs) = xs"
    by (rule nth_equalityI) (simp_all add: filled_def memcpy_def block_def)
  show "within_sector p bs (filled p link xs bs)"
    using assms by (auto simp: within_sector_def filled_def memcpy_def memset_def split: if_splits)
qed

lemma fill_blocks_Cons:
  assumes "sector_at img t s p"
  shows "fill_blocks ((t, s) # rest) data img =
    (let chunk = min 254 (length data);
         link = (case rest of [] \<Rightarrow> (0, word_of_nat (chunk + 1)) | next # _ \<Rightarrow> next)
     in fill_blocks rest (drop chunk data) (img\<lparr>bytes := filled p link (take chunk data) (bytes img)\<rparr>))"
  using assms [folded sector_ptr_iff]
  by (auto simp: Let_def filled_def min_def split_beta split: list.split)

declare fill_blocks.simps(2) [simp del]

lemma sector_track_nonzero: "image_ok img \<Longrightarrow> sector_at img t s p \<Longrightarrow> t \<noteq> 0"
  by (auto simp: sector_at_iff)

lemma fill_blocks_ok:
  assumes "image_ok img" "distinct chain" "chain \<noteq> []" "\<forall>(t, s) \<in> set chain. \<exists>p. sector_at img t s p"
    "(length chain - 1) * 254 < length data" "length data \<le> length chain * 254"
  shows "\<exists>bs. fill_blocks chain data img = (D64_OK, img\<lparr>bytes := bs\<rparr>) \<and> chain_holds (img\<lparr>bytes := bs\<rparr>) chain data \<and>
    (\<forall>q. 256 dvd q \<and> (\<forall>(t, s) \<in> set chain. \<not> sector_at img t s q) \<longrightarrow> agree_at (bytes img) bs q)"
  using assms
proof (induction chain arbitrary: data img)
  case (Cons ts rest)
  obtain t s where ts: "ts = (t, s)" by (cases ts)
  obtain p where p: "sector_at img t s p" using Cons.prems(4) ts by auto
  have p256: "256 dvd p" using sector_at_bounds(1) [OF Cons.prems(1) p] .
  define chunk where "chunk = min 254 (length data)"
  define link where "link = (case rest of [] \<Rightarrow> (0, word_of_nat (chunk + 1)) | next # _ \<Rightarrow> next)"
  define bs1 where "bs1 = filled p link (take chunk data) (bytes img)"
  have step: "fill_blocks (ts # rest) data img = fill_blocks rest (drop chunk data) (img\<lparr>bytes := bs1\<rparr>)"
    unfolding bs1_def link_def chunk_def by (simp add: ts fill_blocks_Cons [OF p] Let_def)
  have len: "length (take chunk data) = chunk" "chunk \<le> 254" by (simp_all add: chunk_def)
  note head = filled_bytes [where xs = "take chunk data" and p = p and link = link and bs = "bytes img", folded bs1_def, unfolded len, OF len(2)]
  show ?case
  proof (cases rest)
    case Nil
    have "chunk = length data" using Nil Cons.prems(6) by (simp add: chunk_def)
    show ?thesis
    proof -
      have "chain_holds (img\<lparr>bytes := bs1\<rparr>) [(t, s)] data"
        using head(1-3) p len(2) Cons.prems(5) \<open>chunk = length data\<close> by (auto simp: link_def Nil)
      moreover have "agree_at (bytes img) bs1 q" if "256 dvd q" "\<forall>(t, s) \<in> set (ts # rest). \<not> sector_at img t s q" for q
        using within_sector_agree [OF head(4) that(1) p256] that(2) p ts by auto
      ultimately show ?thesis using step by (intro exI [of _ bs1]) (simp add: Nil ts)
    qed
  next
    case (Cons ts' rest')
    obtain t' s' where ts': "ts' = (t', s')" by (cases ts')
    have chunk: "chunk = 254" using Cons.prems(5) Cons by (simp add: chunk_def)
    have "length rest * 254 < length data" "length data \<le> 254 + length rest * 254" "rest \<noteq> []"
      "254 \<le> length rest * 254"
      using Cons.prems(5,6) Cons by simp_all
    then have "(length rest - 1) * 254 < length (drop chunk data)" "length (drop chunk data) \<le> length rest * 254"
      unfolding length_drop chunk diff_mult_distrib by linarith+
    from Cons.IH [OF _ _ \<open>rest \<noteq> []\<close> _ this, of "img\<lparr>bytes := bs1\<rparr>"]
    obtain bs where bs: "fill_blocks rest (drop chunk data) (img\<lparr>bytes := bs1\<rparr>) = (D64_OK, img\<lparr>bytes := bs\<rparr>)"
      "chain_holds (img\<lparr>bytes := bs\<rparr>) rest (drop chunk data)"
      "\<And>q. 256 dvd q \<Longrightarrow> \<forall>(t, s) \<in> set rest. \<not> sector_at img t s q \<Longrightarrow> agree_at bs1 bs q"
      using Cons.prems(1,2,4) by auto
    have "(t', s') \<in> set rest" using Cons ts' by simp
    then have "t' \<noteq> 0" using Cons.prems(1,4) sector_track_nonzero ts by fastforce
    have "\<forall>(t', s') \<in> set rest. \<not> sector_at img t' s' p"
      using sector_at_unique [OF Cons.prems(1) p] Cons.prems(2) ts by fastforce
    then have at_p: "agree_at bs1 bs p" using bs(3) p256 by blast
    have "bs p = t'" "bs (p + 1) = s'" "block bs (p + 2) 254 = take 254 data"
      using head(1-3) agree_at_byte [OF at_p, of 0] agree_at_byte [OF at_p, of 1] agree_at_block [OF at_p, of 2 254] chunk
      by (simp_all add: link_def Cons ts')
    then have "chain_holds (img\<lparr>bytes := bs\<rparr>) (ts # rest) data"
      using p bs(2) \<open>t' \<noteq> 0\<close> Cons.prems(5) chunk by (auto simp: ts Cons ts')
    moreover have "agree_at (bytes img) bs q"
      if "256 dvd q" "\<forall>(t, s) \<in> set (ts # rest). \<not> sector_at img t s q" for q
    proof -
      have "q \<noteq> p" using that(2) p ts by auto
      then show ?thesis
        using that bs(3) [of q] within_sector_agree [OF head(4) that(1) p256] by (auto intro: agree_at_trans)
    qed
    ultimately show ?thesis using bs(1) step by (intro exI [of _ bs]) auto
  qed
qed simp

lemma block_count_bounds:
  assumes "2 \<le> length data"
  shows "((length data + 253) div 254 - 1) * 254 < length data" "length data \<le> (length data + 253) div 254 * 254"
    "0 < (length data + 253) div 254"
proof -
  let ?q = "(length data + 253) div 254"
  have q: "?q * 254 \<le> length data + 253" "length data + 253 < ?q * 254 + 254"
    using div_times_less_eq_dividend [of "length data + 253" 254] dividend_less_div_times [of 254 "length data + 253"] by linarith+
  show "0 < ?q" using q(2) assms by linarith
  then show "(?q - 1) * 254 < length data" using q(1) by (simp add: diff_mult_distrib)
  show "length data \<le> ?q * 254" using q(2) by linarith
qed

text \<open>What a successful \<^verbatim>\<open>d64_write_file_chain\<close> leaves behind.\<close>

lemma write_file_chain_ok:
  assumes "image_ok img" "d64_write_file_chain mem data img = (Inr (t, s, blocks), img')"
  obtains chain bs where "img' = img\<lparr>bytes := bs\<rparr>" "chain_holds img' chain data" "distinct chain" "hd chain = (t, s)"
    "chain \<noteq> []" "2 \<le> length data" "blocks = word_of_nat (length chain)"
    "\<forall>(t, s) \<in> set chain. d64_bam_sector_free img t s \<and> t \<noteq> 18 \<and> dos_sector t s"
    "\<And>q. 256 dvd q \<Longrightarrow> q \<noteq> 91392 \<Longrightarrow> \<forall>(t, s) \<in> set chain. \<not> sector_at img t s q \<Longrightarrow> agree_at (bytes img) bs q"
    "\<And>t s. d64_bam_sector_free img' t s \<longleftrightarrow> d64_bam_sector_free img t s \<and> (t, s) \<notin> set chain"
proof -
  let ?n = "(length data + 253) div 254"
  have len: "2 \<le> length data" using assms(2) by (auto simp: d64_write_file_chain_def split: if_splits)
  obtain chain img1 where a: "alloc_blocks ?n 1 0 img = (Inr chain, img1)"
    and f: "(let (result, image) = fill_blocks chain data img1
             in if result \<noteq> D64_OK then (Inl result, image)
                else (Inr (fst (hd chain), snd (hd chain), word_of_nat ?n), image)) = (Inr (t, s, blocks), img')"
    using assms(2) by (auto simp: d64_write_file_chain_def Let_def split: if_splits prod.splits sum.splits)
  obtain bs1 where one: "img1 = img\<lparr>bytes := bs1\<rparr>" "within_sector 91392 (bytes img) bs1" "length chain = ?n" "distinct chain"
    "\<forall>(t, s) \<in> set chain. d64_bam_sector_free img t s \<and> t \<noteq> 18 \<and> dos_sector t s"
    "\<forall>t s. d64_bam_sector_free img1 t s \<longleftrightarrow> d64_bam_sector_free img t s \<and> (t, s) \<notin> set chain"
    using alloc_blocks_ok [OF assms(1) a] by blast
  have ne: "chain \<noteq> []" using one(3) block_count_bounds(3) [OF len] by auto
  have ok1: "image_ok img1" using one(1) assms(1) by simp
  have at: "\<forall>(t, s) \<in> set chain. \<exists>p. sector_at img1 t s p" using one(5) dos_sector_at [OF ok1] by blast
  obtain bs where two: "fill_blocks chain data img1 = (D64_OK, img1\<lparr>bytes := bs\<rparr>)" "chain_holds (img1\<lparr>bytes := bs\<rparr>) chain data"
    "\<And>q. 256 dvd q \<Longrightarrow> \<forall>(t, s) \<in> set chain. \<not> sector_at img1 t s q \<Longrightarrow> agree_at bs1 bs q"
    using fill_blocks_ok [OF ok1 one(4) ne at, of data] block_count_bounds [OF len] one(1,3) by auto
  have "(Inr (fst (hd chain), snd (hd chain), word_of_nat ?n), img\<lparr>bytes := bs\<rparr>) = (Inr (t, s, blocks), img')"
    using f two(1) one(1) by simp
  then have img': "img' = img\<lparr>bytes := bs\<rparr>" and hd: "hd chain = (t, s)" and b: "blocks = word_of_nat (length chain)"
    using one(3) by (auto simp: prod_eq_iff)
  have "\<forall>(t, s) \<in> set chain. \<not> sector_at img t s 91392"
    using sector_at_unique [OF assms(1) bam_sector [OF assms(1)]] one(5) by fastforce
  then have "agree_at bs1 bs 91392" using two(3) [of 91392] one(1) by simp
  then have free: "d64_bam_sector_free img' t s \<longleftrightarrow> d64_bam_sector_free img t s \<and> (t, s) \<notin> set chain" for t s
    using sector_free_agree [OF ok1, of bs t s] one(1,6) img' by simp
  have "agree_at (bytes img) bs q" if "256 dvd q" "q \<noteq> 91392" "\<forall>(t, s) \<in> set chain. \<not> sector_at img t s q" for q
    using that two(3) [of q] within_sector_agree [OF one(2) that(1) _ that(2)] one(1) by (auto intro: agree_at_trans)
  then show ?thesis using that [OF img' _ one(4) hd ne len b one(5)] two(2) img' one(1) free by simp
qed

section \<open>The directory\<close>

text \<open>The sectors \<open>ps\<close> are linked from track \<open>t\<close>, sector \<open>s\<close> to the end of a chain.\<close>

primrec dir_links :: "d64_image \<Rightarrow> u8 \<Rightarrow> u8 \<Rightarrow> nat list \<Rightarrow> bool" where
  "dir_links img t s [] = (t = 0)"
| "dir_links img t s (p # ps) = (t \<noteq> 0 \<and> sector_at img t s p \<and> dir_links img (bytes img p) (bytes img (p + 1)) ps)"

definition sector_slots :: "nat \<Rightarrow> nat list" where
  "sector_slots p = map (\<lambda>slot. p + slot * 32) [0..<8]"

definition slot_entries :: "(nat \<Rightarrow> u8) \<Rightarrow> nat \<Rightarrow> d64_directory_entry list" where
  "slot_entries bs p = map (slot_entry bs) (filter (\<lambda>q. \<not> slot_unused bs q) (sector_slots p))"

lemma parse_slots_ok:
  assumes "parse_slots mem p slots img = (D64_OK, img')"
  shows "\<exists>n. img' = img\<lparr>entry_capacity := n, entries := entries img @ map (slot_entry (bytes img))
      (filter (\<lambda>q. \<not> slot_unused (bytes img) q) (map (\<lambda>slot. p + slot * 32) slots))\<rparr>"
  using assms
proof (induction slots arbitrary: img)
  case Nil
  then show ?case by (intro exI [of _ "entry_capacity img"]) simp
next
  case (Cons slot slots)
  then obtain img1 where a: "d64_parse_directory_slot mem p slot img = (D64_OK, img1)" "parse_slots mem p slots img1 = (D64_OK, img')"
    by (auto simp: split_beta prod_eq_iff split: if_splits)
  have "\<exists>n. img1 = img\<lparr>entry_capacity := n, entries := entries img @ (if slot_unused (bytes img) (p + slot * 32) then []
      else [slot_entry (bytes img) (p + slot * 32)])\<rparr>"
    using a(1) by (auto simp: d64_parse_directory_slot_def d64_append_directory_entry_def Let_def split: if_splits
        intro: exI [of _ "entry_capacity img"])
  then obtain n where "img1 = img\<lparr>entry_capacity := n, entries := entries img @ (if slot_unused (bytes img) (p + slot * 32) then []
      else [slot_entry (bytes img) (p + slot * 32)])\<rparr>" ..
  then show ?case using Cons.IH [OF a(2)] by auto
qed

lemma sector_at_cache [simp]:
  "sector_at (img\<lparr>entries := es\<rparr>) = sector_at img" "sector_at (img\<lparr>entry_capacity := n\<rparr>) = sector_at img"
  "sector_at (img\<lparr>info := i\<rparr>) = sector_at img"
  by (intro ext; simp add: sector_at_def d64_image_sector_offset_def split: sum.split)+

lemma dir_links_cache [simp]:
  "dir_links (img\<lparr>entries := es\<rparr>) t s ps = dir_links img t s ps"
  "dir_links (img\<lparr>entry_capacity := n\<rparr>) t s ps = dir_links img t s ps"
  "dir_links (img\<lparr>info := i\<rparr>) t s ps = dir_links img t s ps"
  by (induction ps arbitrary: t s) auto

text \<open>A parse that succeeds has read the slots of the linked sectors, in order.\<close>

lemma parse_directory_ok:
  assumes "dir_links img t s ps" "parse_directory_from mem t s visited img = (D64_OK, img')"
  shows "\<exists>n. img' = img\<lparr>entry_capacity := n, entries := entries img @ concat (map (slot_entries (bytes img)) ps)\<rparr>"
  using assms
proof (induction ps arbitrary: t s visited img)
  case Nil
  then show ?case by (subst (asm) parse_directory_from.simps) (auto intro: exI [of _ "entry_capacity img"])
next
  case (Cons p ps)
  have p: "d64_image_sector_offset img t s = Inr p" "t \<noteq> 0" using Cons.prems(1) by (auto simp: sector_at_def)
  obtain img1 where a: "parse_slots mem p [0..<8] img = (D64_OK, img1)"
    "parse_directory_from mem (bytes img1 p) (bytes img1 (p + 1)) (insert (p div 256) visited) img1 = (D64_OK, img')"
    using Cons.prems(2) p by (subst (asm) parse_directory_from.simps) (auto simp: split_beta prod_eq_iff split: if_splits)
  obtain n where n: "img1 = img\<lparr>entry_capacity := n, entries := entries img @ slot_entries (bytes img) p\<rparr>"
    using parse_slots_ok [OF a(1)] by (auto simp: slot_entries_def sector_slots_def)
  have "dir_links img1 (bytes img1 p) (bytes img1 (p + 1)) ps" using Cons.prems(1) n by simp
  from Cons.IH [OF this a(2)] show ?case using n by auto
qed

lemma dir_links_sectors:
  "image_ok img \<Longrightarrow> dir_links img t s ps \<Longrightarrow> p \<in> set ps \<Longrightarrow> \<exists>t s. sector_at img t s p"
  by (induction ps arbitrary: t s) auto

lemma find_append_cases:
  "find P (xs @ ys) = (case find P xs of None \<Rightarrow> find P ys | Some x \<Rightarrow> Some x)"
  by (induction xs) auto

text \<open>The search for an unused slot follows the same sectors.\<close>

lemma free_slot_found:
  assumes "image_ok img" "dir_links img t s ps" "distinct ps" "visited \<inter> (\<lambda>p. p div 256) ` set ps = {}"
  shows "free_slot_from img t s visited last_sector =
    (case find (slot_unused (bytes img)) (concat (map sector_slots ps)) of
       Some slot \<Rightarrow> Inr (Inl slot)
     | None \<Rightarrow> Inr (Inr (if ps = [] then last_sector else Some (last ps))))"
  using assms
proof (induction ps arbitrary: t s visited last_sector)
  case Nil
  then show ?case by (subst free_slot_from.simps) simp
next
  case (Cons p ps)
  have p: "t \<noteq> 0" "d64_sector_index img t s = Some (p div 256)" "d64_sector_ptr img t s = Some p" "p div 256 < 802"
    using Cons.prems(2) sector_at_bounds(4) [OF Cons.prems(1)]
    by (auto simp: sector_at_def d64_sector_index_def d64_sector_ptr_def)
  have dvd: "256 dvd q" if "q \<in> set (p # ps)" for q
    using that dir_links_sectors [OF Cons.prems(1,2)] sector_at_bounds(1) [OF Cons.prems(1)] by blast
  have "insert (p div 256) visited \<inter> (\<lambda>p. p div 256) ` set ps = {}"
  proof -
    have "p = q" if "q \<in> set ps" "p div 256 = q div 256" for q
      using dvd [of p] dvd [of q] that by (metis dvd_div_mult_self list.set_intros)
    then show ?thesis using Cons.prems(3,4) by auto
  qed
  then show ?case
    using Cons.IH [of "bytes img p" "bytes img (p + 1)" "insert (p div 256) visited" "Some p"] Cons.prems p
    by (subst free_slot_from.simps) (auto simp: find_append_cases simp flip: sector_slots_def split: option.splits)
qed

lemma dir_links_agree:
  assumes "dir_links img t s ps" "\<And>p. p \<in> set ps \<Longrightarrow> bs p = bytes img p \<and> bs (p + 1) = bytes img (p + 1)"
  shows "dir_links (img\<lparr>bytes := bs\<rparr>) t s ps"
  using assms by (induction ps arbitrary: t s) auto

lemma dir_links_extend:
  assumes "dir_links img t s ps" "distinct ps" "ps \<noteq> []"
    "\<And>p. p \<in> set ps \<Longrightarrow> p \<noteq> last ps \<Longrightarrow> bs p = bytes img p \<and> bs (p + 1) = bytes img (p + 1)"
    "bs (last ps) = t'" "bs (last ps + 1) = s'" "t' \<noteq> 0" "sector_at img t' s' p'" "bs p' = 0"
  shows "dir_links (img\<lparr>bytes := bs\<rparr>) t s (ps @ [p'])"
  using assms
proof (induction ps arbitrary: t s)
  case (Cons p ps)
  show ?case
  proof (cases "ps = []")
    case True
    then show ?thesis using Cons.prems by simp
  next
    case False
    then have "p \<noteq> last ps" using Cons.prems(2) last_in_set by fastforce
    then have "bs p = bytes img p" "bs (p + 1) = bytes img (p + 1)" using Cons.prems(4) [of p] False by simp_all
    then show ?thesis using Cons.IH [of "bytes img p" "bytes img (p + 1)"] Cons.prems False by simp
  qed
qed simp

text \<open>
  A directory the library can extend: its sectors are linked without a loop, lie outside the BAM and
  are, like the BAM itself, not available for allocation.
\<close>

definition directory_ok :: "d64_image \<Rightarrow> nat list \<Rightarrow> bool" where
  "directory_ok img ps \<longleftrightarrow> dir_links img 18 1 ps \<and> distinct ps \<and> 91392 \<notin> set ps \<and> \<not> d64_bam_sector_free img 18 0 \<and>
     (\<forall>t s p. p \<in> set ps \<and> sector_at img t s p \<longrightarrow> \<not> d64_bam_sector_free img t s)"

lemma directory_aligned: "image_ok img \<Longrightarrow> directory_ok img ps \<Longrightarrow> p \<in> set ps \<Longrightarrow> 256 dvd p"
  unfolding directory_ok_def using dir_links_sectors sector_at_bounds(1) by blast

lemma find_free_directory_slot_ok:
  assumes ok: "image_ok img" and dir: "directory_ok img ps" and found: "d64_find_free_directory_slot img = (Inr slot, img')"
  obtains bs ps' p k where "img' = img\<lparr>bytes := bs\<rparr>" "dir_links img' 18 1 ps'" "distinct ps'" "91392 \<notin> set ps'" "p \<in> set ps'"
    "k < 8" "slot = p + k * 32" "\<And>q. q \<in> set ps' \<Longrightarrow> q \<in> set ps \<or> (\<exists>s. sector_at img 18 s q \<and> d64_bam_sector_free img 18 s)"
    "\<And>q. 256 dvd q \<Longrightarrow> q \<noteq> 91392 \<Longrightarrow> q \<notin> set ps' \<Longrightarrow> agree_at (bytes img) bs q"
    "\<And>t s q. d64_bam_sector_free img' t s \<Longrightarrow> sector_at img t s q \<Longrightarrow> q \<notin> set ps' \<and> d64_bam_sector_free img t s"
    "\<not> d64_bam_sector_free img' 18 0"
proof -
  have links: "dir_links img 18 1 ps" and dist: "distinct ps" and bam: "91392 \<notin> set ps" using dir by (auto simp: directory_ok_def)
  have ne: "ps \<noteq> []" using links by auto
  have search: "free_slot_from img 18 1 {} None =
    (case find (slot_unused (bytes img)) (concat (map sector_slots ps)) of
       Some slot \<Rightarrow> Inr (Inl slot) | None \<Rightarrow> Inr (Inr (Some (last ps))))"
    using free_slot_found [OF ok links dist, of "{}" None] ne by (simp split: option.split)
  show ?thesis
  proof (cases "find (slot_unused (bytes img)) (concat (map sector_slots ps))")
    case (Some slot')
    then have eq: "slot = slot'" "img' = img" using found search by (simp_all add: d64_find_free_directory_slot_def)
    have "slot' \<in> set (concat (map sector_slots ps))" using Some unfolding find_Some_iff by (metis nth_mem)
    then obtain p k where "p \<in> set ps" "k < 8" "slot' = p + k * 32" by (auto simp: sector_slots_def)
    then show ?thesis using that [of "bytes img" ps p k] eq links dist bam dir by (simp add: directory_ok_def) blast
  next
    case None
    let ?l = "last ps"
    let ?n = "d64_find_next_free_on_track img 18 (word_of_nat ((unat (bytes img (?l + 1)) + 3) mod d64_sectors_per_track 18))"
    obtain n where n: "?n = Inr n"
      using found search None by (auto simp: d64_find_free_directory_slot_def split: sum.splits)
    then have free: "d64_bam_sector_free img 18 n" by (rule find_next_free)
    then have dos: "dos_sector 18 n" by (simp add: sector_free_iff [OF ok])
    obtain p' where p': "sector_at img 18 n p'" using dos_sector_at [OF ok dos] by blast
    define bs1 where "bs1 = (marked 18 n False (bytes img))(?l := 18, ?l + 1 := n)"
    define bs where "bs = (memset bs1 p' 0 256)(p' := 0, p' + 1 := 0xFF)"
    have res: "slot = p'" "img' = img\<lparr>bytes := bs\<rparr>"
      using found search None n mark_sector_eq [OF ok dos] p' [folded sector_ptr_iff]
      by (auto simp: d64_find_free_directory_slot_def bs_def bs1_def)
    have fresh: "p' \<notin> set ps" "p' \<noteq> 91392"
      using dir free p' sector_at_unique [OF ok bam_sector [OF ok]] unfolding directory_ok_def by metis+
    have l: "?l \<in> set ps" using ne by simp
    have al: "256 dvd p'" "256 dvd ?l" "\<And>q. q \<in> set ps \<Longrightarrow> 256 dvd q"
      using sector_at_bounds(1) [OF ok p'] directory_aligned [OF ok dir] l by blast+
    have w: "within_sector 91392 (bytes img) (marked 18 n False (bytes img))" "within_sector ?l (marked 18 n False (bytes img)) bs1"
      "within_sector p' bs1 bs"
      using marked_within [OF dos] by (auto simp: within_sector_def bs1_def bs_def memset_def)
    have same: "agree_at (bytes img) bs q" if "256 dvd q" "q \<noteq> 91392" "q \<noteq> ?l" "q \<noteq> p'" for q
    proof -
      have "(256 :: nat) dvd 91392" by simp
      then show ?thesis
        using agree_at_trans [OF agree_at_trans [OF within_sector_agree [OF w(1) that(1) _ that(2)]
            within_sector_agree [OF w(2) that(1) al(2) that(3)]] within_sector_agree [OF w(3) that(1) al(1) that(4)]] by blast
    qed
    have "agree_at bs1 bs ?l" using within_sector_agree [OF w(3) al(2,1)] fresh(1) l by metis
    then have last: "bs ?l = 18" "bs (?l + 1) = n"
      using agree_at_byte [of bs1 bs ?l 0] agree_at_byte [of bs1 bs ?l 1] by (simp_all add: bs1_def)
    have "dir_links img' 18 1 (ps @ [p'])" unfolding res(2)
    proof (rule dir_links_extend [OF links dist ne _ last])
      fix p assume p: "p \<in> set ps" "p \<noteq> ?l"
      then have "agree_at (bytes img) bs p" using same [of p] al(3) bam fresh by metis
      then show "bs p = bytes img p \<and> bs (p + 1) = bytes img (p + 1)"
        using agree_at_byte [of _ bs p 0] agree_at_byte [of _ bs p 1] by simp
    qed (use p' in \<open>simp_all add: bs_def\<close>)
    moreover have bam_same: "agree_at (marked 18 n False (bytes img)) bs 91392"
    proof -
      have d: "(256 :: nat) dvd 91392" by simp
      show ?thesis
        using agree_at_trans [OF within_sector_agree [OF w(2) d al(2)] within_sector_agree [OF w(3) d al(1)]] fresh(2) bam l
        by metis
    qed
    have free': "d64_bam_sector_free img' t s \<longleftrightarrow> d64_bam_sector_free img t s \<and> \<not> (t = 18 \<and> s = n)" for t s
      using sector_free_agree [of "img\<lparr>bytes := marked 18 n False (bytes img)\<rparr>" bs t s] bam_same ok
        mark_sector_free [OF ok dos, of False t s] by (auto simp: mark_sector_eq [OF ok dos] res(2))
    ultimately show ?thesis
    proof (rule_tac that [of bs "ps @ [p']" p' 0, OF res(2)])
      show "q \<notin> set (ps @ [p']) \<and> d64_bam_sector_free img t s" if "d64_bam_sector_free img' t s" "sector_at img t s q" for t s q
        using that free' [of t s] dir sector_at_unique [OF ok p', of t s] unfolding directory_ok_def by auto
      show "\<not> d64_bam_sector_free img' 18 0" using free' dir by (simp add: directory_ok_def)
      show "agree_at (bytes img) bs q" if "256 dvd q" "q \<noteq> 91392" "q \<notin> set (ps @ [p'])" for q
        using that same [of q] l by auto
    qed (use res(1) dist fresh bam p' free in auto)
  qed
qed

section \<open>Writing a program\<close>

lemma word_of_bytes: "ucast (ucast (w AND 0xFF :: u16) :: u8) OR push_bit 8 (ucast (ucast (drop_bit 8 w) :: u8)) = w"
proof -
  have "(ucast (w AND 0xFF) :: u8) = lo8 w"
  proof -
    have "w AND 0xFF = take_bit 8 w" by (simp add: take_bit_eq_mask mask_eq_exp_minus_1)
    then show ?thesis by (simp add: lo8_def bit_eq_iff bit_simps)
  qed
  then show ?thesis using w16_hi8_lo8 [of w] by (simp add: w16_def hi8_def or.commute)
qed

definition prg_entry :: "u8 list \<Rightarrow> u8 \<times> u8 \<times> u16 \<Rightarrow> d64_directory_entry" where
  "prg_entry name file =
     \<lparr>raw_type = 0x82, entry_type = D64_FILE_PRG, closed = True, locked = False, first_track = fst file,
      first_sector = fst (snd file), filename = name, filename_length = d64_trim_petscii_name name,
      block_count = snd (snd file)\<rparr>"

lemma fill_slot_effect:
  assumes "length name = 16" "256 dvd p" "p + 256 \<le> payload_size (geom img)" "k < 8" "slot = p + k * 32"
  obtains bs where "fill_directory_slot name (t, s, blocks) slot img = img\<lparr>bytes := bs\<rparr>" "within_sector p (bytes img) bs"
    "bs p = bytes img p" "bs (p + 1) = bytes img (p + 1)" "slot_entry bs slot = prg_entry name (t, s, blocks)" "\<not> slot_unused bs slot"
proof -
  define start where "start = (if k = 0 then slot + 2 else slot)"
  define bs0 where "bs0 = memset (bytes img) start 0 (slot + 32 - start)"
  have "slot mod 256 = k * 32"
  proof -
    obtain j where "p = 256 * j" using assms(2) by (elim dvdE)
    then show ?thesis using assms(4,5) by simp
  qed
  then have clear: "d64_clear_directory_entry_slot slot img = img\<lparr>bytes := bs0\<rparr>"
    using assms(3-5) by (auto simp: d64_clear_directory_entry_slot_def bs0_def start_def)
  define bs where "bs = (memcpy (bs0(slot + 2 := 0x82, slot + 3 := t, slot + 4 := s)) (slot + 5) name)
    (slot + 30 := ucast (blocks AND 0xFF), slot + 31 := ucast (drop_bit 8 blocks))"
  have fill: "fill_directory_slot name (t, s, blocks) slot img = img\<lparr>bytes := bs\<rparr>"
    by (simp add: fill_directory_slot_def clear bs_def)
  have at: "bs (slot + 2) = 0x82" "bs (slot + 3) = t" "bs (slot + 4) = s"
    "bs (slot + 30) = ucast (blocks AND 0xFF)" "bs (slot + 31) = ucast (drop_bit 8 blocks)"
    using assms(1) by (simp_all add: bs_def memcpy_def)
  have blk: "block bs (slot + 5) 16 = name"
    by (rule nth_equalityI) (use assms(1) in \<open>simp_all add: block_def bs_def memcpy_def\<close>)
  have range: "bs i \<noteq> bytes img i \<Longrightarrow> start \<le> i \<and> i < slot + 32" for i
    using assms(1) by (auto simp: bs_def memcpy_def bs0_def memset_def start_def split: if_splits)
  have le: "slot + 32 \<le> p + 256" "p \<le> start" "p + 1 < start" using assms(4,5) by (auto simp: start_def)
  have "within_sector p (bytes img) bs" "bs p = bytes img p" "bs (p + 1) = bytes img (p + 1)"
    using range le unfolding within_sector_def by (meson le_trans less_le_trans not_le less_irrefl le_add1 le_less_trans)+
  moreover have "slot_entry bs slot = prg_entry name (t, s, blocks)" "\<not> slot_unused bs slot"
    unfolding slot_entry_def slot_unused_def Let_def at blk
    by (simp_all add: prg_entry_def d64_decode_file_type_def word_of_bytes)
  ultimately show ?thesis using that [of bs] fill by blast
qed

lemma image_ok_cache [simp]:
  "image_ok (img\<lparr>entries := es\<rparr>) = image_ok img" "image_ok (img\<lparr>entry_capacity := n\<rparr>) = image_ok img"
  "image_ok (img\<lparr>info := i\<rparr>) = image_ok img"
  by (simp_all add: image_ok_def)

lemma chain_holds_cache [simp]:
  "chain_holds (img\<lparr>entries := es\<rparr>) chain data = chain_holds img chain data"
  "chain_holds (img\<lparr>entry_capacity := n\<rparr>) chain data = chain_holds img chain data"
  "chain_holds (img\<lparr>info := i\<rparr>) chain data = chain_holds img chain data"
  by (induction img chain data rule: chain_holds.induct) auto

lemma sector_free_cache:
  assumes "image_ok img"
  shows "d64_bam_sector_free (img\<lparr>info := i, entry_capacity := n, entries := es\<rparr>) t s = d64_bam_sector_free img t s"
  using assms by (simp add: sector_free_iff)

lemma reparse_ok:
  assumes "d64_reparse mem img = (D64_OK, img')" "dir_links img 18 1 ps"
  shows "\<exists>i n. img' = img\<lparr>info := i, entry_capacity := n, entries := concat (map (slot_entries (bytes img)) ps)\<rparr>"
proof -
  have "\<exists>i. d64_parse_disk_info img1 = img1\<lparr>info := i\<rparr>" for img1
    by (auto simp: d64_parse_disk_info_def Let_def split: sum.split)
  then obtain i where i: "d64_parse_disk_info (d64_clear_directory_cache img) = (d64_clear_directory_cache img)\<lparr>info := i\<rparr>"
    by blast
  let ?img = "(d64_clear_directory_cache img)\<lparr>info := i\<rparr>"
  have links: "dir_links ?img 18 1 ps" using assms(2) by (simp add: d64_clear_directory_cache_def)
  have "parse_directory_from mem 18 1 {} ?img = (D64_OK, img')"
    using assms(1) by (auto simp: d64_reparse_def d64_parse_directory_def i split_beta prod_eq_iff split: if_splits)
  from parse_directory_ok [OF links this] show ?thesis by (auto simp: d64_clear_directory_cache_def)
qed

lemma normalized_length:
  assumes "d64_normalize_name name = Inr (norm, len, r)"
  shows "length norm = 16 \<and> 0 < len \<and> len \<le> 16"
proof -
  obtain xs where xs: "len = trim_padding xs (length xs)" "0 < len" "len \<le> 16"
    "norm = map d64_ascii_to_petscii (take len xs) @ replicate (16 - len) 0xA0"
  proof -
    define xs where "xs = (if 2 \<le> length (strip_quotes name) \<and> strip_quotes name ! 0 = 0x40 \<and> strip_quotes name ! 1 = 0x3A
      then drop 2 (strip_quotes name) else strip_quotes name)"
    show thesis using assms that [of xs] unfolding d64_normalize_name_def Let_def xs_def [symmetric] by (auto split: if_splits)
  qed
  have "trim_padding xs n \<le> n" for n by (induction n) auto
  then have "len \<le> length xs" using xs(1) by simp
  then show ?thesis using xs by simp
qed

lemma alloc_sector_error: "fst (d64_alloc_sector pt ps b img) \<noteq> Inl D64_OK"
  unfolding d64_alloc_sector_def Let_def by (simp add: split_beta split: option.split)

lemma alloc_blocks_error: "fst (alloc_blocks n pt ps img) \<noteq> Inl D64_OK"
proof (induction n arbitrary: pt ps img)
  case (Suc n)
  then show ?case using alloc_sector_error [of pt ps False img]
    by (auto split: prod.split sum.split) (metis fst_conv)+
qed simp

lemma write_file_chain_error: "fst (d64_write_file_chain mem data img) \<noteq> Inl D64_OK"
proof -
  obtain r img1 where "alloc_blocks ((length data + 253) div 254) 1 0 img = (r, img1)" by (rule prod.exhaust)
  moreover from this have "r \<noteq> Inl D64_OK" using alloc_blocks_error by (metis fst_conv)
  ultimately show ?thesis unfolding d64_write_file_chain_def Let_def by (auto simp: split_beta split: sum.split)
qed

lemma free_slot_error: "free_slot_from img t s visited last_sector \<noteq> Inl D64_OK"
proof (induction img t s visited last_sector rule: free_slot_from.induct)
  case (1 img t s visited last_sector)
  then show ?case by (subst free_slot_from.simps) (simp split: option.split)
qed

lemma find_free_slot_error: "fst (d64_find_free_directory_slot img) \<noteq> Inl D64_OK"
  using free_slot_error [of img 18 1 "{}" None] unfolding d64_find_free_directory_slot_def Let_def
  by (auto simp: split_beta split: sum.split option.split)

text \<open>The three stages of a successful write of a new file.\<close>

lemma write_prg_stages:
  assumes name: "d64_normalize_name name = Inr (norm, len, False)"
    and w: "d64_image_write_prg mem (Some name) (Some data) False (Some img) = (D64_OK, Some img')"
  obtains fl img2 slot img3 where "d64_write_file_chain mem data img = (Inr fl, img2)"
    "d64_find_free_directory_slot img2 = (Inr slot, img3)"
    "d64_reparse mem (fill_directory_slot norm fl slot img3) = (D64_OK, img')"
proof -
  have body: "write_prg_body mem norm (take len norm) data False img = (D64_OK, img')"
    using w name by (auto simp: d64_image_write_prg_def split: if_splits prod.splits)
  obtain r1 img1 where r: "remove_existing (take len norm) False img = (r1, img1)" by (rule prod.exhaust)
  then have r1: "remove_existing (take len norm) False img = (r1, img)"
    by (cases "d64_find_directory_slot img (take len norm)") (auto simp: remove_existing_def split: if_splits)
  obtain r2 img2 where two: "d64_write_file_chain mem data img = (r2, img2)" by (rule prod.exhaust)
  obtain r3 img3 where three: "d64_find_free_directory_slot img2 = (r3, img3)" by (rule prod.exhaust)
  have eq: "(case r2 of Inl result \<Rightarrow> (result, img2)
      | Inr fl \<Rightarrow> (case r3 of Inl result \<Rightarrow> (result, img3)
          | Inr slot \<Rightarrow> d64_reparse mem (fill_directory_slot norm fl slot img3))) = (D64_OK, img')"
    using body by (auto simp: write_prg_body_def r1 two three split: if_splits sum.splits)
  have "r2 \<noteq> Inl D64_OK" "r3 \<noteq> Inl D64_OK"
    using two three write_file_chain_error [of mem data img] find_free_slot_error [of img2] by auto
  then obtain fl slot where "r2 = Inr fl" "r3 = Inr slot" using eq by (cases r2; cases r3) auto
  then show ?thesis using that two three eq by simp
qed

text \<open>The new directory entry: the directory stays well formed and what lies outside it is untouched.\<close>

lemma add_entry:
  assumes ok: "image_ok img" and dir: "directory_ok img ps" and sl: "d64_find_free_directory_slot img = (Inr slot, img3)"
    and re: "d64_reparse mem (fill_directory_slot norm (t, s, blocks) slot img3) = (D64_OK, img')" and len: "length norm = 16"
  obtains ps' bs i n es where "img' = img\<lparr>bytes := bs, info := i, entry_capacity := n, entries := es\<rparr>" "directory_ok img' ps'"
    "prg_entry norm (t, s, blocks) \<in> set es"
    "\<And>t s q. sector_at img t s q \<Longrightarrow> t \<noteq> 18 \<or> \<not> d64_bam_sector_free img t s \<Longrightarrow> q \<noteq> 91392 \<Longrightarrow> q \<notin> set ps \<Longrightarrow> agree_at (bytes img) bs q"
    "\<And>t s. d64_bam_sector_free img' t s \<Longrightarrow> d64_bam_sector_free img t s"
proof -
  obtain bs3 ps' p k where d: "img3 = img\<lparr>bytes := bs3\<rparr>" "dir_links img3 18 1 ps'" "distinct ps'" "91392 \<notin> set ps'"
    "p \<in> set ps'" "k < 8" "slot = p + k * 32" "\<And>q. q \<in> set ps' \<Longrightarrow> q \<in> set ps \<or> (\<exists>s. sector_at img 18 s q \<and> d64_bam_sector_free img 18 s)"
    "\<And>q. 256 dvd q \<Longrightarrow> q \<noteq> 91392 \<Longrightarrow> q \<notin> set ps' \<Longrightarrow> agree_at (bytes img) bs3 q"
    "\<And>t s q. d64_bam_sector_free img3 t s \<Longrightarrow> sector_at img t s q \<Longrightarrow> q \<notin> set ps' \<and> d64_bam_sector_free img t s"
    "\<not> d64_bam_sector_free img3 18 0"
    by (rule find_free_directory_slot_ok [OF ok dir sl]) (rule that; assumption)
  have ok3: "image_ok img3" using ok d(1) by simp
  have al: "256 dvd q" if "q \<in> set ps'" for q using dir_links_sectors [OF ok3 d(2) that] sector_at_bounds(1) [OF ok3] by blast
  have p: "256 dvd p" "p + 256 \<le> payload_size (geom img3)"
    using dir_links_sectors [OF ok3 d(2,5)] sector_at_bounds(1,2) [OF ok3] by blast+
  obtain bs where f: "fill_directory_slot norm (t, s, blocks) slot img3 = img3\<lparr>bytes := bs\<rparr>" "within_sector p (bytes img3) bs"
    "bs p = bytes img3 p" "bs (p + 1) = bytes img3 (p + 1)" "slot_entry bs slot = prg_entry norm (t, s, blocks)" "\<not> slot_unused bs slot"
    by (rule fill_slot_effect [OF len p d(6,7), where t = t and s = s and blocks = blocks]) (rule that; assumption)
  have same: "agree_at (bytes img3) bs q" if "256 dvd q" "q \<noteq> p" for q
    by (rule within_sector_agree [OF f(2) that(1) p(1) that(2)])
  have "bs q = bytes img3 q \<and> bs (q + 1) = bytes img3 (q + 1)" if "q \<in> set ps'" for q
  proof (cases "q = p")
    case False
    then show ?thesis using same [OF al [OF that] False] agree_at_byte [of "bytes img3" bs q 0] agree_at_byte [of "bytes img3" bs q 1] by simp
  qed (use f(3,4) in simp)
  then have links: "dir_links (img3\<lparr>bytes := bs\<rparr>) 18 1 ps'" by (rule dir_links_agree [OF d(2)])
  obtain i n where img': "img' = img\<lparr>bytes := bs, info := i, entry_capacity := n, entries := concat (map (slot_entries bs) ps')\<rparr>"
    using reparse_ok [OF re [unfolded f(1)] links] d(1) by auto
  have free: "d64_bam_sector_free img' t s = d64_bam_sector_free img3 t s" for t s
  proof -
    have "91392 \<noteq> p" using d(4,5) by metis
    then have "agree_at (bytes img3) bs 91392" using same [of 91392] by simp
    then have "d64_bam_sector_free (img3\<lparr>bytes := bs\<rparr>) t s = d64_bam_sector_free img3 t s" by (rule sector_free_agree [OF ok3])
    then show ?thesis using sector_free_cache [of "img\<lparr>bytes := bs\<rparr>"] ok d(1) by (simp add: img')
  qed
  show ?thesis
  proof (rule that [OF img', of ps'])
    show "directory_ok img' ps'" unfolding directory_ok_def
    proof (intro conjI allI impI)
      show "dir_links img' 18 1 ps'" using links by (simp add: img' d(1))
      show "\<not> d64_bam_sector_free img' 18 0" using free d(11) by simp
      fix t s q assume "q \<in> set ps' \<and> sector_at img' t s q"
      then have "q \<in> set ps'" "sector_at img t s q" by (simp_all add: img')
      then show "\<not> d64_bam_sector_free img' t s" using free d(10) by blast
    qed (rule d)+
    have "slot \<in> set (sector_slots p)" using d(6,7) by (auto simp: sector_slots_def)
    then have "prg_entry norm (t, s, blocks) \<in> set (slot_entries bs p)"
      unfolding f(5) [symmetric] slot_entries_def set_map set_filter using f(6) by blast
    then show "prg_entry norm (t, s, blocks) \<in> set (concat (map (slot_entries bs) ps'))" using d(5) by auto
    show "agree_at (bytes img) bs q"
      if "sector_at img t s q" "t \<noteq> 18 \<or> \<not> d64_bam_sector_free img t s" "q \<noteq> 91392" "q \<notin> set ps" for t s q
    proof -
      have new: "q \<notin> set ps'" using that(2,4) d(8) [of q] sector_at_unique [OF ok that(1)] by metis
      then have "q \<noteq> p" using d(5) by metis
      then show ?thesis using agree_at_trans [OF d(9) [OF _ that(3) new]] same [of q] sector_at_bounds(1) [OF ok that(1)] d(1) by simp
    qed
    show "d64_bam_sector_free img t s" if "d64_bam_sector_free img' t s" for t s
    proof -
      have "d64_bam_sector_free img3 t s" using that free by simp
      moreover from this have "dos_sector t s" by (simp add: sector_free_iff [OF ok3])
      ultimately show ?thesis using d(10) [of t s] dos_sector_at [OF ok] by blast
    qed
  qed
qed

lemma directory_after_chain:
  assumes ok: "image_ok img" and dir: "directory_ok img ps" and img2: "img2 = img\<lparr>bytes := bs\<rparr>"
    and same: "\<And>t s q. sector_at img t s q \<Longrightarrow> \<not> d64_bam_sector_free img t s \<Longrightarrow> q \<noteq> 91392 \<Longrightarrow> agree_at (bytes img) bs q"
    and free: "\<And>t s. d64_bam_sector_free img2 t s \<Longrightarrow> d64_bam_sector_free img t s"
  shows "directory_ok img2 ps"
proof -
  have links: "dir_links img 18 1 ps" using dir by (simp add: directory_ok_def)
  have "agree_at (bytes img) bs p" if p: "p \<in> set ps" for p
  proof -
    obtain t s where "sector_at img t s p" using dir_links_sectors [OF ok links p] by blast
    then show ?thesis using same [of t s p] dir p unfolding directory_ok_def by blast
  qed
  then have "bs p = bytes img p \<and> bs (p + 1) = bytes img (p + 1)" if "p \<in> set ps" for p
    using that agree_at_byte [of "bytes img" bs p 0] agree_at_byte [of "bytes img" bs p 1] by simp
  then have "dir_links (img\<lparr>bytes := bs\<rparr>) 18 1 ps" by (rule dir_links_agree [OF links])
  then show ?thesis using dir free unfolding directory_ok_def img2 by (simp (no_asm_use)) blast
qed

text \<open>Everything a successful write of a new file establishes.\<close>

lemma write_new_file:
  assumes ok: "image_ok img" and dir: "directory_ok img ps" and name: "d64_normalize_name name = Inr (norm, len, False)"
    and w: "d64_image_write_prg mem (Some name) (Some data) False (Some img) = (D64_OK, Some img')"
  obtains chain ps' where "image_ok img'" "directory_ok img' ps'" "chain_holds img' chain data" "distinct chain"
    "chain \<noteq> []" "2 \<le> length data" "prg_entry norm (fst (hd chain), snd (hd chain), word_of_nat (length chain)) \<in> set (entries img')"
    "\<And>t s q. sector_at img t s q \<Longrightarrow> \<not> d64_bam_sector_free img t s \<Longrightarrow> q \<noteq> 91392 \<Longrightarrow> q \<notin> set ps \<Longrightarrow>
       agree_at (bytes img) (bytes img') q"
    "\<exists>bs i n es. img' = img\<lparr>bytes := bs, info := i, entry_capacity := n, entries := es\<rparr>"
proof -
  obtain fl img2 slot img3 where st: "d64_write_file_chain mem data img = (Inr fl, img2)"
    "d64_find_free_directory_slot img2 = (Inr slot, img3)" "d64_reparse mem (fill_directory_slot norm fl slot img3) = (D64_OK, img')"
    by (rule write_prg_stages [OF name w])
  obtain t s blocks where fl: "fl = (t, s, blocks)" by (cases fl)
  obtain chain bs2 where c: "img2 = img\<lparr>bytes := bs2\<rparr>" "chain_holds img2 chain data" "distinct chain" "hd chain = (t, s)"
    "chain \<noteq> []" "2 \<le> length data" "blocks = word_of_nat (length chain)"
    "\<forall>(t, s) \<in> set chain. d64_bam_sector_free img t s \<and> t \<noteq> 18 \<and> dos_sector t s"
    "\<And>q. 256 dvd q \<Longrightarrow> q \<noteq> 91392 \<Longrightarrow> \<forall>(t, s) \<in> set chain. \<not> sector_at img t s q \<Longrightarrow> agree_at (bytes img) bs2 q"
    "\<And>t s. d64_bam_sector_free img2 t s \<longleftrightarrow> d64_bam_sector_free img t s \<and> (t, s) \<notin> set chain"
    by (rule write_file_chain_ok [OF ok st(1) [unfolded fl]]) (rule that; assumption)
  have kept: "agree_at (bytes img) bs2 q" if "sector_at img t s q" "\<not> d64_bam_sector_free img t s" "q \<noteq> 91392" for t s q
    using that c(8) sector_at_unique [OF ok that(1)] by (intro c(9) sector_at_bounds(1) [OF ok that(1)]) fastforce+
  have ok2: "image_ok img2" and at2: "sector_at img2 = sector_at img" using ok c(1) by simp_all
  have dir2: "directory_ok img2 ps" by (rule directory_after_chain [OF ok dir c(1) kept]) (simp_all add: c(10))
  obtain ps' bs i n es where e: "img' = img2\<lparr>bytes := bs, info := i, entry_capacity := n, entries := es\<rparr>" "directory_ok img' ps'"
    "prg_entry norm (t, s, blocks) \<in> set es"
    "\<And>t s q. sector_at img2 t s q \<Longrightarrow> t \<noteq> 18 \<or> \<not> d64_bam_sector_free img2 t s \<Longrightarrow> q \<noteq> 91392 \<Longrightarrow> q \<notin> set ps \<Longrightarrow> agree_at (bytes img2) bs q"
    "\<And>t s. d64_bam_sector_free img' t s \<Longrightarrow> d64_bam_sector_free img2 t s"
    by (rule add_entry [OF ok2 dir2 st(2) st(3) [unfolded fl] normalized_length [OF name, THEN conjunct1]]) (rule that; assumption)
  have "chain_holds (img2\<lparr>bytes := bs\<rparr>) chain data"
  proof (rule chain_holds_agree [OF c(2)])
    fix t s q assume ts: "(t, s) \<in> set chain" "sector_at img2 t s q"
    then have t: "t \<noteq> 18" "d64_bam_sector_free img t s" using c(8) by auto
    have "q \<notin> set ps" using t(2) ts dir at2 unfolding directory_ok_def by metis
    moreover have "q \<noteq> 91392" using t(1) ts at2 sector_at_unique [OF ok bam_sector [OF ok]] by metis
    ultimately show "agree_at (bytes img2) bs q" using e(4) ts t(1) by blast
  qed
  then have "chain_holds img' chain data" by (simp add: e(1))
  moreover have "agree_at (bytes img) (bytes img') q"
    if "sector_at img t s q" "\<not> d64_bam_sector_free img t s" "q \<noteq> 91392" "q \<notin> set ps" for t s q
  proof -
    have "agree_at bs2 bs q" using e(4) [of t s q] that at2 c(10) by (auto simp: c(1))
    then show ?thesis using agree_at_trans [OF kept [OF that(1-3)]] by (simp add: e(1))
  qed
  ultimately show ?thesis
    by (intro that [of ps' chain]) (use ok2 e c in auto)
qed

text \<open>With enough memory a sound directory is always parsed.\<close>

lemma parse_slots_total: "\<forall>a. mem a \<Longrightarrow> \<exists>img'. parse_slots mem p slots img = (D64_OK, img')"
  by (induction slots arbitrary: img) (auto simp: d64_parse_directory_slot_def d64_append_directory_entry_def Let_def)

lemma parse_directory_total:
  assumes "\<forall>a. mem a" "image_ok img" "dir_links img t s ps" "distinct ps" "visited \<inter> (\<lambda>p. p div 256) ` set ps = {}"
  shows "\<exists>img'. parse_directory_from mem t s visited img = (D64_OK, img')"
  using assms(2-)
proof (induction ps arbitrary: t s visited img)
  case Nil
  then show ?case by (subst parse_directory_from.simps) simp
next
  case (Cons p ps)
  have p: "t \<noteq> 0" "d64_image_sector_offset img t s = Inr p" "p div 256 < 802" "p div 256 \<notin> visited"
    using Cons.prems sector_at_bounds(4) [OF Cons.prems(1)] by (auto simp: sector_at_def)
  obtain img1 where a: "parse_slots mem p [0..<8] img = (D64_OK, img1)" using parse_slots_total [OF assms(1)] by metis
  from parse_slots_ok [OF a] obtain n es where n: "img1 = img\<lparr>entry_capacity := n, entries := es\<rparr>" by blast
  have dvd: "256 dvd q" if "q \<in> set (p # ps)" for q
    using that dir_links_sectors [OF Cons.prems(1,2)] sector_at_bounds(1) [OF Cons.prems(1)] by blast
  have "p = q" if "q \<in> set ps" "p div 256 = q div 256" for q
    using dvd [of p] dvd [of q] that by (metis dvd_div_mult_self list.set_intros)
  then have "insert (p div 256) visited \<inter> (\<lambda>p. p div 256) ` set ps = {}" using Cons.prems(3,4) by auto
  with Cons.IH [of img1 "bytes img1 p" "bytes img1 (p + 1)" "insert (p div 256) visited"] Cons.prems n
  obtain img' where "parse_directory_from mem (bytes img1 p) (bytes img1 (p + 1)) (insert (p div 256) visited) img1 = (D64_OK, img')"
    by auto
  then show ?case using a p by (subst parse_directory_from.simps) simp
qed

lemma reparse_total:
  assumes "\<forall>a. mem a" "image_ok img" "dir_links img 18 1 ps" "distinct ps"
  shows "\<exists>img'. d64_reparse mem img = (D64_OK, img')"
proof -
  have "\<exists>i. d64_parse_disk_info img1 = img1\<lparr>info := i\<rparr>" for img1
    by (auto simp: d64_parse_disk_info_def Let_def split: sum.split)
  then obtain i where i: "d64_parse_disk_info (d64_clear_directory_cache img) = (d64_clear_directory_cache img)\<lparr>info := i\<rparr>"
    by blast
  have "\<exists>img'. parse_directory_from mem 18 1 {} ((d64_clear_directory_cache img)\<lparr>info := i\<rparr>) = (D64_OK, img')"
    by (rule parse_directory_total [OF assms(1), where ps = ps]) (use assms in \<open>simp_all add: d64_clear_directory_cache_def\<close>)
  then show ?thesis by (auto simp: d64_reparse_def d64_parse_directory_def i)
qed

text \<open>
  C19. Write, then read: on an image whose directory is sound, when \<^verbatim>\<open>d64_image_write_prg\<close> reports that a
  new file was stored, the directory of the image lists a program under the normalised name, with the number
  of blocks the data needs, and extracting that program returns exactly the bytes that were written.
\<close>

theorem d64_write_then_extract:
  assumes "image_ok img" "directory_ok img ps" "\<forall>n. mem (File_Bytes n)"
    "d64_normalize_name name = Inr (norm, len, False)"
    "d64_image_write_prg mem (Some name) (Some data) False (Some img) = (D64_OK, Some img')"
  shows "\<exists>entry \<in> set (entries img'). filename entry = norm \<and> entry_type entry = D64_FILE_PRG \<and>
    block_count entry = word_of_nat ((length data + 253) div 254) \<and>
    d64_image_extract_prg mem (Some img') (Some entry) = Inr data"
proof -
  obtain chain ps' where c: "image_ok img'" "chain_holds img' chain data" "distinct chain" "chain \<noteq> []" "2 \<le> length data"
    "prg_entry norm (fst (hd chain), snd (hd chain), word_of_nat (length chain)) \<in> set (entries img')"
    by (rule write_new_file [OF assms(1,2,4,5)]) (rule that; assumption)
  let ?e = "prg_entry norm (fst (hd chain), snd (hd chain), word_of_nat (length chain))"
  have t: "fst (hd chain) \<noteq> 0"
    using c(1,2,4) sector_track_nonzero by (cases "(img', chain, data)" rule: chain_holds.cases) auto
  from extract_chain [OF c(1) assms(3) c(2,3) t, of "{}" "[]"]
  have "d64_image_extract_prg mem (Some img') (Some ?e) = Inr data"
    using c(5) t by (simp add: d64_image_extract_prg_def prg_entry_def)
  then show ?thesis using c(6) by (intro bexI [of _ ?e]) (simp_all add: prg_entry_def chain_holds_length [OF c(2)])
qed

text \<open>
  C20. Storing a file disturbs nothing else: the directory stays sound, and every program whose sectors
  were allocated outside the directory and the BAM can still be extracted with the same bytes.
\<close>

theorem d64_write_keeps_files:
  assumes "image_ok img" "directory_ok img ps" "\<forall>n. mem (File_Bytes n)"
    "d64_normalize_name name = Inr (norm, len, False)"
    "d64_image_write_prg mem (Some name) (Some data) False (Some img) = (D64_OK, Some img')"
    "chain_holds img chain old" "distinct chain" "first_track entry = fst (hd chain)" "first_sector entry = snd (hd chain)"
    "entry_type entry = D64_FILE_PRG" "2 \<le> length old"
    "\<forall>(t, s) \<in> set chain. \<not> d64_bam_sector_free img t s \<and> (\<forall>q. sector_at img t s q \<longrightarrow> q \<notin> set ps \<and> q \<noteq> 91392)"
  shows "(\<exists>ps'. directory_ok img' ps') \<and> d64_image_extract_prg mem (Some img) (Some entry) = Inr old \<and>
    d64_image_extract_prg mem (Some img') (Some entry) = Inr old"
proof -
  obtain ps' where w: "image_ok img'" "directory_ok img' ps'"
    "\<And>t s q. sector_at img t s q \<Longrightarrow> \<not> d64_bam_sector_free img t s \<Longrightarrow> q \<noteq> 91392 \<Longrightarrow> q \<notin> set ps \<Longrightarrow>
       agree_at (bytes img) (bytes img') q"
    "\<exists>bs i n es. img' = img\<lparr>bytes := bs, info := i, entry_capacity := n, entries := es\<rparr>"
    by (rule write_new_file [OF assms(1,2,4,5)]) (rule that; assumption)
  obtain bs i n es where img': "img' = img\<lparr>bytes := bs, info := i, entry_capacity := n, entries := es\<rparr>" using w(4) by blast
  have "chain_holds (img\<lparr>bytes := bs\<rparr>) chain old"
    by (rule chain_holds_agree [OF assms(6)]) (use w(3) assms(12) img' in fastforce)
  then have kept: "chain_holds img' chain old" by (simp add: img')
  have ne: "chain \<noteq> []" using assms(6) by auto
  have t: "fst (hd chain) \<noteq> 0"
    using assms(1,6) ne sector_track_nonzero by (cases "(img, chain, old)" rule: chain_holds.cases) auto
  show ?thesis
    using w(2) extract_chain [OF w(1) assms(3) kept assms(7) t, of "{}" "[]"]
      extract_chain [OF assms(1,3,6,7) t, of "{}" "[]"] assms(8-11) t
    by (auto simp: d64_image_extract_prg_def)
qed

subsection \<open>A small disk\<close>

text \<open>
  Track 1 is free, the directory is empty, and the first sector of track 2 holds a program of two
  bytes.
\<close>

definition formatted :: "nat \<Rightarrow> u8" where
  "formatted = (\<lambda>_. 0)(5377 := 3, 5378 := 7, 5379 := 9, 91396 := 21, 91397 := 0xFF, 91398 := 0xFF, 91399 := 0x1F, 91649 := 0xFF)"

abbreviation (input) formatted_disk :: d64_image where
  "formatted_disk \<equiv> blank_image formatted"

lemma directory_sector: "sector_at (blank_image bs) 18 1 91648"
  using sector_at_iff [OF blank_image_ok, of bs 18 1 91648]
  by (simp add: blank_image_def blank_geometry_def tracks_offset_numeral d64_spt_def)

lemma formatted_directory_taken: "\<not> d64_bam_sector_free formatted_disk 18 s"
proof (cases "dos_sector 18 s")
  case True
  have "91464 < bam_byte 18 s" "bam_byte 18 s < 91468" using dos_sector_small(2) [OF True] by (simp_all add: bam_byte_def)
  then have "formatted (bam_byte 18 s) = 0" by (simp add: formatted_def)
  then show ?thesis by (simp add: sector_free_iff [OF blank_image_ok]) (simp add: blank_image_def)
qed (simp add: sector_free_iff [OF blank_image_ok])

lemma formatted_directory: "directory_ok formatted_disk [91648]"
proof -
  have "dir_links formatted_disk 18 1 [91648]"
    using directory_sector [of formatted] by (simp add: blank_image_def formatted_def)
  moreover have "\<not> d64_bam_sector_free formatted_disk t s" if "sector_at formatted_disk t s 91648" for t s
    using sector_at_unique [OF blank_image_ok directory_sector that] formatted_directory_taken by simp
  ultimately show ?thesis by (simp add: directory_ok_def formatted_directory_taken)
qed

lemma formatted_name: "d64_normalize_name [0x41] = Inr (0x41 # replicate 15 0xA0, 1, False)"
  by (simp add: d64_normalize_name_def strip_quotes.simps d64_ascii_to_petscii_def word_le_nat_alt)

lemma directory_index: "d64_sector_index (blank_image bs) 18 1 = Some 358" "d64_sector_ptr (blank_image bs) 18 1 = Some 91648"
  using directory_sector [of bs] by (simp_all add: d64_sector_index_def d64_sector_ptr_def sector_at_def)

lemma formatted_no_file: "d64_find_directory_slot formatted_disk [0x41] = Inl D64_FILE_NOT_FOUND"
proof -
  have "find (slot_named formatted [0x41]) (map (\<lambda>slot. 91648 + slot * 32) [0..<8]) = None"
    by (auto simp: find_None_iff slot_named_def formatted_def)
  then show ?thesis unfolding d64_find_directory_slot_def
    by (subst find_slot_from.simps, simp add: directory_index, subst find_slot_from.simps)
      (simp add: blank_image_def formatted_def)
qed

definition first_written :: "nat \<Rightarrow> u8" where
  "first_written = filled 0 (0, 4) [1, 2, 3] (marked 1 0 False formatted)"

lemma first_sector: "sector_at (blank_image bs) 1 0 0" "dos_sector 1 0"
  using sector_at_iff [OF blank_image_ok, of bs 1 0 0]
  by (simp_all add: blank_image_def blank_geometry_def d64_spt_def dos_sector_def)

lemma formatted_alloc:
  "d64_alloc_sector 1 0 False formatted_disk = (Inr (1, 0), blank_image (marked 1 0 False formatted))"
proof -
  have free: "d64_bam_sector_free formatted_disk 1 0"
    using first_sector by (simp add: sector_free_iff [OF blank_image_ok] bam_byte_def) (simp add: blank_image_def formatted_def)
  have "d64_sectors_per_track 1 = 21" by (simp add: d64_sectors_per_track_def d64_spt_def)
  moreover have "[0..<21] = 0 # [1..<21]" by (simp add: upt_conv_Cons)
  ultimately have nxt: "d64_find_next_free_on_track formatted_disk 1 0 = Inr 0"
    using free by (simp add: d64_find_next_free_on_track_def)
  have "pass_tracks 1 = 1 # map (\<lambda>offset. word_of_nat (offset mod 35 + 1)) [1..<35]"
    by (simp add: pass_tracks_def upt_conv_Cons)
  then show ?thesis
    using nxt mark_sector_eq [OF blank_image_ok [of formatted] first_sector(2), of False]
    by (simp add: d64_alloc_sector_def) (simp add: blank_image_def)
qed

lemma formatted_chain:
  "d64_write_file_chain (\<lambda>_. True) [1, 2, 3] formatted_disk = (Inr (1, 0, 1), blank_image first_written)"
  using formatted_alloc fill_blocks_Cons [OF first_sector(1), of "[]" "[1, 2, 3]" "marked 1 0 False formatted"]
  by (simp add: d64_write_file_chain_def first_written_def) (simp add: blank_image_def)

lemma first_written_directory:
  assumes "91648 \<le> i"
  shows "first_written i = formatted i"
proof -
  have "within_sector 91392 formatted (marked 1 0 False formatted)" by (rule marked_within [OF first_sector(2)])
  then have "marked 1 0 False formatted i = formatted i" using assms unfolding within_sector_def by force
  moreover have "within_sector 0 (marked 1 0 False formatted) first_written"
    unfolding first_written_def by (rule filled_bytes(4)) simp
  then have "first_written i = marked 1 0 False formatted i" using assms unfolding within_sector_def by force
  ultimately show ?thesis by simp
qed

lemma formatted_slot: "d64_find_free_directory_slot (blank_image first_written) = (Inr 91648, blank_image first_written)"
proof -
  have "slot_unused first_written 91648" by (simp add: slot_unused_def first_written_directory formatted_def)
  then have "find (slot_unused (bytes (blank_image first_written))) (map (\<lambda>slot. 91648 + slot * 32) [0..<8]) = Some 91648"
    by (simp add: upt_conv_Cons blank_image_def)
  then have "free_slot_from (blank_image first_written) 18 1 {} None = Inr (Inl 91648)"
    by (subst free_slot_from.simps) (simp add: directory_index)
  then show ?thesis by (simp add: d64_find_free_directory_slot_def)
qed

lemma formatted_write:
  "\<exists>img'. d64_image_write_prg (\<lambda>_. True) (Some [0x41]) (Some [1, 2, 3]) False (Some formatted_disk) = (D64_OK, Some img')"
proof -
  let ?name = "0x41 # replicate 15 0xA0 :: u8 list"
  let ?img = "blank_image first_written"
  have at: "(256 :: nat) dvd 91648" "91648 + 256 \<le> payload_size (geom ?img)"
    by (simp_all add: blank_image_def blank_geometry_def)
  have slot: "(0 :: nat) < 8" "(91648 :: nat) = 91648 + 0 * 32" "length ?name = 16" by simp_all
  obtain bs where f: "fill_directory_slot ?name (1, 0, 1) 91648 ?img = ?img\<lparr>bytes := bs\<rparr>" "bs 91648 = bytes ?img 91648"
    by (rule fill_slot_effect [OF slot(3) at slot(1,2), where t = 1 and s = 0 and blocks = 1]) (rule that; assumption)
  have "bs 91648 = 0" using f(2) by (simp add: blank_image_def first_written_directory formatted_def)
  then have "dir_links (?img\<lparr>bytes := bs\<rparr>) 18 1 [91648]" using directory_sector [of first_written] by simp
  then have "\<exists>img'. d64_reparse (\<lambda>_. True) (?img\<lparr>bytes := bs\<rparr>) = (D64_OK, img')"
    by (intro reparse_total [where ps = "[91648]"]) (simp_all add: blank_image_ok)
  then show ?thesis
    using formatted_name formatted_no_file formatted_chain formatted_slot f(1)
    by (auto simp: d64_image_write_prg_def write_prg_body_def remove_existing_def)
qed

theorem d64_write_then_extract_witness:
  "\<exists>img'. d64_image_write_prg (\<lambda>_. True) (Some [0x41]) (Some [1, 2, 3]) False (Some formatted_disk) = (D64_OK, Some img') \<and>
     (\<exists>entry \<in> set (entries img'). d64_image_extract_prg (\<lambda>_. True) (Some img') (Some entry) = Inr [1, 2, 3])"
proof -
  obtain img' where w: "d64_image_write_prg (\<lambda>_. True) (Some [0x41]) (Some [1, 2, 3]) False (Some formatted_disk) = (D64_OK, Some img')"
    using formatted_write by blast
  from d64_write_then_extract [OF blank_image_ok formatted_directory _ formatted_name w] show ?thesis using w by auto
qed

lemma formatted_old_file:
  "chain_holds formatted_disk [(2, 0)] [7, 9]" "\<not> d64_bam_sector_free formatted_disk 2 0"
  "sector_at formatted_disk 2 0 q \<longleftrightarrow> q = 5376"
proof -
  show at: "sector_at formatted_disk 2 0 q \<longleftrightarrow> q = 5376" for q
    using sector_at_iff [OF blank_image_ok, of formatted 2 0 q]
    by (simp add: blank_image_def blank_geometry_def tracks_offset_numeral d64_spt_def)
  show "chain_holds formatted_disk [(2, 0)] [7, 9]"
    by (simp add: at) (simp add: blank_image_def formatted_def block_def upt_conv_Cons)
  show "\<not> d64_bam_sector_free formatted_disk 2 0"
    by (simp add: sector_free_iff [OF blank_image_ok] bam_byte_def) (simp add: blank_image_def formatted_def)
qed

theorem d64_write_keeps_files_witness:
  "\<exists>img'. d64_image_write_prg (\<lambda>_. True) (Some [0x41]) (Some [1, 2, 3]) False (Some formatted_disk) = (D64_OK, Some img') \<and>
     d64_image_extract_prg (\<lambda>_. True) (Some img') (Some (prg_entry [] (2, 0, 1))) = Inr [7, 9]"
proof -
  obtain img' where w: "d64_image_write_prg (\<lambda>_. True) (Some [0x41]) (Some [1, 2, 3]) False (Some formatted_disk) = (D64_OK, Some img')"
    using formatted_write by blast
  from d64_write_keeps_files [OF blank_image_ok formatted_directory _ formatted_name w formatted_old_file(1),
      of "prg_entry [] (2, 0, 1)"]
  show ?thesis using w formatted_old_file(2,3) by (simp add: prg_entry_def)
qed

end
