(* ===== verification/D64_Errors.thy ===== *)
theory D64_Errors
  imports D64_Files
begin

text \<open>
  What the error exits of the D64 library leave behind: every call that does not succeed restores the
  bytes of the image, whatever the image holds and however far the operation came.
\<close>

section \<open>The size of the image never changes\<close>

lemma mark_size: "image_size (snd (d64_bam_mark_sector t s b img)) = image_size img"
  by (simp add: d64_bam_mark_sector_def Let_def split: option.split)

lemma alloc_sector_size: "image_size (snd (d64_alloc_sector pt ps b img)) = image_size img"
  by (simp add: d64_alloc_sector_def Let_def split_beta mark_size split: option.split)

lemma alloc_blocks_size: "image_size (snd (alloc_blocks n pt ps img)) = image_size img"
proof (induction n arbitrary: pt ps img)
  case (Suc n)
  obtain r img1 where a: "d64_alloc_sector pt ps False img = (r, img1)" by (rule prod.exhaust)
  then have "image_size img1 = image_size img" using alloc_sector_size [of pt ps False img] by simp
  then show ?case using Suc a by (auto split: sum.split prod.split) (metis snd_conv)+
qed simp

lemma fill_blocks_size: "image_size (snd (fill_blocks chain data img)) = image_size img"
  by (induction chain data img rule: fill_blocks.induct) (auto simp: fill_blocks.simps(2) Let_def split: option.split prod.split)

lemma write_file_chain_size: "image_size (snd (d64_write_file_chain mem data img)) = image_size img"
proof -
  obtain r img1 where a: "alloc_blocks ((length data + 253) div 254) 1 0 img = (r, img1)" by (rule prod.exhaust)
  then have "image_size img1 = image_size img" using alloc_blocks_size by (metis snd_conv)
  then show ?thesis using fill_blocks_size unfolding d64_write_file_chain_def Let_def a
    by (simp add: split_beta split: sum.split)
qed

lemma free_chain_size: "image_size (snd (free_chain_from t s visited img)) = image_size img"
proof (induction t s visited img rule: free_chain_from.induct)
  case (1 t s visited img)
  obtain r img1 where m: "d64_bam_mark_sector t s True img = (r, img1)" by (rule prod.exhaust)
  then have "image_size img1 = image_size img" using mark_size [of t s True img] by simp
  then show ?case using 1 m by (subst free_chain_from.simps) (simp split: option.split)
qed

lemma find_free_slot_size: "image_size (snd (d64_find_free_directory_slot img)) = image_size img"
  unfolding d64_find_free_directory_slot_def Let_def
  by (auto simp: split_beta mark_size split: sum.split option.split)

lemma clear_slot_size [simp]: "image_size (d64_clear_directory_entry_slot slot img) = image_size img"
  by (simp add: d64_clear_directory_entry_slot_def)

lemma remove_existing_size: "image_size (snd (remove_existing name replace img)) = image_size img"
  using free_chain_size unfolding remove_existing_def d64_free_file_chain_def
  by (simp add: split_beta split: sum.split)

section \<open>Parsing only fills the caches\<close>

lemma parse_slots_bytes:
  "bytes (snd (parse_slots mem p slots img)) = bytes img \<and> image_size (snd (parse_slots mem p slots img)) = image_size img"
  by (induction slots arbitrary: img)
    (auto simp: split_beta Let_def d64_parse_directory_slot_def d64_append_directory_entry_def)

lemma parse_directory_bytes:
  "bytes (snd (parse_directory_from mem t s visited img)) = bytes img \<and>
   image_size (snd (parse_directory_from mem t s visited img)) = image_size img"
proof (induction mem t s visited img rule: parse_directory_from.induct)
  case (1 mem t s visited img)
  show ?case
  proof (cases "d64_image_sector_offset img t s")
    case (Inr p)
    obtain r img1 where m: "parse_slots mem p [0..<8] img = (r, img1)" by (rule prod.exhaust)
    then have "bytes img1 = bytes img" "image_size img1 = image_size img" using parse_slots_bytes [of mem p "[0..<8]" img] by simp_all
    then show ?thesis using 1 [OF _ Inr] m Inr by (simp add: parse_directory_from.simps [of mem t s])
  qed (simp add: parse_directory_from.simps [of mem t s])
qed

lemma disk_info_bytes:
  "bytes (d64_parse_disk_info img) = bytes img" "image_size (d64_parse_disk_info img) = image_size img"
  by (simp_all add: d64_parse_disk_info_def Let_def split: sum.split)

lemma reparse_bytes:
  "bytes (snd (d64_reparse mem img)) = bytes img" "image_size (snd (d64_reparse mem img)) = image_size img"
  using parse_directory_bytes [of mem 18 1 "{}" "d64_parse_disk_info (d64_clear_directory_cache img)"]
  by (simp_all add: d64_reparse_def d64_parse_directory_def split_beta disk_info_bytes d64_clear_directory_cache_def)

section \<open>Roll back\<close>

lemma fill_slot_size: "image_size (fill_directory_slot norm fl slot img) = image_size img"
  by (simp add: fill_directory_slot_def split_beta Let_def)

lemma write_body_size: "image_size (snd (write_prg_body mem norm name data replace img)) = image_size img"
proof -
  obtain r1 img1 where a: "remove_existing name replace img = (r1, img1)" by (rule prod.exhaust)
  obtain r2 img2 where b: "d64_write_file_chain mem data img1 = (r2, img2)" by (rule prod.exhaust)
  obtain r3 img3 where c: "d64_find_free_directory_slot img2 = (r3, img3)" by (rule prod.exhaust)
  have "image_size img1 = image_size img" "image_size img2 = image_size img1" "image_size img3 = image_size img2"
    using a b c remove_existing_size [of name replace img] write_file_chain_size [of mem data img1] find_free_slot_size [of img2]
    by simp_all
  then show ?thesis
    unfolding write_prg_body_def a b Let_def by (simp add: b c reparse_bytes fill_slot_size split: sum.split)
qed

lemma rollback_bytes: "i < image_size img \<Longrightarrow> bytes (d64_rollback mem backup img) i = backup i"
  by (simp add: d64_rollback_def reparse_bytes memcpy_def block_def)

lemma write_failure:
  assumes w: "d64_image_write_prg mem name data replace (Some img) = (r, Some img')" and "r \<noteq> D64_OK" "i < image_size img"
  shows "bytes img' i = bytes img i"
proof (cases name; cases data)
  fix n d assume nd: "name = Some n" "data = Some d"
  show ?thesis
  proof (cases "d64_normalize_name n")
    case (Inr x)
    obtain norm len rep where x: "x = (norm, len, rep)" by (cases x)
    obtain r1 img1 where b: "write_prg_body mem norm (take len norm) d (replace \<or> rep) img = (r1, img1)" by (rule prod.exhaust)
    then have "image_size img1 = image_size img" using write_body_size by (metis snd_conv)
    then show ?thesis using w nd Inr x b assms(2,3)
      by (auto simp: d64_image_write_prg_def rollback_bytes split: if_splits)
  qed (use w nd in \<open>simp add: d64_image_write_prg_def\<close>)
qed (use w in \<open>simp_all add: d64_image_write_prg_def\<close>)

lemma scratch_failure:
  assumes w: "d64_image_scratch mem name (Some img) = (r, Some img')" and "r \<noteq> D64_OK" "i < image_size img"
  shows "bytes img' i = bytes img i"
proof (cases name)
  case (Some n)
  show ?thesis
  proof (cases "d64_normalize_name n")
    case (Inr x)
    obtain norm len rep where x: "x = (norm, len, rep)" by (cases x)
    show ?thesis
    proof (cases "d64_find_directory_slot img (take len norm)")
      case (Inr f)
      obtain slot e where f: "f = (slot, e)" by (cases f)
      obtain r1 img1 where a: "d64_free_file_chain (first_track e) (first_sector e) img = (r1, img1)" by (rule prod.exhaust)
      obtain r2 img2 where b: "d64_reparse mem (d64_clear_directory_entry_slot slot img1) = (r2, img2)" by (rule prod.exhaust)
      have "image_size img1 = image_size img" "image_size img2 = image_size img1"
        using a b free_chain_size [of "first_track e" "first_sector e" "{}" img] reparse_bytes(2) [of mem "d64_clear_directory_entry_slot slot img1"]
        by (simp_all add: d64_free_file_chain_def)
      then show ?thesis using w Some \<open>d64_normalize_name n = Inr x\<close> x Inr f a b assms(2,3)
        by (auto simp: d64_image_scratch_def Let_def rollback_bytes split: if_splits)
    qed (use w Some Inr x in \<open>auto simp: d64_image_scratch_def split: if_splits\<close>)
  qed (use w Some in \<open>simp add: d64_image_scratch_def\<close>)
qed (use w in \<open>simp add: d64_image_scratch_def\<close>)

text \<open>
  C21. A call that fails changes nothing: when \<^verbatim>\<open>d64_image_write_prg\<close> or \<^verbatim>\<open>d64_image_scratch\<close> returns anything but
  \<^verbatim>\<open>D64_OK\<close>, for whatever reason and at whatever point of its work, every byte of the image is what it was.
\<close>

theorem d64_failure_restores_bytes:
  assumes "d64_image_write_prg mem name data replace (Some img) = (r, Some img') \<or>
    d64_image_scratch mem name (Some img) = (r, Some img')" "r \<noteq> D64_OK" "i < image_size img"
  shows "bytes img' i = bytes img i"
  using assms write_failure scratch_failure by blast

theorem d64_failure_restores_bytes_witness:
  "\<exists>img'. d64_image_write_prg (\<lambda>_. True) (Some [0x41]) (Some [1]) False (Some formatted_disk) = (D64_PRG_TOO_SHORT, Some img') \<and>
     bytes img' 5378 = 7"
proof -
  have "\<exists>img'. d64_image_write_prg (\<lambda>_. True) (Some [0x41]) (Some [1]) False (Some formatted_disk) = (D64_PRG_TOO_SHORT, Some img')"
    using formatted_name formatted_no_file
    by (simp add: d64_image_write_prg_def write_prg_body_def remove_existing_def d64_write_file_chain_def)
  then obtain img' where w: "d64_image_write_prg (\<lambda>_. True) (Some [0x41]) (Some [1]) False (Some formatted_disk) = (D64_PRG_TOO_SHORT, Some img')"
    by blast
  have "bytes img' 5378 = bytes formatted_disk 5378"
    by (rule d64_failure_restores_bytes [OF disjI1 [OF w]]) (simp_all add: blank_image_def)
  then show ?thesis using w by (simp add: blank_image_def formatted_def)
qed

end
