(* ===== verification/D64_Directory.thy ===== *)
theory D64_Directory
  imports D64_Files
begin

text \<open>
  Reading the directory of any D64 image, sound or not: the walk along the links of \<^verbatim>\<open>d64_parse_directory\<close>
  always ends, and what it returns is decided by the links alone.
\<close>

text \<open>The links lead from \<open>(t, s)\<close> over the sectors at \<open>ps\<close> to \<open>(t', s')\<close>.\<close>

primrec dir_path :: "d64_image \<Rightarrow> u8 \<Rightarrow> u8 \<Rightarrow> nat list \<Rightarrow> u8 \<Rightarrow> u8 \<Rightarrow> bool" where
  "dir_path img t s [] t' s' = (t' = t \<and> s' = s)"
| "dir_path img t s (p # ps) t' s' =
     (t \<noteq> 0 \<and> sector_at img t s p \<and> dir_path img (bytes img p) (bytes img (p + 1)) ps t' s')"

text \<open>What the end of the links means.\<close>

definition dir_end :: "d64_image \<Rightarrow> u8 \<Rightarrow> u8 \<Rightarrow> d64_result" where
  "dir_end img t s =
     (if t = 0 then D64_OK
      else case d64_image_sector_offset img t s of
             Inl _ \<Rightarrow> D64_MALFORMED_DIRECTORY | Inr _ \<Rightarrow> D64_DIRECTORY_CHAIN_LOOP)"

lemma sector_offset_cache [simp]:
  "d64_image_sector_offset (img\<lparr>entries := es\<rparr>) = d64_image_sector_offset img"
  "d64_image_sector_offset (img\<lparr>entry_capacity := n\<rparr>) = d64_image_sector_offset img"
  by (intro ext; simp add: d64_image_sector_offset_def split: sum.split)+

lemma dir_path_cache [simp]:
  "dir_path (img\<lparr>entries := es\<rparr>) t s ps t' s' = dir_path img t s ps t' s'"
  "dir_path (img\<lparr>entry_capacity := n\<rparr>) t s ps t' s' = dir_path img t s ps t' s'"
  by (induction ps arbitrary: t s) auto

lemma dir_end_cache [simp]:
  "dir_end (img\<lparr>entries := es\<rparr>) t s = dir_end img t s" "dir_end (img\<lparr>entry_capacity := n\<rparr>) t s = dir_end img t s"
  by (simp_all add: dir_end_def)

lemma malformed: "d64_image_sector_offset img t s = Inl e \<Longrightarrow> malformed_as D64_MALFORMED_DIRECTORY e = D64_MALFORMED_DIRECTORY"
  by (auto simp: d64_image_sector_offset_def d64_track_sector_offset_def malformed_as_def split: sum.splits if_splits)

lemma parse_walk:
  assumes "\<forall>a. mem a" "image_ok img"
  shows "\<exists>ps t' s' n. dir_path img t s ps t' s' \<and> distinct (map (\<lambda>p. p div 256) ps) \<and>
     (\<lambda>p. p div 256) ` set ps \<inter> visited = {} \<and> (\<lambda>p. p div 256) ` set ps \<subseteq> {..<802} \<and>
     (\<forall>p. t' \<noteq> 0 \<longrightarrow> d64_image_sector_offset img t' s' = Inr p \<longrightarrow> p div 256 \<in> visited \<union> (\<lambda>p. p div 256) ` set ps) \<and>
     parse_directory_from mem t s visited img =
       (dir_end img t' s', img\<lparr>entry_capacity := n, entries := entries img @ concat (map (slot_entries (bytes img)) ps)\<rparr>)"
  using assms
proof (induction mem t s visited img rule: parse_directory_from.induct)
  case (1 mem t s visited img)
  have none: ?case if "parse_directory_from mem t s visited img = (dir_end img t s, img)"
     "\<And>p. t \<noteq> 0 \<Longrightarrow> d64_image_sector_offset img t s = Inr p \<Longrightarrow> p div 256 \<in> visited"
    using that by (intro exI [of _ "[]"] exI [of _ t] exI [of _ s] exI [of _ "entry_capacity img"]) auto
  show ?case
  proof (cases "t = 0")
    case True
    then show ?thesis by (intro none) (simp_all add: dir_end_def parse_directory_from.simps)
  next
    case t: False
    show ?thesis
    proof (cases "d64_image_sector_offset img t s")
      case (Inl e)
      then show ?thesis using t malformed [OF Inl]
        by (intro none) (simp_all add: dir_end_def parse_directory_from.simps)
    next
      case (Inr p)
      then have at: "sector_at img t s p" using t by (simp add: sector_at_def)
      have p: "p div 256 < 802" by (rule sector_at_bounds(4) [OF 1(3) at])
      show ?thesis
      proof (cases "p div 256 \<in> visited")
        case True
        then show ?thesis using t Inr p by (intro none) (simp_all add: dir_end_def parse_directory_from.simps)
      next
        case new: False
        obtain img1 where a: "parse_slots mem p [0..<8] img = (D64_OK, img1)" using parse_slots_total [OF 1(2)] by metis
        from parse_slots_ok [OF a] obtain n where n: "img1 = img\<lparr>entry_capacity := n, entries := entries img @ slot_entries (bytes img) p\<rparr>"
          by (auto simp: slot_entries_def sector_slots_def)
        define v where "v = insert (p div 256) visited"
        have ok: "image_ok img1" using 1(3) n by (simp add: image_ok_def)
        have step: "parse_directory_from mem t s visited img = parse_directory_from mem (bytes img p) (bytes img (p + 1)) v img1"
          using t Inr p new a n by (subst parse_directory_from.simps) (simp add: v_def)
        have "\<exists>ps t' s' n'. dir_path img1 (bytes img1 p) (bytes img1 (p + 1)) ps t' s' \<and> distinct (map (\<lambda>p. p div 256) ps) \<and>
           (\<lambda>p. p div 256) ` set ps \<inter> v = {} \<and> (\<lambda>p. p div 256) ` set ps \<subseteq> {..<802} \<and>
           (\<forall>q. t' \<noteq> 0 \<longrightarrow> d64_image_sector_offset img1 t' s' = Inr q \<longrightarrow> q div 256 \<in> v \<union> (\<lambda>p. p div 256) ` set ps) \<and>
           parse_directory_from mem (bytes img1 p) (bytes img1 (p + 1)) v img1 =
             (dir_end img1 t' s', img1\<lparr>entry_capacity := n', entries := entries img1 @ concat (map (slot_entries (bytes img1)) ps)\<rparr>)"
          unfolding v_def by (rule 1(1) [OF t Inr _ new a [symmetric]]) (use p ok 1(2) in simp_all)
        then obtain ps t' s' n' where w: "dir_path img (bytes img p) (bytes img (p + 1)) ps t' s'" "distinct (map (\<lambda>p. p div 256) ps)"
          "(\<lambda>p. p div 256) ` set ps \<inter> v = {}" "(\<lambda>p. p div 256) ` set ps \<subseteq> {..<802}"
          "\<forall>q. t' \<noteq> 0 \<longrightarrow> d64_image_sector_offset img t' s' = Inr q \<longrightarrow> q div 256 \<in> v \<union> (\<lambda>p. p div 256) ` set ps"
          "parse_directory_from mem (bytes img p) (bytes img (p + 1)) v img1 =
             (dir_end img t' s', img\<lparr>entry_capacity := n', entries := entries img @ slot_entries (bytes img) p @ concat (map (slot_entries (bytes img)) ps)\<rparr>)"
          using n by auto
        show ?thesis
        proof (intro exI conjI)
          show "dir_path img t s (p # ps) t' s'" using t at w(1) by simp
          show "distinct (map (\<lambda>p. p div 256) (p # ps))" using w(2,3) by (auto simp: v_def)
          show "(\<lambda>p. p div 256) ` set (p # ps) \<inter> visited = {}" using w(3) new by (auto simp: v_def)
          show "(\<lambda>p. p div 256) ` set (p # ps) \<subseteq> {..<802}" using w(4) p by simp
          show "\<forall>q. t' \<noteq> 0 \<longrightarrow> d64_image_sector_offset img t' s' = Inr q \<longrightarrow>
              q div 256 \<in> visited \<union> (\<lambda>p. p div 256) ` set (p # ps)" using w(5) by (auto simp: v_def)
          show "parse_directory_from mem t s visited img = (dir_end img t' s',
              img\<lparr>entry_capacity := n', entries := entries img @ concat (map (slot_entries (bytes img)) (p # ps))\<rparr>)"
            using step w(6) by simp
        qed
      qed
    qed
  qed
qed

lemma path_sectors: "dir_path img t s ps t' s' \<Longrightarrow> p \<in> set ps \<Longrightarrow> \<exists>t s. sector_at img t s p"
  by (induction ps arbitrary: t s) auto

text \<open>
  C37. On every image of a supported size, whatever its bytes, reading the directory ends: with enough memory it
  has passed at most 802 different sectors, has appended the entries of exactly these, and reports success if
  the links ended on track 0, a malformed directory if they left the disk, and a loop if they came back to a sector
  already passed.
\<close>

theorem d64_directory_walk_ends:
  assumes "image_ok img" "\<forall>a. mem a"
  shows "\<exists>ps t s img'. dir_path img 18 1 ps t s \<and> distinct ps \<and> length ps \<le> 802 \<and>
    d64_parse_directory mem img = (dir_end img t s, img') \<and>
    entries img' = entries img @ concat (map (slot_entries (bytes img)) ps) \<and> bytes img' = bytes img \<and>
    (dir_end img t s = D64_DIRECTORY_CHAIN_LOOP \<longrightarrow> (\<exists>p \<in> set ps. d64_image_sector_offset img t s = Inr p))"
proof -
  obtain ps t s n where w: "dir_path img 18 1 ps t s" "distinct (map (\<lambda>p. p div 256) ps)"
    "(\<lambda>p. p div 256) ` set ps \<subseteq> {..<802}"
    "\<forall>p. t \<noteq> 0 \<longrightarrow> d64_image_sector_offset img t s = Inr p \<longrightarrow> p div 256 \<in> (\<lambda>p. p div 256) ` set ps"
    "parse_directory_from mem 18 1 {} img =
       (dir_end img t s, img\<lparr>entry_capacity := n, entries := entries img @ concat (map (slot_entries (bytes img)) ps)\<rparr>)"
    using parse_walk [OF assms(2,1), of 18 1 "{}"] by auto
  have "length ps = card ((\<lambda>p. p div 256) ` set ps)" using distinct_card [OF w(2)] by simp
  also have "\<dots> \<le> card {..<802 :: nat}" by (rule card_mono [OF _ w(3)]) simp
  finally have l: "length ps \<le> 802" by simp
  have d: "distinct ps" using w(2) by (simp add: distinct_map)
  have "\<exists>p \<in> set ps. d64_image_sector_offset img t s = Inr p" if e: "dir_end img t s = D64_DIRECTORY_CHAIN_LOOP"
  proof -
    obtain q where q: "t \<noteq> 0" "d64_image_sector_offset img t s = Inr q"
      using e by (auto simp: dir_end_def split: if_splits sum.splits)
    then obtain p where p: "p \<in> set ps" "q div 256 = p div 256" using w(4) by auto
    have "256 dvd q" "256 dvd p"
      using q path_sectors [OF w(1) p(1)] sector_at_bounds(1) [OF assms(1)] by (auto simp: sector_at_def)
    then have "q = p" using p(2) by (metis dvd_div_mult_self)
    then show ?thesis using p(1) q(2) by auto
  qed
  then show ?thesis
    by (intro exI [of _ ps] exI [of _ t] exI [of _ s] exI [of _ "img\<lparr>entry_capacity := n,
          entries := entries img @ concat (map (slot_entries (bytes img)) ps)\<rparr>"])
      (simp add: w(1,5) d l d64_parse_directory_def)
qed

text \<open>A disk whose directory sector links to itself.\<close>

definition looping_disk :: d64_image where
  "looping_disk = blank_image (formatted(91648 := 18, 91649 := 1))"

lemma looping_sector: "sector_at looping_disk 18 1 91648" "bytes looping_disk 91648 = 18" "bytes looping_disk 91649 = 1"
  using directory_sector by (simp_all add: looping_disk_def blank_image_def)

lemma looping_path: "dir_path looping_disk 18 1 ps t s \<Longrightarrow> t = 18 \<and> s = 1"
proof (induction ps)
  case (Cons p ps)
  then have "p = 91648" using looping_sector(1) by (simp add: sector_at_def)
  with Cons show ?case using looping_sector by simp
qed simp

theorem d64_directory_walk_ends_witness:
  "\<exists>img'. d64_parse_directory (\<lambda>_. True) looping_disk = (D64_DIRECTORY_CHAIN_LOOP, img')"
proof -
  have "image_ok looping_disk" unfolding looping_disk_def by (rule blank_image_ok)
  from d64_directory_walk_ends [OF this, of "\<lambda>_. True"] obtain ps t s img' where
    w: "dir_path looping_disk 18 1 ps t s" "d64_parse_directory (\<lambda>_. True) looping_disk = (dir_end looping_disk t s, img')"
    by auto
  have "dir_end looping_disk 18 1 = D64_DIRECTORY_CHAIN_LOOP"
    using looping_sector(1) by (simp add: dir_end_def sector_at_def)
  then show ?thesis using w looping_path [OF w(1)] by auto
qed

end
