(* ===== verification/C1541_Gcr.thy ===== *)
theory C1541_Gcr
  imports D64_Image
begin

text \<open>
  Group coded recording of the 1541, \<^verbatim>\<open>src/src/c64/machine/c1541_gcr.c\<close>: nibbles become five-bit codes, and
  the framing of sector headers and data blocks. The shift register keeps its 32 bits; the output
  buffers are the lists of the bytes written so far, whose length is the index \<^verbatim>\<open>di\<close>.
\<close>

section \<open>Operations\<close>

definition gcr_encode_tab :: "u8 list" where
  "gcr_encode_tab =
     [0x0A, 0x0B, 0x12, 0x13, 0x0E, 0x0F, 0x16, 0x17,
      0x09, 0x19, 0x1A, 0x1B, 0x0D, 0x1D, 0x1E, 0x15]"

definition gcr_decode_tab :: "u8 list" where
  "gcr_decode_tab =
     [0xFF, 0xFF, 0xFF, 0xFF, 0xFF, 0xFF, 0xFF, 0xFF,
      0xFF, 0x08, 0x00, 0x01, 0xFF, 0x0C, 0x04, 0x05,
      0xFF, 0xFF, 0x02, 0x03, 0xFF, 0x0F, 0x06, 0x07,
      0xFF, 0x09, 0x0A, 0x0B, 0xFF, 0x0D, 0x0E, 0xFF]"

text \<open>The loop that empties the register of complete bytes.\<close>

fun emit_bytes :: "u32 \<Rightarrow> nat \<Rightarrow> u8 list \<Rightarrow> nat \<times> u8 list" where
  "emit_bytes shift bits dst =
     (if 8 \<le> bits then emit_bytes shift (bits - 8) (dst @ [ucast (drop_bit (bits - 8) shift AND 0xFF)])
      else (bits, dst))"

declare emit_bytes.simps [simp del]

definition put_code :: "u8 \<Rightarrow> u32 \<times> nat \<times> u8 list \<Rightarrow> u32 \<times> nat \<times> u8 list" where
  "put_code code st =
     (case st of (shift, bits, dst) \<Rightarrow>
        (let shift = push_bit 5 shift OR ucast code; bits = bits + 5 in (shift, emit_bytes shift bits dst)))"

definition encode_byte :: "u32 \<times> nat \<times> u8 list \<Rightarrow> u8 \<Rightarrow> u32 \<times> nat \<times> u8 list" where
  "encode_byte st b =
     (let hi = gcr_encode_tab ! unat (drop_bit 4 b); lo = gcr_encode_tab ! unat (b AND 0x0F)
      in put_code lo (put_code hi st))"

text \<open>The bytes written; the function returns their number.\<close>

definition c1541_gcr_encode :: "u8 list \<Rightarrow> u8 list" where
  "c1541_gcr_encode src =
     (if length src mod 4 \<noteq> 0 then [] else snd (snd (foldl encode_byte (0, 0, []) src)))"

text \<open>The loop that takes complete codes from the register; \<open>Inl\<close> is the return on an invalid code.\<close>

fun take_codes :: "u32 \<Rightarrow> nat \<Rightarrow> nat \<Rightarrow> u8 \<Rightarrow> u8 list \<Rightarrow> u8 list + nat \<times> nat \<times> u8 \<times> u8 list" where
  "take_codes shift bits nybbles raw dst =
     (if 5 \<le> bits then
        (let bits = bits - 5;
             code = ucast (drop_bit bits shift AND 0x1F) :: u8;
             nib = gcr_decode_tab ! unat code
         in if nib = 0xFF then Inl dst
            else if nybbles mod 2 = 0 then take_codes shift bits (nybbles + 1) (push_bit 4 nib) dst
            else take_codes shift bits (nybbles + 1) (raw OR nib) (dst @ [raw OR nib]))
      else Inr (bits, nybbles, raw, dst))"

declare take_codes.simps [simp del]

primrec decode_bytes :: "u8 list \<Rightarrow> u32 \<Rightarrow> nat \<Rightarrow> nat \<Rightarrow> u8 \<Rightarrow> u8 list \<Rightarrow> u8 list + u8 list" where
  "decode_bytes [] shift bits nybbles raw dst = Inr dst"
| "decode_bytes (b # src) shift bits nybbles raw dst =
     (let shift = push_bit 8 shift OR ucast b
      in case take_codes shift (bits + 8) nybbles raw dst of
           Inl dst \<Rightarrow> Inl dst
         | Inr (bits, nybbles, raw, dst) \<Rightarrow> decode_bytes src shift bits nybbles raw dst)"

text \<open>The value returned and the bytes written.\<close>

definition c1541_gcr_decode :: "u8 list \<Rightarrow> nat \<times> u8 list" where
  "c1541_gcr_decode src =
     (if length src mod 5 \<noteq> 0 then (0, [])
      else case decode_bytes src 0 0 0 0 [] of Inl dst \<Rightarrow> (0, dst) | Inr dst \<Rightarrow> (length dst, dst))"

definition c1541_gcr_make_header_raw :: "u8 \<Rightarrow> u8 \<Rightarrow> u8 \<Rightarrow> u8 \<Rightarrow> u8 list" where
  "c1541_gcr_make_header_raw track sector id_lo id_hi =
     [0x08, ((sector XOR track) XOR id_lo) XOR id_hi, sector, track, id_hi, id_lo, 0x0F, 0x0F]"

definition checksum :: "u8 list \<Rightarrow> u8" where
  "checksum sector = foldl (XOR) 0 sector"

definition c1541_gcr_make_data_raw :: "u8 list \<Rightarrow> u8 list" where
  "c1541_gcr_make_data_raw sector = [0x07] @ take 256 sector @ [checksum (take 256 sector), 0x00, 0x00]"

definition c1541_gcr_data_raw_to_sector :: "u8 list \<Rightarrow> u8 list option" where
  "c1541_gcr_data_raw_to_sector raw =
     (if raw ! 0 \<noteq> 0x07 then None
      else
        (let sector = take 256 (drop 1 raw)
         in if checksum sector \<noteq> raw ! 257 then None else Some sector))"

definition c1541_gcr_sectors_per_track :: "u8 \<Rightarrow> nat" where
  "c1541_gcr_sectors_per_track track = d64_sectors_per_track track"

definition c1541_gcr_density_for_track :: "u8 \<Rightarrow> int" where
  "c1541_gcr_density_for_track track =
     (if track \<le> 17 then 3 else if track \<le> 24 then 2 else if track \<le> 30 then 1 else 0)"

definition c1541_gcr_cycles_per_byte :: "int \<Rightarrow> int" where
  "c1541_gcr_cycles_per_byte density =
     (let density = (if density < 0 \<or> 3 < density then 0 else density) in [32, 30, 28, 26] ! nat density)"

definition c1541_gcr_d64_sector_offset :: "u8 \<Rightarrow> u8 \<Rightarrow> int" where
  "c1541_gcr_d64_sector_offset track sector =
     (case d64_track_sector_offset track sector of Inl _ \<Rightarrow> - 1 | Inr offset \<Rightarrow> int offset)"

section \<open>Groups of four bytes\<close>

lemma nibble_cases: "n < 16 \<Longrightarrow> n \<in> {0, 1, 2, 3, 4, 5, 6, 7, 8, 9, 10, 11, 12, 13, 14, 15 :: nat}"
  by (auto simp: less_Suc_eq numeral_eq_Suc)

lemma tab_decode:
  assumes "n < 16"
  shows "unat (gcr_encode_tab ! n) < 32" "gcr_decode_tab ! unat (gcr_encode_tab ! n) = word_of_nat n"
  using nibble_cases [OF assms] unfolding insert_iff empty_iff
  by (elim disjE; simp add: gcr_encode_tab_def gcr_decode_tab_def)+

text \<open>A code has five bits.\<close>

definition five_bits :: "u8 \<Rightarrow> bool" where
  "five_bits c \<longleftrightarrow> \<not> bit c 5 \<and> \<not> bit c 6 \<and> \<not> bit c 7"

lemma tab_five_bits: "n < 16 \<Longrightarrow> five_bits (gcr_encode_tab ! n)"
  by (drule nibble_cases) (auto simp: gcr_encode_tab_def five_bits_def bit_simps)

text \<open>Eight codes fill five bytes.\<close>

definition pack :: "u8 \<Rightarrow> u8 \<Rightarrow> u8 \<Rightarrow> u8 \<Rightarrow> u8 \<Rightarrow> u8 \<Rightarrow> u8 \<Rightarrow> u8 \<Rightarrow> u8 list" where
  "pack a b c d e f g h =
     [push_bit 3 a OR drop_bit 2 b, push_bit 6 b OR push_bit 1 c OR drop_bit 4 d, push_bit 4 d OR drop_bit 1 e,
      push_bit 7 e OR push_bit 2 f OR drop_bit 3 g, push_bit 5 g OR h]"

lemma emit_none: "bits < 8 \<Longrightarrow> emit_bytes shift bits dst = (bits, dst)"
  by (simp add: emit_bytes.simps)

lemma emit_one: "8 \<le> bits \<Longrightarrow> bits < 16 \<Longrightarrow> emit_bytes shift bits dst = (bits - 8, dst @ [ucast (drop_bit (bits - 8) shift AND 0xFF)])"
  by (subst emit_bytes.simps) (simp add: emit_none)

lemma low_byte: "ucast (w AND 0xFF :: u32) = (ucast w :: u8)"
proof -
  have "w AND 0xFF = take_bit 8 w" by (simp add: take_bit_eq_mask mask_eq_exp_minus_1)
  then show ?thesis by (simp add: bit_eq_iff bit_simps)
qed

lemma put_group:
  assumes "five_bits a" "five_bits b" "five_bits c" "five_bits d" "five_bits e" "five_bits f" "five_bits g" "five_bits h"
  shows "\<exists>shift'. put_code h (put_code g (put_code f (put_code e (put_code d (put_code c (put_code b (put_code a (shift, 0, dst)))))))) =
    (shift', 0, dst @ pack a b c d e f g h)"
  using assms
  by (simp add: put_code_def emit_none emit_one low_byte pack_def Let_def)
    (simp add: u8_eq_bits bit_simps mult.commute [of c 2] bit_double_iff five_bits_def)

lemma take_none: "bits < 5 \<Longrightarrow> take_codes shift bits nybbles raw dst = Inr (bits, nybbles, raw, dst)"
  by (simp add: take_codes.simps)

lemma take_code:
  assumes "5 \<le> bits" "ucast (drop_bit (bits - 5) shift AND 0x1F) = (code :: u8)" "gcr_decode_tab ! unat code \<noteq> 0xFF"
  shows "take_codes shift bits nybbles raw dst =
    (if nybbles mod 2 = 0 then take_codes shift (bits - 5) (nybbles + 1) (push_bit 4 (gcr_decode_tab ! unat code)) dst
     else take_codes shift (bits - 5) (nybbles + 1) (raw OR gcr_decode_tab ! unat code) (dst @ [raw OR gcr_decode_tab ! unat code]))"
  using assms by (subst take_codes.simps) (simp add: Let_def)

lemma low_code_bits: "bit (ucast (w AND 0x1F :: u32) :: u8) n \<longleftrightarrow> n < 5 \<and> bit w n"
proof -
  have "w AND 0x1F = take_bit 5 w" by (simp add: take_bit_eq_mask mask_eq_exp_minus_1)
  then show ?thesis by (auto simp: bit_simps)
qed

text \<open>The register after each of the five bytes shows the codes in turn, whatever it held before.\<close>

definition byte_in :: "u32 \<Rightarrow> u8 \<Rightarrow> u32" where
  "byte_in shift b = push_bit 8 shift OR ucast b"

lemma bit_byte_in: "bit (byte_in shift b) n \<longleftrightarrow> n < 32 \<and> (if n < 8 then bit b n else bit shift (n - 8))"
  by (auto simp: byte_in_def bit_simps dest: bit_imp_le_length)

lemma bit_u8_high: "8 \<le> n \<Longrightarrow> \<not> bit (x :: u8) n"
  by (auto dest: bit_imp_le_length)

lemma group_codes:
  assumes "five_bits a" "five_bits b" "five_bits c" "five_bits d" "five_bits e" "five_bits f" "five_bits g" "five_bits h"
    "pack a b c d e f g h = [p, q, r, s, t]"
  shows "ucast (drop_bit 3 (byte_in shift p) AND 0x1F) = a"
    "ucast (drop_bit 6 (byte_in (byte_in shift p) q) AND 0x1F) = b" "ucast (drop_bit 1 (byte_in (byte_in shift p) q) AND 0x1F) = c"
    "ucast (drop_bit 4 (byte_in (byte_in shift q) r) AND 0x1F) = d"
    "ucast (drop_bit 7 (byte_in (byte_in shift r) s) AND 0x1F) = e" "ucast (drop_bit 2 (byte_in (byte_in shift r) s) AND 0x1F) = f"
    "ucast (drop_bit 5 (byte_in (byte_in shift s) t) AND 0x1F) = g" "ucast (drop_bit 0 (byte_in (byte_in shift s) t) AND 0x1F) = h"
proof -
  have p: "p = push_bit 3 a OR drop_bit 2 b" "q = push_bit 6 b OR push_bit 1 c OR drop_bit 4 d" "r = push_bit 4 d OR drop_bit 1 e"
    "s = push_bit 7 e OR push_bit 2 f OR drop_bit 3 g" "t = push_bit 5 g OR h"
    using assms(9) by (simp_all add: pack_def)
  show "ucast (drop_bit 3 (byte_in shift p) AND 0x1F) = a"
    "ucast (drop_bit 6 (byte_in (byte_in shift p) q) AND 0x1F) = b" "ucast (drop_bit 1 (byte_in (byte_in shift p) q) AND 0x1F) = c"
    "ucast (drop_bit 4 (byte_in (byte_in shift q) r) AND 0x1F) = d"
    "ucast (drop_bit 7 (byte_in (byte_in shift r) s) AND 0x1F) = e" "ucast (drop_bit 2 (byte_in (byte_in shift r) s) AND 0x1F) = f"
    "ucast (drop_bit 5 (byte_in (byte_in shift s) t) AND 0x1F) = g" "ucast (drop_bit 0 (byte_in (byte_in shift s) t) AND 0x1F) = h"
    using assms(1-8) unfolding u8_eq_bits low_code_bits bit_drop_bit_eq o_def p five_bits_def
    by (simp_all add: bit_byte_in bit_or_iff bit_push_bit_iff bit_drop_bit_eq bit_u8_high mult.commute [of c 2] bit_double_iff
        numeral_2_eq_2 [symmetric] numeral_3_eq_3 [symmetric])
qed

lemma decode_group:
  assumes "five_bits a" "five_bits b" "five_bits c" "five_bits d" "five_bits e" "five_bits f" "five_bits g" "five_bits h"
    and "list_all (\<lambda>x. gcr_decode_tab ! unat x \<noteq> 0xFF) [a, b, c, d, e, f, g, h]" and "nybbles mod 2 = 0"
  shows "\<exists>shift' nybbles' raw'. nybbles' mod 2 = 0 \<and> decode_bytes (pack a b c d e f g h @ src) shift 0 nybbles raw dst =
    decode_bytes src shift' 0 nybbles' raw' (dst @
      [push_bit 4 (gcr_decode_tab ! unat a) OR gcr_decode_tab ! unat b, push_bit 4 (gcr_decode_tab ! unat c) OR gcr_decode_tab ! unat d,
       push_bit 4 (gcr_decode_tab ! unat e) OR gcr_decode_tab ! unat f, push_bit 4 (gcr_decode_tab ! unat g) OR gcr_decode_tab ! unat h])"
proof -
  obtain p q r s t where pk: "pack a b c d e f g h = [p, q, r, s, t]" by (simp add: pack_def)
  note codes = group_codes [OF assms(1-8) pk]
  have n: "(nybbles + 1) mod 2 = 1" "(nybbles + 2) mod 2 = 0" "(nybbles + 3) mod 2 = 1" "(nybbles + 4) mod 2 = 0"
    "(nybbles + 5) mod 2 = 1" "(nybbles + 6) mod 2 = 0" "(nybbles + 7) mod 2 = 1" "(nybbles + 8) mod 2 = 0"
    using assms(10) by presburger+
  define s1 s2 s3 s4 s5 where "s1 = byte_in shift p" and "s2 = byte_in s1 q" and "s3 = byte_in s2 r" and "s4 = byte_in s3 s" and "s5 = byte_in s4 t"
  let ?nib = "\<lambda>x. gcr_decode_tab ! unat x"
  have ok: "?nib a \<noteq> 0xFF" "?nib b \<noteq> 0xFF" "?nib c \<noteq> 0xFF" "?nib d \<noteq> 0xFF" "?nib e \<noteq> 0xFF" "?nib f \<noteq> 0xFF" "?nib g \<noteq> 0xFF" "?nib h \<noteq> 0xFF"
    using assms(9) by simp_all
  have t1: "take_codes s1 8 nybbles raw dst = Inr (3, nybbles + 1, push_bit 4 (?nib a), dst)" for raw dst
    using take_code [of 8 s1 a nybbles raw dst] codes(1) ok assms(10) by (simp add: take_none s1_def)
  have t2: "take_codes s2 11 (nybbles + 1) raw dst = Inr (1, nybbles + 3, push_bit 4 (?nib c), dst @ [raw OR ?nib b])" for raw dst
    using take_code [of 11 s2 b "nybbles + 1" raw dst] take_code [of 6 s2 c "nybbles + 2" "raw OR ?nib b" "dst @ [raw OR ?nib b]"]
      codes(2,3) ok n by (simp add: take_none s1_def s2_def)
  have t3: "take_codes s3 9 (nybbles + 3) raw dst = Inr (4, nybbles + 4, raw OR ?nib d, dst @ [raw OR ?nib d])" for raw dst
    using take_code [of 9 s3 d "nybbles + 3" raw dst] codes(4) ok n by (simp add: take_none s2_def s3_def)
  have t4: "take_codes s4 12 (nybbles + 4) raw dst = Inr (2, nybbles + 6, push_bit 4 (?nib e) OR ?nib f, dst @ [push_bit 4 (?nib e) OR ?nib f])" for raw dst
    using take_code [of 12 s4 e "nybbles + 4" raw dst] take_code [of 7 s4 f "nybbles + 5" "push_bit 4 (?nib e)" dst]
      codes(5,6) ok n by (simp add: take_none s3_def s4_def add.commute [of _ nybbles])
  have t5: "take_codes s5 10 (nybbles + 6) raw dst = Inr (0, nybbles + 8, push_bit 4 (?nib g) OR ?nib h, dst @ [push_bit 4 (?nib g) OR ?nib h])" for raw dst
    using take_code [of 10 s5 g "nybbles + 6" raw dst] take_code [of 5 s5 h "nybbles + 7" "push_bit 4 (?nib g)" dst]
      codes(7,8) ok n by (simp add: take_none s4_def s5_def add.commute [of _ nybbles])
  have "decode_bytes (pack a b c d e f g h @ src) shift 0 nybbles raw dst =
    decode_bytes src s5 0 (nybbles + 8) (push_bit 4 (?nib g) OR ?nib h) (dst @
      [push_bit 4 (?nib a) OR ?nib b, push_bit 4 (?nib c) OR ?nib d, push_bit 4 (?nib e) OR ?nib f, push_bit 4 (?nib g) OR ?nib h])"
    unfolding pk
    by (simp add: byte_in_def [symmetric] s1_def [symmetric] t1 s2_def [symmetric] t2 [simplified] s3_def [symmetric] t3 s4_def [symmetric] t4
        s5_def [symmetric] t5)
  then show ?thesis using n(8) by metis
qed

section \<open>Round trip\<close>

definition hi_code :: "u8 \<Rightarrow> u8" where "hi_code b = gcr_encode_tab ! unat (drop_bit 4 b)"

definition lo_code :: "u8 \<Rightarrow> u8" where "lo_code b = gcr_encode_tab ! unat (b AND 0x0F)"

definition packed :: "u8 \<Rightarrow> u8 \<Rightarrow> u8 \<Rightarrow> u8 \<Rightarrow> u8 list" where
  "packed w x y z = pack (hi_code w) (lo_code w) (hi_code x) (lo_code x) (hi_code y) (lo_code y) (hi_code z) (lo_code z)"

lemma nibble_bounds: "unat (drop_bit 4 (b :: u8)) < 16" "unat (b AND 0x0F :: u8) < 16"
  using unat_u8_less [of b] by (simp_all add: unat_high_nibble unat_low_nibble less_mult_imp_div_less)

lemma codes_of_byte:
  "five_bits (hi_code b)" "five_bits (lo_code b)" "gcr_decode_tab ! unat (hi_code b) = drop_bit 4 b"
  "gcr_decode_tab ! unat (lo_code b) = b AND 0x0F" "push_bit 4 (drop_bit 4 b) OR (b AND 0x0F) = b"
  "drop_bit 4 b \<noteq> 0xFF" "b AND 0x0F \<noteq> 0xFF"
proof -
  show "five_bits (hi_code b)" "five_bits (lo_code b)"
    unfolding hi_code_def lo_code_def using tab_five_bits nibble_bounds by blast+
  show "gcr_decode_tab ! unat (hi_code b) = drop_bit 4 b" "gcr_decode_tab ! unat (lo_code b) = b AND 0x0F"
    unfolding hi_code_def lo_code_def using tab_decode(2) nibble_bounds by simp_all
  show "push_bit 4 (drop_bit 4 b) OR (b AND 0x0F) = b"
    unfolding low_nibble_take_bit by (rule bit_word_eqI) (auto simp: bit_simps)
  show "drop_bit 4 b \<noteq> 0xFF" "b AND 0x0F \<noteq> 0xFF" using nibble_bounds [of b] by auto
qed

lemma encode_group:
  "\<exists>shift'. foldl encode_byte (shift, 0, dst) (w # x # y # z # src) = foldl encode_byte (shift', 0, dst @ packed w x y z) src"
proof -
  obtain shift' where "foldl encode_byte (shift, 0, dst) [w, x, y, z] = (shift', 0, dst @ packed w x y z)"
    using put_group [of "hi_code w" "lo_code w" "hi_code x" "lo_code x" "hi_code y" "lo_code y" "hi_code z" "lo_code z" shift dst]
      codes_of_byte(1,2) by (auto simp: encode_byte_def packed_def simp flip: hi_code_def lo_code_def)
  then show ?thesis by (intro exI [of _ shift']) simp
qed

lemma decode_packed:
  assumes "nybbles mod 2 = 0"
  shows "\<exists>shift' nybbles' raw'. nybbles' mod 2 = 0 \<and>
    decode_bytes (packed w x y z @ src) shift 0 nybbles raw dst = decode_bytes src shift' 0 nybbles' raw' (dst @ [w, x, y, z])"
  using decode_group [of "hi_code w" "lo_code w" "hi_code x" "lo_code x" "hi_code y" "lo_code y" "hi_code z" "lo_code z" nybbles src shift raw dst]
    assms by (simp add: codes_of_byte packed_def)

text \<open>The bytes of whole groups, whatever the registers held.\<close>

fun gcr_groups :: "u8 list \<Rightarrow> u8 list" where
  "gcr_groups (w # x # y # z # src) = packed w x y z @ gcr_groups src"
| "gcr_groups _ = []"

lemma encode_groups:
  "length src mod 4 = 0 \<Longrightarrow> snd (snd (foldl encode_byte (shift, 0, dst) src)) = dst @ gcr_groups src"
proof (induction src arbitrary: shift dst rule: gcr_groups.induct)
  case (1 w x y z src)
  obtain shift' where "foldl encode_byte (shift, 0, dst) (w # x # y # z # src) = foldl encode_byte (shift', 0, dst @ packed w x y z) src"
    using encode_group by blast
  then show ?case using 1 by simp
qed auto

lemma decode_groups:
  "length src mod 4 = 0 \<Longrightarrow> nybbles mod 2 = 0 \<Longrightarrow> decode_bytes (gcr_groups src) shift 0 nybbles raw dst = Inr (dst @ src)"
proof (induction src arbitrary: shift nybbles raw dst rule: gcr_groups.induct)
  case (1 w x y z src)
  obtain shift' nybbles' raw' where "nybbles' mod 2 = 0"
    "decode_bytes (packed w x y z @ gcr_groups src) shift 0 nybbles raw dst = decode_bytes (gcr_groups src) shift' 0 nybbles' raw' (dst @ [w, x, y, z])"
    using decode_packed [OF 1(3), of w x y z "gcr_groups src" shift raw dst] by metis
  then show ?case using 1 by simp
qed auto

lemma length_groups: "length src mod 4 = 0 \<Longrightarrow> length (gcr_groups src) = length src div 4 * 5"
  by (induction src rule: gcr_groups.induct) (auto simp: packed_def pack_def)

text \<open>
  C24. Group coding is lossless: the encoding of any whole number of four-byte groups has five bytes for
  each of them, and decoding it succeeds and returns the original bytes.
\<close>

theorem gcr_round_trip:
  assumes "length src mod 4 = 0"
  shows "length (c1541_gcr_encode src) = length src div 4 * 5 \<and> c1541_gcr_decode (c1541_gcr_encode src) = (length src, src)"
  using assms encode_groups [of src 0 "[]"] decode_groups [of src 0 0 0 "[]"] length_groups [of src]
  by (simp add: c1541_gcr_encode_def c1541_gcr_decode_def)

theorem gcr_round_trip_witness:
  "c1541_gcr_encode [0x08, 0x01, 0x00, 0x01] = [0x52, 0x54, 0xB5, 0x29, 0x4B] \<and>
   c1541_gcr_decode [0x52, 0x54, 0xB5, 0x29, 0x4B] = (4, [0x08, 0x01, 0x00, 0x01])"
proof -
  have "c1541_gcr_encode [0x08, 0x01, 0x00, 0x01] = [0x52, 0x54, 0xB5, 0x29, 0x4B]"
    using encode_groups [of "[0x08, 0x01, 0x00, 0x01]" 0 "[]"]
    by (simp add: c1541_gcr_encode_def packed_def pack_def hi_code_def lo_code_def gcr_encode_tab_def)
  then show ?thesis using gcr_round_trip [of "[0x08, 0x01, 0x00, 0x01]"] by simp
qed

lemma checksum_start: "foldl (XOR) c xs = c XOR checksum xs" for c :: u8
proof (induction xs arbitrary: c)
  case (Cons x xs)
  have "foldl (XOR) (c XOR x) xs = (c XOR x) XOR checksum xs" "foldl (XOR) x xs = x XOR checksum xs" using Cons by blast+
  then show ?case by (simp add: checksum_def xor.assoc)
qed (simp add: checksum_def)

lemma checksum_Cons: "checksum (x # xs) = x XOR checksum xs"
  using checksum_start [of x xs] by (simp add: checksum_def)

lemma checksum_update: "i < length xs \<Longrightarrow> checksum (xs[i := x]) = checksum xs \<longleftrightarrow> x = xs ! i"
proof (induction xs arbitrary: i)
  case (Cons y xs)
  have cancel: "a XOR b = a XOR c \<longleftrightarrow> b = c" "b XOR a = c XOR a \<longleftrightarrow> b = c" for a b c :: u8
    by (auto simp: bit_eq_iff bit_xor_iff)
  show ?case using Cons by (cases i) (auto simp: checksum_Cons cancel)
qed simp

text \<open>
  C25. A data block survives its framing: the raw block of a sector has 260 bytes and starts with the
  data mark, it decodes to the same sector, and flipping bits of one data byte is always detected.
\<close>

theorem gcr_data_block:
  assumes "length sector = 256"
  shows "length (c1541_gcr_make_data_raw sector) = 260 \<and>
    c1541_gcr_data_raw_to_sector (c1541_gcr_make_data_raw sector) = Some sector \<and>
    (\<forall>i < 256. \<forall>x. x \<noteq> sector ! i \<longrightarrow>
       c1541_gcr_data_raw_to_sector ((c1541_gcr_make_data_raw sector)[i + 1 := x]) = None)"
proof -
  let ?raw = "c1541_gcr_make_data_raw sector"
  have raw: "?raw = 0x07 # sector @ [checksum sector, 0x00, 0x00]" using assms by (simp add: c1541_gcr_make_data_raw_def)
  have frame: "c1541_gcr_data_raw_to_sector (0x07 # xs @ [c, 0x00, 0x00]) = (if checksum xs \<noteq> c then None else Some xs)"
    if "length xs = 256" for xs c
  proof -
    have "(0x07 # xs @ [c, 0x00, 0x00]) ! 257 = c" using that by (simp add: nth_append)
    then show ?thesis using that by (simp add: c1541_gcr_data_raw_to_sector_def Let_def)
  qed
  have "c1541_gcr_data_raw_to_sector (?raw[i + 1 := x]) = None" if i: "i < 256" "x \<noteq> sector ! i" for i x
  proof -
    have "?raw[i + 1 := x] = 0x07 # sector[i := x] @ [checksum sector, 0x00, 0x00]"
      using assms i(1) by (simp add: raw list_update_append)
    moreover have "checksum (sector[i := x]) \<noteq> checksum sector" using checksum_update [of i sector x] assms i by simp
    ultimately show ?thesis using assms by (simp only: frame length_list_update) simp
  qed
  then show ?thesis using assms by (simp add: raw frame)
qed

theorem gcr_data_block_witness:
  "c1541_gcr_data_raw_to_sector ((c1541_gcr_make_data_raw (replicate 256 0x41))[8 := 0x42]) = None"
proof -
  have "length (replicate 256 0x41 :: u8 list) = 256" by simp
  from gcr_data_block [OF this, THEN conjunct2, THEN conjunct2, rule_format, of 7 "0x42"] show ?thesis by simp
qed

section \<open>Encoded data never looks like a sync mark\<close>

definition byte_bits :: "u8 \<Rightarrow> bool list" where
  "byte_bits b = map (bit b) [7, 6, 5, 4, 3, 2, 1, 0]"

definition code_bits :: "u8 \<Rightarrow> bool list" where
  "code_bits c = map (bit c) [4, 3, 2, 1, 0]"

lemma pack_bits:
  assumes "five_bits a" "five_bits b" "five_bits c" "five_bits d" "five_bits e" "five_bits f" "five_bits g" "five_bits h"
  shows "concat (map byte_bits (pack a b c d e f g h)) = concat (map code_bits [a, b, c, d, e, f, g, h])"
  using assms unfolding pack_def byte_bits_def code_bits_def five_bits_def
  by (simp add: bit_or_iff bit_push_bit_iff bit_drop_bit_eq bit_u8_high mult.commute [of c 2] bit_double_iff
      numeral_2_eq_2 [symmetric] numeral_3_eq_3 [symmetric])

text \<open>Reading \<open>bs\<close> after \<open>r\<close> one bits never meets \<open>k\<close> one bits in a row.\<close>

fun ones_below :: "nat \<Rightarrow> nat \<Rightarrow> bool list \<Rightarrow> bool" where
  "ones_below k r [] = True"
| "ones_below k r (b # bs) = (if b then r + 1 < k \<and> ones_below k (r + 1) bs else ones_below k 0 bs)"

lemma ones_below_run: "ones_below k r (replicate n True @ bs) \<Longrightarrow> 0 < n \<Longrightarrow> r + n < k"
proof (induction n arbitrary: r)
  case (Suc n)
  then show ?case using Suc.IH [of "r + 1"] by (cases "n = 0") simp_all
qed simp

lemma ones_below_suffix: "ones_below k r (as @ bs) \<Longrightarrow> \<exists>r. ones_below k r bs"
  by (induction as arbitrary: r) (auto split: if_splits)

lemma ones_below_no_run:
  assumes "ones_below k r bs" "0 < k"
  shows "bs \<noteq> as @ replicate k True @ cs"
  using ones_below_suffix [of k r as] ones_below_run [of k _ k cs] assms by fastforce

lemma code_runs:
  assumes "n < 16" "r \<le> 4" "\<And>r'. r' \<le> 4 \<Longrightarrow> ones_below 9 r' bs"
  shows "ones_below 9 r (code_bits (gcr_encode_tab ! n) @ bs)"
  using nibble_cases [OF assms(1)] assms(2,3) unfolding insert_iff empty_iff
  by (elim disjE) (simp_all add: gcr_encode_tab_def code_bits_def bit_simps)

lemma groups_ones_below: "r \<le> 4 \<Longrightarrow> ones_below 9 r (concat (map byte_bits (gcr_groups src)))"
proof (induction src arbitrary: r rule: gcr_groups.induct)
  case (1 w x y z src)
  have "concat (map byte_bits (packed w x y z)) =
      concat (map code_bits [hi_code w, lo_code w, hi_code x, lo_code x, hi_code y, lo_code y, hi_code z, lo_code z])"
    unfolding packed_def by (rule pack_bits) (rule codes_of_byte)+
  then show ?case using 1 unfolding hi_code_def lo_code_def
    by (simp add: code_runs nibble_bounds)
qed simp_all

text \<open>
  C26. The encoding of any data never holds nine one bits in a row, so that the drive cannot mistake
  data for a sync mark, which is a run of at least ten.
\<close>

theorem gcr_no_sync:
  "concat (map byte_bits (c1541_gcr_encode src)) \<noteq> as @ replicate 9 True @ cs"
proof (cases "length src mod 4 = 0")
  case True
  then have "c1541_gcr_encode src = gcr_groups src" using encode_groups [of src 0 "[]"] by (simp add: c1541_gcr_encode_def)
  then show ?thesis using ones_below_no_run [OF groups_ones_below [of 0 src]] by simp
qed (simp add: c1541_gcr_encode_def)

end
