(* ===== verification/G64_Image.thy ===== *)
theory G64_Image
  imports Machine_Prelude
begin

text \<open>
  Disk images in the G64 format, raw group coded half-tracks: \<^verbatim>\<open>src/src/c64/tools/g64/g64.c\<close>. An image
  is the list of its bytes, whose length is \<^verbatim>\<open>size\<close>. A null track pointer is the empty list: the parser
  never stores an empty track. \<open>mem\<close> tells which allocations succeed. Offsets are sums of a 32-bit file
  offset and at most \<^verbatim>\<open>0x10001\<close>, which a 64-bit \<^verbatim>\<open>size_t\<close> holds.
\<close>

section \<open>Data\<close>

datatype g64_result =
  G64_OK | G64_INVALID_ARGUMENT | G64_UNSUPPORTED_IMAGE | G64_TRUNCATED | G64_BAD_OFFSET | G64_OUT_OF_MEMORY

record g64_half_track =
  half_data :: "u8 list"
  half_density :: int

record g64_image =
  version :: u8
  half_track_count :: nat
  max_track_size :: nat
  half_tracks :: "g64_half_track list"

text \<open>The allocations of the file: the structure and the copy of a half-track.\<close>

datatype g64_alloc = G64_Struct | Half_Track_Bytes nat

abbreviation G64_MAX_HALF_TRACKS :: nat where "G64_MAX_HALF_TRACKS \<equiv> 84"

abbreviation G64_HEADER_SIZE :: nat where "G64_HEADER_SIZE \<equiv> 0x2AC"

abbreviation G64_MAX_TRACK_BYTES :: nat where "G64_MAX_TRACK_BYTES \<equiv> 16384"

definition g64_signature :: "u8 list" where
  "g64_signature = [0x47, 0x43, 0x52, 0x2D, 0x31, 0x35, 0x34, 0x31]"

fun g64_result_string :: "g64_result \<Rightarrow> string" where
  "g64_result_string G64_OK = ''ok''"
| "g64_result_string G64_INVALID_ARGUMENT = ''invalid argument''"
| "g64_result_string G64_UNSUPPORTED_IMAGE = ''unsupported image''"
| "g64_result_string G64_TRUNCATED = ''truncated''"
| "g64_result_string G64_BAD_OFFSET = ''bad offset''"
| "g64_result_string G64_OUT_OF_MEMORY = ''out of memory''"

section \<open>Operations\<close>

definition g64_looks_like :: "u8 list \<Rightarrow> bool" where
  "g64_looks_like bs \<longleftrightarrow> \<not> length bs < 12 \<and> take 8 bs = g64_signature"

definition g64_half_index_for_track :: "int \<Rightarrow> int" where
  "g64_half_index_for_track track = (if track < 1 \<or> 42 < track then - 1 else (track - 1) * 2)"

definition g64_half_index_for_media_half_track :: "int \<Rightarrow> int" where
  "g64_half_index_for_media_half_track half_track =
     (if half_track < 2 \<or> 84 < half_track then - 1 else half_track - 2)"

definition read_u32_le :: "u8 list \<Rightarrow> nat \<Rightarrow> u32" where
  "read_u32_le bs p =
     ucast (bs ! p) OR push_bit 8 (ucast (bs ! (p + 1))) OR push_bit 16 (ucast (bs ! (p + 2))) OR
     push_bit 24 (ucast (bs ! (p + 3)))"

definition read_u16_le :: "u8 list \<Rightarrow> nat \<Rightarrow> u16" where
  "read_u16_le bs p = ucast (bs ! p) OR push_bit 8 (ucast (bs ! (p + 1)))"

text \<open>The body of the loop over the half-tracks.\<close>

definition g64_read_half_track ::
  "(g64_alloc \<Rightarrow> bool) \<Rightarrow> u8 list \<Rightarrow> nat \<Rightarrow> nat \<Rightarrow> g64_result + g64_half_track" where
  "g64_read_half_track mem bs max_track i =
     (let off_pos = 12 + i * 4; spd_pos = 0x15C + i * 4
      in if length bs < off_pos + 4 \<or> length bs < spd_pos + 4 then Inl G64_TRUNCATED
         else
           (let toff = unat (read_u32_le bs off_pos);
                speed = read_u32_le bs spd_pos;
                dens = (if speed < 4 then uint speed else - 1)
            in if toff = 0 then Inr \<lparr>half_data = [], half_density = dens\<rparr>
               else if length bs < toff + 2 then Inl G64_BAD_OFFSET
               else
                 (let actual = unat (read_u16_le bs toff)
                  in if actual = 0 \<or> max_track < actual then Inl G64_BAD_OFFSET
                     else if length bs < toff + 2 + actual then Inl G64_TRUNCATED
                     else if \<not> mem (Half_Track_Bytes actual) then Inl G64_OUT_OF_MEMORY
                     else Inr \<lparr>half_data = take actual (drop (toff + 2) bs), half_density = dens\<rparr>)))"

primrec g64_read_half_tracks ::
  "(g64_alloc \<Rightarrow> bool) \<Rightarrow> u8 list \<Rightarrow> nat list \<Rightarrow> g64_image \<Rightarrow> g64_result + g64_image" where
  "g64_read_half_tracks mem bs [] img = Inr img"
| "g64_read_half_tracks mem bs (i # is) img =
     (case g64_read_half_track mem bs (max_track_size img) i of
        Inl e \<Rightarrow> Inl e
      | Inr ht \<Rightarrow> g64_read_half_tracks mem bs is (img\<lparr>half_tracks := (half_tracks img)[i := ht]\<rparr>))"

definition g64_image_create :: "(g64_alloc \<Rightarrow> bool) \<Rightarrow> u8 list \<Rightarrow> g64_result + g64_image" where
  "g64_image_create mem bs =
     (if length bs < G64_HEADER_SIZE then Inl G64_INVALID_ARGUMENT
      else if \<not> g64_looks_like bs then Inl G64_UNSUPPORTED_IMAGE
      else
        (let ntracks = unat (bs ! 9)
         in if ntracks = 0 \<or> G64_MAX_HALF_TRACKS < ntracks then Inl G64_UNSUPPORTED_IMAGE
            else
              (let max_track = unat (read_u16_le bs 10)
               in if max_track = 0 \<or> G64_MAX_TRACK_BYTES < max_track then Inl G64_UNSUPPORTED_IMAGE
                  else if \<not> mem G64_Struct then Inl G64_OUT_OF_MEMORY
                  else g64_read_half_tracks mem bs [0..<ntracks]
                         \<lparr>version = bs ! 8, half_track_count = ntracks, max_track_size = max_track,
                          half_tracks = replicate G64_MAX_HALF_TRACKS \<lparr>half_data = [], half_density = 0\<rparr>\<rparr>)))"

section \<open>Well-formed images\<close>

definition half_track_ok :: "nat \<Rightarrow> g64_half_track \<Rightarrow> bool" where
  "half_track_ok max_track ht \<longleftrightarrow> length (half_data ht) \<le> max_track \<and> - 1 \<le> half_density ht \<and> half_density ht \<le> 3"

lemma density_range: "- 1 \<le> (if (speed :: u32) < 4 then uint speed else - 1) \<and> (if speed < 4 then uint speed else - 1) \<le> 3"
proof -
  have "uint speed < 4" if "speed < 4" using that by (simp add: word_less_alt)
  moreover have "- 1 \<le> uint speed" using order_trans [OF _ uint_ge_0, of "- 1" speed] by simp
  ultimately show ?thesis by auto
qed

lemma read_half_track_ok: "g64_read_half_track mem bs max_track i = Inr ht \<Longrightarrow> half_track_ok max_track ht"
  using density_range [of "read_u32_le bs (0x15C + i * 4)"]
  by (auto simp: g64_read_half_track_def half_track_ok_def Let_def simp del: less_numeral_extra split: if_splits)

definition half_tracks_ok :: "nat \<Rightarrow> g64_image \<Rightarrow> bool" where
  "half_tracks_ok max_track img \<longleftrightarrow>
     max_track_size img = max_track \<and> length (half_tracks img) = 84 \<and> (\<forall>ht \<in> set (half_tracks img). half_track_ok max_track ht)"

lemma read_half_tracks_ok:
  assumes "g64_read_half_tracks mem bs is img = Inr img'" "half_tracks_ok max_track img"
  shows "half_tracks_ok max_track img' \<and> half_track_count img' = half_track_count img"
  using assms
proof (induction "is" arbitrary: img)
  case (Cons i "is")
  then obtain ht where ht: "g64_read_half_track mem bs max_track i = Inr ht"
    by (auto simp: half_tracks_ok_def split: sum.splits)
  have "half_tracks_ok max_track (img\<lparr>half_tracks := (half_tracks img)[i := ht]\<rparr>)"
    using Cons.prems(2) read_half_track_ok [OF ht] set_update_subset_insert [of "half_tracks img" i ht]
    by (auto simp: half_tracks_ok_def)
  with Cons.IH [OF _ this] Cons.prems ht show ?case by (auto simp: half_tracks_ok_def)
qed simp

lemma g64_create_ok:
  assumes "g64_image_create mem bs = Inr img"
  shows "\<exists>max_track \<le> 16384. half_tracks_ok max_track img" "half_track_count img \<le> 84"
proof -
  define blank where "blank = \<lparr>version = bs ! 8, half_track_count = unat (bs ! 9), max_track_size = unat (read_u16_le bs 10),
    half_tracks = replicate 84 \<lparr>half_data = [], half_density = 0\<rparr>\<rparr>"
  have blank: "half_tracks_ok (unat (read_u16_le bs 10)) blank"
    by (auto simp: half_tracks_ok_def half_track_ok_def blank_def)
  have created: "g64_read_half_tracks mem bs [0..<unat (bs ! 9)] blank = Inr img"
    "unat (read_u16_le bs 10) \<le> 16384" "unat (bs ! 9) \<le> 84"
    using assms by (auto simp: g64_image_create_def blank_def Let_def split: if_splits)
  show "\<exists>max_track \<le> 16384. half_tracks_ok max_track img" "half_track_count img \<le> 84"
    using read_half_tracks_ok [OF created(1) blank] created(2,3) by (auto simp: blank_def)
qed

end
