(* ===== verification/C1541_Tracks.thy ===== *)
theory C1541_Tracks
  imports C1541_Gcr G64_Image
begin

text \<open>
  The group coded tracks of the 1541's medium, from \<^verbatim>\<open>src/src/c64/machine/c1541_media.c\<close>: building them
  from D64 and G64 images, single bits under the head, decoding a written track back into sectors,
  exporting it to a G64 image, and finding the sync marks.

  A track is the list of its bytes; a null pointer is the empty list, since no operation stores a track
  of length 0. A pointer to a track is its index in \<^verbatim>\<open>halves\<close>, \<open>None\<close> the null pointer. \<open>mem\<close> tells which
  allocations succeed. The flags that only hold 0 or 1 are booleans.
\<close>

section \<open>Data\<close>

record c1541_track =
  gcr_data :: "u8 list"
  gcr_density :: int
  gcr_dirty :: bool

record c1541_media =
  enabled :: bool
  motor_on :: bool
  motor_ready :: bool
  motor_spin_left :: u32
  half_track :: int
  stepper_phase :: u8
  density :: int
  bit_acc :: u32
  ref_cycle :: u32
  bit_event_ref :: u32
  ref_tick_accum :: u32
  ref_advance :: u32
  req_ref_cycles :: u32
  flux_acc :: u32
  filter_counter :: int
  filter_state :: bool
  filter_last_state :: bool
  no_flux_cycles :: int
  flux_rand :: u32
  ue7_counter :: int
  uf4_counter :: int
  head_bit_pos :: u32
  shift10 :: u16
  in_sync :: bool
  bits_in_byte :: int
  shifting_byte :: u8
  port_a_byte :: u8
  byte_ready :: bool
  so_pulse :: bool
  so_delay :: int
  writing :: bool
  write_bits_left :: int
  write_shift :: u8
  last_write_bit :: bool
  write_sync_hold_left :: int
  halves :: "c1541_track list"
  tracks_valid :: bool
  from_g64 :: bool
  built_from :: nat
  built_size :: nat
  built_from_seq :: u32
  attach_left :: u32
  attach_pending :: bool

abbreviation C1541_MEDIA_MIN_HALF_TRACK :: int where "C1541_MEDIA_MIN_HALF_TRACK \<equiv> 2"

abbreviation C1541_MEDIA_MAX_HALF_TRACK :: int where "C1541_MEDIA_MAX_HALF_TRACK \<equiv> 84"

abbreviation C1541_MEDIA_HALF_SLOTS :: nat where "C1541_MEDIA_HALF_SLOTS \<equiv> 84"

abbreviation C1541_MEDIA_SPINUP_CYCLES :: u32 where "C1541_MEDIA_SPINUP_CYCLES \<equiv> 50000"

abbreviation C1541_MEDIA_CYCLES_PER_REV :: int where "C1541_MEDIA_CYCLES_PER_REV \<equiv> 200000"

abbreviation C1541_MEDIA_ATTACH_DELAY :: u32 where "C1541_MEDIA_ATTACH_DELAY \<equiv> 1800000"

text \<open>The allocations: a track built from a D64 image, a track copied from a G64 image with the
  allocations of its parser, and the export buffer.\<close>

datatype media_alloc = Track_Buffer nat | Track_Copy nat | G64_Parser g64_alloc | Export_Buffer nat

text \<open>The ten-bit window of the sync detector.\<close>

definition shift_window :: "u16 \<Rightarrow> bool \<Rightarrow> u16" where
  "shift_window w b = (push_bit 1 w OR of_flag b) AND 0x3FF"

section \<open>The medium\<close>

definition whole_track_slot :: "int \<Rightarrow> int" where
  "whole_track_slot track = (if track < 1 \<or> 42 < track then - 1 else (track - 1) * 2)"

definition slot_track :: "int \<Rightarrow> nat option" where
  "slot_track half_slot = (if half_slot < 0 \<or> int C1541_MEDIA_HALF_SLOTS \<le> half_slot then None else Some (nat half_slot))"

definition no_track :: c1541_track where
  "no_track = \<lparr>gcr_data = [], gcr_density = 0, gcr_dirty = False\<rparr>"

definition c1541_media_init :: c1541_media where
  "c1541_media_init =
     \<lparr>enabled = False, motor_on = False, motor_ready = False, motor_spin_left = 0,
      half_track = C1541_MEDIA_MIN_HALF_TRACK, stepper_phase = 0, density = 3, bit_acc = 0, ref_cycle = 0,
      bit_event_ref = 0, ref_tick_accum = 0, ref_advance = 0, req_ref_cycles = 0, flux_acc = 0,
      filter_counter = 0, filter_state = False, filter_last_state = False, no_flux_cycles = 0,
      flux_rand = 0x1234abcd, ue7_counter = 0, uf4_counter = 0, head_bit_pos = 0, shift10 = 0, in_sync = False,
      bits_in_byte = 0, shifting_byte = 0, port_a_byte = 0, byte_ready = False, so_pulse = False, so_delay = 0,
      writing = False, write_bits_left = 0, write_shift = 0, last_write_bit = False, write_sync_hold_left = 0,
      halves = replicate C1541_MEDIA_HALF_SLOTS no_track, tracks_valid = False, from_g64 = False,
      built_from = 0, built_size = 0, built_from_seq = 0, attach_left = 0, attach_pending = False\<rparr>"

definition c1541_media_free_tracks :: "c1541_media \<Rightarrow> c1541_media" where
  "c1541_media_free_tracks m =
     m\<lparr>halves := replicate C1541_MEDIA_HALF_SLOTS no_track, tracks_valid := False, from_g64 := False,
       built_from := 0, built_size := 0, built_from_seq := 0\<rparr>"

definition c1541_media_invalidate :: "c1541_media \<Rightarrow> c1541_media" where
  "c1541_media_invalidate m =
     (let was_valid = tracks_valid m; m = c1541_media_free_tracks m
      in if was_valid then m\<lparr>attach_pending := True\<rparr> else m)"

definition c1541_media_reset :: "c1541_media \<Rightarrow> c1541_media" where
  "c1541_media_reset m = c1541_media_init\<lparr>enabled := enabled m\<rparr>"

section \<open>Tracks from a D64 image\<close>

definition track_target_bytes :: "int \<Rightarrow> nat" where
  "track_target_bytes dens =
     (let cpb = c1541_gcr_cycles_per_byte dens;
          n = nat (C1541_MEDIA_CYCLES_PER_REV div cpb);
          n = (if n < 1024 then 1024 else n)
      in if 8192 < n then 8192 else n)"

definition append_bytes :: "nat \<Rightarrow> u8 list \<Rightarrow> u8 list \<Rightarrow> u8 list" where
  "append_bytes cap src buf = buf @ take (cap - length buf) src"

definition append_fill :: "nat \<Rightarrow> u8 \<Rightarrow> nat \<Rightarrow> u8 list \<Rightarrow> u8 list" where
  "append_fill cap v n buf = buf @ replicate (min n (cap - length buf)) v"

definition d64_gap_for_density :: "int \<Rightarrow> nat" where
  "d64_gap_for_density dens = (if dens < 0 \<or> 3 < dens then 8 else [9, 12, 17, 8] ! nat dens)"

text \<open>The body of the loop over the sectors; \<open>None\<close> is the early return on an encoding of the wrong size.\<close>

definition image_sector :: "u8 \<Rightarrow> u8 list \<Rightarrow> nat \<Rightarrow> u8 \<Rightarrow> u8 list" where
  "image_sector track img payload sec =
     (let off = c1541_gcr_d64_sector_offset track sec
      in if off < 0 \<or> int payload < off + 256 then replicate 256 0 else take 256 (drop (nat off) img))"

definition build_sector ::
  "nat \<Rightarrow> u8 \<Rightarrow> u8 list \<Rightarrow> nat \<Rightarrow> u8 \<Rightarrow> u8 \<Rightarrow> nat \<Rightarrow> u8 list \<Rightarrow> u8 list option" where
  "build_sector cap track img payload id_lo id_hi sec buf =
     (let dens = c1541_gcr_density_for_track track;
          sync = replicate 5 0xFF;
          sector = image_sector track img payload (word_of_nat sec);
          buf = append_bytes cap sync buf;
          hdr_gcr = c1541_gcr_encode (c1541_gcr_make_header_raw track (word_of_nat sec) id_lo id_hi)
      in if length hdr_gcr \<noteq> 10 then None
         else
           (let buf = append_bytes cap hdr_gcr buf;
                buf = append_fill cap 0x55 9 buf;
                buf = append_bytes cap sync buf;
                data_gcr = c1541_gcr_encode (c1541_gcr_make_data_raw sector)
            in if length data_gcr \<noteq> 325 then None
               else
                 (let buf = append_bytes cap data_gcr buf
                  in Some (append_fill cap 0x55 (d64_gap_for_density dens) buf))))"

primrec build_sectors ::
  "nat \<Rightarrow> u8 \<Rightarrow> u8 list \<Rightarrow> nat \<Rightarrow> u8 \<Rightarrow> u8 \<Rightarrow> nat list \<Rightarrow> u8 list \<Rightarrow> u8 list option" where
  "build_sectors cap track img payload id_lo id_hi [] buf = Some buf"
| "build_sectors cap track img payload id_lo id_hi (sec # secs) buf =
     (case build_sector cap track img payload id_lo id_hi sec buf of
        None \<Rightarrow> None
      | Some buf \<Rightarrow> build_sectors cap track img payload id_lo id_hi secs buf)"

definition build_one_track ::
  "(media_alloc \<Rightarrow> bool) \<Rightarrow> u8 \<Rightarrow> u8 list \<Rightarrow> nat \<Rightarrow> u8 \<Rightarrow> u8 \<Rightarrow> c1541_track option" where
  "build_one_track mem track img payload id_lo id_hi =
     (let spt = c1541_gcr_sectors_per_track track;
          dens = c1541_gcr_density_for_track track;
          cap = track_target_bytes dens
      in if spt = 0 then None
         else if \<not> mem (Track_Buffer cap) then None
         else
           case build_sectors cap track img payload id_lo id_hi [0..<spt] [] of
             None \<Rightarrow> None
           | Some buf \<Rightarrow>
               Some \<lparr>gcr_data = buf @ replicate (cap - length buf) 0x55, gcr_density = dens, gcr_dirty = False\<rparr>)"

text \<open>The loop over the tracks; \<open>None\<close> is the early return.\<close>

primrec build_tracks ::
  "(media_alloc \<Rightarrow> bool) \<Rightarrow> u8 list \<Rightarrow> nat \<Rightarrow> u8 \<Rightarrow> u8 \<Rightarrow> nat list \<Rightarrow> c1541_track list \<Rightarrow> c1541_track list option" where
  "build_tracks mem img payload id_lo id_hi [] hs = Some hs"
| "build_tracks mem img payload id_lo id_hi (t # ts) hs =
     (let slot = whole_track_slot (int t)
      in if slot < 0 then None
         else
           case build_one_track mem (word_of_nat t) img payload id_lo id_hi of
             None \<Rightarrow> None
           | Some tr \<Rightarrow> build_tracks mem img payload id_lo id_hi ts (hs[nat slot := tr]))"

text \<open>The head starts over on a new medium.\<close>

definition media_rewind :: "c1541_media \<Rightarrow> c1541_media" where
  "media_rewind m =
     m\<lparr>head_bit_pos := 0, bit_acc := 0, shift10 := 0, in_sync := False, bits_in_byte := 0, byte_ready := False,
       writing := False, write_bits_left := 0, port_a_byte := 0\<rparr>"

definition d64_disk_id :: "u8 list \<Rightarrow> nat \<Rightarrow> u8 \<times> u8" where
  "d64_disk_id img payload =
     (let bam_off = c1541_gcr_d64_sector_offset 18 0
      in if 0 \<le> bam_off \<and> bam_off + 164 \<le> int payload
         then (img ! nat (bam_off + 162), img ! nat (bam_off + 163))
         else (0x41, 0x41))"

definition c1541_media_build_from_d64 ::
  "(media_alloc \<Rightarrow> bool) \<Rightarrow> nat \<Rightarrow> u8 list \<Rightarrow> c1541_media \<Rightarrow> bool \<times> c1541_media" where
  "c1541_media_build_from_d64 mem ptr img m =
     (if ptr = 0 then (False, m)
      else
        case d64_geometry_from_size (length img) of
          None \<Rightarrow> (False, m)
        | Some geo \<Rightarrow>
            (let (id_lo, id_hi) = d64_disk_id img (payload_size geo);
                 m = c1541_media_free_tracks m
             in case build_tracks mem img (payload_size geo) id_lo id_hi [1..<unat (track_count geo) + 1] (halves m) of
                  None \<Rightarrow> (False, c1541_media_free_tracks m)
                | Some hs \<Rightarrow>
                    (True, media_rewind (m\<lparr>halves := hs, tracks_valid := True, from_g64 := False,
                       built_from := ptr, built_size := length img, built_from_seq := 0\<rparr>))))"

text \<open>Layout produced by \<^verbatim>\<open>build_one_track\<close>.\<close>

definition sector_data_gcr_offset :: "u8 \<Rightarrow> u8 \<Rightarrow> nat" where
  "sector_data_gcr_offset track sector =
     (let gap = d64_gap_for_density (c1541_gcr_density_for_track track);
          per = 5 + 10 + 9 + 5 + 325 + gap
      in unat sector * per + 5 + 10 + 9 + 5)"

section \<open>Tracks from a G64 image\<close>

primrec copy_half_tracks ::
  "(media_alloc \<Rightarrow> bool) \<Rightarrow> g64_image \<Rightarrow> nat list \<Rightarrow> c1541_track list \<Rightarrow> c1541_track list option" where
  "copy_half_tracks mem g64 [] hs = Some hs"
| "copy_half_tracks mem g64 (i # is) hs =
     (let src = half_tracks g64 ! i
      in if half_data src = [] then copy_half_tracks mem g64 is hs
         else if \<not> mem (Track_Copy (length (half_data src))) then None
         else copy_half_tracks mem g64 is (hs[i :=
                \<lparr>gcr_data = half_data src,
                 gcr_density = (if 0 \<le> half_density src \<and> half_density src \<le> 3 then half_density src
                                else c1541_gcr_density_for_track (word_of_nat (i div 2 + 1))),
                 gcr_dirty = False\<rparr>]))"

definition c1541_media_build_from_g64 ::
  "(media_alloc \<Rightarrow> bool) \<Rightarrow> nat \<Rightarrow> u8 list \<Rightarrow> c1541_media \<Rightarrow> bool \<times> c1541_media" where
  "c1541_media_build_from_g64 mem ptr img m =
     (if ptr = 0 then (False, m)
      else
        case g64_image_create (\<lambda>a. mem (G64_Parser a)) img of
          Inl _ \<Rightarrow> (False, m)
        | Inr g64 \<Rightarrow>
            (let m = c1541_media_free_tracks m
             in case copy_half_tracks mem g64 [0..<min (half_track_count g64) C1541_MEDIA_HALF_SLOTS] (halves m) of
                  None \<Rightarrow> (False, c1541_media_free_tracks m)
                | Some hs \<Rightarrow>
                    (True, media_rewind (m\<lparr>halves := hs, tracks_valid := True, from_g64 := True,
                       built_from := ptr, built_size := length img, built_from_seq := 0\<rparr>))))"

definition current_track :: "c1541_media \<Rightarrow> nat option" where
  "current_track m =
     (case slot_track (g64_half_index_for_media_half_track (half_track m)) of
        None \<Rightarrow> None
      | Some i \<Rightarrow> if gcr_data (halves m ! i) = [] then None else Some i)"

section \<open>Bits under the head\<close>

definition track_bits :: "c1541_track \<Rightarrow> u32" where
  "track_bits tr = word_of_nat (length (gcr_data tr)) * 8"

definition track_bit :: "c1541_track \<Rightarrow> u32 \<Rightarrow> bool" where
  "track_bit tr bit_pos =
     (if gcr_data tr = [] then False
      else
        (let nbits = track_bits tr; idx = bit_pos mod nbits; bi = unat (idx div 8);
             bit_in_byte = 7 - unat (idx mod 8)
         in bit (gcr_data tr ! bi) bit_in_byte))"

definition set_track_bit :: "u32 \<Rightarrow> bool \<Rightarrow> c1541_track \<Rightarrow> c1541_track" where
  "set_track_bit bit_pos b tr =
     (if gcr_data tr = [] then tr
      else
        (let nbits = track_bits tr; idx = bit_pos mod nbits; bi = unat (idx div 8);
             bit_in_byte = 7 - unat (idx mod 8);
             mask = push_bit bit_in_byte 1;
             old = gcr_data tr ! bi
         in tr\<lparr>gcr_data := (gcr_data tr)[bi := (if b then old OR mask else old AND NOT mask)], gcr_dirty := True\<rparr>))"

definition track_bit_at :: "c1541_track \<Rightarrow> u32 \<Rightarrow> bool" where
  "track_bit_at tr bit_pos = track_bit tr bit_pos"

text \<open>The bytes collected; every caller ignores the number of bits returned.\<close>

definition collect_bits :: "c1541_track \<Rightarrow> u32 \<Rightarrow> nat \<Rightarrow> u8 list" where
  "collect_bits tr bit_pos nbits =
     foldl (\<lambda>dst i. if track_bit_at tr ((bit_pos + word_of_nat i) mod track_bits tr)
                    then dst[i div 8 := dst ! (i div 8) OR drop_bit (i mod 8) 0x80] else dst)
       (replicate ((nbits + 7) div 8) 0) [0..<nbits]"

section \<open>A written track back into sectors\<close>

text \<open>The loops that pass the rest of a sync mark, \<open>n\<close> bits at most, and that look for the next one.\<close>

primrec skip_ones :: "nat \<Rightarrow> c1541_track \<Rightarrow> u32 \<Rightarrow> u32" where
  "skip_ones 0 tr p = p"
| "skip_ones (Suc n) tr p = (if track_bit_at tr (p mod track_bits tr) then skip_ones n tr (p + 1) else p)"

primrec skip_ones_wrapped :: "nat \<Rightarrow> c1541_track \<Rightarrow> u32 \<Rightarrow> u32" where
  "skip_ones_wrapped 0 tr p = p"
| "skip_ones_wrapped (Suc n) tr p =
     (if track_bit_at tr p then skip_ones_wrapped n tr ((p + 1) mod track_bits tr) else p)"

primrec find_sync :: "nat \<Rightarrow> c1541_track \<Rightarrow> u16 \<Rightarrow> u32 \<Rightarrow> u32 option" where
  "find_sync 0 tr w2 p = None"
| "find_sync (Suc n) tr w2 p =
     (let w2 = shift_window w2 (track_bit_at tr p); p = (p + 1) mod track_bits tr
      in if w2 = 0x3FF then Some p else find_sync n tr w2 p)"

text \<open>What follows a sync mark that ends at \<open>pos\<close>: the number and the bytes of a sector, if a header of
  this track and a data block follow.\<close>

definition sector_after_sync :: "c1541_track \<Rightarrow> u8 \<Rightarrow> u32 \<Rightarrow> (u8 \<times> u8 list) option" where
  "sector_after_sync tr track_num pos =
     (let p = skip_ones 80 tr (pos + 1);
          (n, hdr_raw) = c1541_gcr_decode (collect_bits tr p 80)
      in if n \<noteq> 8 then None
         else if hdr_raw ! 0 \<noteq> 0x08 \<or> hdr_raw ! 3 \<noteq> track_num then None
         else
           case find_sync (unat (track_bits tr)) tr 0 ((p + 80) mod track_bits tr) of
             None \<Rightarrow> None
           | Some p \<Rightarrow>
               (let p = skip_ones_wrapped 80 tr p;
                    (n, data_raw) = c1541_gcr_decode (collect_bits tr p 2600)
                in if n \<noteq> 260 then None
                   else
                     case c1541_gcr_data_raw_to_sector data_raw of
                       None \<Rightarrow> None
                     | Some sector \<Rightarrow> Some (hdr_raw ! 2, sector)))"

definition decode_track_bit ::
  "c1541_track \<Rightarrow> u8 \<Rightarrow> nat \<Rightarrow> u16 \<times> bool \<times> u8 list \<Rightarrow> nat \<Rightarrow> u16 \<times> bool \<times> u8 list" where
  "decode_track_bit tr track_num payload st pos =
     (case st of (win, updated, img) \<Rightarrow>
        (let win = shift_window win (track_bit_at tr (word_of_nat pos))
         in if win \<noteq> 0x3FF then (win, updated, img)
            else
              case sector_after_sync tr track_num (word_of_nat pos) of
                None \<Rightarrow> (win, updated, img)
              | Some (sec, sector) \<Rightarrow>
                  (let off = c1541_gcr_d64_sector_offset track_num sec
                   in if 0 \<le> off \<and> off + 256 \<le> int payload \<and> take 256 (drop (nat off) img) \<noteq> sector
                      then (win, True, take (nat off) img @ sector @ drop (nat off + 256) img)
                      else (win, updated, img))))"

definition decode_track_to_d64 :: "c1541_track \<Rightarrow> u8 \<Rightarrow> nat \<Rightarrow> u8 list \<Rightarrow> bool \<times> u8 list" where
  "decode_track_to_d64 tr track_num payload img =
     (if gcr_data tr = [] then (False, img)
      else snd (foldl (decode_track_bit tr track_num payload) (0, False, img) [0..<unat (track_bits tr)]))"

section \<open>Export to a G64 image\<close>

text \<open>The loop over the bits; the result is -1 when there is no sync mark.\<close>

fun export_sync_from :: "c1541_track \<Rightarrow> nat list \<Rightarrow> u32 \<Rightarrow> u32 \<Rightarrow> u32 \<Rightarrow> u32" where
  "export_sync_from tr [] run run_start first_long = (if 10 \<le> run then run_start else first_long)"
| "export_sync_from tr (pos # ps) run run_start first_long =
     (if track_bit tr (word_of_nat pos) then
        (let run_start = (if run = 0 then word_of_nat pos else run_start);
             run = run + 1;
             first_long = (if run = 10 \<and> first_long = - 1 then run_start else first_long)
         in export_sync_from tr ps run run_start first_long)
      else if 10 \<le> run then run_start
      else export_sync_from tr ps 0 run_start first_long)"

definition g64_find_export_sync_bit :: "c1541_track \<Rightarrow> u32" where
  "g64_find_export_sync_bit tr =
     (if gcr_data tr = [] then - 1 else export_sync_from tr [0..<unat (track_bits tr)] 0 0 (- 1))"

definition g64_pack_track_from_bit :: "c1541_track \<Rightarrow> u32 \<Rightarrow> u8 list" where
  "g64_pack_track_from_bit tr start_bit =
     map (\<lambda>bi. foldl (\<lambda>byte b.
            if track_bit tr ((start_bit + word_of_nat bi * 8 + word_of_nat b) mod track_bits tr)
            then byte OR drop_bit b 0x80 else byte) 0 [0..<8])
       [0..<length (gcr_data tr)]"

definition g64_patch_half_track_in_image :: "nat \<Rightarrow> u8 list \<Rightarrow> u8 list \<Rightarrow> u8 list option" where
  "g64_patch_half_track_in_image half_index payload img =
     (if G64_MAX_HALF_TRACKS \<le> half_index \<or> payload = [] then None
      else if length img < G64_HEADER_SIZE then None
      else
        (let off_pos = 12 + half_index * 4
         in if length img < off_pos + 4 then None
            else
              (let toff = unat (read_u32_le img off_pos)
               in if toff = 0 then None
                  else if length img < toff + 2 then None
                  else
                    (let actual = unat (read_u16_le img toff)
                     in if actual \<noteq> length payload then None
                        else if length img < toff + 2 + length payload then None
                        else Some (take (toff + 2) img @ payload @ drop (toff + 2 + length payload) img)))))"

section \<open>Finding the sync marks\<close>

text \<open>The inner loop passes the rest of a mark: \<open>None\<close> at the end of the track, otherwise the position
  after the first bit that follows the mark, and the window.\<close>

function align_skip :: "c1541_track \<Rightarrow> nat \<Rightarrow> nat \<Rightarrow> u16 \<Rightarrow> (nat \<times> u16) option" where
  "align_skip tr nbits i sh =
     (if i < nbits then
        (let sh = shift_window sh (track_bit tr (word_of_nat i))
         in if sh \<noteq> 0x3FF then Some (i + 1, sh) else align_skip tr nbits (i + 1) sh)
      else None)"
  by pat_completeness auto
termination
  by (relation "measure (\<lambda>(tr, nbits, i, sh). nbits - i)") auto

lemma align_skip_moves: "align_skip tr nbits i sh = Some (j, sh') \<Longrightarrow> i < j \<and> j \<le> nbits"
proof (induction tr nbits i sh rule: align_skip.induct)
  case (1 tr nbits i sh)
  then show ?case by (subst (asm) (2) align_skip.simps) (auto simp: Let_def split: if_splits dest: Suc_lessD)
qed

declare align_skip.simps [simp del]

function align_posts :: "c1541_track \<Rightarrow> nat \<Rightarrow> nat \<Rightarrow> u16 \<Rightarrow> (nat \<times> u16) list \<Rightarrow> (nat \<times> u16) list" where
  "align_posts tr nbits i sh posts =
     (if i < nbits \<and> length posts < 64 then
        (let sh = shift_window sh (track_bit tr (word_of_nat i)); i = i + 1
         in if sh \<noteq> 0x3FF then align_posts tr nbits i sh posts
            else
              case align_skip tr nbits i sh of
                None \<Rightarrow> posts
              | Some (j, sh) \<Rightarrow> align_posts tr nbits j sh (posts @ [(j - 1, sh)]))
      else posts)"
  by pat_completeness auto
termination
  by (relation "measure (\<lambda>(tr, nbits, i, sh, posts). nbits - i)") (auto dest!: align_skip_moves)

declare align_posts.simps [simp del]

definition align_best :: "nat \<Rightarrow> (nat \<times> u16) list \<Rightarrow> nat \<times> u16" where
  "align_best nbits posts =
     (let long_gap = (\<lambda>k. let a = fst (posts ! k); b = fst (posts ! ((k + 1) mod length posts))
                          in 512 \<le> (if a \<le> b then b - a else nbits - a + b))
      in case filter long_gap [0..<length posts] of [] \<Rightarrow> posts ! 0 | k # _ \<Rightarrow> posts ! k)"

definition media_align_after_sync :: "c1541_media \<Rightarrow> c1541_media" where
  "media_align_after_sync m =
     (let tr = current_track m;
          m = m\<lparr>bits_in_byte := 0, byte_ready := False, shifting_byte := 0, head_bit_pos := 0, shift10 := 0,
                in_sync := False\<rparr>
      in case tr of
           None \<Rightarrow> m
         | Some i \<Rightarrow>
             (let tr = halves m ! i; nbits = unat (track_bits tr);
                  posts = align_posts tr nbits 0 0 []
              in if posts = [] then m
                 else (let (best_pos, best_sh) = align_best nbits posts
                       in m\<lparr>head_bit_pos := word_of_nat best_pos, shift10 := best_sh, in_sync := False\<rparr>)))"

end
