(* ===== verification/C64_Iec.thy ===== *)
theory C64_Iec
  imports Machine_Prelude
begin

text \<open>
  What the disk drives see of the C64, from \<^verbatim>\<open>src/src/c64/machine/c64.c\<close>: the two drive slots with their
  mounted images, and the open-collector lines of the IEC bus, which are low when anyone pulls them.

  \<open>c64_host\<close> has the fields of \<^verbatim>\<open>c64_t\<close> these operations use. The address of an image buffer is
  \<open>image_ptr\<close>, 0 the null pointer, and its contents are \<open>image_bytes\<close>, whose length is \<^verbatim>\<open>image_size\<close>. The
  calls of the installed media callback are recorded in \<open>media_events\<close>. Refreshing the video bank, which
  follows every change of the lines, touches none of these fields.
\<close>

section \<open>Data\<close>

datatype c64_drive_image_kind =
  C64_DRIVE_IMAGE_NONE | C64_DRIVE_IMAGE_D64 | C64_DRIVE_IMAGE_G64 | C64_DRIVE_IMAGE_HOSTFS

datatype c64_drive_backend = C64_DRIVE_BACKEND_NONE | C64_DRIVE_BACKEND_IMAGE | C64_DRIVE_BACKEND_HOSTFS

record c64_drive_slot =
  mounted :: bool
  powered :: bool
  writable :: bool
  slot_dirty :: bool
  image_kind :: c64_drive_image_kind
  backend :: c64_drive_backend
  image_ptr :: nat
  image_bytes :: "u8 list"
  led_read_seq :: u32
  led_write_seq :: u32
  image_content_seq :: u32

record c64_host =
  cia2_pra :: u8
  cia2_ddra :: u8
  iec_external_pull :: u8
  iec_external_pull_other :: u8
  iec_external_pull_drive8 :: u8
  iec_external_pull_drive9 :: u8
  drives :: "c64_drive_slot list"
  emulate_1541 :: bool
  replay_sealed :: bool
  media_event :: bool
  media_events :: "(u64 \<times> int) list"
  clock_cycle :: u64

abbreviation C64_IEC_ATN :: u8 where "C64_IEC_ATN \<equiv> 0x01"

abbreviation C64_IEC_CLK :: u8 where "C64_IEC_CLK \<equiv> 0x02"

abbreviation C64_IEC_DATA :: u8 where "C64_IEC_DATA \<equiv> 0x04"

section \<open>Drive slots\<close>

text \<open>\<open>None\<close> is the index -1.\<close>

definition c64_drive_slot_index :: "u8 \<Rightarrow> nat option" where
  "c64_drive_slot_index device = (if device < 8 \<or> 9 < device then None else Some (unat device - 8))"

definition c64_get_drive_slot :: "c64_host \<Rightarrow> int \<Rightarrow> c64_drive_slot option" where
  "c64_get_drive_slot machine device_number =
     map_option (\<lambda>i. drives machine ! i) (c64_drive_slot_index (word_of_int device_number))"

text \<open>The changes made through the pointer of \<^verbatim>\<open>c64_get_drive_slot_mut\<close>.\<close>

definition c64_get_drive_slot_mut :: "int \<Rightarrow> (c64_drive_slot \<Rightarrow> c64_drive_slot) \<Rightarrow> c64_host \<Rightarrow> c64_host" where
  "c64_get_drive_slot_mut device_number f machine =
     (case c64_drive_slot_index (word_of_int device_number) of
        None \<Rightarrow> machine
      | Some i \<Rightarrow> machine\<lparr>drives := (drives machine)[i := f (drives machine ! i)]\<rparr>)"

definition c64_disk_activity_read :: "int \<Rightarrow> c64_host \<Rightarrow> c64_host" where
  "c64_disk_activity_read device_number =
     c64_get_drive_slot_mut device_number (\<lambda>slot. slot\<lparr>led_read_seq := led_read_seq slot + 1\<rparr>)"

definition c64_disk_activity_write :: "int \<Rightarrow> c64_host \<Rightarrow> c64_host" where
  "c64_disk_activity_write device_number =
     c64_get_drive_slot_mut device_number (\<lambda>slot. slot\<lparr>led_write_seq := led_write_seq slot + 1\<rparr>)"

definition c64_set_replay_sealed :: "bool \<Rightarrow> c64_host \<Rightarrow> c64_host" where
  "c64_set_replay_sealed sealed machine = machine\<lparr>replay_sealed := sealed\<rparr>"

definition c64_notify_guest_media_write :: "int \<Rightarrow> c64_host \<Rightarrow> c64_host" where
  "c64_notify_guest_media_write device machine =
     (if replay_sealed machine \<or> \<not> media_event machine then machine
      else machine\<lparr>media_events := media_events machine @ [(clock_cycle machine, device)]\<rparr>)"

definition c64_drive_iec_active :: "c64_host \<Rightarrow> u8 \<Rightarrow> bool" where
  "c64_drive_iec_active machine device =
     (case c64_drive_slot_index device of
        None \<Rightarrow> False
      | Some slot_index \<Rightarrow>
          (let slot = drives machine ! slot_index
           in powered slot \<and> backend slot = C64_DRIVE_BACKEND_IMAGE \<and> mounted slot))"

section \<open>The lines of the bus\<close>

definition c64_iec_line_mask :: "u8 \<Rightarrow> u8" where
  "c64_iec_line_mask lines = lines AND ((C64_IEC_ATN OR C64_IEC_CLK) OR C64_IEC_DATA)"

definition c64_drive_bus_pull :: "c64_host \<Rightarrow> nat \<Rightarrow> u8" where
  "c64_drive_bus_pull machine slot_index =
     (if 2 \<le> slot_index then 0
      else if \<not> c64_drive_iec_active machine (8 + word_of_nat slot_index) then 0
      else if slot_index = 0 then iec_external_pull_drive8 machine
      else iec_external_pull_drive9 machine)"

definition c64_refresh_iec_external_pull :: "c64_host \<Rightarrow> c64_host" where
  "c64_refresh_iec_external_pull machine =
     machine\<lparr>iec_external_pull :=
       c64_iec_line_mask ((iec_external_pull_other machine OR c64_drive_bus_pull machine 0) OR
                          c64_drive_bus_pull machine 1)\<rparr>"

definition c64_set_iec_external_pull :: "u8 \<Rightarrow> c64_host \<Rightarrow> c64_host" where
  "c64_set_iec_external_pull lines machine =
     c64_refresh_iec_external_pull (machine\<lparr>iec_external_pull_other := c64_iec_line_mask lines\<rparr>)"

definition c64_set_iec_drive_pull :: "int \<Rightarrow> u8 \<Rightarrow> c64_host \<Rightarrow> c64_host" where
  "c64_set_iec_drive_pull device_number lines machine =
     (let pull = c64_iec_line_mask lines
      in if device_number = 8 then c64_refresh_iec_external_pull (machine\<lparr>iec_external_pull_drive8 := pull\<rparr>)
         else if device_number = 9 then c64_refresh_iec_external_pull (machine\<lparr>iec_external_pull_drive9 := pull\<rparr>)
         else machine)"

definition c64_get_iec_external_pull :: "c64_host \<Rightarrow> u8" where
  "c64_get_iec_external_pull machine = iec_external_pull machine"

definition c64_get_iec_pull_excluding_drive :: "c64_host \<Rightarrow> int \<Rightarrow> u8" where
  "c64_get_iec_pull_excluding_drive machine device_number =
     (let pull = iec_external_pull_other machine;
          pull = (if device_number \<noteq> 8 then pull OR c64_drive_bus_pull machine 0 else pull);
          pull = (if device_number \<noteq> 9 then pull OR c64_drive_bus_pull machine 1 else pull)
      in c64_iec_line_mask pull)"

definition c64_cia2_iec_output_pull :: "c64_host \<Rightarrow> u8" where
  "c64_cia2_iec_output_pull machine =
     (let ora = cia2_pra machine; ddra = cia2_ddra machine;
          pull = 0;
          pull = (if ddra AND 0x08 = 0 \<or> ora AND 0x08 \<noteq> 0 then pull OR C64_IEC_ATN else pull);
          pull = (if ddra AND 0x10 = 0 \<or> ora AND 0x10 \<noteq> 0 then pull OR C64_IEC_CLK else pull);
          pull = (if ddra AND 0x20 = 0 \<or> ora AND 0x20 \<noteq> 0 then pull OR C64_IEC_DATA else pull)
      in pull)"

definition c64_get_iec_c64_pull :: "c64_host \<Rightarrow> u8" where
  "c64_get_iec_c64_pull machine = c64_cia2_iec_output_pull machine"

text \<open>The lines CIA 2 senses on port A: the field \<^verbatim>\<open>port_a_pull_down\<close> of the output parameter.\<close>

definition c64_cia2_port_inputs :: "c64_host \<Rightarrow> u8 \<Rightarrow> u8" where
  "c64_cia2_port_inputs machine port_a_pull_down =
     (let pull = c64_cia2_iec_output_pull machine;
          pull = pull OR (iec_external_pull machine AND ((C64_IEC_ATN OR C64_IEC_CLK) OR C64_IEC_DATA));
          ddra = cia2_ddra machine;
          out = port_a_pull_down;
          out = (if pull AND C64_IEC_CLK \<noteq> 0 \<and> ddra AND 0x40 = 0 then out OR 0x40 else out);
          out = (if pull AND C64_IEC_DATA \<noteq> 0 \<and> ddra AND 0x80 = 0 then out OR 0x80 else out)
      in out)"

section \<open>Lemmas\<close>

lemma slot_index_small [simp]: "c64_drive_slot_index 8 = Some 0" "c64_drive_slot_index 9 = Some 1"
  by (simp_all add: c64_drive_slot_index_def)

lemma slot_index_bound: "c64_drive_slot_index d = Some i \<Longrightarrow> i < 2"
  by (auto simp: c64_drive_slot_index_def word_less_nat_alt split: if_splits)

lemma and_bit_mask:
  "(x :: u8) AND 0x01 = 0 \<longleftrightarrow> \<not> bit x 0" "(x :: u8) AND 0x02 = 0 \<longleftrightarrow> \<not> bit x 1" "(x :: u8) AND 0x04 = 0 \<longleftrightarrow> \<not> bit x 2"
  "(x :: u8) AND 0x08 = 0 \<longleftrightarrow> \<not> bit x 3" "(x :: u8) AND 0x10 = 0 \<longleftrightarrow> \<not> bit x 4" "(x :: u8) AND 0x20 = 0 \<longleftrightarrow> \<not> bit x 5"
  "(x :: u8) AND 0x40 = 0 \<longleftrightarrow> \<not> bit x 6" "(x :: u8) AND 0x80 = 0 \<longleftrightarrow> \<not> bit x 7"
  by (auto simp: u8_eq_bits bit_simps)

lemma bit_line_mask:
  "bit (c64_iec_line_mask lines) 0 \<longleftrightarrow> bit lines 0" "bit (c64_iec_line_mask lines) (Suc 0) \<longleftrightarrow> bit lines (Suc 0)"
  "bit (c64_iec_line_mask lines) 2 \<longleftrightarrow> bit lines 2"
  by (auto simp: c64_iec_line_mask_def bit_simps)

lemma bit_output_pull:
  "bit (c64_cia2_iec_output_pull m) 0 \<longleftrightarrow> \<not> bit (cia2_ddra m) 3 \<or> bit (cia2_pra m) 3"
  "bit (c64_cia2_iec_output_pull m) (Suc 0) \<longleftrightarrow> \<not> bit (cia2_ddra m) 4 \<or> bit (cia2_pra m) 4"
  "bit (c64_cia2_iec_output_pull m) 2 \<longleftrightarrow> \<not> bit (cia2_ddra m) 5 \<or> bit (cia2_pra m) 5"
  by (auto simp: c64_cia2_iec_output_pull_def Let_def and_bit_mask bit_simps)

section \<open>A machine with one disk\<close>

text \<open>The C64 after power-on, with a writable D64 image of the given bytes in device 8 and CIA 2 releasing the bus.\<close>

definition empty_slot :: c64_drive_slot where
  "empty_slot =
     \<lparr>mounted = False, powered = False, writable = False, slot_dirty = False, image_kind = C64_DRIVE_IMAGE_NONE,
      backend = C64_DRIVE_BACKEND_NONE, image_ptr = 0, image_bytes = [], led_read_seq = 0, led_write_seq = 0,
      image_content_seq = 0\<rparr>"

definition one_disk :: "u8 list \<Rightarrow> c64_host" where
  "one_disk img =
     \<lparr>cia2_pra = 0, cia2_ddra = 0x3F, iec_external_pull = 0, iec_external_pull_other = 0, iec_external_pull_drive8 = 0,
      iec_external_pull_drive9 = 0,
      drives = [empty_slot\<lparr>mounted := True, powered := True, writable := True, image_kind := C64_DRIVE_IMAGE_D64,
                  backend := C64_DRIVE_BACKEND_IMAGE, image_ptr := 1, image_bytes := img\<rparr>, empty_slot],
      emulate_1541 = True, replay_sealed = False, media_event = False, media_events = [], clock_cycle = 0\<rparr>"

end
