(* ===== verification/Via6522.thy ===== *)
theory Via6522
  imports Machine_Prelude
begin

text \<open>
  The versatile interface adapter of the 1541 disk drive, \<^verbatim>\<open>src/src/c64/machine/via6522.c\<close>: ports,
  two timers and the interrupt registers. The \<^verbatim>\<open>int\<close> flags only ever hold 0 or 1 and are booleans.
  The register index is masked with 15 in every access, so that the \<^verbatim>\<open>default\<close> branches of the
  switches are dead.
\<close>

section \<open>Data\<close>

record via6522 =
  ora :: u8
  orb :: u8
  ddra :: u8
  ddrb :: u8
  port_a_in :: u8
  port_b_in :: u8
  t1_counter :: u16
  t1_latch :: u16
  t1_running :: bool
  t1_pb7_state :: bool
  t2_counter :: u16
  t2_latch_low :: u8
  t2_running :: bool
  sr :: u8
  acr :: u8
  pcr :: u8
  ifr :: u8
  ier :: u8
  ca1_last :: bool

section \<open>Operations\<close>

definition via6522_init :: via6522 where
  "via6522_init =
     \<lparr>ora = 0, orb = 0, ddra = 0, ddrb = 0, port_a_in = 0, port_b_in = 0, t1_counter = 0, t1_latch = 0,
      t1_running = False, t1_pb7_state = False, t2_counter = 0, t2_latch_low = 0, t2_running = False,
      sr = 0, acr = 0, pcr = 0, ifr = 0, ier = 0, ca1_last = False\<rparr>"

definition via6522_reset :: "via6522 \<Rightarrow> via6522" where
  "via6522_reset v = via6522_init"

definition port_read :: "u8 \<Rightarrow> u8 \<Rightarrow> u8 \<Rightarrow> u8" where
  "port_read output_reg ddr pin_in = (output_reg AND ddr) OR (pin_in AND NOT ddr)"

definition via6522_read :: "via6522 \<Rightarrow> u8 \<Rightarrow> u8 \<times> via6522" where
  "via6522_read v reg =
     (let r = reg AND 0x0F in
      if r = 0 then (port_read (orb v) (ddrb v) (port_b_in v), v)
      else if r = 1 then
        (let v = v\<lparr>ifr := ifr v AND NOT 0x03\<rparr> in (port_read (ora v) (ddra v) (port_a_in v), v))
      else if r = 2 then (ddrb v, v)
      else if r = 3 then (ddra v, v)
      else if r = 4 then
        (let v = v\<lparr>ifr := ifr v AND NOT 0x40\<rparr> in (lo8 (t1_counter v), v))
      else if r = 5 then (hi8 (t1_counter v), v)
      else if r = 6 then (lo8 (t1_latch v), v)
      else if r = 7 then (hi8 (t1_latch v), v)
      else if r = 8 then
        (let v = v\<lparr>ifr := ifr v AND NOT 0x20\<rparr> in (lo8 (t2_counter v), v))
      else if r = 9 then (hi8 (t2_counter v), v)
      else if r = 10 then (sr v, v)
      else if r = 11 then (acr v, v)
      else if r = 12 then (pcr v, v)
      else if r = 13 then (ifr v OR (if ifr v AND ier v AND 0x7F \<noteq> 0 then 0x80 else 0), v)
      else if r = 14 then (ier v OR 0x80, v)
      else (port_read (ora v) (ddra v) (port_a_in v), v))"

definition via6522_debug_read_register :: "via6522 \<Rightarrow> u8 \<Rightarrow> u8" where
  "via6522_debug_read_register v reg =
     (let r = reg AND 0x0F in
      if r = 0 then port_read (orb v) (ddrb v) (port_b_in v)
      else if r = 1 then port_read (ora v) (ddra v) (port_a_in v)
      else if r = 2 then ddrb v
      else if r = 3 then ddra v
      else if r = 4 then lo8 (t1_counter v)
      else if r = 5 then hi8 (t1_counter v)
      else if r = 6 then lo8 (t1_latch v)
      else if r = 7 then hi8 (t1_latch v)
      else if r = 8 then lo8 (t2_counter v)
      else if r = 9 then hi8 (t2_counter v)
      else if r = 10 then sr v
      else if r = 11 then acr v
      else if r = 12 then pcr v
      else if r = 13 then ifr v OR (if ifr v AND ier v AND 0x7F \<noteq> 0 then 0x80 else 0)
      else if r = 14 then ier v OR 0x80
      else port_read (ora v) (ddra v) (port_a_in v))"

definition via6522_write :: "via6522 \<Rightarrow> u8 \<Rightarrow> u8 \<Rightarrow> via6522" where
  "via6522_write v reg value =
     (let r = reg AND 0x0F in
      if r = 0 then v\<lparr>orb := value\<rparr>
      else if r = 1 then v\<lparr>ora := value, ifr := ifr v AND NOT 0x03\<rparr>
      else if r = 2 then v\<lparr>ddrb := value\<rparr>
      else if r = 3 then v\<lparr>ddra := value\<rparr>
      else if r = 4 then v\<lparr>t1_latch := (t1_latch v AND 0xFF00) OR ucast value\<rparr>
      else if r = 5 then
        (let v = v\<lparr>t1_latch := (t1_latch v AND 0x00FF) OR push_bit 8 (ucast value)\<rparr>;
             v = v\<lparr>t1_counter := t1_latch v\<rparr>;
             v = v\<lparr>ifr := ifr v AND NOT 0x40\<rparr>
         in v\<lparr>t1_running := True\<rparr>)
      else if r = 6 then v\<lparr>t1_latch := (t1_latch v AND 0xFF00) OR ucast value\<rparr>
      else if r = 7 then v\<lparr>t1_latch := (t1_latch v AND 0x00FF) OR push_bit 8 (ucast value)\<rparr>
      else if r = 8 then v\<lparr>t2_latch_low := value\<rparr>
      else if r = 9 then
        (let v = v\<lparr>t2_counter := push_bit 8 (ucast value) OR ucast (t2_latch_low v)\<rparr>;
             v = v\<lparr>ifr := ifr v AND NOT 0x20\<rparr>
         in v\<lparr>t2_running := True\<rparr>)
      else if r = 10 then v\<lparr>sr := value\<rparr>
      else if r = 11 then v\<lparr>acr := value\<rparr>
      else if r = 12 then v\<lparr>pcr := value\<rparr>
      else if r = 13 then v\<lparr>ifr := ifr v AND NOT (value AND 0x7F)\<rparr>
      else if r = 14 then
        (if value AND 0x80 \<noteq> 0 then v\<lparr>ier := ier v OR (value AND 0x7F)\<rparr>
         else v\<lparr>ier := ier v AND NOT (value AND 0x7F)\<rparr>)
      else v\<lparr>ora := value\<rparr>)"

definition via6522_step :: "via6522 \<Rightarrow> via6522" where
  "via6522_step v =
     (let v = (if t1_running v then
                 (let v = v\<lparr>t1_counter := t1_counter v - 1\<rparr>
                  in if t1_counter v = 0xFFFF then
                       (let v = v\<lparr>ifr := ifr v OR 0x40\<rparr>;
                            v = (if acr v AND 0x80 \<noteq> 0 then v\<lparr>t1_pb7_state := \<not> t1_pb7_state v\<rparr> else v)
                        in if acr v AND 0x40 \<noteq> 0 then v\<lparr>t1_counter := t1_latch v\<rparr>
                           else v\<lparr>t1_running := False\<rparr>)
                     else v)
               else v)
      in if t2_running v then
           (let v = v\<lparr>t2_counter := t2_counter v - 1\<rparr>
            in if t2_counter v = 0xFFFF then v\<lparr>ifr := ifr v OR 0x20, t2_running := False\<rparr> else v)
         else v)"

definition via6522_irq_pending :: "via6522 \<Rightarrow> bool" where
  "via6522_irq_pending v \<longleftrightarrow> ifr v AND ier v AND 0x7F \<noteq> 0"

definition via6522_set_port_a_inputs :: "via6522 \<Rightarrow> u8 \<Rightarrow> via6522" where
  "via6522_set_port_a_inputs v inputs = v\<lparr>port_a_in := inputs\<rparr>"

definition via6522_set_port_b_inputs :: "via6522 \<Rightarrow> u8 \<Rightarrow> via6522" where
  "via6522_set_port_b_inputs v inputs = v\<lparr>port_b_in := inputs\<rparr>"

definition via6522_set_ca1 :: "via6522 \<Rightarrow> u8 \<Rightarrow> via6522" where
  "via6522_set_ca1 v level =
     (let active_high = pcr v AND 0x01 \<noteq> 0;
          edge_fired = (if active_high then \<not> ca1_last v \<and> level \<noteq> 0 else ca1_last v \<and> level = 0);
          v = v\<lparr>ca1_last := (level \<noteq> 0)\<rparr>
      in if edge_fired then v\<lparr>ifr := ifr v OR 0x02\<rparr> else v)"

text \<open>The histories of an adapter: whatever its owner does to it after \<^verbatim>\<open>via6522_init\<close>.\<close>

inductive via_reachable :: "via6522 \<Rightarrow> bool" where
  created: "via_reachable via6522_init"
| restarted: "via_reachable v \<Longrightarrow> via_reachable (via6522_reset v)"
| was_read: "via_reachable v \<Longrightarrow> via_reachable (snd (via6522_read v reg))"
| written: "via_reachable v \<Longrightarrow> via_reachable (via6522_write v reg value)"
| stepped: "via_reachable v \<Longrightarrow> via_reachable (via6522_step v)"
| port_a_driven: "via_reachable v \<Longrightarrow> via_reachable (via6522_set_port_a_inputs v inputs)"
| port_b_driven: "via_reachable v \<Longrightarrow> via_reachable (via6522_set_port_b_inputs v inputs)"
| ca1_driven: "via_reachable v \<Longrightarrow> via_reachable (via6522_set_ca1 v level)"

definition via_flags_ok :: "via6522 \<Rightarrow> bool" where
  "via_flags_ok v \<longleftrightarrow> \<not> bit (ifr v) 7 \<and> \<not> bit (ier v) 7"

text \<open>A free-running timer 1: the latch is reloaded at every underflow and PB7 toggles.\<close>

definition t1_free_running :: "via6522 \<Rightarrow> bool" where
  "t1_free_running v \<longleftrightarrow> t1_running v \<and> bit (acr v) 6 \<and> bit (acr v) 7"

section \<open>Lemmas\<close>

lemma port_read_bits: "bit (port_read output_reg ddr pin_in) n \<longleftrightarrow> (if bit ddr n then bit output_reg n else n < 8 \<and> bit pin_in n)"
  by (auto simp: port_read_def bit_simps bit_imp_le_length)

lemmas via_ops = via6522_init_def via6522_reset_def via6522_read_def via6522_write_def via6522_step_def
  via6522_set_port_a_inputs_def via6522_set_port_b_inputs_def via6522_set_ca1_def

lemma bit_7_masks:
  "\<not> bit (0x7F :: u8) 7" "\<not> bit (0x40 :: u8) 7" "\<not> bit (0x20 :: u8) 7" "\<not> bit (0x02 :: u8) 7"
  "bit (0x80 :: u8) 7"
  by (simp_all add: bit_simps)

lemma via_reachable_flags: "via_reachable v \<Longrightarrow> via_flags_ok v"
  by (induction rule: via_reachable.induct)
    (simp_all add: via_flags_ok_def via_ops Let_def bit_and_iff bit_or_iff bit_not_iff bit_7_masks bit_1_iff)

lemma underflow_u16: "(w :: u16) - 1 = 0xFFFF \<longleftrightarrow> w = 0"
proof -
  have "(0xFFFF :: u16) = - 1" by simp
  then show ?thesis by (simp only: ) simp
qed

lemma u8_bit_test: "(x :: u8) AND 0x40 \<noteq> 0 \<longleftrightarrow> bit x 6" "(x :: u8) AND 0x80 \<noteq> 0 \<longleftrightarrow> bit x 7"
  by (auto simp: u8_eq_bits bit_simps)

text \<open>
  C16. The bit 7 of the flag and enable registers is never stored, whatever happens to the adapter, so
  that reading the flag register shows bit 7 exactly when the adapter asserts its interrupt line,
  and reading the enable register always shows it set.
\<close>

theorem via_irq_flag_visible:
  assumes "via_reachable v"
  shows "\<not> bit (ifr v) 7 \<and> \<not> bit (ier v) 7 \<and>
    (bit (fst (via6522_read v 13)) 7 \<longleftrightarrow> via6522_irq_pending v) \<and> bit (fst (via6522_read v 14)) 7"
  using via_reachable_flags [OF assms]
  by (simp add: via6522_read_def via6522_irq_pending_def via_flags_ok_def bit_or_iff bit_7_masks)

theorem via_irq_flag_visible_witness:
  "\<not> bit (ier (via6522_set_ca1 (via6522_write (via6522_write via6522_init 12 1) 14 0x82) 1)) 7 \<and>
   (bit (fst (via6522_read (via6522_set_ca1 (via6522_write (via6522_write via6522_init 12 1) 14 0x82) 1) 13)) 7 \<longleftrightarrow>
    via6522_irq_pending (via6522_set_ca1 (via6522_write (via6522_write via6522_init 12 1) 14 0x82) 1))"
  using via_irq_flag_visible [OF ca1_driven [OF written [OF written [OF created]]]] by blast

text \<open>
  C18. The monitor's view of a register is the value a bus read returns, on every register and every
  state, and looking at it has no side effect; a bus read itself only acknowledges interrupt flags.
\<close>

theorem via_debug_read_agrees:
  "via6522_debug_read_register v reg = fst (via6522_read v reg) \<and>
   (\<exists>flags. snd (via6522_read v reg) = v\<lparr>ifr := ifr v AND flags\<rparr>)"
proof -
  have "snd (via6522_read v reg) = v\<lparr>ifr := ifr v AND
      (if reg AND 0x0F = 1 then NOT 0x03 else if reg AND 0x0F = 4 then NOT 0x40
       else if reg AND 0x0F = 8 then NOT 0x20 else -1)\<rparr>"
    by (simp add: via6522_read_def Let_def if_distrib [of snd])
  moreover have "via6522_debug_read_register v reg = fst (via6522_read v reg)"
    by (simp add: via6522_debug_read_register_def via6522_read_def Let_def if_distrib [of fst])
  ultimately show ?thesis by blast
qed

subsection \<open>Registers read back\<close>

lemma bit_u16_masks: "bit (0xFF00 :: u16) n \<longleftrightarrow> 8 \<le> n \<and> n < 16" "bit (0x00FF :: u16) n \<longleftrightarrow> n < 8"
proof -
  have "(0xFF00 :: u16) = push_bit 8 (mask 8)" "(0x00FF :: u16) = mask 8"
    by (simp_all add: mask_eq_exp_minus_1)
  then show "bit (0xFF00 :: u16) n \<longleftrightarrow> 8 \<le> n \<and> n < 16" "bit (0x00FF :: u16) n \<longleftrightarrow> n < 8"
    by (auto simp only: bit_simps) (simp_all add: bit_simps)
qed

lemma latch_as_bytes:
  "(w AND 0xFF00) OR ucast x = w16 (hi8 w) x" "(w AND 0x00FF) OR push_bit 8 (ucast x) = w16 x (lo8 w)"
  by (auto simp: w16_def hi8_def lo8_def bit_simps bit_u16_masks intro!: bit_word_eqI simp del: bit_numeral_word_iff dest: bit_imp_le_length)

text \<open>
  What is written to a register is read back: the direction, shift, control and latch registers as
  they are, the ports on their output lines, where input lines keep showing the pins.
\<close>

theorem via_write_read:
  "(\<forall>r \<in> {2, 3, 6, 7, 10, 11, 12}. fst (via6522_read (via6522_write v r x) r) = x) \<and>
   (bit (fst (via6522_read (via6522_write v 0 x) 0)) n \<longleftrightarrow>
     (if bit (ddrb v) n then bit x n else n < 8 \<and> bit (port_b_in v) n)) \<and>
   (bit (fst (via6522_read (via6522_write v 1 x) 1)) n \<longleftrightarrow>
     (if bit (ddra v) n then bit x n else n < 8 \<and> bit (port_a_in v) n))"
  by (simp_all add: via6522_write_def via6522_read_def port_read_bits latch_as_bytes)

theorem via_write_read_witness:
  "fst (via6522_read (via6522_write via6522_init 6 0x42) 6) = 0x42"
  using via_write_read [of via6522_init "0x42"] by blast

subsection \<open>Timer 1\<close>

lemma step_t1_counts:
  assumes "t1_running v" "t1_counter v \<noteq> 0"
  shows "t1_running (via6522_step v)" "t1_counter (via6522_step v) = t1_counter v - 1"
    "bit (ifr (via6522_step v)) 6 = bit (ifr v) 6" "acr (via6522_step v) = acr v"
    "t1_latch (via6522_step v) = t1_latch v" "t1_pb7_state (via6522_step v) = t1_pb7_state v"
proof -
  show "t1_running (via6522_step v)" "t1_counter (via6522_step v) = t1_counter v - 1"
    "bit (ifr (via6522_step v)) 6 = bit (ifr v) 6" "acr (via6522_step v) = acr v"
    "t1_latch (via6522_step v) = t1_latch v" "t1_pb7_state (via6522_step v) = t1_pb7_state v"
    using assms by (simp_all add: via6522_step_def Let_def underflow_u16 bit_simps)
qed

lemma step_t1_underflow:
  assumes "t1_running v" "t1_counter v = 0"
  shows "bit (ifr (via6522_step v)) 6" "acr (via6522_step v) = acr v" "t1_latch (via6522_step v) = t1_latch v"
    "t1_running (via6522_step v) = bit (acr v) 6"
    "bit (acr v) 6 \<Longrightarrow> t1_counter (via6522_step v) = t1_latch v"
    "t1_pb7_state (via6522_step v) = (t1_pb7_state v \<noteq> bit (acr v) 7)"
  using assms by (simp_all add: via6522_step_def Let_def underflow_u16 u8_bit_test bit_simps)

text \<open>
  C17. Timer 1 in free-running mode with the latch holding \<open>n\<close>: the counter runs down from \<open>n\<close> and is
  reloaded every \<open>n + 1\<close> cycles, PB7 toggles exactly at the reloads, and the interrupt flag, unless
  it was set already, appears with the first of them.
\<close>

theorem via_t1_free_run:
  fixes v k
  defines "n \<equiv> unat (t1_latch v)" and "w \<equiv> (via6522_step ^^ k) v"
  assumes "t1_free_running v" "t1_counter v = t1_latch v"
  shows "unat (t1_counter w) = n - k mod (n + 1) \<and> (t1_pb7_state w \<longleftrightarrow> (t1_pb7_state v \<noteq> odd (k div (n + 1)))) \<and>
    (bit (ifr w) 6 \<longleftrightarrow> bit (ifr v) 6 \<or> n < k)"
proof -
  have "t1_free_running w \<and> t1_latch w = t1_latch v \<and> unat (t1_counter w) = n - k mod (n + 1) \<and>
      (t1_pb7_state w \<longleftrightarrow> (t1_pb7_state v \<noteq> odd (k div (n + 1)))) \<and> (bit (ifr w) 6 \<longleftrightarrow> bit (ifr v) 6 \<or> n < k)"
    unfolding w_def
  proof (induction k)
    case (Suc k)
    let ?w = "(via6522_step ^^ k) v"
    have run: "t1_running ?w" "bit (acr ?w) 6" "bit (acr ?w) 7" using Suc by (simp_all add: t1_free_running_def)
    show ?case
    proof (cases "k mod (n + 1) = n")
      case True
      then have zero: "t1_counter ?w = 0" using Suc by (simp add: unat_eq_zero)
      have "Suc k mod (n + 1) = 0" "Suc k div (n + 1) = k div (n + 1) + 1" "n \<le> k"
        using True mod_less_eq_dividend [of k "n + 1"] by (simp_all add: mod_Suc div_Suc)
      then show ?thesis using Suc run step_t1_underflow [OF run(1) zero]
        by (simp add: t1_free_running_def n_def)
    next
      case False
      have "k mod (n + 1) < n" using False mod_less_divisor [of "n + 1" k] by linarith
      then have pos: "t1_counter ?w \<noteq> 0" using Suc by auto
      have "unat (t1_counter ?w - 1) = unat (t1_counter ?w) - 1"
        using pos by (simp add: unat_minus_one)
      moreover have "Suc k mod (n + 1) = Suc (k mod (n + 1))" "Suc k div (n + 1) = k div (n + 1)" "k \<noteq> n"
        using False by (auto simp: mod_Suc div_Suc)
      ultimately show ?thesis using Suc run step_t1_counts [OF run(1) pos]
        by (auto simp: t1_free_running_def)
    qed
  qed (use assms in \<open>simp_all add: t1_free_running_def\<close>)
  then show ?thesis by blast
qed

definition free_running_via :: via6522 where
  "free_running_via = via6522_write (via6522_write (via6522_write via6522_init 11 0xC0) 4 2) 5 0"

theorem via_t1_free_run_witness:
  "bit (ifr ((via6522_step ^^ 3) free_running_via)) 6 \<and> \<not> bit (ifr ((via6522_step ^^ 2) free_running_via)) 6"
proof -
  have "t1_free_running free_running_via" "t1_counter free_running_via = t1_latch free_running_via"
    "t1_latch free_running_via = 2" "ifr free_running_via = 0"
    by (simp_all add: free_running_via_def via_ops t1_free_running_def bit_simps)
  then show ?thesis using via_t1_free_run [of free_running_via 3] via_t1_free_run [of free_running_via 2] by simp
qed

end
