(* ===== verification/C1541_Media.thy ===== *)
theory C1541_Media
  imports C1541_Tracks C64_Iec Via6522
begin

text \<open>
  The rotating medium of the 1541, from \<^verbatim>\<open>src/src/c64/machine/c1541_media.c\<close>: the head, the bit clock, the
  read and write shift registers, the flux decoder for G64 images, and the exchange with the disk
  controller VIA and the mounted image.

  \<open>c1541_board\<close> has the fields of the C structure \<^verbatim>\<open>c1541\<close> other than the processor, with the C64 that its
  pointer \<^verbatim>\<open>c64\<close> leads to; the drives of the emulator are always attached to one. Operations that take a
  \<^verbatim>\<open>c1541 *\<close> transform a board. A C \<^verbatim>\<open>int\<close> that is masked with 3, 15 or 1 is reduced modulo 4, 16 or 2, which
  is the same in two's complement.
\<close>

section \<open>Data\<close>

record c1541_board =
  via1 :: via6522
  via2 :: via6522
  ram :: "u16 \<Rightarrow> u8"
  rom :: "u16 \<Rightarrow> u8"
  rom_loaded :: bool
  c64 :: c64_host
  device_number :: int
  cpu_cycles_remaining :: nat
  via2_t1_pb7_last :: bool
  media :: c1541_media

abbreviation update_media :: "(c1541_media \<Rightarrow> c1541_media) \<Rightarrow> c1541_board \<Rightarrow> c1541_board" where
  "update_media f d \<equiv> d\<lparr>media := f (media d)\<rparr>"

abbreviation update_c64 :: "(c64_host \<Rightarrow> c64_host) \<Rightarrow> c1541_board \<Rightarrow> c1541_board" where
  "update_c64 f d \<equiv> d\<lparr>c64 := f (c64 d)\<rparr>"

definition drive_slot :: "c1541_board \<Rightarrow> c64_drive_slot option" where
  "drive_slot d = c64_get_drive_slot (c64 d) (device_number d)"

section \<open>Shift registers\<close>

text \<open>The registers of the read path; \<open>pcr2\<close> is the peripheral control register of the disk VIA.\<close>

definition media_shift_bit_read :: "u8 \<Rightarrow> bool \<Rightarrow> c1541_media \<Rightarrow> c1541_media" where
  "media_shift_bit_read pcr2 b m =
     (let m = m\<lparr>shift10 := shift_window (shift10 m) b\<rparr>;
          m = m\<lparr>in_sync := (shift10 m = 0x3FF)\<rparr>
      in if in_sync m then m\<lparr>bits_in_byte := 0, shifting_byte := 0\<rparr>
         else
           (let m = m\<lparr>shifting_byte := push_bit 1 (shifting_byte m) OR of_flag b, bits_in_byte := bits_in_byte m + 1\<rparr>
            in if bits_in_byte m \<ge> 8 then
                 (let m = m\<lparr>bits_in_byte := 0, port_a_byte := shifting_byte m, byte_ready := True\<rparr>
                  in if pcr2 AND 0x02 \<noteq> 0 then
                       if from_g64 m then
                         (let delay = 16 - int (unat ((bit_event_ref m - 1) AND 15))
                          in m\<lparr>so_delay := (if delay < 10 then delay + 16 else delay)\<rparr>)
                       else m\<lparr>so_delay := 0, so_pulse := True\<rparr>
                     else m)
               else m))"

definition media_next_flux_random :: "c1541_media \<Rightarrow> u32 \<times> c1541_media" where
  "media_next_flux_random m =
     (let r = flux_rand m;
          r = r XOR push_bit 13 r;
          r = r XOR drop_bit 17 r;
          r = r XOR push_bit 5 r
      in (r, m\<lparr>flux_rand := r\<rparr>))"

text \<open>One reference tick of the flux decoder.\<close>

definition g64_tick :: "u8 \<Rightarrow> c1541_track \<Rightarrow> nat \<Rightarrow> c1541_media \<Rightarrow> c1541_media" where
  "g64_tick pcr2 tr i m =
     (let nbits = track_bits tr;
          m = (if 0 < so_delay m then
                 (let m = m\<lparr>so_delay := so_delay m - 1\<rparr>
                  in if so_delay m = 0 then m\<lparr>so_pulse := True\<rparr> else m)
               else m);
          m = (if filter_counter m < 40 then m\<lparr>filter_counter := filter_counter m + 1\<rparr> else m);
          m = (if filter_counter m \<ge> 40 \<and> filter_state m \<noteq> filter_last_state m then
                 (let m = m\<lparr>filter_last_state := filter_state m, ue7_counter := density m mod 4, uf4_counter := 0\<rparr>;
                      (r, m) = media_next_flux_random m
                  in m\<lparr>no_flux_cycles := int (unat (drop_bit 16 r mod 31)) + 289\<rparr>)
               else if 0 < no_flux_cycles m then
                 (let m = m\<lparr>no_flux_cycles := no_flux_cycles m - 1\<rparr>
                  in if no_flux_cycles m = 0 then
                       (let m = m\<lparr>ue7_counter := density m mod 4, uf4_counter := 0\<rparr>;
                            (r, m) = media_next_flux_random m
                        in m\<lparr>no_flux_cycles := int (unat (drop_bit 16 r mod 367)) + 33\<rparr>)
                     else m)
               else m);
          m = m\<lparr>ue7_counter := ue7_counter m + 1\<rparr>;
          m = (if ue7_counter m = 16 then
                 (let m = m\<lparr>ue7_counter := density m mod 4, uf4_counter := (uf4_counter m + 1) mod 16\<rparr>
                  in if uf4_counter m mod 4 = 2 then
                       (let recovered = ((uf4_counter m + 0x1C) div 16 mod 2 = 1);
                            m = m\<lparr>bit_event_ref := ref_cycle m + word_of_nat i + 1\<rparr>
                        in media_shift_bit_read pcr2 recovered m)
                     else m)
               else m);
          m = m\<lparr>flux_acc := flux_acc m + nbits\<rparr>
      in if flux_acc m \<ge> 3200000 then
           (let m = m\<lparr>flux_acc := flux_acc m - 3200000\<rparr>;
                transition = track_bit tr (head_bit_pos m);
                m = m\<lparr>head_bit_pos := (head_bit_pos m + 1) mod nbits\<rparr>
            in if transition then
                 m\<lparr>filter_counter := 39, filter_state := \<not> filter_state m, no_flux_cycles := 0\<rparr>
               else m)
         else m)"

definition media_advance_g64_decoder :: "u8 \<Rightarrow> nat option \<Rightarrow> nat \<Rightarrow> c1541_media \<Rightarrow> c1541_media" where
  "media_advance_g64_decoder pcr2 tri refs m =
     (case tri of
        None \<Rightarrow> m
      | Some k \<Rightarrow>
          (let m = fold (g64_tick pcr2 (halves m ! k)) [0..<refs] m
           in m\<lparr>ref_cycle := ref_cycle m + word_of_nat refs\<rparr>))"

text \<open>Painting a bit of the track, with the notification of the first one.\<close>

definition paint_bit :: "nat option \<Rightarrow> bool \<Rightarrow> c1541_board \<Rightarrow> c1541_board" where
  "paint_bit tri b d =
     (case tri of
        None \<Rightarrow> d
      | Some k \<Rightarrow>
          (let was_dirty = gcr_dirty (halves (media d) ! k)
           in if replay_sealed (c64 d) then d
              else
                (let d = update_media (\<lambda>m. m\<lparr>halves := (halves m)[k := set_track_bit (head_bit_pos m) b (halves m ! k)]\<rparr>) d
                 in if \<not> was_dirty \<and> gcr_dirty (halves (media d) ! k)
                    then update_c64 (c64_notify_guest_media_write (device_number d)) d else d)))"

definition media_shift_bit_write :: "nat option \<Rightarrow> c1541_board \<Rightarrow> c1541_board" where
  "media_shift_bit_write tri d =
     (let m = media d;
          (b, d) =
            (if 0 < write_bits_left m then
               (let b = bit (write_shift m) 7;
                    d = update_media (\<lambda>m. m\<lparr>write_shift := push_bit 1 (write_shift m),
                          write_bits_left := write_bits_left m - 1, last_write_bit := b, bits_in_byte := 0\<rparr>) d;
                    d = paint_bit tri b d
                in (b, if write_bits_left (media d) = 0
                       then update_media (\<lambda>m. m\<lparr>byte_ready := True, so_pulse := True\<rparr>) d else d))
             else
               (let b = last_write_bit m;
                    d = paint_bit tri b d;
                    d = update_media (\<lambda>m. m\<lparr>bits_in_byte := bits_in_byte m + 1\<rparr>) d
                in (b, if bits_in_byte (media d) \<ge> 8
                       then update_media (\<lambda>m. m\<lparr>bits_in_byte := 0, byte_ready := True, so_pulse := True\<rparr>) d else d)))
      in update_media (\<lambda>m. m\<lparr>shift10 := shift_window (shift10 m) b, in_sync := (shift_window (shift10 m) b = 0x3FF)\<rparr>) d)"

section \<open>Written tracks back to the image\<close>

text \<open>Clears the dirty flag of a track.\<close>

definition clean_track :: "nat \<Rightarrow> c1541_media \<Rightarrow> c1541_media" where
  "clean_track k m = m\<lparr>halves := (halves m)[k := (halves m ! k)\<lparr>gcr_dirty := False\<rparr>]\<rparr>"

definition sync_d64_track :: "nat \<Rightarrow> bool \<times> u8 list \<times> c1541_media \<Rightarrow> nat \<Rightarrow> bool \<times> u8 list \<times> c1541_media" where
  "sync_d64_track payload st t =
     (case st of (any, img, m) \<Rightarrow>
        (case slot_track (whole_track_slot (int t)) of
           None \<Rightarrow> (any, img, m)
         | Some k \<Rightarrow>
             (let tr = halves m ! k
              in if \<not> gcr_dirty tr \<or> gcr_data tr = [] then (any, img, m)
                 else
                   (let (updated, img) = decode_track_to_d64 tr (word_of_nat t) payload img
                    in (any \<or> updated, img, clean_track k m)))))"

text \<open>After an export the cache keys follow the image, so that the tracks are not built again.\<close>

definition cohere_cache :: "c64_drive_slot \<Rightarrow> c1541_media \<Rightarrow> c1541_media" where
  "cohere_cache slot m =
     m\<lparr>built_from := image_ptr slot, built_size := length (image_bytes slot), built_from_seq := image_content_seq slot\<rparr>"

definition put_image :: "u8 list \<Rightarrow> c1541_board \<Rightarrow> c1541_board" where
  "put_image img d = update_c64 (c64_get_drive_slot_mut (device_number d) (\<lambda>slot. slot\<lparr>image_bytes := img\<rparr>)) d"

definition mark_exported :: "c1541_board \<Rightarrow> c1541_board" where
  "mark_exported d =
     (let d = update_c64 (c64_get_drive_slot_mut (device_number d)
                (\<lambda>slot. slot\<lparr>slot_dirty := True, image_content_seq := image_content_seq slot + 1\<rparr>)) d
      in case drive_slot d of None \<Rightarrow> d | Some slot \<Rightarrow> update_media (cohere_cache slot) d)"

definition c1541_media_sync_dirty_to_d64 :: "c1541_board \<Rightarrow> bool \<times> c1541_board" where
  "c1541_media_sync_dirty_to_d64 d =
     (if \<not> enabled (media d) \<or> \<not> tracks_valid (media d) then (False, d)
      else
        case drive_slot d of
          None \<Rightarrow> (False, d)
        | Some slot \<Rightarrow>
            if \<not> mounted slot \<or> image_ptr slot = 0 \<or> image_kind slot \<noteq> C64_DRIVE_IMAGE_D64 \<or> \<not> writable slot
            then (False, d)
            else if from_g64 (media d) then (False, d)
            else
              case d64_geometry_from_size (length (image_bytes slot)) of
                None \<Rightarrow> (False, d)
              | Some geo \<Rightarrow>
                  (let (any, img, m) = foldl (sync_d64_track (payload_size geo)) (False, image_bytes slot, media d)
                         [1..<unat (track_count geo) + 1];
                       d = put_image img (d\<lparr>media := m\<rparr>)
                   in (any, if any then mark_exported d else d)))"

text \<open>The loop over the half-tracks. The capacity of the buffer grows with the tracks; the second result
  tells that growing it failed, where the code returns at once.\<close>

primrec sync_g64_tracks ::
  "(media_alloc \<Rightarrow> bool) \<Rightarrow> nat list \<Rightarrow> nat \<Rightarrow> bool \<Rightarrow> u8 list \<Rightarrow> c1541_media \<Rightarrow> bool \<times> bool \<times> u8 list \<times> c1541_media" where
  "sync_g64_tracks mem [] pack_cap any img m = (any, False, img, m)"
| "sync_g64_tracks mem (i # is) pack_cap any img m =
     (let tr = halves m ! i; len = length (gcr_data tr)
      in if \<not> gcr_dirty tr \<or> len = 0 then sync_g64_tracks mem is pack_cap any img m
         else if pack_cap < len \<and> \<not> mem (Export_Buffer len) then (any, True, img, m)
         else
           (let pack_cap = max pack_cap len;
                start_bit = g64_find_export_sync_bit tr;
                start_bit = (if start_bit = - 1 then 0 else start_bit)
            in case g64_patch_half_track_in_image i (g64_pack_track_from_bit tr start_bit) img of
                 None \<Rightarrow> sync_g64_tracks mem is pack_cap any img m
               | Some img \<Rightarrow> sync_g64_tracks mem is pack_cap True img (clean_track i m)))"

definition c1541_media_sync_dirty_to_g64 :: "(media_alloc \<Rightarrow> bool) \<Rightarrow> c1541_board \<Rightarrow> bool \<times> c1541_board" where
  "c1541_media_sync_dirty_to_g64 mem d =
     (if \<not> enabled (media d) \<or> \<not> tracks_valid (media d) \<or> \<not> from_g64 (media d) then (False, d)
      else
        case drive_slot d of
          None \<Rightarrow> (False, d)
        | Some slot \<Rightarrow>
            if \<not> mounted slot \<or> image_ptr slot = 0 \<or> image_kind slot \<noteq> C64_DRIVE_IMAGE_G64 \<or> \<not> writable slot
            then (False, d)
            else
              (let (any, failed, img, m) = sync_g64_tracks mem [0..<C1541_MEDIA_HALF_SLOTS] 0 False (image_bytes slot) (media d);
                   d = put_image img (d\<lparr>media := m\<rparr>)
               in (any, if any \<and> \<not> failed then mark_exported d else d)))"

definition c1541_media_sync_dirty :: "(media_alloc \<Rightarrow> bool) \<Rightarrow> c1541_board \<Rightarrow> bool \<times> c1541_board" where
  "c1541_media_sync_dirty mem d =
     (case drive_slot d of
        Some slot \<Rightarrow> if image_kind slot = C64_DRIVE_IMAGE_G64 then c1541_media_sync_dirty_to_g64 mem d
                     else c1541_media_sync_dirty_to_d64 d
      | None \<Rightarrow> c1541_media_sync_dirty_to_d64 d)"

definition slot_is_writable :: "c1541_board \<Rightarrow> bool" where
  "slot_is_writable d = (case drive_slot d of None \<Rightarrow> False | Some slot \<Rightarrow> mounted slot \<and> writable slot)"

section \<open>The disk controller VIA\<close>

definition sample_motor :: "bool \<Rightarrow> c1541_media \<Rightarrow> c1541_media" where
  "sample_motor motor m =
     (let m = (if motor \<and> \<not> motor_on m then m\<lparr>motor_spin_left := C1541_MEDIA_SPINUP_CYCLES, motor_ready := False\<rparr> else m);
          m = (if \<not> motor then m\<lparr>motor_ready := False, motor_spin_left := 0\<rparr> else m)
      in m\<lparr>motor_on := motor\<rparr>)"

text \<open>The head moves to the next or the previous half-track, between the stops.\<close>

definition step_head :: "u8 \<Rightarrow> c1541_media \<Rightarrow> bool \<times> c1541_media" where
  "step_head phase m =
     (let diff = (phase - stepper_phase m) AND 3;
          (stepped, m) =
            (if diff = 1 then
               if half_track m < C1541_MEDIA_MAX_HALF_TRACK then (True, m\<lparr>half_track := half_track m + 1\<rparr>) else (False, m)
             else if diff = 3 then
               if C1541_MEDIA_MIN_HALF_TRACK < half_track m then (True, m\<lparr>half_track := half_track m - 1\<rparr>) else (False, m)
             else (False, m))
      in (stepped, m\<lparr>stepper_phase := phase, write_bits_left := 0\<rparr>))"

definition current_bits :: "c1541_media \<Rightarrow> u32" where
  "current_bits m = (case current_track m of None \<Rightarrow> 0 | Some k \<Rightarrow> track_bits (halves m ! k))"

definition engage_track :: "u32 \<Rightarrow> c1541_media \<Rightarrow> c1541_media" where
  "engage_track old_bits m =
     (if from_g64 m then
        (let new_bits = current_bits m
         in if old_bits \<noteq> 0 \<and> new_bits \<noteq> 0
            then m\<lparr>head_bit_pos := word_of_nat (unat (head_bit_pos m) * unat new_bits div unat old_bits)\<rparr>
            else m\<lparr>head_bit_pos := 0\<rparr>)
      else media_align_after_sync m)"

definition sample_stepper :: "(media_alloc \<Rightarrow> bool) \<Rightarrow> u8 \<Rightarrow> c1541_board \<Rightarrow> c1541_board" where
  "sample_stepper mem phase d =
     (if phase = stepper_phase (media d) then d
      else
        (let old_bits = current_bits (media d);
             prev_half = half_track (media d);
             (stepped, m) = step_head phase (media d);
             d = d\<lparr>media := m\<rparr>;
             d = (if stepped \<and> half_track (media d) \<noteq> prev_half then snd (c1541_media_sync_dirty mem d) else d)
         in update_media (engage_track old_bits) d))"

definition sample_write_gate :: "(media_alloc \<Rightarrow> bool) \<Rightarrow> c1541_board \<Rightarrow> c1541_board" where
  "sample_write_gate mem d =
     (let want_write = (ddra (via2 d) = 0xFF \<and> pcr (via2 d) AND 0xE0 = 0xC0 \<and> motor_ready (media d))
      in if want_write \<and> \<not> writing (media d) then
           update_media (\<lambda>m. m\<lparr>writing := True, write_bits_left := 0, bits_in_byte := 0, byte_ready := True,
             so_pulse := True, in_sync := False, write_sync_hold_left := 32\<rparr>) d
         else if \<not> want_write \<and> writing (media d) then
           snd (c1541_media_sync_dirty mem
             (update_media (\<lambda>m. m\<lparr>writing := False, write_bits_left := 0, bits_in_byte := 0, write_sync_hold_left := 0\<rparr>) d))
         else d)"

definition sample_disk_via_outputs :: "(media_alloc \<Rightarrow> bool) \<Rightarrow> c1541_board \<Rightarrow> c1541_board" where
  "sample_disk_via_outputs mem d =
     (let ob = orb (via2 d); db = ddrb (via2 d);
          out_b = ob AND db;
          motor = (db AND 0x04 \<noteq> 0 \<and> ob AND 0x04 \<noteq> 0);
          d = update_media (sample_motor motor) d;
          d = (if db AND 0x60 = 0x60 then update_media (\<lambda>m. m\<lparr>density := int (unat (drop_bit 5 out_b AND 0x03))\<rparr>) d else d);
          d = (if motor \<and> db AND 0x03 = 0x03 then sample_stepper mem (out_b AND 0x03) d else d)
      in sample_write_gate mem d)"

definition update_disk_via_inputs :: "c1541_board \<Rightarrow> c1541_board" where
  "update_disk_via_inputs d =
     (let m = media d;
          pb_in = (if attach_left m > 0 then 0
                   else case drive_slot d of
                          None \<Rightarrow> 0x10
                        | Some slot \<Rightarrow> if \<not> mounted slot \<or> slot_is_writable d then 0x10 else 0);
          pb_in = (if \<not> in_sync m \<or> attach_left m > 0 then pb_in OR 0x80 else pb_in);
          d = d\<lparr>via2 := via6522_set_port_b_inputs (via2 d) pb_in\<rparr>
      in if writing m then d
         else d\<lparr>via2 := via6522_set_port_a_inputs (via2 d) (if attach_left m > 0 then 0 else port_a_byte m)\<rparr>)"

section \<open>One cycle\<close>

definition extra_track_gcr_missing :: "c1541_media \<Rightarrow> c64_drive_slot \<Rightarrow> bool" where
  "extra_track_gcr_missing m slot =
     (if image_kind slot \<noteq> C64_DRIVE_IMAGE_D64 then False
      else
        case d64_geometry_from_size (length (image_bytes slot)) of
          None \<Rightarrow> False
        | Some geo \<Rightarrow>
            if track_count geo \<le> 35 then False
            else
              (let hs = whole_track_slot (int (unat (track_count geo)))
               in if hs < 0 then True else gcr_data (halves m ! nat hs) = []))"

definition ensure_tracks :: "(media_alloc \<Rightarrow> bool) \<Rightarrow> c1541_board \<Rightarrow> c1541_board" where
  "ensure_tracks mem d =
     (let m = media d
      in if \<not> enabled m then d
         else
           case drive_slot d of
             None \<Rightarrow> d
           | Some slot \<Rightarrow>
               if \<not> mounted slot \<or> image_ptr slot = 0 then d
               else if tracks_valid m \<and> built_from m = image_ptr slot \<and> built_size m = length (image_bytes slot) \<and>
                       built_from_seq m = image_content_seq slot \<and> \<not> extra_track_gcr_missing m slot
               then d
               else
                 (let (ok, m) =
                        (case image_kind slot of
                           C64_DRIVE_IMAGE_G64 \<Rightarrow> c1541_media_build_from_g64 mem (image_ptr slot) (image_bytes slot) m
                         | C64_DRIVE_IMAGE_D64 \<Rightarrow> c1541_media_build_from_d64 mem (image_ptr slot) (image_bytes slot) m
                         | _ \<Rightarrow> (False, m))
                  in if ok then
                       (let m = m\<lparr>built_from_seq := image_content_seq slot\<rparr>
                        in d\<lparr>media :=
                             (if attach_pending m then
                                m\<lparr>attach_pending := False, attach_left := C1541_MEDIA_ATTACH_DELAY, port_a_byte := 0,
                                  byte_ready := False, so_pulse := False, so_delay := 0, in_sync := False\<rparr>
                              else m\<lparr>attach_left := 0\<rparr>)\<rparr>)
                     else d\<lparr>media := m\<rparr>))"

definition advance_attach :: "c1541_media \<Rightarrow> c1541_media" where
  "advance_attach m =
     (if attach_left m > 0 then
        (let m = m\<lparr>attach_left := attach_left m - 1\<rparr>
         in if attach_left m = 0 then
              m\<lparr>bits_in_byte := 0, byte_ready := False, so_pulse := False, so_delay := 0, shifting_byte := 0,
                shift10 := 0, in_sync := False, port_a_byte := 0\<rparr>
            else m)
      else m)"

definition advance_motor :: "c1541_media \<Rightarrow> c1541_media" where
  "advance_motor m =
     (if motor_on m \<and> \<not> motor_ready m then
        (let m = (if motor_spin_left m > 0 then m\<lparr>motor_spin_left := motor_spin_left m - 1\<rparr> else m)
         in if motor_spin_left m = 0 then m\<lparr>motor_ready := True\<rparr> else m)
      else m)"

text \<open>The head passes one bit of the track.\<close>

definition advance_head :: "nat option \<Rightarrow> c1541_media \<Rightarrow> c1541_media" where
  "advance_head tri m =
     (case tri of
        None \<Rightarrow> m
      | Some k \<Rightarrow>
          (let m = m\<lparr>head_bit_pos := head_bit_pos m + 1\<rparr>
           in if head_bit_pos m \<ge> track_bits (halves m ! k) then m\<lparr>head_bit_pos := 0\<rparr> else m))"

definition read_cell :: "nat option \<Rightarrow> c1541_board \<Rightarrow> c1541_board" where
  "read_cell tri d =
     (let b = (case tri of None \<Rightarrow> False | Some k \<Rightarrow> track_bit (halves (media d) ! k) (head_bit_pos (media d)))
      in update_media (\<lambda>m. advance_head tri (media_shift_bit_read (pcr (via2 d)) b m)) d)"

definition write_cell_protected :: "nat option \<Rightarrow> c1541_media \<Rightarrow> c1541_media" where
  "write_cell_protected tri m =
     (if 0 < write_bits_left m then
        (let m = m\<lparr>write_shift := push_bit 1 (write_shift m), write_bits_left := write_bits_left m - 1\<rparr>;
             m = (if write_bits_left m = 0 then m\<lparr>byte_ready := True, so_pulse := True\<rparr> else m)
         in advance_head tri m)
      else m)"

definition write_cell :: "nat option \<Rightarrow> c1541_board \<Rightarrow> c1541_board" where
  "write_cell tri d =
     (if slot_is_writable d then
        (let latched = (0 < write_bits_left (media d));
             d = media_shift_bit_write tri d;
             m = media d;
             sync_hold_adv = (\<not> latched \<and> last_write_bit m \<and> 0 < write_sync_hold_left m);
             m = (if sync_hold_adv then m\<lparr>write_sync_hold_left := write_sync_hold_left m - 1\<rparr> else m)
         in d\<lparr>media := (if latched \<or> sync_hold_adv then advance_head tri m else m)\<rparr>)
      else update_media (write_cell_protected tri) d)"

text \<open>The loop of the bit clock; \<open>acc\<close> is the value of \<^verbatim>\<open>bit_acc\<close>, which the body changes only here.\<close>

function media_bit_loop :: "nat option \<Rightarrow> u32 \<Rightarrow> u32 \<Rightarrow> c1541_board \<Rightarrow> c1541_board" where
  "media_bit_loop tri boundary acc d =
     (if 0 < boundary \<and> boundary \<le> acc then
        (let before = acc - 16;
             d = update_media (\<lambda>m. m\<lparr>bit_event_ref := ref_cycle m + (boundary - before), bit_acc := acc - boundary\<rparr>) d;
             d = (if writing (media d) then write_cell tri d else read_cell tri d)
         in media_bit_loop tri boundary (acc - boundary) d)
      else update_media (\<lambda>m. m\<lparr>bit_acc := acc\<rparr>) d)"
  by pat_completeness auto
termination
  by (relation "measure (\<lambda>(tri, boundary, acc, d). unat acc)")
    (auto simp: word_less_nat_alt word_le_nat_alt unat_sub)

declare media_bit_loop.simps [simp del]

definition cycles_per_byte :: "nat option \<Rightarrow> c1541_board \<Rightarrow> int" where
  "cycles_per_byte tri d =
     (let m = media d;
          native = (case tri of None \<Rightarrow> density m
                    | Some k \<Rightarrow> (let g = gcr_density (halves m ! k) in if 0 \<le> g \<and> g \<le> 3 then g else density m));
          cpb = c1541_gcr_cycles_per_byte (if ddrb (via2 d) AND 0x60 = 0x60 then density m else native)
      in if cpb < 1 then 26 else cpb)"

definition media_rotate_g64 :: "c1541_board \<Rightarrow> c1541_board" where
  "media_rotate_g64 d =
     (let m = media d;
          advance = req_ref_cycles m AND 15;
          refs = 16 + advance;
          m = m\<lparr>req_ref_cycles := 0\<rparr>
      in if refs > ref_advance m then
           (let refs = refs - ref_advance m;
                m = m\<lparr>ref_advance := advance\<rparr>
            in d\<lparr>media := media_advance_g64_decoder (pcr (via2 d)) (current_track m) (unat refs) m\<rparr>)
         else d\<lparr>media := m\<lparr>ref_advance := ref_advance m - refs\<rparr>\<rparr>)"

definition media_rotate_simple :: "c1541_board \<Rightarrow> c1541_board" where
  "media_rotate_simple d =
     (let d = update_media (\<lambda>m. if 0 < so_delay m then
                (let m = m\<lparr>so_delay := so_delay m - 16\<rparr>
                 in if so_delay m \<le> 0 then m\<lparr>so_delay := 0, so_pulse := True\<rparr> else m)
              else m) d;
          tri = current_track (media d);
          cpb = cycles_per_byte tri d;
          d = update_media (\<lambda>m. m\<lparr>req_ref_cycles := 0\<rparr>) d;
          d = media_bit_loop tri (word_of_int cpb * 2) (bit_acc (media d) + 16) d
      in update_media (\<lambda>m. m\<lparr>ref_cycle := ref_cycle m + 16\<rparr>) d)"

definition c1541_media_step :: "(media_alloc \<Rightarrow> bool) \<Rightarrow> c1541_board \<Rightarrow> c1541_board" where
  "c1541_media_step mem d =
     (if \<not> enabled (media d) then d
      else
        (let d = ensure_tracks mem d;
             d = sample_disk_via_outputs mem d;
             d = update_media (\<lambda>m. advance_motor (advance_attach m)) d;
             m = media d;
             d = (if motor_ready m \<and> tracks_valid m \<and> attach_left m = 0 then
                    if \<not> writing m \<and> from_g64 m then media_rotate_g64 d else media_rotate_simple d
                  else d);
             d = update_disk_via_inputs d
         in if so_pulse (media d) then
              update_c64 (if writing (media d) then c64_disk_activity_write (device_number d)
                          else c64_disk_activity_read (device_number d)) d
            else d))"

section \<open>Calls from the drive\<close>

definition c1541_media_on_port_a_read :: "c1541_board \<Rightarrow> c1541_board" where
  "c1541_media_on_port_a_read d =
     (if \<not> enabled (media d) then d
      else if \<not> writing (media d) then update_media (\<lambda>m. m\<lparr>req_ref_cycles := 14, byte_ready := False\<rparr>) d
      else d)"

definition c1541_media_on_port_a_write :: "u8 \<Rightarrow> c1541_board \<Rightarrow> c1541_board" where
  "c1541_media_on_port_a_write value d =
     (if \<not> enabled (media d) then d
      else if \<not> writing (media d) then d
      else update_media (\<lambda>m. m\<lparr>write_shift := value, write_bits_left := 8, byte_ready := False, port_a_byte := value\<rparr>) d)"

definition c1541_media_physical_read_active :: "c1541_board \<Rightarrow> bool" where
  "c1541_media_physical_read_active d \<longleftrightarrow> enabled (media d) \<and> tracks_valid (media d)"

definition c1541_media_physical_write_active :: "c1541_board \<Rightarrow> bool" where
  "c1541_media_physical_write_active d \<longleftrightarrow> enabled (media d) \<and> tracks_valid (media d)"

definition c1541_media_poke_sector :: "u8 \<Rightarrow> u8 \<Rightarrow> u8 list \<Rightarrow> c1541_board \<Rightarrow> bool \<times> c1541_board" where
  "c1541_media_poke_sector track sector dat d =
     (let m = media d
      in if \<not> enabled m \<or> \<not> tracks_valid m \<or> from_g64 m then (False, d)
         else
           (let slot = drive_slot d;
                sz = (case slot of None \<Rightarrow> built_size m
                      | Some s \<Rightarrow> if image_ptr s \<noteq> 0 \<and> image_bytes s \<noteq> [] then length (image_bytes s) else built_size m)
            in case d64_geometry_from_size sz of
                 None \<Rightarrow> (False, d)
               | Some geo \<Rightarrow>
                   if track < 1 \<or> track_count geo < track then (False, d)
                   else
                     (let spt = c1541_gcr_sectors_per_track track;
                          d64_off = c1541_gcr_d64_sector_offset track sector
                      in if spt = 0 \<or> sector \<ge> word_of_nat spt then (False, d)
                         else if d64_off < 0 \<or> int (payload_size geo) < d64_off + 256 then (False, d)
                         else
                           case slot_track (whole_track_slot (int (unat track))) of
                             None \<Rightarrow> (False, d)
                           | Some k \<Rightarrow>
                               (let tr = halves m ! k;
                                    gcr = c1541_gcr_encode (c1541_gcr_make_data_raw dat);
                                    off = sector_data_gcr_offset track sector
                                in if gcr_data tr = [] then (False, d)
                                   else if length gcr \<noteq> 325 then (False, d)
                                   else if length (gcr_data tr) < off + 325 then (False, d)
                                   else
                                     (let tr = tr\<lparr>gcr_data := take off (gcr_data tr) @ gcr @ drop (off + 325) (gcr_data tr),
                                                  gcr_dirty := False\<rparr>;
                                          m = m\<lparr>halves := (halves m)[k := tr]\<rparr>;
                                          m = (case slot of None \<Rightarrow> m | Some s \<Rightarrow> cohere_cache s m)
                                      in (True, d\<lparr>media := m\<rparr>))))))"

end
