(* ===== verification/C1541_Drive.thy ===== *)
theory C1541_Drive
  imports C1541_Media C6510_Micro
begin

text \<open>
  The 1541 disk drive, \<^verbatim>\<open>src/src/c64/machine/c1541.c\<close>: a 6502 with 2 KB of memory, 16 KB of ROM, the serial
  VIA and the disk controller VIA, the medium, and the IEC bus to the C64.

  In the C structure the processor's \<^verbatim>\<open>user\<close> pointer leads back to the drive. Here the drive is the
  processor with the board as its \<open>user\<close>. The interrupt callback also looks at the program counter of the
  processor that calls it; it is installed with that program counter before each call that can poll
  (\<open>wire_irq\<close>), which is the value it would find, since both polls happen before the instruction starts.
\<close>

type_synonym c1541 = "c1541_board C6510"

abbreviation update_board :: "(c1541_board \<Rightarrow> c1541_board) \<Rightarrow> c1541 \<Rightarrow> c1541" where
  "update_board f drive \<equiv> drive\<lparr>user := f (user drive)\<rparr>"

abbreviation C1541_ZP_JOBS :: u16 where "C1541_ZP_JOBS \<equiv> 0x0000"

abbreviation C1541_ZP_HDRS :: u16 where "C1541_ZP_HDRS \<equiv> 0x0006"

abbreviation C1541_RAM_SECTOR_BUF :: u16 where "C1541_RAM_SECTOR_BUF \<equiv> 0x0300"

abbreviation C1541_JOB_CMD_MASK :: u8 where "C1541_JOB_CMD_MASK \<equiv> 0x78"

abbreviation C1541_JOB_CMD_WRITE :: u8 where "C1541_JOB_CMD_WRITE \<equiv> 0x10"

abbreviation C1541_JOB_OK :: u8 where "C1541_JOB_OK \<equiv> 0x01"

abbreviation C1541_JOB_ERROR :: u8 where "C1541_JOB_ERROR \<equiv> 0x02"

abbreviation C1541_JOB_WRITE_PROT :: u8 where "C1541_JOB_WRITE_PROT \<equiv> 0x08"

section \<open>The IEC bus\<close>

definition c1541_iec_pull_from_orb :: "u8 \<Rightarrow> u8 \<Rightarrow> bool \<Rightarrow> u8" where
  "c1541_iec_pull_from_orb db ob atn_low =
     (let drive_pull = 0;
          drive_pull = (if db AND 0x02 \<noteq> 0 \<and> ob AND 0x02 \<noteq> 0 then drive_pull OR C64_IEC_DATA else drive_pull);
          drive_pull = (if db AND 0x10 \<noteq> 0 \<and> (ob AND 0x10 \<noteq> 0) \<noteq> atn_low then drive_pull OR C64_IEC_DATA else drive_pull);
          drive_pull = (if db AND 0x08 \<noteq> 0 \<and> ob AND 0x08 \<noteq> 0 then drive_pull OR C64_IEC_CLK else drive_pull)
      in drive_pull)"

definition c1541_update_iec_bus :: "c1541_board \<Rightarrow> c1541_board" where
  "c1541_update_iec_bus d =
     (let c64_pull = c64_get_iec_c64_pull (c64 d);
          atn_from_c64 = (c64_pull AND C64_IEC_ATN \<noteq> 0);
          drive_pull_ext = c1541_iec_pull_from_orb (ddrb (via1 d)) (orb (via1 d)) atn_from_c64;
          d = update_c64 (c64_set_iec_drive_pull (device_number d) drive_pull_ext) d;
          drive_pull_self = c1541_iec_pull_from_orb (ddrb (via1 d)) (orb (via1 d)) atn_from_c64;
          bus_low = (c64_get_iec_pull_excluding_drive (c64 d) (device_number d) OR drive_pull_self) OR c64_pull;
          data_low = (bus_low AND C64_IEC_DATA \<noteq> 0);
          clk_low = (bus_low AND C64_IEC_CLK \<noteq> 0);
          atn_low = (bus_low AND C64_IEC_ATN \<noteq> 0);
          inputs = port_b_in (via1 d);
          inputs = (if data_low then inputs OR 0x01 else inputs AND NOT 0x01);
          inputs = (if clk_low then inputs OR 0x04 else inputs AND NOT 0x04);
          inputs = (if atn_low then inputs OR 0x80 else inputs AND NOT 0x80);
          d = d\<lparr>via1 := via6522_set_port_b_inputs (via1 d) inputs\<rparr>
      in d\<lparr>via1 := via6522_set_ca1 (via1 d) (if atn_low then 1 else 0)\<rparr>)"

section \<open>Bus callbacks\<close>

definition c1541_bus_read :: "c1541_board \<Rightarrow> u16 \<Rightarrow> u8 \<times> c1541_board" where
  "c1541_bus_read d addr =
     (if addr < 0x0800 then (ram d addr, d)
      else if addr < 0x1000 then (ram d (addr AND 0x07FF), d)
      else if 0x1C00 \<le> addr \<and> addr < 0x2000 then
        (let reg = ucast (addr AND 0x0F);
             (value, v) = via6522_read (via2 d) reg;
             d = d\<lparr>via2 := v\<rparr>
         in (value, if reg = 0x01 \<or> reg = 0x0F then c1541_media_on_port_a_read d else d))
      else if 0x1800 \<le> addr \<and> addr < 0x2000 then
        (let d = c1541_update_iec_bus d;
             (value, v) = via6522_read (via1 d) (ucast (addr AND 0x0F))
         in (value, d\<lparr>via1 := v\<rparr>))
      else if 0xC000 \<le> addr then (rom d (addr - 0xC000), d)
      else (0xFF, d))"

definition c1541_bus_write :: "c1541_board \<Rightarrow> u16 \<Rightarrow> u8 \<Rightarrow> c1541_board" where
  "c1541_bus_write d addr value =
     (if addr < 0x0800 then d\<lparr>ram := (ram d)(addr := value)\<rparr>
      else if addr < 0x1000 then d\<lparr>ram := (ram d)(addr AND 0x07FF := value)\<rparr>
      else if 0x1C00 \<le> addr \<and> addr < 0x2000 then
        (let reg = ucast (addr AND 0x0F);
             d = d\<lparr>via2 := via6522_write (via2 d) reg value\<rparr>
         in if reg = 0x01 \<or> reg = 0x0F then c1541_media_on_port_a_write value d else d)
      else if 0x1800 \<le> addr \<and> addr < 0x2000 then
        d\<lparr>via1 := via6522_write (via1 d) (ucast (addr AND 0x0F)) value\<rparr>
      else d)"

definition c1541_irq_pending :: "u16 \<Rightarrow> c1541_board \<Rightarrow> u8 \<times> c1541_board" where
  "c1541_irq_pending cpu_pc d =
     (let d = (if cpu_pc < 0xC000 \<and> (ifr (via2 d) AND ier (via2 d)) AND 0x40 \<noteq> 0 then
                 (let job_active = list_ex (\<lambda>n. ram d (C1541_ZP_JOBS + n) AND 0x80 \<noteq> 0) [0, 1, 2, 3, 4, 5]
                  in if job_active then d else d\<lparr>via2 := (via2 d)\<lparr>ifr := ifr (via2 d) AND NOT 0x40\<rparr>\<rparr>)
               else d)
      in (of_flag (via6522_irq_pending (via1 d) \<or> via6522_irq_pending (via2 d)), d))"

definition wire_irq :: "c1541 \<Rightarrow> c1541" where
  "wire_irq drive = c6510_set_irq_pending_callback (Some (c1541_irq_pending (pc drive))) drive"

section \<open>Queued write jobs\<close>

definition job_track :: "c1541_board \<Rightarrow> u8 \<Rightarrow> u8" where
  "job_track d n = ram d (C1541_ZP_HDRS + ucast n * 2)"

definition job_sector :: "c1541_board \<Rightarrow> u8 \<Rightarrow> u8" where
  "job_sector d n = ram d (C1541_ZP_HDRS + ucast n * 2 + 1)"

definition job_buffer :: "c1541_board \<Rightarrow> u8 \<Rightarrow> u8 list" where
  "job_buffer d n =
     (let buf_addr = C1541_RAM_SECTOR_BUF + ucast n * 0x0100 in map (\<lambda>k. ram d (buf_addr + word_of_nat k)) [0..<256])"

definition c1541_job_sector_offset :: "c1541_board \<Rightarrow> u8 \<Rightarrow> nat option" where
  "c1541_job_sector_offset d n =
     (case drive_slot d of
        None \<Rightarrow> None
      | Some slot \<Rightarrow>
          if \<not> mounted slot \<or> image_ptr slot = 0 \<or> image_bytes slot = [] then None
          else
            case d64_geometry_from_size (length (image_bytes slot)) of
              None \<Rightarrow> None
            | Some geo \<Rightarrow>
                (case d64_track_sector_offset (job_track d n) (job_sector d n) of
                   Inl _ \<Rightarrow> None
                 | Inr offset \<Rightarrow> if payload_size geo < offset + 256 then None else Some offset))"

definition c1541_copy_job_buffer_to_sector :: "u8 \<Rightarrow> c1541_board \<Rightarrow> u8 \<times> c1541_board" where
  "c1541_copy_job_buffer_to_sector n d =
     (case c1541_job_sector_offset d n of
        None \<Rightarrow> (C1541_JOB_ERROR, d)
      | Some offset \<Rightarrow>
          (case drive_slot d of
             None \<Rightarrow> (C1541_JOB_ERROR, d)
           | Some slot \<Rightarrow>
               if \<not> writable slot then (C1541_JOB_WRITE_PROT, d)
               else if replay_sealed (c64 d) then (C1541_JOB_OK, d)
               else
                 (let img = take offset (image_bytes slot) @ job_buffer d n @ drop (offset + 256) (image_bytes slot);
                      d = update_c64 (c64_get_drive_slot_mut (device_number d) (\<lambda>slot. slot\<lparr>image_bytes := img,
                            slot_dirty := True, image_content_seq := image_content_seq slot + 1\<rparr>)) d
                  in (C1541_JOB_OK, update_c64 (c64_notify_guest_media_write (device_number d)) d))))"

definition c1541_complete_queued_job :: "u8 \<Rightarrow> u8 \<Rightarrow> c1541_board \<Rightarrow> c1541_board" where
  "c1541_complete_queued_job n result d = d\<lparr>ram := (ram d)(C1541_ZP_JOBS + ucast n := result)\<rparr>"

definition c1541_pulse_write_led :: "c1541_board \<Rightarrow> c1541_board" where
  "c1541_pulse_write_led d = update_c64 (c64_disk_activity_write (device_number d)) d"

text \<open>The conditions on the slot pointer, which may be null.\<close>

definition image_is_g64 :: "c64_drive_slot option \<Rightarrow> bool" where
  "image_is_g64 slot = (case slot of None \<Rightarrow> False | Some slot \<Rightarrow> image_kind slot = C64_DRIVE_IMAGE_G64)"

definition slot_writable :: "c64_drive_slot option \<Rightarrow> bool" where
  "slot_writable slot = (case slot of None \<Rightarrow> False | Some slot \<Rightarrow> writable slot)"

definition c1541_satisfy_queued_job :: "u8 \<Rightarrow> c1541_board \<Rightarrow> bool \<times> c1541_board" where
  "c1541_satisfy_queued_job n d =
     (let raw = ram d (C1541_ZP_JOBS + ucast n)
      in if raw AND 0x80 = 0 \<or> raw = 0xD0 then (False, d)
         else if raw AND C1541_JOB_CMD_MASK \<noteq> C1541_JOB_CMD_WRITE then (False, d)
         else if image_is_g64 (drive_slot d) then
           if c1541_media_physical_write_active d \<and> slot_writable (drive_slot d) then (False, d)
           else (True, c1541_complete_queued_job n C1541_JOB_WRITE_PROT d)
         else
           (let (wr, d) = c1541_copy_job_buffer_to_sector n d;
                d = (if wr = C1541_JOB_OK \<and> c1541_media_physical_write_active d then
                       (let (ok, d) = c1541_media_poke_sector (job_track d n) (job_sector d n) (job_buffer d n) d
                        in if ok then d else update_media c1541_media_invalidate d)
                     else if wr = C1541_JOB_OK then update_media c1541_media_invalidate d
                     else d);
                d = (if wr = C1541_JOB_OK then c1541_pulse_write_led d else d)
            in (True, c1541_complete_queued_job n wr d)))"

definition c1541_satisfy_queued_jobs :: "c1541_board \<Rightarrow> c1541_board" where
  "c1541_satisfy_queued_jobs d = foldl (\<lambda>d n. snd (c1541_satisfy_queued_job n d)) d [0, 1, 2, 3, 4]"

section \<open>Lifecycle\<close>

definition c1541_init :: "c64_host \<Rightarrow> int \<Rightarrow> c1541" where
  "c1541_init host device =
     wire_irq (c6510_init
       \<lparr>via1 = via6522_init, via2 = via6522_init, ram = (\<lambda>_. 0), rom = (\<lambda>_. 0), rom_loaded = False, c64 = host,
        device_number = device, cpu_cycles_remaining = 0, via2_t1_pb7_last = False, media = c1541_media_init\<rparr>
       c1541_bus_read c1541_bus_write)"

definition c1541_rewire :: "c64_host \<Rightarrow> c1541 \<Rightarrow> c1541" where
  "c1541_rewire host drive =
     wire_irq (drive\<lparr>user := (user drive)\<lparr>c64 := host\<rparr>, read_fn := c1541_bus_read, write_fn := c1541_bus_write\<rparr>)"

definition c1541_reset :: "c1541 \<Rightarrow> c1541" where
  "c1541_reset drive =
     (let drive = update_board (\<lambda>d. d\<lparr>ram := (\<lambda>_. 0), via1 := via6522_reset (via1 d), via2 := via6522_reset (via2 d),
                    media := c1541_media_reset (media d)\<rparr>) drive;
          drive = update_board (\<lambda>d. if device_number d = 9
                    then d\<lparr>via1 := (via1 d)\<lparr>port_b_in := port_b_in (via1 d) OR 0x20\<rparr>\<rparr> else d) drive;
          drive = c6510_reset drive
      in update_board (\<lambda>d. d\<lparr>cpu_cycles_remaining := 0, via2_t1_pb7_last := t1_pb7_state (via2 d)\<rparr>) drive)"

text \<open>A file is \<open>None\<close> when it cannot be opened, otherwise its bytes; a short file clears the ROM. The bytes
  read before the failure are cleared too.\<close>

definition c1541_load_rom :: "u8 list option \<Rightarrow> c1541_board \<Rightarrow> bool \<times> c1541_board" where
  "c1541_load_rom file_bytes d =
     (case file_bytes of
        None \<Rightarrow> (False, d)
      | Some bs \<Rightarrow>
          if length bs < 16384 then (False, d\<lparr>rom := (\<lambda>_. 0)\<rparr>)
          else (True, d\<lparr>rom := (\<lambda>i. if unat i < 16384 then bs ! unat i else 0), rom_loaded := True\<rparr>))"

definition c1541_load_rom_split :: "u8 list option \<Rightarrow> u8 list option \<Rightarrow> c1541_board \<Rightarrow> bool \<times> c1541_board" where
  "c1541_load_rom_split file_lo file_hi d =
     (case file_lo of
        None \<Rightarrow> (False, d)
      | Some lo \<Rightarrow>
          if length lo < 8192 then (False, d\<lparr>rom := (\<lambda>_. 0)\<rparr>)
          else
            case file_hi of
              None \<Rightarrow> (False, d\<lparr>rom := (\<lambda>_. 0)\<rparr>)
            | Some hi \<Rightarrow>
                if length hi < 8192 then (False, d\<lparr>rom := (\<lambda>_. 0)\<rparr>)
                else (True, d\<lparr>rom := (\<lambda>i. if unat i < 8192 then lo ! unat i
                                          else if unat i < 16384 then hi ! (unat i - 8192) else 0),
                              rom_loaded := True\<rparr>))"

section \<open>One cycle\<close>

definition c1541_update_so :: "c1541 \<Rightarrow> c1541" where
  "c1541_update_so drive =
     (let d = user drive
      in if enabled (media d) \<and> tracks_valid (media d) then
           drive\<lparr>user := d\<lparr>via2_t1_pb7_last := t1_pb7_state (via2 d)\<rparr>\<rparr>
         else if t1_pb7_state (via2 d) \<noteq> via2_t1_pb7_last d then
           c6510_set_overflow (drive\<lparr>user := d\<lparr>via2_t1_pb7_last := t1_pb7_state (via2 d)\<rparr>\<rparr>)
         else drive)"

definition c1541_peek_opcode :: "c1541 \<Rightarrow> u8" where
  "c1541_peek_opcode drive =
     (let d = user drive; cpu_pc = pc drive
      in if cpu_pc < 0x0800 then ram d cpu_pc
         else if cpu_pc < 0x1000 then ram d (cpu_pc AND 0x07FF)
         else if 0xC000 \<le> cpu_pc \<and> rom_loaded d then rom d (cpu_pc - 0xC000)
         else 0xEA)"

definition clear_so_pulse :: "c1541 \<Rightarrow> c1541" where
  "clear_so_pulse drive = update_board (update_media (\<lambda>m. m\<lparr>so_pulse := False\<rparr>)) drive"

definition c1541_so_take_edge :: "c1541 \<Rightarrow> c1541" where
  "c1541_so_take_edge drive =
     (if \<not> enabled (media (user drive)) \<or> \<not> so_pulse (media (user drive)) then drive
      else c6510_set_overflow (clear_so_pulse drive))"

definition c1541_micro_step_with_so :: "c1541 \<Rightarrow> c1541" where
  "c1541_micro_step_with_so drive =
     (if \<not> micro_active drive then drive
      else
        (let op = micro_opcode drive; phase = micro_phase drive;
             drive = (if phase = 1 \<and> (op = BVC_rel \<or> op = BVS_rel \<or> op = PHP) then c1541_so_take_edge drive else drive);
             (finished, drive) = c6510_micro_step drive
         in if finished \<and> micro_opcode drive = CLV \<and> enabled (media (user drive)) then clear_so_pulse drive else drive))"

definition c1541_run_cpu_one_cycle :: "c1541 \<Rightarrow> c1541" where
  "c1541_run_cpu_one_cycle drive =
     (if micro_active drive then update_board c1541_update_iec_bus (c1541_micro_step_with_so drive)
      else if 0 < cpu_cycles_remaining (user drive) then
        update_board (\<lambda>d. d\<lparr>cpu_cycles_remaining := cpu_cycles_remaining d - 1\<rparr>) drive
      else
        (let drive = (if 0xF2B0 \<le> pc drive \<and> pc drive \<le> 0xF2F6 then update_board c1541_satisfy_queued_jobs drive else drive);
             (kind, drive) = c6510_micro_poll_interrupt (wire_irq drive)
         in if kind \<noteq> INTERRUPT_NONE then
              update_board c1541_update_iec_bus (c1541_micro_step_with_so (c6510_micro_begin_interrupt kind drive))
            else
              (let opcode = c1541_peek_opcode drive
               in if c6510_micro_can_begin drive opcode then
                    update_board c1541_update_iec_bus (c1541_micro_step_with_so (c6510_micro_begin drive))
                  else
                    (let (cycles, drive) = c6510_step (wire_irq drive);
                         drive = update_board (\<lambda>d. d\<lparr>cpu_cycles_remaining := (if cycles \<noteq> 0 then unat cycles else 1)\<rparr>) drive;
                         drive = update_board c1541_update_iec_bus drive
                     in update_board (\<lambda>d. d\<lparr>cpu_cycles_remaining := cpu_cycles_remaining d - 1\<rparr>) drive))))"

definition c1541_advance_one_cycle :: "(media_alloc \<Rightarrow> bool) \<Rightarrow> c1541 \<Rightarrow> c1541" where
  "c1541_advance_one_cycle mem drive =
     (if \<not> rom_loaded (user drive) then drive
      else
        (let drive = update_board (\<lambda>d. update_media (\<lambda>m. m\<lparr>enabled := emulate_1541 (c64 d)\<rparr>) d) drive;
             drive = update_board (\<lambda>d. d\<lparr>via1 := via6522_step (via1 d), via2 := via6522_step (via2 d)\<rparr>) drive;
             drive = (if enabled (media (user drive)) then update_board (c1541_media_step mem) drive else drive);
             drive = c1541_update_so drive;
             drive = update_board c1541_update_iec_bus drive;
             drive = c1541_run_cpu_one_cycle drive
         in if enabled (media (user drive)) \<and> so_pulse (media (user drive))
            then c6510_set_overflow (clear_so_pulse drive) else drive))"

definition c1541_debug_read_map :: "c1541_board \<Rightarrow> u16 \<Rightarrow> u8 option" where
  "c1541_debug_read_map d address =
     (if address < 0x0800 then Some (ram d address)
      else if address < 0x1000 then Some (ram d (address AND 0x07FF))
      else if 0x1C00 \<le> address \<and> address < 0x2000 then
        Some (via6522_debug_read_register (via2 d) (ucast (address AND 0x0F)))
      else if 0x1800 \<le> address \<and> address < 0x2000 then
        Some (via6522_debug_read_register (via1 d) (ucast (address AND 0x0F)))
      else if 0xC000 \<le> address \<and> rom_loaded d then Some (rom d (address - 0xC000))
      else None)"

end
