(* ===== verification/C1541_Bus.thy ===== *)
theory C1541_Bus
  imports C1541_Drive C6510_Stack
begin

text \<open>
  The 1541 on its two buses. The drive's memory is the stack memory the processor asks for, so that
  returns undo calls and interrupts on the drive; the monitor's view of the address space is what the
  processor reads; and the C64 and the drive always see the same levels on the IEC lines.
\<close>

section \<open>The processor bus\<close>

lemma iec_frame [simp]:
  "ram (c1541_update_iec_bus d) = ram d" "rom (c1541_update_iec_bus d) = rom d" "via2 (c1541_update_iec_bus d) = via2 d"
  "media (c1541_update_iec_bus d) = media d" "rom_loaded (c1541_update_iec_bus d) = rom_loaded d"
  "device_number (c1541_update_iec_bus d) = device_number d"
  by (simp_all add: c1541_update_iec_bus_def Let_def)

lemma port_a_frame [simp]:
  "ram (c1541_media_on_port_a_read d) = ram d" "ram (c1541_media_on_port_a_write v d) = ram d"
  by (simp_all add: c1541_media_on_port_a_read_def c1541_media_on_port_a_write_def)

lemma bus_read_ram: "ram (snd (c1541_bus_read d a)) = ram d"
  by (simp add: c1541_bus_read_def Let_def split_beta)

lemma page_one_is_ram: "(a :: u16) < 0x200 \<Longrightarrow> a < 0x800"
  by (simp add: word_less_nat_alt)

interpretation drive_stack: stack_memory c1541_bus_read c1541_bus_write ram
  by unfold_locales (simp add: c1541_bus_read_def page_one_is_ram, simp add: bus_read_ram,
    simp add: c1541_bus_write_def page_one_is_ram)

text \<open>
  C31. Subroutines return on the drive: after \<^verbatim>\<open>JSR\<close>, any code that brings the stack pointer back and has not
  overwritten the two bytes of the return address makes \<^verbatim>\<open>RTS\<close> continue after the \<^verbatim>\<open>JSR\<close> with the stack
  pointer as before the call. \<open>c\<close> is the processor after the fetch of the opcode.
\<close>

theorem drive_subroutine_returns:
  fixes c n :: c1541
  assumes "read_fn c = c1541_bus_read" "write_fn c = c1541_bus_write" "stack_ok c" "read_fn n = c1541_bus_read"
    and "sp n = sp (exec_opcode JSR_abs c)"
    and "\<And>a. a \<in> {sp c, sp_dec (sp c)} \<Longrightarrow> ram (user n) a = ram (user (exec_opcode JSR_abs c)) a"
  shows "pc (exec_opcode RTS n) = pc c + 2 \<and> sp (exec_opcode RTS n) = sp c"
  using assms by (rule drive_stack.subroutine_returns)

lemma init_wiring:
  "stack_ok (c1541_init host dev)" "read_fn (c1541_init host dev) = c1541_bus_read" "write_fn (c1541_init host dev) = c1541_bus_write"
  by (simp_all add: stack_ok_def c1541_init_def wire_irq_def c6510_set_irq_pending_callback_def c6510_init_def)

theorem drive_subroutine_returns_witness:
  "let c = c1541_init (one_disk []) 8; n = exec_opcode JSR_abs c
   in pc (exec_opcode RTS n) = pc c + 2 \<and> sp (exec_opcode RTS n) = sp c"
  unfolding Let_def
proof (rule drive_subroutine_returns)
  show "read_fn (exec_opcode JSR_abs (c1541_init (one_disk []) 8)) = c1541_bus_read"
    by (simp add: jsr_body jsr_a16_def ah_read_pc_def pc_lo_to_stack_def pc_hi_to_stack_def read_sp_def al_read_pc_def bus_defs
        Let_def split_beta init_wiring)
qed (simp_all add: init_wiring)

text \<open>
  C32. Interrupts are transparent on the drive: after an interrupt entry, any handler that brings the stack
  pointer back and has not overwritten the three bytes of the frame makes \<^verbatim>\<open>RTI\<close> resume at the interrupted
  instruction with the stack pointer and the flags of the interrupted program (the break flag reads as
  clear and the unused flag as set).
\<close>

theorem drive_interrupt_returns:
  fixes c n :: c1541
  assumes "read_fn c = c1541_bus_read" "write_fn c = c1541_bus_write" "stack_ok c" "read_fn n = c1541_bus_read"
    and "sp n = sp (push_interrupt_frame c)"
    and "\<And>a. a \<in> {sp c, sp_dec (sp c), sp_dec (sp_dec (sp c))} \<Longrightarrow> ram (user n) a = ram (user (push_interrupt_frame c)) a"
  shows "pc (exec_opcode RTI n) = pc c \<and> sp (exec_opcode RTI n) = sp c \<and>
    cpu_flags (exec_opcode RTI n) = (cpu_flags c AND NOT 0x10) OR 0x20"
  using assms by (rule drive_stack.interrupt_returns)

theorem drive_interrupt_returns_witness:
  "let c = c1541_init (one_disk []) 8; n = push_interrupt_frame c
   in pc (exec_opcode RTI n) = pc c \<and> sp (exec_opcode RTI n) = sp c \<and>
      cpu_flags (exec_opcode RTI n) = (cpu_flags c AND NOT 0x10) OR 0x20"
  unfolding Let_def
proof (rule drive_interrupt_returns)
  show "read_fn (push_interrupt_frame (c1541_init (one_disk []) 8)) = c1541_bus_read"
    by (simp add: push_interrupt_frame_def pc_lo_to_stack_def pc_hi_to_stack_def read_sp_def bus_defs Let_def split_beta init_wiring)
qed (simp_all add: init_wiring)

section \<open>The monitor's view\<close>

lemma nibble_reg [simp]: "ucast (a AND 0x0F :: u16) AND (0x0F :: u8) = ucast (a AND 0x0F)"
  by (auto simp: u8_eq_bits bit_simps)

lemma debug_read_fst: "fst (via6522_read v reg) = via6522_debug_read_register v reg"
  by (simp add: via6522_read_def via6522_debug_read_register_def Let_def)

text \<open>
  C33. The debugger and the processor see the same drive: at every address that is mapped, the byte the
  monitor shows of the board, once its IEC inputs are up to date, is the byte the processor reads from
  the bus; unmapped addresses are reported as such. The opcode that \<^verbatim>\<open>c1541_peek_opcode\<close> uses to choose
  the executor is the one the processor fetches from memory; elsewhere
  it is a \<^verbatim>\<open>NOP\<close>.
\<close>

theorem drive_debug_read_agrees:
  "c1541_debug_read_map (c1541_update_iec_bus d) a =
     (if a < 0x1000 \<or> 0x1800 \<le> a \<and> a < 0x2000 \<or> 0xC000 \<le> a \<and> rom_loaded d
      then Some (fst (c1541_bus_read d a)) else None) \<and>
   c1541_peek_opcode drive =
     (if pc drive < 0x1000 \<or> 0xC000 \<le> pc drive \<and> rom_loaded (user drive)
      then fst (c1541_bus_read (user drive) (pc drive)) else 0xEA)"
proof -
  have "\<not> a < 0x1000" "\<not> a < 0x800" if "0x1800 \<le> a" for a :: u16
    using that by (simp_all add: word_less_nat_alt word_le_nat_alt)
  moreover have "\<not> (0x1800 \<le> a \<and> a < 0x2000)" "\<not> (0x1C00 \<le> a \<and> a < 0x2000)" "\<not> a < 0x1000" "\<not> a < 0x800" if "0xC000 \<le> a" for a :: u16
    using that by (auto simp add: word_less_nat_alt word_le_nat_alt)
  moreover have "a < 0x800 \<Longrightarrow> a < 0x1000" "0x1C00 \<le> a \<Longrightarrow> 0x1800 \<le> a" for a :: u16
    by (simp_all add: word_less_nat_alt word_le_nat_alt)
  ultimately show ?thesis
    by (auto simp: c1541_debug_read_map_def c1541_bus_read_def c1541_peek_opcode_def Let_def split_beta debug_read_fst)
qed

section \<open>The IEC bus\<close>

lemma bit_drive_pull:
  "bit (c1541_iec_pull_from_orb db ob atn) 2 \<longleftrightarrow> bit db 1 \<and> bit ob 1 \<or> bit db 4 \<and> bit ob 4 \<noteq> atn"
  "bit (c1541_iec_pull_from_orb db ob atn) (Suc 0) \<longleftrightarrow> bit db 3 \<and> bit ob 3"
  "\<not> bit (c1541_iec_pull_from_orb db ob atn) 0"
  by (auto simp: c1541_iec_pull_from_orb_def Let_def and_bit_mask bit_simps)

text \<open>The lines after the drive has put its outputs on the bus: who pulls them.\<close>

definition other_pull :: "c1541_board \<Rightarrow> u8" where
  "other_pull d = c64_get_iec_pull_excluding_drive (c64 d) (device_number d)"

lemma pull_frame [simp]:
  "drives (c64_set_iec_drive_pull dev lines h) = drives h" "cia2_pra (c64_set_iec_drive_pull dev lines h) = cia2_pra h"
  "cia2_ddra (c64_set_iec_drive_pull dev lines h) = cia2_ddra h"
  "iec_external_pull_other (c64_set_iec_drive_pull dev lines h) = iec_external_pull_other h"
  by (simp_all add: c64_set_iec_drive_pull_def c64_refresh_iec_external_pull_def Let_def)

lemma iec_active_drives: "drives h = drives h' \<Longrightarrow> c64_drive_iec_active h device = c64_drive_iec_active h' device"
  by (simp add: c64_drive_iec_active_def split: option.split)

lemma excluded_pull:
  assumes "dev = 8 \<or> dev = 9"
  shows "c64_get_iec_pull_excluding_drive (c64_set_iec_drive_pull dev lines h) dev = c64_get_iec_pull_excluding_drive h dev"
proof -
  have "c64_drive_bus_pull (c64_set_iec_drive_pull 8 lines h) 1 = c64_drive_bus_pull h 1"
    "c64_drive_bus_pull (c64_set_iec_drive_pull 9 lines h) 0 = c64_drive_bus_pull h 0"
    using iec_active_drives [of "c64_set_iec_drive_pull 8 lines h" h] iec_active_drives [of "c64_set_iec_drive_pull 9 lines h" h]
    by (simp_all add: c64_drive_bus_pull_def) (simp_all add: c64_set_iec_drive_pull_def c64_refresh_iec_external_pull_def Let_def)
  then show ?thesis using assms by (auto simp: c64_get_iec_pull_excluding_drive_def)
qed

lemma line_inputs:
  fixes inputs :: u8 and data clk atn :: bool
  defines "x \<equiv> (if data then inputs OR 0x01 else inputs AND NOT 0x01)"
  defines "y \<equiv> (if clk then x OR 0x04 else x AND NOT 0x04)"
  defines "z \<equiv> (if atn then y OR 0x80 else y AND NOT 0x80)"
  shows "bit z 0 = data" "bit z 2 = clk" "bit z 7 = atn"
  by (simp_all add: z_def y_def x_def bit_simps)

lemma port_b_ca1 [simp]: "port_b_in (via6522_set_ca1 v level) = port_b_in v" "port_b_in (via6522_set_port_b_inputs v x) = x"
  by (simp_all add: via6522_set_ca1_def via6522_set_port_b_inputs_def Let_def)

lemma update_iec_inputs:
  fixes d :: c1541_board
  defines "d' \<equiv> c1541_update_iec_bus d"
    and "self \<equiv> c1541_iec_pull_from_orb (ddrb (via1 d)) (orb (via1 d)) (bit (c64_cia2_iec_output_pull (c64 d)) 0)"
  defines "low \<equiv> (other_pull d OR self) OR c64_cia2_iec_output_pull (c64 d)"
  assumes "device_number d = 8 \<or> device_number d = 9"
  shows "bit (port_b_in (via1 d')) 0 \<longleftrightarrow> bit low 2" "bit (port_b_in (via1 d')) 2 \<longleftrightarrow> bit low 1" "bit (port_b_in (via1 d')) 7 \<longleftrightarrow> bit low 0"
    "c64 d' = c64_set_iec_drive_pull (device_number d) self (c64 d)"
  using excluded_pull [OF assms(4)] unfolding d'_def low_def self_def other_pull_def
  by (simp_all add: c1541_update_iec_bus_def Let_def line_inputs and_bit_mask c64_get_iec_c64_pull_def)

text \<open>
  C30. The IEC bus is a wired OR that both sides read alike. After the drive has synchronised with the bus,
  it senses a line low exactly when the C64, the drive itself or another device pulls it, and for CLK and
  DATA the C64 senses the same on the input pins of CIA 2. While the C64 asserts ATN, a drive whose
  acknowledge output is low holds DATA low.
\<close>

theorem iec_wired_or:
  fixes d :: c1541_board
  defines "d' \<equiv> c1541_update_iec_bus d"
    and "self \<equiv> c1541_iec_pull_from_orb (ddrb (via1 d)) (orb (via1 d)) (bit (c64_cia2_iec_output_pull (c64 d)) 0)"
  assumes "device_number d = 8 \<or> device_number d = 9" "c64_drive_iec_active (c64 d) (word_of_int (device_number d))"
    and "\<not> bit (cia2_ddra (c64 d)) 6" "\<not> bit (cia2_ddra (c64 d)) 7"
  shows "(bit (port_b_in (via1 d')) 0 \<longleftrightarrow> bit (other_pull d) 2 \<or> bit self 2 \<or> bit (c64_cia2_iec_output_pull (c64 d)) 2) \<and>
    (bit (port_b_in (via1 d')) 2 \<longleftrightarrow> bit (other_pull d) 1 \<or> bit self 1 \<or> bit (c64_cia2_iec_output_pull (c64 d)) 1) \<and>
    (bit (port_b_in (via1 d')) 7 \<longleftrightarrow> bit (other_pull d) 0 \<or> bit (c64_cia2_iec_output_pull (c64 d)) 0) \<and>
    (bit (c64_cia2_port_inputs (c64 d') 0) 7 \<longleftrightarrow> bit (port_b_in (via1 d')) 0) \<and>
    (bit (c64_cia2_port_inputs (c64 d') 0) 6 \<longleftrightarrow> bit (port_b_in (via1 d')) 2) \<and>
    (bit (c64_cia2_iec_output_pull (c64 d)) 0 \<and> bit (ddrb (via1 d)) 4 \<and> \<not> bit (orb (via1 d)) 4 \<longrightarrow> bit (port_b_in (via1 d')) 0)"
proof -
  note inputs = update_iec_inputs [OF assms(3), folded self_def d'_def]
  have pull: "c64_cia2_iec_output_pull (c64 d') = c64_cia2_iec_output_pull (c64 d)"
    by (simp add: inputs(4) c64_cia2_iec_output_pull_def)
  have ext: "bit (iec_external_pull (c64 d')) n \<longleftrightarrow> bit (other_pull d) n \<or> bit self n" if "n = 1 \<or> n = 2" for n
    using assms(3,4) that
    by (auto simp: inputs(4) c64_set_iec_drive_pull_def c64_refresh_iec_external_pull_def Let_def bit_line_mask bit_or_iff
        c64_drive_bus_pull_def other_pull_def c64_get_iec_pull_excluding_drive_def iec_active_drives [of "h\<lparr>iec_external_pull_drive8 := x\<rparr>" h for h x]
        iec_active_drives [of "h\<lparr>iec_external_pull_drive9 := x\<rparr>" h for h x])
  have ddra: "cia2_ddra (c64 d') = cia2_ddra (c64 d)" by (simp add: inputs(4))
  have "bit (c64_cia2_port_inputs (c64 d') 0) 7 \<longleftrightarrow> bit (c64_cia2_iec_output_pull (c64 d)) 2 \<or> bit (iec_external_pull (c64 d')) 2"
    "bit (c64_cia2_port_inputs (c64 d') 0) 6 \<longleftrightarrow> bit (c64_cia2_iec_output_pull (c64 d)) 1 \<or> bit (iec_external_pull (c64 d')) 1"
    using assms(5,6) by (auto simp: c64_cia2_port_inputs_def Let_def pull ddra and_bit_mask bit_simps)
  then show ?thesis using ext [of 1] ext [of 2] inputs(1-3) by (auto simp: bit_or_iff self_def bit_drive_pull)
qed

theorem iec_wired_or_witness:
  "let d = (user (c1541_init (one_disk []) 8))\<lparr>c64 := (one_disk [])\<lparr>cia2_pra := 0x08\<rparr>, via1 := via6522_init\<lparr>ddrb := 0x1A\<rparr>\<rparr>
   in bit (port_b_in (via1 (c1541_update_iec_bus d))) 0 \<and> bit (c64_cia2_port_inputs (c64 (c1541_update_iec_bus d)) 0) 7"
proof -
  let ?d = "(user (c1541_init (one_disk []) 8))\<lparr>c64 := (one_disk [])\<lparr>cia2_pra := 0x08\<rparr>, via1 := via6522_init\<lparr>ddrb := 0x1A\<rparr>\<rparr>"
  have d: "device_number ?d = 8" "c64_drive_iec_active (c64 ?d) (word_of_int (device_number ?d))" "\<not> bit (cia2_ddra (c64 ?d)) 6"
    "\<not> bit (cia2_ddra (c64 ?d)) 7" "bit (c64_cia2_iec_output_pull (c64 ?d)) 0" "bit (ddrb (via1 ?d)) 4" "\<not> bit (orb (via1 ?d)) 4"
    by (simp_all add: c1541_init_def wire_irq_def c6510_set_irq_pending_callback_def c6510_init_def one_disk_def
        c64_drive_iec_active_def bit_output_pull via6522_init_def bit_simps)
  show ?thesis unfolding Let_def using iec_wired_or [OF disjI1 [OF d(1)] d(2-4)] d(5-7) by blast
qed

end
