(* ===== verification/C1541_Layout.thy ===== *)
theory C1541_Layout
  imports C1541_Media D64_Layout
begin

text \<open>
  The tracks built from a D64 image: nothing of a sector is cut off, every data block lies where the code
  that rewrites it expects it, rewriting one equals building the track from the changed image, and the
  head that passes over a block delivers bytes that decode to the sector of the image.
\<close>

section \<open>The layout of a track\<close>

text \<open>What \<^verbatim>\<open>build_one_track\<close> puts on the track for one sector.\<close>

definition header_gcr :: "u8 \<Rightarrow> u8 \<Rightarrow> u8 \<Rightarrow> nat \<Rightarrow> u8 list" where
  "header_gcr track id_lo id_hi sec = c1541_gcr_encode (c1541_gcr_make_header_raw track (word_of_nat sec) id_lo id_hi)"

definition sector_gcr :: "u8 list \<Rightarrow> u8 list" where
  "sector_gcr sector = c1541_gcr_encode (c1541_gcr_make_data_raw sector)"

definition track_gap :: "u8 \<Rightarrow> nat" where
  "track_gap track = d64_gap_for_density (c1541_gcr_density_for_track track)"

definition sector_cells :: "u8 \<Rightarrow> u8 \<Rightarrow> u8 \<Rightarrow> (nat \<Rightarrow> u8 list) \<Rightarrow> nat \<Rightarrow> u8 list" where
  "sector_cells track id_lo id_hi content sec =
     replicate 5 0xFF @ header_gcr track id_lo id_hi sec @ replicate 9 0x55 @ replicate 5 0xFF @
     sector_gcr (content sec) @ replicate (track_gap track) 0x55"

abbreviation cell_bytes :: "u8 \<Rightarrow> nat" where "cell_bytes track \<equiv> 354 + track_gap track"

lemma header_gcr_length: "length (header_gcr track id_lo id_hi sec) = 10"
  using encode_groups [of "c1541_gcr_make_header_raw track (word_of_nat sec) id_lo id_hi" 0 "[]"]
    length_groups [of "c1541_gcr_make_header_raw track (word_of_nat sec) id_lo id_hi"]
  by (simp add: header_gcr_def c1541_gcr_encode_def c1541_gcr_make_header_raw_def)

lemma data_raw_length: "length sector = 256 \<Longrightarrow> length (c1541_gcr_make_data_raw sector) = 260"
  by (simp add: c1541_gcr_make_data_raw_def)

lemma sector_gcr_groups: "length sector = 256 \<Longrightarrow> sector_gcr sector = gcr_groups (c1541_gcr_make_data_raw sector)"
  using encode_groups [of "c1541_gcr_make_data_raw sector" 0 "[]"]
  by (simp add: sector_gcr_def c1541_gcr_encode_def data_raw_length)

lemma sector_gcr_length: "length sector = 256 \<Longrightarrow> length (sector_gcr sector) = 325"
  using length_groups [of "c1541_gcr_make_data_raw sector"] by (simp add: sector_gcr_groups data_raw_length)

lemma sector_cells_length: "length (content sec) = 256 \<Longrightarrow> length (sector_cells track id_lo id_hi content sec) = cell_bytes track"
  by (simp add: sector_cells_def header_gcr_length sector_gcr_length)

lemma append_bytes_fits: "length buf + length src \<le> cap \<Longrightarrow> append_bytes cap src buf = buf @ src"
  by (simp add: append_bytes_def)

lemma append_fill_fits: "length buf + n \<le> cap \<Longrightarrow> append_fill cap v n buf = buf @ replicate n v"
  by (simp add: append_fill_def min_def)

lemma build_sector_fits:
  assumes "length buf + cell_bytes track \<le> cap" "length (image_sector track img payload (word_of_nat sec)) = 256"
  shows "build_sector cap track img payload id_lo id_hi sec buf =
    Some (buf @ sector_cells track id_lo id_hi (\<lambda>sec. image_sector track img payload (word_of_nat sec)) sec)"
  using assms header_gcr_length [of track id_lo id_hi sec] sector_gcr_length [OF assms(2)]
  by (simp add: build_sector_def Let_def sector_cells_def append_bytes_fits append_fill_fits track_gap_def
      header_gcr_def [symmetric] sector_gcr_def [symmetric])

lemma build_sectors_fits:
  assumes "\<And>sec. length (image_sector track img payload (word_of_nat sec)) = 256"
  shows "length buf + length secs * cell_bytes track \<le> cap \<Longrightarrow>
    build_sectors cap track img payload id_lo id_hi secs buf =
      Some (buf @ concat (map (sector_cells track id_lo id_hi (\<lambda>sec. image_sector track img payload (word_of_nat sec))) secs))"
proof (induction secs arbitrary: buf)
  case (Cons sec secs)
  have "length buf + cell_bytes track \<le> cap" using Cons.prems by simp
  from build_sector_fits [OF this assms [of sec], of id_lo id_hi] show ?case
    using Cons.prems by (simp add: Cons.IH sector_cells_length assms)
qed simp

text \<open>The zones: all sectors of a track fit into one revolution.\<close>

lemma zone_cases:
  assumes "1 \<le> track" "track \<le> 42"
  obtains "d64_sectors_per_track track = 21" "c1541_gcr_density_for_track track = 3"
  | "d64_sectors_per_track track = 19" "c1541_gcr_density_for_track track = 2"
  | "d64_sectors_per_track track = 18" "c1541_gcr_density_for_track track = 1"
  | "d64_sectors_per_track track = 17" "c1541_gcr_density_for_track track = 0"
proof -
  define n where "n = unat track"
  have n: "1 \<le> n" "n \<le> 42" using assms by (simp_all add: n_def word_le_nat_alt)
  have spt: "d64_sectors_per_track track = d64_spt ! (n - 1)" using n by (simp add: d64_sectors_per_track_def n_def word_less_nat_alt)
  have dens: "c1541_gcr_density_for_track track = (if n \<le> 17 then 3 else if n \<le> 24 then 2 else if n \<le> 30 then 1 else 0)"
    by (simp add: c1541_gcr_density_for_track_def n_def word_le_nat_alt)
  have "n \<in> {1..17} \<or> n \<in> {18..24} \<or> n \<in> {25..30} \<or> n \<in> {31..42}" using n by auto
  moreover have "d64_spt ! (n - 1) = 21" if "n \<in> {1..17}"
    using that by (auto simp: d64_spt_def numeral_eq_Suc less_Suc_eq le_Suc_eq)
  moreover have "d64_spt ! (n - 1) = 19" if "n \<in> {18..24}"
    using that by (auto simp: d64_spt_def numeral_eq_Suc less_Suc_eq le_Suc_eq)
  moreover have "d64_spt ! (n - 1) = 18" if "n \<in> {25..30}"
    using that by (auto simp: d64_spt_def numeral_eq_Suc less_Suc_eq le_Suc_eq)
  moreover have "d64_spt ! (n - 1) = 17" if "n \<in> {31..42}"
    using that by (auto simp: d64_spt_def numeral_eq_Suc less_Suc_eq le_Suc_eq)
  ultimately show ?thesis using that spt dens by auto
qed

lemma track_fits:
  assumes "1 \<le> track" "track \<le> 42"
  shows "d64_sectors_per_track track * cell_bytes track \<le> track_target_bytes (c1541_gcr_density_for_track track)"
    "0 < d64_sectors_per_track track" "d64_sectors_per_track track \<le> 21"
    "track_target_bytes (c1541_gcr_density_for_track track) \<le> 8192"
  by (rule zone_cases [OF assms]; simp add: track_gap_def d64_gap_for_density_def track_target_bytes_def c1541_gcr_cycles_per_byte_def)+

lemma image_sector_length: "payload \<le> length img \<Longrightarrow> length (image_sector track img payload sec) = 256"
  by (auto simp: image_sector_def Let_def nat_less_iff min_def)

text \<open>The track of a sector function, with its filling up to the length of a revolution.\<close>

definition track_of :: "u8 \<Rightarrow> u8 \<Rightarrow> u8 \<Rightarrow> (nat \<Rightarrow> u8 list) \<Rightarrow> c1541_track" where
  "track_of track id_lo id_hi content =
     (let cells = concat (map (sector_cells track id_lo id_hi content) [0..<d64_sectors_per_track track]);
          dens = c1541_gcr_density_for_track track
      in \<lparr>gcr_data = cells @ replicate (track_target_bytes dens - length cells) 0x55, gcr_density = dens, gcr_dirty = False\<rparr>)"

lemma build_one_track_eq:
  assumes "1 \<le> track" "track \<le> 42" "payload \<le> length img"
  shows "build_one_track mem track img payload id_lo id_hi =
    (if mem (Track_Buffer (track_target_bytes (c1541_gcr_density_for_track track)))
     then Some (track_of track id_lo id_hi (\<lambda>sec. image_sector track img payload (word_of_nat sec))) else None)"
  using track_fits [OF assms(1,2)] build_sectors_fits [of track img payload "[]" "[0..<d64_sectors_per_track track]"] image_sector_length [OF assms(3)]
  by (simp add: build_one_track_def Let_def track_of_def c1541_gcr_sectors_per_track_def)

lemma cells_length:
  assumes "\<And>sec. length (content sec) = 256"
  shows "length (concat (map (sector_cells track id_lo id_hi content) secs)) = length secs * cell_bytes track"
  by (induction secs) (simp_all add: sector_cells_length assms)

lemma track_of_length:
  assumes "1 \<le> track" "track \<le> 42" "\<And>sec. length (content sec) = 256"
  shows "length (gcr_data (track_of track id_lo id_hi content)) = track_target_bytes (c1541_gcr_density_for_track track)"
  using track_fits(1) [OF assms(1,2)] by (simp add: track_of_def Let_def cells_length assms(3))

text \<open>The cells of one sector, with what lies before and after them.\<close>

lemma track_of_split:
  assumes "1 \<le> track" "track \<le> 42" "\<And>sec. length (content sec) = 256" "sec < d64_sectors_per_track track"
  obtains before after where
    "gcr_data (track_of track id_lo id_hi content) = before @ replicate 5 0xFF @ sector_gcr (content sec) @ after"
    "length before + 5 = sec * cell_bytes track + 29"
    "\<forall>content'. (\<forall>s. length (content' s) = 256) \<longrightarrow> (\<forall>s < d64_sectors_per_track track. s \<noteq> sec \<longrightarrow> content' s = content s) \<longrightarrow>
      gcr_data (track_of track id_lo id_hi content') = before @ replicate 5 0xFF @ sector_gcr (content' sec) @ after"
proof -
  let ?n = "d64_sectors_per_track track" and ?cells = "\<lambda>c secs. concat (map (sector_cells track id_lo id_hi c) secs)"
  define fill where "fill = replicate (track_target_bytes (c1541_gcr_density_for_track track) - ?n * cell_bytes track) (0x55 :: u8)"
  define before where "before = ?cells content [0..<sec] @ replicate 5 0xFF @ header_gcr track id_lo id_hi sec @ replicate 9 0x55"
  define after where "after = replicate (track_gap track) 0x55 @ ?cells content [Suc sec..<?n] @ fill"
  have upt: "[0..<?n] = [0..<sec] @ sec # [Suc sec..<?n]"
    using assms(4) upt_add_eq_append [of 0 sec "?n - sec"] by (simp add: upt_conv_Cons)
  have all: "gcr_data (track_of track id_lo id_hi c) = ?cells c [0..<sec] @ sector_cells track id_lo id_hi c sec @ ?cells c [Suc sec..<?n] @ fill"
    if "\<And>s. length (c s) = 256" for c
    by (simp add: track_of_def Let_def cells_length that fill_def) (simp add: upt)
  have others: "?cells c secs = ?cells content secs" if others: "\<And>s. s < ?n \<Longrightarrow> s \<noteq> sec \<Longrightarrow> c s = content s" "sec \<notin> set secs" "set secs \<subseteq> {..<?n}" for c secs
  proof -
    have "sector_cells track id_lo id_hi c s = sector_cells track id_lo id_hi content s" if s: "s \<in> set secs" for s
    proof -
      have "c s = content s" using others s by (intro others(1)) auto
      then show ?thesis by (simp add: sector_cells_def)
    qed
    then show ?thesis by (metis (mono_tags, lifting) map_eq_conv)
  qed
  show ?thesis
  proof (rule that [of before after])
    show "gcr_data (track_of track id_lo id_hi content) = before @ replicate 5 0xFF @ sector_gcr (content sec) @ after"
      by (simp add: all assms(3) before_def after_def sector_cells_def)
    show "length before + 5 = sec * cell_bytes track + 29"
      by (simp add: before_def cells_length assms(3) header_gcr_length)
    have "gcr_data (track_of track id_lo id_hi content') = before @ replicate 5 0xFF @ sector_gcr (content' sec) @ after"
      if "\<And>s. length (content' s) = 256" "\<And>s. s < ?n \<Longrightarrow> s \<noteq> sec \<Longrightarrow> content' s = content s" for content'
      using that others [of content' "[0..<sec]"] others [of content' "[Suc sec..<?n]"] assms(4)
      by (simp add: subset_eq all before_def after_def sector_cells_def)
    then show "\<forall>content'. (\<forall>s. length (content' s) = 256) \<longrightarrow> (\<forall>s < ?n. s \<noteq> sec \<longrightarrow> content' s = content s) \<longrightarrow>
        gcr_data (track_of track id_lo id_hi content') = before @ replicate 5 0xFF @ sector_gcr (content' sec) @ after" by blast
  qed
qed

lemma data_offset:
  assumes "1 \<le> track" "track \<le> 42" "sec < d64_sectors_per_track track"
  shows "sector_data_gcr_offset track (word_of_nat sec) = sec * cell_bytes track + 29"
proof -
  have "unat (word_of_nat sec :: u8) = sec" using track_fits(3) [OF assms(1,2)] assms(3) by (intro unat_of_nat_u8) simp
  then show ?thesis by (simp add: sector_data_gcr_offset_def track_gap_def Let_def)
qed

lemma sector_gcr_decodes:
  assumes "length sector = 256"
  shows "c1541_gcr_decode (sector_gcr sector) = (260, c1541_gcr_make_data_raw sector)"
    "c1541_gcr_data_raw_to_sector (c1541_gcr_make_data_raw sector) = Some sector"
proof -
  have raw: "c1541_gcr_make_data_raw sector = 0x07 # sector @ [checksum sector, 0x00, 0x00]"
    using assms by (simp add: c1541_gcr_make_data_raw_def)
  then have "c1541_gcr_make_data_raw sector ! 257 = checksum sector" using assms by (simp add: nth_append)
  then show "c1541_gcr_data_raw_to_sector (c1541_gcr_make_data_raw sector) = Some sector"
    using assms raw by (simp add: c1541_gcr_data_raw_to_sector_def Let_def)
  have "length (sector_gcr sector) mod 5 = 0" using sector_gcr_length [OF assms] by simp
  then show "c1541_gcr_decode (sector_gcr sector) = (260, c1541_gcr_make_data_raw sector)"
    using decode_groups [of "c1541_gcr_make_data_raw sector" 0 0 0 "[]"] data_raw_length [OF assms]
    by (simp add: c1541_gcr_decode_def sector_gcr_groups [OF assms])
qed

text \<open>
  C28. Building a track loses nothing: for every track of a supported disk the buffer of one revolution is
  filled exactly, and for every sector the 325 bytes at \<^verbatim>\<open>sector_data_gcr_offset\<close> decode to a data block
  whose checksum is right and whose content is the sector of the image.
\<close>

theorem d64_track_holds_sectors:
  assumes "1 \<le> track" "track \<le> 42" "payload \<le> length img" "sec < d64_sectors_per_track track"
    and "mem (Track_Buffer (track_target_bytes (c1541_gcr_density_for_track track)))"
  shows "\<exists>tr raw. build_one_track mem track img payload id_lo id_hi = Some tr \<and>
    length (gcr_data tr) = track_target_bytes (c1541_gcr_density_for_track track) \<and>
    c1541_gcr_decode (take 325 (drop (sector_data_gcr_offset track (word_of_nat sec)) (gcr_data tr))) = (260, raw) \<and>
    c1541_gcr_data_raw_to_sector raw = Some (image_sector track img payload (word_of_nat sec))"
proof -
  let ?content = "\<lambda>sec. image_sector track img payload (word_of_nat sec)"
  have len: "length (?content s) = 256" for s using image_sector_length [OF assms(3)] .
  obtain before after where split: "gcr_data (track_of track id_lo id_hi ?content) = before @ replicate 5 0xFF @ sector_gcr (?content sec) @ after"
    "length before + 5 = sec * cell_bytes track + 29"
    by (rule track_of_split [where content = ?content and id_lo = id_lo and id_hi = id_hi, OF assms(1,2) len assms(4)]) (rule that; assumption)
  have "take 325 (drop (length before + 5) (gcr_data (track_of track id_lo id_hi ?content))) = sector_gcr (?content sec)"
    using sector_gcr_length [OF len] by (simp add: split(1))
  then have "c1541_gcr_decode (take 325 (drop (sector_data_gcr_offset track (word_of_nat sec)) (gcr_data (track_of track id_lo id_hi ?content)))) =
    (260, c1541_gcr_make_data_raw (?content sec))"
    using data_offset [OF assms(1,2,4)] split(2) sector_gcr_decodes(1) [OF len] by simp
  then show ?thesis
    using build_one_track_eq [OF assms(1-3)] assms(5) track_of_length [OF assms(1,2) len] sector_gcr_decodes(2) [OF len] by auto
qed

theorem d64_track_holds_sectors_witness:
  "\<exists>tr raw. build_one_track (\<lambda>_. True) 18 (replicate 174848 0) 174848 0x41 0x42 = Some tr \<and> length (gcr_data tr) = 7142 \<and>
    c1541_gcr_decode (take 325 (drop (sector_data_gcr_offset 18 (word_of_nat 0)) (gcr_data tr))) = (260, raw) \<and>
    c1541_gcr_data_raw_to_sector raw = Some (image_sector 18 (replicate 174848 0) 174848 (word_of_nat 0))"
proof -
  have "track_target_bytes (c1541_gcr_density_for_track 18) = 7142" "0 < d64_sectors_per_track 18"
    by (simp_all add: track_target_bytes_def c1541_gcr_density_for_track_def c1541_gcr_cycles_per_byte_def d64_sectors_per_track_def d64_spt_def)
  then show ?thesis using d64_track_holds_sectors [of 18 174848 "replicate 174848 0" 0 "\<lambda>_. True" "0x41" "0x42"] by simp
qed

section \<open>Rewriting a sector\<close>

text \<open>An image with one sector replaced.\<close>

definition splice :: "nat \<Rightarrow> u8 list \<Rightarrow> u8 list \<Rightarrow> u8 list" where
  "splice off dat img = take off img @ dat @ drop (off + 256) img"

lemma splice_length [simp]: "off + 256 \<le> length img \<Longrightarrow> length dat = 256 \<Longrightarrow> length (splice off dat img) = length img"
  by (simp add: splice_def)

lemma splice_same: "off + 256 \<le> length img \<Longrightarrow> length dat = 256 \<Longrightarrow> take 256 (drop off (splice off dat img)) = dat"
  by (simp add: splice_def)

lemma splice_other:
  assumes "off + 256 \<le> length img" "length dat = 256" "p + 256 \<le> off \<or> off + 256 \<le> p"
  shows "take 256 (drop p (splice off dat img)) = take 256 (drop p img)"
proof (cases "p + 256 \<le> off")
  case True
  then have "256 \<le> off - p" by simp
  then show ?thesis using True assms(1,2) by (simp add: splice_def drop_take min_def)
next
  case False
  then have "off + 256 \<le> p" using assms(3) by simp
  then have "drop p (splice off dat img) = drop p img" using assms(1,2) by (simp add: splice_def)
  then show ?thesis by simp
qed

lemma sector_offset_value:
  assumes "1 \<le> track" "track \<le> 42" "sec < d64_sectors_per_track track"
  shows "c1541_gcr_d64_sector_offset track (word_of_nat sec) = int (tracks_offset (unat track - 1) + sec * 256)"
proof -
  have "unat (word_of_nat sec :: u8) = sec" using track_fits(3) [OF assms(1,2)] assms(3) by (intro unat_of_nat_u8) simp
  then show ?thesis using assms by (auto simp: c1541_gcr_d64_sector_offset_def d64_track_sector_offset_def d64_sectors_per_track_def word_less_nat_alt word_le_nat_alt)
qed

lemma image_sector_splice:
  assumes "1 \<le> track" "track \<le> 42" "sec < d64_sectors_per_track track" "s < d64_sectors_per_track track"
    and "payload \<le> length img" "length dat = 256"
    and "c1541_gcr_d64_sector_offset track (word_of_nat sec) = int off" "off + 256 \<le> payload"
  shows "image_sector track (splice off dat img) payload (word_of_nat s) =
    (if s = sec then dat else image_sector track img payload (word_of_nat s))"
proof -
  let ?base = "tracks_offset (unat track - 1)"
  have off: "off = ?base + sec * 256" using sector_offset_value [OF assms(1-3)] assms(7) by simp
  show ?thesis
  proof (cases "s = sec")
    case True
    then show ?thesis using assms(5-8) by (simp add: image_sector_def Let_def splice_same)
  next
    case False
    then have "?base + s * 256 + 256 \<le> off \<or> off + 256 \<le> ?base + s * 256" by (cases "s < sec") (auto simp: off)
    then have "take 256 (drop (?base + s * 256) (splice off dat img)) = take 256 (drop (?base + s * 256) img)"
      using assms(5,6,8) by (intro splice_other) auto
    then show ?thesis
      using False unfolding image_sector_def Let_def sector_offset_value [OF assms(1,2,4)] nat_int by simp
  qed
qed

text \<open>
  C29. Rewriting a sector in place equals building its track again: when a track of the medium is the one
  built from an image, and the mounted image has had one sector replaced, \<^verbatim>\<open>c1541_media_poke_sector\<close> with
  the new bytes succeeds and leaves exactly the track that building from the changed image gives. No
  rebuild is due afterwards.
\<close>

theorem poke_equals_rebuild:
  fixes d :: c1541_board
  assumes "enabled (media d)" "tracks_valid (media d)" "\<not> from_g64 (media d)" "length (halves (media d)) = 84"
    and slot: "drive_slot d = Some slot" "image_ptr slot \<noteq> 0" "image_bytes slot = splice off dat img"
    and geo: "d64_geometry_from_size (length img) = Some geo" "1 \<le> track" "track \<le> track_count geo"
    and sec: "sec < d64_sectors_per_track track" "length dat = 256"
    and off: "c1541_gcr_d64_sector_offset track (word_of_nat sec) = int off" "off + 256 \<le> payload_size geo"
    and built: "build_one_track mem track img (payload_size geo) id_lo id_hi = Some (halves (media d) ! nat (whole_track_slot (uint track)))"
  shows "\<exists>d'. c1541_media_poke_sector track (word_of_nat sec) dat d = (True, d') \<and>
    build_one_track mem track (splice off dat img) (payload_size geo) id_lo id_hi = Some (halves (media d') ! nat (whole_track_slot (uint track))) \<and>
    built_from (media d') = image_ptr slot \<and> built_size (media d') = length (image_bytes slot) \<and>
    built_from_seq (media d') = image_content_seq slot"
proof -
  let ?c = "\<lambda>img sec. image_sector track img (payload_size geo) (word_of_nat sec)" and ?k = "nat (whole_track_slot (uint track))"
  have geo': "payload_size geo \<le> length img" "track_count geo \<le> 42" "length img \<noteq> 0"
    using geo(1) by (auto simp: d64_geometry_from_size_def split: if_splits)
  have t: "1 \<le> track" "track \<le> 42" using geo(2,3) geo'(2) by auto
  have ut: "1 \<le> uint track" "uint track \<le> 42" using t by (simp_all add: word_le_def)
  have img': "length (splice off dat img) = length img" using off(2) geo'(1) sec(2) by simp
  have len: "length (?c img s) = 256" "length (?c (splice off dat img) s) = 256" for s
    using image_sector_length [of "payload_size geo" img] image_sector_length [of "payload_size geo" "splice off dat img"] geo'(1) img' by simp_all
  have tr: "halves (media d) ! ?k = track_of track id_lo id_hi (?c img)"
      "mem (Track_Buffer (track_target_bytes (c1541_gcr_density_for_track track)))"
    using built build_one_track_eq [OF t geo'(1)] by (auto split: if_splits)
  obtain before after where split:
    "gcr_data (track_of track id_lo id_hi (?c img)) = before @ replicate 5 0xFF @ sector_gcr (?c img sec) @ after"
    "length before + 5 = sec * cell_bytes track + 29"
    "\<forall>c. (\<forall>s. length (c s) = 256) \<longrightarrow> (\<forall>s < d64_sectors_per_track track. s \<noteq> sec \<longrightarrow> c s = ?c img s) \<longrightarrow>
      gcr_data (track_of track id_lo id_hi c) = before @ replicate 5 0xFF @ sector_gcr (c sec) @ after"
    by (rule track_of_split [where content = "?c img" and id_lo = id_lo and id_hi = id_hi, OF t len(1) sec(1)]) (rule that; assumption)
  have changed: "?c (splice off dat img) s = (if s = sec then dat else ?c img s)" if "s < d64_sectors_per_track track" for s
    using image_sector_splice [OF t sec(1) that geo'(1) sec(2) off] .
  have new: "gcr_data (track_of track id_lo id_hi (?c (splice off dat img))) = before @ replicate 5 0xFF @ sector_gcr dat @ after"
    using split(3) [rule_format, of "?c (splice off dat img)"] changed len(2) sec(1) by simp
  have k: "slot_track (whole_track_slot (int (unat track))) = Some ?k" "?k < 84"
    using ut by (simp_all add: slot_track_def whole_track_slot_def nat_less_iff)
  have sc: "unat (word_of_nat sec :: u8) = sec" "unat (word_of_nat (d64_sectors_per_track track) :: u8) = d64_sectors_per_track track"
    using track_fits(3) [OF t] sec(1) by (simp_all add: unat_of_nat_u8)
  have old: "gcr_data (halves (media d) ! ?k) = before @ replicate 5 0xFF @ sector_gcr (?c img sec) @ after" using tr split(1) by simp
  have poked: "c1541_media_poke_sector track (word_of_nat sec) dat d = (True, d\<lparr>media := cohere_cache slot (media d\<lparr>halves :=
      (halves (media d))[?k := (halves (media d) ! ?k)\<lparr>gcr_data := before @ replicate 5 0xFF @ sector_gcr dat @ after, gcr_dirty := False\<rparr>]\<rparr>)\<rparr>)"
  proof -
    let ?off = "sector_data_gcr_offset track (word_of_nat sec)"
    have c1: "image_ptr slot \<noteq> 0 \<and> image_bytes slot \<noteq> []" "d64_geometry_from_size (length (image_bytes slot)) = Some geo"
      using slot img' geo(1) geo'(3) by auto
    have c2: "\<not> (track < 1 \<or> track_count geo < track)" using geo(2,3) by auto
    have c3: "\<not> (c1541_gcr_sectors_per_track track = 0 \<or> word_of_nat (c1541_gcr_sectors_per_track track) \<le> (word_of_nat sec :: u8))"
      using track_fits(2) [OF t] sc sec(1) by (simp add: c1541_gcr_sectors_per_track_def word_le_nat_alt)
    have c4: "\<not> (int off < 0 \<or> int (payload_size geo) < int off + 256)" using off(2) by simp
    have c5: "gcr_data (halves (media d) ! ?k) \<noteq> []" "\<not> length (gcr_data (halves (media d) ! ?k)) < ?off + 325"
      "take ?off (gcr_data (halves (media d) ! ?k)) = before @ replicate 5 0xFF" "drop (?off + 325) (gcr_data (halves (media d) ! ?k)) = after"
      using old data_offset [OF t sec(1)] split(2) [symmetric] sector_gcr_length [OF len(1) [of sec]] by simp_all
    show ?thesis
      unfolding c1541_media_poke_sector_def Let_def slot(1) option.case k(1) off(1) sector_gcr_def [symmetric]
      using assms(1-3) c1 c2 c3 c4 c5 sector_gcr_length [OF sec(2)] by (simp only: option.case if_True if_False simp_thms append_assoc)
  qed
  let ?tr = "(halves (media d) ! ?k)\<lparr>gcr_data := before @ replicate 5 0xFF @ sector_gcr dat @ after, gcr_dirty := False\<rparr>"
  have "?tr = track_of track id_lo id_hi (?c (splice off dat img))"
    unfolding new [symmetric] tr(1) by (simp add: track_of_def Let_def)
  then have rebuilt: "build_one_track mem track (splice off dat img) (payload_size geo) id_lo id_hi = Some ?tr"
    using build_one_track_eq [OF t, of "payload_size geo" "splice off dat img" mem] geo'(1) img' tr(2) by simp
  show ?thesis
    by (rule exI, rule conjI, rule poked) (simp add: cohere_cache_def rebuilt k(2) assms(4))
qed

theorem poke_equals_rebuild_witness:
  "let img = replicate 174848 0; dat = replicate 256 1; tr = the (build_one_track (\<lambda>_. True) 18 img 174848 0x41 0x42);
       d = \<lparr>via1 = via6522_init, via2 = via6522_init, ram = (\<lambda>_. 0), rom = (\<lambda>_. 0), rom_loaded = True,
            c64 = one_disk (splice 91392 dat img), device_number = 8, cpu_cycles_remaining = 0, via2_t1_pb7_last = False,
            media = c1541_media_init\<lparr>enabled := True, tracks_valid := True, halves := (replicate 84 no_track)[34 := tr]\<rparr>\<rparr>
   in \<exists>d'. c1541_media_poke_sector 18 (word_of_nat 0) dat d = (True, d') \<and>
        build_one_track (\<lambda>_. True) 18 (splice 91392 dat img) 174848 0x41 0x42 = Some (halves (media d') ! 34)"
proof -
  let ?img = "replicate 174848 0 :: u8 list" and ?dat = "replicate 256 1 :: u8 list"
  let ?tr = "the (build_one_track (\<lambda>_. True) 18 ?img 174848 0x41 0x42)"
  let ?d = "\<lparr>via1 = via6522_init, via2 = via6522_init, ram = (\<lambda>_. 0), rom = (\<lambda>_. 0), rom_loaded = True,
            c64 = one_disk (splice 91392 ?dat ?img), device_number = 8, cpu_cycles_remaining = 0, via2_t1_pb7_last = False,
            media = c1541_media_init\<lparr>enabled := True, tracks_valid := True, halves := (replicate 84 no_track)[34 := ?tr]\<rparr>\<rparr>"
  let ?slot = "empty_slot\<lparr>mounted := True, powered := True, writable := True, image_kind := C64_DRIVE_IMAGE_D64,
                  backend := C64_DRIVE_BACKEND_IMAGE, image_ptr := 1, image_bytes := splice 91392 ?dat ?img\<rparr>"
  let ?geo = "\<lparr>track_count = 35, payload_size = 174848, error_bytes = 0, sector_count = 683\<rparr>"
  have m: "enabled (media ?d)" "tracks_valid (media ?d)" "\<not> from_g64 (media ?d)" "length (halves (media ?d)) = 84"
    by (simp_all add: c1541_media_init_def)
  have slot: "drive_slot ?d = Some ?slot" "image_ptr ?slot \<noteq> 0" "image_bytes ?slot = splice 91392 ?dat ?img"
    by (simp_all add: drive_slot_def c64_get_drive_slot_def one_disk_def)
  have geo: "d64_geometry_from_size (length ?img) = Some ?geo" by (simp add: d64_geometry_from_size_def)
  have spt: "0 < d64_sectors_per_track 18" by (simp add: d64_sectors_per_track_def d64_spt_def)
  have "tracks_offset 17 = 91392" by (simp add: tracks_offset_numeral d64_spt_def)
  then have off: "c1541_gcr_d64_sector_offset 18 (word_of_nat 0) = int 91392" using sector_offset_value [of 18 0] spt by simp
  have slot18: "nat (whole_track_slot (uint (18 :: u8))) = 34" by (simp add: whole_track_slot_def)
  have "build_one_track (\<lambda>_. True) 18 ?img 174848 0x41 0x42 = Some ?tr"
    using build_one_track_eq [of 18 174848 ?img "\<lambda>_. True" "0x41" "0x42"] by simp
  then have built: "build_one_track (\<lambda>_. True) 18 ?img (payload_size ?geo) 0x41 0x42 = Some (halves (media ?d) ! nat (whole_track_slot (uint (18 :: u8))))"
    unfolding slot18 by simp
  show ?thesis
    using poke_equals_rebuild [OF m slot geo _ _ spt _ off _ built] unfolding Let_def slot18 by auto
qed

end
