(* ===== verification/C1541_Head.thy ===== *)
theory C1541_Head
  imports C1541_Layout
begin

text \<open>
  What the head delivers: the shift register locks onto a sync mark and hands out, byte for byte, what
  follows it on the track. Together with the layout of the tracks and the group code, a sector of the
  mounted image reaches the drive's processor unchanged.
\<close>

section \<open>The shift register\<close>

text \<open>The bytes that a stream of bits makes complete, when \<open>j\<close> bits of the byte \<open>s\<close> have been shifted in.\<close>

definition shift_in :: "u8 \<Rightarrow> bool \<Rightarrow> u8" where
  "shift_in s b = push_bit 1 s OR of_flag b"

fun bytes_of :: "int \<Rightarrow> u8 \<Rightarrow> bool list \<Rightarrow> u8 list" where
  "bytes_of j s [] = []"
| "bytes_of j s (b # bs) =
     (let s = shift_in s b in if 8 \<le> j + 1 then s # bytes_of 0 s bs else bytes_of (j + 1) s bs)"

lemma shifted_bits: "bit (shift_in s b) n \<longleftrightarrow> n < 8 \<and> (if n = 0 then b else bit s (n - 1))"
  unfolding shift_in_def bit_or_iff bit_push_bit_iff of_flag_def by (cases n) (auto simp: bit_1_iff)

lemma bytes_of_byte: "bytes_of 0 s (byte_bits g @ bs) = g # bytes_of 0 g bs"
proof -
  let ?f = shift_in
  have "?f (?f (?f (?f (?f (?f (?f (?f s (bit g 7)) (bit g 6)) (bit g 5)) (bit g 4)) (bit g 3)) (bit g 2)) (bit g (Suc 0))) (bit g 0) = g"
    unfolding u8_eq_bits shifted_bits by simp
  then show ?thesis unfolding byte_bits_def by (simp add: Let_def)
qed

lemma bytes_of_bytes: "bytes_of 0 s (concat (map byte_bits gs)) = gs"
  by (induction gs arbitrary: s) (simp_all add: bytes_of_byte)

text \<open>The window never fills with ones while a zero is among its last bits.\<close>

lemma shift_window_bits: "bit (shift_window w b) n \<longleftrightarrow> n < 10 \<and> (if n = 0 then b else bit w (n - 1))"
proof -
  have full: "(0x3FF :: u16) = mask 10" by (simp add: mask_eq_exp_minus_1)
  show ?thesis
    unfolding shift_window_def full bit_and_iff bit_mask_iff bit_or_iff bit_push_bit_iff of_flag_def
    by (cases n) (auto simp: bit_1_iff)
qed

lemma window_full: "w = 0x3FF \<Longrightarrow> n < 10 \<Longrightarrow> bit (w :: u16) n"
proof -
  assume "w = 0x3FF" "n < 10"
  moreover have "(0x3FF :: u16) = mask 10" by (simp add: mask_eq_exp_minus_1)
  ultimately show ?thesis by (simp only: bit_mask_iff) simp
qed

lemma shift10_read: "shift10 (media_shift_bit_read pcr2 b m) = shift_window (shift10 m) b"
  by (simp add: media_shift_bit_read_def Let_def)

lemma shift_read_data:
  fixes ctrl :: u8
  assumes "b \<Longrightarrow> \<not> bit (shift10 m) r" "b \<Longrightarrow> r + 1 < 10"
  defines "m' \<equiv> media_shift_bit_read ctrl b m" and "s \<equiv> shift_in (shifting_byte m) b"
  shows "\<not> bit (shift10 m') (if b then r + 1 else 0)" "shifting_byte m' = s"
    "8 \<le> bits_in_byte m + 1 \<Longrightarrow> byte_ready m' \<and> port_a_byte m' = s \<and> bits_in_byte m' = 0"
    "\<not> 8 \<le> bits_in_byte m + 1 \<Longrightarrow> byte_ready m' = byte_ready m \<and> bits_in_byte m' = bits_in_byte m + 1"
proof -
  let ?w = "shift_window (shift10 m) b"
  have zero: "\<not> bit ?w (if b then r + 1 else 0)" using assms(1) by (simp add: shift_window_bits)
  moreover have "(if b then r + 1 else 0) < 10" using assms(2) by simp
  ultimately have "?w \<noteq> 0x3FF" using window_full [of ?w "if b then r + 1 else 0"] by blast
  then show "shifting_byte m' = s"
    "8 \<le> bits_in_byte m + 1 \<Longrightarrow> byte_ready m' \<and> port_a_byte m' = s \<and> bits_in_byte m' = 0"
    "\<not> 8 \<le> bits_in_byte m + 1 \<Longrightarrow> byte_ready m' = byte_ready m \<and> bits_in_byte m' = bits_in_byte m + 1"
    by (simp_all add: m'_def s_def media_shift_bit_read_def Let_def shift_in_def)
  show "\<not> bit (shift10 m') (if b then r + 1 else 0)" unfolding m'_def shift10_read by (rule zero)
qed

lemma shift_read_frame [simp]:
  "halves (media_shift_bit_read pcr2 b m) = halves m" "head_bit_pos (media_shift_bit_read pcr2 b m) = head_bit_pos m"
  "enabled (media_shift_bit_read pcr2 b m) = enabled m" "writing (media_shift_bit_read pcr2 b m) = writing m"
  "half_track (media_shift_bit_read pcr2 b m) = half_track m"
  by (simp_all add: media_shift_bit_read_def Let_def)

lemma fold_read_frame:
  "enabled (fold (media_shift_bit_read pcr2) bs m) = enabled m" "writing (fold (media_shift_bit_read pcr2) bs m) = writing m"
  by (induction bs arbitrary: m) simp_all

text \<open>Reading ten or more ones finds a sync mark and starts a new byte.\<close>

lemma snoc_True: "replicate (Suc n) True = replicate n True @ [True]"
  by (simp add: replicate_append_same)

lemma shift_read_ones:
  "(\<forall>i < min n 10. bit (shift10 (fold (media_shift_bit_read pcr2) (replicate n True) m)) i)"
proof (induction n arbitrary: m)
  case (Suc n)
  have "fold (media_shift_bit_read pcr2) (replicate (Suc n) True) m =
    media_shift_bit_read pcr2 True (fold (media_shift_bit_read pcr2) (replicate n True) m)"
    unfolding snoc_True fold_append by simp
  moreover have "bit (shift_window (shift10 (fold (media_shift_bit_read pcr2) (replicate n True) m)) True) i" if "i < min (Suc n) 10" for i
    using Suc [of m] that by (cases i) (simp_all add: shift_window_bits)
  ultimately show ?case by (simp only: shift10_read) blast
qed simp

lemma sync_found:
  fixes pcr2 :: u8 and m :: c1541_media
  assumes "10 \<le> n"
  defines "m' \<equiv> fold (media_shift_bit_read pcr2) (replicate n True) m"
  shows "in_sync m'" "bits_in_byte m' = 0" "shifting_byte m' = 0"
proof -
  obtain k where n: "n = Suc k" "9 \<le> k" using assms(1) by (cases n) auto
  define p where "p = fold (media_shift_bit_read pcr2) (replicate k True) m"
  have m': "m' = media_shift_bit_read pcr2 True p"
    unfolding m'_def n(1) p_def snoc_True fold_append by simp
  have "bit (shift10 p) i" if "i < 9" for i using shift_read_ones [of k pcr2 m] that n(2) unfolding p_def by auto
  then have "bit (shift_window (shift10 p) True) i \<longleftrightarrow> bit (0x3FF :: u16) i" for i
    using window_full [OF refl, of i] bit_take_bit_iff [of 10 "0x3FF :: u16" i] by (auto simp: shift_window_bits take_bit_eq_mask mask_eq_exp_minus_1)
  then have "shift_window (shift10 p) True = 0x3FF" by (simp add: bit_eq_iff)
  then show "in_sync m'" "bits_in_byte m' = 0" "shifting_byte m' = 0"
    by (simp_all add: m' media_shift_bit_read_def Let_def)
qed

section \<open>The head over a track\<close>

abbreviation cell_bits :: "u8 list \<Rightarrow> bool list" where "cell_bits gs \<equiv> concat (map byte_bits gs)"

lemma byte_bits_nth: "p < 8 \<Longrightarrow> byte_bits g ! p = bit g (7 - p)"
  by (auto simp: byte_bits_def less_Suc_eq numeral_eq_Suc)

lemma length_cell_bits: "length (cell_bits gs) = 8 * length gs"
  by (induction gs) (simp_all add: byte_bits_def)

lemma cell_bits_nth: "p < 8 * length gs \<Longrightarrow> cell_bits gs ! p = bit (gs ! (p div 8)) (7 - p mod 8)"
proof (induction gs arbitrary: p)
  case (Cons g gs)
  have len: "length (byte_bits g) = 8" by (simp add: byte_bits_def)
  show ?case
  proof (cases "p < 8")
    case True
    then show ?thesis by (simp add: nth_append len byte_bits_nth)
  next
    case False
    define q where "q = p - 8"
    have p: "p = 8 + q" using False by (simp add: q_def)
    have "q < 8 * length gs" using Cons.prems by (simp add: p)
    moreover have "(8 + q) div 8 = Suc (q div 8)" by simp
    ultimately show ?thesis using Cons.IH [of q] by (simp add: p nth_append len)
  qed
qed simp

lemma unat_of_nat_u32: "n < 4294967296 \<Longrightarrow> unat (word_of_nat n :: u32) = n"
  by (simp add: unat_of_nat take_bit_nat_eq_self_iff)

lemma track_bit_cells:
  assumes "p < 8 * length (gcr_data tr)" "length (gcr_data tr) \<le> 16384"
  shows "track_bit tr (word_of_nat p) = cell_bits (gcr_data tr) ! p"
proof -
  have n: "unat (word_of_nat (length (gcr_data tr)) :: u32) = length (gcr_data tr)" "unat (word_of_nat p :: u32) = p"
    using assms by (simp_all add: unat_of_nat_u32)
  have tb: "unat (track_bits tr) = 8 * length (gcr_data tr)" using assms(2) n(1) by (simp add: track_bits_def unat_word_ariths)
  have idx: "(word_of_nat p :: u32) mod track_bits tr = word_of_nat p"
    using assms(1) n(2) tb by (simp add: word_unat_eq_iff unat_mod)
  have "unat ((word_of_nat p :: u32) div 8) = p div 8" "unat ((word_of_nat p :: u32) mod 8) = p mod 8"
    using n(2) by (simp_all add: unat_div unat_mod)
  moreover have "gcr_data tr \<noteq> []" using assms(1) by auto
  ultimately show ?thesis using cell_bits_nth [OF assms(1)] by (simp add: track_bit_def Let_def idx)
qed

lemma track_bits_value: "length (gcr_data tr) \<le> 16384 \<Longrightarrow> unat (track_bits tr) = 8 * length (gcr_data tr)"
  by (simp add: track_bits_def unat_word_ariths unat_of_nat_u32)

lemma shift_read_head: "media_shift_bit_read pcr2 b (m\<lparr>head_bit_pos := x\<rparr>) = (media_shift_bit_read pcr2 b m)\<lparr>head_bit_pos := x\<rparr>"
  by (simp add: media_shift_bit_read_def Let_def)

text \<open>The head at bit \<open>p\<close> of the track \<open>k\<close>, which holds the bytes \<open>gs\<close>.\<close>

definition head_at :: "c1541_board \<Rightarrow> nat \<Rightarrow> u8 list \<Rightarrow> nat \<Rightarrow> bool" where
  "head_at d k gs p \<longleftrightarrow>
     gcr_data (halves (media d) ! k) = gs \<and> length gs \<le> 16384 \<and> head_bit_pos (media d) = word_of_nat p \<and> p < 8 * length gs"

lemma read_cell_eq:
  assumes "head_at d k gs p" "p + 1 < 8 * length gs"
  defines "m \<equiv> media_shift_bit_read (pcr (via2 d)) (cell_bits gs ! p) (media d)"
  shows "read_cell (Some k) d = d\<lparr>media := m\<lparr>head_bit_pos := word_of_nat (p + 1)\<rparr>\<rparr>" "head_at (read_cell (Some k) d) k gs (p + 1)"
proof -
  have b: "track_bit (halves (media d) ! k) (head_bit_pos (media d)) = cell_bits gs ! p"
    using assms(1) track_bit_cells [of p "halves (media d) ! k"] by (simp add: head_at_def)
  have "unat (word_of_nat (p + 1) :: u32) = p + 1" using assms(1,2) by (intro unat_of_nat_u32) (auto simp: head_at_def)
  then have "\<not> track_bits (halves (media d) ! k) \<le> word_of_nat (p + 1)"
    using assms(1,2) track_bits_value [of "halves (media d) ! k"] by (simp add: head_at_def word_le_nat_alt)
  then show e: "read_cell (Some k) d = d\<lparr>media := m\<lparr>head_bit_pos := word_of_nat (p + 1)\<rparr>\<rparr>"
    using assms(1) b by (simp add: read_cell_def m_def advance_head_def Let_def head_at_def add.commute)
  show "head_at (read_cell (Some k) d) k gs (p + 1)" unfolding e using assms(1,2) by (simp add: head_at_def m_def)
qed

lemma read_cells_eq:
  assumes "head_at d k gs p" "p + n < 8 * length gs"
  shows "(read_cell (Some k) ^^ n) d =
      d\<lparr>media := (fold (media_shift_bit_read (pcr (via2 d))) (take n (drop p (cell_bits gs))) (media d))\<lparr>head_bit_pos := word_of_nat (p + n)\<rparr>\<rparr>
    \<and> head_at ((read_cell (Some k) ^^ n) d) k gs (p + n)"
  using assms(2)
proof (induction n)
  case 0
  then show ?case using assms(1) by (simp add: head_at_def)
next
  case (Suc n)
  let ?m = "fold (media_shift_bit_read (pcr (via2 d))) (take n (drop p (cell_bits gs))) (media d)"
  have IH: "(read_cell (Some k) ^^ n) d = d\<lparr>media := ?m\<lparr>head_bit_pos := word_of_nat (p + n)\<rparr>\<rparr>"
    "head_at ((read_cell (Some k) ^^ n) d) k gs (p + n)" using Suc.IH Suc.prems add_lessD1 [of "p + n" 1] by auto
  have "take (Suc n) (drop p (cell_bits gs)) = take n (drop p (cell_bits gs)) @ [cell_bits gs ! (p + n)]"
    using Suc.prems length_cell_bits [of gs] by (simp add: take_Suc_conv_app_nth)
  then show ?case using read_cell_eq [OF IH(2)] Suc.prems unfolding IH(1) by (simp add: shift_read_head IH(1))
qed

section \<open>The bytes the processor takes\<close>

text \<open>The bytes of the next \<open>n\<close> cells, when the processor takes each byte as soon as it is ready.\<close>

primrec bytes_read :: "nat \<Rightarrow> nat option \<Rightarrow> c1541_board \<Rightarrow> u8 list" where
  "bytes_read 0 tri d = []"
| "bytes_read (Suc n) tri d =
     (let d = read_cell tri d
      in if byte_ready (media d) then port_a_byte (media d) # bytes_read n tri (c1541_media_on_port_a_read d)
         else bytes_read n tri d)"

lemma bytes_read_eq:
  assumes "head_at d k gs p" "p + n < 8 * length gs" "enabled (media d)" "\<not> writing (media d)" "\<not> byte_ready (media d)"
    and "r < 10 \<longrightarrow> \<not> bit (shift10 (media d)) r" "ones_below 10 r (take n (drop p (cell_bits gs)))"
  shows "bytes_read n (Some k) d = bytes_of (bits_in_byte (media d)) (shifting_byte (media d)) (take n (drop p (cell_bits gs)))"
  using assms
proof (induction n arbitrary: d p r)
  case (Suc n)
  let ?b = "cell_bits gs ! p" and ?r = "if cell_bits gs ! p then r + 1 else 0"
  define e where "e = read_cell (Some k) d"
  have cells: "take (Suc n) (drop p (cell_bits gs)) = ?b # take n (drop (p + 1) (cell_bits gs))"
    using Suc.prems(2) length_cell_bits [of gs] by (simp add: Cons_nth_drop_Suc [symmetric])
  then have r: "?b \<Longrightarrow> r + 1 < 10" "ones_below 10 ?r (take n (drop (p + 1) (cell_bits gs)))" using Suc.prems(7) by (simp_all split: if_splits)
  have e: "media e = (media_shift_bit_read (pcr (via2 d)) ?b (media d))\<lparr>head_bit_pos := word_of_nat (p + 1)\<rparr>" "head_at e k gs (p + 1)"
    using read_cell_eq [OF Suc.prems(1)] Suc.prems(2) by (simp_all add: e_def)
  have z: "\<not> bit (shift10 (media d)) r" if ?b using that r(1) Suc.prems(6) by simp
  note data = shift_read_data [where ctrl = "pcr (via2 d)" and b = ?b, OF z r(1)]
  have r10: "?r < 10" using r(1) by auto
  show ?case
  proof (cases "8 \<le> bits_in_byte (media d) + 1")
    case True
    let ?e = "c1541_media_on_port_a_read e"
    have taken: "media ?e = (media e)\<lparr>req_ref_cycles := 14, byte_ready := False\<rparr>"
      using Suc.prems(3,4) by (simp add: c1541_media_on_port_a_read_def e(1))
    have "bytes_read n (Some k) ?e = bytes_of (bits_in_byte (media ?e)) (shifting_byte (media ?e)) (take n (drop (p + 1) (cell_bits gs)))"
      using Suc.prems(2-4) data(1) r10 r(2) e(2) by (intro Suc.IH) (simp_all add: taken e(1) head_at_def)
    then show ?thesis
      using data(2,3) True unfolding cells by (simp add: e_def [symmetric] Let_def taken e(1))
  next
    case False
    have "bytes_read n (Some k) e = bytes_of (bits_in_byte (media e)) (shifting_byte (media e)) (take n (drop (p + 1) (cell_bits gs)))"
      using Suc.prems(2-5) data(1,4) r10 r(2) e(2) False by (intro Suc.IH) (simp_all add: e(1))
    then show ?thesis
      using data(2,4) False Suc.prems(5) unfolding cells by (simp add: e_def [symmetric] Let_def e(1))
  qed
qed simp

lemma ones_below_mono: "ones_below k r bs \<Longrightarrow> k \<le> k' \<Longrightarrow> ones_below k' r bs"
  by (induction bs arbitrary: r) (auto split: if_splits)

text \<open>The first bit of a data block is a zero, and no sync mark is inside.\<close>

lemma sector_gcr_no_sync:
  assumes "length sector = 256"
  shows "ones_below 10 10 (cell_bits (sector_gcr sector))"
proof -
  have raw: "c1541_gcr_make_data_raw sector = 0x07 # sector @ [checksum sector, 0x00, 0x00]"
    using assms by (simp add: c1541_gcr_make_data_raw_def)
  obtain x y z src where src: "sector @ [checksum sector, 0x00, 0x00] = x # y # z # src"
    using assms by (cases sector; cases "tl sector"; cases "tl (tl sector)") auto
  have "ones_below 9 0 (cell_bits (sector_gcr sector))"
    using groups_ones_below [of 0 "c1541_gcr_make_data_raw sector"] by (simp add: sector_gcr_groups [OF assms])
  then have "ones_below 10 0 (cell_bits (sector_gcr sector))" by (rule ones_below_mono) simp
  moreover have "\<exists>bs. cell_bits (sector_gcr sector) = False # bs"
    unfolding sector_gcr_groups [OF assms] raw src
    by (simp add: packed_def pack_def hi_code_def lo_code_def gcr_encode_tab_def byte_bits_def bit_simps)
  ultimately show ?thesis by auto
qed

lemma sync_bits: "cell_bits (replicate 5 0xFF) = replicate 40 True"
  by (simp add: numeral_eq_Suc byte_bits_def bit_simps)

text \<open>
  C27. A sector of the mounted image reaches the processor of the drive unchanged. When the head passes the
  sync mark in front of a data block of a built track, the drive reports sync; the bytes it then makes
  ready, as the processor takes them, decode to a data block with a valid checksum, whose content is the
  sector of the image. Nothing is assumed of the shift registers before the mark.
\<close>

theorem head_delivers_sector:
  fixes d :: c1541_board
  assumes "1 \<le> track" "track \<le> 42" "payload \<le> length img" "sec < d64_sectors_per_track track"
    and "build_one_track mem track img payload id_lo id_hi = Some (halves (media d) ! k)"
    and "enabled (media d)" "\<not> writing (media d)"
    and "head_bit_pos (media d) = word_of_nat (8 * (sector_data_gcr_offset track (word_of_nat sec) - 5))"
  shows "let d1 = (read_cell (Some k) ^^ 40) d
    in in_sync (media d1) \<and>
       (\<exists>raw. c1541_gcr_decode (bytes_read 2600 (Some k) (c1541_media_on_port_a_read d1)) = (260, raw) \<and>
          c1541_gcr_data_raw_to_sector raw = Some (image_sector track img payload (word_of_nat sec)))"
proof -
  let ?content = "\<lambda>sec. image_sector track img payload (word_of_nat sec)"
  have len: "length (?content s) = 256" for s using image_sector_length [OF assms(3)] .
  have tr: "halves (media d) ! k = track_of track id_lo id_hi ?content"
    using build_one_track_eq [OF assms(1-3)] assms(5) by (auto split: if_splits)
  define gs where "gs = gcr_data (halves (media d) ! k)"
  obtain before after where split: "gcr_data (track_of track id_lo id_hi ?content) = before @ replicate 5 0xFF @ sector_gcr (?content sec) @ after"
      and before: "length before + 5 = sec * cell_bytes track + 29"
    by (rule track_of_split [where content = ?content and id_lo = id_lo and id_hi = id_hi, OF assms(1,2) len assms(4)]) (rule that; assumption)
  have gs: "gs = before @ replicate 5 0xFF @ sector_gcr (?content sec) @ after" using split by (simp add: gs_def tr)
  have off: "sector_data_gcr_offset track (word_of_nat sec) - 5 = length before"
    using data_offset [OF assms(1,2,4)] before by simp
  have "length gs = track_target_bytes (c1541_gcr_density_for_track track)"
    using track_of_length [OF assms(1,2) len] by (simp add: gs_def tr)
  moreover have "(sec + 1) * cell_bytes track \<le> d64_sectors_per_track track * cell_bytes track" using assms(4) by (intro mult_le_mono1) simp
  moreover have "0 < track_gap track"
    by (rule zone_cases [OF assms(1,2)]) (simp_all add: track_gap_def d64_gap_for_density_def)
  ultimately have room: "length before + 330 < length gs" "length gs \<le> 8192" using track_fits [OF assms(1,2)] before by simp_all
  have at: "head_at d k gs (8 * length before)" using assms(8) off room by (simp add: head_at_def gs_def)
  have cells: "drop (8 * length before) (cell_bits gs) = replicate 40 True @ cell_bits (sector_gcr (?content sec)) @ cell_bits after"
    unfolding gs by (simp add: length_cell_bits [symmetric] sync_bits [symmetric] del: length_concat)
  define d1 where "d1 = (read_cell (Some k) ^^ 40) d"
  define m where "m = fold (media_shift_bit_read (pcr (via2 d))) (replicate 40 True) (media d)"
  have far: "8 * length before + 40 < 8 * length gs" using room by simp
  have marks: "take 40 (drop (8 * length before) (cell_bits gs)) = replicate 40 True" by (simp add: cells)
  have d1: "d1 = d\<lparr>media := m\<lparr>head_bit_pos := word_of_nat (8 * length before + 40)\<rparr>\<rparr>" "head_at d1 k gs (8 * length before + 40)"
    using read_cells_eq [OF at far] unfolding d1_def m_def marks by blast+
  have ten: "(10 :: nat) \<le> 40" by simp
  note sync = sync_found [OF ten, of "pcr (via2 d)" "media d", folded m_def]
  have frame: "enabled m = enabled (media d)" "writing m = writing (media d)"
    unfolding m_def by (rule fold_read_frame)+
  let ?d = "c1541_media_on_port_a_read d1"
  have m': "media ?d = m\<lparr>head_bit_pos := word_of_nat (8 * length before + 40), req_ref_cycles := 14, byte_ready := False\<rparr>"
    using assms(6,7) frame by (simp add: c1541_media_on_port_a_read_def d1(1))
  have block: "take 2600 (drop (8 * length before + 40) (cell_bits gs)) = cell_bits (sector_gcr (?content sec))"
    using cells length_cell_bits [of "sector_gcr (?content sec)"] sector_gcr_length [OF len [of sec]]
    by (simp add: drop_drop [symmetric] add.commute [of _ 40] del: drop_drop)
  have "media d1 = m\<lparr>head_bit_pos := word_of_nat (8 * length before + 40)\<rparr>" by (simp add: d1(1))
  then have at': "head_at ?d k gs (8 * length before + 40)" using d1(2) by (simp add: head_at_def m')
  have "bytes_read 2600 (Some k) ?d = bytes_of (bits_in_byte (media ?d)) (shifting_byte (media ?d)) (take 2600 (drop (8 * length before + 40) (cell_bits gs)))"
    using at' room assms(6,7) frame sector_gcr_no_sync [OF len [of sec]] block
    by (intro bytes_read_eq [where r = 10]) (simp_all add: m')
  then have "bytes_read 2600 (Some k) ?d = sector_gcr (?content sec)" using sync block by (simp add: m' bytes_of_bytes)
  then show ?thesis
    using sync sector_gcr_decodes [OF len [of sec]] by (simp add: Let_def d1_def [symmetric] d1(1))
qed

theorem head_delivers_sector_witness:
  "let tr = the (build_one_track (\<lambda>_. True) 18 (replicate 174848 0) 174848 0x41 0x42);
       d = \<lparr>via1 = via6522_init, via2 = via6522_init, ram = (\<lambda>_. 0), rom = (\<lambda>_. 0), rom_loaded = True,
            c64 = one_disk (replicate 174848 0), device_number = 8, cpu_cycles_remaining = 0, via2_t1_pb7_last = False,
            media = c1541_media_init\<lparr>enabled := True, tracks_valid := True, halves := (replicate 84 no_track)[34 := tr],
              head_bit_pos := word_of_nat (8 * (sector_data_gcr_offset 18 (word_of_nat 1) - 5))\<rparr>\<rparr>
   in in_sync (media ((read_cell (Some 34) ^^ 40) d))"
proof -
  let ?img = "replicate 174848 0 :: u8 list"
  let ?tr = "the (build_one_track (\<lambda>_. True) 18 ?img 174848 0x41 0x42)"
  let ?d = "\<lparr>via1 = via6522_init, via2 = via6522_init, ram = (\<lambda>_. 0), rom = (\<lambda>_. 0), rom_loaded = True,
            c64 = one_disk ?img, device_number = 8, cpu_cycles_remaining = 0, via2_t1_pb7_last = False,
            media = c1541_media_init\<lparr>enabled := True, tracks_valid := True, halves := (replicate 84 no_track)[34 := ?tr],
              head_bit_pos := word_of_nat (8 * (sector_data_gcr_offset 18 (word_of_nat 1) - 5))\<rparr>\<rparr>"
  have spt: "1 < d64_sectors_per_track 18" by (simp add: d64_sectors_per_track_def d64_spt_def)
  have "build_one_track (\<lambda>_. True) 18 ?img 174848 0x41 0x42 = Some ?tr"
    using build_one_track_eq [of 18 174848 ?img "\<lambda>_. True" "0x41" "0x42"] by simp
  then have built: "build_one_track (\<lambda>_. True) 18 ?img 174848 0x41 0x42 = Some (halves (media ?d) ! 34)" by simp
  show ?thesis
    using head_delivers_sector [OF _ _ _ spt built] by (simp add: Let_def c1541_media_init_def)
qed

end
