(* ===== verification/C1541_Medium_Ok.thy ===== *)
theory C1541_Medium_Ok
  imports C1541_Drive
begin

text \<open>
  The ranges of the 1541's medium. The C structure keeps counters, positions and indices in \<^verbatim>\<open>int\<close> and
  \<^verbatim>\<open>uint32_t\<close> fields without checking them; \<open>media_ok\<close> is the range each of them has, with the size of
  every track and the place of the head on the track under it. Every operation on the medium keeps it. Without
  a range are the flags, the three byte registers, the reference clock \<^verbatim>\<open>ref_cycle\<close> with \<^verbatim>\<open>bit_event_ref\<close>,
  which run modulo \<^verbatim>\<open>2^32\<close>, the random state \<^verbatim>\<open>flux_rand\<close>, and the keys \<^verbatim>\<open>built_from\<close>, \<^verbatim>\<open>built_size\<close> and
  \<^verbatim>\<open>built_from_seq\<close> of the track cache, which are copied from the slot.
\<close>

section \<open>Definitions\<close>

definition track_ok :: "c1541_track \<Rightarrow> bool" where
  "track_ok tr \<longleftrightarrow> length (gcr_data tr) \<le> 16384 \<and> 0 \<le> gcr_density tr \<and> gcr_density tr \<le> 3"

definition tracks_ok :: "c1541_track list \<Rightarrow> bool" where
  "tracks_ok hs \<longleftrightarrow> length hs = C1541_MEDIA_HALF_SLOTS \<and> (\<forall>tr\<in>set hs. track_ok tr)"

text \<open>The drive mechanics.\<close>

definition mech_ok :: "c1541_media \<Rightarrow> bool" where
  "mech_ok m \<longleftrightarrow>
     C1541_MEDIA_MIN_HALF_TRACK \<le> half_track m \<and> half_track m \<le> C1541_MEDIA_MAX_HALF_TRACK \<and>
     0 \<le> density m \<and> density m \<le> 3 \<and>
     motor_spin_left m \<le> C1541_MEDIA_SPINUP_CYCLES \<and> attach_left m \<le> C1541_MEDIA_ATTACH_DELAY \<and>
     (motor_ready m \<longrightarrow> motor_on m \<and> motor_spin_left m = 0)"

text \<open>The shift registers.\<close>

definition shift_ok :: "c1541_media \<Rightarrow> bool" where
  "shift_ok m \<longleftrightarrow>
     0 \<le> bits_in_byte m \<and> bits_in_byte m \<le> 7 \<and> 0 \<le> write_bits_left m \<and> write_bits_left m \<le> 8 \<and>
     0 \<le> write_sync_hold_left m \<and> write_sync_hold_left m \<le> 32 \<and> 0 \<le> so_delay m \<and> so_delay m \<le> 25 \<and>
     shift10 m \<le> 0x3FF"

text \<open>The flux decoder.\<close>

definition flux_ok :: "c1541_media \<Rightarrow> bool" where
  "flux_ok m \<longleftrightarrow>
     0 \<le> filter_counter m \<and> filter_counter m \<le> 40 \<and> 0 \<le> no_flux_cycles m \<and> no_flux_cycles m \<le> 399 \<and>
     0 \<le> ue7_counter m \<and> ue7_counter m \<le> 15 \<and> 0 \<le> uf4_counter m \<and> uf4_counter m \<le> 15 \<and> flux_acc m < 3200000"

text \<open>The clock of the rotation, in sixteenths of a microsecond, and the stepper. A cell takes at most 64 ticks, so
  that less than that is left over after a cycle; a read of port A asks for 14 ticks ahead, of which the
  decoder keeps count in \<^verbatim>\<open>ref_advance\<close>; \<^verbatim>\<open>ref_tick_accum\<close> is never used.\<close>

definition clock_ok :: "c1541_media \<Rightarrow> bool" where
  "clock_ok m \<longleftrightarrow>
     bit_acc m < 64 \<and> req_ref_cycles m \<le> 14 \<and> ref_advance m \<le> 14 \<and> ref_tick_accum m = 0 \<and> stepper_phase m \<le> 3"

text \<open>The head stands on a bit of the track under it, if there is one.\<close>

definition track_under :: "int \<Rightarrow> c1541_track list \<Rightarrow> nat option" where
  "track_under half hs =
     (case slot_track (g64_half_index_for_media_half_track half) of
        None \<Rightarrow> None
      | Some i \<Rightarrow> if gcr_data (hs ! i) = [] then None else Some i)"

definition head_on :: "int \<Rightarrow> c1541_track list \<Rightarrow> u32 \<Rightarrow> bool" where
  "head_on half hs pos = (case track_under half hs of None \<Rightarrow> True | Some i \<Rightarrow> pos < track_bits (hs ! i))"

definition parts_ok :: "c1541_media \<Rightarrow> bool" where
  "parts_ok m \<longleftrightarrow> mech_ok m \<and> shift_ok m \<and> flux_ok m \<and> clock_ok m \<and> tracks_ok (halves m)"

definition media_ok :: "c1541_media \<Rightarrow> bool" where
  "media_ok m \<longleftrightarrow> parts_ok m \<and> head_on (half_track m) (halves m) (head_bit_pos m)"

lemmas media_ok_defs = media_ok_def parts_ok_def mech_ok_def shift_ok_def flux_ok_def clock_ok_def

lemma current_track_eq: "current_track m = track_under (half_track m) (halves m)"
  by (simp add: current_track_def track_under_def)

section \<open>Tracks\<close>

named_theorems medium "operations that keep the ranges of the medium"

lemma let_keeps: "Q e \<Longrightarrow> (\<And>x. Q x \<Longrightarrow> R (f x)) \<Longrightarrow> R (Let e f)"
  by (simp add: Let_def)

lemma tracks_ok_update: "tracks_ok hs \<Longrightarrow> (k < length hs \<Longrightarrow> track_ok tr) \<Longrightarrow> tracks_ok (hs[k := tr])"
  using set_update_subset_insert [of hs k tr]
  by (cases "k < length hs") (auto simp: tracks_ok_def list_update_beyond simp del: One_nat_def)

lemma tracks_ok_nth: "tracks_ok hs \<Longrightarrow> k < length hs \<Longrightarrow> track_ok (hs ! k)"
  by (simp add: tracks_ok_def)

lemma tracks_ok_none: "tracks_ok (replicate C1541_MEDIA_HALF_SLOTS no_track)"
  by (simp add: tracks_ok_def track_ok_def no_track_def)

lemma slot_track_bound: "slot_track s = Some i \<Longrightarrow> i < 84"
  by (auto simp: slot_track_def split: if_splits)

lemma track_bits_unat: "length (gcr_data tr) \<le> 16384 \<Longrightarrow> unat (track_bits tr) = 8 * length (gcr_data tr)"
  by (simp add: track_bits_def unat_word_ariths unat_of_nat)

lemma track_bits_le: "track_ok tr \<Longrightarrow> unat (track_bits tr) \<le> 131072"
  by (simp add: track_bits_unat track_ok_def)

lemma track_bits_pos: "track_ok tr \<Longrightarrow> gcr_data tr \<noteq> [] \<Longrightarrow> 0 < track_bits tr"
  by (simp add: track_bits_unat track_ok_def word_less_nat_alt)

lemma track_bits_length: "length (gcr_data tr) = length (gcr_data tr') \<Longrightarrow> track_bits tr = track_bits tr'"
  by (simp add: track_bits_def)

lemma track_under_bound: "track_under half hs = Some i \<Longrightarrow> i < 84 \<and> gcr_data (hs ! i) \<noteq> []"
  by (auto simp: track_under_def dest: slot_track_bound split: option.splits if_splits)

lemma same_length_update:
  assumes "length (gcr_data tr) = length (gcr_data (hs ! k))"
  shows "track_under half (hs[k := tr]) = track_under half hs" "track_bits (hs[k := tr] ! i) = track_bits (hs ! i)"
proof -
  have l: "length (gcr_data (hs[k := tr] ! i)) = length (gcr_data (hs ! i))" for i
    using assms by (cases "k < length hs") (simp_all add: nth_list_update list_update_beyond)
  then show "track_bits (hs[k := tr] ! i) = track_bits (hs ! i)" for i by (simp add: track_bits_def)
  from l have "(gcr_data (hs[k := tr] ! i) = []) = (gcr_data (hs ! i) = [])" for i by (simp flip: length_0_conv)
  then show "track_under half (hs[k := tr]) = track_under half hs" by (simp add: track_under_def split: option.split)
qed

lemma head_on_update:
  "length (gcr_data tr) = length (gcr_data (hs ! k)) \<Longrightarrow> head_on half (hs[k := tr]) pos = head_on half hs pos"
  by (simp add: head_on_def same_length_update split: option.split)

lemma head_on_none: "head_on half (replicate C1541_MEDIA_HALF_SLOTS no_track) pos"
  using track_under_bound [of half "replicate C1541_MEDIA_HALF_SLOTS no_track"]
  by (auto simp: head_on_def no_track_def split: option.split)

lemma head_on_zero: "tracks_ok hs \<Longrightarrow> head_on half hs 0"
  using track_under_bound [of half hs] track_bits_pos [OF tracks_ok_nth, of hs]
  by (auto simp: head_on_def tracks_ok_def split: option.split)

lemma set_track_bit_ok:
  "length (gcr_data (set_track_bit pos b tr)) = length (gcr_data tr)" "track_ok (set_track_bit pos b tr) = track_ok tr"
  by (simp_all add: set_track_bit_def track_ok_def Let_def)

section \<open>Building\<close>

lemma density_for_track: "0 \<le> c1541_gcr_density_for_track t" "c1541_gcr_density_for_track t \<le> 3"
  by (simp_all add: c1541_gcr_density_for_track_def)

lemma target_bytes_le: "track_target_bytes dens \<le> 8192"
  by (simp add: track_target_bytes_def Let_def)

lemma append_bytes_bound: "length buf \<le> cap \<Longrightarrow> length (append_bytes cap src buf) \<le> cap"
  by (simp add: append_bytes_def)

lemma append_fill_bound: "length buf \<le> cap \<Longrightarrow> length (append_fill cap v n buf) \<le> cap"
  by (simp add: append_fill_def)

lemma build_sector_bound:
  "build_sector cap track img payload id_lo id_hi n buf = Some buf' \<Longrightarrow> length buf \<le> cap \<Longrightarrow> length buf' \<le> cap"
  unfolding build_sector_def Let_def by (simp add: split: if_splits)
    (metis append_bytes_bound append_fill_bound)

lemma build_sectors_bound:
  "build_sectors cap track img payload id_lo id_hi secs buf = Some buf' \<Longrightarrow> length buf \<le> cap \<Longrightarrow> length buf' \<le> cap"
  by (induction secs arbitrary: buf) (auto split: option.splits dest: build_sector_bound)

lemma build_one_track_ok: "build_one_track mem track img payload id_lo id_hi = Some tr \<Longrightarrow> track_ok tr"
  using target_bytes_le [of "c1541_gcr_density_for_track track"] density_for_track [of track]
  by (auto simp: build_one_track_def track_ok_def Let_def dest: build_sectors_bound split: if_splits option.splits)

lemma build_tracks_ok:
  "build_tracks mem img payload id_lo id_hi ts hs = Some hs' \<Longrightarrow> tracks_ok hs \<Longrightarrow> tracks_ok hs'"
  by (induction ts arbitrary: hs)
    (auto simp: Let_def split: if_splits option.splits dest: build_one_track_ok intro!: tracks_ok_update)

lemma copy_half_tracks_ok:
  assumes "half_tracks_ok max_track g64" "max_track \<le> 16384"
  shows "copy_half_tracks mem g64 is hs = Some hs' \<Longrightarrow> set is \<subseteq> {..<84} \<Longrightarrow> tracks_ok hs \<Longrightarrow> tracks_ok hs'"
proof (induction "is" arbitrary: hs)
  case (Cons i "is")
  have "half_track_ok max_track (half_tracks g64 ! i)"
    using assms(1) Cons.prems(2) by (auto simp: half_tracks_ok_def)
  then have "track_ok \<lparr>gcr_data = half_data (half_tracks g64 ! i),
      gcr_density = (if 0 \<le> half_density (half_tracks g64 ! i) \<and> half_density (half_tracks g64 ! i) \<le> 3
        then half_density (half_tracks g64 ! i) else c1541_gcr_density_for_track (word_of_nat (i div 2 + 1))), gcr_dirty = False\<rparr>"
    using assms(2) density_for_track by (simp add: half_track_ok_def track_ok_def)
  from tracks_ok_update [OF Cons.prems(3) this, of i] Cons.IH Cons.prems show ?case
    by (simp add: Let_def split: if_splits)
qed simp

lemma parts_ok_free: "parts_ok m \<Longrightarrow> media_ok (c1541_media_free_tracks m)"
  using tracks_ok_none head_on_none
  by (simp add: media_ok_defs c1541_media_free_tracks_def)

lemma media_rewind_ok: "parts_ok m \<Longrightarrow> media_ok (media_rewind m)"
  by (simp add: media_ok_defs media_rewind_def head_on_zero)

lemma build_from_d64_ok [medium]: "media_ok m \<Longrightarrow> media_ok (snd (c1541_media_build_from_d64 mem ptr img m))"
proof -
  assume m: "media_ok m"
  then have f: "media_ok (c1541_media_free_tracks m)" by (intro parts_ok_free) (simp add: media_ok_def)
  have g: "media_ok (media_rewind ((c1541_media_free_tracks m)\<lparr>halves := hs, tracks_valid := b, from_g64 := c,
       built_from := p, built_size := q, built_from_seq := r\<rparr>))" if "tracks_ok hs" for hs b c p q r
    using f that by (intro media_rewind_ok) (simp add: media_ok_defs)
  have h: "halves (c1541_media_free_tracks m) = replicate 84 no_track"
    "media_ok (c1541_media_free_tracks (c1541_media_free_tracks m))"
    using f by (simp_all add: c1541_media_free_tracks_def)
  show ?thesis using m h g build_tracks_ok [OF _ tracks_ok_none]
    by (auto simp: c1541_media_build_from_d64_def Let_def simp del: upt_Suc split: option.split prod.split)
qed

lemma build_from_g64_ok [medium]: "media_ok m \<Longrightarrow> media_ok (snd (c1541_media_build_from_g64 mem ptr img m))"
proof -
  assume m: "media_ok m"
  then have f: "media_ok (c1541_media_free_tracks m)" by (intro parts_ok_free) (simp add: media_ok_def)
  have g: "media_ok (media_rewind ((c1541_media_free_tracks m)\<lparr>halves := hs, tracks_valid := b, from_g64 := c,
       built_from := p, built_size := q, built_from_seq := r\<rparr>))" if "tracks_ok hs" for hs b c p q r
    using f that by (intro media_rewind_ok) (simp add: media_ok_defs)
  have h: "tracks_ok hs" if "g64_image_create mem' img = Inr g64"
     "copy_half_tracks mem g64 [0..<min (half_track_count g64) 84] (replicate 84 no_track) = Some hs" for mem' g64 hs
  proof -
    have "set [0..<min (half_track_count g64) 84] \<subseteq> {..<84}" by auto
    with g64_create_ok(1) [OF that(1)] copy_half_tracks_ok [OF _ _ that(2) _ tracks_ok_none] show ?thesis by metis
  qed
  have i: "halves (c1541_media_free_tracks m) = replicate 84 no_track"
    "media_ok (c1541_media_free_tracks (c1541_media_free_tracks m))"
    using f by (simp_all add: c1541_media_free_tracks_def)
  show ?thesis using m g h i by (auto simp: c1541_media_build_from_g64_def Let_def split: option.split sum.split)
qed

section \<open>Single fields\<close>

lemma media_updates [medium]:
  "media_ok m \<Longrightarrow> media_ok (m\<lparr>write_shift := x1\<rparr>)" "media_ok m \<Longrightarrow> media_ok (m\<lparr>last_write_bit := x2\<rparr>)"
  "media_ok m \<Longrightarrow> 0 \<le> w \<Longrightarrow> w \<le> 8 \<Longrightarrow> media_ok (m\<lparr>write_bits_left := w\<rparr>)"
  "media_ok m \<Longrightarrow> 0 \<le> w \<Longrightarrow> w \<le> 7 \<Longrightarrow> media_ok (m\<lparr>bits_in_byte := w\<rparr>)"
  "media_ok m \<Longrightarrow> media_ok (m\<lparr>byte_ready := x3\<rparr>)" "media_ok m \<Longrightarrow> media_ok (m\<lparr>so_pulse := x4\<rparr>)"
  "media_ok m \<Longrightarrow> media_ok (m\<lparr>in_sync := x5\<rparr>)" "media_ok m \<Longrightarrow> s10 \<le> 0x3FF \<Longrightarrow> media_ok (m\<lparr>shift10 := s10\<rparr>)"
  "media_ok m \<Longrightarrow> 0 \<le> w \<Longrightarrow> w \<le> 32 \<Longrightarrow> media_ok (m\<lparr>write_sync_hold_left := w\<rparr>)"
  "media_ok m \<Longrightarrow> media_ok (m\<lparr>writing := x6\<rparr>)" "media_ok m \<Longrightarrow> acc < 64 \<Longrightarrow> media_ok (m\<lparr>bit_acc := acc\<rparr>)"
  "media_ok m \<Longrightarrow> media_ok (m\<lparr>ref_cycle := x7\<rparr>)" "media_ok m \<Longrightarrow> media_ok (m\<lparr>bit_event_ref := x7\<rparr>)"
  "media_ok m \<Longrightarrow> t \<le> 14 \<Longrightarrow> media_ok (m\<lparr>req_ref_cycles := t\<rparr>)" "media_ok m \<Longrightarrow> t \<le> 14 \<Longrightarrow> media_ok (m\<lparr>ref_advance := t\<rparr>)"
  "media_ok m \<Longrightarrow> 0 \<le> w \<Longrightarrow> w \<le> 25 \<Longrightarrow> media_ok (m\<lparr>so_delay := w\<rparr>)"
  "media_ok m \<Longrightarrow> media_ok (m\<lparr>port_a_byte := x8\<rparr>)" "media_ok m \<Longrightarrow> media_ok (m\<lparr>shifting_byte := x8\<rparr>)"
  "media_ok m \<Longrightarrow> media_ok (m\<lparr>built_from_seq := x9\<rparr>)" "media_ok m \<Longrightarrow> media_ok (m\<lparr>built_from := xa\<rparr>)"
  "media_ok m \<Longrightarrow> media_ok (m\<lparr>built_size := xa\<rparr>)" "media_ok m \<Longrightarrow> media_ok (m\<lparr>attach_pending := xb\<rparr>)"
  "media_ok m \<Longrightarrow> a \<le> 1800000 \<Longrightarrow> media_ok (m\<lparr>attach_left := a\<rparr>)" "media_ok m \<Longrightarrow> media_ok (m\<lparr>enabled := xb\<rparr>)"
  "media_ok m \<Longrightarrow> p \<le> 3 \<Longrightarrow> media_ok (m\<lparr>stepper_phase := p\<rparr>)"
  "media_ok m \<Longrightarrow> 0 \<le> w \<Longrightarrow> w \<le> 3 \<Longrightarrow> media_ok (m\<lparr>density := w\<rparr>)"
  by (simp_all add: media_ok_defs)

lemma media_ranges:
  "media_ok m \<Longrightarrow> 0 \<le> bits_in_byte m \<and> bits_in_byte m \<le> 7 \<and> 0 \<le> write_bits_left m \<and> write_bits_left m \<le> 8 \<and>
     0 \<le> write_sync_hold_left m \<and> write_sync_hold_left m \<le> 32 \<and> 0 \<le> so_delay m \<and> so_delay m \<le> 25"
  by (simp add: media_ok_defs)

section \<open>Shift registers and flux decoder\<close>

lemma shift_window_le: "shift_window w b \<le> 0x3FF"
  unfolding shift_window_def by (rule word_and_le1)

lemma uint_low_nibble_u32: "- uint ((x :: u32) AND 15) \<le> 9" "uint (x AND 15) \<le> 15"
proof -
  show "- uint (x AND 15) \<le> 9" by (rule order_trans [of _ 0]) simp_all
  show "uint (x AND 15) \<le> 15" using word_and_le1 [of x 15] by (simp add: word_le_def)
qed

lemma shift_bit_read_fields:
  "half_track (media_shift_bit_read pcr2 b m) = half_track m" "density (media_shift_bit_read pcr2 b m) = density m"
  "motor_spin_left (media_shift_bit_read pcr2 b m) = motor_spin_left m" "attach_left (media_shift_bit_read pcr2 b m) = attach_left m"
  "motor_ready (media_shift_bit_read pcr2 b m) = motor_ready m" "motor_on (media_shift_bit_read pcr2 b m) = motor_on m"
  "halves (media_shift_bit_read pcr2 b m) = halves m" "head_bit_pos (media_shift_bit_read pcr2 b m) = head_bit_pos m"
  "filter_counter (media_shift_bit_read pcr2 b m) = filter_counter m" "no_flux_cycles (media_shift_bit_read pcr2 b m) = no_flux_cycles m"
  "ue7_counter (media_shift_bit_read pcr2 b m) = ue7_counter m" "uf4_counter (media_shift_bit_read pcr2 b m) = uf4_counter m"
  "flux_acc (media_shift_bit_read pcr2 b m) = flux_acc m" "enabled (media_shift_bit_read pcr2 b m) = enabled m" "writing (media_shift_bit_read pcr2 b m) = writing m"
  "bit_acc (media_shift_bit_read pcr2 b m) = bit_acc m" "req_ref_cycles (media_shift_bit_read pcr2 b m) = req_ref_cycles m"
  "ref_advance (media_shift_bit_read pcr2 b m) = ref_advance m" "ref_tick_accum (media_shift_bit_read pcr2 b m) = ref_tick_accum m"
  "stepper_phase (media_shift_bit_read pcr2 b m) = stepper_phase m"
  by (simp_all add: media_shift_bit_read_def Let_def)

lemma shift_bit_read_shift: "shift_ok m \<Longrightarrow> shift_ok (media_shift_bit_read pcr2 b m)"
  using uint_low_nibble_u32 [of "bit_event_ref m - 1"] shift_window_le [of "shift10 m" b]
  by (simp add: media_shift_bit_read_def shift_ok_def Let_def)

lemma shift_bit_read_ok [medium]: "media_ok m \<Longrightarrow> media_ok (media_shift_bit_read pcr2 b m)"
  using shift_bit_read_shift [of m pcr2 b]
  by (simp add: media_ok_def parts_ok_def mech_ok_def flux_ok_def clock_ok_def shift_bit_read_fields)

lemma flux_acc_wrap:
  assumes "(acc :: u32) < 3200000" "unat bits \<le> 131072"
  shows "acc + bits \<ge> 3200000 \<Longrightarrow> acc + bits - 3200000 < 3200000"
proof -
  have "unat (acc + bits) = unat acc + unat bits" using assms by (simp add: unat_word_ariths word_less_nat_alt)
  then show "acc + bits \<ge> 3200000 \<Longrightarrow> acc + bits - 3200000 < 3200000"
    using assms by (simp add: word_less_nat_alt word_le_nat_alt unat_sub)
qed

lemma flux_random_fields: "snd (media_next_flux_random m) = m\<lparr>flux_rand := fst (media_next_flux_random m)\<rparr>"
  by (simp add: media_next_flux_random_def Let_def)

lemma flux_random_ranges:
  "int (unat (drop_bit 16 (r :: u32) mod 31)) + 289 \<le> 399" "int (unat (drop_bit 16 (r :: u32) mod 367)) + 33 \<le> 399"
  by (simp_all add: unat_mod of_nat_mod flip: of_nat_mod)

text \<open>The head reads the track \<open>tr\<close>.\<close>

definition reading :: "c1541_track \<Rightarrow> c1541_media \<Rightarrow> bool" where
  "reading tr m \<longleftrightarrow> media_ok m \<and> motor_ready m \<and> enabled m \<and> (\<exists>k. track_under (half_track m) (halves m) = Some k \<and> halves m ! k = tr)"

lemma reading_updates:
  "reading tr m \<Longrightarrow> 0 \<le> t \<Longrightarrow> t \<le> 25 \<Longrightarrow> reading tr (m\<lparr>so_delay := t\<rparr>)"
  "reading tr m \<Longrightarrow> reading tr (m\<lparr>so_pulse := b\<rparr>)"
  "reading tr m \<Longrightarrow> 0 \<le> x \<Longrightarrow> x \<le> 40 \<Longrightarrow> reading tr (m\<lparr>filter_counter := x\<rparr>)"
  "reading tr m \<Longrightarrow> reading tr (m\<lparr>filter_last_state := b\<rparr>)" "reading tr m \<Longrightarrow> reading tr (m\<lparr>filter_state := b\<rparr>)"
  "reading tr m \<Longrightarrow> 0 \<le> n \<Longrightarrow> n \<le> 399 \<Longrightarrow> reading tr (m\<lparr>no_flux_cycles := n\<rparr>)"
  "reading tr m \<Longrightarrow> reading tr (m\<lparr>flux_rand := r\<rparr>)"
  "reading tr m \<Longrightarrow> 0 \<le> e \<Longrightarrow> e \<le> 15 \<Longrightarrow> reading tr (m\<lparr>ue7_counter := e\<rparr>)"
  "reading tr m \<Longrightarrow> 0 \<le> e \<Longrightarrow> e \<le> 15 \<Longrightarrow> reading tr (m\<lparr>uf4_counter := e\<rparr>)"
  "reading tr m \<Longrightarrow> reading tr (m\<lparr>bit_event_ref := r\<rparr>)"
  "reading tr m \<Longrightarrow> acc < 3200000 \<Longrightarrow> reading tr (m\<lparr>flux_acc := acc\<rparr>)"
  by (simp_all add: reading_def media_ok_defs)

lemma reading_head: "reading tr m \<Longrightarrow> p < track_bits tr \<Longrightarrow> reading tr (m\<lparr>head_bit_pos := p\<rparr>)"
  by (auto simp: reading_def media_ok_defs head_on_def)

lemma reading_shift: "reading tr m \<Longrightarrow> reading tr (media_shift_bit_read pcr2 b m)"
  using shift_bit_read_ok [of m pcr2 b] by (simp add: reading_def shift_bit_read_fields)

lemma reading_ranges:
  "reading tr m \<Longrightarrow> 0 \<le> filter_counter m \<and> filter_counter m \<le> 40 \<and> 0 \<le> no_flux_cycles m \<and> no_flux_cycles m \<le> 399 \<and>
     0 \<le> ue7_counter m \<and> ue7_counter m \<le> 15 \<and> flux_acc m < 3200000 \<and> so_delay m \<le> 25"
  by (simp add: reading_def media_ok_defs)

lemma reading_track: "reading tr m \<Longrightarrow> unat (track_bits tr) \<le> 131072 \<and> 0 < track_bits tr"
  using track_bits_le track_bits_pos tracks_ok_nth by (force simp: reading_def media_ok_defs tracks_ok_def dest!: track_under_bound)

lemma random_mod_31: "0 \<le> int (unat ((r :: u32) mod 31)) + 289" "int (unat (r mod 31)) + 289 \<le> 399"
  using mod_less_divisor [of 31 "unat r"] by (simp_all add: unat_mod)

lemma random_mod_367: "0 \<le> int (unat ((r :: u32) mod 367)) + 33" "int (unat (r mod 367)) + 33 \<le> 399"
  using mod_less_divisor [of 367 "unat r"] by (simp_all add: unat_mod)

lemma density_mod: "0 \<le> (x :: int) mod 4" "x mod 4 \<le> 15"
  using pos_mod_bound [of 4 x] by simp_all

text \<open>A transition seen by the filter restarts the counters of the decoder.\<close>

lemma reading_restart:
  assumes "reading tr m" "0 \<le> n" "n \<le> 399"
  shows "reading tr (let m = m\<lparr>ue7_counter := density m mod 4, uf4_counter := 0\<rparr>; (r, m) = media_next_flux_random m
    in m\<lparr>no_flux_cycles := n\<rparr>)"
  using assms density_mod by (simp add: Let_def split_beta flux_random_fields reading_updates)

lemma reading_filtered:
  assumes "reading tr m"
  shows "reading tr
    (if filter_counter m \<ge> 40 \<and> filter_state m \<noteq> filter_last_state m then
       (let m = m\<lparr>filter_last_state := filter_state m, ue7_counter := density m mod 4, uf4_counter := 0\<rparr>;
            (r, m) = media_next_flux_random m
        in m\<lparr>no_flux_cycles := int (unat (drop_bit 16 r mod 31)) + 289\<rparr>)
     else if 0 < no_flux_cycles m then
       (let m = m\<lparr>no_flux_cycles := no_flux_cycles m - 1\<rparr>
        in if no_flux_cycles m = 0 then
             (let m = m\<lparr>ue7_counter := density m mod 4, uf4_counter := 0\<rparr>;
                  (r, m) = media_next_flux_random m
              in m\<lparr>no_flux_cycles := int (unat (drop_bit 16 r mod 367)) + 33\<rparr>)
           else m)
     else m)"
  using assms reading_ranges [OF assms] density_mod random_mod_31 random_mod_367
  by (simp add: Let_def split_beta flux_random_fields reading_updates del: of_nat_unat)

lemma reading_clocked:
  assumes "reading tr m"
  shows "reading tr
    (let m = m\<lparr>ue7_counter := ue7_counter m + 1\<rparr>
     in if ue7_counter m = 16 then
          (let m = m\<lparr>ue7_counter := density m mod 4, uf4_counter := (uf4_counter m + 1) mod 16\<rparr>
           in if uf4_counter m mod 4 = 2 then
                (let recovered = ((uf4_counter m + 0x1C) div 16 mod 2 = 1);
                     m = m\<lparr>bit_event_ref := ref_cycle m + word_of_nat i + 1\<rparr>
                 in media_shift_bit_read pcr2 recovered m)
              else m)
        else m)"
  using assms reading_ranges [OF assms] density_mod pos_mod_bound [of 16 "uf4_counter m + 1"]
  by (simp add: Let_def reading_updates reading_shift)

lemma reading_moved:
  assumes "reading tr m"
  shows "reading tr
    (let m = m\<lparr>flux_acc := flux_acc m + track_bits tr\<rparr>
     in if flux_acc m \<ge> 3200000 then
          (let m = m\<lparr>flux_acc := flux_acc m - 3200000\<rparr>;
               transition = track_bit tr (head_bit_pos m);
               m = m\<lparr>head_bit_pos := (head_bit_pos m + 1) mod track_bits tr\<rparr>
           in if transition then
                m\<lparr>filter_counter := 39, filter_state := \<not> filter_state m, no_flux_cycles := 0\<rparr>
              else m)
        else m)"
  using assms reading_ranges [OF assms] reading_track [OF assms] flux_acc_wrap [of "flux_acc m" "track_bits tr"]
  by (simp add: Let_def reading_updates reading_head word_mod_less_divisor not_le)

lemma reading_tick:
  assumes "reading tr m"
  shows "reading tr (g64_tick pcr2 tr i m)"
proof -
  have a: "reading tr (if 0 < so_delay m then
      (let m = m\<lparr>so_delay := so_delay m - 1\<rparr> in if so_delay m = 0 then m\<lparr>so_pulse := True\<rparr> else m) else m)"
    using assms reading_ranges [OF assms] by (simp add: Let_def reading_updates)
  have b: "reading tr (if filter_counter m < 40 then m\<lparr>filter_counter := filter_counter m + 1\<rparr> else m)"
    if "reading tr m" for m
    using that reading_ranges [OF that] by (simp add: reading_updates)
  show ?thesis unfolding g64_tick_def
    by (rule let_keeps [of "\<lambda>x. x = track_bits tr"], rule refl, hypsubst, rule let_keeps, rule a,
        rule let_keeps, erule b, rule let_keeps, erule reading_filtered)
       (simp only: Let_def, rule reading_moved [unfolded Let_def], erule reading_clocked [unfolded Let_def])
qed

lemma reading_ticks: "reading tr m \<Longrightarrow> reading tr (fold (g64_tick pcr2 tr) is m)"
  by (induction "is" arbitrary: m) (simp_all add: reading_tick)

lemma g64_decoder_ok:
  assumes "media_ok m" "motor_ready m" "enabled m"
  shows "media_ok (media_advance_g64_decoder pcr2 (current_track m) refs m) \<and>
    motor_ready (media_advance_g64_decoder pcr2 (current_track m) refs m) \<and>
    enabled (media_advance_g64_decoder pcr2 (current_track m) refs m)"
proof (cases "current_track m")
  case (Some k)
  then have "reading (halves m ! k) m" using assms by (auto simp: reading_def current_track_eq)
  from reading_ticks [OF this] show ?thesis using Some
    by (simp add: media_advance_g64_decoder_def reading_def Let_def medium)
qed (simp add: media_advance_g64_decoder_def assms)

section \<open>Writing and exporting\<close>

text \<open>An export also happens while the head is between two tracks, where only \<open>parts_ok\<close> holds.\<close>

lemma halves_ok:
  assumes "P m" "P \<in> {media_ok, parts_ok}"
    and "length (gcr_data tr) = length (gcr_data (halves m ! k))" "gcr_density tr = gcr_density (halves m ! k)"
  shows "P (m\<lparr>halves := (halves m)[k := tr]\<rparr>)"
proof -
  have "tracks_ok (halves m)" using assms(1,2) by (auto simp: media_ok_defs)
  then have "tracks_ok ((halves m)[k := tr])"
    using assms(3,4) tracks_ok_nth [of "halves m" k] by (intro tracks_ok_update) (simp_all add: track_ok_def)
  then show ?thesis using assms by (auto simp: media_ok_defs head_on_update)
qed

lemma clean_track_ok: "P m \<Longrightarrow> P \<in> {media_ok, parts_ok} \<Longrightarrow> P (clean_track k m)"
  unfolding clean_track_def by (rule halves_ok) simp_all

lemma set_track_bit_density: "gcr_density (set_track_bit pos b tr) = gcr_density tr"
  by (simp add: set_track_bit_def Let_def)

lemma paint_bit_media:
  "media (paint_bit tri b d) = media d \<or>
   (\<exists>k. media (paint_bit tri b d) = (media d)\<lparr>halves := (halves (media d))[k := set_track_bit (head_bit_pos (media d)) b (halves (media d) ! k)]\<rparr>)"
  by (auto simp: paint_bit_def Let_def split: option.split)

lemma paint_bit_ok [medium]: "media_ok (media d) \<Longrightarrow> media_ok (media (paint_bit tri b d))"
  using paint_bit_media [of tri b d] halves_ok [of media_ok "media d"]
  by (auto simp: set_track_bit_ok set_track_bit_density)

lemma paint_bit_fields:
  "write_bits_left (media (paint_bit tri b d)) = write_bits_left (media d)"
  "bits_in_byte (media (paint_bit tri b d)) = bits_in_byte (media d)"
  "writing (media (paint_bit tri b d)) = writing (media d)" "motor_ready (media (paint_bit tri b d)) = motor_ready (media d)"
  "enabled (media (paint_bit tri b d)) = enabled (media d)"
  using paint_bit_media [of tri b d] by auto

lemma shift_bit_write_ok [medium]: "media_ok (media d) \<Longrightarrow> media_ok (media (media_shift_bit_write tri d))"
  using media_ranges [of "media d"] shift_window_le
  by (simp add: media_shift_bit_write_def Let_def paint_bit_fields medium)

lemma cohere_cache_ok: "P m \<Longrightarrow> P \<in> {media_ok, parts_ok} \<Longrightarrow> P (cohere_cache slot m)"
  by (auto simp: cohere_cache_def media_ok_defs)

lemma sync_d64_tracks_ok:
  assumes "P m" "P \<in> {media_ok, parts_ok}"
  shows "P (snd (snd (foldl (sync_d64_track payload) (any, img, m) ts)))"
proof -
  have s: "P (snd (snd st)) \<Longrightarrow> P (snd (snd (sync_d64_track payload st t)))" for st t
    using assms(2) by (cases st) (simp add: sync_d64_track_def Let_def split_beta clean_track_ok split: option.split)
  have "P (snd (snd st)) \<Longrightarrow> P (snd (snd (foldl (sync_d64_track payload) st ts)))" for st
    by (induction ts arbitrary: st) (simp_all add: s)
  then show ?thesis using assms by simp
qed

lemma sync_g64_tracks_ok:
  "P m \<Longrightarrow> P \<in> {media_ok, parts_ok} \<Longrightarrow> P (snd (snd (snd (sync_g64_tracks mem is cap any img m))))"
  by (induction "is" arbitrary: cap any img m) (simp_all add: Let_def clean_track_ok split: option.split)

lemma mark_exported_ok: "P (media d) \<Longrightarrow> P \<in> {media_ok, parts_ok} \<Longrightarrow> P (media (mark_exported d))"
  by (simp add: mark_exported_def Let_def cohere_cache_ok split: option.split)

lemma put_image_media [simp]: "media (put_image img d) = media d"
  by (simp add: put_image_def)

lemma sync_dirty_ok:
  "P (media d) \<Longrightarrow> P \<in> {media_ok, parts_ok} \<Longrightarrow> P (media (snd (c1541_media_sync_dirty mem d)))"
  by (simp add: c1541_media_sync_dirty_def c1541_media_sync_dirty_to_d64_def c1541_media_sync_dirty_to_g64_def
      Let_def split_beta sync_d64_tracks_ok sync_g64_tracks_ok mark_exported_ok split: option.split del: upt_Suc)

text \<open>An export changes nothing else of the medium.\<close>

definition moved :: "c1541_media \<Rightarrow> u32 \<times> bool \<times> bool \<times> bool \<times> u32 \<times> bool \<times> bool \<times> int" where
  "moved m = (head_bit_pos m, writing m, motor_ready m, motor_on m, motor_spin_left m, enabled m, from_g64 m, half_track m)"

lemma moved_parts: "moved (clean_track k m) = moved m" "moved (cohere_cache slot m) = moved m"
  by (simp_all add: moved_def clean_track_def cohere_cache_def)

lemma sync_d64_tracks_moved: "moved (snd (snd (foldl (sync_d64_track payload) st ts))) = moved (snd (snd st))"
proof (induction ts arbitrary: st)
  case (Cons t ts)
  have "moved (snd (snd (sync_d64_track payload st t))) = moved (snd (snd st))"
    by (cases st) (simp add: sync_d64_track_def Let_def split_beta moved_parts split: option.split)
  with Cons show ?case by simp
qed simp

lemma sync_g64_tracks_moved: "moved (snd (snd (snd (sync_g64_tracks mem is cap any img m)))) = moved m"
  by (induction "is" arbitrary: cap any img m) (simp_all add: Let_def moved_parts split: option.split)

lemma mark_exported_moved: "moved (media (mark_exported d)) = moved (media d)"
  by (simp add: mark_exported_def Let_def moved_parts split: option.split)

lemma sync_dirty_moved: "moved (media (snd (c1541_media_sync_dirty mem d))) = moved (media d)"
  by (simp add: c1541_media_sync_dirty_def c1541_media_sync_dirty_to_d64_def c1541_media_sync_dirty_to_g64_def
      Let_def split_beta sync_d64_tracks_moved sync_g64_tracks_moved mark_exported_moved split: option.split del: upt_Suc)

lemma sync_dirty_fields:
  "head_bit_pos (media (snd (c1541_media_sync_dirty mem d))) = head_bit_pos (media d)"
  "writing (media (snd (c1541_media_sync_dirty mem d))) = writing (media d)"
  "motor_ready (media (snd (c1541_media_sync_dirty mem d))) = motor_ready (media d)"
  "motor_on (media (snd (c1541_media_sync_dirty mem d))) = motor_on (media d)"
  "motor_spin_left (media (snd (c1541_media_sync_dirty mem d))) = motor_spin_left (media d)"
  "enabled (media (snd (c1541_media_sync_dirty mem d))) = enabled (media d)"
  "from_g64 (media (snd (c1541_media_sync_dirty mem d))) = from_g64 (media d)"
  using sync_dirty_moved [of mem d] by (simp_all add: moved_def)

end
