(* ===== verification/C1541_Cycle_Ok.thy ===== *)
theory C1541_Cycle_Ok
  imports C1541_Medium_Ok
begin

text \<open>
  One cycle of the medium keeps its ranges: the motor, the stepper and the write gate follow the disk
  controller VIA, and the head passes the bits of the track. \<open>gate_ok\<close> adds that the write gate is only
  open while the motor is up to speed.
\<close>

definition gate_ok :: "c1541_media \<Rightarrow> bool" where
  "gate_ok m \<longleftrightarrow> media_ok m \<and> (writing m \<longrightarrow> motor_ready m)"

lemma small_word_less: "p < unat w \<Longrightarrow> word_of_nat p < w"
  by (simp add: word_less_nat_alt unat_of_nat) (metis le_less_trans mod_less_eq_dividend)

lemma word_dec_le: "0 < x \<Longrightarrow> x \<le> n \<Longrightarrow> x - 1 \<le> (n :: u32)"
proof -
  assume "0 < x" "x \<le> n"
  moreover from this have "unat (x - 1) = unat x - 1" by (simp add: unat_minus_one)
  ultimately show ?thesis by (simp add: word_le_nat_alt)
qed

section \<open>Finding the sync marks\<close>

lemma align_skip_window: "align_skip tr nbits i sh = Some (j, sh') \<Longrightarrow> sh' \<le> 0x3FF"
proof (induction tr nbits i sh rule: align_skip.induct)
  case (1 tr nbits i sh)
  then show ?case by (subst (asm) (2) align_skip.simps) (auto simp: Let_def shift_window_le split: if_splits)
qed

lemma align_posts_ok:
  assumes "\<forall>q\<in>set posts. fst q < nbits \<and> snd q \<le> 0x3FF"
  shows "\<forall>q\<in>set (align_posts tr nbits i sh posts). fst q < nbits \<and> snd q \<le> 0x3FF"
  using assms
proof (induction tr nbits i sh posts rule: align_posts.induct)
  case (1 tr nbits i sh posts)
  define s where "s = shift_window sh (track_bit tr (word_of_nat i))"
  show ?case
  proof (cases "i < nbits \<and> length posts < 64 \<and> s = 0x3FF")
    case False
    then show ?thesis using 1 by (subst align_posts.simps) (simp add: Let_def s_def)
  next
    case True
    show ?thesis
    proof (cases "align_skip tr nbits (i + 1) s")
      case None
      then show ?thesis using 1(3) True by (subst align_posts.simps) (simp add: Let_def flip: s_def)
    next
      case (Some q)
      then obtain j sh' where q: "align_skip tr nbits (i + 1) s = Some (j, sh')" by (cases q) simp
      have "j - 1 < nbits" "sh' \<le> 0x3FF" using align_skip_moves [OF q] align_skip_window [OF q] by auto
      then show ?thesis using 1(3) True q 1(2) [OF _ s_def refl] by (subst align_posts.simps) (simp add: Let_def flip: s_def)
    qed
  qed
qed

lemma align_best_in:
  assumes "posts \<noteq> []"
  shows "align_best nbits posts \<in> set posts"
proof -
  obtain Q where Q: "align_best nbits posts =
      (case filter Q [0..<length posts] of [] \<Rightarrow> posts ! 0 | k # _ \<Rightarrow> posts ! k)"
    unfolding align_best_def Let_def by blast
  show ?thesis
  proof (cases "filter Q [0..<length posts]")
    case Nil
    then show ?thesis using assms Q by simp
  next
    case (Cons k ks)
    have "k \<in> set (filter Q [0..<length posts])" unfolding Cons by simp
    then have "k < length posts" by simp
    then show ?thesis using Q Cons by simp
  qed
qed

lemma align_after_sync_ok:
  assumes "parts_ok m"
  shows "media_ok (media_align_after_sync m)"
proof -
  define n where "n = m\<lparr>bits_in_byte := 0, byte_ready := False, shifting_byte := 0, head_bit_pos := 0, shift10 := 0,
    in_sync := False\<rparr>"
  have t: "tracks_ok (halves m)" using assms by (simp add: parts_ok_def)
  then have n: "media_ok n" using assms head_on_zero by (simp add: media_ok_defs n_def)
  show ?thesis
  proof (cases "current_track m")
    case None
    then show ?thesis using n by (simp add: media_align_after_sync_def n_def Let_def)
  next
    case (Some k)
    define tr where "tr = halves m ! k"
    define posts where "posts = align_posts tr (unat (track_bits tr)) 0 0 []"
    have h: "halves n = halves m" "half_track n = half_track m" by (simp_all add: n_def)
    show ?thesis
    proof (cases "posts = []")
      case True
      then show ?thesis using n Some h by (simp add: media_align_after_sync_def Let_def posts_def tr_def flip: n_def)
    next
      case False
      obtain p w where b: "align_best (unat (track_bits tr)) posts = (p, w)" by fastforce
      have "p < unat (track_bits tr)" "w \<le> 0x3FF"
        using align_best_in [OF False, of "unat (track_bits tr)"] align_posts_ok [of "[]" "unat (track_bits tr)" tr 0 0] b
        by (auto simp: posts_def)
      then have "head_on (half_track m) (halves m) (word_of_nat p)" "w \<le> 0x3FF"
        using Some by (simp_all add: head_on_def current_track_eq tr_def small_word_less)
      then have "media_ok (n\<lparr>head_bit_pos := word_of_nat p, shift10 := w, in_sync := False\<rparr>)"
        using n h by (simp add: media_ok_defs)
      then show ?thesis using False Some h b
        by (simp add: media_align_after_sync_def Let_def posts_def tr_def flip: n_def)
    qed
  qed
qed

section \<open>Motor, stepper and write gate\<close>

lemma engage_track_ok:
  assumes "parts_ok m" "old_bits \<noteq> 0 \<longrightarrow> head_bit_pos m < old_bits"
  shows "media_ok (engage_track old_bits m)"
proof (cases "from_g64 m")
  case True
  have z: "media_ok (m\<lparr>head_bit_pos := 0\<rparr>)" using assms(1) head_on_zero by (simp add: media_ok_defs)
  show ?thesis
  proof (cases "old_bits \<noteq> 0 \<and> current_bits m \<noteq> 0")
    case False
    then show ?thesis using True z by (auto simp: engage_track_def Let_def)
  next
    case b: True
    then have "0 < unat (current_bits m)" "unat (head_bit_pos m) < unat old_bits"
      using assms(2) by (simp_all add: word_less_nat_alt unat_gt_0)
    then have "unat (head_bit_pos m) * unat (current_bits m) div unat old_bits < unat (current_bits m)"
      by (simp add: less_mult_imp_div_less mult.commute)
    then have "word_of_nat (unat (head_bit_pos m) * unat (current_bits m) div unat old_bits) < current_bits m"
      by (rule small_word_less)
    then have "head_on (half_track m) (halves m) (word_of_nat (unat (head_bit_pos m) * unat (current_bits m) div unat old_bits))"
      using b by (simp add: head_on_def current_bits_def current_track_eq split: option.splits)
    then show ?thesis using True b assms(1) by (simp add: engage_track_def Let_def media_ok_defs)
  qed
qed (simp add: engage_track_def assms align_after_sync_ok)

lemma step_head_ok:
  assumes "parts_ok m" "phase \<le> 3"
  shows "parts_ok (snd (step_head phase m))" "head_bit_pos (snd (step_head phase m)) = head_bit_pos m"
    "writing (snd (step_head phase m)) = writing m" "motor_ready (snd (step_head phase m)) = motor_ready m"
  using assms by (simp_all add: step_head_def Let_def media_ok_defs)

lemma sample_stepper_ok:
  assumes "media_ok (media d)" "phase \<le> 3"
  shows "media_ok (media (sample_stepper mem phase d))"
proof -
  have p: "parts_ok (media d)" using assms(1) by (simp add: media_ok_def)
  have h: "current_bits (media d) \<noteq> 0 \<longrightarrow> head_bit_pos (media d) < current_bits (media d)"
    using assms by (auto simp: media_ok_def head_on_def current_bits_def current_track_eq split: option.splits)
  let ?s = "d\<lparr>media := snd (step_head phase (media d))\<rparr>"
  have "media_ok (engage_track (current_bits (media d)) (media ?s))"
    using step_head_ok [OF p assms(2)] h by (intro engage_track_ok) simp_all
  moreover have "media_ok (engage_track (current_bits (media d)) (media (snd (c1541_media_sync_dirty mem ?s))))"
    using step_head_ok [OF p assms(2)] h sync_dirty_ok [of parts_ok ?s] by (intro engage_track_ok) (simp_all add: sync_dirty_fields)
  ultimately show ?thesis using assms by (simp add: sample_stepper_def Let_def split_beta)
qed

lemma sample_motor_ok [medium]: "media_ok m \<Longrightarrow> media_ok (sample_motor motor m)"
  by (simp add: sample_motor_def Let_def media_ok_defs)

lemma write_gate_ok:
  assumes "media_ok (media d)"
  shows "gate_ok (media (sample_write_gate mem d))"
  using assms sync_dirty_ok [of media_ok]
  by (simp add: sample_write_gate_def gate_ok_def Let_def sync_dirty_fields medium)

lemma unat_density: "unat ((x :: u8) AND 3) \<le> 3"
  using word_and_le1 [of x 3] by (simp add: word_le_nat_alt)

lemma via_outputs_ok:
  assumes "media_ok (media d)"
  shows "gate_ok (media (sample_disk_via_outputs mem d))"
  unfolding sample_disk_via_outputs_def Let_def using assms unat_density word_and_le1 [of _ "3 :: u8"]
  by (intro write_gate_ok) (simp add: sample_stepper_ok medium del: of_nat_unat)

lemma via_inputs_media [simp]: "media (update_disk_via_inputs d) = media d"
  by (simp add: update_disk_via_inputs_def Let_def)

lemma ensure_tracks_ok: "media_ok (media d) \<Longrightarrow> media_ok (media (ensure_tracks mem d))"
  by (simp add: ensure_tracks_def Let_def split_beta medium split: option.split c64_drive_image_kind.split)

lemma advance_attach_ok: "gate_ok m \<Longrightarrow> gate_ok (advance_attach m)"
proof -
  have "attach_left m > 0 \<Longrightarrow> attach_left m \<le> 1800000 \<Longrightarrow> attach_left m - 1 \<le> 1800000" by (rule word_dec_le)
  then show "gate_ok m \<Longrightarrow> gate_ok (advance_attach m)"
    by (simp add: gate_ok_def advance_attach_def Let_def media_ok_defs)
qed

lemma advance_motor_ok: "gate_ok m \<Longrightarrow> gate_ok (advance_motor m)"
proof -
  have "motor_spin_left m > 0 \<Longrightarrow> motor_spin_left m \<le> 50000 \<Longrightarrow> motor_spin_left m - 1 \<le> 50000" by (rule word_dec_le)
  then show "gate_ok m \<Longrightarrow> gate_ok (advance_motor m)"
    by (auto simp: gate_ok_def advance_motor_def Let_def media_ok_defs)
qed

section \<open>Rotation\<close>

text \<open>The medium turns under the head, which is on the track \<open>tri\<close>.\<close>

definition turning :: "nat option \<Rightarrow> c1541_media \<Rightarrow> bool" where
  "turning tri m \<longleftrightarrow> media_ok m \<and> motor_ready m \<and> enabled m \<and> track_under (half_track m) (halves m) = tri"

lemma turning_updates:
  "turning tri m \<Longrightarrow> turning tri (m\<lparr>write_shift := x1\<rparr>)" "turning tri m \<Longrightarrow> turning tri (m\<lparr>byte_ready := x2\<rparr>)"
  "turning tri m \<Longrightarrow> turning tri (m\<lparr>so_pulse := x2\<rparr>)" "turning tri m \<Longrightarrow> acc < 64 \<Longrightarrow> turning tri (m\<lparr>bit_acc := acc\<rparr>)"
  "turning tri m \<Longrightarrow> turning tri (m\<lparr>bit_event_ref := x3\<rparr>)" "turning tri m \<Longrightarrow> turning tri (m\<lparr>ref_cycle := x3\<rparr>)"
  "turning tri m \<Longrightarrow> t \<le> 14 \<Longrightarrow> turning tri (m\<lparr>req_ref_cycles := t\<rparr>)"
  "turning tri m \<Longrightarrow> 0 \<le> w \<Longrightarrow> w \<le> 8 \<Longrightarrow> turning tri (m\<lparr>write_bits_left := w\<rparr>)"
  "turning tri m \<Longrightarrow> 0 \<le> w \<Longrightarrow> w \<le> 32 \<Longrightarrow> turning tri (m\<lparr>write_sync_hold_left := w\<rparr>)"
  "turning tri m \<Longrightarrow> 0 \<le> w \<Longrightarrow> w \<le> 25 \<Longrightarrow> turning tri (m\<lparr>so_delay := w\<rparr>)"
  by (simp_all add: turning_def medium)

lemma turning_ranges:
  "turning tri m \<Longrightarrow> 0 \<le> write_bits_left m \<and> write_bits_left m \<le> 8 \<and> 0 \<le> write_sync_hold_left m \<and>
     write_sync_hold_left m \<le> 32 \<and> 0 \<le> so_delay m \<and> so_delay m \<le> 25"
  using media_ranges [of m] by (simp add: turning_def)

lemma turning_head:
  assumes "turning tri m"
  shows "turning tri (advance_head tri m)"
proof (cases tri)
  case (Some k)
  then have u: "track_under (half_track m) (halves m) = Some k" using assms by (simp add: turning_def)
  have "track_ok (halves m ! k)"
    using assms tracks_ok_nth [of "halves m" k] track_under_bound [OF u] by (simp add: turning_def media_ok_defs tracks_ok_def)
  then have "0 < track_bits (halves m ! k)" using track_bits_pos track_under_bound [OF u] by simp
  then show ?thesis using assms Some u
    by (simp add: turning_def media_ok_defs advance_head_def Let_def head_on_def not_le)
qed (use assms in \<open>simp add: advance_head_def\<close>)

lemma turning_read: "turning tri m \<Longrightarrow> turning tri (media_shift_bit_read pcr2 b m)"
  by (simp add: turning_def shift_bit_read_fields medium)

lemma paint_bit_track:
  "track_under (half_track (media (paint_bit tri b d))) (halves (media (paint_bit tri b d))) =
   track_under (half_track (media d)) (halves (media d))"
  using paint_bit_media [of tri b d] by (auto simp: same_length_update set_track_bit_ok)

lemma turning_write:
  assumes "turning tri (media d)"
  shows "turning tri (media (media_shift_bit_write tr d))"
proof -
  have "track_under (half_track (media (paint_bit tr b (d\<lparr>media := m\<rparr>)))) (halves (media (paint_bit tr b (d\<lparr>media := m\<rparr>)))) = tri"
    if "halves m = halves (media d)" "half_track m = half_track (media d)" for b m
    using paint_bit_track [of tr b "d\<lparr>media := m\<rparr>"] that assms by (simp add: turning_def)
  then show ?thesis
    using assms shift_bit_write_ok [of d tr] paint_bit_track [of tr _ d]
    by (simp add: turning_def media_shift_bit_write_def Let_def paint_bit_fields)
qed

lemma turning_read_cell: "turning tri (media d) \<Longrightarrow> turning tri (media (read_cell tri d))"
  by (simp add: read_cell_def turning_head turning_read)

lemma turning_protected: "turning tri m \<Longrightarrow> turning tri (write_cell_protected tri m)"
  using turning_ranges [of tri m] by (simp add: write_cell_protected_def Let_def turning_head turning_updates)

lemma turning_write_cell:
  assumes "turning tri (media d)"
  shows "turning tri (media (write_cell tri d))"
  using turning_write [OF assms, of tri] turning_ranges [OF turning_write [OF assms, of tri]] assms
  by (simp add: write_cell_def Let_def turning_head turning_updates turning_protected)

text \<open>A cell of the bit clock takes between 52 and 64 ticks: 13 to 16 microseconds for four of them.\<close>

lemma cell_ticks: "word_of_int (cycles_per_byte tri d) * 2 \<in> {52, 56, 60, 64 :: u32}"
proof -
  have "c1541_gcr_cycles_per_byte g \<in> {26, 28, 30, 32}" for g
  proof -
    have "g < 0 \<or> 3 < g \<or> g \<in> {0, 1, 2, 3}" by auto
    then show ?thesis by (auto simp: c1541_gcr_cycles_per_byte_def)
  qed
  then have "cycles_per_byte tri d \<in> {26, 28, 30, 32}"
    unfolding cycles_per_byte_def Let_def by (smt (verit) insert_iff singletonD)
  then show ?thesis by (elim insertE emptyE) simp_all
qed

lemma turning_bit_loop:
  assumes "turning tri (media d)" "52 \<le> boundary" "boundary \<le> 64" "acc < 80"
  shows "turning tri (media (media_bit_loop tri boundary acc d))"
  using assms
proof (induction tri boundary acc d rule: media_bit_loop.induct)
  case (1 tri boundary acc d)
  show ?case
  proof (cases "0 < boundary \<and> boundary \<le> acc")
    case True
    have less: "acc - boundary < 64" "acc - boundary < 80"
      using True 1(3,5) by (simp_all add: word_less_nat_alt word_le_nat_alt unat_sub)
    define e where "e = update_media (\<lambda>m. m\<lparr>bit_event_ref := ref_cycle m + (boundary - (acc - 16)), bit_acc := acc - boundary\<rparr>) d"
    have "turning tri (media e)" using 1(2) less(1) by (simp add: e_def turning_updates)
    then have "turning tri (media (if writing (media e) then write_cell tri e else read_cell tri e))"
      by (simp add: turning_read_cell turning_write_cell)
    from 1(1) [OF True refl e_def refl this 1(3,4) less(2)] show ?thesis
      unfolding e_def using True by (subst media_bit_loop.simps) (simp add: Let_def)
  next
    case False
    then have "acc < 64" using 1(3,4) by (auto simp: word_less_nat_alt word_le_nat_alt)
    then show ?thesis using False 1(2) by (subst media_bit_loop.simps) (auto simp: turning_updates)
  qed
qed

lemma rotate_g64_ok:
  assumes "media_ok (media d)" "motor_ready (media d)" "enabled (media d)"
  shows "media_ok (media (media_rotate_g64 d)) \<and> motor_ready (media (media_rotate_g64 d)) \<and> enabled (media (media_rotate_g64 d))"
proof -
  have a: "req_ref_cycles (media d) AND 15 \<le> 14" "ref_advance (media d) \<le> 14"
    using assms(1) word_and_le2 [of "req_ref_cycles (media d)" 15] order_trans by (auto simp: media_ok_defs)
  then have "ref_advance (media d) - t \<le> 14" if "t \<le> ref_advance (media d)" for t
    using word_sub_le [OF that] order_trans by blast
  with a show ?thesis using assms by (simp add: media_rotate_g64_def Let_def g64_decoder_ok medium)
qed

lemma rotate_simple_ok:
  assumes "media_ok (media d)" "motor_ready (media d)" "enabled (media d)"
  shows "media_ok (media (media_rotate_simple d)) \<and> motor_ready (media (media_rotate_simple d)) \<and> enabled (media (media_rotate_simple d))"
proof -
  define e where "e = update_media (\<lambda>m. if 0 < so_delay m then
      (let m = m\<lparr>so_delay := so_delay m - 16\<rparr> in if so_delay m \<le> 0 then m\<lparr>so_delay := 0, so_pulse := True\<rparr> else m) else m) d"
  have e: "media_ok (media e) \<and> motor_ready (media e) \<and> enabled (media e)"
    using assms media_ranges [OF assms(1)] by (simp add: e_def Let_def medium)
  then have t: "turning (current_track (media e)) (media e)" by (simp add: turning_def current_track_eq)
  have acc: "bit_acc (media e) + 16 < 80"
    using e by (simp add: media_ok_defs word_less_nat_alt unat_word_ariths)
  have cell: "52 \<le> word_of_int (cycles_per_byte tri b) * (2 :: u32)" "word_of_int (cycles_per_byte tri b) * (2 :: u32) \<le> 64" for tri b
    using cell_ticks [of tri b] by auto
  have "turning (current_track (media e)) (media (media_rotate_simple d))"
    unfolding media_rotate_simple_def
    by (rule let_keeps [of "\<lambda>x. x = e"], simp only: e_def) (simp add: Let_def turning_updates turning_bit_loop t acc cell)
  then show ?thesis by (simp add: turning_def)
qed

section \<open>One cycle\<close>

text \<open>The motor, the stepper and the gate leave the rest of the mechanics alone.\<close>

lemma engage_fields:
  "enabled (engage_track old m) = enabled m" "motor_on (engage_track old m) = motor_on m"
  "motor_ready (engage_track old m) = motor_ready m" "motor_spin_left (engage_track old m) = motor_spin_left m"
  by (simp_all add: engage_track_def media_align_after_sync_def Let_def split_beta split: option.split)

lemma step_head_fields:
  "enabled (snd (step_head phase m)) = enabled m" "motor_on (snd (step_head phase m)) = motor_on m"
  "motor_ready (snd (step_head phase m)) = motor_ready m" "motor_spin_left (snd (step_head phase m)) = motor_spin_left m"
  by (simp_all add: step_head_def Let_def)

lemma stepper_fields:
  "enabled (media (sample_stepper mem phase d)) = enabled (media d)"
  "motor_on (media (sample_stepper mem phase d)) = motor_on (media d)"
  "motor_ready (media (sample_stepper mem phase d)) = motor_ready (media d)"
  "motor_spin_left (media (sample_stepper mem phase d)) = motor_spin_left (media d)"
  by (simp_all add: sample_stepper_def Let_def split_beta engage_fields step_head_fields sync_dirty_fields)

lemma write_gate_fields:
  "enabled (media (sample_write_gate mem d)) = enabled (media d)"
  "motor_on (media (sample_write_gate mem d)) = motor_on (media d)"
  "motor_ready (media (sample_write_gate mem d)) = motor_ready (media d)"
  "motor_spin_left (media (sample_write_gate mem d)) = motor_spin_left (media d)"
  by (simp_all add: sample_write_gate_def Let_def sync_dirty_fields)

lemma outputs_fields:
  fixes mem :: "media_alloc \<Rightarrow> bool" and d :: c1541_board
  defines "motor \<equiv> ddrb (via2 d) AND 0x04 \<noteq> 0 \<and> orb (via2 d) AND 0x04 \<noteq> 0"
    and "e \<equiv> sample_disk_via_outputs mem d"
  shows "enabled (media e) = enabled (media d)" "motor_on (media e) = motor"
    "motor_ready (media e) = motor_ready (sample_motor motor (media d))"
    "motor_spin_left (media e) = motor_spin_left (sample_motor motor (media d))"
  unfolding e_def motor_def sample_disk_via_outputs_def Let_def
  by (simp_all add: write_gate_fields stepper_fields)
    (simp_all add: sample_motor_def Let_def)

lemma ensure_tracks_fields:
  "enabled (media (ensure_tracks mem d)) = enabled (media d)" "motor_on (media (ensure_tracks mem d)) = motor_on (media d)"
  "motor_ready (media (ensure_tracks mem d)) = motor_ready (media d)"
  "motor_spin_left (media (ensure_tracks mem d)) = motor_spin_left (media d)"
  by (simp_all add: ensure_tracks_def c1541_media_build_from_g64_def c1541_media_build_from_d64_def c1541_media_free_tracks_def
      media_rewind_def Let_def split_beta split: option.split sum.split c64_drive_image_kind.split)

text \<open>The medium before it turns, and after.\<close>

definition before_turn :: "(media_alloc \<Rightarrow> bool) \<Rightarrow> c1541_board \<Rightarrow> c1541_board" where
  "before_turn mem d =
     update_media (\<lambda>m. advance_motor (advance_attach m)) (sample_disk_via_outputs mem (ensure_tracks mem d))"

definition after_turn :: "c1541_board \<Rightarrow> c1541_board" where
  "after_turn b =
     (if motor_ready (media b) \<and> tracks_valid (media b) \<and> attach_left (media b) = 0 then
        if \<not> writing (media b) \<and> from_g64 (media b) then media_rotate_g64 b else media_rotate_simple b
      else b)"

lemma media_step_turn:
  assumes "enabled (media d)"
  shows "media (c1541_media_step mem d) = media (after_turn (before_turn mem d))"
    "via2 (c1541_media_step mem d) = via2 (update_disk_via_inputs (after_turn (before_turn mem d)))"
  unfolding c1541_media_step_def Let_def before_turn_def [symmetric] after_turn_def [symmetric] using assms by simp_all

lemma before_turn_ok:
  assumes "gate_ok (media d)"
  shows "gate_ok (media (before_turn mem d))" "enabled (media (before_turn mem d)) = enabled (media d)"
proof -
  have "gate_ok (media (sample_disk_via_outputs mem (ensure_tracks mem d)))"
    using assms by (intro via_outputs_ok ensure_tracks_ok) (simp add: gate_ok_def)
  then show "gate_ok (media (before_turn mem d))" by (simp add: before_turn_def advance_motor_ok advance_attach_ok)
  show "enabled (media (before_turn mem d)) = enabled (media d)"
    by (simp add: before_turn_def advance_motor_def advance_attach_def Let_def outputs_fields ensure_tracks_fields)
qed

lemma after_turn_ok:
  assumes "gate_ok (media b)" "enabled (media b)"
  shows "gate_ok (media (after_turn b))" "enabled (media (after_turn b))"
    "after_turn b = b \<or> motor_ready (media (after_turn b))"
  using assms rotate_g64_ok [of b] rotate_simple_ok [of b] by (simp_all add: after_turn_def gate_ok_def)

lemma media_step_ok:
  assumes "gate_ok (media d)"
  shows "gate_ok (media (c1541_media_step mem d))"
proof (cases "enabled (media d)")
  case True
  then show ?thesis using before_turn_ok [OF assms, of mem] after_turn_ok by (simp add: media_step_turn)
qed (simp add: c1541_media_step_def assms)

end
