(* ===== verification/C6510_Guard.thy ===== *)
theory C6510_Guard
  imports C6510_Stack
begin

text \<open>
  Invariants of what the processor is wired to. The processor reaches the rest of the machine only
  through its bus callbacks and its interrupt lines, so a predicate on the \<open>user\<close> state that each
  callback keeps is kept by every instruction, every cycle of the resumable executor, the interrupt
  sequences and reset (\<open>guarded_event\<close>). The locale \<open>guarded_bus\<close> is that contract for one set of callbacks.
\<close>

section \<open>Definitions\<close>

text \<open>The state behind the bus satisfies \<open>P\<close>, and so it does after every callback that is installed; the callbacks
  satisfy \<open>W\<close>.\<close>

type_synonym 'u wiring = "('u \<Rightarrow> u16 \<Rightarrow> u8 \<times> 'u) \<Rightarrow> ('u \<Rightarrow> u16 \<Rightarrow> u8 \<Rightarrow> 'u) \<Rightarrow>
  ('u \<Rightarrow> u8 \<times> 'u) option \<Rightarrow> ('u \<Rightarrow> u8 \<times> 'u) option \<Rightarrow> bool"

definition guarded :: "'u wiring \<Rightarrow> ('u \<Rightarrow> bool) \<Rightarrow> 'u C6510 \<Rightarrow> bool" where
  "guarded W P m \<longleftrightarrow>
     P (user m) \<and> W (read_fn m) (write_fn m) (irq_pending_fn m) (nmi_pending_fn m) \<and>
     (\<forall>u a. P u \<longrightarrow> P (snd (read_fn m u a))) \<and>
     (\<forall>u a v. P u \<longrightarrow> P (write_fn m u a v)) \<and>
     (\<forall>f u. irq_pending_fn m = Some f \<longrightarrow> P u \<longrightarrow> P (snd (f u))) \<and>
     (\<forall>f u. nmi_pending_fn m = Some f \<longrightarrow> P u \<longrightarrow> P (snd (f u)))"

text \<open>The callbacks of one owner, with an interrupt callback of the family \<open>irq\<close> and none for NMI.\<close>

definition wired ::
  "('u \<Rightarrow> u16 \<Rightarrow> u8 \<times> 'u) \<Rightarrow> ('u \<Rightarrow> u16 \<Rightarrow> u8 \<Rightarrow> 'u) \<Rightarrow> (u16 \<Rightarrow> 'u \<Rightarrow> u8 \<times> 'u) \<Rightarrow> 'u wiring" where
  "wired rd wr irq r w q n \<longleftrightarrow> r = rd \<and> w = wr \<and> (\<exists>a. q = Some (irq a)) \<and> n = None"

section \<open>The instruction executor\<close>

named_theorems cpu_guard "operations that keep a predicate on the state behind the bus"

lemma guarded_registers [cpu_guard]:
  "guarded W P (m\<lparr>pc := x0\<rparr>) = guarded W P m"
  "guarded W P (m\<lparr>opcode_pc := x1\<rparr>) = guarded W P m"
  "guarded W P (m\<lparr>sp := x2\<rparr>) = guarded W P m"
  "guarded W P (m\<lparr>reg_A := x3\<rparr>) = guarded W P m"
  "guarded W P (m\<lparr>reg_X := x4\<rparr>) = guarded W P m"
  "guarded W P (m\<lparr>reg_Y := x5\<rparr>) = guarded W P m"
  "guarded W P (m\<lparr>flag_C := x6\<rparr>) = guarded W P m"
  "guarded W P (m\<lparr>flag_Z := x7\<rparr>) = guarded W P m"
  "guarded W P (m\<lparr>flag_I := x8\<rparr>) = guarded W P m"
  "guarded W P (m\<lparr>flag_D := x9\<rparr>) = guarded W P m"
  "guarded W P (m\<lparr>flag_B := x10\<rparr>) = guarded W P m"
  "guarded W P (m\<lparr>flag_E := x11\<rparr>) = guarded W P m"
  "guarded W P (m\<lparr>flag_V := x12\<rparr>) = guarded W P m"
  "guarded W P (m\<lparr>flag_N := x13\<rparr>) = guarded W P m"
  "guarded W P (m\<lparr>address_lo := x14\<rparr>) = guarded W P m"
  "guarded W P (m\<lparr>address_hi := x15\<rparr>) = guarded W P m"
  "guarded W P (m\<lparr>scratch_lo := x16\<rparr>) = guarded W P m"
  "guarded W P (m\<lparr>scratch_hi := x17\<rparr>) = guarded W P m"
  "guarded W P (m\<lparr>page_fault := x18\<rparr>) = guarded W P m"
  "guarded W P (m\<lparr>irq_defer := x19\<rparr>) = guarded W P m"
  "guarded W P (m\<lparr>irq_defer_i := x20\<rparr>) = guarded W P m"
  "guarded W P (m\<lparr>opcode_active := x21\<rparr>) = guarded W P m"
  "guarded W P (m\<lparr>cpu_model := x22\<rparr>) = guarded W P m"
  "guarded W P (m\<lparr>cycles := x23\<rparr>) = guarded W P m"
  "guarded W P (m\<lparr>irq_entries := x24\<rparr>) = guarded W P m"
  "guarded W P (m\<lparr>nmi_entries := x25\<rparr>) = guarded W P m"
  "guarded W P (m\<lparr>bus_access_kind := x26\<rparr>) = guarded W P m"
  "guarded W P (m\<lparr>micro_active := x27\<rparr>) = guarded W P m"
  "guarded W P (m\<lparr>micro_opcode := x28\<rparr>) = guarded W P m"
  "guarded W P (m\<lparr>micro_phase := x29\<rparr>) = guarded W P m"
  "guarded W P (m\<lparr>micro_branch_taken := x30\<rparr>) = guarded W P m"
  "guarded W P (m\<lparr>micro_target := x31\<rparr>) = guarded W P m"
  "guarded W P (m\<lparr>micro_interrupt_vector := x32\<rparr>) = guarded W P m"
  "guarded W P (m\<lparr>micro_is_interrupt := x33\<rparr>) = guarded W P m"
  by (simp_all add: guarded_def)

lemma guarded_bus_access [cpu_guard]:
  "guarded W P m \<Longrightarrow> guarded W P (snd (bus_read k m a))" "guarded W P m \<Longrightarrow> guarded W P (bus_write k m a v)"
  by (simp_all add: guarded_def bus_read_def bus_write_def split_beta)

lemma guarded_user: "guarded W P m \<Longrightarrow> P u \<Longrightarrow> guarded W P (m\<lparr>user := u\<rparr>)" "guarded W P m \<Longrightarrow> P (user m)"
  by (simp_all add: guarded_def)

lemma guarded_if [cpu_guard]: "guarded W P a \<Longrightarrow> guarded W P b \<Longrightarrow> guarded W P (if c then a else b)"
  by simp

lemma guarded_snd_if [cpu_guard]:
  "guarded W P (snd a) \<Longrightarrow> guarded W P (snd b) \<Longrightarrow> guarded W P (snd (if c then a else b))"
  by simp

lemma guarded_helpers [cpu_guard]:
  "guarded W P m \<Longrightarrow> guarded W P (CYCLE m)" "guarded W P m \<Longrightarrow> guarded W P (put_register r v m)"
  "guarded W P m \<Longrightarrow> guarded W P (set_register_to_value r v m)" "guarded W P m \<Longrightarrow> guarded W P (set_flags v m)"
  by (cases r; simp add: CYCLE_def set_register_to_value_def set_flags_def cpu_guard)+

lemma guarded_pending [cpu_guard]:
  "guarded W P m \<Longrightarrow> guarded W P (snd (c6510_irq_pending m))" "guarded W P m \<Longrightarrow> guarded W P (snd (c6510_nmi_pending m))"
  by (auto simp: guarded_def c6510_irq_pending_def c6510_nmi_pending_def split_beta split: option.split)

lemma guarded_level_1 [cpu_guard]:
  "guarded W P m \<Longrightarrow> guarded W P (add_value_to_accumulator v m)"
  "guarded W P m \<Longrightarrow> guarded W P (compare_bytes v w m)"
  "guarded W P m \<Longrightarrow> guarded W P (subtract_value_from_accumulator v m)"
  "guarded W P m \<Longrightarrow> guarded W P (ah_read_a16_sl2al m)"
  "guarded W P m \<Longrightarrow> guarded W P (ah_read_pc m)"
  "guarded W P m \<Longrightarrow> guarded W P (al_read_pc m)"
  "guarded W P m \<Longrightarrow> guarded W P (branch m)"
  "guarded W P m \<Longrightarrow> guarded W P (read_a16_ind_x m)"
  "guarded W P m \<Longrightarrow> guarded W P (read_a16_ind_y m)"
  "guarded W P m \<Longrightarrow> guarded W P (read_sp m)"
  "guarded W P m \<Longrightarrow> guarded W P (sl_read_a16 m)"
  "guarded W P m \<Longrightarrow> guarded W P (sl_write_a16 m)"
  "guarded W P m \<Longrightarrow> guarded W P (index_dummy_read m)"
  "guarded W P m \<Longrightarrow> guarded W P (read_pc_1 m)"
  "guarded W P m \<Longrightarrow> guarded W P (read_pc m)"
  "guarded W P m \<Longrightarrow> guarded W P (unstable_store_a16 v m)"
  "guarded W P m \<Longrightarrow> guarded W P (c6510_read_interrupt_vector a m)"
  "guarded W P m \<Longrightarrow> guarded W P (anc_imm m)"
  "guarded W P m \<Longrightarrow> guarded W P (alr_imm m)"
  "guarded W P m \<Longrightarrow> guarded W P (and_a16 m)"
  "guarded W P m \<Longrightarrow> guarded W P (and_imm m)"
  "guarded W P m \<Longrightarrow> guarded W P (arr_imm m)"
  "guarded W P m \<Longrightarrow> guarded W P (asl_a m)"
  "guarded W P m \<Longrightarrow> guarded W P (asl_a16 m)"
  "guarded W P m \<Longrightarrow> guarded W P (branch_operand m)"
  "guarded W P m \<Longrightarrow> guarded W P (bit_a16 m)"
  "guarded W P m \<Longrightarrow> guarded W P (bit_imm m)"
  "guarded W P m \<Longrightarrow> guarded W P (clc m)"
  "guarded W P m \<Longrightarrow> guarded W P (cld m)"
  "guarded W P m \<Longrightarrow> guarded W P (cli m)"
  "guarded W P m \<Longrightarrow> guarded W P (clv m)"
  "guarded W P m \<Longrightarrow> guarded W P (dea m)"
  "guarded W P m \<Longrightarrow> guarded W P (dec_a16 m)"
  "guarded W P m \<Longrightarrow> guarded W P (dex m)"
  "guarded W P m \<Longrightarrow> guarded W P (dey m)"
  "guarded W P m \<Longrightarrow> guarded W P (eor_a16 m)"
  "guarded W P m \<Longrightarrow> guarded W P (eor_imm m)"
  "guarded W P m \<Longrightarrow> guarded W P (inc_a16 m)"
  "guarded W P m \<Longrightarrow> guarded W P (ina m)"
  "guarded W P m \<Longrightarrow> guarded W P (inx m)"
  "guarded W P m \<Longrightarrow> guarded W P (iny m)"
  "guarded W P m \<Longrightarrow> guarded W P (jam_read a m)"
  "guarded W P m \<Longrightarrow> guarded W P (jmp_a16 m)"
  "guarded W P m \<Longrightarrow> guarded W P (jmp_ind m)"
  "guarded W P m \<Longrightarrow> guarded W P (lax_a16 m)"
  "guarded W P m \<Longrightarrow> guarded W P (lax_imm_und m)"
  "guarded W P m \<Longrightarrow> guarded W P (lda_a16 m)"
  "guarded W P m \<Longrightarrow> guarded W P (lda_imm m)"
  "guarded W P m \<Longrightarrow> guarded W P (ldx_a16 m)"
  "guarded W P m \<Longrightarrow> guarded W P (ldx_imm m)"
  "guarded W P m \<Longrightarrow> guarded W P (ldy_a16 m)"
  "guarded W P m \<Longrightarrow> guarded W P (ldy_imm m)"
  "guarded W P m \<Longrightarrow> guarded W P (lsr_a m)"
  "guarded W P m \<Longrightarrow> guarded W P (lsr_a16 m)"
  "guarded W P m \<Longrightarrow> guarded W P (ora_a16 m)"
  "guarded W P m \<Longrightarrow> guarded W P (ora_imm m)"
  "guarded W P m \<Longrightarrow> guarded W P (rla_a16 m)"
  "guarded W P m \<Longrightarrow> guarded W P (rol_a16 m)"
  "guarded W P m \<Longrightarrow> guarded W P (ror_a16 m)"
  "guarded W P m \<Longrightarrow> guarded W P (sta_a16 m)"
  "guarded W P m \<Longrightarrow> guarded W P (sax_a16 m)"
  "guarded W P m \<Longrightarrow> guarded W P (slo_a16 m)"
  "guarded W P m \<Longrightarrow> guarded W P (sre_a16 m)"
  "guarded W P m \<Longrightarrow> guarded W P (stx_a16 m)"
  "guarded W P m \<Longrightarrow> guarded W P (sty_a16 m)"
  "guarded W P m \<Longrightarrow> guarded W P (stz_a16 v m)"
  "guarded W P m \<Longrightarrow> guarded W P (trb m)"
  "guarded W P m \<Longrightarrow> guarded W P (tsb m)"
  "guarded W P m \<Longrightarrow> guarded W P (xaa_imm m)"
  by (simp_all add: cpu_guard bus_defs union_views Let_def split_beta
        add_value_to_accumulator_def compare_bytes_def subtract_value_from_accumulator_def
        ah_read_a16_sl2al_def ah_read_pc_def al_read_pc_def branch_def read_a16_ind_x_def
        read_a16_ind_y_def read_sp_def sl_read_a16_def sl_write_a16_def index_dummy_read_def
        read_pc_1_def read_pc_def unstable_store_a16_def c6510_read_interrupt_vector_def
          anc_imm_def alr_imm_def and_a16_def
        and_imm_def arr_imm_def asl_a_def asl_a16_def branch_operand_def bit_a16_def bit_imm_def
        clc_def cld_def cli_def clv_def dea_def dec_a16_def dex_def dey_def eor_a16_def
        eor_imm_def inc_a16_def ina_def inx_def iny_def jam_read_def jmp_a16_def jmp_ind_def
        lax_a16_def lax_imm_und_def lda_a16_def lda_imm_def ldx_a16_def ldx_imm_def ldy_a16_def
        ldy_imm_def lsr_a_def lsr_a16_def ora_a16_def ora_imm_def rla_a16_def rol_a16_def
        ror_a16_def sta_a16_def sax_a16_def slo_a16_def sre_a16_def stx_a16_def sty_a16_def
        stz_a16_def trb_def tsb_def xaa_imm_def)

lemma guarded_stack [cpu_guard]:
  "guarded W P m \<Longrightarrow> guarded W P (push v m)" "guarded W P m \<Longrightarrow> guarded W P (snd (pull m))"
  by (simp_all add: push_def pull_def sp_dec_def sp_inc_def bus_defs cpu_guard Let_def)

lemma guarded_level_2 [cpu_guard]:
  "guarded W P m \<Longrightarrow> guarded W P (a_pipe m)"
  "guarded W P m \<Longrightarrow> guarded W P (rmw_second_access m)"
  "guarded W P m \<Longrightarrow> guarded W P (mix m)"
  "guarded W P m \<Longrightarrow> guarded W P (miy m)"
  "guarded W P m \<Longrightarrow> guarded W P (miyr m)"
  "guarded W P m \<Longrightarrow> guarded W P (miyr_und m)"
  "guarded W P m \<Longrightarrow> guarded W P (miz m)"
  "guarded W P m \<Longrightarrow> guarded W P (mizy m)"
  "guarded W P m \<Longrightarrow> guarded W P (c6510_irq m)"
  "guarded W P m \<Longrightarrow> guarded W P (c6510_nmi m)"
  "guarded W P m \<Longrightarrow> guarded W P (adc_a16 m)"
  "guarded W P m \<Longrightarrow> guarded W P (adc_imm m)"
  "guarded W P m \<Longrightarrow> guarded W P (ahx_a16 m)"
  "guarded W P m \<Longrightarrow> guarded W P (axs_imm m)"
  "guarded W P m \<Longrightarrow> guarded W P (bcc m)"
  "guarded W P m \<Longrightarrow> guarded W P (bcs m)"
  "guarded W P m \<Longrightarrow> guarded W P (beq m)"
  "guarded W P m \<Longrightarrow> guarded W P (bmi m)"
  "guarded W P m \<Longrightarrow> guarded W P (bne m)"
  "guarded W P m \<Longrightarrow> guarded W P (bpl m)"
  "guarded W P m \<Longrightarrow> guarded W P (bra m)"
  "guarded W P m \<Longrightarrow> guarded W P (bvc m)"
  "guarded W P m \<Longrightarrow> guarded W P (bvs m)"
  "guarded W P m \<Longrightarrow> guarded W P (c6510_brk m)"
  "guarded W P m \<Longrightarrow> guarded W P (cmp_a16 m)"
  "guarded W P m \<Longrightarrow> guarded W P (cmp_imm m)"
  "guarded W P m \<Longrightarrow> guarded W P (cpx_a16 m)"
  "guarded W P m \<Longrightarrow> guarded W P (cpx_imm m)"
  "guarded W P m \<Longrightarrow> guarded W P (cpy_a16 m)"
  "guarded W P m \<Longrightarrow> guarded W P (cpy_imm m)"
  "guarded W P m \<Longrightarrow> guarded W P (dcp_a16 m)"
  "guarded W P m \<Longrightarrow> guarded W P (isc_a16 m)"
  "guarded W P m \<Longrightarrow> guarded W P (jsr_a16 m)"
  "guarded W P m \<Longrightarrow> guarded W P (rol_a m)"
  "guarded W P m \<Longrightarrow> guarded W P (ror_a m)"
  "guarded W P m \<Longrightarrow> guarded W P (rts m)"
  "guarded W P m \<Longrightarrow> guarded W P (sbc_a16 m)"
  "guarded W P m \<Longrightarrow> guarded W P (sbc_imm m)"
  "guarded W P m \<Longrightarrow> guarded W P (sec m)"
  "guarded W P m \<Longrightarrow> guarded W P (sed m)"
  "guarded W P m \<Longrightarrow> guarded W P (sei m)"
  "guarded W P m \<Longrightarrow> guarded W P (rra_a16 m)"
  "guarded W P m \<Longrightarrow> guarded W P (shy_a16 m)"
  "guarded W P m \<Longrightarrow> guarded W P (shx_a16 m)"
  "guarded W P m \<Longrightarrow> guarded W P (tax m)"
  "guarded W P m \<Longrightarrow> guarded W P (tay m)"
  "guarded W P m \<Longrightarrow> guarded W P (tsx m)"
  "guarded W P m \<Longrightarrow> guarded W P (txa m)"
  "guarded W P m \<Longrightarrow> guarded W P (tya m)"
  by (simp_all add: cpu_guard bus_defs union_views Let_def split_beta a_pipe_def
        rmw_second_access_def mix_def miy_def miyr_def miyr_und_def miz_def mizy_def
        c6510_irq_def c6510_nmi_def adc_a16_def adc_imm_def ahx_a16_def axs_imm_def bcc_def
        bcs_def beq_def bmi_def bne_def bpl_def bra_def bvc_def bvs_def c6510_brk_def
        cmp_a16_def cmp_imm_def cpx_a16_def cpx_imm_def cpy_a16_def cpy_imm_def dcp_a16_def
        isc_a16_def jsr_a16_def rol_a_def ror_a_def rts_def sbc_a16_def sbc_imm_def sec_def
        sed_def sei_def rra_a16_def shy_a16_def shx_a16_def tax_def tay_def tsx_def txa_def
        tya_def)

lemma guarded_stack_ops [cpu_guard]:
  "guarded W P m \<Longrightarrow> guarded W P (ah_from_stack m)"
  "guarded W P m \<Longrightarrow> guarded W P (al_from_stack m)"
  "guarded W P m \<Longrightarrow> guarded W P (p_from_stack m)"
  "guarded W P m \<Longrightarrow> guarded W P (pla m)"
  "guarded W P m \<Longrightarrow> guarded W P (plp m)"
  "guarded W P m \<Longrightarrow> guarded W P (plx m)"
  "guarded W P m \<Longrightarrow> guarded W P (ply m)"
  "guarded W P m \<Longrightarrow> guarded W P (pc_hi_to_stack m)"
  "guarded W P m \<Longrightarrow> guarded W P (pc_lo_to_stack m)"
  "guarded W P m \<Longrightarrow> guarded W P (phx m)"
  "guarded W P m \<Longrightarrow> guarded W P (phy m)"
  "guarded W P m \<Longrightarrow> guarded W P (pha m)"
  "guarded W P m \<Longrightarrow> guarded W P (php m)"
  by (simp_all add: cpu_guard bus_defs Let_def split_beta ah_from_stack_def al_from_stack_def p_from_stack_def pla_def plp_def plx_def ply_def pc_hi_to_stack_def pc_lo_to_stack_def phx_def phy_def pha_def php_def)

lemma guarded_stack_loads [cpu_guard]:
  "guarded W P m \<Longrightarrow> guarded W P (txs m)" "guarded W P m \<Longrightarrow> guarded W P (las_a16 m)" "guarded W P m \<Longrightarrow> guarded W P (shs_a16 m)"
  by (simp_all add: txs_def las_a16_def shs_a16_def cpu_guard bus_defs Let_def split_beta)

lemma guarded_level_3 [cpu_guard]:
  "guarded W P m \<Longrightarrow> guarded W P (ar m)"
  "guarded W P m \<Longrightarrow> guarded W P (arw m)"
  "guarded W P m \<Longrightarrow> guarded W P (aix m)"
  "guarded W P m \<Longrightarrow> guarded W P (aipxr m)"
  "guarded W P m \<Longrightarrow> guarded W P (aiy m)"
  "guarded W P m \<Longrightarrow> guarded W P (aiyr m)"
  "guarded W P m \<Longrightarrow> guarded W P (aiyr_und m)"
  "guarded W P m \<Longrightarrow> guarded W P (aipxr_und m)"
  "guarded W P m \<Longrightarrow> guarded W P (mixa m)"
  "guarded W P m \<Longrightarrow> guarded W P (mixrw m)"
  "guarded W P m \<Longrightarrow> guarded W P (mrw m)"
  "guarded W P m \<Longrightarrow> guarded W P (jmp_ind_x m)"
  by (simp_all add: cpu_guard bus_defs union_views Let_def split_beta ar_def arw_def aix_def
        aipxr_def aiy_def aiyr_def aiyr_und_def aipxr_und_def mixa_def mixrw_def mrw_def
        jmp_ind_x_def)

lemma guarded_frames [cpu_guard]:
  "guarded W P m \<Longrightarrow> guarded W P (push_interrupt_frame m)" "guarded W P m \<Longrightarrow> guarded W P (rti m)"
  by (simp_all add: push_interrupt_frame_def rti_def cpu_guard bus_defs Let_def)

lemma guarded_level_4 [cpu_guard]:
  "guarded W P m \<Longrightarrow> guarded W P (aixrr m)"
  "guarded W P m \<Longrightarrow> guarded W P (aipxrw m)"
  by (simp_all add: cpu_guard bus_defs union_views Let_def split_beta aixrr_def aipxrw_def)

lemma guarded_level_5 [cpu_guard]:
  "guarded W P m \<Longrightarrow> guarded W P (aixr_sel m)"
  by (simp_all add: cpu_guard bus_defs union_views Let_def split_beta aixr_sel_def)

lemma guarded_jam [cpu_guard]: "guarded W P m \<Longrightarrow> guarded W P (jam m)"
proof -
  have "guarded W P m \<Longrightarrow> guarded W P ((jam_read a ^^ k) m)" for a k and m :: "'a C6510"
    by (induction k) (simp_all add: cpu_guard)
  then show "guarded W P m \<Longrightarrow> guarded W P (jam m)" by (simp add: jam_def cpu_guard Let_def)
qed

lemma guarded_exec_opcode:
  assumes "guarded W P m"
  shows "guarded W P (exec_opcode op m)"
proof -
  have "\<forall>row\<in>set exec_table. length row = 16 \<and> (\<forall>f\<in>set row. guarded W P (f m))"
    unfolding exec_table_def exec_rows using assms by (simp add: cpu_guard)
  moreover have "unat (drop_bit 4 op) < length (exec_table :: ('u C6510 \<Rightarrow> 'u C6510) list list)"
    by (simp add: exec_table_def unat_high_nibble less_mult_imp_div_less)
  moreover have "unat (op AND 0x0F) < 16" by (simp add: unat_low_nibble)
  ultimately show ?thesis unfolding exec_opcode_def by (metis nth_mem)
qed

lemma guarded_step:
  assumes "guarded W P m"
  shows "guarded W P (snd (c6510_step m))"
proof -
  have f: "guarded W P x \<Longrightarrow> guarded W P (exec_opcode (fst (fetch_opcode x)) (snd (fetch_opcode x)))" for x :: "'a C6510"
    by (rule guarded_exec_opcode) (simp add: fetch_opcode_def read_opcode_def cpu_guard Let_def split_beta)
  show ?thesis using assms f
    by (simp add: c6510_step_def c6510_take_nmi_if_pending_def c6510_take_irq_if_pending_def Let_def split_beta cpu_guard)
qed

section \<open>The resumable executor\<close>

lemma guarded_micro_cycles [cpu_guard]:
  "guarded W P m \<Longrightarrow> guarded W P (snd (micro_read_operand m))" "guarded W P m \<Longrightarrow> guarded W P (snd (micro_data_read a m))"
  "guarded W P m \<Longrightarrow> guarded W P (snd (micro_pull m))" "guarded W P m \<Longrightarrow> guarded W P (micro_push v m)"
  "guarded W P m \<Longrightarrow> guarded W P (micro_data_write a v m)" "guarded W P m \<Longrightarrow> guarded W P (micro_dummy_read a m)"
  "guarded W P m \<Longrightarrow> guarded W P (micro_rmw_dummy_write a m)"
  by (simp_all add: micro_read_operand_def micro_data_read_def micro_pull_def micro_push_def micro_data_write_def
      micro_dummy_read_def micro_rmw_dummy_write_def sp_dec_def cpu_guard bus_defs Let_def split_beta)

lemma guarded_micro_operands [cpu_guard]:
  "guarded W P m \<Longrightarrow> guarded W P (micro_operand_lo m)" "guarded W P m \<Longrightarrow> guarded W P (micro_operand_hi m)" "guarded W P m \<Longrightarrow> guarded W P (micro_operand_zp m)"
  "guarded W P m \<Longrightarrow> guarded W P (micro_operand_scratch m)" "guarded W P m \<Longrightarrow> guarded W P (micro_rmw_read a m)"
  by (simp_all add: micro_operand_lo_def micro_operand_hi_def micro_operand_zp_def micro_operand_scratch_def
      micro_rmw_read_def cpu_guard Let_def split_beta)

lemma guarded_micro_values [cpu_guard]:
  "guarded W P m \<Longrightarrow> guarded W P (snd (c6510_micro_rmw_value m))" "guarded W P m \<Longrightarrow> guarded W P (c6510_micro_apply_read_operation v m)"
  "guarded W P m \<Longrightarrow> guarded W P (c6510_micro_set_lax v m)"
  by (simp_all add: c6510_micro_rmw_value_def undocumented_rmw_value_def documented_rmw_value_def
      c6510_micro_apply_read_operation_def c6510_micro_set_lax_def cpu_guard Let_def split_beta)

lemma guarded_micro_finals [cpu_guard]:
  "guarded W P m \<Longrightarrow> guarded W P (micro_rmw_write a m)" "guarded W P m \<Longrightarrow> guarded W P (snd (micro_apply_read a m))"
  "guarded W P m \<Longrightarrow> guarded W P (snd (micro_wait m))" "guarded W P m \<Longrightarrow> guarded W P (snd (micro_done m))"
  by (simp_all add: micro_rmw_write_def micro_apply_read_def micro_wait_def micro_done_def cpu_guard Let_def split_beta)

lemma guarded_let:
  "guarded W P e \<Longrightarrow> (\<And>x. guarded W P x \<Longrightarrow> guarded W P (snd (f x))) \<Longrightarrow> guarded W P (snd (Let e f))"
  by (simp add: Let_def)

lemma guarded_register_op: "guarded W P m \<Longrightarrow> guarded W P (snd (micro_register_op m))"
  unfolding micro_register_op_def
  by (rule guarded_let, simp add:  cpu_guard Let_def)+
     (simp add:  cpu_guard)

lemma guarded_flag_op: "guarded W P m \<Longrightarrow> guarded W P (snd (micro_flag_op m))"
  unfolding micro_flag_op_def
  by (rule guarded_let, simp add:  cpu_guard)+ (simp add:  cpu_guard)

lemma guarded_handlers:
  assumes "guarded W P m"
  shows "guarded W P (snd (micro_nop m))" "guarded W P (snd (micro_load_imm r m))"
    "guarded W P (snd (micro_done m))" "guarded W P (snd (micro_done (anc_imm m)))"
    "guarded W P (snd (micro_done (axs_imm m)))" "guarded W P (snd (micro_done (alr_imm m)))"
    "guarded W P (snd (micro_load_abs m))" "guarded W P (snd (micro_store_abs m))" "guarded W P (snd (micro_jmp_abs m))"
    "guarded W P (snd (micro_jmp_ind m))" "guarded W P (snd (micro_branch m))" "guarded W P (snd (micro_jsr m))"
    "guarded W P (snd (micro_rts m))" "guarded W P (snd (micro_alu_imm m))" "guarded W P (snd (micro_push_op m))"
    "guarded W P (snd (micro_pull_op m))" "guarded W P (snd (micro_rti m))" "guarded W P (snd (micro_brk m))"
    "guarded W P (snd (micro_step_interrupt m))" "guarded W P (micro_fetch m)"
  using assms
  by (simp_all add:  cpu_guard Let_def split_beta bus_defs
      micro_nop_def micro_load_imm_def micro_load_abs_def micro_store_abs_def
      micro_jmp_abs_def micro_jmp_ind_def micro_branch_def micro_jsr_def micro_rts_def micro_alu_imm_def
      micro_push_op_def micro_pull_op_def micro_rti_def micro_brk_def micro_step_interrupt_def
      micro_interrupt_cycle_def micro_fetch_def)

lemma guarded_operand_handlers:
  assumes "guarded W P m"
  shows
    "guarded W P (snd (micro_load_store_zp m))" "guarded W P (snd (micro_load_store_zp_indexed m))"
    "guarded W P (snd (micro_alu_zp m))" "guarded W P (snd (micro_alu_zp_x m))" "guarded W P (snd (micro_alu_abs m))"
    "guarded W P (snd (micro_abs_indexed m))" "guarded W P (snd (micro_x_ind m))" "guarded W P (snd (micro_ind_y m))"
    "guarded W P (snd (micro_rmw_zp m))" "guarded W P (snd (micro_rmw_zp_x m))" "guarded W P (snd (micro_rmw_abs m))"
    "guarded W P (snd (micro_rmw_abs_x m))" "guarded W P (snd (micro_step_und_nop m))"
    "guarded W P (snd (c6510_micro_step_practical_undocumented m))"
  using assms
  by (simp_all add:  cpu_guard Let_def split_beta bus_defs
      micro_load_store_zp_def micro_load_store_zp_indexed_def micro_alu_zp_def micro_alu_zp_x_def
      micro_alu_abs_def micro_abs_indexed_def micro_x_ind_def micro_ind_y_def micro_rmw_zp_def micro_rmw_zp_x_def
      micro_rmw_abs_def micro_rmw_abs_x_def micro_step_und_nop_def c6510_micro_step_practical_undocumented_def
      und_step_zp_def und_step_zp_indexed_def und_step_abs_def und_step_x_ind_def und_step_ind_y_def
      und_step_abs_indexed_def und_step_indexed_fixup_def und_step_indexed_tail_def und_lax_or_sax_def
      split: c6510_undocumented_mode.split)

lemma guarded_micro_step:
  assumes "guarded W P m"
  shows "guarded W P (snd (c6510_micro_step m))"
proof -
  note handlers = guarded_handlers [OF assms] guarded_operand_handlers [OF assms]
    guarded_register_op [OF assms] guarded_flag_op [OF assms]
  have "guarded W P (snd (micro_documented op m))" for op
    unfolding micro_documented_def
    by (simp only: if_distrib [of snd] if_distrib [of "guarded W P"] handlers if_cancel cong: if_cong)
  then have "guarded W P (snd (micro_dispatch m))"
    by (simp add: micro_dispatch_def handlers split: c6510_op_class.split)
  then show ?thesis
    by (simp add: c6510_micro_step_def handlers split_beta Let_def)
       (simp add: cpu_guard micro_complete_def)
qed

lemma guarded_event: "cpu_event m m' \<Longrightarrow> guarded W P m \<Longrightarrow> guarded W P m'"
proof (induction rule: cpu_event.induct)
  case (poll m)
  then show ?case
    by (simp add: c6510_micro_poll_interrupt_def cpu_guard Let_def split_beta)
next
  case (reset m)
  then show ?case by (simp add: c6510_reset_def guarded_def split_beta)
qed (simp_all add: guarded_step guarded_micro_step c6510_micro_begin_def c6510_micro_begin_interrupt_def
      c6510_set_overflow_def cpu_guard Let_def)

locale guarded_bus =
  fixes rd :: "'u \<Rightarrow> u16 \<Rightarrow> u8 \<times> 'u"
    and wr :: "'u \<Rightarrow> u16 \<Rightarrow> u8 \<Rightarrow> 'u"
    and irq :: "u16 \<Rightarrow> 'u \<Rightarrow> u8 \<times> 'u"
    and P :: "'u \<Rightarrow> bool"
  assumes read_keeps: "P u \<Longrightarrow> P (snd (rd u a))"
    and write_keeps: "P u \<Longrightarrow> P (wr u a v)"
    and irq_keeps: "P u \<Longrightarrow> P (snd (irq w u))"
begin

lemma guarded_wired: "guarded (wired rd wr irq) P m \<longleftrightarrow> P (user m) \<and> wired rd wr irq (read_fn m) (write_fn m) (irq_pending_fn m) (nmi_pending_fn m)"
  using read_keeps write_keeps irq_keeps by (auto simp: guarded_def wired_def)

lemma guarded_power_on:
  "P u \<Longrightarrow> guarded (wired rd wr irq) P (c6510_set_irq_pending_callback (Some (irq w)) (c6510_init u rd wr))"
  by (auto simp: guarded_wired wired_def c6510_init_def c6510_set_irq_pending_callback_def)

lemma guarded_irq:
  "guarded (wired rd wr irq) P m \<Longrightarrow> guarded (wired rd wr irq) P (c6510_set_irq_pending_callback (Some (irq w)) m)"
  by (auto simp: guarded_wired wired_def c6510_set_irq_pending_callback_def)

lemma guarded_rewire:
  "guarded (wired rd wr irq) P m \<Longrightarrow> P u \<Longrightarrow> guarded (wired rd wr irq) P (m\<lparr>user := u, read_fn := rd, write_fn := wr\<rparr>)"
  by (simp add: guarded_wired wired_def)

end

end
