(* ===== verification/C1541_Reachable.thy ===== *)
theory C1541_Reachable
  imports C1541_Cycle_Ok C6510_Guard
begin

text \<open>
  The drives that can occur: \<open>drive_reachable\<close> collects what power-on, reset, a ROM, a change of the C64 side and
  cycles make of a drive; restoring a snapshot, which takes the fields from a file, is not modelled. Every one of them has its medium in range, whatever code its processor runs: the
  bus callbacks keep \<open>gate_ok\<close>, so by the contract \<open>guarded_bus\<close> the processor does.
\<close>

section \<open>Definitions\<close>

definition board_ok :: "c1541_board \<Rightarrow> bool" where
  "board_ok d \<longleftrightarrow> gate_ok (media d)"

text \<open>The operations of the rest of the emulator on a drive. The C64 side, with its slots, lines and disks, may
  have changed in any way between two of them; \<open>mem\<close> tells which allocations succeed.\<close>

inductive drive_event :: "(media_alloc \<Rightarrow> bool) \<Rightarrow> c1541 \<Rightarrow> c1541 \<Rightarrow> bool" for mem where
  cycle: "drive_event mem drive (c1541_advance_one_cycle mem drive)"
| reset: "drive_event mem drive (c1541_reset drive)"
| load_rom: "drive_event mem drive (update_board (\<lambda>d. snd (c1541_load_rom bs d)) drive)"
| load_rom_split: "drive_event mem drive (update_board (\<lambda>d. snd (c1541_load_rom_split lo hi d)) drive)"
| rewire: "drive_event mem drive (c1541_rewire host drive)"
| sync: "drive_event mem drive (update_board (\<lambda>d. snd (c1541_media_sync_dirty mem d)) drive)"
| invalidate: "drive_event mem drive (update_board (update_media c1541_media_invalidate) drive)"

inductive drive_reachable :: "(media_alloc \<Rightarrow> bool) \<Rightarrow> c1541 \<Rightarrow> bool" for mem where
  power_on: "drive_reachable mem (c1541_init host device)"
| event: "drive_reachable mem drive \<Longrightarrow> drive_event mem drive drive' \<Longrightarrow> drive_reachable mem drive'"

section \<open>The contract of the drive's parts\<close>

text \<open>The processor is wired to its board, and the board satisfies \<open>P\<close>.\<close>

abbreviation drive_keeps :: "(c1541_board \<Rightarrow> bool) \<Rightarrow> c1541 \<Rightarrow> bool" where
  "drive_keeps P \<equiv> guarded (wired c1541_bus_read c1541_bus_write c1541_irq_pending) P"

text \<open>What a predicate on the board has to keep for a whole cycle of the drive to keep it: the callbacks of the
  processor (\<open>guarded_bus\<close>), the medium, the queued jobs and the serial bus, and the fields no one else looks at.\<close>

locale board_contract = guarded_bus c1541_bus_read c1541_bus_write c1541_irq_pending P
  for P :: "c1541_board \<Rightarrow> bool" +
  assumes media_step_keeps: "P d \<Longrightarrow> P (c1541_media_step mem d)"
    and jobs_keep: "P d \<Longrightarrow> P (c1541_satisfy_queued_jobs d)"
    and iec_keeps: "P d \<Longrightarrow> P (c1541_update_iec_bus d)"
    and media_reset_keeps: "P d \<Longrightarrow> P (d\<lparr>media := c1541_media_reset (media d)\<rparr>)"
    and so_pulse_keeps: "P d \<Longrightarrow> P (d\<lparr>media := (media d)\<lparr>so_pulse := b\<rparr>\<rparr>)"
    and enabled_keeps: "P d \<Longrightarrow> P (d\<lparr>media := (media d)\<lparr>enabled := b\<rparr>\<rparr>)"
    and via1_keeps: "P d \<Longrightarrow> P (d\<lparr>via1 := v\<rparr>)"
    and via2_keeps: "P d \<Longrightarrow> P (d\<lparr>via2 := v\<rparr>)"
    and ram_keeps: "P d \<Longrightarrow> P (d\<lparr>ram := r\<rparr>)"
    and rom_keeps: "P d \<Longrightarrow> P (d\<lparr>rom := r\<rparr>)"
    and rom_loaded_keeps: "P d \<Longrightarrow> P (d\<lparr>rom_loaded := b\<rparr>)"
    and cycles_keep: "P d \<Longrightarrow> P (d\<lparr>cpu_cycles_remaining := n\<rparr>)"
    and pb7_keeps: "P d \<Longrightarrow> P (d\<lparr>via2_t1_pb7_last := b\<rparr>)"
begin

lemma keeps_user: "drive_keeps P drive \<Longrightarrow> P d \<Longrightarrow> drive_keeps P (drive\<lparr>user := d\<rparr>)" "drive_keeps P drive \<Longrightarrow> P (user drive)"
  by (rule guarded_user; assumption)+

lemma guarded_cpu: "cpu_event drive drive' \<Longrightarrow> drive_keeps P drive \<Longrightarrow> drive_keeps P drive'"
  by (rule guarded_event)

lemmas guarded_calls =
  guarded_cpu [OF cpu_event.step] guarded_cpu [OF cpu_event.poll] guarded_cpu [OF cpu_event.micro_begin]
  guarded_cpu [OF cpu_event.micro_interrupt] guarded_cpu [OF cpu_event.micro_step]
  guarded_cpu [OF cpu_event.set_overflow] guarded_cpu [OF cpu_event.reset]

lemmas board_keeps = media_step_keeps jobs_keep iec_keeps media_reset_keeps so_pulse_keeps enabled_keeps via1_keeps
  via2_keeps ram_keeps rom_keeps rom_loaded_keeps cycles_keep pb7_keeps

lemma wire_irq_keeps: "drive_keeps P drive \<Longrightarrow> drive_keeps P (wire_irq drive)"
  unfolding wire_irq_def by (rule guarded_irq)

lemma clear_so_keeps: "drive_keeps P drive \<Longrightarrow> drive_keeps P (clear_so_pulse drive)"
  by (simp add: clear_so_pulse_def keeps_user board_keeps)

lemma micro_so_keeps: "drive_keeps P drive \<Longrightarrow> drive_keeps P (c1541_micro_step_with_so drive)"
  by (simp add: c1541_micro_step_with_so_def c1541_so_take_edge_def Let_def split_beta guarded_calls clear_so_keeps)

lemma run_cpu_keeps: "drive_keeps P drive \<Longrightarrow> drive_keeps P (c1541_run_cpu_one_cycle drive)"
  unfolding c1541_run_cpu_one_cycle_def
  by (simp add: Let_def split_beta guarded_calls keeps_user board_keeps micro_so_keeps wire_irq_keeps)

lemma update_so_keeps: "drive_keeps P drive \<Longrightarrow> drive_keeps P (c1541_update_so drive)"
  by (simp add: c1541_update_so_def Let_def keeps_user board_keeps guarded_calls)

lemma cycle_keeps: "drive_keeps P drive \<Longrightarrow> drive_keeps P (c1541_advance_one_cycle mem drive)"
  unfolding c1541_advance_one_cycle_def
  by (simp add: Let_def guarded_calls keeps_user board_keeps clear_so_keeps update_so_keeps run_cpu_keeps)

lemma reset_keeps: "drive_keeps P drive \<Longrightarrow> drive_keeps P (c1541_reset drive)"
proof -
  assume g: "drive_keeps P drive"
  define d where "d = (user drive)\<lparr>ram := (\<lambda>_. 0), via1 := via6522_reset (via1 (user drive)),
    via2 := via6522_reset (via2 (user drive)), media := c1541_media_reset (media (user drive))\<rparr>"
  have "P (user drive)" using g by (simp add: keeps_user)
  from media_reset_keeps [OF via2_keeps [OF via1_keeps [OF ram_keeps [OF this]]], of "via6522_reset (via2 (user drive))"
      "via6522_reset (via1 (user drive))" "\<lambda>_. 0"] have "P d" by (simp add: d_def)
  with g show ?thesis
    unfolding c1541_reset_def Let_def d_def [symmetric]
    by (simp add: guarded_calls keeps_user board_keeps)
qed

lemma load_rom_keeps:
  "P d \<Longrightarrow> P (snd (c1541_load_rom bs d))" "P d \<Longrightarrow> P (snd (c1541_load_rom_split lo hi d))"
proof -
  assume d: "P d"
  have "P (d\<lparr>rom := r, rom_loaded := b\<rparr>)" for r b using rom_loaded_keeps [OF rom_keeps [OF d]] by simp
  then show "P (snd (c1541_load_rom bs d))" "P (snd (c1541_load_rom_split lo hi d))"
    using d by (simp_all add: c1541_load_rom_def c1541_load_rom_split_def rom_keeps split: option.split)
qed

lemma init_keeps:
  "P \<lparr>via1 = via6522_init, via2 = via6522_init, ram = (\<lambda>_. 0), rom = (\<lambda>_. 0), rom_loaded = False, c64 = host,
      device_number = device, cpu_cycles_remaining = 0, via2_t1_pb7_last = False, media = c1541_media_init\<rparr> \<Longrightarrow>
   drive_keeps P (c1541_init host device)"
  unfolding c1541_init_def wire_irq_def by (rule guarded_power_on)

end

section \<open>The bus callbacks\<close>

lemma gate_ok_iff: "gate_ok m \<longleftrightarrow> media_ok m \<and> (writing m \<longrightarrow> motor_ready m)"
  by (simp add: gate_ok_def)

lemma iec_media [simp]: "media (c1541_update_iec_bus d) = media d"
  by (simp add: c1541_update_iec_bus_def Let_def)

lemma port_a_ok:
  "gate_ok (media d) \<Longrightarrow> gate_ok (media (c1541_media_on_port_a_read d))"
  "gate_ok (media d) \<Longrightarrow> gate_ok (media (c1541_media_on_port_a_write v d))"
  by (simp_all add: gate_ok_iff c1541_media_on_port_a_read_def c1541_media_on_port_a_write_def medium)

lemma bus_read_ok: "board_ok d \<Longrightarrow> board_ok (snd (c1541_bus_read d a))"
  by (simp add: board_ok_def c1541_bus_read_def Let_def split_beta port_a_ok)

lemma bus_write_ok: "board_ok d \<Longrightarrow> board_ok (c1541_bus_write d a v)"
  by (simp add: board_ok_def c1541_bus_write_def Let_def port_a_ok)

lemma irq_pending_ok: "board_ok d \<Longrightarrow> board_ok (snd (c1541_irq_pending w d))"
  by (simp add: board_ok_def c1541_irq_pending_def Let_def)

section \<open>Queued jobs\<close>

lemma invalidate_ok: "gate_ok m \<Longrightarrow> gate_ok (c1541_media_invalidate m)"
proof -
  assume m: "gate_ok m"
  then have "gate_ok (c1541_media_free_tracks m)"
    using parts_ok_free [of m] by (simp add: gate_ok_iff media_ok_def) (simp add: c1541_media_free_tracks_def)
  then show ?thesis by (simp add: c1541_media_invalidate_def Let_def gate_ok_iff medium)
qed

lemma sync_ok: "board_ok d \<Longrightarrow> board_ok (snd (c1541_media_sync_dirty mem d))"
  using sync_dirty_ok [of media_ok d mem] by (simp add: board_ok_def gate_ok_iff sync_dirty_fields)

lemma cohere_cache_gate: "gate_ok m \<Longrightarrow> gate_ok (cohere_cache s m)"
  using cohere_cache_ok [of media_ok m s] by (simp add: gate_ok_iff) (simp add: cohere_cache_def)

lemma keep_branch:
  "(c \<Longrightarrow> R a) \<Longrightarrow> (\<not> c \<Longrightarrow> R b) \<Longrightarrow> R (if c then a else b)"
  "(opt = None \<Longrightarrow> R x) \<Longrightarrow> (\<And>y. opt = Some y \<Longrightarrow> R (f y)) \<Longrightarrow> R (case opt of None \<Rightarrow> x | Some y \<Rightarrow> f y)"
  "(\<And>y. y = e \<Longrightarrow> R (g y)) \<Longrightarrow> R (Let e g)"
  by (auto split: option.split)

lemma splice_ok:
  assumes "gate_ok m" "off + n \<le> length (gcr_data (halves m ! k))" "length gcr = n"
  shows "gate_ok (m\<lparr>halves := (halves m)[k := (halves m ! k)\<lparr>gcr_data := take off (gcr_data (halves m ! k)) @ gcr @
    drop (off + n) (gcr_data (halves m ! k)), gcr_dirty := False\<rparr>]\<rparr>)"
  using assms halves_ok [of media_ok m] by (simp add: gate_ok_iff)

lemma poke_sector_ok:
  assumes "board_ok d"
  shows "board_ok (snd (c1541_media_poke_sector track sector dat d))"
  unfolding c1541_media_poke_sector_def
  by (rule keep_branch [where R = "\<lambda>r. board_ok (snd r)"] | simp only: snd_conv assms)+
     (use assms in \<open>simp_all add: board_ok_def splice_ok cohere_cache_gate split: option.split\<close>)

lemma copy_job_media [simp]: "media (snd (c1541_copy_job_buffer_to_sector n d)) = media d"
  by (simp add: c1541_copy_job_buffer_to_sector_def Let_def split: option.split)

lemma complete_job_media [simp]: "media (c1541_complete_queued_job n r d) = media d"
  by (simp add: c1541_complete_queued_job_def)

lemma satisfy_job_ok: "board_ok d \<Longrightarrow> board_ok (snd (c1541_satisfy_queued_job n d))"
proof -
  assume d: "board_ok d"
  define e where "e = snd (c1541_copy_job_buffer_to_sector n d)"
  have e: "board_ok e" "board_ok (snd (c1541_media_poke_sector (job_track e n) (job_sector e n) (job_buffer e n) e))"
    using d poke_sector_ok by (simp_all add: e_def board_ok_def)
  then show ?thesis using d
    by (simp add: c1541_satisfy_queued_job_def Let_def split_beta board_ok_def invalidate_ok c1541_pulse_write_led_def
        flip: e_def)
qed

lemma foldl_keeps: "R s \<Longrightarrow> (\<And>s x. R s \<Longrightarrow> R (f s x)) \<Longrightarrow> R (foldl f s xs)"
  by (induction xs arbitrary: s) simp_all

lemma satisfy_jobs_ok: "board_ok d \<Longrightarrow> board_ok (c1541_satisfy_queued_jobs d)"
  unfolding c1541_satisfy_queued_jobs_def by (rule foldl_keeps [where R = board_ok], assumption, rule satisfy_job_ok)

lemma board_fields:
  "board_ok (d\<lparr>via1 := x\<rparr>) = board_ok d" "board_ok (d\<lparr>via2 := x\<rparr>) = board_ok d"
  "board_ok (d\<lparr>ram := y\<rparr>) = board_ok d" "board_ok (d\<lparr>rom := y\<rparr>) = board_ok d" "board_ok (d\<lparr>rom_loaded := b\<rparr>) = board_ok d"
  "board_ok (d\<lparr>c64 := h\<rparr>) = board_ok d" "board_ok (d\<lparr>cpu_cycles_remaining := c\<rparr>) = board_ok d"
  "board_ok (d\<lparr>via2_t1_pb7_last := b\<rparr>) = board_ok d" "board_ok (c1541_update_iec_bus d) = board_ok d"
  by (simp_all add: board_ok_def)

lemma board_media_fields:
  "board_ok d \<Longrightarrow> board_ok (d\<lparr>media := (media d)\<lparr>so_pulse := b\<rparr>\<rparr>)"
  "board_ok d \<Longrightarrow> board_ok (d\<lparr>media := (media d)\<lparr>enabled := b\<rparr>\<rparr>)"
  "board_ok d \<Longrightarrow> board_ok (d\<lparr>media := c1541_media_invalidate (media d)\<rparr>)"
  using invalidate_ok [of "media d"] by (simp_all add: board_ok_def) (simp_all add: gate_ok_iff medium)

lemma media_init_ok: "gate_ok c1541_media_init" "gate_ok (c1541_media_reset m)"
  using tracks_ok_none head_on_none by (simp_all add: gate_ok_iff media_ok_defs c1541_media_init_def c1541_media_reset_def)

interpretation medium_in_range: board_contract board_ok
  by unfold_locales
    (simp_all add: bus_read_ok bus_write_ok irq_pending_ok satisfy_jobs_ok board_fields board_media_fields,
     simp_all add: board_ok_def media_step_ok media_init_ok)

section \<open>Reachable drives\<close>

lemma event_keeps: "drive_event mem drive drive' \<Longrightarrow> drive_keeps board_ok drive \<Longrightarrow> drive_keeps board_ok drive'"
proof (induction rule: drive_event.induct)
  case (cycle drive)
  then show ?case by (rule medium_in_range.cycle_keeps)
next
  case (reset drive)
  then show ?case by (rule medium_in_range.reset_keeps)
next
  case (rewire drive host)
  then show ?case unfolding c1541_rewire_def
    by (intro medium_in_range.wire_irq_keeps medium_in_range.guarded_rewire) (simp_all add: medium_in_range.keeps_user board_fields)
next
  case (invalidate drive)
  then show ?case by (simp add: medium_in_range.keeps_user board_media_fields)
qed (simp_all add: medium_in_range.keeps_user medium_in_range.load_rom_keeps sync_ok)

lemma reachable_guarded: "drive_reachable mem drive \<Longrightarrow> drive_keeps board_ok drive"
proof (induction rule: drive_reachable.induct)
  case (power_on host device)
  show ?case by (rule medium_in_range.init_keeps) (simp add: board_ok_def media_init_ok)
next
  case (event drive drive')
  then show ?case by (simp add: event_keeps)
qed

text \<open>
  C35. Every counter, position and index of the medium of every drive that can occur is in its range (\<open>media_ok\<close>),
  whatever code its processor runs, whatever disks the C64 mounts and whichever allocations fail: the head between
  the stops and on the track under it, the stepper on one of four phases, the spin-up and attach times, the shift
  registers and the flux decoder within their limits, less than 64 ticks left over in the bit clock, the decoder
  at most 14 ticks ahead, 84 tracks of at most 16384 bytes, and the write gate open only at full speed. Without a
  range are the two values of the free-running reference clock, the random state and the keys of the track cache.
\<close>

theorem medium_fields_in_range:
  "drive_reachable mem drive \<Longrightarrow> media_ok (media (user drive)) \<and>
    (writing (media (user drive)) \<longrightarrow> motor_ready (media (user drive)) \<and> motor_on (media (user drive)))"
  using medium_in_range.keeps_user(2) [OF reachable_guarded [of mem drive]]
  by (simp add: board_ok_def gate_ok_iff media_ok_defs)

theorem medium_fields_in_range_witness:
  "media_ok (media (user (c1541_reset (c1541_init (one_disk []) 8))))"
  using medium_fields_in_range [OF drive_reachable.event [OF drive_reachable.power_on drive_event.reset]] by blast

end
