(* ===== verification/C1541_Disk_Safe.thy ===== *)
theory C1541_Disk_Safe
  imports C1541_Reachable D64_Layout
begin

text \<open>
  What a drive can do to the disks. Through all its writing paths (queued jobs, tracks painted by the head
  and exported to the image) a drive only changes the image in its own slot, only if the slot is writable, and
  never its size.
\<close>

section \<open>Definitions\<close>

text \<open>The slot \<open>s'\<close> holds the same disk as \<open>s\<close>; its contents may differ only if the disk is writable.\<close>

definition slot_kept :: "c64_drive_slot \<Rightarrow> c64_drive_slot \<Rightarrow> bool" where
  "slot_kept s s' \<longleftrightarrow>
     mounted s' = mounted s \<and> powered s' = powered s \<and> writable s' = writable s \<and> image_kind s' = image_kind s \<and>
     backend s' = backend s \<and> image_ptr s' = image_ptr s \<and> length (image_bytes s') = length (image_bytes s) \<and>
     (\<not> writable s \<longrightarrow> image_bytes s' = image_bytes s \<and> slot_dirty s' = slot_dirty s \<and> image_content_seq s' = image_content_seq s)"

definition slots_kept :: "int \<Rightarrow> c64_drive_slot list \<Rightarrow> c64_drive_slot list \<Rightarrow> bool" where
  "slots_kept device ss ss' \<longleftrightarrow>
     length ss' = length ss \<and>
     (\<forall>i < length ss. if c64_drive_slot_index (word_of_int device) = Some i then slot_kept (ss ! i) (ss' ! i) else ss' ! i = ss ! i)"

definition disk_kept :: "int \<Rightarrow> c64_drive_slot list \<Rightarrow> c1541_board \<Rightarrow> bool" where
  "disk_kept device ss d \<longleftrightarrow> device_number d = device \<and> slots_kept device ss (drives (c64 d))"

section \<open>The C64 side\<close>

lemma slots_kept_refl: "slots_kept device ss ss"
  by (simp add: slots_kept_def slot_kept_def)

lemma slot_mut_kept:
  assumes "slots_kept device ss (drives h)"
    and "\<And>i s. c64_drive_slot_index (word_of_int device) = Some i \<Longrightarrow> i < length ss \<Longrightarrow>
      s = drives h ! i \<Longrightarrow> slot_kept (ss ! i) s \<Longrightarrow> slot_kept (ss ! i) (f s)"
  shows "slots_kept device ss (drives (c64_get_drive_slot_mut device f h))"
proof (cases "c64_drive_slot_index (word_of_int device)")
  case (Some i)
  have "drives (c64_get_drive_slot_mut device f h) = (drives h)[i := f (drives h ! i)]"
    using Some by (simp add: c64_get_drive_slot_mut_def)
  then show ?thesis using assms Some by (auto simp: slots_kept_def nth_list_update)
qed (use assms in \<open>simp add: c64_get_drive_slot_mut_def\<close>)

lemma host_drives [simp]:
  "drives (c64_notify_guest_media_write device h) = drives h"
  "drives (c64_refresh_iec_external_pull h) = drives h" "drives (c64_set_iec_drive_pull device lines h) = drives h"
  by (simp_all add: c64_notify_guest_media_write_def c64_refresh_iec_external_pull_def c64_set_iec_drive_pull_def Let_def)

lemma activity_kept:
  "slots_kept device ss (drives h) \<Longrightarrow> slots_kept device ss (drives (c64_disk_activity_read device h))"
  "slots_kept device ss (drives h) \<Longrightarrow> slots_kept device ss (drives (c64_disk_activity_write device h))"
  unfolding c64_disk_activity_read_def c64_disk_activity_write_def
  by (rule slot_mut_kept; simp add: slot_kept_def)+

text \<open>Storing contents of the same size in a writable slot.\<close>

lemma store_kept:
  assumes "slots_kept device ss (drives h)" "c64_get_drive_slot h device = Some slot" "writable slot"
    and "length img = length (image_bytes slot)"
    and "\<And>s. mounted (f s) = mounted s \<and> powered (f s) = powered s \<and> writable (f s) = writable s \<and> image_kind (f s) = image_kind s \<and>
      backend (f s) = backend s \<and> image_ptr (f s) = image_ptr s \<and> image_bytes (f s) = img"
  shows "slots_kept device ss (drives (c64_get_drive_slot_mut device f h))"
  using assms by (intro slot_mut_kept) (auto simp: slot_kept_def c64_get_drive_slot_def)

lemma slot_after_mut:
  "c64_get_drive_slot (c64_get_drive_slot_mut device f h) device = Some slot' \<Longrightarrow>
   \<exists>slot. c64_get_drive_slot h device = Some slot \<and> (slot' = f slot \<or> slot' = slot)"
  by (auto simp: c64_get_drive_slot_def c64_get_drive_slot_mut_def nth_list_update list_update_beyond split: option.splits)
    (metis linorder_not_le list_update_beyond nth_list_update_eq)+

lemma board_kept [simp]:
  "disk_kept device ss (d\<lparr>media := m\<rparr>) = disk_kept device ss d" "disk_kept device ss (d\<lparr>via1 := v\<rparr>) = disk_kept device ss d"
  "disk_kept device ss (d\<lparr>via2 := v\<rparr>) = disk_kept device ss d" "disk_kept device ss (d\<lparr>ram := r\<rparr>) = disk_kept device ss d"
  "disk_kept device ss (d\<lparr>rom := r\<rparr>) = disk_kept device ss d" "disk_kept device ss (d\<lparr>rom_loaded := b\<rparr>) = disk_kept device ss d"
  "disk_kept device ss (d\<lparr>cpu_cycles_remaining := n\<rparr>) = disk_kept device ss d"
  "disk_kept device ss (d\<lparr>via2_t1_pb7_last := b\<rparr>) = disk_kept device ss d"
  by (simp_all add: disk_kept_def)

lemma notify_kept:
  "disk_kept device ss (d\<lparr>c64 := h\<rparr>) \<longleftrightarrow> device_number d = device \<and> slots_kept device ss (drives h)"
  "disk_kept device ss d \<Longrightarrow> slots_kept device ss (drives (c64 d))" "disk_kept device ss d \<Longrightarrow> device_number d = device"
  by (simp_all add: disk_kept_def)

section \<open>Exports\<close>

lemma put_image_kept:
  assumes "disk_kept device ss d" "drive_slot d = Some slot" "writable slot" "length img = length (image_bytes slot)"
  shows "disk_kept device ss (put_image img d)"
proof -
  have "slots_kept device ss (drives (c64_get_drive_slot_mut device (\<lambda>slot. slot\<lparr>image_bytes := img\<rparr>) (c64 d)))"
    using assms by (intro store_kept [where slot = slot and img = img]) (auto simp: disk_kept_def drive_slot_def)
  then show ?thesis using assms(1) by (simp add: put_image_def disk_kept_def)
qed

lemma put_image_slot:
  assumes "drive_slot d = Some slot"
  shows "\<exists>slot'. drive_slot (put_image img d) = Some slot' \<and> writable slot' = writable slot"
proof -
  obtain slot' where s: "drive_slot (put_image img d) = Some slot'"
    using assms by (auto simp: drive_slot_def put_image_def c64_get_drive_slot_def)
  with slot_after_mut [of "device_number d" _ "c64 d" slot'] assms show ?thesis
    by (fastforce simp: drive_slot_def put_image_def)
qed

lemma mark_exported_kept:
  assumes "disk_kept device ss d" "drive_slot d = Some slot" "writable slot"
  shows "disk_kept device ss (mark_exported d)"
proof -
  have "slots_kept device ss (drives (c64_get_drive_slot_mut device
      (\<lambda>slot. slot\<lparr>slot_dirty := True, image_content_seq := image_content_seq slot + 1\<rparr>) (c64 d)))"
    using assms by (intro slot_mut_kept) (auto simp: disk_kept_def slot_kept_def drive_slot_def c64_get_drive_slot_def)
  then have "disk_kept device ss (update_c64 (c64_get_drive_slot_mut (device_number d)
      (\<lambda>slot. slot\<lparr>slot_dirty := True, image_content_seq := image_content_seq slot + 1\<rparr>)) d)"
    using assms(1) by (simp add: disk_kept_def)
  then show ?thesis by (simp add: mark_exported_def Let_def split: option.split)
qed

lemma exported_kept:
  assumes "disk_kept device ss d" "drive_slot d = Some slot" "writable slot" "length img = length (image_bytes slot)"
  shows "disk_kept device ss (mark_exported (put_image img (d\<lparr>media := m\<rparr>)))" "disk_kept device ss (put_image img (d\<lparr>media := m\<rparr>))"
proof -
  have d: "disk_kept device ss (d\<lparr>media := m\<rparr>)" "drive_slot (d\<lparr>media := m\<rparr>) = Some slot"
    using assms by (simp_all add: drive_slot_def)
  show "disk_kept device ss (put_image img (d\<lparr>media := m\<rparr>))" by (rule put_image_kept [OF d assms(3,4)])
  then show "disk_kept device ss (mark_exported (put_image img (d\<lparr>media := m\<rparr>)))"
    using put_image_slot [OF d(2), of img] assms(3) by (auto intro: mark_exported_kept)
qed

lemma sector_bytes:
  assumes "c1541_gcr_decode src = (260, raw)" "c1541_gcr_data_raw_to_sector raw = Some sector"
  shows "length sector = 256"
  using assms by (auto simp: c1541_gcr_decode_def c1541_gcr_data_raw_to_sector_def Let_def split: if_splits sum.splits)

lemma sector_after_sync_length: "sector_after_sync tr t pos = Some (n, sector) \<Longrightarrow> length sector = 256"
  by (auto simp: sector_after_sync_def Let_def split: if_splits option.splits prod.splits dest: sector_bytes)

lemma decode_track_bit_length:
  assumes "payload \<le> length (snd (snd st))"
  shows "length (snd (snd (decode_track_bit tr t payload st pos))) = length (snd (snd st))"
  using assms
  by (cases st) (auto simp: decode_track_bit_def Let_def dest: sector_after_sync_length split: option.split prod.split)

lemma decode_track_length: "payload \<le> length img \<Longrightarrow> length (snd (decode_track_to_d64 tr t payload img)) = length img"
proof -
  assume p: "payload \<le> length img"
  have "length (snd (snd (foldl (decode_track_bit tr t payload) (0, False, img) is))) = length img" for "is"
    by (rule foldl_keeps [where R = "\<lambda>st. length (snd (snd st)) = length img"])
      (use p in \<open>simp_all add: decode_track_bit_length\<close>)
  then show ?thesis by (simp add: decode_track_to_d64_def)
qed

lemma sync_d64_length:
  assumes "payload \<le> length img"
  shows "length (fst (snd (foldl (sync_d64_track payload) (any, img, m) ts))) = length img"
  by (rule foldl_keeps [where R = "\<lambda>st. length (fst (snd st)) = length img"])
    (use assms in \<open>auto simp: sync_d64_track_def Let_def split_beta decode_track_length split: option.split\<close>)

lemma sync_g64_length: "length (fst (snd (snd (sync_g64_tracks mem is cap any img m)))) = length img"
proof (induction "is" arbitrary: cap any img m)
  case (Cons i "is")
  have "g64_patch_half_track_in_image i payload img = Some img' \<Longrightarrow> length img' = length img" for payload img'
    by (auto simp: g64_patch_half_track_in_image_def Let_def split: if_splits)
  with Cons show ?case by (simp add: Let_def split: option.split)
qed simp

lemma sync_d64_kept:
  assumes "disk_kept device ss d"
  shows "disk_kept device ss (snd (c1541_media_sync_dirty_to_d64 d))"
proof -
  have e: "disk_kept device ss (snd (let (any, img, m) = foldl (sync_d64_track (payload_size geo)) (False, image_bytes slot, media d) ts;
      e = put_image img (d\<lparr>media := m\<rparr>) in (any, if any then mark_exported e else e)))"
    if s: "drive_slot d = Some slot" "writable slot" "d64_geometry_from_size (length (image_bytes slot)) = Some geo" for slot geo ts
  proof -
    have "payload_size geo \<le> length (image_bytes slot)" using geometry_cases(3) [OF s(3)] by simp
    then have "length (fst (snd (foldl (sync_d64_track (payload_size geo)) (False, image_bytes slot, media d) ts))) =
      length (image_bytes slot)" by (rule sync_d64_length)
    from exported_kept [OF assms s(1,2) this] show ?thesis by (simp add: Let_def split_beta)
  qed
  show ?thesis unfolding c1541_media_sync_dirty_to_d64_def
    by (rule keep_branch(1,2) [where R = "\<lambda>r. disk_kept device ss (snd r)"] e | simp add: assms del: upt_Suc)+
qed

lemma sync_g64_kept:
  assumes "disk_kept device ss d"
  shows "disk_kept device ss (snd (c1541_media_sync_dirty_to_g64 mem d))"
proof -
  have "disk_kept device ss (snd (c1541_media_sync_dirty_to_g64 mem d))"
    if s: "drive_slot d = Some slot" "writable slot" for slot
    using exported_kept [OF assms s sync_g64_length] assms s
    by (simp add: c1541_media_sync_dirty_to_g64_def Let_def split_beta del: upt_Suc)
  then show ?thesis using assms
    by (cases "drive_slot d") (auto simp: c1541_media_sync_dirty_to_g64_def)
qed

lemma sync_dirty_kept: "disk_kept device ss d \<Longrightarrow> disk_kept device ss (snd (c1541_media_sync_dirty mem d))"
  by (simp add: c1541_media_sync_dirty_def sync_d64_kept sync_g64_kept split: option.split)

section \<open>One cycle of the medium\<close>

lemma paint_bit_kept: "disk_kept device ss d \<Longrightarrow> disk_kept device ss (paint_bit tri b d)"
  by (simp add: paint_bit_def Let_def notify_kept split: option.split)

lemma write_kept: "disk_kept device ss d \<Longrightarrow> disk_kept device ss (media_shift_bit_write tri d)"
  by (simp add: media_shift_bit_write_def Let_def paint_bit_kept)

lemma cell_kept:
  "disk_kept device ss d \<Longrightarrow> disk_kept device ss (read_cell tri d)"
  "disk_kept device ss d \<Longrightarrow> disk_kept device ss (write_cell tri d)"
  by (simp_all add: read_cell_def write_cell_def Let_def write_kept)

lemma bit_loop_kept: "disk_kept device ss d \<Longrightarrow> disk_kept device ss (media_bit_loop tri boundary acc d)"
proof (induction tri boundary acc d rule: media_bit_loop.induct)
  case (1 tri boundary acc d)
  then show ?case by (subst media_bit_loop.simps) (simp add: Let_def cell_kept)
qed

lemma rotate_kept:
  "disk_kept device ss d \<Longrightarrow> disk_kept device ss (media_rotate_g64 d)"
  "disk_kept device ss d \<Longrightarrow> disk_kept device ss (media_rotate_simple d)"
proof -
  assume d: "disk_kept device ss d"
  show "disk_kept device ss (media_rotate_g64 d)" using d by (simp add: media_rotate_g64_def Let_def)
  have "disk_kept device ss (update_media g (media_bit_loop tri b acc (update_media f (d\<lparr>media := m\<rparr>))))" for g tri b acc f m
    using d by (simp add: bit_loop_kept)
  then show "disk_kept device ss (media_rotate_simple d)" using d by (simp add: media_rotate_simple_def Let_def bit_loop_kept)
qed

lemma ensure_tracks_kept: "disk_kept device ss d \<Longrightarrow> disk_kept device ss (ensure_tracks mem d)"
  by (simp add: ensure_tracks_def Let_def split_beta split: option.split)

lemma outputs_kept:
  "disk_kept device ss d \<Longrightarrow> disk_kept device ss (sample_disk_via_outputs mem d)"
  by (simp add: sample_disk_via_outputs_def sample_write_gate_def sample_stepper_def Let_def split_beta sync_dirty_kept)

lemma inputs_kept: "disk_kept device ss d \<Longrightarrow> disk_kept device ss (update_disk_via_inputs d)"
  by (simp add: update_disk_via_inputs_def Let_def)

lemma media_step_kept:
  assumes "disk_kept device ss d"
  shows "disk_kept device ss (c1541_media_step mem d)"
proof -
  define b where "b = update_media (\<lambda>m. advance_motor (advance_attach m)) (sample_disk_via_outputs mem (ensure_tracks mem d))"
  define e where "e = update_disk_via_inputs (if motor_ready (media b) \<and> tracks_valid (media b) \<and> attach_left (media b) = 0 then
      if \<not> writing (media b) \<and> from_g64 (media b) then media_rotate_g64 b else media_rotate_simple b else b)"
  have "disk_kept device ss b" using assms by (simp add: b_def ensure_tracks_kept outputs_kept)
  then have "disk_kept device ss e" unfolding e_def by (intro inputs_kept) (simp add: rotate_kept)
  moreover have "c1541_media_step mem d = (if \<not> enabled (media d) then d else if so_pulse (media e) then
      update_c64 (if writing (media e) then c64_disk_activity_write (device_number e)
                  else c64_disk_activity_read (device_number e)) e else e)"
    by (simp only: c1541_media_step_def Let_def e_def b_def)
  ultimately show ?thesis using assms by (simp add: notify_kept activity_kept)
qed

section \<open>Queued jobs and the bus\<close>

lemma job_buffer_length: "length (job_buffer d n) = 256"
  by (simp add: job_buffer_def Let_def)

lemma job_offset:
  assumes "c1541_job_sector_offset d n = Some offset" "drive_slot d = Some slot"
  shows "offset + 256 \<le> length (image_bytes slot)"
  using assms geometry_cases(3)
  by (auto simp: c1541_job_sector_offset_def split: option.splits if_splits sum.splits) (metis le_add1 le_trans not_le)

lemma copy_job_kept:
  assumes "disk_kept device ss d"
  shows "disk_kept device ss (snd (c1541_copy_job_buffer_to_sector n d))"
proof -
  have "disk_kept device ss (snd (c1541_copy_job_buffer_to_sector n d))"
    if s: "drive_slot d = Some slot" "writable slot" "c1541_job_sector_offset d n = Some offset" for slot offset
  proof -
    have "slots_kept device ss (drives (c64_get_drive_slot_mut device (\<lambda>slot'. slot'\<lparr>image_bytes :=
        take offset (image_bytes slot) @ job_buffer d n @ drop (offset + 256) (image_bytes slot),
        slot_dirty := True, image_content_seq := image_content_seq slot' + 1\<rparr>) (c64 d)))"
      using job_offset [OF s(3,1)] assms s
      by (intro store_kept [where slot = slot and img = "take offset (image_bytes slot) @ job_buffer d n @ drop (offset + 256) (image_bytes slot)"])
        (auto simp: disk_kept_def drive_slot_def job_buffer_length)
    then show ?thesis using assms s
      by (simp add: c1541_copy_job_buffer_to_sector_def Let_def notify_kept)
  qed
  then show ?thesis using assms
    by (cases "drive_slot d"; cases "c1541_job_sector_offset d n") (auto simp: c1541_copy_job_buffer_to_sector_def)
qed

lemma poke_kept: "disk_kept device ss d \<Longrightarrow> disk_kept device ss (snd (c1541_media_poke_sector track sector dat d))"
proof -
  assume d: "disk_kept device ss d"
  show ?thesis
    unfolding c1541_media_poke_sector_def
    by (rule keep_branch [where R = "\<lambda>r. disk_kept device ss (snd r)"] | simp only: snd_conv d)+
       (use d in \<open>simp_all split: option.split\<close>)
qed

lemma satisfy_job_kept: "disk_kept device ss d \<Longrightarrow> disk_kept device ss (snd (c1541_satisfy_queued_job n d))"
proof -
  assume d: "disk_kept device ss d"
  define e where "e = snd (c1541_copy_job_buffer_to_sector n d)"
  have e: "disk_kept device ss e"
    "disk_kept device ss (snd (c1541_media_poke_sector (job_track e n) (job_sector e n) (job_buffer e n) e))"
    using d copy_job_kept poke_kept by (simp_all add: e_def)
  then show ?thesis using d
    by (simp add: c1541_satisfy_queued_job_def Let_def split_beta c1541_pulse_write_led_def c1541_complete_queued_job_def
        notify_kept activity_kept flip: e_def)
qed

lemma satisfy_jobs_kept: "disk_kept device ss d \<Longrightarrow> disk_kept device ss (c1541_satisfy_queued_jobs d)"
  unfolding c1541_satisfy_queued_jobs_def
  by (rule foldl_keeps [where R = "disk_kept device ss"], assumption, rule satisfy_job_kept)

lemma iec_kept: "disk_kept device ss d \<Longrightarrow> disk_kept device ss (c1541_update_iec_bus d)"
  by (simp add: c1541_update_iec_bus_def Let_def notify_kept)

lemma bus_kept:
  "disk_kept device ss d \<Longrightarrow> disk_kept device ss (snd (c1541_bus_read d a))"
  "disk_kept device ss d \<Longrightarrow> disk_kept device ss (c1541_bus_write d a v)"
  "disk_kept device ss d \<Longrightarrow> disk_kept device ss (snd (c1541_irq_pending w d))"
  by (simp_all add: c1541_bus_read_def c1541_bus_write_def c1541_irq_pending_def c1541_media_on_port_a_read_def
      c1541_media_on_port_a_write_def iec_kept Let_def split_beta)

interpretation disk_safe: board_contract "disk_kept device ss" for device ss
  by unfold_locales (simp_all add: bus_kept media_step_kept satisfy_jobs_kept iec_kept)

section \<open>The drive\<close>

text \<open>A drive running on its own: cycles, resets and exports.\<close>

inductive drive_runs :: "(media_alloc \<Rightarrow> bool) \<Rightarrow> c1541 \<Rightarrow> c1541 \<Rightarrow> bool" for mem where
  start: "drive_runs mem drive drive"
| cycle: "drive_runs mem drive a \<Longrightarrow> drive_runs mem drive (c1541_advance_one_cycle mem a)"
| reset: "drive_runs mem drive a \<Longrightarrow> drive_runs mem drive (c1541_reset a)"
| sync: "drive_runs mem drive a \<Longrightarrow> drive_runs mem drive (update_board (\<lambda>d. snd (c1541_media_sync_dirty mem d)) a)"

lemma runs_keep:
  assumes "drive_runs mem drive drive'" "drive_keeps (disk_kept device ss) drive"
  shows "drive_keeps (disk_kept device ss) drive'"
  using assms
proof (induction rule: drive_runs.induct)
  case (sync drive a)
  then show ?case by (intro disk_safe.keeps_user(1)) (simp_all add: sync_dirty_kept disk_safe.keeps_user)
qed (simp_all add: disk_safe.cycle_keeps disk_safe.reset_keeps)

lemma reachable_keeps_disk:
  assumes "drive_reachable mem drive"
  shows "drive_keeps (disk_kept (device_number (user drive)) (drives (c64 (user drive)))) drive"
proof -
  have "wired c1541_bus_read c1541_bus_write c1541_irq_pending (read_fn drive) (write_fn drive) (irq_pending_fn drive)
      (nmi_pending_fn drive)" using reachable_guarded [OF assms] by (simp add: guarded_def)
  then show ?thesis by (simp add: disk_safe.guarded_wired) (simp add: disk_kept_def slots_kept_refl)
qed

text \<open>
  C34. Whatever code a drive's processor runs, for any number of cycles, resets and exports: the disks in the other
  slots stay as they are, the disk in its own slot keeps its size, and if that disk is write protected, its
  bytes, its dirty flag and its content number do not change.
\<close>

theorem drive_writes_own_writable_disk:
  assumes "drive_reachable mem drive" "drive_runs mem drive drive'"
    and "i < length (drives (c64 (user drive)))"
  defines "s \<equiv> drives (c64 (user drive)) ! i" and "s' \<equiv> drives (c64 (user drive')) ! i"
  shows "length (image_bytes s') = length (image_bytes s) \<and>
    (\<not> writable s \<longrightarrow> image_bytes s' = image_bytes s \<and> slot_dirty s' = slot_dirty s \<and> image_content_seq s' = image_content_seq s) \<and>
    (c64_drive_slot_index (word_of_int (device_number (user drive))) \<noteq> Some i \<longrightarrow> s' = s)"
proof -
  have "drive_keeps (disk_kept (device_number (user drive)) (drives (c64 (user drive)))) drive'"
    by (rule runs_keep [OF assms(2) reachable_keeps_disk [OF assms(1)]])
  from disk_safe.keeps_user(2) [OF this] have "slots_kept (device_number (user drive)) (drives (c64 (user drive))) (drives (c64 (user drive')))"
    by (simp add: disk_kept_def)
  then show ?thesis using assms(3) by (auto simp: slots_kept_def slot_kept_def s_def s'_def split: if_splits)
qed

text \<open>A drive 8 with a loaded ROM full of \<^verbatim>\<open>NOP\<close>s, and a byte of a disk in each slot.\<close>

definition two_disks :: c64_host where
  "two_disks = (one_disk [1])\<lparr>drives := map (\<lambda>b. empty_slot\<lparr>mounted := True, image_ptr := 1, image_bytes := [b]\<rparr>) [1, 2]\<rparr>"

definition nop_drive :: c1541 where
  "nop_drive = update_board (\<lambda>d. snd (c1541_load_rom (Some (replicate 16384 0xEA)) d)) (c1541_init two_disks 8)"

definition nop_drive_later :: c1541 where
  "nop_drive_later = c1541_advance_one_cycle (\<lambda>_. True) (c1541_advance_one_cycle (\<lambda>_. True) (c1541_reset nop_drive))"

theorem drive_writes_own_writable_disk_witness:
  "rom_loaded (user nop_drive) \<and> image_bytes (drives (c64 (user nop_drive_later)) ! 0) = [1] \<and>
   drives (c64 (user nop_drive_later)) ! 1 = drives two_disks ! 1"
proof -
  have r: "drive_reachable (\<lambda>_. True) nop_drive"
    unfolding nop_drive_def by (rule drive_reachable.event [OF drive_reachable.power_on drive_event.load_rom])
  have s: "drive_runs (\<lambda>_. True) nop_drive nop_drive_later"
    unfolding nop_drive_later_def by (intro drive_runs.intros)
  have u: "drives (c64 (user nop_drive)) = drives two_disks" "device_number (user nop_drive) = 8" "rom_loaded (user nop_drive)"
    by (simp_all add: nop_drive_def c1541_init_def wire_irq_def c6510_set_irq_pending_callback_def c6510_init_def c1541_load_rom_def)
  have t: "drives two_disks = [empty_slot\<lparr>mounted := True, image_ptr := 1, image_bytes := [1]\<rparr>,
      empty_slot\<lparr>mounted := True, image_ptr := 1, image_bytes := [2]\<rparr>]"
    by (simp add: two_disks_def)
  show ?thesis
    using drive_writes_own_writable_disk [OF r s, of 0] drive_writes_own_writable_disk [OF r s, of 1] u t
    by (simp add: empty_slot_def)
qed

end
