(* ===== verification/C1541_Motor.thy ===== *)
theory C1541_Motor
  imports C1541_Reachable
begin

text \<open>
  The motor comes up to speed. The medium looks at the motor line of the disk controller VIA in every cycle and
  counts the cycles since it was switched on; nothing in a cycle of the medium moves the output lines of the VIA.
\<close>

section \<open>The output lines\<close>

lemma sync_via2: "via2 (snd (c1541_media_sync_dirty mem d)) = via2 d"
  by (simp add: c1541_media_sync_dirty_def c1541_media_sync_dirty_to_d64_def c1541_media_sync_dirty_to_g64_def
      mark_exported_def put_image_def Let_def split_beta split: option.split del: upt_Suc)

lemma stepper_via2: "via2 (sample_stepper mem phase d) = via2 d"
  by (simp add: sample_stepper_def Let_def split_beta sync_via2)

lemma write_gate_via2: "via2 (sample_write_gate mem d) = via2 d"
  by (simp add: sample_write_gate_def Let_def sync_via2)

lemma outputs_via2: "via2 (sample_disk_via_outputs mem d) = via2 d"
  by (simp add: sample_disk_via_outputs_def Let_def write_gate_via2 stepper_via2)

lemma ensure_tracks_via2: "via2 (ensure_tracks mem d) = via2 d"
  by (simp add: ensure_tracks_def Let_def split_beta split: option.split)

lemma cell_via2: "via2 (read_cell tri d) = via2 d" "via2 (write_cell tri d) = via2 d"
  by (simp_all add: read_cell_def write_cell_def media_shift_bit_write_def paint_bit_def Let_def split: option.split)

lemma bit_loop_via2: "via2 (media_bit_loop tri boundary acc d) = via2 d"
proof (induction tri boundary acc d rule: media_bit_loop.induct)
  case (1 tri boundary acc d)
  then show ?case by (subst media_bit_loop.simps) (simp add: Let_def cell_via2)
qed

lemma after_turn_via2: "via2 (after_turn b) = via2 b"
  by (simp add: after_turn_def media_rotate_g64_def media_rotate_simple_def Let_def bit_loop_via2)

text \<open>The motor line.\<close>

definition motor_line :: "c1541_board \<Rightarrow> bool" where
  "motor_line d \<longleftrightarrow> ddrb (via2 d) AND 0x04 \<noteq> 0 \<and> orb (via2 d) AND 0x04 \<noteq> 0"

lemma motor_line_step:
  assumes "enabled (media d)"
  shows "motor_line (c1541_media_step mem d) = motor_line d"
proof -
  have "via2 (before_turn mem d) = via2 d" by (simp add: before_turn_def outputs_via2 ensure_tracks_via2)
  then have "via2 (after_turn (before_turn mem d)) = via2 d" by (simp add: after_turn_via2)
  then show ?thesis
    using media_step_turn(2) [OF assms, of mem]
    by (simp add: motor_line_def update_disk_via_inputs_def via6522_set_port_a_inputs_def via6522_set_port_b_inputs_def Let_def)
qed

section \<open>Counting the cycles\<close>

text \<open>After \<open>k\<close> cycles with the motor line high.\<close>

definition spinning :: "nat \<Rightarrow> c1541_media \<Rightarrow> bool" where
  "spinning k m \<longleftrightarrow> motor_on m \<and> (motor_ready m \<or> motor_spin_left m \<noteq> 0 \<and> unat (motor_spin_left m) + k \<le> 50000)"

lemma spinning_advance:
  assumes "motor_on m" "motor_ready m \<or> unat (motor_spin_left m) + k \<le> 50000"
  shows "spinning (Suc k) (advance_motor m)"
proof -
  have "unat (motor_spin_left m - 1) + 1 = unat (motor_spin_left m)" if "motor_spin_left m \<noteq> 0"
    using that unat_gt_0 [of "motor_spin_left m"] by (simp add: unat_minus_one)
  then have "motor_spin_left m \<noteq> 0 \<Longrightarrow> unat (motor_spin_left m) + k \<le> 50000 \<Longrightarrow> unat (motor_spin_left m - 1) + Suc k \<le> 50000"
    by (metis add_Suc_right add_Suc_shift Suc_eq_plus1)
  then show ?thesis using assms
    by (auto simp: spinning_def advance_motor_def Let_def word_neq_0_conv)
qed

lemma spinning_step:
  assumes "gate_ok (media d)" "enabled (media d)" "motor_line d" "k = 0 \<or> spinning k (media d)"
  shows "spinning (Suc k) (media (c1541_media_step mem d))"
proof -
  define e where "e = sample_disk_via_outputs mem (ensure_tracks mem d)"
  have m: "media_ok (media d)" using assms(1) by (simp add: gate_ok_def)
  have "motor_on (media e)" "motor_ready (media e) \<or> unat (motor_spin_left (media e)) + k \<le> 50000"
    using assms(3,4) m
    by (auto simp: e_def outputs_fields ensure_tracks_fields ensure_tracks_via2 motor_line_def sample_motor_def Let_def
        spinning_def media_ok_defs word_le_nat_alt)
  then have "spinning (Suc k) (advance_motor (advance_attach (media e)))"
    by (intro spinning_advance) (simp_all add: advance_attach_def Let_def)
  then have b: "spinning (Suc k) (media (before_turn mem d))" by (simp add: before_turn_def e_def)
  have g: "gate_ok (media (before_turn mem d))" "enabled (media (before_turn mem d))"
    using before_turn_ok [OF assms(1)] assms(2) by simp_all
  have "spinning (Suc k) (media (after_turn (before_turn mem d)))"
  proof (cases "after_turn (before_turn mem d) = before_turn mem d")
    case False
    then have "motor_ready (media (after_turn (before_turn mem d)))" using after_turn_ok(3) [OF g] by blast
    then show ?thesis using after_turn_ok(1) [OF g] by (simp add: spinning_def gate_ok_def media_ok_defs)
  qed (use b in simp)
  then show ?thesis using assms(2) by (simp add: media_step_turn)
qed

lemma media_step_enabled: "gate_ok (media d) \<Longrightarrow> enabled (media d) \<Longrightarrow> enabled (media (c1541_media_step mem d))"
  using before_turn_ok [of d mem] after_turn_ok(2) [of "before_turn mem d"] by (simp add: media_step_turn)

lemma spinning_steps:
  fixes mem :: "media_alloc \<Rightarrow> bool" and d :: c1541_board
  assumes "gate_ok (media d)" "enabled (media d)" "motor_line d"
  defines "e \<equiv> \<lambda>n. (c1541_media_step mem ^^ n) d"
  shows "gate_ok (media (e n)) \<and> enabled (media (e n)) \<and> motor_line (e n) \<and> (n = 0 \<or> spinning n (media (e n)))"
proof (induction n)
  case (Suc n)
  then show ?case using spinning_step [of "e n" n mem] media_step_ok [of "e n" mem] media_step_enabled [of "e n" mem]
    by (simp add: e_def motor_line_step)
qed (use assms in simp)

section \<open>Up to speed\<close>

text \<open>
  C36. While the motor line of the disk controller VIA is high, the motor is up to speed after at most 50000 cycles of
  the medium and stays so, from any state with its fields in range, whatever the head reads or writes meanwhile,
  whichever disk is in the slot and whichever allocations fail; the cycles leave the motor line high.
\<close>

theorem motor_comes_up_to_speed:
  assumes "gate_ok (media d)" "enabled (media d)" "motor_line d" "50000 \<le> n"
  shows "motor_ready (media ((c1541_media_step mem ^^ n) d)) \<and> motor_line ((c1541_media_step mem ^^ n) d)"
  using spinning_steps [OF assms(1-3), of n mem] assms(4)
  by (auto simp: spinning_def word_unat_eq_iff)

text \<open>A drive after power-on whose program has switched the motor on.\<close>

definition motor_drive :: c1541_board where
  "motor_drive =
     (user (c1541_init (one_disk []) 8))\<lparr>via2 := via6522_init\<lparr>ddrb := 0x04, orb := 0x04\<rparr>,
        media := c1541_media_init\<lparr>enabled := True\<rparr>\<rparr>"

theorem motor_comes_up_to_speed_witness:
  "\<not> motor_ready (media motor_drive) \<and> motor_ready (media ((c1541_media_step (\<lambda>_. True) ^^ 50000) motor_drive))"
proof -
  have "gate_ok (media motor_drive)" "enabled (media motor_drive)" "\<not> motor_ready (media motor_drive)"
    using media_init_ok(1) by (simp_all add: motor_drive_def gate_ok_iff medium) (simp add: c1541_media_init_def)
  moreover have "motor_line motor_drive"
    by (simp add: motor_line_def motor_drive_def)
  ultimately show ?thesis using motor_comes_up_to_speed [of motor_drive 50000 "\<lambda>_. True"] by blast
qed

end
