(* ===== verification/C64_Keyboard.thy ===== *)
theory C64_Keyboard
  imports Machine_Prelude
begin

text \<open>
  The keyboard matrix of the C64, \<^verbatim>\<open>src/src/c64/machine/keyboard.c\<close>: eight rows of eight columns. A set bit is
  a closed switch; what the two ports of CIA 1 read through the matrix is active low.

  The rows are the list of the eight bytes. A key is a value of \<open>c64_key\<close>; the bound \<^verbatim>\<open>C64_KEY_COUNT\<close>, which the
  setter rejects with every other number outside the table, is \<open>None\<close>.
\<close>

section \<open>Data\<close>

datatype (plugins only: size) c64_key =
   C64_KEY_A | C64_KEY_B | C64_KEY_C | C64_KEY_D | C64_KEY_E | C64_KEY_F | C64_KEY_G | C64_KEY_H |
   C64_KEY_I | C64_KEY_J | C64_KEY_K | C64_KEY_L | C64_KEY_M | C64_KEY_N | C64_KEY_O | C64_KEY_P |
   C64_KEY_Q | C64_KEY_R | C64_KEY_S | C64_KEY_T | C64_KEY_U | C64_KEY_V | C64_KEY_W | C64_KEY_X |
   C64_KEY_Y | C64_KEY_Z | C64_KEY_0 | C64_KEY_1 | C64_KEY_2 | C64_KEY_3 | C64_KEY_4 | C64_KEY_5 |
   C64_KEY_6 | C64_KEY_7 | C64_KEY_8 | C64_KEY_9 | C64_KEY_SPACE | C64_KEY_RETURN | C64_KEY_DELETE |
   C64_KEY_LEFT_SHIFT | C64_KEY_RIGHT_SHIFT | C64_KEY_PLUS | C64_KEY_MINUS | C64_KEY_ASTERISK |
   C64_KEY_EQUALS | C64_KEY_COLON | C64_KEY_SEMICOLON | C64_KEY_COMMA | C64_KEY_PERIOD | C64_KEY_SLASH |
   C64_KEY_AT | C64_KEY_CURSOR_RIGHT | C64_KEY_CURSOR_DOWN | C64_KEY_HOME | C64_KEY_RUN_STOP |
   C64_KEY_CONTROL | C64_KEY_COMMODORE | C64_KEY_LEFT_ARROW | C64_KEY_UP_ARROW | C64_KEY_POUND | C64_KEY_F1 |
   C64_KEY_F3 | C64_KEY_F5 | C64_KEY_F7

definition c64_key_positions :: "c64_key \<Rightarrow> nat \<times> nat" where
  "c64_key_positions key =
     (case key of
        C64_KEY_A \<Rightarrow> (1, 2)
      | C64_KEY_B \<Rightarrow> (3, 4)
      | C64_KEY_C \<Rightarrow> (2, 4)
      | C64_KEY_D \<Rightarrow> (2, 2)
      | C64_KEY_E \<Rightarrow> (1, 6)
      | C64_KEY_F \<Rightarrow> (2, 5)
      | C64_KEY_G \<Rightarrow> (3, 2)
      | C64_KEY_H \<Rightarrow> (3, 5)
      | C64_KEY_I \<Rightarrow> (4, 1)
      | C64_KEY_J \<Rightarrow> (4, 2)
      | C64_KEY_K \<Rightarrow> (4, 5)
      | C64_KEY_L \<Rightarrow> (5, 2)
      | C64_KEY_M \<Rightarrow> (4, 4)
      | C64_KEY_N \<Rightarrow> (4, 7)
      | C64_KEY_O \<Rightarrow> (4, 6)
      | C64_KEY_P \<Rightarrow> (5, 1)
      | C64_KEY_Q \<Rightarrow> (7, 6)
      | C64_KEY_R \<Rightarrow> (2, 1)
      | C64_KEY_S \<Rightarrow> (1, 5)
      | C64_KEY_T \<Rightarrow> (2, 6)
      | C64_KEY_U \<Rightarrow> (3, 6)
      | C64_KEY_V \<Rightarrow> (3, 7)
      | C64_KEY_W \<Rightarrow> (1, 1)
      | C64_KEY_X \<Rightarrow> (2, 7)
      | C64_KEY_Y \<Rightarrow> (3, 1)
      | C64_KEY_Z \<Rightarrow> (1, 4)
      | C64_KEY_0 \<Rightarrow> (4, 3)
      | C64_KEY_1 \<Rightarrow> (7, 0)
      | C64_KEY_2 \<Rightarrow> (7, 3)
      | C64_KEY_3 \<Rightarrow> (1, 0)
      | C64_KEY_4 \<Rightarrow> (1, 3)
      | C64_KEY_5 \<Rightarrow> (2, 0)
      | C64_KEY_6 \<Rightarrow> (2, 3)
      | C64_KEY_7 \<Rightarrow> (3, 0)
      | C64_KEY_8 \<Rightarrow> (3, 3)
      | C64_KEY_9 \<Rightarrow> (4, 0)
      | C64_KEY_SPACE \<Rightarrow> (7, 4)
      | C64_KEY_RETURN \<Rightarrow> (0, 1)
      | C64_KEY_DELETE \<Rightarrow> (0, 0)
      | C64_KEY_LEFT_SHIFT \<Rightarrow> (1, 7)
      | C64_KEY_RIGHT_SHIFT \<Rightarrow> (6, 4)
      | C64_KEY_PLUS \<Rightarrow> (5, 0)
      | C64_KEY_MINUS \<Rightarrow> (5, 3)
      | C64_KEY_ASTERISK \<Rightarrow> (6, 1)
      | C64_KEY_EQUALS \<Rightarrow> (6, 5)
      | C64_KEY_COLON \<Rightarrow> (5, 5)
      | C64_KEY_SEMICOLON \<Rightarrow> (6, 2)
      | C64_KEY_COMMA \<Rightarrow> (5, 7)
      | C64_KEY_PERIOD \<Rightarrow> (5, 4)
      | C64_KEY_SLASH \<Rightarrow> (6, 7)
      | C64_KEY_AT \<Rightarrow> (5, 6)
      | C64_KEY_CURSOR_RIGHT \<Rightarrow> (0, 2)
      | C64_KEY_CURSOR_DOWN \<Rightarrow> (0, 7)
      | C64_KEY_HOME \<Rightarrow> (6, 3)
      | C64_KEY_RUN_STOP \<Rightarrow> (7, 7)
      | C64_KEY_CONTROL \<Rightarrow> (7, 2)
      | C64_KEY_COMMODORE \<Rightarrow> (7, 5)
      | C64_KEY_LEFT_ARROW \<Rightarrow> (7, 1)
      | C64_KEY_UP_ARROW \<Rightarrow> (6, 6)
      | C64_KEY_POUND \<Rightarrow> (6, 0)
      | C64_KEY_F1 \<Rightarrow> (0, 4)
      | C64_KEY_F3 \<Rightarrow> (0, 5)
      | C64_KEY_F5 \<Rightarrow> (0, 6)
      | C64_KEY_F7 \<Rightarrow> (0, 3))"

record c64_keyboard =
  rows :: "u8 list"

section \<open>Operations\<close>

definition c64_keyboard_reset :: "c64_keyboard \<Rightarrow> c64_keyboard" where
  "c64_keyboard_reset keyboard = keyboard\<lparr>rows := replicate 8 0\<rparr>"

definition c64_keyboard_set_matrix :: "u8 \<Rightarrow> u8 \<Rightarrow> bool \<Rightarrow> c64_keyboard \<Rightarrow> c64_keyboard" where
  "c64_keyboard_set_matrix row col pressed keyboard =
     (if 7 < row \<or> 7 < col then keyboard
      else
        (let mask = push_bit (unat col) 1; r = rows keyboard ! unat row
         in keyboard\<lparr>rows := (rows keyboard)[unat row := (if pressed then r OR mask else r AND NOT mask)]\<rparr>))"

definition c64_keyboard_set_key :: "c64_key option \<Rightarrow> bool \<Rightarrow> c64_keyboard \<Rightarrow> c64_keyboard" where
  "c64_keyboard_set_key key pressed keyboard =
     (case key of
        None \<Rightarrow> keyboard
      | Some key \<Rightarrow>
          (let (row, column) = c64_key_positions key; mask = push_bit column 1; r = rows keyboard ! row
           in keyboard\<lparr>rows := (rows keyboard)[row := (if pressed then r OR mask else r AND NOT mask)]\<rparr>))"

definition c64_keyboard_read_columns :: "c64_keyboard \<Rightarrow> u8 \<Rightarrow> u8" where
  "c64_keyboard_read_columns keyboard selected_rows =
     foldl (\<lambda>v row. if bit selected_rows row then v AND NOT (rows keyboard ! row) else v) 0xFF [0..<8]"

definition c64_keyboard_read_rows :: "c64_keyboard \<Rightarrow> u8 \<Rightarrow> u8" where
  "c64_keyboard_read_rows keyboard selected_columns =
     foldl (\<lambda>v row. if rows keyboard ! row AND selected_columns \<noteq> 0 then v AND NOT (push_bit row 1) else v) 0xFF [0..<8]"

section \<open>Lemmas\<close>

text \<open>A line of a port is pulled low exactly through a closed switch on a selected line of the other port.\<close>

lemma bit_fold_clear:
  "bit (foldl (\<lambda>v i. if c i then v AND NOT (f i) else v) (w :: u8) xs) n \<longleftrightarrow>
   n < 8 \<and> bit w n \<and> (\<forall>i \<in> set xs. c i \<longrightarrow> \<not> bit (f i) n)"
  by (induction xs arbitrary: w) (auto simp: bit_simps dest: bit_imp_le_length)

lemma bit_all_ones: "bit (0xFF :: u8) n \<longleftrightarrow> n < 8"
proof -
  have "(0xFF :: u8) = - 1" by simp
  then show ?thesis by (simp only: bit_minus_1_iff possible_bit_word) simp
qed

lemma read_columns_bit:
  "bit (c64_keyboard_read_columns keyboard selected) n \<longleftrightarrow>
   n < 8 \<and> (\<forall>row \<in> {0..<8}. bit selected row \<longrightarrow> \<not> bit (rows keyboard ! row) n)"
  unfolding c64_keyboard_read_columns_def bit_fold_clear bit_all_ones set_upt by blast

lemma read_rows_bit:
  "bit (c64_keyboard_read_rows keyboard selected) n \<longleftrightarrow> n < 8 \<and> rows keyboard ! n AND selected = 0"
proof -
  have "bit (push_bit row 1 :: u8) n \<longleftrightarrow> row = n \<and> n < 8" for row
    by (auto simp: bit_exp_iff)
  then show ?thesis
    unfolding c64_keyboard_read_rows_def bit_fold_clear bit_all_ones set_upt by auto
qed

end
