(* ===== verification/Cia6526.thy ===== *)
theory Cia6526
  imports C64_Keyboard
begin

text \<open>
  The CIA 6526 of the C64, \<^verbatim>\<open>src/src/c64/machine/cia.c\<close>: two timers, the time-of-day clock with its alarm, the
  serial register, the ports and the interrupt logic.

  The array \<^verbatim>\<open>registers\<close> is a function of the register number, which every access reduces to four bits. A timer
  pointer is the number of its control register. The keyboard pointer is the matrix it leads to, which the CIA only
  reads; the port callback, which belongs to the owner, is a function from the pins and the pull-downs so far
  to the new pull-downs.
\<close>

section \<open>Data\<close>

abbreviation CIA_REG_PORT_A :: u8 where "CIA_REG_PORT_A \<equiv> 0x00"

abbreviation CIA_REG_PORT_B :: u8 where "CIA_REG_PORT_B \<equiv> 0x01"

abbreviation CIA_REG_DDRA :: u8 where "CIA_REG_DDRA \<equiv> 0x02"

abbreviation CIA_REG_DDRB :: u8 where "CIA_REG_DDRB \<equiv> 0x03"

abbreviation CIA_REG_TIMER_A_LO :: u8 where "CIA_REG_TIMER_A_LO \<equiv> 0x04"

abbreviation CIA_REG_TIMER_A_HI :: u8 where "CIA_REG_TIMER_A_HI \<equiv> 0x05"

abbreviation CIA_REG_TIMER_B_LO :: u8 where "CIA_REG_TIMER_B_LO \<equiv> 0x06"

abbreviation CIA_REG_TIMER_B_HI :: u8 where "CIA_REG_TIMER_B_HI \<equiv> 0x07"

abbreviation CIA_REG_TOD_TENTHS :: u8 where "CIA_REG_TOD_TENTHS \<equiv> 0x08"

abbreviation CIA_REG_TOD_SECONDS :: u8 where "CIA_REG_TOD_SECONDS \<equiv> 0x09"

abbreviation CIA_REG_TOD_MINUTES :: u8 where "CIA_REG_TOD_MINUTES \<equiv> 0x0A"

abbreviation CIA_REG_TOD_HOURS :: u8 where "CIA_REG_TOD_HOURS \<equiv> 0x0B"

abbreviation CIA_REG_SDR :: u8 where "CIA_REG_SDR \<equiv> 0x0C"

abbreviation CIA_REG_ICR :: u8 where "CIA_REG_ICR \<equiv> 0x0D"

abbreviation CIA_REG_CONTROL_A :: u8 where "CIA_REG_CONTROL_A \<equiv> 0x0E"

abbreviation CIA_REG_CONTROL_B :: u8 where "CIA_REG_CONTROL_B \<equiv> 0x0F"

abbreviation CIA_CONTROL_START :: u8 where "CIA_CONTROL_START \<equiv> 0x01"

abbreviation CIA_CONTROL_PB_OUTPUT :: u8 where "CIA_CONTROL_PB_OUTPUT \<equiv> 0x02"

abbreviation CIA_CONTROL_PB_TOGGLE :: u8 where "CIA_CONTROL_PB_TOGGLE \<equiv> 0x04"

abbreviation CIA_CONTROL_ONESHOT :: u8 where "CIA_CONTROL_ONESHOT \<equiv> 0x08"

abbreviation CIA_CONTROL_FORCE_LOAD :: u8 where "CIA_CONTROL_FORCE_LOAD \<equiv> 0x10"

abbreviation CIA_CONTROL_A_CNT_INPUT :: u8 where "CIA_CONTROL_A_CNT_INPUT \<equiv> 0x20"

abbreviation CIA_CONTROL_A_SERIAL_OUT :: u8 where "CIA_CONTROL_A_SERIAL_OUT \<equiv> 0x40"

abbreviation CIA_CONTROL_TOD_50HZ :: u8 where "CIA_CONTROL_TOD_50HZ \<equiv> 0x80"

abbreviation CIA_INTERRUPT_TIMER_A :: u8 where "CIA_INTERRUPT_TIMER_A \<equiv> 0x01"

abbreviation CIA_INTERRUPT_TIMER_B :: u8 where "CIA_INTERRUPT_TIMER_B \<equiv> 0x02"

abbreviation CIA_INTERRUPT_TOD :: u8 where "CIA_INTERRUPT_TOD \<equiv> 0x04"

abbreviation CIA_INTERRUPT_SERIAL :: u8 where "CIA_INTERRUPT_SERIAL \<equiv> 0x08"

abbreviation CIA_INTERRUPT_FLAG :: u8 where "CIA_INTERRUPT_FLAG \<equiv> 0x10"

abbreviation CIA_INTERRUPT_SOURCE_MASK :: u8 where "CIA_INTERRUPT_SOURCE_MASK \<equiv> 0x1F"

record cia_timer =
  latch :: u16
  counter :: u16
  underflow :: bool
  output_level :: bool
  pulse_active :: bool
  start_delay :: u8
  skip_tick :: bool
  load_delay :: u8
  load_hold :: u8
  stop_pending :: bool
  oneshot_effective :: bool
  oneshot_pending :: bool
  oneshot_delay :: u8
  oneshot_write_pending :: bool
  oneshot_write_value :: bool

record cia_tod =
  tenth :: u8
  seconds :: u8
  minutes :: u8
  hours :: u8

record cia_port_inputs =
  port_a_pull_down :: u8
  port_b_pull_down :: u8

type_synonym cia_port_input_fn = "u8 \<Rightarrow> u8 \<Rightarrow> cia_port_inputs \<Rightarrow> cia_port_inputs"

record cia =
  registers :: "u8 \<Rightarrow> u8"
  timer_a :: cia_timer
  timer_b :: cia_timer
  tod :: cia_tod
  tod_alarm :: cia_tod
  tod_latch :: cia_tod
  tod_cycle_accum :: u64
  tod_50hz_cycles :: u64
  tod_60hz_cycles :: u64
  interrupt_flags :: u8
  interrupt_mask :: u8
  keyboard :: "c64_keyboard option"
  icr_reads :: u64
  icr_writes :: u64
  interrupt_assertions :: u64
  port_input :: "cia_port_input_fn option"
  tod_latched :: bool
  tod_stopped :: bool
  cnt_pulse :: bool
  flag_line :: bool
  serial_shift :: u8
  serial_out_bits :: u8
  serial_in_count :: u8
  serial_pending_data :: u8
  serial_pending :: bool
  serial_cnt_toggle :: bool
  sp_output :: bool
  sp_input :: bool
  pc_line :: bool
  pc_pulse_request :: bool
  interrupt_line :: bool
  interrupt_pending_latched :: bool
  interrupt_ff :: bool

definition set_register :: "u8 \<Rightarrow> u8 \<Rightarrow> cia \<Rightarrow> cia" where
  "set_register reg value c = c\<lparr>registers := (registers c)(reg := value)\<rparr>"

text \<open>The timer a pointer leads to, named by its control register.\<close>

definition get_timer :: "u8 \<Rightarrow> cia \<Rightarrow> cia_timer" where
  "get_timer control_reg c = (if control_reg = CIA_REG_CONTROL_A then timer_a c else timer_b c)"

definition update_timer :: "u8 \<Rightarrow> (cia_timer \<Rightarrow> cia_timer) \<Rightarrow> cia \<Rightarrow> cia" where
  "update_timer control_reg f c =
     (if control_reg = CIA_REG_CONTROL_A then c\<lparr>timer_a := f (timer_a c)\<rparr> else c\<lparr>timer_b := f (timer_b c)\<rparr>)"

section \<open>Ports\<close>

definition cia_read_port :: "u8 \<Rightarrow> u8 \<Rightarrow> u8" where
  "cia_read_port data direction = (data AND direction) OR NOT direction"

definition cia_read_external_inputs :: "cia \<Rightarrow> u8 \<Rightarrow> u8 \<Rightarrow> cia_port_inputs" where
  "cia_read_external_inputs c port_a_pins port_b_pins =
     (let inputs = \<lparr>port_a_pull_down = 0, port_b_pull_down = 0\<rparr>;
          inputs = (case port_input c of None \<Rightarrow> inputs | Some f \<Rightarrow> f port_a_pins port_b_pins inputs)
      in case keyboard c of
           None \<Rightarrow> inputs
         | Some k \<Rightarrow>
             (let selected_rows = NOT port_a_pins; selected_columns = NOT port_b_pins;
                  inputs = inputs\<lparr>port_b_pull_down := port_b_pull_down inputs OR NOT (c64_keyboard_read_columns k selected_rows)\<rparr>
              in inputs\<lparr>port_a_pull_down := port_a_pull_down inputs OR NOT (c64_keyboard_read_rows k selected_columns)\<rparr>))"

definition cia_read_port_a_pins_internal :: "cia \<Rightarrow> u8" where
  "cia_read_port_a_pins_internal c =
     (let port_a = cia_read_port (registers c CIA_REG_PORT_A) (registers c CIA_REG_DDRA);
          port_b = cia_read_port (registers c CIA_REG_PORT_B) (registers c CIA_REG_DDRB);
          inputs = cia_read_external_inputs c port_a port_b
      in port_a AND NOT (port_a_pull_down inputs))"

definition cia_read_port_b_pins :: "cia \<Rightarrow> u8" where
  "cia_read_port_b_pins c =
     (let port_a = cia_read_port (registers c CIA_REG_PORT_A) (registers c CIA_REG_DDRA);
          v = cia_read_port (registers c CIA_REG_PORT_B) (registers c CIA_REG_DDRB);
          inputs = cia_read_external_inputs c port_a v;
          v = v AND NOT (port_b_pull_down inputs);
          v = (if registers c CIA_REG_CONTROL_A AND CIA_CONTROL_PB_OUTPUT \<noteq> 0 then
                 if pulse_active (timer_a c) \<or> \<not> output_level (timer_a c) then v AND NOT 0x40 else v OR 0x40
               else v)
      in if registers c CIA_REG_CONTROL_B AND CIA_CONTROL_PB_OUTPUT \<noteq> 0 then
           if pulse_active (timer_b c) \<or> \<not> output_level (timer_b c) then v AND NOT 0x80 else v OR 0x80
         else v)"

section \<open>Interrupts\<close>

definition cia_update_interrupt_ff :: "cia \<Rightarrow> cia" where
  "cia_update_interrupt_ff c =
     (if (interrupt_flags c AND interrupt_mask c) AND CIA_INTERRUPT_SOURCE_MASK \<noteq> 0 then c\<lparr>interrupt_ff := True\<rparr> else c)"

definition cia_set_interrupt_source :: "u8 \<Rightarrow> cia \<Rightarrow> cia" where
  "cia_set_interrupt_source source_mask c =
     (let flag = source_mask AND CIA_INTERRUPT_SOURCE_MASK
      in if flag = 0 then c
         else
           (let c = (if interrupt_flags c AND flag = 0 then c\<lparr>interrupt_assertions := interrupt_assertions c + 1\<rparr> else c)
            in cia_update_interrupt_ff (c\<lparr>interrupt_flags := interrupt_flags c OR flag\<rparr>)))"

section \<open>Time of day\<close>

definition cia_bcd_to_uint :: "u8 \<Rightarrow> u8" where
  "cia_bcd_to_uint v = (drop_bit 4 v AND 0x0F) * 10 + (v AND 0x0F)"

definition cia_uint_to_bcd :: "u8 \<Rightarrow> u8" where
  "cia_uint_to_bcd v = push_bit 4 (v div 10) OR (v mod 10)"

definition cia_sanitize_bcd :: "u8 \<Rightarrow> u8 \<Rightarrow> u8" where
  "cia_sanitize_bcd v limit =
     (let decimal = cia_bcd_to_uint v;
          decimal = (if 9 < v AND 0x0F \<or> limit < decimal then 0 else decimal)
      in cia_uint_to_bcd decimal)"

definition cia_sanitize_tod_hour :: "u8 \<Rightarrow> u8" where
  "cia_sanitize_tod_hour v =
     (let pm = v AND 0x80; hour = cia_bcd_to_uint (v AND 0x1F);
          hour = (if 9 < v AND 0x0F \<or> hour < 1 \<or> 12 < hour then 12 else hour)
      in pm OR cia_uint_to_bcd hour)"

definition cia_tod_equal :: "cia_tod \<Rightarrow> cia_tod \<Rightarrow> bool" where
  "cia_tod_equal a b \<longleftrightarrow> tenth a = tenth b \<and> seconds a = seconds b \<and> minutes a = minutes b \<and> hours a = hours b"

definition cia_increment_tod :: "cia_tod \<Rightarrow> cia_tod" where
  "cia_increment_tod t =
     (let t10 = tenth t + 1
      in if t10 < 10 then t\<lparr>tenth := t10\<rparr>
         else
           (let t = t\<lparr>tenth := 0\<rparr>; s = cia_bcd_to_uint (seconds t) + 1
            in if s < 60 then t\<lparr>seconds := cia_uint_to_bcd s\<rparr>
               else
                 (let t = t\<lparr>seconds := 0\<rparr>; m = cia_bcd_to_uint (minutes t) + 1
                  in if m < 60 then t\<lparr>minutes := cia_uint_to_bcd m\<rparr>
                     else
                       (let t = t\<lparr>minutes := 0\<rparr>; pm = hours t AND 0x80; hour = cia_bcd_to_uint (hours t AND 0x1F) + 1;
                            (pm, hour) = (if hour = 12 then (pm XOR 0x80, hour) else if 12 < hour then (pm, 1) else (pm, hour))
                        in t\<lparr>hours := pm OR cia_uint_to_bcd hour\<rparr>))))"

definition cia_tod_tick_cycles :: "cia \<Rightarrow> u64" where
  "cia_tod_tick_cycles c =
     (if registers c CIA_REG_CONTROL_A AND CIA_CONTROL_TOD_50HZ \<noteq> 0 then tod_50hz_cycles c else tod_60hz_cycles c)"

text \<open>One round of the loop, and the loop; its condition looks at \<^verbatim>\<open>tod_cycle_accum\<close>, and the tick is not 0.\<close>

definition tod_tick :: "cia \<Rightarrow> cia" where
  "tod_tick c =
     (let c = c\<lparr>tod := cia_increment_tod (tod c)\<rparr>
      in if cia_tod_equal (tod c) (tod_alarm c) then cia_set_interrupt_source CIA_INTERRUPT_TOD c else c)"

lemma tod_tick_accum [simp]: "tod_cycle_accum (tod_tick c) = tod_cycle_accum c"
  by (simp add: tod_tick_def cia_set_interrupt_source_def cia_update_interrupt_ff_def Let_def)

function tod_ticks :: "u64 \<Rightarrow> cia \<Rightarrow> cia" where
  "tod_ticks tick_cycles c =
     (if 0 < tick_cycles \<and> tick_cycles \<le> tod_cycle_accum c
      then tod_ticks tick_cycles (tod_tick (c\<lparr>tod_cycle_accum := tod_cycle_accum c - tick_cycles\<rparr>))
      else c)"
  by pat_completeness auto
termination
  by (relation "measure (\<lambda>(tick_cycles, c). unat (tod_cycle_accum c))")
    (auto simp: word_less_nat_alt word_le_nat_alt unat_sub)

declare tod_ticks.simps [simp del]

definition cia_step_tod :: "cia \<Rightarrow> cia" where
  "cia_step_tod c =
     (let tick_cycles = cia_tod_tick_cycles c
      in if tod_stopped c \<or> tick_cycles = 0 then c
         else tod_ticks tick_cycles (c\<lparr>tod_cycle_accum := tod_cycle_accum c + 1\<rparr>))"

definition tod_register :: "cia_tod \<Rightarrow> u8 \<Rightarrow> u8" where
  "tod_register t reg =
     (if reg = CIA_REG_TOD_TENTHS then tenth t else if reg = CIA_REG_TOD_SECONDS then seconds t
      else if reg = CIA_REG_TOD_MINUTES then minutes t else if reg = CIA_REG_TOD_HOURS then hours t else 0xFF)"

definition cia_read_tod_register :: "cia \<Rightarrow> u8 \<Rightarrow> u8 \<times> cia" where
  "cia_read_tod_register c reg =
     (let c = (if reg = CIA_REG_TOD_HOURS \<and> \<not> tod_latched c then c\<lparr>tod_latch := tod c, tod_latched := True\<rparr> else c);
          t = (if tod_latched c then tod_latch c else tod c)
      in (tod_register t reg, if reg = CIA_REG_TOD_TENTHS then c\<lparr>tod_latched := False\<rparr> else c))"

definition cia_debug_read_tod_register :: "cia \<Rightarrow> u8 \<Rightarrow> u8" where
  "cia_debug_read_tod_register c reg = tod_register (if tod_latched c then tod_latch c else tod c) reg"

definition cia_write_tod_register :: "u8 \<Rightarrow> u8 \<Rightarrow> cia \<Rightarrow> cia" where
  "cia_write_tod_register reg value c =
     (let alarm = (registers c CIA_REG_CONTROL_B AND 0x80 \<noteq> 0);
          put = (\<lambda>f c. if alarm then c\<lparr>tod_alarm := f (tod_alarm c)\<rparr> else c\<lparr>tod := f (tod c)\<rparr>);
          c = (if reg = CIA_REG_TOD_TENTHS then
                 (let c = put (\<lambda>t. t\<lparr>tenth := (if value \<le> 9 then value else 0)\<rparr>) c
                  in if \<not> alarm then c\<lparr>tod_cycle_accum := 0, tod_latched := False, tod_stopped := False\<rparr> else c)
               else if reg = CIA_REG_TOD_SECONDS then put (\<lambda>t. t\<lparr>seconds := cia_sanitize_bcd value 59\<rparr>) c
               else if reg = CIA_REG_TOD_MINUTES then put (\<lambda>t. t\<lparr>minutes := cia_sanitize_bcd value 59\<rparr>) c
               else if reg = CIA_REG_TOD_HOURS then
                 (let c = put (\<lambda>t. t\<lparr>hours := cia_sanitize_tod_hour value\<rparr>) c
                  in if \<not> alarm then c\<lparr>tod_stopped := True\<rparr> else c)
               else c)
      in set_register reg value c)"

section \<open>Timers\<close>

definition cia_timer_reload_value :: "cia_timer \<Rightarrow> u16" where
  "cia_timer_reload_value t = (if latch t = 0 then 0xFFFF else latch t)"

definition cia_reload_timer :: "cia_timer \<Rightarrow> cia_timer" where
  "cia_reload_timer t = t\<lparr>counter := (if latch t = 0 then 0xFFFF else latch t)\<rparr>"

definition cia_reload_timer_from_run :: "cia_timer \<Rightarrow> cia_timer" where
  "cia_reload_timer_from_run t = t\<lparr>counter := (if latch t = 0 then 0xFFFF else latch t), skip_tick := True\<rparr>"

definition cia_reset_timer_output_pulses :: "cia \<Rightarrow> cia" where
  "cia_reset_timer_output_pulses c =
     (let c = (if pulse_active (timer_a c) then c\<lparr>timer_a := (timer_a c)\<lparr>output_level := True\<rparr>\<rparr> else c);
          c = (if pulse_active (timer_b c) then c\<lparr>timer_b := (timer_b c)\<lparr>output_level := True\<rparr>\<rparr> else c)
      in c\<lparr>timer_a := (timer_a c)\<lparr>pulse_active := False\<rparr>, timer_b := (timer_b c)\<lparr>pulse_active := False\<rparr>\<rparr>)"

definition cia_timer_update_oneshot_pipe :: "cia_timer \<Rightarrow> cia_timer" where
  "cia_timer_update_oneshot_pipe t =
     (if oneshot_delay t = 0 then t
      else
        (let t = t\<lparr>oneshot_delay := oneshot_delay t - 1\<rparr>
         in if oneshot_delay t = 0 then t\<lparr>oneshot_effective := oneshot_pending t\<rparr> else t))"

definition cia_timer_write_oneshot :: "bool \<Rightarrow> cia_timer \<Rightarrow> cia_timer" where
  "cia_timer_write_oneshot oneshot t =
     (if oneshot = oneshot_effective t \<and> oneshot_delay t = 0 then t\<lparr>oneshot_pending := oneshot\<rparr>
      else t\<lparr>oneshot_pending := oneshot, oneshot_delay := (if oneshot then 1 else 2)\<rparr>)"

definition cia_timer_a_should_count :: "cia \<Rightarrow> u8 \<Rightarrow> bool" where
  "cia_timer_a_should_count c control = (if control AND CIA_CONTROL_A_CNT_INPUT \<noteq> 0 then cnt_pulse c else True)"

definition cia_timer_b_should_count :: "cia \<Rightarrow> u8 \<Rightarrow> bool" where
  "cia_timer_b_should_count c control =
     (let input_mode = drop_bit 5 (control AND 0x60)
      in if input_mode = 0 then True
         else if input_mode = 1 then cnt_pulse c
         else if input_mode = 2 then underflow (timer_a c)
         else if input_mode = 3 then underflow (timer_a c) \<and> cnt_pulse c
         else False)"

definition cia_timer_update_pb_output :: "u8 \<Rightarrow> cia_timer \<Rightarrow> cia_timer" where
  "cia_timer_update_pb_output control t =
     (if control AND CIA_CONTROL_PB_OUTPUT = 0 then t
      else if control AND CIA_CONTROL_PB_TOGGLE \<noteq> 0 then t\<lparr>output_level := \<not> output_level t\<rparr>
      else t\<lparr>pulse_active := True, output_level := False\<rparr>)"

definition cia_timer_update_load_pipe :: "cia_timer \<Rightarrow> bool \<times> cia_timer" where
  "cia_timer_update_load_pipe t =
     (if 0 < load_delay t then
        (let t = t\<lparr>load_delay := load_delay t - 1\<rparr>
         in if load_delay t = 0 then (True, t\<lparr>counter := cia_timer_reload_value t, load_hold := 1\<rparr>) else (False, t))
      else if 0 < load_hold t then (True, t\<lparr>load_hold := load_hold t - 1\<rparr>)
      else (False, t))"

definition cia_timer_step_idle :: "cia_timer \<Rightarrow> u8 \<Rightarrow> bool" where
  "cia_timer_step_idle t control \<longleftrightarrow>
     control AND CIA_CONTROL_START = 0 \<and> \<not> stop_pending t \<and> load_delay t = 0 \<and> load_hold t = 0 \<and>
     start_delay t = 0 \<and> oneshot_delay t = 0 \<and> \<not> oneshot_write_pending t \<and> \<not> skip_tick t"

text \<open>The tests and the count of \<^verbatim>\<open>cia_step_timer\<close>, up to the label \<^verbatim>\<open>apply_oneshot_write\<close>.\<close>

definition timer_count :: "u8 \<Rightarrow> u8 \<Rightarrow> u8 \<Rightarrow> bool \<Rightarrow> bool \<Rightarrow> cia \<Rightarrow> cia" where
  "timer_count control_reg interrupt_flag control loaded_now oneshot_for_uf c =
     (if control AND CIA_CONTROL_START = 0 \<and> \<not> stop_pending (get_timer control_reg c)
      then update_timer control_reg (\<lambda>t. t\<lparr>start_delay := 0\<rparr>) c
      else
        (let c = (if control AND CIA_CONTROL_START = 0 then update_timer control_reg (\<lambda>t. t\<lparr>stop_pending := False\<rparr>) c else c);
             t = get_timer control_reg c
         in if 0 < start_delay t then update_timer control_reg (\<lambda>t. t\<lparr>start_delay := start_delay t - 1\<rparr>) c
            else if \<not> (if control_reg = CIA_REG_CONTROL_A then cia_timer_a_should_count c control
                       else cia_timer_b_should_count c control) then c
            else if loaded_now then c
            else if skip_tick t then update_timer control_reg (\<lambda>t. t\<lparr>skip_tick := False\<rparr>) c
            else if counter t \<le> 1 then
              (let c = update_timer control_reg (\<lambda>t. t\<lparr>underflow := True\<rparr>) c;
                   c = cia_set_interrupt_source interrupt_flag c;
                   c = update_timer control_reg (cia_timer_update_pb_output control) c;
                   c = update_timer control_reg cia_reload_timer_from_run c
               in if oneshot_for_uf
                  then set_register control_reg (registers c control_reg AND NOT CIA_CONTROL_START) c else c)
            else update_timer control_reg (\<lambda>t. t\<lparr>counter := counter t - 1\<rparr>) c))"

definition apply_oneshot_write :: "cia_timer \<Rightarrow> cia_timer" where
  "apply_oneshot_write t =
     (if oneshot_write_pending t
      then (cia_timer_write_oneshot (oneshot_write_value t) t)\<lparr>oneshot_write_pending := False\<rparr> else t)"

definition cia_step_timer :: "u8 \<Rightarrow> u8 \<Rightarrow> cia \<Rightarrow> cia" where
  "cia_step_timer control_reg interrupt_flag c =
     (let control = registers c control_reg;
          c = update_timer control_reg (\<lambda>t. t\<lparr>underflow := False\<rparr>) c
      in if cia_timer_step_idle (get_timer control_reg c) control then c
         else
           (let (loaded_now, t) = cia_timer_update_load_pipe (get_timer control_reg c);
                oneshot_for_uf = oneshot_effective t;
                c = update_timer control_reg (\<lambda>_. cia_timer_update_oneshot_pipe t) c;
                c = timer_count control_reg interrupt_flag control loaded_now oneshot_for_uf c
            in update_timer control_reg apply_oneshot_write c))"

section \<open>Lifecycle and lines\<close>

text \<open>The result of \<^verbatim>\<open>memset\<close>.\<close>

definition zero_timer :: cia_timer where
  "zero_timer =
     \<lparr>latch = 0, counter = 0, underflow = False, output_level = False, pulse_active = False, start_delay = 0,
      skip_tick = False, load_delay = 0, load_hold = 0, stop_pending = False, oneshot_effective = False,
      oneshot_pending = False, oneshot_delay = 0, oneshot_write_pending = False, oneshot_write_value = False\<rparr>"

definition zero_tod :: cia_tod where
  "zero_tod = \<lparr>tenth = 0, seconds = 0, minutes = 0, hours = 0\<rparr>"

definition zero_cia :: cia where
  "zero_cia =
     \<lparr>registers = (\<lambda>_. 0), timer_a = zero_timer, timer_b = zero_timer, tod = zero_tod, tod_alarm = zero_tod,
      tod_latch = zero_tod, tod_cycle_accum = 0, tod_50hz_cycles = 0, tod_60hz_cycles = 0, interrupt_flags = 0,
      interrupt_mask = 0, keyboard = None, icr_reads = 0, icr_writes = 0, interrupt_assertions = 0,
      port_input = None, tod_latched = False, tod_stopped = False, cnt_pulse = False, flag_line = False,
      serial_shift = 0, serial_out_bits = 0, serial_in_count = 0, serial_pending_data = 0, serial_pending = False,
      serial_cnt_toggle = False, sp_output = False, sp_input = False, pc_line = False, pc_pulse_request = False,
      interrupt_line = False, interrupt_pending_latched = False, interrupt_ff = False\<rparr>"

definition cia_reset :: "cia \<Rightarrow> cia" where
  "cia_reset c =
     zero_cia\<lparr>timer_a := zero_timer\<lparr>output_level := True\<rparr>, timer_b := zero_timer\<lparr>output_level := True\<rparr>,
       tod := zero_tod\<lparr>hours := 0x12\<rparr>, tod_alarm := zero_tod\<lparr>hours := 0x12\<rparr>,
       tod_50hz_cycles := (if tod_50hz_cycles c = 0 then 100000 else tod_50hz_cycles c),
       tod_60hz_cycles := (if tod_60hz_cycles c = 0 then 100000 else tod_60hz_cycles c),
       keyboard := keyboard c, port_input := port_input c, flag_line := True, pc_line := True\<rparr>"

text \<open>The left result is the error text.\<close>

definition cia_init :: "cia option \<Rightarrow> string + cia" where
  "cia_init c = (case c of None \<Rightarrow> Inl ''CIA pointer is null'' | Some _ \<Rightarrow> Inr (cia_reset zero_cia))"

definition cia_attach_keyboard :: "c64_keyboard option \<Rightarrow> cia \<Rightarrow> cia" where
  "cia_attach_keyboard k c = c\<lparr>keyboard := k\<rparr>"

definition cia_attach_port_input :: "cia_port_input_fn option \<Rightarrow> cia \<Rightarrow> cia" where
  "cia_attach_port_input f c = c\<lparr>port_input := f\<rparr>"

definition cia_set_tod_cycles :: "u64 \<Rightarrow> u64 \<Rightarrow> cia \<Rightarrow> cia" where
  "cia_set_tod_cycles cycles_50hz cycles_60hz c = c\<lparr>tod_50hz_cycles := cycles_50hz, tod_60hz_cycles := cycles_60hz\<rparr>"

definition cia_pulse_cnt :: "cia \<Rightarrow> cia" where
  "cia_pulse_cnt c = c\<lparr>cnt_pulse := True\<rparr>"

definition cia_set_flag_line :: "bool \<Rightarrow> cia \<Rightarrow> cia" where
  "cia_set_flag_line level c =
     (let c = (if flag_line c \<and> \<not> level then cia_set_interrupt_source CIA_INTERRUPT_FLAG c else c)
      in c\<lparr>flag_line := level\<rparr>)"

definition cia_set_sp_line :: "bool \<Rightarrow> cia \<Rightarrow> cia" where
  "cia_set_sp_line level c = c\<lparr>sp_input := level\<rparr>"

definition cia_pc_line :: "cia \<Rightarrow> bool" where
  "cia_pc_line c = pc_line c"

definition cia_interrupt_line :: "cia \<Rightarrow> bool" where
  "cia_interrupt_line c = interrupt_line c"

definition cia_irq_pending :: "cia \<Rightarrow> bool" where
  "cia_irq_pending c \<longleftrightarrow> interrupt_ff c \<or> (interrupt_flags c AND interrupt_mask c) AND CIA_INTERRUPT_SOURCE_MASK \<noteq> 0"

definition cia_peek_port_a_output :: "cia \<Rightarrow> u8" where
  "cia_peek_port_a_output c = cia_read_port (registers c CIA_REG_PORT_A) (registers c CIA_REG_DDRA)"

definition cia_read_port_a_pins :: "cia \<Rightarrow> u8" where
  "cia_read_port_a_pins c = cia_read_port_a_pins_internal c"

section \<open>One cycle\<close>

definition cia_step_serial :: "cia \<Rightarrow> cia" where
  "cia_step_serial c =
     (if registers c CIA_REG_CONTROL_A AND CIA_CONTROL_A_SERIAL_OUT \<noteq> 0 then
        if serial_out_bits c = 0 \<or> \<not> underflow (timer_a c) then c
        else
          (let c = c\<lparr>serial_cnt_toggle := \<not> serial_cnt_toggle c\<rparr>
           in if serial_cnt_toggle c then c
              else
                (let c = c\<lparr>sp_output := (serial_shift c AND 0x80 \<noteq> 0), serial_shift := push_bit 1 (serial_shift c),
                       serial_out_bits := serial_out_bits c - 1\<rparr>
                 in if serial_out_bits c = 0 then
                      (let c = cia_set_interrupt_source CIA_INTERRUPT_SERIAL c
                       in if serial_pending c
                          then c\<lparr>serial_shift := serial_pending_data c, serial_out_bits := 8, serial_pending := False\<rparr> else c)
                    else c))
      else if \<not> cnt_pulse c then c
      else
        (let c = c\<lparr>serial_shift := push_bit 1 (serial_shift c) OR of_flag (sp_input c), serial_in_count := serial_in_count c + 1\<rparr>
         in if 8 \<le> serial_in_count c then
              cia_set_interrupt_source CIA_INTERRUPT_SERIAL
                ((set_register CIA_REG_SDR (serial_shift c) c)\<lparr>serial_in_count := 0\<rparr>)
            else c))"

text \<open>The interrupt and PC pins at the end of a cycle, the same statements on both paths.\<close>

definition drive_pins :: "cia \<Rightarrow> cia" where
  "drive_pins c =
     (let c = (if (interrupt_flags c AND interrupt_mask c) AND CIA_INTERRUPT_SOURCE_MASK \<noteq> 0 then c\<lparr>interrupt_ff := True\<rparr> else c);
          pending_now = interrupt_ff c
      in c\<lparr>interrupt_line := interrupt_pending_latched c, interrupt_pending_latched := pending_now,
           pc_line := \<not> pc_pulse_request c, pc_pulse_request := False\<rparr>)"

definition cia_step_busy :: "cia \<Rightarrow> cia" where
  "cia_step_busy c =
     (let cra = registers c CIA_REG_CONTROL_A;
          c = cia_step_timer CIA_REG_CONTROL_A CIA_INTERRUPT_TIMER_A c;
          c = cia_step_timer CIA_REG_CONTROL_B CIA_INTERRUPT_TIMER_B c;
          c = (if cra AND CIA_CONTROL_A_SERIAL_OUT \<noteq> 0 then
                 if serial_out_bits c \<noteq> 0 \<and> underflow (timer_a c) then cia_step_serial c else c
               else if cnt_pulse c then cia_step_serial c else c)
      in (drive_pins (cia_step_tod c))\<lparr>cnt_pulse := False\<rparr>)"

definition cia_step_cycle :: "cia \<Rightarrow> cia" where
  "cia_step_cycle c =
     (let c = (if pulse_active (timer_a c) \<or> pulse_active (timer_b c) then cia_reset_timer_output_pulses c else c);
          cra = registers c CIA_REG_CONTROL_A; crb = registers c CIA_REG_CONTROL_B
      in if cia_timer_step_idle (timer_a c) cra \<and> cia_timer_step_idle (timer_b c) crb \<and> serial_out_bits c = 0 \<and>
            \<not> cnt_pulse c \<and> cra AND CIA_CONTROL_A_SERIAL_OUT = 0
         then drive_pins (cia_step_tod (c\<lparr>timer_a := (timer_a c)\<lparr>underflow := False\<rparr>,
                timer_b := (timer_b c)\<lparr>underflow := False\<rparr>\<rparr>))
         else cia_step_busy c)"

section \<open>Registers\<close>

definition cia_register :: "u16 \<Rightarrow> u8" where
  "cia_register addr = ucast (addr AND 0x0F)"

definition icr_value :: "cia \<Rightarrow> u8" where
  "icr_value c =
     (let flags = interrupt_flags c AND CIA_INTERRUPT_SOURCE_MASK
      in if interrupt_ff c \<or> flags AND interrupt_mask c \<noteq> 0 then flags OR 0x80 else flags)"

definition cia_read_register :: "cia \<Rightarrow> u16 \<Rightarrow> u8 \<times> cia" where
  "cia_read_register c addr =
     (let reg = cia_register addr
      in if reg = CIA_REG_PORT_A then (cia_read_port_a_pins_internal c, c)
         else if reg = CIA_REG_PORT_B then (let c = c\<lparr>pc_pulse_request := True\<rparr> in (cia_read_port_b_pins c, c))
         else if reg = CIA_REG_TIMER_A_LO then (lo8 (counter (timer_a c)), c)
         else if reg = CIA_REG_TIMER_A_HI then (hi8 (counter (timer_a c)), c)
         else if reg = CIA_REG_TIMER_B_LO then (lo8 (counter (timer_b c)), c)
         else if reg = CIA_REG_TIMER_B_HI then (hi8 (counter (timer_b c)), c)
         else if reg = CIA_REG_TOD_TENTHS \<or> reg = CIA_REG_TOD_SECONDS \<or> reg = CIA_REG_TOD_MINUTES \<or> reg = CIA_REG_TOD_HOURS
         then cia_read_tod_register c reg
         else if reg = CIA_REG_ICR then
           (icr_value c,
            c\<lparr>icr_reads := icr_reads c + 1,
              interrupt_flags := interrupt_flags c AND NOT (interrupt_flags c AND CIA_INTERRUPT_SOURCE_MASK),
              interrupt_ff := False, timer_a := (timer_a c)\<lparr>underflow := False\<rparr>, timer_b := (timer_b c)\<lparr>underflow := False\<rparr>\<rparr>)
         else (registers c reg, c))"

text \<open>The two control registers are written by the same statements.\<close>

definition write_control :: "u8 \<Rightarrow> u8 \<Rightarrow> cia \<Rightarrow> cia" where
  "write_control reg value c =
     (let was_running = (registers c reg AND CIA_CONTROL_START \<noteq> 0);
          c = set_register reg (value AND NOT CIA_CONTROL_FORCE_LOAD) c
      in update_timer reg (\<lambda>t.
           let t = (if value AND CIA_CONTROL_FORCE_LOAD \<noteq> 0 then t\<lparr>load_delay := 2\<rparr> else t);
               t = (if \<not> was_running \<and> value AND CIA_CONTROL_START \<noteq> 0 then t\<lparr>start_delay := 2, skip_tick := False\<rparr> else t);
               t = (if value AND CIA_CONTROL_START = 0 then t\<lparr>start_delay := 0\<rparr> else t)
           in t\<lparr>stop_pending := (was_running \<and> value AND CIA_CONTROL_START = 0),
                oneshot_write_value := (value AND CIA_CONTROL_ONESHOT \<noteq> 0), oneshot_write_pending := True\<rparr>) c)"

definition write_timer_hi :: "u8 \<Rightarrow> u8 \<Rightarrow> u8 \<Rightarrow> cia \<Rightarrow> cia" where
  "write_timer_hi reg control_reg value c =
     (let c = set_register reg value c;
          c = update_timer control_reg (\<lambda>t. t\<lparr>latch := (latch t AND 0x00FF) OR push_bit 8 (ucast value)\<rparr>) c
      in if registers c control_reg AND CIA_CONTROL_START = 0 then update_timer control_reg cia_reload_timer c else c)"

definition write_timer_lo :: "u8 \<Rightarrow> u8 \<Rightarrow> u8 \<Rightarrow> cia \<Rightarrow> cia" where
  "write_timer_lo reg control_reg value c =
     update_timer control_reg (\<lambda>t. t\<lparr>latch := (latch t AND 0xFF00) OR ucast value\<rparr>) (set_register reg value c)"

definition write_sdr :: "u8 \<Rightarrow> cia \<Rightarrow> cia" where
  "write_sdr value c =
     (let c = set_register CIA_REG_SDR value c
      in if registers c CIA_REG_CONTROL_A AND CIA_CONTROL_A_SERIAL_OUT \<noteq> 0 then
           if serial_out_bits c = 0 then c\<lparr>serial_shift := value, serial_out_bits := 8, serial_cnt_toggle := False\<rparr>
           else c\<lparr>serial_pending_data := value, serial_pending := True\<rparr>
         else c)"

definition write_icr :: "u8 \<Rightarrow> cia \<Rightarrow> cia" where
  "write_icr value c =
     (let c = c\<lparr>icr_writes := icr_writes c + 1\<rparr>;
          c = (if value AND 0x80 \<noteq> 0
               then c\<lparr>interrupt_mask := interrupt_mask c OR (value AND CIA_INTERRUPT_SOURCE_MASK)\<rparr>
               else c\<lparr>interrupt_mask := interrupt_mask c AND NOT (value AND CIA_INTERRUPT_SOURCE_MASK)\<rparr>)
      in cia_update_interrupt_ff (set_register CIA_REG_ICR (interrupt_mask c) c))"

definition cia_write_register :: "u16 \<Rightarrow> u8 \<Rightarrow> cia \<Rightarrow> cia" where
  "cia_write_register addr value c =
     (let reg = cia_register addr
      in if reg = CIA_REG_PORT_B then (set_register reg value c)\<lparr>pc_pulse_request := True\<rparr>
         else if reg = CIA_REG_TIMER_A_LO then write_timer_lo reg CIA_REG_CONTROL_A value c
         else if reg = CIA_REG_TIMER_A_HI then write_timer_hi reg CIA_REG_CONTROL_A value c
         else if reg = CIA_REG_TIMER_B_LO then write_timer_lo reg CIA_REG_CONTROL_B value c
         else if reg = CIA_REG_TIMER_B_HI then write_timer_hi reg CIA_REG_CONTROL_B value c
         else if reg = CIA_REG_TOD_TENTHS \<or> reg = CIA_REG_TOD_SECONDS \<or> reg = CIA_REG_TOD_MINUTES \<or> reg = CIA_REG_TOD_HOURS
         then cia_write_tod_register reg value c
         else if reg = CIA_REG_SDR then write_sdr value c
         else if reg = CIA_REG_ICR then write_icr value c
         else if reg = CIA_REG_CONTROL_A \<or> reg = CIA_REG_CONTROL_B then write_control reg value c
         else set_register reg value c)"

definition cia_debug_read_register :: "cia \<Rightarrow> u16 \<Rightarrow> u8" where
  "cia_debug_read_register c addr =
     (let reg = cia_register addr
      in if reg = CIA_REG_PORT_A then cia_read_port_a_pins_internal c
         else if reg = CIA_REG_PORT_B then cia_read_port_b_pins c
         else if reg = CIA_REG_TIMER_A_LO then lo8 (counter (timer_a c))
         else if reg = CIA_REG_TIMER_A_HI then hi8 (counter (timer_a c))
         else if reg = CIA_REG_TIMER_B_LO then lo8 (counter (timer_b c))
         else if reg = CIA_REG_TIMER_B_HI then hi8 (counter (timer_b c))
         else if reg = CIA_REG_TOD_TENTHS \<or> reg = CIA_REG_TOD_SECONDS \<or> reg = CIA_REG_TOD_MINUTES \<or> reg = CIA_REG_TOD_HOURS
         then cia_debug_read_tod_register c reg
         else if reg = CIA_REG_ICR then icr_value c
         else registers c reg)"

end
