(* ===== verification/Cia_Clock.thy ===== *)
theory Cia_Clock
  imports Cia6526
begin

text \<open>
  The time-of-day clock of the CIA. Its registers always hold a time of the twelve-hour clock in BCD, every cycle moves
  it by exactly the ticks that are due, and the alarm raises its interrupt flag. The fast path of
  \<^verbatim>\<open>cia_step_cycle\<close> for idle timers does what the long path would do.
\<close>

section \<open>Definitions\<close>

definition bcd_ok :: "u8 \<Rightarrow> u8 \<Rightarrow> bool" where
  "bcd_ok limit v \<longleftrightarrow> v AND 0x0F \<le> 9 \<and> drop_bit 4 v \<le> 9 \<and> cia_bcd_to_uint v \<le> limit"

definition hour_ok :: "u8 \<Rightarrow> bool" where
  "hour_ok h \<longleftrightarrow> h AND 0x60 = 0 \<and> bcd_ok 12 (h AND 0x1F) \<and> h AND 0x1F \<noteq> 0"

definition tod_ok :: "cia_tod \<Rightarrow> bool" where
  "tod_ok t \<longleftrightarrow> tenth t \<le> 9 \<and> bcd_ok 59 (seconds t) \<and> bcd_ok 59 (minutes t) \<and> hour_ok (hours t)"

text \<open>The hour of the day: twelve is zero, and bit 7 is the afternoon.\<close>

definition hour_value :: "u8 \<Rightarrow> nat" where
  "hour_value h = unat (cia_bcd_to_uint (h AND 0x1F)) mod 12 + (if h AND 0x80 \<noteq> 0 then 12 else 0)"

text \<open>Tenths of a second since midnight.\<close>

definition tod_tenths :: "cia_tod \<Rightarrow> nat" where
  "tod_tenths t =
     ((hour_value (hours t) * 60 + unat (cia_bcd_to_uint (minutes t))) * 60 + unat (cia_bcd_to_uint (seconds t))) * 10 +
     unat (tenth t)"

definition clocks_ok :: "cia \<Rightarrow> bool" where
  "clocks_ok c \<longleftrightarrow> tod_ok (tod c) \<and> tod_ok (tod_alarm c) \<and> (tod_latched c \<longrightarrow> tod_ok (tod_latch c))"

text \<open>The ticks due in the next cycle: the divider counts cycles of the processor.\<close>

definition ticks_due :: "cia \<Rightarrow> nat" where
  "ticks_due c =
     (if tod_stopped c \<or> cia_tod_tick_cycles c = 0 then 0
      else unat (tod_cycle_accum c + 1) div unat (cia_tod_tick_cycles c))"

section \<open>BCD\<close>

lemma cia_bcd_value: "unat (cia_bcd_to_uint v) = 10 * (unat v div 16) + unat v mod 16"
proof -
  have "drop_bit 4 v AND 0x0F = drop_bit 4 v"
    by (rule word_unat_eq_iff [THEN iffD2]) (use unat_u8_less [of v] in \<open>simp add: unat_low_nibble unat_high_nibble less_mult_imp_div_less\<close>)
  moreover have "10 * (unat v div 16) + unat v mod 16 < 256"
    using unat_u8_less [of v] mod_less_divisor [of 16 "unat v"] div_mult_mod_eq [of "unat v" 16] by linarith
  ultimately show ?thesis
    by (simp add: cia_bcd_to_uint_def unat_word_ariths unat_low_nibble unat_high_nibble mult.commute)
qed

lemma to_bcd_value:
  assumes "unat n \<le> 99"
  shows "unat (cia_uint_to_bcd n) = 16 * (unat n div 10) + unat n mod 10"
proof -
  have d: "unat (n div 10) = unat n div 10" "unat (n mod 10) = unat n mod 10" by (simp_all add: unat_div unat_mod)
  have "n mod 10 AND 0x0F = n mod 10"
    by (rule word_unat_eq_iff [THEN iffD2]) (use mod_less_divisor [of 10 "unat n"] in \<open>simp add: unat_low_nibble unat_mod\<close>)
  then have "unat (cia_uint_to_bcd n) = 16 * (unat n div 10 mod 16) + unat n mod 10 mod 16"
    using unat_nibbles [of "n div 10" "n mod 10"] d by (simp add: cia_uint_to_bcd_def)
  moreover have "unat n div 10 < 16" "unat n mod 10 < 16" using assms mod_less_divisor [of 10 "unat n"] by linarith+
  ultimately show ?thesis by simp
qed

lemma bcd_round:
  assumes "unat n \<le> 99"
  shows "cia_bcd_to_uint (cia_uint_to_bcd n) = n" "bcd_ok limit (cia_uint_to_bcd n) \<longleftrightarrow> n \<le> limit"
proof -
  have m: "unat n mod 10 < 10" by simp
  have b: "unat (cia_uint_to_bcd n) div 16 = unat n div 10" "unat (cia_uint_to_bcd n) mod 16 = unat n mod 10"
    using to_bcd_value [OF assms] m by simp_all
  show "cia_bcd_to_uint (cia_uint_to_bcd n) = n"
    by (rule word_unat_eq_iff [THEN iffD2]) (simp add: cia_bcd_value b)
  moreover have "unat n div 10 \<le> 9" using assms by linarith
  moreover have "unat n mod 10 \<le> 9" using m by linarith
  ultimately show "bcd_ok limit (cia_uint_to_bcd n) \<longleftrightarrow> n \<le> limit"
    using b by (simp add: bcd_ok_def word_le_nat_alt unat_low_nibble unat_high_nibble)
qed

lemma bcd_zero: "bcd_ok 59 0" "cia_bcd_to_uint 0 = 0"
  by (simp_all add: bcd_ok_def cia_bcd_to_uint_def)

lemma sanitized_bcd: "bcd_ok 59 (cia_sanitize_bcd v 59)"
proof -
  define n where "n = (if 9 < v AND 0x0F \<or> 59 < cia_bcd_to_uint v then 0 else cia_bcd_to_uint v)"
  have "n \<le> 59" by (simp add: n_def not_less)
  then have "bcd_ok 59 (cia_uint_to_bcd n)" using bcd_round(2) [of n 59] by (simp add: word_le_nat_alt)
  then show ?thesis by (simp add: cia_sanitize_bcd_def n_def Let_def)
qed

text \<open>Seconds and minutes step up to 59.\<close>

lemma next_bcd:
  assumes "bcd_ok 59 v"
  defines "n \<equiv> cia_bcd_to_uint v + 1"
  shows "unat n = unat (cia_bcd_to_uint v) + 1" "unat (cia_bcd_to_uint v) \<le> 59"
    "n < 60 \<Longrightarrow> bcd_ok 59 (cia_uint_to_bcd n) \<and> cia_bcd_to_uint (cia_uint_to_bcd n) = n"
    "\<not> n < 60 \<Longrightarrow> unat (cia_bcd_to_uint v) = 59"
proof -
  show l: "unat (cia_bcd_to_uint v) \<le> 59" using assms(1) by (simp add: bcd_ok_def word_le_nat_alt)
  then show u: "unat n = unat (cia_bcd_to_uint v) + 1" by (simp add: n_def unat_word_ariths)
  show "bcd_ok 59 (cia_uint_to_bcd n) \<and> cia_bcd_to_uint (cia_uint_to_bcd n) = n" if "n < 60"
    using that bcd_round(1) [of n] bcd_round(2) [of n 59] by (simp add: word_less_nat_alt word_le_nat_alt)
  show "unat (cia_bcd_to_uint v) = 59" if "\<not> n < 60" using that u l by (simp add: word_less_nat_alt)
qed

section \<open>Hours\<close>

lemma hour_parts:
  fixes pm h :: u8
  assumes "pm AND 0x7F = 0" "h AND 0xE0 = 0"
  shows "(pm OR h) AND 0x1F = h" "(pm OR h) AND 0x60 = 0" "(pm OR h) AND 0x80 = pm"
proof -
  have p: "\<not> bit pm 0" "\<not> bit pm (Suc 0)" "\<not> bit pm 2" "\<not> bit pm 3" "\<not> bit pm 4" "\<not> bit pm 5" "\<not> bit pm 6"
    "\<not> bit h 5" "\<not> bit h 6" "\<not> bit h 7"
    using assms by (auto simp: u8_eq_bits bit_simps)
  show "(pm OR h) AND 0x1F = h" "(pm OR h) AND 0x60 = 0" "(pm OR h) AND 0x80 = pm"
    using p by (simp_all add: u8_eq_bits bit_simps)
qed

lemma bcd_hours:
  assumes "1 \<le> unat n" "unat n \<le> 12"
  shows "cia_uint_to_bcd n AND 0xE0 = 0" "cia_uint_to_bcd n \<noteq> 0" "bcd_ok 12 (cia_uint_to_bcd n)"
    "cia_bcd_to_uint (cia_uint_to_bcd n) = n"
proof -
  have "unat n \<in> set [1..<13]" using assms by auto
  then have n: "n \<in> {1, 2, 3, 4, 5, 6, 7, 8, 9, 10, 11, 12}"
    by (auto simp: word_unat_eq_iff upt_rec)
  then show "cia_uint_to_bcd n AND 0xE0 = 0" "cia_uint_to_bcd n \<noteq> 0"
    by (elim insertE emptyE; simp add: cia_uint_to_bcd_def)+
  show "bcd_ok 12 (cia_uint_to_bcd n)" "cia_bcd_to_uint (cia_uint_to_bcd n) = n"
    using bcd_round(1) [of n] bcd_round(2) [of n 12] assms by (simp_all add: word_le_nat_alt)
qed

lemma made_hour:
  assumes "1 \<le> unat n" "unat n \<le> 12" "pm AND 0x7F = 0"
  shows "hour_ok (pm OR cia_uint_to_bcd n)"
    "hour_value (pm OR cia_uint_to_bcd n) = unat n mod 12 + (if pm \<noteq> 0 then 12 else 0)"
  using bcd_hours [OF assms(1,2)] hour_parts [OF assms(3) bcd_hours(1) [OF assms(1,2)]]
  by (simp_all add: hour_ok_def hour_value_def)

lemma pm_bits: "(h AND 0x80) AND 0x7F = (0 :: u8)" "((h AND 0x80) XOR 0x80) AND 0x7F = (0 :: u8)"
  "(h AND 0x80) XOR 0x80 \<noteq> 0 \<longleftrightarrow> h AND 0x80 = (0 :: u8)"
  by (auto simp: u8_eq_bits bit_simps)

lemma sanitized_hour: "hour_ok (cia_sanitize_tod_hour v)"
proof -
  define n where "n = (if 9 < v AND 0x0F \<or> cia_bcd_to_uint (v AND 0x1F) < 1 \<or> 12 < cia_bcd_to_uint (v AND 0x1F) then 12
    else cia_bcd_to_uint (v AND 0x1F))"
  have "1 \<le> n" "n \<le> 12" by (auto simp: n_def not_less word_less_nat_alt word_le_nat_alt)
  then have "hour_ok ((v AND 0x80) OR cia_uint_to_bcd n)"
    by (intro made_hour(1)) (simp_all add: word_le_nat_alt pm_bits)
  then show ?thesis by (simp add: cia_sanitize_tod_hour_def n_def Let_def)
qed

text \<open>The hours of \<^verbatim>\<open>cia_increment_tod\<close>.\<close>

definition next_hour :: "u8 \<Rightarrow> u8" where
  "next_hour h =
     (let pm = h AND 0x80; hour = cia_bcd_to_uint (h AND 0x1F) + 1;
          (pm, hour) = (if hour = 12 then (pm XOR 0x80, hour) else if 12 < hour then (pm, 1) else (pm, hour))
      in pm OR cia_uint_to_bcd hour)"

lemma next_hour_ok:
  assumes "hour_ok h"
  shows "hour_ok (next_hour h)" "hour_value (next_hour h) = (hour_value h + 1) mod 24" "hour_value h < 24"
proof -
  define n where "n = unat (cia_bcd_to_uint (h AND 0x1F))"
  have v: "n = 10 * (unat (h AND 0x1F) div 16) + unat (h AND 0x1F) mod 16" by (simp add: n_def cia_bcd_value)
  have "n \<le> 12" using assms by (simp add: hour_ok_def bcd_ok_def n_def word_le_nat_alt)
  moreover have "unat (h AND 0x1F) \<noteq> 0" using assms by (simp add: hour_ok_def unat_eq_0)
  then have "1 \<le> n" using v div_mult_mod_eq [of "unat (h AND 0x1F)" 16] by (cases "unat (h AND 0x1F) div 16") auto
  ultimately have n: "1 \<le> n" "n \<le> 12" by auto
  have u: "unat (cia_bcd_to_uint (h AND 0x1F) + 1) = n + 1" using n by (simp add: n_def unat_word_ariths)
  then have c: "cia_bcd_to_uint (h AND 0x1F) + 1 = 12 \<longleftrightarrow> n = 11" "12 < cia_bcd_to_uint (h AND 0x1F) + 1 \<longleftrightarrow> n = 12"
    using n by (auto simp: word_unat_eq_iff word_less_nat_alt)
  have h: "hour_value h = n mod 12 + (if h AND 0x80 \<noteq> 0 then 12 else 0)" by (simp add: hour_value_def n_def)
  show "hour_value h < 24" using h mod_less_divisor [of 12 n] by (simp del: mod_less_divisor)
  consider "n = 11" | "n = 12" | "n \<le> 10" using n by linarith
  then have "hour_ok (next_hour h) \<and> hour_value (next_hour h) = (hour_value h + 1) mod 24"
  proof cases
    case 1
    then have "next_hour h = ((h AND 0x80) XOR 0x80) OR cia_uint_to_bcd 12" using c by (simp add: next_hour_def Let_def)
    then show ?thesis
      using made_hour [of 12 "(h AND 0x80) XOR 0x80"] h 1 pm_bits [of h] by simp_all
  next
    case 2
    then have "next_hour h = (h AND 0x80) OR cia_uint_to_bcd 1" using c by (simp add: next_hour_def Let_def)
    then show ?thesis
      using made_hour [of 1 "h AND 0x80"] h 2 pm_bits [of h] by simp_all
  next
    case 3
    then have "next_hour h = (h AND 0x80) OR cia_uint_to_bcd (cia_bcd_to_uint (h AND 0x1F) + 1)"
      using c by (simp add: next_hour_def Let_def)
    then show ?thesis
      using made_hour [of "cia_bcd_to_uint (h AND 0x1F) + 1" "h AND 0x80"] h 3 u n pm_bits [of h] by simp_all
  qed
  then show "hour_ok (next_hour h)" "hour_value (next_hour h) = (hour_value h + 1) mod 24" by simp_all
qed

section \<open>Ticks\<close>

lemma increment_parts:
  "cia_increment_tod t =
     (if tenth t + 1 < 10 then t\<lparr>tenth := tenth t + 1\<rparr>
      else if cia_bcd_to_uint (seconds t) + 1 < 60
      then t\<lparr>tenth := 0, seconds := cia_uint_to_bcd (cia_bcd_to_uint (seconds t) + 1)\<rparr>
      else if cia_bcd_to_uint (minutes t) + 1 < 60
      then t\<lparr>tenth := 0, seconds := 0, minutes := cia_uint_to_bcd (cia_bcd_to_uint (minutes t) + 1)\<rparr>
      else t\<lparr>tenth := 0, seconds := 0, minutes := 0, hours := next_hour (hours t)\<rparr>)"
  by (simp add: cia_increment_tod_def next_hour_def Let_def split_beta)

lemma tod_tenths_sum:
  "tod_tenths t = 36000 * hour_value (hours t) + 600 * unat (cia_bcd_to_uint (minutes t)) +
     10 * unat (cia_bcd_to_uint (seconds t)) + unat (tenth t)"
  by (simp add: tod_tenths_def algebra_simps)

lemma tod_tenths_less:
  assumes "tod_ok t"
  shows "tod_tenths t < 864000"
proof -
  have "unat (tenth t) \<le> 9" "bcd_ok 59 (seconds t)" "bcd_ok 59 (minutes t)" "hour_ok (hours t)"
    using assms by (simp_all add: tod_ok_def word_le_nat_alt)
  then show ?thesis
    using next_bcd(2) [of "seconds t"] next_bcd(2) [of "minutes t"] next_hour_ok(3) [of "hours t"]
    unfolding tod_tenths_sum by linarith
qed

lemma increment_tod:
  assumes "tod_ok t"
  shows "tod_ok (cia_increment_tod t)" "tod_tenths (cia_increment_tod t) = (tod_tenths t + 1) mod 864000"
proof -
  have t: "unat (tenth t) \<le> 9" "unat (tenth t + 1) = unat (tenth t) + 1"
    using assms by (simp_all add: tod_ok_def word_le_nat_alt unat_word_ariths)
  have ok: "bcd_ok 59 (seconds t)" "bcd_ok 59 (minutes t)" "hour_ok (hours t)" using assms by (simp_all add: tod_ok_def)
  note s = next_bcd [OF ok(1)] and m = next_bcd [OF ok(2)] and h = next_hour_ok [OF ok(3)]
  have ten: "\<not> tenth t + 1 < 10 \<Longrightarrow> unat (tenth t) = 9" using t by (simp add: word_less_nat_alt)
  consider "tenth t + 1 < 10"
    | "\<not> tenth t + 1 < 10" "cia_bcd_to_uint (seconds t) + 1 < 60"
    | "\<not> tenth t + 1 < 10" "\<not> cia_bcd_to_uint (seconds t) + 1 < 60" "cia_bcd_to_uint (minutes t) + 1 < 60"
    | "\<not> tenth t + 1 < 10" "\<not> cia_bcd_to_uint (seconds t) + 1 < 60" "\<not> cia_bcd_to_uint (minutes t) + 1 < 60"
    by blast
  then have "tod_ok (cia_increment_tod t) \<and>
      (tod_tenths (cia_increment_tod t) = tod_tenths t + 1 \<or>
       tod_tenths t = 36000 * hour_value (hours t) + 35999 \<and>
       tod_tenths (cia_increment_tod t) = 36000 * ((hour_value (hours t) + 1) mod 24))"
  proof cases
    case 1
    then show ?thesis
      using t ok by (simp add: increment_parts tod_tenths_sum tod_ok_def word_less_nat_alt word_le_nat_alt)
  next
    case 2
    then show ?thesis
      using ten s(1,3) ok by (simp add: increment_parts tod_tenths_sum tod_ok_def)
  next
    case 3
    then show ?thesis
      using ten s(4) m(1,3) ok by (simp add: increment_parts tod_tenths_sum tod_ok_def bcd_zero)
  next
    case 4
    then show ?thesis
      using ten s(4) m(4) h(1,2) by (simp add: increment_parts tod_tenths_sum tod_ok_def bcd_zero)
  qed
  moreover have "36000 * ((hour_value (hours t) + 1) mod 24) = (36000 * (hour_value (hours t) + 1)) mod 864000"
    using mult_mod_right [of 36000 "hour_value (hours t) + 1" 24] by simp
  ultimately show "tod_ok (cia_increment_tod t)" "tod_tenths (cia_increment_tod t) = (tod_tenths t + 1) mod 864000"
    using tod_tenths_less [of t] tod_tenths_less [of "cia_increment_tod t"] by (auto simp: assms algebra_simps)
qed

text \<open>The loop takes all the ticks that are due.\<close>

lemma tod_tick_clock [simp]:
  "tod (tod_tick c) = cia_increment_tod (tod c)" "tod_alarm (tod_tick c) = tod_alarm c"
  "tod_latch (tod_tick c) = tod_latch c" "tod_latched (tod_tick c) = tod_latched c"
  by (simp_all add: tod_tick_def cia_set_interrupt_source_def cia_update_interrupt_ff_def Let_def)

lemma tod_ticks_advance:
  assumes "tod_ok (tod c)" "k \<noteq> 0"
  shows "tod_ok (tod (tod_ticks k c)) \<and>
    tod_tenths (tod (tod_ticks k c)) = (tod_tenths (tod c) + unat (tod_cycle_accum c) div unat k) mod 864000 \<and>
    tod_alarm (tod_ticks k c) = tod_alarm c \<and> tod_latch (tod_ticks k c) = tod_latch c \<and>
    tod_latched (tod_ticks k c) = tod_latched c"
  using assms
proof (induction k c rule: tod_ticks.induct)
  case (1 k c)
  have k: "0 < k" "0 < unat k" using 1(3) by (simp_all add: word_gt_0 unat_gt_0)
  show ?case
  proof (cases "k \<le> tod_cycle_accum c")
    case True
    let ?d = "tod_tick (c\<lparr>tod_cycle_accum := tod_cycle_accum c - k\<rparr>)"
    have "unat (tod_cycle_accum c) div unat k = Suc ((unat (tod_cycle_accum c) - unat k) div unat k)"
      using True k le_div_geq [of "unat k" "unat (tod_cycle_accum c)"] by (simp add: word_le_nat_alt)
    moreover have "unat (tod_cycle_accum c - k) = unat (tod_cycle_accum c) - unat k"
      using True by (simp add: unat_sub word_le_nat_alt)
    moreover have "tod_ok (tod ?d)" using increment_tod(1) 1(2) by simp
    ultimately show ?thesis
      using 1(1) [OF conjI [OF k(1) True]] True k(1) 1(3) increment_tod(2) [OF 1(2)]
      by (simp add: tod_ticks.simps [of k c] mod_add_left_eq)
  next
    case False
    then have "unat (tod_cycle_accum c) div unat k = 0" by (simp add: word_le_nat_alt)
    then show ?thesis
      using False 1(2) tod_tenths_less [OF 1(2)] by (simp add: tod_ticks.simps [of k c])
  qed
qed

section \<open>What the rest of a cycle leaves alone\<close>

definition same_clock :: "cia \<Rightarrow> cia \<Rightarrow> bool" where
  "same_clock c d \<longleftrightarrow>
     tod d = tod c \<and> tod_alarm d = tod_alarm c \<and> tod_latch d = tod_latch c \<and> tod_latched d = tod_latched c \<and>
     tod_stopped d = tod_stopped c \<and> tod_cycle_accum d = tod_cycle_accum c \<and>
     cia_tod_tick_cycles d = cia_tod_tick_cycles c"

lemma same_clock_refl: "same_clock c c"
  by (simp add: same_clock_def)

lemma same_clock_trans: "same_clock c d \<Longrightarrow> same_clock d e \<Longrightarrow> same_clock c e"
  by (simp add: same_clock_def)

lemma same_clock_reg:
  assumes "registers d CIA_REG_CONTROL_A AND CIA_CONTROL_TOD_50HZ = registers c CIA_REG_CONTROL_A AND CIA_CONTROL_TOD_50HZ"
    "tod d = tod c" "tod_alarm d = tod_alarm c" "tod_latch d = tod_latch c" "tod_latched d = tod_latched c"
    "tod_stopped d = tod_stopped c" "tod_cycle_accum d = tod_cycle_accum c"
    "tod_50hz_cycles d = tod_50hz_cycles c" "tod_60hz_cycles d = tod_60hz_cycles c"
  shows "same_clock c d"
  using assms by (simp add: same_clock_def cia_tod_tick_cycles_def)

lemma start_bit_off: "(v AND NOT CIA_CONTROL_START) AND CIA_CONTROL_TOD_50HZ = v AND CIA_CONTROL_TOD_50HZ"
  by (simp add: u8_eq_bits bit_simps)

lemma same_clock_then:
  "same_clock b c \<Longrightarrow> same_clock b (update_timer r f c)"
  "same_clock b c \<Longrightarrow> same_clock b (cia_set_interrupt_source m c)"
  "same_clock b c \<Longrightarrow> same_clock b (set_register r (registers c r AND NOT CIA_CONTROL_START) c)"
proof -
  have "same_clock c (update_timer r f c)"
    by (rule same_clock_reg) (simp_all add: update_timer_def)
  moreover have "same_clock c (cia_set_interrupt_source m c)"
    by (rule same_clock_reg) (simp_all add: cia_set_interrupt_source_def cia_update_interrupt_ff_def Let_def)
  moreover have "same_clock c (set_register r (registers c r AND NOT CIA_CONTROL_START) c)"
    by (rule same_clock_reg) (use start_bit_off [of "registers c CIA_REG_CONTROL_A"] in \<open>simp_all add: set_register_def\<close>)
  ultimately show "same_clock b c \<Longrightarrow> same_clock b (update_timer r f c)"
    "same_clock b c \<Longrightarrow> same_clock b (cia_set_interrupt_source m c)"
    "same_clock b c \<Longrightarrow> same_clock b (set_register r (registers c r AND NOT CIA_CONTROL_START) c)"
    by (blast intro: same_clock_trans)+
qed

lemma same_clock_if: "same_clock b c \<Longrightarrow> same_clock b d \<Longrightarrow> same_clock b (if p then c else d)"
  by simp

lemma same_clock_count: "same_clock b c \<Longrightarrow> same_clock b (timer_count r i control loaded os c)"
  unfolding timer_count_def Let_def
  by (intro same_clock_if same_clock_then; assumption)

lemma same_clock_step_timer: "same_clock c (cia_step_timer r i c)"
  unfolding cia_step_timer_def Let_def split_beta
  by (intro same_clock_if same_clock_then same_clock_count same_clock_refl)

lemma same_clock_serial: "same_clock c (cia_step_serial c)"
  by (rule same_clock_reg)
    (simp_all add: cia_step_serial_def cia_set_interrupt_source_def cia_update_interrupt_ff_def set_register_def Let_def)

lemma same_clock_pulses: "same_clock c (cia_reset_timer_output_pulses c)"
  by (rule same_clock_reg) (simp_all add: cia_reset_timer_output_pulses_def Let_def)

section \<open>One cycle\<close>

text \<open>The fast path for idle timers is the long path with its idle steps left out.\<close>

lemma idle_step_timer:
  assumes "cia_timer_step_idle (get_timer r c) (registers c r)"
  shows "cia_step_timer r i c = update_timer r (\<lambda>t. t\<lparr>underflow := False\<rparr>) c"
proof -
  have "registers (update_timer r (\<lambda>t. t\<lparr>underflow := False\<rparr>) c) r = registers c r" by (simp add: update_timer_def)
  moreover have "cia_timer_step_idle (get_timer r (update_timer r (\<lambda>t. t\<lparr>underflow := False\<rparr>) c)) (registers c r)"
    using assms by (cases "r = CIA_REG_CONTROL_A") (simp_all add: get_timer_def update_timer_def cia_timer_step_idle_def)
  ultimately show ?thesis by (simp add: cia_step_timer_def Let_def)
qed

definition after_pulses :: "cia \<Rightarrow> cia" where
  "after_pulses c = (if pulse_active (timer_a c) \<or> pulse_active (timer_b c) then cia_reset_timer_output_pulses c else c)"

lemma cnt_pulse_kept: "cnt_pulse (drive_pins (cia_step_tod c)) = cnt_pulse c"
proof -
  have "cnt_pulse (tod_ticks k d) = cnt_pulse d" for k d
  proof (induction k d rule: tod_ticks.induct)
    case (1 k d)
    have "cnt_pulse (tod_tick d) = cnt_pulse d" for d
      by (simp add: tod_tick_def cia_set_interrupt_source_def cia_update_interrupt_ff_def Let_def)
    then show ?case using 1 by (simp add: tod_ticks.simps [of k d])
  qed
  then show ?thesis by (simp add: drive_pins_def cia_step_tod_def Let_def)
qed

lemma fast_path: "cia_step_cycle c = cia_step_busy (after_pulses c)"
proof -
  let ?c = "after_pulses c"
  let ?cra = "registers ?c CIA_REG_CONTROL_A" and ?crb = "registers ?c CIA_REG_CONTROL_B"
  let ?d = "?c\<lparr>timer_a := (timer_a ?c)\<lparr>underflow := False\<rparr>, timer_b := (timer_b ?c)\<lparr>underflow := False\<rparr>\<rparr>"
  define idle where "idle \<longleftrightarrow> cia_timer_step_idle (timer_a ?c) ?cra \<and> cia_timer_step_idle (timer_b ?c) ?crb \<and>
    serial_out_bits ?c = 0 \<and> \<not> cnt_pulse ?c \<and> ?cra AND CIA_CONTROL_A_SERIAL_OUT = 0"
  have step: "cia_step_cycle c = (if idle then drive_pins (cia_step_tod ?d) else cia_step_busy ?c)"
    by (simp add: cia_step_cycle_def after_pulses_def idle_def Let_def)
  show ?thesis
  proof (cases idle)
    case True
    then have a: "cia_step_timer CIA_REG_CONTROL_A i ?c = ?c\<lparr>timer_a := (timer_a ?c)\<lparr>underflow := False\<rparr>\<rparr>" for i
      using idle_step_timer [of CIA_REG_CONTROL_A ?c i] by (simp add: idle_def get_timer_def update_timer_def)
    let ?e = "?c\<lparr>timer_a := (timer_a ?c)\<lparr>underflow := False\<rparr>\<rparr>"
    have b: "cia_step_timer CIA_REG_CONTROL_B i ?e = ?d" for i
      using True idle_step_timer [of CIA_REG_CONTROL_B ?e i] by (simp add: idle_def get_timer_def update_timer_def)
    have "cia_step_busy ?c = (drive_pins (cia_step_tod ?d))\<lparr>cnt_pulse := False\<rparr>"
      using True a b by (simp add: cia_step_busy_def Let_def idle_def)
    moreover have "\<not> cnt_pulse (drive_pins (cia_step_tod ?d))"
      using True by (simp add: cnt_pulse_kept idle_def)
    ultimately show ?thesis using step True by (simp add: cia.equality)
  qed (simp add: step)
qed

definition before_tod :: "cia \<Rightarrow> cia" where
  "before_tod c =
     (let cra = registers c CIA_REG_CONTROL_A;
          c = cia_step_timer CIA_REG_CONTROL_A CIA_INTERRUPT_TIMER_A c;
          c = cia_step_timer CIA_REG_CONTROL_B CIA_INTERRUPT_TIMER_B c
      in if cra AND CIA_CONTROL_A_SERIAL_OUT \<noteq> 0 then
           if serial_out_bits c \<noteq> 0 \<and> underflow (timer_a c) then cia_step_serial c else c
         else if cnt_pulse c then cia_step_serial c else c)"

lemma step_cycle_parts:
  "cia_step_cycle c = (drive_pins (cia_step_tod (before_tod (after_pulses c))))\<lparr>cnt_pulse := False\<rparr>"
  by (simp add: fast_path cia_step_busy_def before_tod_def Let_def)

lemma same_clock_before: "same_clock c (before_tod (after_pulses c))"
proof -
  have "same_clock c (after_pulses c)"
    by (simp add: after_pulses_def same_clock_pulses same_clock_refl)
  moreover have "same_clock d (before_tod d)" for d
  proof -
    have "same_clock d (cia_step_timer CIA_REG_CONTROL_B CIA_INTERRUPT_TIMER_B
        (cia_step_timer CIA_REG_CONTROL_A CIA_INTERRUPT_TIMER_A d))" (is "same_clock d ?e")
      by (rule same_clock_trans [OF same_clock_step_timer same_clock_step_timer])
    moreover have "same_clock d (cia_step_serial ?e)"
      by (rule same_clock_trans [OF calculation same_clock_serial])
    ultimately show ?thesis by (simp add: before_tod_def Let_def)
  qed
  ultimately show ?thesis by (blast intro: same_clock_trans)
qed

lemma step_tod:
  assumes "tod_ok (tod c)"
  shows "tod_ok (tod (cia_step_tod c))" "tod_tenths (tod (cia_step_tod c)) = (tod_tenths (tod c) + ticks_due c) mod 864000"
    "tod_alarm (cia_step_tod c) = tod_alarm c" "tod_latch (cia_step_tod c) = tod_latch c"
    "tod_latched (cia_step_tod c) = tod_latched c"
proof -
  let ?k = "cia_tod_tick_cycles c" and ?d = "c\<lparr>tod_cycle_accum := tod_cycle_accum c + 1\<rparr>"
  have "tod_ok (tod ?d)" using assms by simp
  then show "tod_ok (tod (cia_step_tod c))" "tod_tenths (tod (cia_step_tod c)) = (tod_tenths (tod c) + ticks_due c) mod 864000"
    "tod_alarm (cia_step_tod c) = tod_alarm c" "tod_latch (cia_step_tod c) = tod_latch c"
    "tod_latched (cia_step_tod c) = tod_latched c"
    using tod_ticks_advance [of ?d ?k] tod_tenths_less [OF assms]
    by (simp_all add: cia_step_tod_def ticks_due_def Let_def)
qed

lemma ticks_due_same: "same_clock c d \<Longrightarrow> ticks_due d = ticks_due c"
  by (simp add: same_clock_def ticks_due_def)

lemma after_tod [simp]:
  "tod ((drive_pins c)\<lparr>cnt_pulse := False\<rparr>) = tod c" "tod_alarm ((drive_pins c)\<lparr>cnt_pulse := False\<rparr>) = tod_alarm c"
  "tod_latch ((drive_pins c)\<lparr>cnt_pulse := False\<rparr>) = tod_latch c"
  "tod_latched ((drive_pins c)\<lparr>cnt_pulse := False\<rparr>) = tod_latched c"
  "tod_stopped ((drive_pins c)\<lparr>cnt_pulse := False\<rparr>) = tod_stopped c"
  "tod_cycle_accum ((drive_pins c)\<lparr>cnt_pulse := False\<rparr>) = tod_cycle_accum c"
  "cia_tod_tick_cycles ((drive_pins c)\<lparr>cnt_pulse := False\<rparr>) = cia_tod_tick_cycles c"
  by (simp_all add: drive_pins_def cia_tod_tick_cycles_def Let_def)

lemma step_cycle_clock:
  assumes "clocks_ok c"
  shows "clocks_ok (cia_step_cycle c)"
    "tod_tenths (tod (cia_step_cycle c)) = (tod_tenths (tod c) + ticks_due c) mod 864000"
proof -
  let ?d = "before_tod (after_pulses c)"
  have d: "tod ?d = tod c" "tod_alarm ?d = tod_alarm c" "tod_latch ?d = tod_latch c" "tod_latched ?d = tod_latched c"
    using same_clock_before [of c] by (simp_all add: same_clock_def)
  have "tod_ok (tod ?d)" using assms d by (simp add: clocks_ok_def)
  note st = step_tod [OF this]
  show "clocks_ok (cia_step_cycle c)"
    using assms st d by (simp add: step_cycle_parts clocks_ok_def)
  show "tod_tenths (tod (cia_step_cycle c)) = (tod_tenths (tod c) + ticks_due c) mod 864000"
    using st(2) d ticks_due_same [OF same_clock_before [of c]] by (simp add: step_cycle_parts)
qed

text \<open>A tick that reaches the alarm raises its interrupt.\<close>

lemma tod_ticks_alarm:
  assumes "0 < k" "k \<le> tod_cycle_accum c" "tod (tod_ticks k c) = tod_alarm c"
  shows "interrupt_flags (tod_ticks k c) AND CIA_INTERRUPT_TOD \<noteq> 0"
  using assms
proof (induction k c rule: tod_ticks.induct)
  case (1 k c)
  let ?d = "tod_tick (c\<lparr>tod_cycle_accum := tod_cycle_accum c - k\<rparr>)"
  have t: "tod_ticks k c = tod_ticks k ?d" using 1(2,3) by (simp add: tod_ticks.simps [of k c])
  show ?case
  proof (cases "k \<le> tod_cycle_accum ?d")
    case True
    then show ?thesis using 1(1) [OF conjI [OF 1(2,3)] 1(2)] 1(4) t by simp
  next
    case False
    then have d: "tod_ticks k c = ?d" using t by (simp add: tod_ticks.simps [of k ?d])
    then have "cia_increment_tod (tod c) = tod_alarm c" using 1(4) by simp
    moreover have "(f OR CIA_INTERRUPT_TOD) AND CIA_INTERRUPT_TOD \<noteq> (0 :: u8)" for f :: u8
      by (simp add: u8_eq_bits bit_simps)
    ultimately show ?thesis
      using d by (simp add: tod_tick_def cia_tod_equal_def cia_set_interrupt_source_def cia_update_interrupt_ff_def Let_def)
  qed
qed

lemma step_cycle_alarm:
  assumes "0 < ticks_due c" "tod (cia_step_cycle c) = tod_alarm c"
  shows "interrupt_flags (cia_step_cycle c) AND CIA_INTERRUPT_TOD \<noteq> 0"
proof -
  let ?d = "before_tod (after_pulses c)"
  let ?e = "?d\<lparr>tod_cycle_accum := tod_cycle_accum ?d + 1\<rparr>" and ?k = "cia_tod_tick_cycles c"
  have d: "tod_stopped ?d = tod_stopped c" "tod_cycle_accum ?d = tod_cycle_accum c" "tod_alarm ?d = tod_alarm c"
    "cia_tod_tick_cycles ?d = ?k"
    using same_clock_before [of c] by (simp_all add: same_clock_def)
  have k: "\<not> tod_stopped c" "?k \<noteq> 0" "?k \<le> tod_cycle_accum c + 1"
    using assms(1) by (auto simp: ticks_due_def word_le_nat_alt div_greater_zero_iff split: if_splits)
  have e: "cia_step_tod ?d = tod_ticks ?k ?e" using k d by (simp add: cia_step_tod_def Let_def)
  have "interrupt_flags (tod_ticks ?k ?e) AND CIA_INTERRUPT_TOD \<noteq> 0"
    by (rule tod_ticks_alarm) (use assms(2) k d e in \<open>simp_all add: step_cycle_parts word_gt_0\<close>)
  then show ?thesis using e by (simp add: step_cycle_parts drive_pins_def Let_def)
qed

section \<open>Every operation\<close>

inductive cia_reachable :: "cia \<Rightarrow> bool" where
  cia_start: "cia_init (Some c) = Inr d \<Longrightarrow> cia_reachable d"
| cia_resets: "cia_reachable c \<Longrightarrow> cia_reachable (cia_reset c)"
| cia_cycles: "cia_reachable c \<Longrightarrow> cia_reachable (cia_step_cycle c)"
| cia_reads: "cia_reachable c \<Longrightarrow> cia_reachable (snd (cia_read_register c addr))"
| cia_writes: "cia_reachable c \<Longrightarrow> cia_reachable (cia_write_register addr v c)"
| cia_keyboards: "cia_reachable c \<Longrightarrow> cia_reachable (cia_attach_keyboard k c)"
| cia_inputs: "cia_reachable c \<Longrightarrow> cia_reachable (cia_attach_port_input f c)"
| cia_rates: "cia_reachable c \<Longrightarrow> cia_reachable (cia_set_tod_cycles m n c)"
| cia_cnts: "cia_reachable c \<Longrightarrow> cia_reachable (cia_pulse_cnt c)"
| cia_flags: "cia_reachable c \<Longrightarrow> cia_reachable (cia_set_flag_line l c)"
| cia_sps: "cia_reachable c \<Longrightarrow> cia_reachable (cia_set_sp_line l c)"
| cia_sources: "cia_reachable c \<Longrightarrow> cia_reachable (cia_set_interrupt_source s c)"

lemma clocks_ok_fields:
  "tod d = tod c \<Longrightarrow> tod_alarm d = tod_alarm c \<Longrightarrow> tod_latch d = tod_latch c \<Longrightarrow> tod_latched d = tod_latched c \<Longrightarrow>
    clocks_ok c \<Longrightarrow> clocks_ok d"
  by (simp add: clocks_ok_def)

lemma clocks_ok_same: "same_clock c d \<Longrightarrow> clocks_ok c \<Longrightarrow> clocks_ok d"
  by (simp add: same_clock_def clocks_ok_def)

lemma clocks_ok_reset: "clocks_ok (cia_reset c)"
proof -
  have "tod_ok (zero_tod\<lparr>hours := 0x12\<rparr>)"
    by (simp add: tod_ok_def zero_tod_def bcd_zero hour_ok_def bcd_ok_def cia_bcd_to_uint_def)
  then show ?thesis by (simp add: cia_reset_def zero_cia_def clocks_ok_def)
qed

lemma clocks_ok_read: "clocks_ok c \<Longrightarrow> clocks_ok (snd (cia_read_register c addr))"
  by (simp add: cia_read_register_def cia_read_tod_register_def clocks_ok_def Let_def)

lemma clocks_ok_write_tod:
  assumes "clocks_ok c"
  shows "clocks_ok (cia_write_tod_register reg v c)"
  using assms sanitized_bcd [of v] sanitized_hour [of v]
  by (simp add: cia_write_tod_register_def clocks_ok_def tod_ok_def set_register_def Let_def)

lemma same_clock_fields_write:
  "tod (update_timer r f c) = tod c" "tod_alarm (update_timer r f c) = tod_alarm c"
  "tod_latch (update_timer r f c) = tod_latch c" "tod_latched (update_timer r f c) = tod_latched c"
  "tod (set_register r v c) = tod c" "tod_alarm (set_register r v c) = tod_alarm c"
  "tod_latch (set_register r v c) = tod_latch c" "tod_latched (set_register r v c) = tod_latched c"
  by (simp_all add: update_timer_def set_register_def)

lemma clocks_ok_write:
  assumes "clocks_ok c"
  shows "clocks_ok (cia_write_register addr v c)"
proof -
  note f = same_clock_fields_write
  have "clocks_ok (set_register r v c)" "clocks_ok ((set_register r v c)\<lparr>pc_pulse_request := True\<rparr>)"
    "clocks_ok (write_timer_lo r r' v c)" "clocks_ok (write_timer_hi r r' v c)" "clocks_ok (write_control r v c)"
    "clocks_ok (write_sdr v c)" "clocks_ok (write_icr v c)" for r r'
    by (rule clocks_ok_fields [OF _ _ _ _ assms];
        simp add: f write_timer_lo_def write_timer_hi_def write_control_def write_sdr_def write_icr_def
          cia_update_interrupt_ff_def Let_def)+
  then show ?thesis using clocks_ok_write_tod [OF assms] by (simp add: cia_write_register_def Let_def)
qed

lemma clocks_ok_lines:
  "clocks_ok c \<Longrightarrow> clocks_ok (cia_attach_keyboard k c)" "clocks_ok c \<Longrightarrow> clocks_ok (cia_attach_port_input f c)"
  "clocks_ok c \<Longrightarrow> clocks_ok (cia_set_tod_cycles m n c)" "clocks_ok c \<Longrightarrow> clocks_ok (cia_pulse_cnt c)"
  "clocks_ok c \<Longrightarrow> clocks_ok (cia_set_sp_line l c)"
  by (simp_all add: clocks_ok_def cia_attach_keyboard_def cia_attach_port_input_def cia_set_tod_cycles_def
      cia_pulse_cnt_def cia_set_sp_line_def)

lemma reachable_clocks:
  assumes "cia_reachable c"
  shows "clocks_ok c"
  using assms
proof (induction rule: cia_reachable.induct)
  case (cia_start c d)
  then show ?case using clocks_ok_reset by (auto simp: cia_init_def)
next
  case (cia_cycles c)
  then show ?case by (simp add: step_cycle_clock)
next
  case (cia_flags c l)
  then show ?case
    using clocks_ok_same [OF same_clock_then(2) [OF same_clock_refl]] by (auto simp: cia_set_flag_line_def clocks_ok_def Let_def)
next
  case (cia_sources c s)
  then show ?case using clocks_ok_same [OF same_clock_then(2) [OF same_clock_refl]] by simp
qed (simp_all add: clocks_ok_reset clocks_ok_read clocks_ok_write clocks_ok_lines)

section \<open>Many cycles\<close>

lemma tod_tick_rate [simp]:
  "cia_tod_tick_cycles (tod_tick c) = cia_tod_tick_cycles c" "tod_stopped (tod_tick c) = tod_stopped c"
  by (simp_all add: tod_tick_def cia_set_interrupt_source_def cia_update_interrupt_ff_def cia_tod_tick_cycles_def Let_def)

lemma tod_ticks_rate:
  assumes "k \<noteq> 0"
  shows "cia_tod_tick_cycles (tod_ticks k c) = cia_tod_tick_cycles c \<and> tod_stopped (tod_ticks k c) = tod_stopped c \<and>
    unat (tod_cycle_accum (tod_ticks k c)) = unat (tod_cycle_accum c) mod unat k"
  using assms
proof (induction k c rule: tod_ticks.induct)
  case (1 k c)
  have k: "0 < k" using 1(2) by (simp add: word_gt_0)
  show ?case
  proof (cases "k \<le> tod_cycle_accum c")
    case True
    then have "unat (tod_cycle_accum c - k) mod unat k = unat (tod_cycle_accum c) mod unat k"
      by (simp add: unat_sub word_le_nat_alt le_mod_geq)
    moreover have "cia_tod_tick_cycles (c\<lparr>tod_cycle_accum := x\<rparr>) = cia_tod_tick_cycles c" for x
      by (simp add: cia_tod_tick_cycles_def)
    ultimately show ?thesis
      using 1(1) [OF conjI [OF k True] 1(2)] True k by (simp add: tod_ticks.simps [of k c])
  next
    case False
    then show ?thesis by (simp add: tod_ticks.simps [of k c] word_le_nat_alt)
  qed
qed

lemma step_cycle_rate:
  assumes "\<not> tod_stopped c" "cia_tod_tick_cycles c \<noteq> 0"
  shows "\<not> tod_stopped (cia_step_cycle c)" "cia_tod_tick_cycles (cia_step_cycle c) = cia_tod_tick_cycles c"
    "unat (tod_cycle_accum (cia_step_cycle c)) = unat (tod_cycle_accum c + 1) mod unat (cia_tod_tick_cycles c)"
proof -
  let ?d = "before_tod (after_pulses c)"
  let ?e = "?d\<lparr>tod_cycle_accum := tod_cycle_accum ?d + 1\<rparr>"
  have d: "tod_stopped ?d = tod_stopped c" "tod_cycle_accum ?d = tod_cycle_accum c"
    "cia_tod_tick_cycles ?d = cia_tod_tick_cycles c"
    using same_clock_before [of c] by (simp_all add: same_clock_def)
  have e: "cia_tod_tick_cycles ?e = cia_tod_tick_cycles ?d" by (simp add: cia_tod_tick_cycles_def)
  have "cia_step_tod ?d = tod_ticks (cia_tod_tick_cycles c) ?e"
    using assms d by (simp add: cia_step_tod_def Let_def)
  then show "\<not> tod_stopped (cia_step_cycle c)" "cia_tod_tick_cycles (cia_step_cycle c) = cia_tod_tick_cycles c"
    "unat (tod_cycle_accum (cia_step_cycle c)) = unat (tod_cycle_accum c + 1) mod unat (cia_tod_tick_cycles c)"
    using tod_ticks_rate [OF assms(2), of ?e] assms(1) d e by (simp_all add: step_cycle_parts)
qed

lemma many_cycles:
  assumes "clocks_ok c" "\<not> tod_stopped c" "cia_tod_tick_cycles c = k" "k \<noteq> 0" "unat (tod_cycle_accum c) + Suc n < 2 ^ 64"
  shows "tod_tenths (tod ((cia_step_cycle ^^ Suc n) c)) =
    (tod_tenths (tod c) + (unat (tod_cycle_accum c) + Suc n) div unat k) mod 864000"
  using assms
proof (induction n arbitrary: c)
  case 0
  have "unat (tod_cycle_accum c + 1) = unat (tod_cycle_accum c) + 1" using 0(5) by (simp add: unat_word_ariths)
  then show ?case using step_cycle_clock(2) [OF 0(1)] 0 by (simp add: ticks_due_def)
next
  case (Suc n)
  let ?a = "unat (tod_cycle_accum c) + 1"
  have a: "unat (tod_cycle_accum c + 1) = ?a" using Suc(6) by (simp add: unat_word_ariths)
  have r: "\<not> tod_stopped (cia_step_cycle c)" "cia_tod_tick_cycles (cia_step_cycle c) = k"
    "unat (tod_cycle_accum (cia_step_cycle c)) = ?a mod unat k"
    using step_cycle_rate [of c] Suc(3,4,5) a by simp_all
  have "?a mod unat k + Suc n < 2 ^ 64" using Suc(6) mod_less_eq_dividend [of ?a "unat k"] by linarith
  then have "tod_tenths (tod ((cia_step_cycle ^^ Suc n) (cia_step_cycle c))) =
      (tod_tenths (tod (cia_step_cycle c)) + (?a mod unat k + Suc n) div unat k) mod 864000"
    using Suc(1) [OF step_cycle_clock(1) [OF Suc(2)] r(1,2) Suc(5)] r(3) by simp
  moreover have "tod_tenths (tod (cia_step_cycle c)) = (tod_tenths (tod c) + ?a div unat k) mod 864000"
    using step_cycle_clock(2) [OF Suc(2)] Suc(3,4,5) a by (simp add: ticks_due_def)
  moreover have "?a div unat k + (?a mod unat k + Suc n) div unat k = (?a + Suc n) div unat k"
  proof -
    have "?a + Suc n = (?a mod unat k + Suc n) + ?a div unat k * unat k"
      using div_mult_mod_eq [of ?a "unat k"] by linarith
    moreover have "unat k \<noteq> 0" using Suc(5) by (simp add: unat_eq_0)
    ultimately show ?thesis by (metis add.commute div_mult_self1)
  qed
  ultimately show ?case
    by (simp add: funpow_Suc_right mod_add_left_eq add.assoc del: funpow.simps)
qed

text \<open>
  C38. Whatever the program and the machine have done to the CIA since \<^verbatim>\<open>cia_init\<close>, its clock and its alarm are valid
  twelve-hour times in BCD, and while the clock runs it keeps time exactly: after n cycles of
  \<^verbatim>\<open>cia_step_cycle\<close> without a register access it has moved by the whole number of ticks in those cycles and in the
  part of a tick begun before, across seconds, minutes, hours, noon and midnight.
\<close>

theorem tod_clock_keeps_time:
  assumes "cia_reachable c" "\<not> tod_stopped c" "cia_tod_tick_cycles c \<noteq> 0" "0 < n" "unat (tod_cycle_accum c) + n < 2 ^ 64"
  shows "clocks_ok c \<and>
    tod_tenths (tod ((cia_step_cycle ^^ n) c)) =
      (tod_tenths (tod c) + (unat (tod_cycle_accum c) + n) div unat (cia_tod_tick_cycles c)) mod 864000"
  using many_cycles [OF reachable_clocks [OF assms(1)] assms(2) refl assms(3), of "n - 1"] reachable_clocks [OF assms(1)] assms(4,5)
  by simp

lemma tod_clock_keeps_time_witness:
  "tod_tenths (tod ((cia_step_cycle ^^ 3000) (cia_set_tod_cycles 4 5 (cia_reset zero_cia)))) = 600"
proof -
  let ?c = "cia_set_tod_cycles 4 5 (cia_reset zero_cia)"
  have "cia_reachable ?c"
    by (rule cia_rates, rule cia_start [of zero_cia]) (simp add: cia_init_def)
  moreover have "\<not> tod_stopped ?c" "tod_cycle_accum ?c = 0" "cia_tod_tick_cycles ?c = 5"
    by (simp_all add: cia_set_tod_cycles_def cia_reset_def zero_cia_def cia_tod_tick_cycles_def)
  moreover have "tod_tenths (tod ?c) = 0"
    by (simp add: cia_set_tod_cycles_def cia_reset_def zero_cia_def zero_tod_def tod_tenths_def hour_value_def
        cia_bcd_to_uint_def)
  ultimately show ?thesis using tod_clock_keeps_time [of ?c 3000] by simp
qed

end
