(* ===== verification/C64_Bus.thy ===== *)
theory C64_Bus
  imports Cia6526
begin

text \<open>
  The memory of the C64 as its processor sees it, \<^verbatim>\<open>src/src/c64/machine/c64_bus.c\<close>: RAM, ROMs, the I/O area with
  its chips, the processor port and cartridges with switched banks.

  The two CIAs are those of \<open>Cia6526\<close>. The video chip, the sound chip and the SwiftLink interface, which are not
  modelled, are values of types of their own with the functions of the record \<open>c64_chips\<close>; the bus reaches them
  through these functions only, and they do not touch the bus. The array \<^verbatim>\<open>ram\<close> has an entry for every value of
  its 16-bit index and is a function; the other arrays are lists. Whether \<^verbatim>\<open>malloc\<close> succeeds is an
  argument. A bool is the return value of the operations that may refuse.
\<close>

section \<open>Data\<close>

abbreviation C64_COLOR_RAM_SIZE :: nat where "C64_COLOR_RAM_SIZE \<equiv> 0x0400"

abbreviation C64_BASIC_ROM_SIZE :: nat where "C64_BASIC_ROM_SIZE \<equiv> 0x2000"

abbreviation C64_CHAR_ROM_SIZE :: nat where "C64_CHAR_ROM_SIZE \<equiv> 0x1000"

abbreviation C64_KERNAL_ROM_SIZE :: nat where "C64_KERNAL_ROM_SIZE \<equiv> 0x2000"

abbreviation C64_CARTRIDGE_ROM_BANK_SIZE :: nat where "C64_CARTRIDGE_ROM_BANK_SIZE \<equiv> 0x2000"

abbreviation C64_CARTRIDGE_MAX_BANKS :: nat where "C64_CARTRIDGE_MAX_BANKS \<equiv> 128"

abbreviation C64_CARTRIDGE_OCEAN_MAX_BANKS :: nat where "C64_CARTRIDGE_OCEAN_MAX_BANKS \<equiv> 64"

abbreviation C64_CARTRIDGE_HW_NORMAL :: u16 where "C64_CARTRIDGE_HW_NORMAL \<equiv> 0"

abbreviation C64_CARTRIDGE_HW_OCEAN :: u16 where "C64_CARTRIDGE_HW_OCEAN \<equiv> 5"

abbreviation C64_CARTRIDGE_HW_FUNPLAY :: u16 where "C64_CARTRIDGE_HW_FUNPLAY \<equiv> 7"

abbreviation C64_CARTRIDGE_HW_SUPER_GAMES :: u16 where "C64_CARTRIDGE_HW_SUPER_GAMES \<equiv> 8"

abbreviation C64_CARTRIDGE_HW_C64GS :: u16 where "C64_CARTRIDGE_HW_C64GS \<equiv> 15"

abbreviation C64_CARTRIDGE_HW_DINAMIC :: u16 where "C64_CARTRIDGE_HW_DINAMIC \<equiv> 17"

abbreviation C64_CARTRIDGE_HW_MAGIC_DESK :: u16 where "C64_CARTRIDGE_HW_MAGIC_DESK \<equiv> 19"

abbreviation C64_CPU_PORT_DIRECTION :: u16 where "C64_CPU_PORT_DIRECTION \<equiv> 0x0000"

abbreviation C64_CPU_PORT_DATA :: u16 where "C64_CPU_PORT_DATA \<equiv> 0x0001"

abbreviation C64_DEFAULT_SCREEN_BASE :: u16 where "C64_DEFAULT_SCREEN_BASE \<equiv> 0x0400"

abbreviation C64_SID_BASE :: u16 where "C64_SID_BASE \<equiv> 0xD400"

abbreviation C64_SID_END :: u16 where "C64_SID_END \<equiv> 0xD41F"

abbreviation C64_COLOR_RAM_BASE :: u16 where "C64_COLOR_RAM_BASE \<equiv> 0xD800"

abbreviation C64_COLOR_RAM_END :: u16 where "C64_COLOR_RAM_END \<equiv> 0xDBFF"

abbreviation C64_CIA1_BASE :: u16 where "C64_CIA1_BASE \<equiv> 0xDC00"

abbreviation C64_CIA1_END :: u16 where "C64_CIA1_END \<equiv> 0xDCFF"

abbreviation C64_CIA2_BASE :: u16 where "C64_CIA2_BASE \<equiv> 0xDD00"

abbreviation C64_CIA2_END :: u16 where "C64_CIA2_END \<equiv> 0xDDFF"

abbreviation C64_CIA_REG_PORT_A :: u8 where "C64_CIA_REG_PORT_A \<equiv> 0x00"

abbreviation C64_CIA_REG_DDRA :: u8 where "C64_CIA_REG_DDRA \<equiv> 0x02"

datatype c64_cartridge_mode =
    C64_CARTRIDGE_MODE_NONE
  | C64_CARTRIDGE_MODE_8K
  | C64_CARTRIDGE_MODE_16K
  | C64_CARTRIDGE_MODE_ULTIMAX

record ('v, 's, 'l) c64_chips =
  vicii_read_register :: "'v \<Rightarrow> u16 \<Rightarrow> u8 \<times> 'v"
  vicii_write_register :: "'v \<Rightarrow> u16 \<Rightarrow> u8 \<Rightarrow> 'v"
  sid_read :: "'s \<Rightarrow> u16 \<Rightarrow> u8 \<times> 's"
  sid_write :: "'s \<Rightarrow> u16 \<Rightarrow> u8 \<Rightarrow> 's"
  c64_swiftlink_owns :: "'l \<Rightarrow> u16 \<Rightarrow> bool"
  c64_swiftlink_read :: "'l \<Rightarrow> u16 \<Rightarrow> u8 \<times> 'l"
  c64_swiftlink_write :: "'l \<Rightarrow> u16 \<Rightarrow> u8 \<Rightarrow> 'l"

record ('v, 's, 'l) c64_bus_t =
  ram :: "u16 \<Rightarrow> u8"
  color_ram :: "u8 list"
  basic_rom :: "u8 list"
  char_rom :: "u8 list"
  kernal_rom :: "u8 list"
  cartridge_roml :: "u8 list"
  cartridge_romh :: "u8 list"
  cartridge_rom_banks :: "u8 list option"
  cartridge_bank_count :: u16
  cartridge_bank_mask :: u8
  cartridge_io_latch :: u8
  cartridge_hardware_type :: u16
  vic :: "'v option"
  cia1 :: "cia option"
  cia2 :: "cia option"
  sid :: "'s option"
  swiftlink :: "'l option"
  cpu_port_direction :: u8
  cpu_port_data :: u8
  screen_ram_writes :: u64
  color_ram_writes :: u64
  vic_register_writes :: u64
  cia1_register_writes :: u64
  cia2_register_writes :: u64
  sid_register_writes :: u64
  vic_bank_base :: u16
  cartridge_mounted :: bool
  cartridge_roml_present :: bool
  cartridge_romh_present :: bool
  cartridge_exrom :: u8
  cartridge_game :: u8
  cartridge_mode :: c64_cartridge_mode
  debugcart_enabled :: bool
  debugcart_hit :: bool
  debugcart_value :: u8
  cpu_open_bus_pc :: u16

section \<open>The processor port\<close>

definition c64_bus_compute_vic_bank_base :: "('v, 's, 'l) c64_bus_t \<Rightarrow> u16" where
  "c64_bus_compute_vic_bank_base bus =
     (case cia2 bus of None \<Rightarrow> 0 | Some c \<Rightarrow> (let pa = cia_read_port_a_pins c in ucast (NOT pa AND 3) * 0x4000))"

definition c64_bus_cpu_port_read :: "('v, 's, 'l) c64_bus_t \<Rightarrow> u16 \<Rightarrow> u8" where
  "c64_bus_cpu_port_read bus address =
     (if address = C64_CPU_PORT_DIRECTION then cpu_port_direction bus else cpu_port_data bus)"

definition c64_bus_cpu_port_value :: "('v, 's, 'l) c64_bus_t \<Rightarrow> u8" where
  "c64_bus_cpu_port_value bus = cpu_port_data bus"

definition c64_bus_basic_visible :: "('v, 's, 'l) c64_bus_t \<Rightarrow> bool" where
  "c64_bus_basic_visible bus \<longleftrightarrow> c64_bus_cpu_port_value bus AND 0x03 = 0x03"

definition c64_bus_kernal_visible :: "('v, 's, 'l) c64_bus_t \<Rightarrow> bool" where
  "c64_bus_kernal_visible bus \<longleftrightarrow> c64_bus_cpu_port_value bus AND 0x02 \<noteq> 0"

definition c64_bus_io_or_char_visible :: "('v, 's, 'l) c64_bus_t \<Rightarrow> bool" where
  "c64_bus_io_or_char_visible bus \<longleftrightarrow> c64_bus_cpu_port_value bus AND 0x03 \<noteq> 0"

definition c64_bus_io_visible :: "('v, 's, 'l) c64_bus_t \<Rightarrow> bool" where
  "c64_bus_io_visible bus \<longleftrightarrow> c64_bus_io_or_char_visible bus \<and> c64_bus_cpu_port_value bus AND 0x04 \<noteq> 0"

definition c64_bus_char_visible :: "('v, 's, 'l) c64_bus_t \<Rightarrow> bool" where
  "c64_bus_char_visible bus \<longleftrightarrow> c64_bus_io_or_char_visible bus \<and> c64_bus_cpu_port_value bus AND 0x04 = 0"

definition c64_bus_cartridge_mode_from_lines :: "u8 \<Rightarrow> u8 \<Rightarrow> c64_cartridge_mode" where
  "c64_bus_cartridge_mode_from_lines exrom game =
     (if exrom = 0 \<and> game \<noteq> 0 then C64_CARTRIDGE_MODE_8K
      else if exrom = 0 \<and> game = 0 then C64_CARTRIDGE_MODE_16K
      else if exrom \<noteq> 0 \<and> game = 0 then C64_CARTRIDGE_MODE_ULTIMAX
      else C64_CARTRIDGE_MODE_NONE)"

definition c64_bus_loram_enabled :: "('v, 's, 'l) c64_bus_t \<Rightarrow> bool" where
  "c64_bus_loram_enabled bus \<longleftrightarrow> cpu_port_data bus AND 0x01 \<noteq> 0"

definition c64_bus_hiram_enabled :: "('v, 's, 'l) c64_bus_t \<Rightarrow> bool" where
  "c64_bus_hiram_enabled bus \<longleftrightarrow> cpu_port_data bus AND 0x02 \<noteq> 0"

section \<open>Banks of a cartridge\<close>

text \<open>The bytes that \<^verbatim>\<open>memcpy\<close> takes from bank \<open>k\<close> of the storage.\<close>

definition bank_bytes :: "u8 list \<Rightarrow> nat \<Rightarrow> u8 list" where
  "bank_bytes banks k = take C64_CARTRIDGE_ROM_BANK_SIZE (drop (k * C64_CARTRIDGE_ROM_BANK_SIZE) banks)"

definition c64_bus_magic_desk_bank_mask :: "nat \<Rightarrow> u8" where
  "c64_bus_magic_desk_bank_mask last_bank_index =
     (if 64 \<le> last_bank_index then 0x7F
      else if 32 \<le> last_bank_index then 0x3F
      else if 16 \<le> last_bank_index then 0x1F
      else if 8 \<le> last_bank_index then 0x0F
      else if 4 \<le> last_bank_index then 0x07
      else 0x03)"

text \<open>The wrap of a bank number beyond the last bank; the 8-bit divisor is not 0 for up to 128 banks.\<close>

definition wrapped_bank :: "('v, 's, 'l) c64_bus_t \<Rightarrow> u8 \<Rightarrow> u8" where
  "wrapped_bank bus bank =
     (if cartridge_bank_count bus \<le> ucast bank then bank mod ucast (cartridge_bank_count bus) else bank)"

definition c64_bus_copy_roml_bank :: "u8 \<Rightarrow> ('v, 's, 'l) c64_bus_t \<Rightarrow> ('v, 's, 'l) c64_bus_t" where
  "c64_bus_copy_roml_bank bank bus =
     (case cartridge_rom_banks bus of
        None \<Rightarrow> bus
      | Some banks \<Rightarrow>
          (if cartridge_bank_count bus = 0 then bus
           else bus\<lparr>cartridge_roml := bank_bytes banks (unat (wrapped_bank bus bank)), cartridge_roml_present := True\<rparr>))"

text \<open>The end of \<^verbatim>\<open>c64_bus_magic_desk_apply_latch\<close> is the same copy.\<close>

definition c64_bus_magic_desk_apply_latch :: "('v, 's, 'l) c64_bus_t \<Rightarrow> ('v, 's, 'l) c64_bus_t" where
  "c64_bus_magic_desk_apply_latch bus =
     (let bus = bus\<lparr>cartridge_io_latch := cartridge_io_latch bus AND (0x80 OR cartridge_bank_mask bus)\<rparr>;
          bank = cartridge_io_latch bus AND cartridge_bank_mask bus;
          bus = (if cartridge_io_latch bus AND 0x80 \<noteq> 0
                 then bus\<lparr>cartridge_mode := C64_CARTRIDGE_MODE_NONE, cartridge_exrom := 1, cartridge_game := 1\<rparr>
                 else bus\<lparr>cartridge_exrom := 0, cartridge_game := 1, cartridge_mode := C64_CARTRIDGE_MODE_8K\<rparr>)
      in c64_bus_copy_roml_bank bank bus)"

definition c64_bus_ocean_apply_latch :: "('v, 's, 'l) c64_bus_t \<Rightarrow> ('v, 's, 'l) c64_bus_t" where
  "c64_bus_ocean_apply_latch bus =
     (let bank = cartridge_io_latch bus AND cartridge_bank_mask bus AND 0x3F
      in case cartridge_rom_banks bus of
           None \<Rightarrow> bus
         | Some banks \<Rightarrow>
             (if cartridge_bank_count bus = 0 then bus
              else
                (let src = bank_bytes banks (unat (wrapped_bank bus bank));
                     bus = bus\<lparr>cartridge_roml := src, cartridge_roml_present := True\<rparr>
                 in if cartridge_mode bus = C64_CARTRIDGE_MODE_16K
                    then bus\<lparr>cartridge_romh := src, cartridge_romh_present := True, cartridge_exrom := 0, cartridge_game := 0\<rparr>
                    else bus\<lparr>cartridge_romh := replicate C64_CARTRIDGE_ROM_BANK_SIZE 0, cartridge_romh_present := False,
                           cartridge_exrom := 0, cartridge_game := 1, cartridge_mode := C64_CARTRIDGE_MODE_8K\<rparr>)))"

definition c64_bus_apply_banked_8k_rom :: "u8 \<Rightarrow> ('v, 's, 'l) c64_bus_t \<Rightarrow> ('v, 's, 'l) c64_bus_t" where
  "c64_bus_apply_banked_8k_rom bank bus =
     c64_bus_copy_roml_bank bank
       (bus\<lparr>cartridge_exrom := 0, cartridge_game := 1, cartridge_mode := C64_CARTRIDGE_MODE_8K\<rparr>)"

definition c64_bus_c64gs_apply_latch :: "('v, 's, 'l) c64_bus_t \<Rightarrow> ('v, 's, 'l) c64_bus_t" where
  "c64_bus_c64gs_apply_latch bus = c64_bus_apply_banked_8k_rom (cartridge_io_latch bus AND 0x3F) bus"

definition c64_bus_dinamic_apply_latch :: "('v, 's, 'l) c64_bus_t \<Rightarrow> ('v, 's, 'l) c64_bus_t" where
  "c64_bus_dinamic_apply_latch bus = c64_bus_apply_banked_8k_rom (cartridge_io_latch bus AND 0x0F) bus"

definition funplay_bank :: "u8 \<Rightarrow> u8" where
  "funplay_bank v = (drop_bit 3 v AND 7) OR push_bit 3 (v AND 1)"

definition c64_bus_funplay_apply_latch :: "('v, 's, 'l) c64_bus_t \<Rightarrow> ('v, 's, 'l) c64_bus_t" where
  "c64_bus_funplay_apply_latch bus =
     (let v = cartridge_io_latch bus; bus = c64_bus_copy_roml_bank (funplay_bank v) bus
      in if v AND 0xC6 = 0x00
         then bus\<lparr>cartridge_exrom := 0, cartridge_game := 1, cartridge_mode := C64_CARTRIDGE_MODE_8K\<rparr>
         else if v AND 0xC6 = 0x86
         then bus\<lparr>cartridge_exrom := 1, cartridge_game := 1, cartridge_mode := C64_CARTRIDGE_MODE_NONE\<rparr>
         else bus)"

definition c64_bus_super_games_apply_latch :: "('v, 's, 'l) c64_bus_t \<Rightarrow> ('v, 's, 'l) c64_bus_t" where
  "c64_bus_super_games_apply_latch bus =
     (let v = cartridge_io_latch bus; bank = v AND 0x03; enabled = (drop_bit 2 v AND 1 = 0);
          roml_slot = unat bank * 2; romh_slot = roml_slot + 1;
          bus = (case cartridge_rom_banks bus of
                   Some banks \<Rightarrow>
                     (if romh_slot < unat (cartridge_bank_count bus)
                      then bus\<lparr>cartridge_roml := bank_bytes banks roml_slot, cartridge_romh := bank_bytes banks romh_slot,
                             cartridge_roml_present := True, cartridge_romh_present := True\<rparr>
                      else bus)
                 | None \<Rightarrow> bus)
      in if enabled
         then bus\<lparr>cartridge_exrom := 0, cartridge_game := 0, cartridge_mode := C64_CARTRIDGE_MODE_16K\<rparr>
         else bus\<lparr>cartridge_exrom := 1, cartridge_game := 1, cartridge_mode := C64_CARTRIDGE_MODE_NONE\<rparr>)"

definition c64_bus_free_cartridge_banks :: "('v, 's, 'l) c64_bus_t \<Rightarrow> ('v, 's, 'l) c64_bus_t" where
  "c64_bus_free_cartridge_banks bus =
     bus\<lparr>cartridge_rom_banks := None, cartridge_bank_count := 0, cartridge_bank_mask := 0, cartridge_io_latch := 0,
       cartridge_hardware_type := C64_CARTRIDGE_HW_NORMAL\<rparr>"

text \<open>The chain of mapper tests that a reset, with the latch cleared, and a new banking share.\<close>

definition apply_mapper :: "('v, 's, 'l) c64_bus_t \<Rightarrow> ('v, 's, 'l) c64_bus_t option" where
  "apply_mapper bus =
     (let hw = cartridge_hardware_type bus
      in if hw = C64_CARTRIDGE_HW_MAGIC_DESK then Some (c64_bus_magic_desk_apply_latch bus)
         else if hw = C64_CARTRIDGE_HW_OCEAN then Some (c64_bus_ocean_apply_latch bus)
         else if hw = C64_CARTRIDGE_HW_C64GS then Some (c64_bus_c64gs_apply_latch bus)
         else if hw = C64_CARTRIDGE_HW_FUNPLAY then Some (c64_bus_funplay_apply_latch bus)
         else if hw = C64_CARTRIDGE_HW_DINAMIC then Some (c64_bus_dinamic_apply_latch bus)
         else if hw = C64_CARTRIDGE_HW_SUPER_GAMES then Some (c64_bus_super_games_apply_latch bus)
         else None)"

definition c64_bus_cartridge_reset :: "('v, 's, 'l) c64_bus_t \<Rightarrow> ('v, 's, 'l) c64_bus_t" where
  "c64_bus_cartridge_reset bus =
     (if \<not> cartridge_mounted bus then bus
      else case apply_mapper (bus\<lparr>cartridge_io_latch := 0\<rparr>) of Some b \<Rightarrow> b | None \<Rightarrow> bus)"

definition c64_bus_cartridge_apply_banking :: "('v, 's, 'l) c64_bus_t \<Rightarrow> ('v, 's, 'l) c64_bus_t" where
  "c64_bus_cartridge_apply_banking bus =
     (if \<not> cartridge_mounted bus then bus
      else case apply_mapper bus of
             Some b \<Rightarrow> b
           | None \<Rightarrow>
               (case cartridge_rom_banks bus of
                  Some banks \<Rightarrow>
                    (if 0 < cartridge_bank_count bus \<and> cartridge_roml_present bus
                     then bus\<lparr>cartridge_roml := bank_bytes banks 0\<rparr> else bus)
                | None \<Rightarrow> bus))"

definition c64_bus_cartridge_read :: "('v, 's, 'l) c64_bus_t \<Rightarrow> u16 \<Rightarrow> u8 option" where
  "c64_bus_cartridge_read bus address =
     (if \<not> cartridge_mounted bus then None
      else if 0x8000 \<le> address \<and> address \<le> 0x9FFF \<and> cartridge_roml_present bus \<and>
              (cartridge_mode bus = C64_CARTRIDGE_MODE_8K \<or> cartridge_mode bus = C64_CARTRIDGE_MODE_16K \<or>
               cartridge_mode bus = C64_CARTRIDGE_MODE_ULTIMAX)
      then if cartridge_mode bus \<noteq> C64_CARTRIDGE_MODE_ULTIMAX \<and> \<not> (c64_bus_loram_enabled bus \<and> c64_bus_hiram_enabled bus)
           then None
           else Some (cartridge_roml bus ! unat (address - 0x8000))
      else if 0xA000 \<le> address \<and> address \<le> 0xBFFF \<and> cartridge_romh_present bus \<and> cartridge_mode bus = C64_CARTRIDGE_MODE_16K
      then if \<not> c64_bus_hiram_enabled bus then None else Some (cartridge_romh bus ! unat (address - 0xA000))
      else if 0xE000 \<le> address \<and> cartridge_romh_present bus \<and> cartridge_mode bus = C64_CARTRIDGE_MODE_ULTIMAX
      then Some (cartridge_romh bus ! unat (address - 0xE000))
      else None)"

definition c64_cartridge_hw_claims_io1 :: "u16 \<Rightarrow> bool" where
  "c64_cartridge_hw_claims_io1 hardware_type \<longleftrightarrow>
     hardware_type = C64_CARTRIDGE_HW_OCEAN \<or> hardware_type = C64_CARTRIDGE_HW_FUNPLAY \<or>
     hardware_type = C64_CARTRIDGE_HW_C64GS \<or> hardware_type = C64_CARTRIDGE_HW_DINAMIC \<or>
     hardware_type = C64_CARTRIDGE_HW_MAGIC_DESK"

definition c64_cartridge_hw_claims_io2 :: "u16 \<Rightarrow> bool" where
  "c64_cartridge_hw_claims_io2 hardware_type \<longleftrightarrow> hardware_type = C64_CARTRIDGE_HW_SUPER_GAMES"

definition c64_cart_claims_io1 :: "('v, 's, 'l) c64_bus_t option \<Rightarrow> bool" where
  "c64_cart_claims_io1 bus =
     (case bus of None \<Rightarrow> False
      | Some b \<Rightarrow> if \<not> cartridge_mounted b then False else c64_cartridge_hw_claims_io1 (cartridge_hardware_type b))"

definition c64_cart_claims_io2 :: "('v, 's, 'l) c64_bus_t option \<Rightarrow> bool" where
  "c64_cart_claims_io2 bus =
     (case bus of None \<Rightarrow> False
      | Some b \<Rightarrow> if \<not> cartridge_mounted b then False else c64_cartridge_hw_claims_io2 (cartridge_hardware_type b))"

section \<open>Inputs and outputs\<close>

definition c64_bus_refresh_vic_bank_base :: "('v, 's, 'l) c64_bus_t \<Rightarrow> ('v, 's, 'l) c64_bus_t" where
  "c64_bus_refresh_vic_bank_base bus = bus\<lparr>vic_bank_base := c64_bus_compute_vic_bank_base bus\<rparr>"

definition io_read_cartridge :: "('v, 's, 'l) c64_bus_t \<Rightarrow> u16 \<Rightarrow> u8 \<times> ('v, 's, 'l) c64_bus_t" where
  "io_read_cartridge bus address =
     (if 0xDE00 \<le> address \<and> address \<le> 0xDEFF \<and> cartridge_mounted bus \<and>
         cartridge_hardware_type bus = C64_CARTRIDGE_HW_C64GS
      then (0, c64_bus_c64gs_apply_latch (bus\<lparr>cartridge_io_latch := ucast (address AND 0x3F)\<rparr>))
      else if 0xDE00 \<le> address \<and> address \<le> 0xDEFF \<and> cartridge_mounted bus \<and>
              cartridge_hardware_type bus = C64_CARTRIDGE_HW_DINAMIC
      then (let off = ucast (address AND 0xFF)
            in (0, if off \<le> 0x0F then c64_bus_dinamic_apply_latch (bus\<lparr>cartridge_io_latch := off\<rparr>) else bus))
      else (0xFF, bus))"

text \<open>The tests after the chips: the SwiftLink page and the banks that are latched by a read.\<close>

definition io_read_expansion :: "('v, 's, 'l) c64_chips \<Rightarrow> ('v, 's, 'l) c64_bus_t \<Rightarrow> u16 \<Rightarrow> u8 \<times> ('v, 's, 'l) c64_bus_t" where
  "io_read_expansion chips bus address =
     (case swiftlink bus of
        Some sl \<Rightarrow>
          if c64_swiftlink_owns chips sl address
          then (let (v, sl) = c64_swiftlink_read chips sl address in (v, bus\<lparr>swiftlink := Some sl\<rparr>))
          else io_read_cartridge bus address
      | None \<Rightarrow> io_read_cartridge bus address)"

definition c64_io_read :: "('v, 's, 'l) c64_chips \<Rightarrow> ('v, 's, 'l) c64_bus_t \<Rightarrow> u16 \<Rightarrow> u8 \<times> ('v, 's, 'l) c64_bus_t" where
  "c64_io_read chips bus address =
     (if 0xD000 \<le> address \<and> address \<le> 0xD3FF \<and> vic bus \<noteq> None
      then (let (v, x) = vicii_read_register chips (the (vic bus)) address in (v, bus\<lparr>vic := Some x\<rparr>))
      else if C64_SID_BASE \<le> address \<and> address \<le> C64_SID_END \<and> sid bus \<noteq> None
      then (let (v, x) = sid_read chips (the (sid bus)) address in (v, bus\<lparr>sid := Some x\<rparr>))
      else if C64_COLOR_RAM_BASE \<le> address \<and> address \<le> C64_COLOR_RAM_END
      then (color_ram bus ! unat (address - C64_COLOR_RAM_BASE) AND 0x0F, bus)
      else if C64_CIA1_BASE \<le> address \<and> address \<le> C64_CIA1_END \<and> cia1 bus \<noteq> None
      then (let (v, x) = cia_read_register (the (cia1 bus)) address in (v, bus\<lparr>cia1 := Some x\<rparr>))
      else if C64_CIA2_BASE \<le> address \<and> address \<le> C64_CIA2_END \<and> cia2 bus \<noteq> None
      then (let (v, x) = cia_read_register (the (cia2 bus)) address in (v, bus\<lparr>cia2 := Some x\<rparr>))
      else io_read_expansion chips bus address)"

definition io_write_cartridge :: "u16 \<Rightarrow> u8 \<Rightarrow> ('v, 's, 'l) c64_bus_t \<Rightarrow> ('v, 's, 'l) c64_bus_t" where
  "io_write_cartridge address value bus =
     (let hw = cartridge_hardware_type bus
      in if 0xDE00 \<le> address \<and> address \<le> 0xDEFF \<and> cartridge_mounted bus then
           if hw = C64_CARTRIDGE_HW_MAGIC_DESK then c64_bus_magic_desk_apply_latch (bus\<lparr>cartridge_io_latch := value\<rparr>)
           else if hw = C64_CARTRIDGE_HW_OCEAN then c64_bus_ocean_apply_latch (bus\<lparr>cartridge_io_latch := value\<rparr>)
           else if hw = C64_CARTRIDGE_HW_C64GS
           then c64_bus_c64gs_apply_latch (bus\<lparr>cartridge_io_latch := ucast (address AND 0x3F)\<rparr>)
           else if hw = C64_CARTRIDGE_HW_FUNPLAY then c64_bus_funplay_apply_latch (bus\<lparr>cartridge_io_latch := value\<rparr>)
           else bus
         else if 0xDF00 \<le> address \<and> address \<le> 0xDFFF \<and> cartridge_mounted bus then
           if hw = C64_CARTRIDGE_HW_SUPER_GAMES \<and> cartridge_io_latch bus AND 0x08 = 0
           then c64_bus_super_games_apply_latch (bus\<lparr>cartridge_io_latch := value\<rparr>) else bus
         else bus)"

definition io_write_expansion :: "('v, 's, 'l) c64_chips \<Rightarrow> u16 \<Rightarrow> u8 \<Rightarrow> ('v, 's, 'l) c64_bus_t \<Rightarrow> ('v, 's, 'l) c64_bus_t" where
  "io_write_expansion chips address value bus =
     (case swiftlink bus of
        Some sl \<Rightarrow>
          if c64_swiftlink_owns chips sl address
          then bus\<lparr>swiftlink := Some (c64_swiftlink_write chips sl address value)\<rparr>
          else io_write_cartridge address value bus
      | None \<Rightarrow> io_write_cartridge address value bus)"

definition c64_io_write :: "('v, 's, 'l) c64_chips \<Rightarrow> u16 \<Rightarrow> u8 \<Rightarrow> ('v, 's, 'l) c64_bus_t \<Rightarrow> ('v, 's, 'l) c64_bus_t" where
  "c64_io_write chips address value bus =
     (if address = 0xD7FF \<and> debugcart_enabled bus then bus\<lparr>debugcart_hit := True, debugcart_value := value\<rparr>
      else if 0xD000 \<le> address \<and> address \<le> 0xD3FF \<and> vic bus \<noteq> None
      then bus\<lparr>vic := Some (vicii_write_register chips (the (vic bus)) address value),
             vic_register_writes := vic_register_writes bus + 1\<rparr>
      else if C64_SID_BASE \<le> address \<and> address \<le> C64_SID_END \<and> sid bus \<noteq> None
      then bus\<lparr>sid := Some (sid_write chips (the (sid bus)) address value), sid_register_writes := sid_register_writes bus + 1\<rparr>
      else if C64_COLOR_RAM_BASE \<le> address \<and> address \<le> C64_COLOR_RAM_END
      then bus\<lparr>color_ram := (color_ram bus)[unat (address - C64_COLOR_RAM_BASE) := value AND 0x0F],
             color_ram_writes := color_ram_writes bus + 1\<rparr>
      else if C64_CIA1_BASE \<le> address \<and> address \<le> C64_CIA1_END \<and> cia1 bus \<noteq> None
      then bus\<lparr>cia1 := Some (cia_write_register address value (the (cia1 bus))),
             cia1_register_writes := cia1_register_writes bus + 1\<rparr>
      else if C64_CIA2_BASE \<le> address \<and> address \<le> C64_CIA2_END \<and> cia2 bus \<noteq> None
      then (let reg = ucast (address AND 0x0F); bus = bus\<lparr>cia2 := Some (cia_write_register address value (the (cia2 bus)))\<rparr>;
                bus = (if reg = C64_CIA_REG_PORT_A \<or> reg = C64_CIA_REG_DDRA then c64_bus_refresh_vic_bank_base bus else bus)
            in bus\<lparr>cia2_register_writes := cia2_register_writes bus + 1\<rparr>)
      else io_write_expansion chips address value bus)"

section \<open>Reading and writing\<close>

definition c64_bus_read :: "('v, 's, 'l) c64_chips \<Rightarrow> ('v, 's, 'l) c64_bus_t \<Rightarrow> u16 \<Rightarrow> u8 \<times> ('v, 's, 'l) c64_bus_t" where
  "c64_bus_read chips bus address =
     (if address \<le> C64_CPU_PORT_DATA then (c64_bus_cpu_port_read bus address, bus)
      else case c64_bus_cartridge_read bus address of
             Some cartridge_value \<Rightarrow> (cartridge_value, bus)
           | None \<Rightarrow>
               (if 0xA000 \<le> address \<and> address \<le> 0xBFFF \<and> c64_bus_basic_visible bus
                then (basic_rom bus ! unat (address - 0xA000), bus)
                else if 0xD000 \<le> address \<and> address \<le> 0xDFFF \<and> c64_bus_io_visible bus then c64_io_read chips bus address
                else if 0xD000 \<le> address \<and> address \<le> 0xDFFF \<and> c64_bus_char_visible bus
                then (char_rom bus ! unat (address - 0xD000), bus)
                else if 0xE000 \<le> address \<and> c64_bus_kernal_visible bus then (kernal_rom bus ! unat (address - 0xE000), bus)
                else (ram bus address, bus)))"

definition c64_bus_write :: "('v, 's, 'l) c64_chips \<Rightarrow> ('v, 's, 'l) c64_bus_t \<Rightarrow> u16 \<Rightarrow> u8 \<Rightarrow> ('v, 's, 'l) c64_bus_t" where
  "c64_bus_write chips bus address value =
     (if address = C64_CPU_PORT_DIRECTION then bus\<lparr>cpu_port_direction := value\<rparr>
      else if address = C64_CPU_PORT_DATA then bus\<lparr>cpu_port_data := value\<rparr>
      else if 0xD000 \<le> address \<and> address \<le> 0xDFFF \<and> c64_bus_io_visible bus then c64_io_write chips address value bus
      else
        (let bus = bus\<lparr>ram := (ram bus)(address := value)\<rparr>
         in if C64_DEFAULT_SCREEN_BASE \<le> address \<and> address < C64_DEFAULT_SCREEN_BASE + 1000
            then bus\<lparr>screen_ram_writes := screen_ram_writes bus + 1\<rparr> else bus))"

text \<open>The accessors of the video chip, from the header.\<close>

definition c64_bus_vic_read_ram :: "('v, 's, 'l) c64_bus_t \<Rightarrow> u16 \<Rightarrow> u8" where
  "c64_bus_vic_read_ram bus address = ram bus address"

definition c64_bus_vic_read_screen :: "('v, 's, 'l) c64_bus_t \<Rightarrow> u16 \<Rightarrow> u8" where
  "c64_bus_vic_read_screen bus off = ram bus (0x0400 + off mod 1000)"

definition c64_bus_vic_read_color :: "('v, 's, 'l) c64_bus_t \<Rightarrow> u16 \<Rightarrow> u8" where
  "c64_bus_vic_read_color bus off = color_ram bus ! (unat off mod C64_COLOR_RAM_SIZE) AND 0x0F"

definition c64_bus_vic_read_char_glyph :: "('v, 's, 'l) c64_bus_t \<Rightarrow> u8 \<Rightarrow> u8 \<Rightarrow> u8" where
  "c64_bus_vic_read_char_glyph bus character_code glyph_row =
     char_rom bus ! (unat character_code * 8 + unat (glyph_row AND 0x07))"

definition c64_bus_vic_read_char_glyph_at :: "('v, 's, 'l) c64_bus_t \<Rightarrow> u16 \<Rightarrow> u8 \<Rightarrow> u8 \<Rightarrow> u8" where
  "c64_bus_vic_read_char_glyph_at bus character_base character_code glyph_row =
     (let full_addr = character_base + ucast character_code * 8 + ucast (glyph_row AND 0x07)
      in if full_addr AND 0xF000 = 0x1000 \<or> full_addr AND 0xF000 = 0x9000
         then char_rom bus ! unat (full_addr AND 0x0FFF)
         else ram bus full_addr)"

definition c64_bus_vic_bank_base :: "('v, 's, 'l) c64_bus_t \<Rightarrow> u16" where
  "c64_bus_vic_bank_base bus = vic_bank_base bus"

section \<open>Lifecycle\<close>

definition c64_bus_reset :: "('v, 's, 'l) c64_bus_t \<Rightarrow> ('v, 's, 'l) c64_bus_t" where
  "c64_bus_reset bus =
     (let bus = bus\<lparr>ram := (\<lambda>_. 0), color_ram := replicate C64_COLOR_RAM_SIZE 0, cpu_port_direction := 0x2F,
            cpu_port_data := 0x37, screen_ram_writes := 0, color_ram_writes := 0, vic_register_writes := 0,
            cia1_register_writes := 0, cia2_register_writes := 0, sid_register_writes := 0\<rparr>
      in c64_bus_cartridge_reset (c64_bus_refresh_vic_bank_base bus))"

text \<open>The result of \<^verbatim>\<open>memset\<close>.\<close>

definition zero_bus :: "('v, 's, 'l) c64_bus_t" where
  "zero_bus =
     \<lparr>ram = (\<lambda>_. 0), color_ram = replicate C64_COLOR_RAM_SIZE 0, basic_rom = replicate C64_BASIC_ROM_SIZE 0,
      char_rom = replicate C64_CHAR_ROM_SIZE 0, kernal_rom = replicate C64_KERNAL_ROM_SIZE 0,
      cartridge_roml = replicate C64_CARTRIDGE_ROM_BANK_SIZE 0, cartridge_romh = replicate C64_CARTRIDGE_ROM_BANK_SIZE 0,
      cartridge_rom_banks = None, cartridge_bank_count = 0, cartridge_bank_mask = 0, cartridge_io_latch = 0,
      cartridge_hardware_type = 0, vic = None, cia1 = None, cia2 = None, sid = None, swiftlink = None,
      cpu_port_direction = 0, cpu_port_data = 0, screen_ram_writes = 0, color_ram_writes = 0, vic_register_writes = 0,
      cia1_register_writes = 0, cia2_register_writes = 0, sid_register_writes = 0, vic_bank_base = 0,
      cartridge_mounted = False, cartridge_roml_present = False, cartridge_romh_present = False, cartridge_exrom = 0,
      cartridge_game = 0, cartridge_mode = C64_CARTRIDGE_MODE_NONE, debugcart_enabled = False, debugcart_hit = False,
      debugcart_value = 0, cpu_open_bus_pc = 0\<rparr>"

definition c64_bus_init :: "('v, 's, 'l) c64_bus_t" where
  "c64_bus_init = c64_bus_reset zero_bus"

definition c64_bus_attach_vicii :: "'v option \<Rightarrow> ('v, 's, 'l) c64_bus_t \<Rightarrow> ('v, 's, 'l) c64_bus_t" where
  "c64_bus_attach_vicii v bus = bus\<lparr>vic := v\<rparr>"

definition c64_bus_attach_cias :: "cia option \<Rightarrow> cia option \<Rightarrow> ('v, 's, 'l) c64_bus_t \<Rightarrow> ('v, 's, 'l) c64_bus_t" where
  "c64_bus_attach_cias c1 c2 bus = c64_bus_refresh_vic_bank_base (bus\<lparr>cia1 := c1, cia2 := c2\<rparr>)"

definition c64_bus_attach_sid :: "'s option \<Rightarrow> ('v, 's, 'l) c64_bus_t \<Rightarrow> ('v, 's, 'l) c64_bus_t" where
  "c64_bus_attach_sid s bus = bus\<lparr>sid := s\<rparr>"

definition c64_bus_attach_swiftlink :: "'l option \<Rightarrow> ('v, 's, 'l) c64_bus_t \<Rightarrow> ('v, 's, 'l) c64_bus_t" where
  "c64_bus_attach_swiftlink sl bus = bus\<lparr>swiftlink := sl\<rparr>"

definition c64_bus_set_basic_rom :: "u8 list option \<Rightarrow> ('v, 's, 'l) c64_bus_t \<Rightarrow> bool \<times> ('v, 's, 'l) c64_bus_t" where
  "c64_bus_set_basic_rom data bus =
     (case data of
        None \<Rightarrow> (False, bus)
      | Some d \<Rightarrow> if length d \<noteq> C64_BASIC_ROM_SIZE then (False, bus) else (True, bus\<lparr>basic_rom := d\<rparr>))"

definition c64_bus_set_char_rom :: "u8 list option \<Rightarrow> ('v, 's, 'l) c64_bus_t \<Rightarrow> bool \<times> ('v, 's, 'l) c64_bus_t" where
  "c64_bus_set_char_rom data bus =
     (case data of
        None \<Rightarrow> (False, bus)
      | Some d \<Rightarrow> if length d \<noteq> C64_CHAR_ROM_SIZE then (False, bus) else (True, bus\<lparr>char_rom := d\<rparr>))"

definition c64_bus_set_kernal_rom :: "u8 list option \<Rightarrow> ('v, 's, 'l) c64_bus_t \<Rightarrow> bool \<times> ('v, 's, 'l) c64_bus_t" where
  "c64_bus_set_kernal_rom data bus =
     (case data of
        None \<Rightarrow> (False, bus)
      | Some d \<Rightarrow> if length d \<noteq> C64_KERNAL_ROM_SIZE then (False, bus) else (True, bus\<lparr>kernal_rom := d\<rparr>))"

definition c64_bus_set_system_rom :: "u8 list option \<Rightarrow> ('v, 's, 'l) c64_bus_t \<Rightarrow> bool \<times> ('v, 's, 'l) c64_bus_t" where
  "c64_bus_set_system_rom data bus =
     (case data of
        None \<Rightarrow> (False, bus)
      | Some d \<Rightarrow>
          if length d \<noteq> C64_BASIC_ROM_SIZE + C64_KERNAL_ROM_SIZE then (False, bus)
          else (True, bus\<lparr>basic_rom := take C64_BASIC_ROM_SIZE d, kernal_rom := drop C64_BASIC_ROM_SIZE d\<rparr>))"

section \<open>Mounting cartridges\<close>

text \<open>The pointer of the caller leads to at least the bytes that are copied.\<close>

definition c64_bus_detach_cartridge :: "('v, 's, 'l) c64_bus_t \<Rightarrow> ('v, 's, 'l) c64_bus_t" where
  "c64_bus_detach_cartridge bus =
     (c64_bus_free_cartridge_banks bus)\<lparr>
       cartridge_roml := replicate C64_CARTRIDGE_ROM_BANK_SIZE 0, cartridge_romh := replicate C64_CARTRIDGE_ROM_BANK_SIZE 0,
       cartridge_mounted := False, cartridge_roml_present := False, cartridge_romh_present := False,
       cartridge_exrom := 1, cartridge_game := 1, cartridge_mode := C64_CARTRIDGE_MODE_NONE\<rparr>"

definition c64_bus_attach_generic_cartridge ::
  "bool \<Rightarrow> u8 list option \<Rightarrow> nat \<Rightarrow> u8 list option \<Rightarrow> nat \<Rightarrow> u8 \<Rightarrow> u8 \<Rightarrow> ('v, 's, 'l) c64_bus_t \<Rightarrow>
   bool \<times> ('v, 's, 'l) c64_bus_t" where
  "c64_bus_attach_generic_cartridge mem roml roml_size romh romh_size exrom game bus =
     (let mode = c64_bus_cartridge_mode_from_lines exrom game
      in if mode = C64_CARTRIDGE_MODE_NONE \<or> mode = C64_CARTRIDGE_MODE_ULTIMAX then (False, bus)
         else if roml = None \<or> roml_size \<noteq> C64_CARTRIDGE_ROM_BANK_SIZE then (False, bus)
         else if mode = C64_CARTRIDGE_MODE_16K \<and> (romh = None \<or> romh_size \<noteq> C64_CARTRIDGE_ROM_BANK_SIZE) then (False, bus)
         else if mode = C64_CARTRIDGE_MODE_8K \<and> romh_size \<noteq> 0 then (False, bus)
         else if \<not> mem then (False, bus)
         else
           (let banks = take C64_CARTRIDGE_ROM_BANK_SIZE (the roml);
                bus = (c64_bus_detach_cartridge bus)\<lparr>cartridge_rom_banks := Some banks, cartridge_bank_count := 1,
                  cartridge_bank_mask := 0, cartridge_io_latch := 0, cartridge_hardware_type := C64_CARTRIDGE_HW_NORMAL,
                  cartridge_roml := banks, cartridge_roml_present := True\<rparr>;
                bus = (if mode = C64_CARTRIDGE_MODE_16K
                       then bus\<lparr>cartridge_romh := take C64_CARTRIDGE_ROM_BANK_SIZE (the romh), cartridge_romh_present := True\<rparr>
                       else bus\<lparr>cartridge_romh := replicate C64_CARTRIDGE_ROM_BANK_SIZE 0, cartridge_romh_present := False\<rparr>)
            in (True, bus\<lparr>cartridge_exrom := exrom, cartridge_game := game, cartridge_mode := mode, cartridge_mounted := True\<rparr>)))"

definition c64_bus_attach_magic_desk_cartridge ::
  "bool \<Rightarrow> u8 list option \<Rightarrow> nat \<Rightarrow> u8 \<Rightarrow> u8 \<Rightarrow> ('v, 's, 'l) c64_bus_t \<Rightarrow> bool \<times> ('v, 's, 'l) c64_bus_t" where
  "c64_bus_attach_magic_desk_cartridge mem banks bank_count exrom game bus =
     (if banks = None \<or> bank_count = 0 \<or> C64_CARTRIDGE_MAX_BANKS < bank_count then (False, bus)
      else if exrom \<noteq> 0 \<or> game = 0 then (False, bus)
      else if \<not> mem then (False, bus)
      else
        (let storage = take (bank_count * C64_CARTRIDGE_ROM_BANK_SIZE) (the banks); last_bank = bank_count - 1;
             bus = (c64_bus_detach_cartridge bus)\<lparr>cartridge_rom_banks := Some storage,
               cartridge_bank_count := word_of_nat bank_count, cartridge_bank_mask := c64_bus_magic_desk_bank_mask last_bank,
               cartridge_hardware_type := C64_CARTRIDGE_HW_MAGIC_DESK, cartridge_romh_present := False,
               cartridge_romh := replicate C64_CARTRIDGE_ROM_BANK_SIZE 0, cartridge_mounted := True, cartridge_io_latch := 0\<rparr>
         in (True, c64_bus_magic_desk_apply_latch bus)))"

definition c64_bus_attach_ocean_cartridge ::
  "bool \<Rightarrow> u8 list option \<Rightarrow> nat \<Rightarrow> u8 \<Rightarrow> u8 \<Rightarrow> ('v, 's, 'l) c64_bus_t \<Rightarrow> bool \<times> ('v, 's, 'l) c64_bus_t" where
  "c64_bus_attach_ocean_cartridge mem banks bank_count exrom game bus =
     (if banks = None \<or> bank_count = 0 \<or> C64_CARTRIDGE_OCEAN_MAX_BANKS < bank_count then (False, bus)
      else if exrom \<noteq> 0 then (False, bus)
      else if \<not> mem then (False, bus)
      else
        (let rom_size = bank_count * C64_CARTRIDGE_ROM_BANK_SIZE; storage = take rom_size (the banks);
             mode_16k = (rom_size \<noteq> 0x80000);
             bus = (c64_bus_detach_cartridge bus)\<lparr>cartridge_rom_banks := Some storage,
               cartridge_bank_count := word_of_nat bank_count,
               cartridge_bank_mask := word_of_nat (drop_bit 13 rom_size - 1), cartridge_hardware_type := C64_CARTRIDGE_HW_OCEAN,
               cartridge_mode := (if mode_16k then C64_CARTRIDGE_MODE_16K else C64_CARTRIDGE_MODE_8K),
               cartridge_mounted := True, cartridge_io_latch := 0\<rparr>
         in (True, c64_bus_ocean_apply_latch bus)))"

definition c64_bus_attach_banked_8k ::
  "bool \<Rightarrow> u8 list option \<Rightarrow> nat \<Rightarrow> nat \<Rightarrow> u16 \<Rightarrow> u8 \<Rightarrow> ('v, 's, 'l) c64_bus_t \<Rightarrow> bool \<times> ('v, 's, 'l) c64_bus_t" where
  "c64_bus_attach_banked_8k mem banks bank_count max_banks hardware_type bank_mask bus =
     (if banks = None \<or> bank_count = 0 \<or> max_banks < bank_count then (False, bus)
      else if \<not> mem then (False, bus)
      else
        (True, (c64_bus_detach_cartridge bus)\<lparr>
           cartridge_rom_banks := Some (take (bank_count * C64_CARTRIDGE_ROM_BANK_SIZE) (the banks)),
           cartridge_bank_count := word_of_nat bank_count, cartridge_bank_mask := bank_mask,
           cartridge_hardware_type := hardware_type, cartridge_romh_present := False,
           cartridge_romh := replicate C64_CARTRIDGE_ROM_BANK_SIZE 0, cartridge_mounted := True, cartridge_io_latch := 0\<rparr>))"

definition c64_bus_attach_c64gs_cartridge ::
  "bool \<Rightarrow> u8 list option \<Rightarrow> nat \<Rightarrow> u8 \<Rightarrow> u8 \<Rightarrow> ('v, 's, 'l) c64_bus_t \<Rightarrow> bool \<times> ('v, 's, 'l) c64_bus_t" where
  "c64_bus_attach_c64gs_cartridge mem banks bank_count exrom game bus =
     (let (ok, bus) = c64_bus_attach_banked_8k mem banks bank_count C64_CARTRIDGE_OCEAN_MAX_BANKS C64_CARTRIDGE_HW_C64GS 0x3F bus
      in if \<not> ok then (False, bus) else (True, c64_bus_c64gs_apply_latch bus))"

definition c64_bus_attach_funplay_cartridge ::
  "bool \<Rightarrow> u8 list option \<Rightarrow> nat \<Rightarrow> u8 \<Rightarrow> u8 \<Rightarrow> ('v, 's, 'l) c64_bus_t \<Rightarrow> bool \<times> ('v, 's, 'l) c64_bus_t" where
  "c64_bus_attach_funplay_cartridge mem banks bank_count exrom game bus =
     (let (ok, bus) = c64_bus_attach_banked_8k mem banks bank_count 16 C64_CARTRIDGE_HW_FUNPLAY 0x0F bus
      in if \<not> ok then (False, bus) else (True, c64_bus_funplay_apply_latch bus))"

definition c64_bus_attach_dinamic_cartridge ::
  "bool \<Rightarrow> u8 list option \<Rightarrow> nat \<Rightarrow> u8 \<Rightarrow> u8 \<Rightarrow> ('v, 's, 'l) c64_bus_t \<Rightarrow> bool \<times> ('v, 's, 'l) c64_bus_t" where
  "c64_bus_attach_dinamic_cartridge mem banks bank_count exrom game bus =
     (let (ok, bus) = c64_bus_attach_banked_8k mem banks bank_count 16 C64_CARTRIDGE_HW_DINAMIC 0x0F bus
      in if \<not> ok then (False, bus) else (True, c64_bus_dinamic_apply_latch bus))"

definition c64_bus_attach_super_games_cartridge ::
  "bool \<Rightarrow> u8 list option \<Rightarrow> nat \<Rightarrow> u8 \<Rightarrow> u8 \<Rightarrow> ('v, 's, 'l) c64_bus_t \<Rightarrow> bool \<times> ('v, 's, 'l) c64_bus_t" where
  "c64_bus_attach_super_games_cartridge mem slots slot_count exrom game bus =
     (if slots = None \<or> slot_count = 0 \<or> 8 < slot_count \<or> odd slot_count then (False, bus)
      else if \<not> mem then (False, bus)
      else
        (let bus = (c64_bus_detach_cartridge bus)\<lparr>
               cartridge_rom_banks := Some (take (slot_count * C64_CARTRIDGE_ROM_BANK_SIZE) (the slots)),
               cartridge_bank_count := word_of_nat slot_count, cartridge_bank_mask := 0x03,
               cartridge_hardware_type := C64_CARTRIDGE_HW_SUPER_GAMES, cartridge_mounted := True, cartridge_io_latch := 0\<rparr>
         in (True, c64_bus_super_games_apply_latch bus)))"

end
