(* ===== verification/C64_Banks.thy ===== *)
theory C64_Banks
  imports C64_Bus C6510_Stack
begin

text \<open>
  What the processor of a C64 finds behind the cartridge port and under the ROMs. \<open>bus_reachable\<close> has the buses
  that any sequence of accesses, resets and changes of cartridges leads to. On each of them the window of a mounted
  cartridge shows the bank that its mapper has latched, which lies inside the storage (\<open>cart_ok\<close>), and a write
  under a ROM reaches the RAM below it.
\<close>

section \<open>Definitions\<close>

text \<open>The bank a mapper selects. A Super Games cartridge with fewer than eight slots keeps its pair of banks when
  one that it does not have is latched.\<close>

definition bank_of :: "u16 \<Rightarrow> u8 \<Rightarrow> u8 \<Rightarrow> nat \<Rightarrow> nat \<Rightarrow> bool" where
  "bank_of hw reg msk n k \<longleftrightarrow>
     (if hw = C64_CARTRIDGE_HW_MAGIC_DESK then k = unat (reg AND msk) mod n
      else if hw = C64_CARTRIDGE_HW_OCEAN then k = unat (reg AND msk AND 0x3F) mod n
      else if hw = C64_CARTRIDGE_HW_C64GS then k = unat (reg AND 0x3F) mod n
      else if hw = C64_CARTRIDGE_HW_FUNPLAY then k = unat (funplay_bank reg) mod n
      else if hw = C64_CARTRIDGE_HW_DINAMIC then k = unat (reg AND 0x0F) mod n
      else if hw = C64_CARTRIDGE_HW_SUPER_GAMES
      then even k \<and> k + 1 < n \<and> (unat (reg AND 3) * 2 + 1 < n \<longrightarrow> k = unat (reg AND 3) * 2)
      else k = 0)"

definition bank_selected :: "('v, 's, 'l) c64_bus_t \<Rightarrow> nat \<Rightarrow> bool" where
  "bank_selected bus k \<longleftrightarrow>
     bank_of (cartridge_hardware_type bus) (cartridge_io_latch bus) (cartridge_bank_mask bus)
       (unat (cartridge_bank_count bus)) k"

definition storage_ok :: "('v, 's, 'l) c64_bus_t \<Rightarrow> bool" where
  "storage_ok bus \<longleftrightarrow>
     cartridge_rom_banks bus \<noteq> None \<and>
     length (the (cartridge_rom_banks bus)) = unat (cartridge_bank_count bus) * C64_CARTRIDGE_ROM_BANK_SIZE \<and>
     0 < unat (cartridge_bank_count bus) \<and> unat (cartridge_bank_count bus) \<le> C64_CARTRIDGE_MAX_BANKS"

text \<open>Bank \<open>k\<close> is in the window, and with it what the upper window of a 16K game shows.\<close>

definition window_shows :: "('v, 's, 'l) c64_bus_t \<Rightarrow> nat \<Rightarrow> bool" where
  "window_shows bus k \<longleftrightarrow>
     k < unat (cartridge_bank_count bus) \<and> cartridge_roml_present bus \<and>
     cartridge_roml bus = bank_bytes (the (cartridge_rom_banks bus)) k \<and>
     (cartridge_hardware_type bus = C64_CARTRIDGE_HW_SUPER_GAMES \<longrightarrow>
        even k \<and> k + 1 < unat (cartridge_bank_count bus) \<and>
        cartridge_romh_present bus \<and> cartridge_romh bus = bank_bytes (the (cartridge_rom_banks bus)) (k + 1)) \<and>
     (cartridge_hardware_type bus = C64_CARTRIDGE_HW_OCEAN \<longrightarrow> cartridge_mode bus = C64_CARTRIDGE_MODE_16K \<longrightarrow>
        cartridge_romh_present bus \<and> cartridge_romh bus = cartridge_roml bus)"

text \<open>Which cartridges can be 16K games; none is in Ultimax mode.\<close>

definition mode_ok :: "('v, 's, 'l) c64_bus_t \<Rightarrow> bool" where
  "mode_ok bus \<longleftrightarrow>
     cartridge_mode bus \<noteq> C64_CARTRIDGE_MODE_ULTIMAX \<and>
     (cartridge_mode bus = C64_CARTRIDGE_MODE_16K \<longrightarrow>
        cartridge_romh_present bus \<and> length (cartridge_romh bus) = C64_CARTRIDGE_ROM_BANK_SIZE \<and>
        cartridge_hardware_type bus \<noteq> C64_CARTRIDGE_HW_FUNPLAY)"

definition cart_ok :: "('v, 's, 'l) c64_bus_t \<Rightarrow> bool" where
  "cart_ok bus \<longleftrightarrow>
     (cartridge_mounted bus \<longrightarrow> storage_ok bus \<and> mode_ok bus \<and> (\<exists>k. bank_selected bus k \<and> window_shows bus k))"

section \<open>Banks\<close>

lemma bank_bytes_nth:
  assumes "length banks = n * C64_CARTRIDGE_ROM_BANK_SIZE" "k < n" "i < C64_CARTRIDGE_ROM_BANK_SIZE"
  shows "bank_bytes banks k ! i = banks ! (k * C64_CARTRIDGE_ROM_BANK_SIZE + i)"
    "k * C64_CARTRIDGE_ROM_BANK_SIZE + i < length banks"
proof -
  have "Suc k * C64_CARTRIDGE_ROM_BANK_SIZE \<le> n * C64_CARTRIDGE_ROM_BANK_SIZE" using assms(2) by (intro mult_le_mono1) simp
  then show "k * C64_CARTRIDGE_ROM_BANK_SIZE + i < length banks" using assms by simp
  then show "bank_bytes banks k ! i = banks ! (k * C64_CARTRIDGE_ROM_BANK_SIZE + i)"
    using assms(3) by (simp add: bank_bytes_def)
qed

lemma length_bank_bytes:
  assumes "length banks = n * C64_CARTRIDGE_ROM_BANK_SIZE" "k < n"
  shows "length (bank_bytes banks k) = C64_CARTRIDGE_ROM_BANK_SIZE"
proof -
  have "Suc k * C64_CARTRIDGE_ROM_BANK_SIZE \<le> n * C64_CARTRIDGE_ROM_BANK_SIZE" using assms(2) by (intro mult_le_mono1) simp
  then show ?thesis using assms by (simp add: bank_bytes_def)
qed

lemma storage_banks:
  assumes "storage_ok bus"
  obtains banks where "cartridge_rom_banks bus = Some banks"
    "length banks = unat (cartridge_bank_count bus) * C64_CARTRIDGE_ROM_BANK_SIZE" "0 < unat (cartridge_bank_count bus)"
    "cartridge_bank_count bus \<noteq> 0"
proof -
  have "cartridge_bank_count bus \<noteq> 0" using assms by (auto simp: storage_ok_def)
  then show thesis
    using assms that by (cases "cartridge_rom_banks bus") (simp_all add: storage_ok_def)
qed

lemma wrapped_bank_mod:
  assumes "storage_ok bus"
  shows "unat (wrapped_bank bus b) = unat b mod unat (cartridge_bank_count bus)"
proof -
  have n: "0 < unat (cartridge_bank_count bus)" "unat (cartridge_bank_count bus) \<le> 128"
    using assms by (simp_all add: storage_ok_def)
  then have u: "unat (ucast (cartridge_bank_count bus) :: u8) = unat (cartridge_bank_count bus)"
    by (simp add: unsigned_ucast_eq take_bit_eq_mod)
  show ?thesis
  proof (cases "unat b < unat (cartridge_bank_count bus)")
    case True
    then show ?thesis by (simp add: wrapped_bank_def word_le_nat_alt)
  next
    case False
    then show ?thesis using u by (simp add: wrapped_bank_def word_le_nat_alt unat_mod)
  qed
qed

text \<open>Copying a bank shows it, and leaves the rest of the cartridge alone.\<close>

lemma copy_roml_bank:
  assumes "storage_ok bus"
  shows "c64_bus_copy_roml_bank b bus = bus\<lparr>cartridge_roml := bank_bytes (the (cartridge_rom_banks bus))
    (unat b mod unat (cartridge_bank_count bus)), cartridge_roml_present := True\<rparr>"
  using wrapped_bank_mod [OF assms] assms by (auto simp: c64_bus_copy_roml_bank_def elim!: storage_banks)

lemma storage_ok_fields:
  "cartridge_rom_banks c = cartridge_rom_banks bus \<Longrightarrow> cartridge_bank_count c = cartridge_bank_count bus \<Longrightarrow>
    storage_ok c \<longleftrightarrow> storage_ok bus"
  by (simp add: storage_ok_def)

section \<open>The mappers\<close>

lemma magic_desk_ok:
  assumes "storage_ok bus" "cartridge_hardware_type bus = C64_CARTRIDGE_HW_MAGIC_DESK"
  shows "cart_ok (c64_bus_magic_desk_apply_latch bus)"
proof -
  let ?c = "bus\<lparr>cartridge_io_latch := cartridge_io_latch bus AND (0x80 OR cartridge_bank_mask bus)\<rparr>"
  define d where "d = (if cartridge_io_latch ?c AND 0x80 \<noteq> 0
    then ?c\<lparr>cartridge_mode := C64_CARTRIDGE_MODE_NONE, cartridge_exrom := 1, cartridge_game := 1\<rparr>
    else ?c\<lparr>cartridge_exrom := 0, cartridge_game := 1, cartridge_mode := C64_CARTRIDGE_MODE_8K\<rparr>)"
  have d: "cartridge_rom_banks d = cartridge_rom_banks bus" "cartridge_bank_count d = cartridge_bank_count bus"
    "cartridge_hardware_type d = C64_CARTRIDGE_HW_MAGIC_DESK" "cartridge_bank_mask d = cartridge_bank_mask bus"
    "cartridge_io_latch d = cartridge_io_latch ?c" "cartridge_mode d \<noteq> C64_CARTRIDGE_MODE_ULTIMAX"
    "cartridge_mode d \<noteq> C64_CARTRIDGE_MODE_16K"
    using assms(2) by (simp_all add: d_def)
  have "storage_ok d" using assms(1) storage_ok_fields [OF d(1,2)] by simp
  moreover have "c64_bus_magic_desk_apply_latch bus = c64_bus_copy_roml_bank (cartridge_io_latch ?c AND cartridge_bank_mask bus) d"
    by (simp add: c64_bus_magic_desk_apply_latch_def d_def Let_def)
  moreover have "0 < unat (cartridge_bank_count bus)" using assms(1) by (simp add: storage_ok_def)
  ultimately show ?thesis
    using d by (simp add: copy_roml_bank cart_ok_def mode_ok_def bank_selected_def bank_of_def window_shows_def storage_ok_def)
qed

text \<open>The mappers of 8K games with one register.\<close>

lemma shown_bank_ok:
  assumes "storage_ok bus" "cartridge_hardware_type bus = hw" "hw \<noteq> C64_CARTRIDGE_HW_SUPER_GAMES" "hw \<noteq> C64_CARTRIDGE_HW_OCEAN"
    "cartridge_mode bus \<noteq> C64_CARTRIDGE_MODE_ULTIMAX" "cartridge_mode bus \<noteq> C64_CARTRIDGE_MODE_16K"
    "bank_selected bus (unat b mod unat (cartridge_bank_count bus))"
  shows "cart_ok (c64_bus_copy_roml_bank b bus)"
proof -
  have n: "0 < unat (cartridge_bank_count bus)" using assms(1) by (simp add: storage_ok_def)
  let ?c = "bus\<lparr>cartridge_roml := bank_bytes (the (cartridge_rom_banks bus)) (unat b mod unat (cartridge_bank_count bus)),
    cartridge_roml_present := True\<rparr>"
  have "storage_ok ?c" using assms(1) by (simp add: storage_ok_def)
  moreover have "mode_ok ?c" using assms(5,6) by (simp add: mode_ok_def)
  moreover have "bank_selected ?c (unat b mod unat (cartridge_bank_count bus))"
    using assms(7) by (simp add: bank_selected_def)
  moreover have "window_shows ?c (unat b mod unat (cartridge_bank_count bus))"
    using assms(2-4) n by (simp add: window_shows_def)
  ultimately show ?thesis by (auto simp: copy_roml_bank [OF assms(1)] cart_ok_def)
qed

lemma banked_8k_ok:
  assumes "storage_ok bus" "cartridge_hardware_type bus = C64_CARTRIDGE_HW_C64GS"
  shows "cart_ok (c64_bus_c64gs_apply_latch bus)"
  unfolding c64_bus_c64gs_apply_latch_def c64_bus_apply_banked_8k_rom_def
  by (rule shown_bank_ok [where hw = C64_CARTRIDGE_HW_C64GS]) (use assms in \<open>simp_all add: storage_ok_def bank_selected_def bank_of_def\<close>)

lemma dinamic_ok:
  assumes "storage_ok bus" "cartridge_hardware_type bus = C64_CARTRIDGE_HW_DINAMIC"
  shows "cart_ok (c64_bus_dinamic_apply_latch bus)"
  unfolding c64_bus_dinamic_apply_latch_def c64_bus_apply_banked_8k_rom_def
  by (rule shown_bank_ok [where hw = C64_CARTRIDGE_HW_DINAMIC]) (use assms in \<open>simp_all add: storage_ok_def bank_selected_def bank_of_def\<close>)

lemma cart_ok_lines:
  assumes "cart_ok bus" "m \<noteq> C64_CARTRIDGE_MODE_ULTIMAX" "m \<noteq> C64_CARTRIDGE_MODE_16K"
  shows "cart_ok (bus\<lparr>cartridge_exrom := e, cartridge_game := g, cartridge_mode := m\<rparr>)"
  using assms by (auto simp: cart_ok_def storage_ok_def mode_ok_def bank_selected_def window_shows_def)

lemma funplay_ok:
  assumes "storage_ok bus" "cartridge_hardware_type bus = C64_CARTRIDGE_HW_FUNPLAY"
    "cartridge_mode bus \<noteq> C64_CARTRIDGE_MODE_ULTIMAX" "cartridge_mode bus \<noteq> C64_CARTRIDGE_MODE_16K"
  shows "cart_ok (c64_bus_funplay_apply_latch bus)"
proof -
  have "cart_ok (c64_bus_copy_roml_bank (funplay_bank (cartridge_io_latch bus)) bus)"
    by (rule shown_bank_ok [where hw = C64_CARTRIDGE_HW_FUNPLAY]) (use assms in \<open>simp_all add: bank_selected_def bank_of_def\<close>)
  then show ?thesis by (simp add: c64_bus_funplay_apply_latch_def cart_ok_lines Let_def)
qed

lemma ocean_ok:
  assumes "storage_ok bus" "cartridge_hardware_type bus = C64_CARTRIDGE_HW_OCEAN"
  shows "cart_ok (c64_bus_ocean_apply_latch bus)"
proof -
  obtain banks where b: "cartridge_rom_banks bus = Some banks"
    "length banks = unat (cartridge_bank_count bus) * C64_CARTRIDGE_ROM_BANK_SIZE" "0 < unat (cartridge_bank_count bus)"
    "cartridge_bank_count bus \<noteq> 0"
    using storage_banks [OF assms(1)] by blast
  let ?k = "unat (cartridge_io_latch bus AND cartridge_bank_mask bus AND 0x3F) mod unat (cartridge_bank_count bus)"
  have k: "?k < unat (cartridge_bank_count bus)" using b(3) by simp
  then have l: "length (bank_bytes banks ?k) = C64_CARTRIDGE_ROM_BANK_SIZE" by (rule length_bank_bytes [OF b(2)])
  show ?thesis
    using assms b(1,4) k l
    by (simp add: c64_bus_ocean_apply_latch_def wrapped_bank_mod [OF assms(1)] cart_ok_def storage_ok_def mode_ok_def
        bank_selected_def bank_of_def window_shows_def Let_def)
qed

text \<open>A Super Games cartridge shows a pair of banks already, or has the pair that is latched.\<close>

lemma super_games_ok:
  assumes "storage_ok bus" "cartridge_hardware_type bus = C64_CARTRIDGE_HW_SUPER_GAMES"
    "unat (cartridge_io_latch bus AND 3) * 2 + 1 < unat (cartridge_bank_count bus) \<or> (\<exists>k. window_shows bus k)"
  shows "cart_ok (c64_bus_super_games_apply_latch bus)"
proof -
  obtain banks where b: "cartridge_rom_banks bus = Some banks"
    "length banks = unat (cartridge_bank_count bus) * C64_CARTRIDGE_ROM_BANK_SIZE"
    using storage_banks [OF assms(1)] by blast
  define k where "k = unat (cartridge_io_latch bus AND 3) * 2"
  define c where "c = (if k + 1 < unat (cartridge_bank_count bus)
    then bus\<lparr>cartridge_roml := bank_bytes banks k, cartridge_romh := bank_bytes banks (k + 1),
      cartridge_roml_present := True, cartridge_romh_present := True\<rparr> else bus)"
  have "\<exists>j. window_shows c j \<and> (k + 1 < unat (cartridge_bank_count bus) \<longrightarrow> j = k)"
    using assms(2,3) b(1) by (auto simp: c_def k_def window_shows_def)
  then obtain j where j: "window_shows c j" "k + 1 < unat (cartridge_bank_count bus) \<longrightarrow> j = k" by blast
  have f: "cartridge_rom_banks c = Some banks" "cartridge_bank_count c = cartridge_bank_count bus"
    "cartridge_io_latch c = cartridge_io_latch bus" "cartridge_hardware_type c = C64_CARTRIDGE_HW_SUPER_GAMES"
    using assms(2) b(1) by (simp_all add: c_def)
  have "storage_ok c" using assms(1) storage_ok_fields [of c bus] f b(1) by simp
  moreover have l: "length (cartridge_romh c) = C64_CARTRIDGE_ROM_BANK_SIZE" "cartridge_romh_present c" "even j"
    "j + 1 < unat (cartridge_bank_count bus)"
    using j(1) f length_bank_bytes [OF b(2), of "j + 1"] by (auto simp: window_shows_def)
  moreover have "bank_selected c j" using l j(2) f by (simp add: bank_selected_def bank_of_def k_def)
  moreover have "c64_bus_super_games_apply_latch bus =
      (if drop_bit 2 (cartridge_io_latch bus) AND 1 = 0
       then c\<lparr>cartridge_exrom := 0, cartridge_game := 0, cartridge_mode := C64_CARTRIDGE_MODE_16K\<rparr>
       else c\<lparr>cartridge_exrom := 1, cartridge_game := 1, cartridge_mode := C64_CARTRIDGE_MODE_NONE\<rparr>)"
    using b(1) by (simp add: c64_bus_super_games_apply_latch_def c_def k_def Let_def)
  ultimately show ?thesis
    using j(1) f by (auto simp: cart_ok_def storage_ok_def mode_ok_def bank_selected_def window_shows_def)
qed

section \<open>Operations\<close>

lemma cart_ok_fields:
  assumes "cartridge_mounted c = cartridge_mounted bus" "cartridge_rom_banks c = cartridge_rom_banks bus"
    "cartridge_bank_count c = cartridge_bank_count bus" "cartridge_bank_mask c = cartridge_bank_mask bus"
    "cartridge_io_latch c = cartridge_io_latch bus" "cartridge_hardware_type c = cartridge_hardware_type bus"
    "cartridge_roml c = cartridge_roml bus" "cartridge_romh c = cartridge_romh bus"
    "cartridge_roml_present c = cartridge_roml_present bus" "cartridge_romh_present c = cartridge_romh_present bus"
    "cartridge_mode c = cartridge_mode bus"
  shows "cart_ok c \<longleftrightarrow> cart_ok bus"
  using assms by (simp add: cart_ok_def storage_ok_def mode_ok_def bank_selected_def window_shows_def)

text \<open>Latching any value in a mapper keeps the window right.\<close>

lemma latch_ok:
  assumes "cart_ok bus" "cartridge_mounted bus" "hw = cartridge_hardware_type bus"
  defines "c v \<equiv> bus\<lparr>cartridge_io_latch := v\<rparr>"
  shows "hw = C64_CARTRIDGE_HW_MAGIC_DESK \<Longrightarrow> cart_ok (c64_bus_magic_desk_apply_latch (c v))"
    "hw = C64_CARTRIDGE_HW_OCEAN \<Longrightarrow> cart_ok (c64_bus_ocean_apply_latch (c v))"
    "hw = C64_CARTRIDGE_HW_C64GS \<Longrightarrow> cart_ok (c64_bus_c64gs_apply_latch (c v))"
    "hw = C64_CARTRIDGE_HW_DINAMIC \<Longrightarrow> cart_ok (c64_bus_dinamic_apply_latch (c v))"
    "hw = C64_CARTRIDGE_HW_FUNPLAY \<Longrightarrow> cart_ok (c64_bus_funplay_apply_latch (c v))"
    "hw = C64_CARTRIDGE_HW_SUPER_GAMES \<Longrightarrow> cart_ok (c64_bus_super_games_apply_latch (c v))"
proof -
  have s: "storage_ok (c v)" "mode_ok (c v)" "\<exists>k. window_shows (c v) k" "cartridge_hardware_type (c v) = hw"
    using assms(1-3) by (auto simp: c_def cart_ok_def storage_ok_def mode_ok_def window_shows_def)
  show "hw = C64_CARTRIDGE_HW_MAGIC_DESK \<Longrightarrow> cart_ok (c64_bus_magic_desk_apply_latch (c v))"
    using s by (intro magic_desk_ok) simp_all
  show "hw = C64_CARTRIDGE_HW_OCEAN \<Longrightarrow> cart_ok (c64_bus_ocean_apply_latch (c v))"
    using s by (intro ocean_ok) simp_all
  show "hw = C64_CARTRIDGE_HW_C64GS \<Longrightarrow> cart_ok (c64_bus_c64gs_apply_latch (c v))"
    using s by (intro banked_8k_ok) simp_all
  show "hw = C64_CARTRIDGE_HW_DINAMIC \<Longrightarrow> cart_ok (c64_bus_dinamic_apply_latch (c v))"
    using s by (intro dinamic_ok) simp_all
  show "hw = C64_CARTRIDGE_HW_FUNPLAY \<Longrightarrow> cart_ok (c64_bus_funplay_apply_latch (c v))"
    using s by (intro funplay_ok) (auto simp: mode_ok_def)
  show "hw = C64_CARTRIDGE_HW_SUPER_GAMES \<Longrightarrow> cart_ok (c64_bus_super_games_apply_latch (c v))"
    using s by (intro super_games_ok) simp_all
qed

lemma mapper_ok:
  assumes "cart_ok bus" "cartridge_mounted bus" "apply_mapper (bus\<lparr>cartridge_io_latch := v\<rparr>) = Some b"
  shows "cart_ok b"
  using assms(3) latch_ok [OF assms(1,2) refl] by (auto simp: apply_mapper_def Let_def split: if_splits)

lemma reset_cart_ok:
  assumes "cart_ok bus"
  shows "cart_ok (c64_bus_cartridge_reset bus)" "cart_ok (c64_bus_cartridge_apply_banking bus)"
proof -
  show "cart_ok (c64_bus_cartridge_reset bus)"
    using assms mapper_ok [OF assms] by (auto simp: c64_bus_cartridge_reset_def split: option.splits)
  have "bus = bus\<lparr>cartridge_io_latch := cartridge_io_latch bus\<rparr>" by simp
  then have m: "cart_ok b" if "cartridge_mounted bus" "apply_mapper bus = Some b" for b
    using mapper_ok [OF assms that(1)] that(2) by metis
  have n: "bank_of (cartridge_hardware_type bus) x y n k \<longleftrightarrow> k = 0" if "apply_mapper bus = None" for x y n k
    using that by (auto simp: apply_mapper_def bank_of_def Let_def split: if_splits)
  show "cart_ok (c64_bus_cartridge_apply_banking bus)"
  proof (cases "apply_mapper bus")
    case None
    have "cart_ok (bus\<lparr>cartridge_roml := bank_bytes banks 0\<rparr>) \<longleftrightarrow> cart_ok bus"
      if "cartridge_rom_banks bus = Some banks" "cartridge_mounted bus" for banks
    proof -
      have "cartridge_roml bus = bank_bytes banks 0"
        using assms that n [OF None] by (auto simp: cart_ok_def bank_selected_def window_shows_def)
      then show ?thesis by (intro cart_ok_fields) simp_all
    qed
    then show ?thesis using assms None by (simp add: c64_bus_cartridge_apply_banking_def split: option.splits)
  qed (use assms m in \<open>simp add: c64_bus_cartridge_apply_banking_def\<close>)
qed

lemma io_read_ok:
  assumes "cart_ok bus"
  shows "cart_ok (snd (c64_io_read chips bus a))"
proof -
  have "cart_ok (snd (io_read_cartridge bus a))"
    using assms latch_ok(3,4) [OF assms _ refl] by (simp add: io_read_cartridge_def Let_def)
  moreover have "cart_ok (bus\<lparr>swiftlink := x\<rparr>)" for x by (subst cart_ok_fields [where bus = bus]) (simp_all add: assms)
  ultimately have "cart_ok (snd (io_read_expansion chips bus a))"
    by (simp add: io_read_expansion_def split_beta split: option.splits)
  moreover have "cart_ok (bus\<lparr>vic := v\<rparr>)" "cart_ok (bus\<lparr>sid := s\<rparr>)" "cart_ok (bus\<lparr>cia1 := x\<rparr>)" "cart_ok (bus\<lparr>cia2 := x\<rparr>)" for v s x
    by (subst cart_ok_fields [where bus = bus]; simp add: assms)+
  ultimately show ?thesis using assms by (simp add: c64_io_read_def split_beta)
qed

lemma read_ok:
  assumes "cart_ok bus"
  shows "cart_ok (snd (c64_bus_read chips bus a))"
  using assms io_read_ok [OF assms] by (simp add: c64_bus_read_def split: option.splits)

lemma io_write_ok:
  assumes "cart_ok bus"
  shows "cart_ok (c64_io_write chips a v bus)"
proof -
  have "cart_ok (io_write_cartridge a v bus)"
    using assms latch_ok [OF assms _ refl] by (simp add: io_write_cartridge_def Let_def)
  moreover have "cart_ok (bus\<lparr>swiftlink := x\<rparr>)" for x by (subst cart_ok_fields [where bus = bus]) (simp_all add: assms)
  ultimately have "cart_ok (io_write_expansion chips a v bus)"
    by (simp add: io_write_expansion_def split: option.splits)
  moreover have "cart_ok (bus\<lparr>debugcart_hit := True, debugcart_value := v\<rparr>)"
    "cart_ok (bus\<lparr>vic := x, vic_register_writes := n\<rparr>)" "cart_ok (bus\<lparr>sid := s, sid_register_writes := n\<rparr>)"
    "cart_ok (bus\<lparr>color_ram := l, color_ram_writes := n\<rparr>)" "cart_ok (bus\<lparr>cia1 := c, cia1_register_writes := n\<rparr>)"
    "cart_ok (bus\<lparr>cia2 := c, cia2_register_writes := n\<rparr>)"
    "cart_ok ((c64_bus_refresh_vic_bank_base (bus\<lparr>cia2 := c\<rparr>))\<lparr>cia2_register_writes := n\<rparr>)" for x s l n c
    by (subst cart_ok_fields [where bus = bus]; simp add: assms c64_bus_refresh_vic_bank_base_def)+
  ultimately show ?thesis unfolding c64_io_write_def by (simp add: Let_def c64_bus_refresh_vic_bank_base_def)
qed

lemma write_ok:
  assumes "cart_ok bus"
  shows "cart_ok (c64_bus_write chips bus a v)"
proof -
  have "cart_ok (bus\<lparr>cpu_port_direction := v\<rparr>)" "cart_ok (bus\<lparr>cpu_port_data := v\<rparr>)" "cart_ok (bus\<lparr>ram := r\<rparr>)"
    "cart_ok (bus\<lparr>ram := r, screen_ram_writes := n\<rparr>)" for r n
    by (subst cart_ok_fields [where bus = bus]; simp add: assms)+
  then show ?thesis using io_write_ok [OF assms] by (simp add: c64_bus_write_def Let_def)
qed

lemma unmounted_ok: "\<not> cartridge_mounted bus \<Longrightarrow> cart_ok bus"
  by (simp add: cart_ok_def)

lemma reset_ok:
  assumes "cart_ok bus"
  shows "cart_ok (c64_bus_reset bus)"
proof -
  have "cart_ok (c64_bus_refresh_vic_bank_base (bus\<lparr>ram := (\<lambda>_. 0), color_ram := replicate C64_COLOR_RAM_SIZE 0,
      cpu_port_direction := 0x2F, cpu_port_data := 0x37, screen_ram_writes := 0, color_ram_writes := 0,
      vic_register_writes := 0, cia1_register_writes := 0, cia2_register_writes := 0, sid_register_writes := 0\<rparr>))"
    by (subst cart_ok_fields [where bus = bus]) (simp_all add: assms c64_bus_refresh_vic_bank_base_def)
  then show ?thesis by (simp add: c64_bus_reset_def Let_def reset_cart_ok(1))
qed

lemma init_ok: "cart_ok c64_bus_init"
  unfolding c64_bus_init_def by (intro reset_ok unmounted_ok) (simp add: zero_bus_def)

lemma attach_chip_ok:
  assumes "cart_ok bus"
  shows "cart_ok (c64_bus_attach_vicii v bus)" "cart_ok (c64_bus_attach_cias c1 c2 bus)" "cart_ok (c64_bus_attach_sid s bus)"
    "cart_ok (c64_bus_attach_swiftlink sl bus)" "cart_ok (c64_bus_refresh_vic_bank_base bus)"
    "cart_ok (snd (c64_bus_set_basic_rom d bus))" "cart_ok (snd (c64_bus_set_char_rom d bus))"
    "cart_ok (snd (c64_bus_set_kernal_rom d bus))" "cart_ok (snd (c64_bus_set_system_rom d bus))"
  by (cases d; rule cart_ok_fields [where bus = bus, THEN iffD2]; simp add: assms c64_bus_attach_vicii_def
      c64_bus_attach_cias_def c64_bus_attach_sid_def c64_bus_attach_swiftlink_def c64_bus_refresh_vic_bank_base_def
      c64_bus_set_basic_rom_def c64_bus_set_char_rom_def c64_bus_set_kernal_rom_def c64_bus_set_system_rom_def)+

text \<open>The buffers of the caller hold what their sizes say.\<close>

lemma normal_ok:
  assumes "cartridge_rom_banks c = Some bs" "length bs = C64_CARTRIDGE_ROM_BANK_SIZE" "cartridge_bank_count c = 1"
    "cartridge_hardware_type c = C64_CARTRIDGE_HW_NORMAL" "cartridge_roml c = bs" "cartridge_roml_present c"
    "cartridge_mode c \<noteq> C64_CARTRIDGE_MODE_ULTIMAX"
    "cartridge_mode c = C64_CARTRIDGE_MODE_16K \<Longrightarrow> cartridge_romh_present c \<and> length (cartridge_romh c) = C64_CARTRIDGE_ROM_BANK_SIZE"
  shows "cart_ok c"
proof -
  have "storage_ok c" using assms(1-3) by (simp add: storage_ok_def)
  moreover have "mode_ok c" using assms(4,7,8) by (simp add: mode_ok_def)
  moreover have "bank_selected c 0" using assms(4) by (simp add: bank_selected_def bank_of_def)
  moreover have "window_shows c 0" using assms by (simp add: window_shows_def bank_bytes_def)
  ultimately show ?thesis by (auto simp: cart_ok_def)
qed

lemma generic_ok:
  assumes "cart_ok bus" "\<forall>r. roml = Some r \<longrightarrow> length r = m" "\<forall>r. romh = Some r \<longrightarrow> length r = n"
  shows "cart_ok (snd (c64_bus_attach_generic_cartridge mem roml m romh n e g bus))"
proof (cases "fst (c64_bus_attach_generic_cartridge mem roml m romh n e g bus)")
  case True
  then obtain bs where bs: "roml = Some bs" "length bs = C64_CARTRIDGE_ROM_BANK_SIZE" "m = C64_CARTRIDGE_ROM_BANK_SIZE" "mem"
    using assms(2) by (auto simp: c64_bus_attach_generic_cartridge_def Let_def split: if_splits)
  show ?thesis
    by (rule normal_ok [of _ bs])
      (use True bs assms(3) in \<open>auto simp: c64_bus_attach_generic_cartridge_def Let_def split: if_splits\<close>)
next
  case False
  then have "snd (c64_bus_attach_generic_cartridge mem roml m romh n e g bus) = bus"
    by (auto simp: c64_bus_attach_generic_cartridge_def Let_def split: if_splits)
  then show ?thesis using assms(1) by simp
qed

lemma mounted_banks:
  assumes "cartridge_rom_banks c = Some bs" "cartridge_bank_count c = word_of_nat n" "0 < n" "n \<le> 128"
    "length bs = n * C64_CARTRIDGE_ROM_BANK_SIZE"
  shows "storage_ok c"
proof -
  have "n mod 65536 = n" using assms(4) by simp
  then have "unat (cartridge_bank_count c) = n" using assms(2) by (simp add: unat_of_nat)
  then show "storage_ok c" using assms by (simp add: storage_ok_def)
qed

lemma banked_ok:
  assumes "cart_ok bus" "\<forall>bs. banks = Some bs \<longrightarrow> length bs = n * C64_CARTRIDGE_ROM_BANK_SIZE"
  shows "cart_ok (snd (c64_bus_attach_magic_desk_cartridge mem banks n e g bus))"
    "cart_ok (snd (c64_bus_attach_ocean_cartridge mem banks n e g bus))"
    "cart_ok (snd (c64_bus_attach_super_games_cartridge mem banks n e g bus))"
    "cart_ok (snd (c64_bus_attach_c64gs_cartridge mem banks n e g bus))"
    "cart_ok (snd (c64_bus_attach_funplay_cartridge mem banks n e g bus))"
    "cart_ok (snd (c64_bus_attach_dinamic_cartridge mem banks n e g bus))"
proof -
  note mk = mounted_banks [of _ "the banks" n]
  have l: "banks \<noteq> None \<Longrightarrow> length (the banks) = n * C64_CARTRIDGE_ROM_BANK_SIZE" using assms(2) by auto
  show "cart_ok (snd (c64_bus_attach_magic_desk_cartridge mem banks n e g bus))"
    using assms(1) l by (simp add: c64_bus_attach_magic_desk_cartridge_def Let_def magic_desk_ok mk)
  show "cart_ok (snd (c64_bus_attach_ocean_cartridge mem banks n e g bus))"
    using assms(1) l by (simp add: c64_bus_attach_ocean_cartridge_def Let_def ocean_ok mk)
  have two: "Suc 0 < unat (word_of_nat n :: u16)" if "0 < n" "n \<le> 8" "even n"
  proof -
    have "n mod 65536 = n" using that(2) by simp
    then show ?thesis using that(1,3) by (cases "n = 1") (simp_all add: unat_of_nat)
  qed
  show "cart_ok (snd (c64_bus_attach_super_games_cartridge mem banks n e g bus))"
    using assms(1) l two by (simp add: c64_bus_attach_super_games_cartridge_def Let_def super_games_ok mk)
  show "cart_ok (snd (c64_bus_attach_c64gs_cartridge mem banks n e g bus))"
    using assms(1) l by (simp add: c64_bus_attach_c64gs_cartridge_def c64_bus_attach_banked_8k_def banked_8k_ok mk)
  show "cart_ok (snd (c64_bus_attach_funplay_cartridge mem banks n e g bus))"
    using assms(1) l by (simp add: c64_bus_attach_funplay_cartridge_def c64_bus_attach_banked_8k_def
        c64_bus_detach_cartridge_def funplay_ok mk)
  show "cart_ok (snd (c64_bus_attach_dinamic_cartridge mem banks n e g bus))"
    using assms(1) l by (simp add: c64_bus_attach_dinamic_cartridge_def c64_bus_attach_banked_8k_def dinamic_ok mk)
qed

section \<open>Reachable buses\<close>

inductive bus_reachable :: "('v, 's, 'l) c64_chips \<Rightarrow> ('v, 's, 'l) c64_bus_t \<Rightarrow> bool" for chips where
  bus_init: "bus_reachable chips c64_bus_init"
| bus_resets: "bus_reachable chips b \<Longrightarrow> bus_reachable chips (c64_bus_reset b)"
| bus_reads: "bus_reachable chips b \<Longrightarrow> bus_reachable chips (snd (c64_bus_read chips b a))"
| bus_writes: "bus_reachable chips b \<Longrightarrow> bus_reachable chips (c64_bus_write chips b a v)"
| bus_vicii: "bus_reachable chips b \<Longrightarrow> bus_reachable chips (c64_bus_attach_vicii x b)"
| bus_cias: "bus_reachable chips b \<Longrightarrow> bus_reachable chips (c64_bus_attach_cias c1 c2 b)"
| bus_sid: "bus_reachable chips b \<Longrightarrow> bus_reachable chips (c64_bus_attach_sid s b)"
| bus_swiftlink: "bus_reachable chips b \<Longrightarrow> bus_reachable chips (c64_bus_attach_swiftlink sl b)"
| bus_refresh: "bus_reachable chips b \<Longrightarrow> bus_reachable chips (c64_bus_refresh_vic_bank_base b)"
| bus_basic: "bus_reachable chips b \<Longrightarrow> bus_reachable chips (snd (c64_bus_set_basic_rom d b))"
| bus_char: "bus_reachable chips b \<Longrightarrow> bus_reachable chips (snd (c64_bus_set_char_rom d b))"
| bus_kernal: "bus_reachable chips b \<Longrightarrow> bus_reachable chips (snd (c64_bus_set_kernal_rom d b))"
| bus_system: "bus_reachable chips b \<Longrightarrow> bus_reachable chips (snd (c64_bus_set_system_rom d b))"
| bus_generic: "bus_reachable chips b \<Longrightarrow> \<forall>r. roml = Some r \<longrightarrow> length r = m \<Longrightarrow> \<forall>r. romh = Some r \<longrightarrow> length r = n \<Longrightarrow>
    bus_reachable chips (snd (c64_bus_attach_generic_cartridge mem roml m romh n e g b))"
| bus_banked: "bus_reachable chips b \<Longrightarrow> \<forall>bs. banks = Some bs \<longrightarrow> length bs = n * C64_CARTRIDGE_ROM_BANK_SIZE \<Longrightarrow>
    attach \<in> {c64_bus_attach_magic_desk_cartridge, c64_bus_attach_ocean_cartridge, c64_bus_attach_super_games_cartridge,
      c64_bus_attach_c64gs_cartridge, c64_bus_attach_funplay_cartridge, c64_bus_attach_dinamic_cartridge} \<Longrightarrow>
    bus_reachable chips (snd (attach mem banks n e g b))"
| bus_detach: "bus_reachable chips b \<Longrightarrow> bus_reachable chips (c64_bus_detach_cartridge b)"
| bus_cart_reset: "bus_reachable chips b \<Longrightarrow> bus_reachable chips (c64_bus_cartridge_reset b)"
| bus_banking: "bus_reachable chips b \<Longrightarrow> bus_reachable chips (c64_bus_cartridge_apply_banking b)"

lemma reachable_cart_ok: "bus_reachable chips bus \<Longrightarrow> cart_ok bus"
proof (induction rule: bus_reachable.induct)
  case (bus_banked b banks n attach mem e g)
  then show ?case using banked_ok [of b banks n] by auto
qed (simp_all add: init_ok reset_ok read_ok write_ok attach_chip_ok generic_ok reset_cart_ok unmounted_ok c64_bus_detach_cartridge_def)

section \<open>What the processor sees\<close>

lemma rom_offset:
  assumes "lo \<le> a" "a \<le> lo + 0x1FFF" "unat lo + 0x1FFF < 65536"
  shows "unat (a - lo :: u16) < C64_CARTRIDGE_ROM_BANK_SIZE"
proof -
  have "unat (lo + 0x1FFF) = unat lo + 0x1FFF" using assms(3) by (simp add: unat_word_ariths)
  then show ?thesis using assms(1,2) by (simp add: unat_sub word_le_nat_alt)
qed

lemma both_bits: "(p :: u8) AND 3 = 3 \<longleftrightarrow> p AND 1 \<noteq> 0 \<and> p AND 2 \<noteq> 0"
  by (auto simp: u8_eq_bits bit_simps)

lemma read_roml:
  assumes "cart_ok bus" "cartridge_mounted bus" "cartridge_mode bus \<noteq> C64_CARTRIDGE_MODE_NONE" "cpu_port_data bus AND 3 = 3"
    "0x8000 \<le> a" "a \<le> 0x9FFF"
  shows "c64_bus_read chips bus a = (cartridge_roml bus ! unat (a - 0x8000), bus)"
proof -
  have "cartridge_roml_present bus" "cartridge_mode bus = C64_CARTRIDGE_MODE_8K \<or> cartridge_mode bus = C64_CARTRIDGE_MODE_16K"
    using assms(1-3) by (cases "cartridge_mode bus"; auto simp: cart_ok_def window_shows_def mode_ok_def)+
  moreover have "\<not> a \<le> C64_CPU_PORT_DATA" using assms(5) by (simp add: word_le_nat_alt)
  ultimately show ?thesis
    using assms by (auto simp: c64_bus_read_def c64_bus_cartridge_read_def c64_bus_loram_enabled_def c64_bus_hiram_enabled_def both_bits)
qed

lemma read_romh:
  assumes "cart_ok bus" "cartridge_mounted bus" "cartridge_mode bus = C64_CARTRIDGE_MODE_16K" "cpu_port_data bus AND 2 \<noteq> 0"
    "0xA000 \<le> a" "a \<le> 0xBFFF"
  shows "c64_bus_read chips bus a = (cartridge_romh bus ! unat (a - 0xA000), bus)"
proof -
  have "cartridge_romh_present bus" using assms(1-3) by (auto simp: cart_ok_def mode_ok_def)
  moreover have "\<not> a \<le> C64_CPU_PORT_DATA" "\<not> a \<le> 0x9FFF" using assms(5) by (simp_all add: word_le_nat_alt)
  ultimately show ?thesis
    using assms by (simp add: c64_bus_read_def c64_bus_cartridge_read_def c64_bus_hiram_enabled_def)
qed

text \<open>
  C39. Whatever programs, resets and changes of cartridges have done to the bus of a C64, a mounted cartridge shows the
  bank that its mapper has latched: that bank lies inside the storage the cartridge was mounted with, the processor
  reads its bytes at $8000-$9FFF while the cartridge is switched on and both bits of the processor port are set,
  and at $A000-$BFFF a Super Games cartridge shows the second bank of the pair and an Ocean cartridge the same bank.
\<close>

theorem cartridge_shows_selected_bank:
  assumes "bus_reachable chips bus" "cartridge_mounted bus"
  shows "\<exists>banks k.
    cartridge_rom_banks bus = Some banks \<and>
    length banks = unat (cartridge_bank_count bus) * C64_CARTRIDGE_ROM_BANK_SIZE \<and>
    k < unat (cartridge_bank_count bus) \<and> bank_selected bus k \<and>
    (\<forall>a. 0x8000 \<le> a \<and> a \<le> 0x9FFF \<and> cartridge_mode bus \<noteq> C64_CARTRIDGE_MODE_NONE \<and> cpu_port_data bus AND 3 = 3 \<longrightarrow>
       c64_bus_read chips bus a = (banks ! (k * C64_CARTRIDGE_ROM_BANK_SIZE + unat (a - 0x8000)), bus)) \<and>
    (\<forall>a. 0xA000 \<le> a \<and> a \<le> 0xBFFF \<and> cartridge_mode bus = C64_CARTRIDGE_MODE_16K \<and> cpu_port_data bus AND 2 \<noteq> 0 \<longrightarrow>
       (cartridge_hardware_type bus = C64_CARTRIDGE_HW_SUPER_GAMES \<longrightarrow>
          k + 1 < unat (cartridge_bank_count bus) \<and>
          c64_bus_read chips bus a = (banks ! ((k + 1) * C64_CARTRIDGE_ROM_BANK_SIZE + unat (a - 0xA000)), bus)) \<and>
       (cartridge_hardware_type bus = C64_CARTRIDGE_HW_OCEAN \<longrightarrow>
          c64_bus_read chips bus a = (banks ! (k * C64_CARTRIDGE_ROM_BANK_SIZE + unat (a - 0xA000)), bus)))"
proof -
  have c: "cart_ok bus" by (rule reachable_cart_ok [OF assms(1)])
  then obtain k where k: "bank_selected bus k" "window_shows bus k" and s: "storage_ok bus"
    using assms(2) by (auto simp: cart_ok_def)
  obtain banks where b: "cartridge_rom_banks bus = Some banks"
    "length banks = unat (cartridge_bank_count bus) * C64_CARTRIDGE_ROM_BANK_SIZE"
    using storage_banks [OF s] by blast
  note w = k(2) [unfolded window_shows_def b(1) option.sel]
  have lo: "unat (a - 0x8000) < C64_CARTRIDGE_ROM_BANK_SIZE" if "0x8000 \<le> a" "a \<le> 0x9FFF" for a :: u16
    using that rom_offset [of "0x8000" a] by simp
  have hi: "unat (a - 0xA000) < C64_CARTRIDGE_ROM_BANK_SIZE" if "0xA000 \<le> a" "a \<le> 0xBFFF" for a :: u16
    using that rom_offset [of "0xA000" a] by simp
  show ?thesis
    by (rule exI [of _ banks], rule exI [of _ k])
      (use b k(1) w read_roml [OF c assms(2)] read_romh [OF c assms(2)] lo hi bank_bytes_nth(1) [OF b(2)] in \<open>auto simp del: mult_Suc\<close>)
qed

definition two_banks :: "u8 list" where
  "two_banks = replicate C64_CARTRIDGE_ROM_BANK_SIZE 1 @ replicate C64_CARTRIDGE_ROM_BANK_SIZE 2"

definition no_chips :: "(unit, unit, unit) c64_chips" where
  "no_chips =
     \<lparr>vicii_read_register = \<lambda>v a. (0, v), vicii_write_register = \<lambda>v a x. v, sid_read = \<lambda>s a. (0, s),
      sid_write = \<lambda>s a x. s, c64_swiftlink_owns = \<lambda>l a. False, c64_swiftlink_read = \<lambda>l a. (0, l),
      c64_swiftlink_write = \<lambda>l a x. l\<rparr>"

definition two_bank_bus :: "(unit, unit, unit) c64_bus_t" where
  "two_bank_bus = c64_bus_write no_chips (snd (c64_bus_attach_c64gs_cartridge True (Some two_banks) 2 0 0 c64_bus_init)) 0xDE01 0"

lemma length_two_banks: "length two_banks = 2 * C64_CARTRIDGE_ROM_BANK_SIZE"
  by (simp add: two_banks_def)

lemma init_fields:
  "vic c64_bus_init = None" "sid c64_bus_init = None" "cia1 c64_bus_init = None" "cia2 c64_bus_init = None"
  "swiftlink c64_bus_init = None" "cpu_port_data c64_bus_init = 0x37" "cartridge_mounted c64_bus_init = False"
  "debugcart_enabled c64_bus_init = False"
  by (simp_all add: c64_bus_init_def c64_bus_reset_def c64_bus_cartridge_reset_def c64_bus_refresh_vic_bank_base_def
      zero_bus_def Let_def)

lemma two_bank_bus_fields:
  "cartridge_mounted two_bank_bus" "cartridge_rom_banks two_bank_bus = Some two_banks"
  "unat (cartridge_bank_count two_bank_bus) = 2" "cartridge_hardware_type two_bank_bus = C64_CARTRIDGE_HW_C64GS"
  "cartridge_io_latch two_bank_bus = 1" "cartridge_mode two_bank_bus = C64_CARTRIDGE_MODE_8K"
  "cpu_port_data two_bank_bus = 0x37"
proof -
  define b where "b = snd (c64_bus_attach_c64gs_cartridge True (Some two_banks) 2 0 0 (c64_bus_init :: (unit, unit, unit) c64_bus_t))"
  have b: "vic b = None" "sid b = None" "cia1 b = None" "cia2 b = None" "swiftlink b = None" "cpu_port_data b = 0x37"
    "cartridge_mounted b" "debugcart_enabled b = False" "cartridge_rom_banks b = Some two_banks"
    "cartridge_bank_count b = 2" "cartridge_hardware_type b = C64_CARTRIDGE_HW_C64GS"
    by (simp_all add: b_def c64_bus_attach_c64gs_cartridge_def c64_bus_attach_banked_8k_def c64_bus_c64gs_apply_latch_def
        c64_bus_apply_banked_8k_rom_def c64_bus_copy_roml_bank_def c64_bus_detach_cartridge_def
        c64_bus_free_cartridge_banks_def init_fields length_two_banks)
  have "c64_bus_io_visible b"
    by (simp add: c64_bus_io_visible_def c64_bus_io_or_char_visible_def c64_bus_cpu_port_value_def b)
  then have w: "two_bank_bus = c64_bus_c64gs_apply_latch (b\<lparr>cartridge_io_latch := 1\<rparr>)"
    unfolding two_bank_bus_def b_def [symmetric]
    by (simp add: c64_bus_write_def c64_io_write_def io_write_expansion_def io_write_cartridge_def b Let_def)
  show "cartridge_mounted two_bank_bus" "cartridge_rom_banks two_bank_bus = Some two_banks"
    "unat (cartridge_bank_count two_bank_bus) = 2" "cartridge_hardware_type two_bank_bus = C64_CARTRIDGE_HW_C64GS"
    "cartridge_io_latch two_bank_bus = 1" "cartridge_mode two_bank_bus = C64_CARTRIDGE_MODE_8K"
    "cpu_port_data two_bank_bus = 0x37"
    by (simp_all add: w c64_bus_c64gs_apply_latch_def c64_bus_apply_banked_8k_rom_def c64_bus_copy_roml_bank_def b)
qed

lemma two_bank_bus_reachable: "bus_reachable no_chips two_bank_bus"
  unfolding two_bank_bus_def
  by (intro bus_writes bus_banked bus_init) (simp_all add: length_two_banks)

lemma cartridge_shows_selected_bank_witness: "c64_bus_read no_chips two_bank_bus 0x8005 = (2, two_bank_bus)"
proof -
  have "two_banks ! (1 * C64_CARTRIDGE_ROM_BANK_SIZE + 5) = 2" by (simp add: two_banks_def nth_append)
  then show ?thesis
    using cartridge_shows_selected_bank [OF two_bank_bus_reachable two_bank_bus_fields(1)]
    by (auto simp: two_bank_bus_fields bank_selected_def bank_of_def dest!: spec [of _ "0x8005"])
qed

section \<open>The memory map\<close>

text \<open>What lies at an address, by the upper digit of the address, the processor port and the cartridge.\<close>

datatype area = Port | Ram | Basic | Char | Kernal | Io | Cart_Lo | Cart_Hi

definition memory_area :: "('v, 's, 'l) c64_bus_t \<Rightarrow> u16 \<Rightarrow> area" where
  "memory_area bus a =
     (let page = unat a div 0x1000; p = cpu_port_data bus; loram = (p AND 1 \<noteq> 0); hiram = (p AND 2 \<noteq> 0);
          charen = (p AND 4 \<noteq> 0); mode = (if cartridge_mounted bus then cartridge_mode bus else C64_CARTRIDGE_MODE_NONE)
      in if unat a < 2 then Port
         else if page \<in> {8, 9} \<and> mode \<noteq> C64_CARTRIDGE_MODE_NONE \<and> loram \<and> hiram then Cart_Lo
         else if page \<in> {0xA, 0xB} \<and> mode = C64_CARTRIDGE_MODE_16K \<and> hiram then Cart_Hi
         else if page \<in> {0xA, 0xB} \<and> loram \<and> hiram then Basic
         else if page = 0xD \<and> (loram \<or> hiram) then (if charen then Io else Char)
         else if page \<in> {0xE, 0xF} \<and> hiram then Kernal
         else Ram)"

definition area_byte :: "('v, 's, 'l) c64_bus_t \<Rightarrow> u16 \<Rightarrow> area \<Rightarrow> u8" where
  "area_byte bus a r =
     (case r of
        Port \<Rightarrow> if a = 0 then cpu_port_direction bus else cpu_port_data bus
      | Basic \<Rightarrow> basic_rom bus ! (unat a - 0xA000)
      | Char \<Rightarrow> char_rom bus ! (unat a - 0xD000)
      | Kernal \<Rightarrow> kernal_rom bus ! (unat a - 0xE000)
      | Cart_Lo \<Rightarrow> cartridge_roml bus ! (unat a - 0x8000)
      | Cart_Hi \<Rightarrow> cartridge_romh bus ! (unat a - 0xA000)
      | _ \<Rightarrow> ram bus a)"

lemma page_eq: "(n :: nat) div 0x1000 = k \<longleftrightarrow> 0x1000 * k \<le> n \<and> n < 0x1000 * k + 0x1000"
proof
  assume "n div 0x1000 = k"
  then show "0x1000 * k \<le> n \<and> n < 0x1000 * k + 0x1000"
    using div_mult_mod_eq [of n "0x1000"] mod_less_divisor [of "0x1000" n] by linarith
qed (intro div_nat_eqI, simp_all)

lemma pages:
  fixes a :: u16
  shows "unat a div 0x1000 \<in> {8, 9} \<longleftrightarrow> 0x8000 \<le> a \<and> a \<le> 0x9FFF" "unat a div 0x1000 \<in> {0xA, 0xB} \<longleftrightarrow> 0xA000 \<le> a \<and> a \<le> 0xBFFF"
    "unat a div 0x1000 = 0xD \<longleftrightarrow> 0xD000 \<le> a \<and> a \<le> 0xDFFF" "unat a div 0x1000 \<in> {0xE, 0xF} \<longleftrightarrow> 0xE000 \<le> a"
    "unat a < 2 \<longleftrightarrow> a \<le> C64_CPU_PORT_DATA"
  using unat_u16_less [of a] by (auto simp: page_eq word_le_nat_alt)

lemma io_bits:
  "(p :: u8) AND 3 \<noteq> 0 \<longleftrightarrow> p AND 1 \<noteq> 0 \<or> p AND 2 \<noteq> 0"
  by (auto simp: u8_eq_bits bit_simps)

text \<open>Reading, and what a write changes.\<close>

lemma read_map:
  assumes "cart_ok bus"
  shows "c64_bus_read chips bus a =
    (if memory_area bus a = Io then c64_io_read chips bus a else (area_byte bus a (memory_area bus a), bus))"
proof -
  have m: "cartridge_roml_present bus" "cartridge_mode bus \<noteq> C64_CARTRIDGE_MODE_ULTIMAX"
    "cartridge_mode bus = C64_CARTRIDGE_MODE_16K \<Longrightarrow> cartridge_romh_present bus" if "cartridge_mounted bus"
    using assms that by (auto simp: cart_ok_def window_shows_def mode_ok_def)
  have mode: "cartridge_mode bus \<noteq> C64_CARTRIDGE_MODE_NONE \<longleftrightarrow>
    cartridge_mode bus = C64_CARTRIDGE_MODE_8K \<or> cartridge_mode bus = C64_CARTRIDGE_MODE_16K" if "cartridge_mounted bus"
    using m(2) [OF that] by (cases "cartridge_mode bus") simp_all
  have off: "0x8000 \<le> a \<Longrightarrow> unat (a - 0x8000) = unat a - 0x8000" "0xA000 \<le> a \<Longrightarrow> unat (a - 0xA000) = unat a - 0xA000"
    "0xD000 \<le> a \<Longrightarrow> unat (a - 0xD000) = unat a - 0xD000" "0xE000 \<le> a \<Longrightarrow> unat (a - 0xE000) = unat a - 0xE000"
    by (simp_all add: unat_sub)
  note rd = c64_bus_read_def c64_bus_cartridge_read_def c64_bus_cpu_port_read_def c64_bus_basic_visible_def
    c64_bus_io_visible_def c64_bus_char_visible_def c64_bus_kernal_visible_def c64_bus_io_or_char_visible_def
    c64_bus_cpu_port_value_def c64_bus_loram_enabled_def c64_bus_hiram_enabled_def both_bits io_bits
  note area = memory_area_def [unfolded Let_def pages]
  consider "a \<le> C64_CPU_PORT_DATA" | "\<not> a \<le> C64_CPU_PORT_DATA" "a < 0x8000" | "0x8000 \<le> a" "a \<le> 0x9FFF"
    | "0xA000 \<le> a" "a \<le> 0xBFFF" | "0xC000 \<le> a" "a \<le> 0xCFFF" | "0xD000 \<le> a" "a \<le> 0xDFFF" | "0xE000 \<le> a"
    unfolding word_le_nat_alt word_less_nat_alt by simp linarith
  then show ?thesis
  proof cases
    case 1
    then show ?thesis by (simp add: area area_byte_def rd)
  next
    case 2
    then have "\<not> 0x8000 \<le> a" "\<not> 0xA000 \<le> a" "\<not> 0xD000 \<le> a" "\<not> 0xE000 \<le> a"
      by (simp_all add: word_le_nat_alt word_less_nat_alt)
    then show ?thesis using 2(1) by (simp add: area area_byte_def rd)
  next
    case 3
    then have "\<not> a \<le> C64_CPU_PORT_DATA" "\<not> 0xA000 \<le> a" "\<not> 0xD000 \<le> a" "\<not> 0xE000 \<le> a"
      by (simp_all add: word_le_nat_alt)
    then show ?thesis using 3 m mode off(1) by (auto simp: area area_byte_def rd)
  next
    case 4
    then have "\<not> a \<le> C64_CPU_PORT_DATA" "\<not> a \<le> 0x9FFF" "\<not> 0xD000 \<le> a" "\<not> 0xE000 \<le> a"
      by (simp_all add: word_le_nat_alt)
    then show ?thesis using 4 m off(2) by (auto simp: area area_byte_def rd)
  next
    case 5
    then have "\<not> a \<le> C64_CPU_PORT_DATA" "\<not> a \<le> 0x9FFF" "\<not> a \<le> 0xBFFF" "\<not> 0xD000 \<le> a" "\<not> 0xE000 \<le> a"
      by (simp_all add: word_le_nat_alt)
    then show ?thesis by (simp add: area area_byte_def rd)
  next
    case 6
    then have "\<not> a \<le> C64_CPU_PORT_DATA" "\<not> a \<le> 0x9FFF" "\<not> a \<le> 0xBFFF" "\<not> 0xE000 \<le> a"
      by (simp_all add: word_le_nat_alt)
    then show ?thesis using 6 off(3) by (auto simp: area area_byte_def rd)
  next
    case 7
    then have "\<not> a \<le> C64_CPU_PORT_DATA" "\<not> a \<le> 0x9FFF" "\<not> a \<le> 0xBFFF" "\<not> a \<le> 0xDFFF"
      by (simp_all add: word_le_nat_alt)
    then show ?thesis using 7 m off(4) by (auto simp: area area_byte_def rd)
  qed
qed

lemma write_map:
  assumes "2 \<le> a" "memory_area bus a \<noteq> Io"
  obtains n where "c64_bus_write chips bus a v = bus\<lparr>ram := (ram bus)(a := v), screen_ram_writes := n\<rparr>"
proof -
  have a: "a \<noteq> C64_CPU_PORT_DIRECTION" "a \<noteq> C64_CPU_PORT_DATA" "\<not> a \<le> C64_CPU_PORT_DATA" using assms(1) by (auto simp: word_le_nat_alt)
  have nio: "\<not> (0xD000 \<le> a \<and> a \<le> 0xDFFF \<and> c64_bus_io_visible bus)"
  proof
    assume d: "0xD000 \<le> a \<and> a \<le> 0xDFFF \<and> c64_bus_io_visible bus"
    then have "\<not> a \<le> 0x9FFF" "\<not> a \<le> 0xBFFF" by (auto simp: word_le_nat_alt)
    then show False
      using assms(2) d a(3)
      by (simp add: memory_area_def [unfolded Let_def pages] c64_bus_io_visible_def c64_bus_io_or_char_visible_def
          c64_bus_cpu_port_value_def io_bits)
  qed
  have "c64_bus_write chips bus a v = bus\<lparr>ram := (ram bus)(a := v), screen_ram_writes :=
      (if C64_DEFAULT_SCREEN_BASE \<le> a \<and> a < C64_DEFAULT_SCREEN_BASE + 1000 then screen_ram_writes bus + 1 else screen_ram_writes bus)\<rparr>"
    unfolding c64_bus_write_def if_not_P [OF a(1)] if_not_P [OF a(2)] if_not_P [OF nio] by (simp add: Let_def)
  then show thesis by (rule that)
qed

lemma area_without_roms:
  assumes "2 \<le> b" "cpu_port_data bus AND 3 = 0"
  shows "memory_area bus b = Ram"
proof -
  have "cpu_port_data bus AND 1 = 0" "cpu_port_data bus AND 2 = 0" using assms(2) io_bits by blast+
  moreover have "\<not> unat b < 2" using assms(1) by (simp add: word_le_nat_alt)
  ultimately show ?thesis by (simp add: memory_area_def)
qed

lemma area_fields:
  "cpu_port_data c = cpu_port_data bus \<Longrightarrow> cartridge_mounted c = cartridge_mounted bus \<Longrightarrow>
    cartridge_mode c = cartridge_mode bus \<Longrightarrow> memory_area c b = memory_area bus b"
  by (simp add: memory_area_def)

lemma io_read_ignores_ram:
  "fst (c64_io_read chips (bus\<lparr>ram := r, screen_ram_writes := n\<rparr>) b) = fst (c64_io_read chips bus b)"
proof -
  let ?c = "bus\<lparr>ram := r, screen_ram_writes := n\<rparr>"
  have "fst (io_read_cartridge ?c b) = fst (io_read_cartridge bus b)"
    by (simp add: io_read_cartridge_def Let_def)
  then have "fst (io_read_expansion chips ?c b) = fst (io_read_expansion chips bus b)"
    by (cases "swiftlink bus") (simp_all add: io_read_expansion_def split_beta)
  then show ?thesis
    by (cases "vic bus"; cases "sid bus"; cases "cia1 bus"; cases "cia2 bus") (simp_all add: c64_io_read_def split_beta)
qed

text \<open>
  C40. A write always reaches the RAM of a C64 outside the I/O area and the processor port: at an address where RAM
  is visible it is read back, at any other address under a BASIC, KERNAL, character or cartridge ROM nothing that
  the processor reads changes, and when the processor port then switches all ROMs off, every address from 2 on
  reads as RAM, the address written as the value.
\<close>

theorem c64_write_under_rom:
  assumes "bus_reachable chips bus" "2 \<le> a" "memory_area bus a \<noteq> Io" "2 \<le> b" "p AND 3 = 0"
  shows "fst (c64_bus_read chips (c64_bus_write chips bus a v) b) =
      (if b = a \<and> memory_area bus a = Ram then v else fst (c64_bus_read chips bus b)) \<and>
    fst (c64_bus_read chips (c64_bus_write chips (c64_bus_write chips bus a v) C64_CPU_PORT_DATA p) b) =
      (if b = a then v else ram bus b)"
proof -
  have c: "cart_ok bus" by (rule reachable_cart_ok [OF assms(1)])
  have c1: "cart_ok (c64_bus_write chips bus a v)" by (rule write_ok [OF c])
  have c2: "cart_ok (c64_bus_write chips (c64_bus_write chips bus a v) C64_CPU_PORT_DATA p)" by (rule write_ok [OF c1])
  obtain n where w: "c64_bus_write chips bus a v = bus\<lparr>ram := (ram bus)(a := v), screen_ram_writes := n\<rparr>"
    by (rule write_map [OF assms(2,3)])
  have area1: "memory_area (c64_bus_write chips bus a v) b = memory_area bus b" unfolding w by (rule area_fields) simp_all
  have port: "c64_bus_write chips d C64_CPU_PORT_DATA p = d\<lparr>cpu_port_data := p\<rparr>" for d :: "('a, 'b, 'c) c64_bus_t"
    by (simp add: c64_bus_write_def)
  have "memory_area (c64_bus_write chips (c64_bus_write chips bus a v) C64_CPU_PORT_DATA p) b = Ram"
    by (rule area_without_roms [OF assms(4)]) (simp add: port assms(5))
  then have "fst (c64_bus_read chips (c64_bus_write chips (c64_bus_write chips bus a v) C64_CPU_PORT_DATA p) b) =
      (if b = a then v else ram bus b)"
    using read_map [OF c2, where a = b] by (simp add: area_byte_def port w)
  moreover have "fst (c64_bus_read chips (c64_bus_write chips bus a v) b) =
      (if b = a \<and> memory_area bus a = Ram then v else fst (c64_bus_read chips bus b))"
  proof (cases "memory_area bus b = Io")
    case True
    then have "b \<noteq> a" using assms(3) by auto
    then show ?thesis using True area1 read_map [OF c1, where a = b] read_map [OF c, where a = b] by (simp add: io_read_ignores_ram w)
  next
    case False
    moreover have "memory_area bus b \<noteq> Port" using assms(4) by (auto simp: memory_area_def word_le_nat_alt Let_def split: if_splits)
    ultimately show ?thesis using area1 read_map [OF c1, where a = b] read_map [OF c, where a = b]
      by (cases "memory_area bus b") (auto simp: area_byte_def w)
  qed
  ultimately show ?thesis by blast
qed

lemma c64_write_under_rom_witness:
  "fst (c64_bus_read no_chips (c64_bus_write no_chips two_bank_bus 0x8005 77) 0x8005) = 2 \<and>
   fst (c64_bus_read no_chips (c64_bus_write no_chips (c64_bus_write no_chips two_bank_bus 0x8005 77) C64_CPU_PORT_DATA 0x34) 0x8005) = 77"
proof -
  have "memory_area two_bank_bus 0x8005 = Cart_Lo" by (simp add: memory_area_def two_bank_bus_fields)
  moreover have "fst (c64_bus_read no_chips two_bank_bus 0x8005) = 2"
  proof -
    have "bank_selected two_bank_bus 1" "cart_ok two_bank_bus"
      using two_bank_bus_reachable by (simp_all add: bank_selected_def bank_of_def two_bank_bus_fields reachable_cart_ok)
    then have "cartridge_roml two_bank_bus = bank_bytes two_banks 1"
      by (auto simp: cart_ok_def window_shows_def bank_selected_def bank_of_def two_bank_bus_fields)
    then show ?thesis
      using read_roml [OF reachable_cart_ok [OF two_bank_bus_reachable], of "0x8005" no_chips]
      by (simp add: two_bank_bus_fields bank_bytes_def two_banks_def)
  qed
  ultimately show ?thesis
    using c64_write_under_rom [OF two_bank_bus_reachable, of "0x8005" "0x8005" "0x34" 77] by simp
qed

section \<open>The stack of the processor\<close>

text \<open>Page one is RAM whatever the banking, so that subroutines and interrupts return on this bus as well.\<close>

lemma io_read_ram: "ram (snd (c64_io_read chips bus a)) = ram bus"
proof -
  have copy: "ram (c64_bus_copy_roml_bank b d) = ram d" for b and d :: "('a, 'b, 'c) c64_bus_t"
    by (cases "cartridge_rom_banks d") (simp_all add: c64_bus_copy_roml_bank_def)
  then have "ram (snd (io_read_cartridge bus a)) = ram bus"
    by (simp add: io_read_cartridge_def c64_bus_c64gs_apply_latch_def c64_bus_dinamic_apply_latch_def
        c64_bus_apply_banked_8k_rom_def Let_def)
  then have "ram (snd (io_read_expansion chips bus a)) = ram bus"
    by (cases "swiftlink bus") (simp_all add: io_read_expansion_def split_beta)
  then show ?thesis by (simp add: c64_io_read_def split_beta)
qed

lemma read_page_one: "0x100 \<le> a \<Longrightarrow> a < 0x200 \<Longrightarrow> c64_bus_read chips bus a = (ram bus a, bus)"
proof -
  assume a: "0x100 \<le> a" "a < 0x200"
  then have "\<not> a \<le> C64_CPU_PORT_DATA" "\<not> 0x8000 \<le> a" "\<not> 0xA000 \<le> a" "\<not> 0xD000 \<le> a" "\<not> 0xE000 \<le> a"
    by (simp_all add: word_le_nat_alt word_less_nat_alt)
  then show ?thesis by (simp add: c64_bus_read_def c64_bus_cartridge_read_def)
qed

lemma read_keeps_ram: "ram (snd (c64_bus_read chips bus a)) = ram bus"
  using io_read_ram [of chips bus a] by (simp add: c64_bus_read_def split: option.splits)

lemma io_write_ram: "ram (c64_io_write chips a v bus) = ram bus"
proof -
  have copy: "ram (c64_bus_copy_roml_bank b d) = ram d" for b and d :: "('a, 'b, 'c) c64_bus_t"
    by (cases "cartridge_rom_banks d") (simp_all add: c64_bus_copy_roml_bank_def)
  have "ram (c64_bus_magic_desk_apply_latch d) = ram d" "ram (c64_bus_ocean_apply_latch d) = ram d"
    "ram (c64_bus_c64gs_apply_latch d) = ram d" "ram (c64_bus_funplay_apply_latch d) = ram d"
    "ram (c64_bus_super_games_apply_latch d) = ram d" for d :: "('a, 'b, 'c) c64_bus_t"
    by (cases "cartridge_rom_banks d"; simp add: copy c64_bus_magic_desk_apply_latch_def c64_bus_ocean_apply_latch_def
        c64_bus_c64gs_apply_latch_def c64_bus_apply_banked_8k_rom_def c64_bus_funplay_apply_latch_def
        c64_bus_super_games_apply_latch_def Let_def)+
  then have "ram (io_write_cartridge a v bus) = ram bus" by (simp add: io_write_cartridge_def Let_def)
  then have "ram (io_write_expansion chips a v bus) = ram bus"
    by (cases "swiftlink bus") (simp_all add: io_write_expansion_def)
  then show ?thesis by (simp add: c64_io_write_def c64_bus_refresh_vic_bank_base_def Let_def)
qed

lemma write_page_one:
  assumes "0x100 \<le> a" "a < 0x200"
  shows "ram (c64_bus_write chips bus a v) = (ram bus)(a := v)"
proof -
  have "a \<noteq> C64_CPU_PORT_DIRECTION" "a \<noteq> C64_CPU_PORT_DATA" "\<not> 0xD000 \<le> a"
    using assms by (auto simp: word_le_nat_alt word_less_nat_alt)
  then show ?thesis by (simp add: c64_bus_write_def Let_def)
qed

interpretation c64_stack: stack_memory "c64_bus_read chips" "c64_bus_write chips" ram
  by unfold_locales (simp_all add: read_page_one read_keeps_ram write_page_one)

lemma c64_subroutine_returns:
  fixes c n :: "('v, 's, 'l) c64_bus_t C6510"
  assumes "read_fn c = c64_bus_read chips" "write_fn c = c64_bus_write chips" "stack_ok c" "read_fn n = c64_bus_read chips"
    and "sp n = sp (exec_opcode JSR_abs c)"
    and "\<And>a. a \<in> {sp c, sp_dec (sp c)} \<Longrightarrow> ram (user n) a = ram (user (exec_opcode JSR_abs c)) a"
  shows "pc (exec_opcode RTS n) = pc c + 2 \<and> sp (exec_opcode RTS n) = sp c"
  using assms by (rule c64_stack.subroutine_returns)

end
