(* ===== verification/Spec2Isabelle.thy ===== *)
theory Spec2Isabelle
  imports C6510_Resumable C6510_Stack C6510_Predict Message_Queue Audio_Threads D64_Errors D64_Directory C1541_Bus C1541_Head C1541_Disk_Safe C1541_Motor Cia_Clock C64_Banks
begin

text \<open>
  A verification development for the core logic of the machines emulators: the C64 emulator's 6510
  processor, its disk drive support and the data structures through which its threads communicate.

  \<^bold>\<open>The program.\<close> An emulator runs a machine in a thread of its own. The machine is a 6510 processor
  that reads and writes chips over a bus; a 1541 disk drive is a second such machine with two VIA chips,
  2 KB of memory and a rotating disk. The C64 side has its memory with banked ROMs and cartridges, two CIA
  chips with timers and a clock, and a keyboard. The disk comes from a D64 image and is turned into group coded
  tracks. The front end sends commands through a bounded message queue and takes sound samples from a
  ring buffer.

  \<^bold>\<open>The 6510\<close> (\<^verbatim>\<open>src/src/c64/machine/c6510.c\<close>, \<^verbatim>\<open>c6510_inln.h\<close>, \<^verbatim>\<open>c6510.h\<close>). \<open>C6510_State\<close> has the record \<open>C6510\<close>:
  registers, flags, the scratch unions, the suspended instruction, and the bus as the fields \<open>read_fn\<close>,
  \<open>write_fn\<close> and the interrupt callbacks over a state \<open>user\<close> of any type. \<open>C6510_Ops\<close> has the helpers of
  \<^verbatim>\<open>c6510_inln.h\<close>, \<open>C6510_Instructions\<close> one definition per instruction body, \<open>C6510_Step\<close> the opcode table and
  \<open>c6510_step\<close>, \<open>C6510_Micro\<close> the resumable executor \<open>c6510_micro_step\<close> and \<open>C6510_Access\<close> the queries about a
  suspended instruction. \<open>C6510_Arith\<close> shows that the arithmetic is the binary and decimal arithmetic of
  the processor; \<open>C6510_Frame\<close>, \<open>C6510_Run\<close>, \<open>C6510_Dispatch\<close> and the \<open>C6510_Equiv\<close> theories relate the two
  executors group by group, and \<open>C6510_Resumable\<close> concludes that the resumable executor implements
  \<open>c6510_step\<close>: the fuel of eight cycles is enough for every instruction it accepts. \<open>C6510_Clock\<close> counts
  cycles, \<open>C6510_Predict\<close> shows where the predicted bus accesses are right, and \<open>C6510_Stack\<close> that the stack
  stays in page one and that, on a bus whose page one is memory (locale \<open>stack_memory\<close>), returns undo
  calls. \<open>C6510_Guard\<close> carries an invariant of the state behind the bus through every instruction, cycle,
  interrupt and reset, given that the bus callbacks keep it (locale \<open>guarded_bus\<close>).

  \<^bold>\<open>Threads.\<close> \<open>Message_Queue\<close> (\<^verbatim>\<open>src/src/shell/util/message_queue.c\<close>) refines the bounded queue of \<open>Bounded_Queue\<close>
  under every interleaving of its atomic operations. \<open>Audio_Buffer\<close> (\<^verbatim>\<open>audio_buffer.c\<close>) has the ring with its
  32-bit positions, \<open>Audio_Threads\<close> the interleaving of the individual loads and stores of one producer and
  one consumer.

  \<^bold>\<open>The disk.\<close> \<open>Via6522\<close> (\<^verbatim>\<open>via6522.c\<close>) has the registers, timers and interrupt flags of the VIA. \<open>D64_Image\<close>
  (\<^verbatim>\<open>src/src/c64/tools/d64/d64.c\<close>) has the whole D64 library; memory allocation, which may fail, is a parameter
  of the operations that allocate. \<open>D64_Layout\<close>, \<open>D64_Bam\<close>, \<open>D64_Files\<close> and \<open>D64_Errors\<close> show the geometry, the
  block availability map, the round trip of files and the rollback of failed calls, \<open>D64_Directory\<close> that the
  directory of any image, however damaged, is read in at most one visit of each sector. \<open>C1541_Gcr\<close>
  (\<^verbatim>\<open>c1541_gcr.c\<close>) has the group code and its framing.

  \<^bold>\<open>The 1541 drive\<close> (\<^verbatim>\<open>c1541.c\<close>, \<^verbatim>\<open>c1541_media.c\<close>, \<^verbatim>\<open>src/src/c64/tools/g64/g64.c\<close> and the parts of \<^verbatim>\<open>c64.c\<close> that the
  drives use). \<open>G64_Image\<close> has the parser of G64 images. \<open>C64_Iec\<close> has the drive slots and the lines of the
  IEC bus as the record \<open>c64_host\<close>. \<open>C1541_Tracks\<close> has the record \<open>c1541_media\<close> and the operations on tracks,
  \<open>C1541_Media\<close> the record \<open>c1541_board\<close>, the head with its shift registers, motor, stepper, write gate and the
  cycle step of the medium, \<open>C1541_Drive\<close> the bus callbacks, the write jobs, the lifecycle and the cycle step of
  the drive, which is a \<open>C6510\<close> whose \<open>user\<close> is the board. \<open>C1541_Bus\<close> interprets \<open>stack_memory\<close> on the drive's bus
  and shows that calls and interrupts return, that the monitor sees what the processor sees, and that the
  IEC lines read alike on both sides. \<open>C1541_Layout\<close> shows that built tracks hold every sector where the
  code looks for it and that rewriting a sector equals rebuilding, \<open>C1541_Head\<close> that the head delivers
  sectors of the mounted image unchanged. \<open>C1541_Medium_Ok\<close> and \<open>C1541_Cycle_Ok\<close> give the counters, positions
  and indices of the medium their ranges and show that its operations keep them; \<open>C1541_Reachable\<close> has the events in the life of a drive as a step
  relation and, with \<open>guarded_bus\<close>, that every reachable drive is in range. \<open>C1541_Disk_Safe\<close> shows which disks
  a drive can change, \<open>C1541_Motor\<close> that the motor comes up to speed. The only unbounded loop, that of the bit clock, terminates
  because the accumulator decreases; the scans of a track run once around it.

  \<^bold>\<open>The CIA\<close> (\<^verbatim>\<open>cia.c\<close>, \<^verbatim>\<open>keyboard.c\<close>). \<open>C64_Keyboard\<close> has the key table and the scans of the matrix. \<open>Cia6526\<close> has
  the record \<open>cia\<close> with its registers, timers, serial register, clock and interrupt flags, every access to the
  registers and the cycle step; the callback for the port inputs belongs to its owner and is a field. \<open>Cia_Clock\<close>
  shows that the fast path of the cycle step agrees with the long one, that the clock holds valid times after
  any sequence of operations and keeps time, and that the alarm raises its interrupt flag. The loop over the
  ticks that are due ends because each takes a positive number of cycles off the accumulator.

  \<^bold>\<open>The C64 bus\<close> (\<^verbatim>\<open>c64_bus.c\<close>). \<open>C64_Bus\<close> has the record \<open>c64_bus_t\<close> with RAM, ROMs, processor port, the two CIAs and
  the cartridge port with its seven mappers; the video chip, the sound chip and the SwiftLink interface are
  values of type parameters, reached through the functions in the record \<open>c64_chips\<close>. \<open>C64_Banks\<close> has the buses that
  any sequence of operations leads to (\<open>bus_reachable\<close>) and shows that a cartridge window always holds the
  latched bank of its storage, that reading follows the memory map \<open>memory_area\<close> and writing reaches the RAM
  under the ROMs; it interprets \<open>stack_memory\<close> on this bus too.

  \<^bold>\<open>Conventions.\<close> Machine integers are words of their width, the C \<^verbatim>\<open>int\<close> is \<open>int\<close> or \<open>nat\<close> where its range is
  evident. A pointer to a buffer is the list of its bytes. Errors are the constructors of the result types
  of the code. \<open>Machine_Prelude\<close> has the words, their lemmas and the shared collections.

  \<^bold>\<open>Not modelled.\<close> The video and sound chips, and the machine that steps all parts together; the
  Apple II machine; file and socket I/O, the front ends, the assembler and the third-party libraries.
\<close>

end
